(* ===== verification/Preludio.thy ===== *)
theory Preludio
  imports Main "HOL-Library.List_Lexorder" "HOL-Library.Char_ord" "HOL-Library.Product_Lexorder"
begin

text \<open>
  Shared vocabulary of the development: the fact collections, Python strings (as lists of
  bytes, with the ASCII part of \<^verbatim>\<open>str.strip\<close> and \<^verbatim>\<open>str.lower\<close>), decimal printing of integers, the
  exceptions of the modelled code as values, and the reachability predicate and the
  invariant contract that every state machine of the development uses.
\<close>

named_theorems guiones \<open>definitions of the modelled scripts, unfolded together\<close>
named_theorems preserva \<open>preservation of a component's invariant by one operation\<close>

subsection \<open>Exceptions as values\<close>

text \<open>
  Every Python exception of the modelled code is a value: a failure of the Redis connection,
  a Lua error inside a script (\<^verbatim>\<open>cjson.decode\<close> on corrupt text), a \<^verbatim>\<open>RuntimeError\<close>, a
  \<^verbatim>\<open>ValueError\<close> or \<^verbatim>\<open>KeyError\<close>, a network failure of the HTTP client, the \<^verbatim>\<open>ValidationError\<close> of
  Pydantic (the location and message of each error), the service's own \<^verbatim>\<open>SfcIntegrationException\<close> and the \<^verbatim>\<open>HTTPException\<close> of the routes (status and error code).
\<close>

record error_sfc =
  status_code :: int
  error_type :: string
  sfc_field :: "string option"
  raw_message :: string
  crm_action :: string

datatype excepcion =
    ErrorRedis
  | ErrorLua
  | SfcIntegrationException error_sfc
  | HTTPException int string
  | RuntimeError string
  | ValueError string
  | KeyError string
  | TypeError string
  | ErrorRed string
  | ErrorValidacion "(string list \<times> string) list"

type_synonym 'a resultado = "excepcion + 'a"

definition es_error :: "'a resultado \<Rightarrow> bool" where
  "es_error x = (case x of Inl _ \<Rightarrow> True | Inr _ \<Rightarrow> False)"

lemma es_error_simps [simp]: "es_error (Inl e)" "\<not> es_error (Inr v)"
  by (simp_all add: es_error_def)

subsection \<open>Python strings\<close>

definition es_espacio :: "char \<Rightarrow> bool" where
  "es_espacio c = (let n = of_char c :: nat in (9 \<le> n \<and> n \<le> 13) \<or> (28 \<le> n \<and> n \<le> 32))"

definition strip :: "string \<Rightarrow> string" where
  "strip s = rev (dropWhile es_espacio (rev (dropWhile es_espacio s)))"

definition minuscula :: "char \<Rightarrow> char" where
  "minuscula c = (let n = of_char c :: nat in if 65 \<le> n \<and> n \<le> 90 then char_of (n + 32) else c)"

definition lower :: "string \<Rightarrow> string" where
  "lower s = map minuscula s"

text \<open>\<^verbatim>\<open>pat in s\<close>: some suffix of \<open>s\<close> starts with \<open>pat\<close>.\<close>

fun empieza :: "string \<Rightarrow> string \<Rightarrow> bool" where
  "empieza [] s = True"
| "empieza (p # ps) [] = False"
| "empieza (p # ps) (c # cs) = (p = c \<and> empieza ps cs)"

fun contiene :: "string \<Rightarrow> string \<Rightarrow> bool" where
  "contiene pat [] = (pat = [])"
| "contiene pat (c # cs) = (empieza pat (c # cs) \<or> contiene pat cs)"

lemma empieza_iff: "empieza p s \<longleftrightarrow> (\<exists>t. s = p @ t)"
  by (induction p s rule: empieza.induct) auto

lemma contiene_iff: "contiene p s \<longleftrightarrow> (\<exists>a b. s = a @ p @ b)"
proof (induction s)
  case Nil
  then show ?case by auto
next
  case (Cons c cs)
  have "(\<exists>a b. c # cs = a @ p @ b) \<longleftrightarrow> (\<exists>b. c # cs = p @ b) \<or> (\<exists>a b. cs = a @ p @ b)"
    (is "?L \<longleftrightarrow> ?R")
  proof
    assume ?L
    then obtain a b where "c # cs = a @ p @ b" by blast
    then show ?R by (cases a) auto
  next
    assume ?R
    then show ?L
    proof
      assume "\<exists>b. c # cs = p @ b"
      then show ?L by (metis append_Nil)
    next
      assume "\<exists>a b. cs = a @ p @ b"
      then show ?L by (metis append_Cons)
    qed
  qed
  with Cons.IH show ?case by (simp add: empieza_iff)
qed

lemma strip_Nil [simp]: "strip [] = []"
  by (simp add: strip_def)

lemma lower_Nil [simp]: "lower [] = []"
  by (simp add: lower_def)

lemma lower_append: "lower (s @ t) = lower s @ lower t"
  by (simp add: lower_def)

lemma length_lower [simp]: "length (lower s) = length s"
  by (simp add: lower_def)

lemma minuscula_idem [simp]: "minuscula (minuscula c) = minuscula c"
  by (auto simp: minuscula_def Let_def of_char_of)

lemma lower_lower [simp]: "lower (lower s) = lower s"
  by (simp add: lower_def)

lemma set_strip: "set (strip s) \<subseteq> set s"
  unfolding strip_def by (auto dest!: set_dropWhileD)

lemma hd_dropWhile_no_espacio: "dropWhile P s \<noteq> [] \<Longrightarrow> \<not> P (hd (dropWhile P s))"
  by (rule hd_dropWhile)

text \<open>Decimal printing (\<^verbatim>\<open>str(n)\<close>): Redis members are the decimal renderings of the item ids.\<close>

fun str_nat :: "nat \<Rightarrow> string" where
  "str_nat n = (if n < 10 then [char_of (48 + n)] else str_nat (n div 10) @ [char_of (48 + n mod 10)])"

declare str_nat.simps [simp del]

fun valor_digitos :: "nat \<Rightarrow> string \<Rightarrow> nat" where
  "valor_digitos acc [] = acc"
| "valor_digitos acc (c # cs) = valor_digitos (10 * acc + (of_char c - 48)) cs"

lemma valor_digitos_append: "valor_digitos a (s @ t) = valor_digitos (valor_digitos a s) t"
  by (induction s arbitrary: a) auto

lemma valor_digitos_str_nat: "valor_digitos 0 (str_nat n) = n"
proof (induction n rule: str_nat.induct)
  case (1 n)
  show ?case
  proof (cases "n < 10")
    case True
    then show ?thesis by (simp add: str_nat.simps [of n])
  next
    case False
    with 1 have "valor_digitos 0 (str_nat (n div 10)) = n div 10" by simp
    with False show ?thesis
      by (simp add: str_nat.simps [of n] valor_digitos_append)
  qed
qed

lemma str_nat_inj [simp]: "str_nat a = str_nat b \<longleftrightarrow> a = b"
  by (metis valor_digitos_str_nat)

text \<open>The accented vowels of the texts in Spanish, in UTF-8.\<close>

definition con_tilde :: "char \<Rightarrow> string" where
  "con_tilde c =
     [char_of (195::nat), char_of (if c = CHR ''a'' then 161 else if c = CHR ''e'' then 169
        else if c = CHR ''i'' then 173 else if c = CHR ''o'' then 179 else 186 :: nat)]"

definition apostrofo :: string where
  "apostrofo = [char_of (39::nat)]"

subsection \<open>Splitting a key at a separator\<close>

lemma append_sep_inj:
  assumes "a @ x # b = a' @ x # b'" "x \<notin> set b" "x \<notin> set b'"
  shows "a = a' \<and> b = b'"
proof -
  have "rev b @ x # rev a = rev b' @ x # rev a'"
    using arg_cong [OF assms(1), of rev] by simp
  moreover have "takeWhile (\<lambda>c. c \<noteq> x) (rev b @ x # rev a) = rev b"
    using assms(2) by (subst takeWhile_append2) auto
  moreover have "takeWhile (\<lambda>c. c \<noteq> x) (rev b' @ x # rev a') = rev b'"
    using assms(3) by (subst takeWhile_append2) auto
  ultimately have "b = b'" by (metis rev_rev_ident)
  with assms(1) show ?thesis by simp
qed

subsection \<open>Reachable states and the invariant contract\<close>

inductive alcanzable :: "('s \<Rightarrow> bool) \<Rightarrow> ('s \<Rightarrow> 's \<Rightarrow> bool) \<Rightarrow> 's \<Rightarrow> bool"
  for ini :: "'s \<Rightarrow> bool" and paso :: "'s \<Rightarrow> 's \<Rightarrow> bool" where
  alc_inicio: "ini s \<Longrightarrow> alcanzable ini paso s"
| alc_paso: "alcanzable ini paso s \<Longrightarrow> paso s t \<Longrightarrow> alcanzable ini paso t"

locale maquina =
  fixes ini :: "'s \<Rightarrow> bool" and paso :: "'s \<Rightarrow> 's \<Rightarrow> bool" and inv :: "'s \<Rightarrow> bool"
  assumes inv_ini: "ini s \<Longrightarrow> inv s"
    and inv_paso: "inv s \<Longrightarrow> paso s t \<Longrightarrow> inv t"
begin

lemma inv_alcanzable: "alcanzable ini paso s \<Longrightarrow> inv s"
  by (induction rule: alcanzable.induct) (auto intro: inv_ini inv_paso)

lemma inv_estrella: "paso\<^sup>*\<^sup>* s t \<Longrightarrow> inv s \<Longrightarrow> inv t"
  by (induction rule: rtranclp_induct) (auto intro: inv_paso)

end

end
