(* ===== verification/Clasificacion.thy ===== *)
theory Clasificacion
  imports Preludio
begin

text \<open>
  The complaint payload as the services see it (a JSON object, the result of
  \<^verbatim>\<open>model_dump(by_alias=True, mode="json")\<close>), the state names of \<^verbatim>\<open>app/core/constants.py\<close>, the
  closing test of \<^verbatim>\<open>app/core/clasificacion_operacion.py\<close> and the three pure functions of
  \<^verbatim>\<open>IdempotencyService\<close> that identify an operation: the canonical payload hash, the
  regulatory category and the idempotency key. SHA-256 is a parameter \<open>sha\<close> of the
  definitions; the serialisation in front of it is modelled in full.
\<close>

subsection \<open>JSON values\<close>

datatype json =
    JNull
  | JBool bool
  | JInt int
  | JFloat string
  | JStr string
  | JArr "json list"
  | JObj "(string \<times> json) list"

type_synonym dict = "(string \<times> json) list"

definition obtener :: "dict \<Rightarrow> string \<Rightarrow> json" where
  "obtener d k = (case map_of d k of None \<Rightarrow> JNull | Some v \<Rightarrow> v)"

definition presente :: "dict \<Rightarrow> string \<Rightarrow> bool" where
  "presente d k = (obtener d k \<noteq> JNull)"

text \<open>An \<^verbatim>\<open>Optional[str]\<close> field of the schema, read as the code reads it.\<close>

definition texto_opcional :: "json \<Rightarrow> string option" where
  "texto_opcional v = (case v of JStr s \<Rightarrow> Some s | _ \<Rightarrow> None)"

definition texto_o_vacio :: "string option \<Rightarrow> string" where
  "texto_o_vacio t = (case t of None \<Rightarrow> [] | Some s \<Rightarrow> s)"

subsection \<open>State names\<close>

datatype smart_status =
    CREATED | FILE_DOWNLOAD_OK | FILE_DOWNLOAD_ERROR | REPORT_ACK_OK | REPORT_ACK_ERROR
  | SEND_TO_SMART_OK | SEND_TO_SMART_ERROR
  | SEND_UPDATE_SMART_OK | SEND_UPDATE_SMART_ERROR
  | FINAL_DOCUMENT_UPLOAD_OK | FINAL_DOCUMENT_UPLOAD_ERROR
  | PENDING | PROCESSING | SFC_DONE | COMPLETED | FAILED_FINAL

fun valor_status :: "smart_status \<Rightarrow> string" where
  "valor_status CREATED = ''Created''"
| "valor_status FILE_DOWNLOAD_OK = ''FileDownload-OK''"
| "valor_status FILE_DOWNLOAD_ERROR = ''FileDownload-ERROR''"
| "valor_status REPORT_ACK_OK = ''reportACK-OK''"
| "valor_status REPORT_ACK_ERROR = ''reportACK-ERROR''"
| "valor_status SEND_TO_SMART_OK = ''sendToSmart-OK''"
| "valor_status SEND_TO_SMART_ERROR = ''sendToSmart-Error''"
| "valor_status SEND_UPDATE_SMART_OK = ''SendUpdateSmart-OK''"
| "valor_status SEND_UPDATE_SMART_ERROR = ''SendUpdateSmart-Error''"
| "valor_status FINAL_DOCUMENT_UPLOAD_OK = ''FinalDocumentUpload-OK''"
| "valor_status FINAL_DOCUMENT_UPLOAD_ERROR = ''FinalDocumentUpload-Error''"
| "valor_status PENDING = ''PENDIENTE''"
| "valor_status PROCESSING = ''PROCESSING''"
| "valor_status SFC_DONE = ''SFC_DONE''"
| "valor_status COMPLETED = ''EXITOSO''"
| "valor_status FAILED_FINAL = ''FALLIDO_DEFINITIVO''"

lemma valor_status_inj: "valor_status a = valor_status b \<longleftrightarrow> a = b"
  by (cases a; cases b) simp_all

subsection \<open>Closing test and regulatory category\<close>

definition es_estado_cierre :: "string option \<Rightarrow> json \<Rightarrow> json \<Rightarrow> json \<Rightarrow> bool" where
  "es_estado_cierre status closed_date favorabilidad aceptacion =
     (let status_clean = lower (strip (texto_o_vacio status))
      in status_clean = ''closed'' \<or> status_clean = ''cerrado''
       \<or> closed_date \<noteq> JNull \<or> favorabilidad \<noteq> JNull \<or> aceptacion \<noteq> JNull)"

definition es_cierre_de :: "dict \<Rightarrow> bool" where
  "es_cierre_de d =
     es_estado_cierre (texto_opcional (obtener d ''Status'')) (obtener d ''ClosedDate'')
       (obtener d ''Favorabilidad__c'') (obtener d ''Aceptacion__c'')"

definition es_fraude_de :: "dict \<Rightarrow> bool" where
  "es_fraude_de d = (presente d ''tipo_fraude__c'' \<or> presente d ''modalidad_fraude__c'')"

definition tiene_campos_m3_de :: "dict \<Rightarrow> bool" where
  "tiene_campos_m3_de d =
     (presente d ''sc_genero__c'' \<or> presente d ''sc_LGBTIQ__c''
      \<or> presente d ''sc_Condicion_especial__c'' \<or> presente d ''producto_digital__c''
      \<or> \<not> (obtener d ''admision_col__c'' = JNull \<or> obtener d ''admision_col__c'' = JStr ''No Aplica''))"

definition status_nuevo :: "dict \<Rightarrow> bool" where
  "status_nuevo d =
     (let status_clean = lower (strip (texto_o_vacio (texto_opcional (obtener d ''Status''))))
      in status_clean = ''new'' \<or> status_clean = ''nuevo'')"

definition infer_operation_type :: "dict \<Rightarrow> string" where
  "infer_operation_type d =
     (let es_cierre = es_cierre_de d; es_fraude = es_fraude_de d;
          es_m2_puro = status_nuevo d \<and> \<not> tiene_campos_m3_de d \<and> \<not> es_fraude \<and> \<not> es_cierre
      in if es_m2_puro then ''M2_CREATION''
         else if es_cierre \<and> es_fraude then ''M3_FRAUD_AND_CLOSE''
         else if es_fraude then ''M3_FRAUD''
         else if es_cierre then ''M3_CLOSE''
         else ''M3_UPDATE'')"

definition operaciones :: "string list" where
  "operaciones = [''M2_CREATION'', ''M3_FRAUD_AND_CLOSE'', ''M3_FRAUD'', ''M3_CLOSE'', ''M3_UPDATE'']"

lemma infer_en_operaciones: "infer_operation_type d \<in> set operaciones"
  by (simp add: infer_operation_type_def operaciones_def Let_def)

lemma operaciones_sin_separador: "op \<in> set operaciones \<Longrightarrow> CHR '':'' \<notin> set op"
  by (auto simp: operaciones_def)

lemmas infer_sin_separador [simp] = operaciones_sin_separador [OF infer_en_operaciones]

lemma infer_no_vacia [simp]: "infer_operation_type d \<noteq> []"
  using infer_en_operaciones [of d] by (auto simp: operaciones_def)

subsection \<open>Serialisation and payload hash\<close>

fun digito_hex :: "nat \<Rightarrow> char" where
  "digito_hex n = (if n < 10 then char_of (48 + n) else char_of (87 + n))"

definition escapa :: "char \<Rightarrow> string" where
  "escapa c =
     (let n = of_char c :: nat in
      if n = 34 then [char_of (92::nat), char_of (34::nat)]
      else if n = 92 then [char_of (92::nat), char_of (92::nat)]
      else if n = 10 then char_of (92::nat) # ''n''
      else if n = 13 then char_of (92::nat) # ''r''
      else if n = 9 then char_of (92::nat) # ''t''
      else if n = 8 then char_of (92::nat) # ''b''
      else if n = 12 then char_of (92::nat) # ''f''
      else if n < 32 then char_of (92::nat) # ''u00'' @ [digito_hex (n div 16), digito_hex (n mod 16)]
      else [c])"

definition comillas :: "string \<Rightarrow> string" where
  "comillas s = char_of (34::nat) # concat (map escapa s) @ [char_of (34::nat)]"

fun une :: "string \<Rightarrow> string list \<Rightarrow> string" where
  "une sep [] = []"
| "une sep [x] = x"
| "une sep (x # y # zs) = x @ sep @ une sep (y # zs)"

definition str_int :: "int \<Rightarrow> string" where
  "str_int i = (if i < 0 then CHR ''-'' # str_nat (nat (- i)) else str_nat (nat i))"

primrec ordena_llaves :: "json \<Rightarrow> json" where
  "ordena_llaves JNull = JNull"
| "ordena_llaves (JBool b) = JBool b"
| "ordena_llaves (JInt i) = JInt i"
| "ordena_llaves (JFloat s) = JFloat s"
| "ordena_llaves (JStr s) = JStr s"
| "ordena_llaves (JArr xs) = JArr (map ordena_llaves xs)"
| "ordena_llaves (JObj kvs) = JObj (sort_key fst (map (map_prod id ordena_llaves) kvs))"

primrec dumps :: "json \<Rightarrow> string" where
  "dumps JNull = ''null''"
| "dumps (JBool b) = (if b then ''true'' else ''false'')"
| "dumps (JInt i) = str_int i"
| "dumps (JFloat s) = s"
| "dumps (JStr s) = comillas s"
| "dumps (JArr xs) = ''['' @ une '', '' (map dumps xs) @ '']''"
| "dumps (JObj kvs) =
     ''{'' @ une '', '' (map (\<lambda>(k, t). comillas k @ '': '' @ t) (map (map_prod id dumps) kvs)) @ ''}''"

definition campos_excluidos_del_hash :: "string set" where
  "campos_excluidos_del_hash = {''CreatedDate'', ''ClosedDate''}"

definition canonico :: "dict \<Rightarrow> dict" where
  "canonico d = filter (\<lambda>(k, _). k \<notin> campos_excluidos_del_hash) d"

definition compute_payload_hash :: "(string \<Rightarrow> string) \<Rightarrow> dict \<Rightarrow> string" where
  "compute_payload_hash sha d = sha (dumps (ordena_llaves (JObj (canonico d))))"

subsection \<open>Idempotency key\<close>

definition idempotency_prefix :: string where
  "idempotency_prefix = ''{sfc:idempotency}''"

definition get_idempotency_key :: "string \<Rightarrow> string \<Rightarrow> string \<Rightarrow> string" where
  "get_idempotency_key smart_code operation payload_hash =
     idempotency_prefix @ '':'' @ smart_code @ '':'' @ operation @ '':'' @ payload_hash"

definition construir_clave_completado ::
    "(string \<Rightarrow> string) \<Rightarrow> string \<Rightarrow> dict \<Rightarrow> string option \<Rightarrow> string" where
  "construir_clave_completado sha smart_code d hash_override =
     (let operation = infer_operation_type d;
          payload_hash = (case hash_override of None \<Rightarrow> compute_payload_hash sha d
                          | Some h \<Rightarrow> if h = [] then compute_payload_hash sha d else h)
      in get_idempotency_key smart_code operation payload_hash)"

subsection \<open>Facts about the hash and the key\<close>

lemma distinct_canonico: "distinct (map fst d) \<Longrightarrow> distinct (map fst (canonico d))"
  by (simp add: canonico_def distinct_map_filter)

lemma set_canonico:
  "distinct (map fst d) \<Longrightarrow>
   set (canonico d) = {(k, v). k \<notin> campos_excluidos_del_hash \<and> map_of d k = Some v}"
  by (auto simp: canonico_def)

text \<open>A list with distinct keys is determined, once sorted by key, by the set of its pairs.\<close>

lemma sort_key_fst_unica:
  assumes "distinct (map fst xs)" "distinct (map fst ys)" "set xs = set ys"
  shows "sort_key fst xs = sort_key fst ys"
proof (rule map_sorted_distinct_set_unique)
  show "inj_on fst (set (sort_key fst xs) \<union> set (sort_key fst ys))"
    using assms by (simp add: distinct_map)
  show "sorted (map fst (sort_key fst xs))" "sorted (map fst (sort_key fst ys))"
    by (rule sorted_sort_key)+
  show "distinct (map fst (sort_key fst xs))"
    using assms(1) by (metis (no_types) distinct_map distinct_sort set_sort)
  show "distinct (map fst (sort_key fst ys))"
    using assms(2) by (metis (no_types) distinct_map distinct_sort set_sort)
  show "set (sort_key fst xs) = set (sort_key fst ys)"
    using assms(3) by simp
qed

lemma hash_solo_contenido:
  assumes "distinct (map fst d)" "distinct (map fst d')"
    and "\<And>k. k \<notin> campos_excluidos_del_hash \<Longrightarrow> map_of d k = map_of d' k"
  shows "compute_payload_hash sha d = compute_payload_hash sha d'"
proof -
  let ?f = "map (map_prod id ordena_llaves)"
  have s: "set (canonico d) = set (canonico d')"
    unfolding set_canonico [OF assms(1)] set_canonico [OF assms(2)] using assms(3) by auto
  have c: "map fst (?f xs) = map fst xs" for xs :: dict
    by (induction xs) auto
  have "sort_key fst (?f (canonico d)) = sort_key fst (?f (canonico d'))"
    by (rule sort_key_fst_unica)
      (simp_all only: c set_map s distinct_canonico [OF assms(1)] distinct_canonico [OF assms(2)])
  then show ?thesis by (simp add: compute_payload_hash_def)
qed

lemma clave_idempotencia_inj:
  assumes "get_idempotency_key s op h = get_idempotency_key s' op' h'"
    and "CHR '':'' \<notin> set op" "CHR '':'' \<notin> set op'" "CHR '':'' \<notin> set h" "CHR '':'' \<notin> set h'"
  shows "s = s' \<and> op = op' \<and> h = h'"
proof -
  from assms(1) have "(s @ CHR '':'' # op) @ CHR '':'' # h = (s' @ CHR '':'' # op') @ CHR '':'' # h'"
    by (simp add: get_idempotency_key_def)
  from append_sep_inj [OF this assms(4,5)]
  have "s @ CHR '':'' # op = s' @ CHR '':'' # op'" and "h = h'" by auto
  with append_sep_inj [OF this(1) assms(2,3)] show ?thesis by simp
qed

end
