(* ===== verification/Almacen.thy ===== *)
theory Almacen
  imports Clasificacion
begin

text \<open>
  The Redis database as the service uses it. Every family of keys is a field of the record
  \<open>redis\<close>: the queue items (\<^verbatim>\<open>{sfc:queue}:item:<id>\<close>), the slot index (\<^verbatim>\<open>{sfc:queue}:index:...\<close>,
  keyed by its full text), the state sets (\<^verbatim>\<open>{sfc:queue}:status:<estado>\<close>), the two sorted sets,
  the counter, the claims (\<^verbatim>\<open>{sfc:queue}:claim:<id>\<close>), the idempotency records, the file
  checkpoints, the locks, the shared tokens of the SFC (\<^verbatim>\<open>{sfc:auth}:tokens\<close>) and the counters of the rate limit
  (\<^verbatim>\<open>{sfc:ratelimit}:...\<close>, with an expiry only after \<^verbatim>\<open>EXPIRE\<close>). Values that the code decodes as JSON may be corrupt text. Keys
  with a TTL carry their expiry instant; \<open>reloj\<close> is the time in milliseconds, shared by Redis
  and by the processes (\<^verbatim>\<open>datetime.now\<close>). Item ids are the numbers behind the decimal strings
  that Redis stores (\<open>str_nat\<close> is injective).
\<close>

subsection \<open>Keys with an expiry\<close>

type_synonym ('k, 'v) vence = "'k \<Rightarrow> ('v \<times> int) option"

definition tget :: "int \<Rightarrow> ('k, 'v) vence \<Rightarrow> 'k \<Rightarrow> 'v option" where
  "tget ahora m k = (case m k of None \<Rightarrow> None | Some (v, e) \<Rightarrow> if ahora < e then Some v else None)"

definition tset :: "int \<Rightarrow> int \<Rightarrow> ('k, 'v) vence \<Rightarrow> 'k \<Rightarrow> 'v \<Rightarrow> ('k, 'v) vence" where
  "tset ahora px m k v = m(k := Some (v, ahora + px))"

definition tdel :: "('k, 'v) vence \<Rightarrow> 'k \<Rightarrow> ('k, 'v) vence" where
  "tdel m k = m(k := None)"

definition texpire :: "int \<Rightarrow> int \<Rightarrow> ('k, 'v) vence \<Rightarrow> 'k \<Rightarrow> ('k, 'v) vence" where
  "texpire ahora px m k =
     (case tget ahora m k of None \<Rightarrow> m | Some v \<Rightarrow> m(k := Some (v, ahora + px)))"

lemma tget_vacio [simp]: "tget t (\<lambda>_. None) k = None"
  by (simp add: tget_def)

lemma tget_tset [simp]:
  "tget t (tset ahora px m k v) k' = (if k' = k then (if t < ahora + px then Some v else None) else tget t m k')"
  by (simp add: tget_def tset_def)

lemma tget_tdel [simp]: "tget t (tdel m k) k' = (if k' = k then None else tget t m k')"
  by (simp add: tget_def tdel_def)

lemma tget_texpire:
  "0 < px \<Longrightarrow> tget ahora (texpire ahora px m k) k' = tget ahora m k'"
  by (auto simp: texpire_def tget_def split: option.splits)

lemma tget_texpire_otro: "k' \<noteq> k \<Longrightarrow> tget t (texpire ahora px m k) k' = tget t m k'"
  by (auto simp: texpire_def tget_def split: option.splits)

text \<open>Time only makes keys disappear.\<close>

lemma tget_despues: "t \<le> t' \<Longrightarrow> tget t' m k = Some v \<Longrightarrow> tget t m k = Some v"
  by (auto simp: tget_def split: option.splits if_splits)

subsection \<open>Sorted sets\<close>

type_synonym zset = "(nat \<times> int) list"

definition zrem :: "nat \<Rightarrow> zset \<Rightarrow> zset" where
  "zrem m z = filter (\<lambda>p. fst p \<noteq> m) z"

definition zadd :: "nat \<Rightarrow> int \<Rightarrow> zset \<Rightarrow> zset" where
  "zadd m s z = (m, s) # zrem m z"

text \<open>
  \<^verbatim>\<open>ZRANGEBYSCORE key -inf hi\<close>: members in the order of their scores, ties in the lexicographic
  order of the member strings.
\<close>

definition zrangebyscore :: "zset \<Rightarrow> int \<Rightarrow> nat list" where
  "zrangebyscore z hi = map fst (sort_key (\<lambda>(m, s). (s, str_nat m)) (filter (\<lambda>(m, s). s \<le> hi) z))"

definition zrange_todo :: "zset \<Rightarrow> (nat \<times> int) list" where
  "zrange_todo z = sort_key (\<lambda>(m, s). (s, str_nat m)) z"

lemma map_of_zrem [simp]: "map_of (zrem m z) k = (if k = m then None else map_of z k)"
  by (induction z) (auto simp: zrem_def)

lemma map_of_zadd [simp]: "map_of (zadd m s z) k = (if k = m then Some s else map_of z k)"
  by (simp add: zadd_def)

lemma fst_set_zrem [simp]: "fst ` set (zrem m z) = fst ` set z - {m}"
  by (auto simp: zrem_def)

lemma fst_set_zadd [simp]: "fst ` set (zadd m s z) = insert m (fst ` set z)"
  by (auto simp: zadd_def)

lemma distinct_zrem: "distinct (map fst z) \<Longrightarrow> distinct (map fst (zrem m z))"
  by (simp add: zrem_def distinct_map_filter)

lemma distinct_zadd: "distinct (map fst z) \<Longrightarrow> distinct (map fst (zadd m s z))"
  by (simp add: zadd_def distinct_zrem)

lemma set_zrangebyscore: "set (zrangebyscore z hi) = {m. \<exists>s \<le> hi. (m, s) \<in> set z}"
  by (auto simp: zrangebyscore_def image_iff)

lemma distinct_zrangebyscore:
  assumes "distinct (map fst z)"
  shows "distinct (zrangebyscore z hi)"
proof -
  have "distinct (map fst (filter (\<lambda>(m, s). s \<le> hi) z))"
    using assms by (rule distinct_map_filter)
  then show ?thesis
    unfolding zrangebyscore_def by (simp add: distinct_map)
qed

text \<open>The range comes back in the order of the scores.\<close>

lemma zrangebyscore_ordenado:
  assumes "distinct (map fst z)"
  shows "sorted (map (\<lambda>m. the (map_of z m)) (zrangebyscore z hi))"
proof -
  let ?k = "\<lambda>(m, s). (s :: int, str_nat m)"
  let ?l = "sort_key ?k (filter (\<lambda>(m, s). s \<le> hi) z)"
  have "sorted (map ?k ?l)" by (rule sorted_sort_key)
  then have "sorted (map fst (map ?k ?l))"
    by (simp add: sorted_map sorted_wrt_map case_prod_beta)
      (auto elim!: sorted_wrt_mono_rel [rotated] simp: less_eq_prod_def)
  then have "sorted (map snd ?l)"
    by (simp add: comp_def case_prod_beta)
  moreover have "map (\<lambda>m. the (map_of z m)) (map fst ?l) = map snd ?l"
    unfolding map_map by (rule map_cong) (auto simp: assms)
  ultimately show ?thesis unfolding zrangebyscore_def by (simp only:)
qed

subsection \<open>The queue items and the idempotency records\<close>

text \<open>
  The JSON object of a queue item. Fields that items written by earlier versions of the
  service may lack are options. \<open>it_payload\<close> and \<open>it_sfc_response\<close> are the contents of the
  opaque JSON strings of the item; the instants are the ISO strings of the code, in ms.
\<close>

record item =
  it_id :: nat
  it_smart_code :: string
  it_tipo_operacion :: string
  it_payload :: dict
  it_payload_hash :: "string option"
  it_operacion :: "string option"
  it_estado :: smart_status
  it_sfc_completado :: bool
  it_sfc_response :: "json option"
  it_intentos :: "nat option"
  it_max_intentos :: "nat option"
  it_ultimo_error :: "string option"
  it_proximo_reintento_at :: "int option"
  it_created_at :: "int option"
  it_updated_at :: "int option"
  it_correlation_id :: "string option"
  it_es_duplicado :: bool
  it_version :: "nat option"

datatype 'a crudo = Corrupto | Valido 'a

definition version_o_1 :: "item \<Rightarrow> nat" where
  "version_o_1 it = (case it_version it of None \<Rightarrow> 1 | Some v \<Rightarrow> v)"

definition intentos_o_0 :: "item \<Rightarrow> nat" where
  "intentos_o_0 it = (case it_intentos it of None \<Rightarrow> 0 | Some n \<Rightarrow> n)"

datatype estado_idem = IProcessing | ICompleted | IQueued

record registro_idem =
  ri_smart_code :: string
  ri_operation :: string
  ri_payload_hash :: string
  ri_status :: estado_idem
  ri_sfc_response :: json
  ri_queue_item_id :: "nat option"

text \<open>The tokens of the SFC, in the memory of a process (the attributes of \<^verbatim>\<open>SfcAuthManager\<close>) and in their shared record. A
token is whatever the answer of the SFC had; the expiries are instants in ms.\<close>

record tokens =
  access_token :: json
  refresh_token :: json
  access_exp :: "int option"
  refresh_exp :: "int option"

definition sin_tokens :: tokens where
  "sin_tokens = \<lparr>access_token = JNull, refresh_token = JNull, access_exp = None, refresh_exp = None\<rparr>"

text \<open>The shared record of the tokens, as it is in Redis: the expiries are texts in the ISO format, and \<open>FechaMala\<close> is one that
\<^verbatim>\<open>datetime.fromisoformat\<close> refuses.\<close>

datatype fecha_iso = SinFecha | Fecha int | FechaMala

record registro_tokens =
  rt_access :: json
  rt_refresh :: json
  rt_access_exp :: fecha_iso
  rt_refresh_exp :: fecha_iso

record redis =
  reloj :: int
  r_item :: "nat \<Rightarrow> item crudo option"
  r_indice :: "string \<Rightarrow> nat option"
  r_estado :: "smart_status \<Rightarrow> nat set"
  r_zpend :: zset
  r_zcreado :: zset
  r_contador :: nat
  r_claim :: "(nat, string) vence"
  r_idem :: "(string, registro_idem crudo) vence"
  r_checkpoint :: "(string, string set) vence"
  r_lock :: "(string, string) vence"
  r_token :: "(string, registro_tokens crudo) vence"
  r_cuota :: "string \<Rightarrow> (nat \<times> int option) option"

definition redis_vacio :: redis where
  "redis_vacio =
     \<lparr>reloj = 0, r_item = (\<lambda>_. None), r_indice = (\<lambda>_. None), r_estado = (\<lambda>_. {}),
      r_zpend = [], r_zcreado = [], r_contador = 0, r_claim = (\<lambda>_. None), r_idem = (\<lambda>_. None),
      r_checkpoint = (\<lambda>_. None), r_lock = (\<lambda>_. None), r_token = (\<lambda>_. None), r_cuota = (\<lambda>_. None)\<rparr>"

abbreviation pendientes :: "redis \<Rightarrow> nat set" where
  "pendientes r \<equiv> r_estado r PENDING"

abbreviation completados :: "redis \<Rightarrow> nat set" where
  "completados r \<equiv> r_estado r COMPLETED"

abbreviation fallidos :: "redis \<Rightarrow> nat set" where
  "fallidos r \<equiv> r_estado r FAILED_FINAL"

definition duenio :: "redis \<Rightarrow> nat \<Rightarrow> string option" where
  "duenio r i = tget (reloj r) (r_claim r) i"

subsection \<open>Slot keys\<close>

definition indice_prefijo :: string where
  "indice_prefijo = ''{sfc:queue}:index:''"

definition indice_key :: "string \<Rightarrow> string \<Rightarrow> string" where
  "indice_key smart_code operacion = indice_prefijo @ smart_code @ '':'' @ operacion"

definition indice_key_viejo :: "string \<Rightarrow> string" where
  "indice_key_viejo smart_code = indice_prefijo @ smart_code"

definition operacion_sufijo :: "item \<Rightarrow> string" where
  "operacion_sufijo it =
     (case it_operacion it of None \<Rightarrow> ''LEGACY'' | Some op \<Rightarrow> if op = [] then ''LEGACY'' else op)"

definition slot :: "item \<Rightarrow> string" where
  "slot it = indice_key (it_smart_code it) (operacion_sufijo it)"

lemma indice_key_inj:
  assumes "CHR '':'' \<notin> set op" "CHR '':'' \<notin> set op'"
  shows "indice_key s op = indice_key s' op' \<longleftrightarrow> s = s' \<and> op = op'"
  using append_sep_inj [of s "CHR '':''" op s' op'] assms
  by (auto simp: indice_key_def)

lemma indice_key_viejo_distinta:
  assumes "CHR '':'' \<notin> set s'"
  shows "indice_key s op \<noteq> indice_key_viejo s'"
  using assms by (auto simp: indice_key_def indice_key_viejo_def)

lemma indice_key_inj_smart:
  assumes "indice_key s op = indice_key s' op'" "CHR '':'' \<notin> set s" "CHR '':'' \<notin> set s'"
  shows "s = s' \<and> op = op'"
proof -
  have "rev op @ CHR '':'' # rev s = rev op' @ CHR '':'' # rev s'"
    using arg_cong [OF assms(1), of rev] by (simp add: indice_key_def)
  from append_sep_inj [OF this] assms(2,3) show ?thesis by simp
qed

end
