(* ===== verification/Cola_Guiones.thy ===== *)
theory Cola_Guiones
  imports Almacen
begin

text \<open>
  The Lua scripts of \<^verbatim>\<open>app/services/queue_service.py\<close>. A script runs atomically on the Redis
  state and returns its JSON reply; a \<^verbatim>\<open>cjson.decode\<close> of corrupt text aborts it with
  \<open>ErrorLua\<close>, and the writes made before the abort stay (Redis does not roll a script back),
  so every definition returns the state together with the error.
\<close>

datatype razon =
    NotOwner | ItemNotFound | VersionMismatch | NotPending | AlreadyClaimed | NotFailedFinal
  | OperacionTieneItemMasReciente | ErrorRedisReplay | RedisNoDisponible

datatype salida = Exito | Rechazo razon

datatype salida_claim = Reclamado item | NoReclamado razon

datatype salida_replay = Reencolado string nat | ReplayRechazado razon

record salida_enqueue =
  is_new :: bool
  data :: item
  pendientes_previos :: nat

type_synonym 'a guion = "redis \<Rightarrow> 'a resultado \<times> redis"

subsection \<open>ENQUEUE\<close>

record args_enqueue =
  ae_smart_code :: string
  ae_tipo_operacion :: string
  ae_payload :: dict
  ae_error_inicial :: string
  ae_max_intentos :: nat
  ae_now :: int
  ae_proximo :: int
  ae_correlation_id :: string
  ae_payload_hash :: string
  ae_operacion :: string

definition item_sobrescrito :: "args_enqueue \<Rightarrow> item \<Rightarrow> item" where
  "item_sobrescrito a it =
     it\<lparr>it_payload := ae_payload a,
        it_payload_hash := Some (ae_payload_hash a),
        it_ultimo_error := Some (ae_error_inicial a),
        it_updated_at := Some (ae_now a),
        it_proximo_reintento_at := Some (ae_proximo a),
        it_correlation_id := Some (ae_correlation_id a),
        it_es_duplicado := True,
        it_version := Some (version_o_1 it + 1),
        it_estado := PENDING,
        it_sfc_completado := False,
        it_sfc_response := None,
        it_intentos := Some 1,
        it_operacion := Some (ae_operacion a)\<rparr>"

definition item_nuevo :: "args_enqueue \<Rightarrow> nat \<Rightarrow> item" where
  "item_nuevo a i =
     \<lparr>it_id = i, it_smart_code = ae_smart_code a, it_tipo_operacion = ae_tipo_operacion a,
      it_payload = ae_payload a, it_payload_hash = Some (ae_payload_hash a),
      it_operacion = Some (ae_operacion a), it_estado = PENDING, it_sfc_completado = False,
      it_sfc_response = None, it_intentos = Some 1, it_max_intentos = Some (ae_max_intentos a),
      it_ultimo_error = Some (ae_error_inicial a), it_proximo_reintento_at = Some (ae_proximo a),
      it_created_at = Some (ae_now a), it_updated_at = Some (ae_now a),
      it_correlation_id = Some (ae_correlation_id a), it_es_duplicado = False, it_version = Some 1\<rparr>"

definition enqueue_inserta :: "string \<Rightarrow> args_enqueue \<Rightarrow> salida_enqueue guion" where
  "enqueue_inserta index_key a r =
     (let i = r_contador r + 1; it = item_nuevo a i
      in (Inr \<lparr>is_new = True, data = it, pendientes_previos = card (pendientes r)\<rparr>,
          r\<lparr>r_contador := i,
            r_item := (r_item r)(i := Some (Valido it)),
            r_estado := (r_estado r)(PENDING := insert i (pendientes r)),
            r_zpend := zadd i (ae_proximo a) (r_zpend r),
            r_zcreado := zadd i (ae_now a) (r_zcreado r),
            r_indice := (r_indice r)(index_key := Some i)\<rparr>))"

definition enqueue_lua :: "string \<Rightarrow> args_enqueue \<Rightarrow> salida_enqueue guion" where
  "enqueue_lua index_key a r =
     (case r_indice r index_key of
        None \<Rightarrow> enqueue_inserta index_key a r
      | Some e \<Rightarrow>
          if e \<in> pendientes r then
            (case r_item r e of
               None \<Rightarrow> enqueue_inserta index_key a r
             | Some Corrupto \<Rightarrow> (Inl ErrorLua, r)
             | Some (Valido it) \<Rightarrow>
                 let it' = item_sobrescrito a it
                 in (Inr \<lparr>is_new = False, data = it', pendientes_previos = card (pendientes r)\<rparr>,
                     r\<lparr>r_item := (r_item r)(e := Some (Valido it')),
                       r_zpend := zadd e (ae_proximo a) (r_zpend r)\<rparr>))
          else enqueue_inserta index_key a r)"

subsection \<open>EXTEND_LEASE and CLAIM_ITEM\<close>

definition extend_lease_lua :: "nat \<Rightarrow> string \<Rightarrow> int \<Rightarrow> bool guion" where
  "extend_lease_lua i worker_id lease_px r =
     (if duenio r i = Some worker_id
      then (Inr True, r\<lparr>r_claim := texpire (reloj r) lease_px (r_claim r) i\<rparr>)
      else (Inr False, r))"

definition claim_item_lua :: "nat \<Rightarrow> string \<Rightarrow> int \<Rightarrow> salida_claim guion" where
  "claim_item_lua i worker_id lease_px r =
     (if i \<notin> pendientes r then (Inr (NoReclamado NotPending), r)
      else case r_item r i of
        None \<Rightarrow> (Inr (NoReclamado ItemNotFound), r)
      | Some Corrupto \<Rightarrow> (Inl ErrorLua, r)
      | Some (Valido it) \<Rightarrow>
          if duenio r i \<noteq> None then (Inr (NoReclamado AlreadyClaimed), r)
          else let it' = it\<lparr>it_estado := PROCESSING\<rparr>
               in (Inr (Reclamado it'),
                   r\<lparr>r_item := (r_item r)(i := Some (Valido it')),
                     r_claim := tset (reloj r) lease_px (r_claim r) i worker_id\<rparr>))"

subsection \<open>The transitions guarded by ownership and version\<close>

definition libera_indice :: "item \<Rightarrow> redis \<Rightarrow> redis" where
  "libera_indice it r =
     (if it_smart_code it \<noteq> []
      then r\<lparr>r_indice := (r_indice r)(slot it := None, indice_key_viejo (it_smart_code it) := None)\<rparr>
      else r)"

definition mark_success_lua :: "nat \<Rightarrow> int \<Rightarrow> string \<Rightarrow> nat \<Rightarrow> salida guion" where
  "mark_success_lua i now worker_id expected_version r =
     (if duenio r i \<noteq> Some worker_id then (Inr (Rechazo NotOwner), r)
      else case r_item r i of
        None \<Rightarrow> (Inr (Rechazo ItemNotFound), r\<lparr>r_claim := tdel (r_claim r) i\<rparr>)
      | Some Corrupto \<Rightarrow> (Inl ErrorLua, r)
      | Some (Valido it) \<Rightarrow>
          if version_o_1 it \<noteq> expected_version
          then (Inr (Rechazo VersionMismatch), r\<lparr>r_claim := tdel (r_claim r) i\<rparr>)
          else let it' = it\<lparr>it_estado := COMPLETED, it_updated_at := Some now\<rparr>
               in (Inr Exito,
                   libera_indice it'
                     (r\<lparr>r_item := (r_item r)(i := Some (Valido it')),
                        r_estado := (r_estado r)(PENDING := pendientes r - {i},
                                                 COMPLETED := insert i (completados r)),
                        r_zpend := zrem i (r_zpend r),
                        r_claim := tdel (r_claim r) i\<rparr>)))"

definition item_sfc_done :: "json option \<Rightarrow> int \<Rightarrow> item \<Rightarrow> item" where
  "item_sfc_done sfc_response now it =
     (let it1 = it\<lparr>it_sfc_completado := True, it_estado := SFC_DONE\<rparr>;
          it2 = (case sfc_response of None \<Rightarrow> it1 | Some v \<Rightarrow> it1\<lparr>it_sfc_response := Some v\<rparr>)
      in it2\<lparr>it_updated_at := Some now\<rparr>)"

definition mark_sfc_done_lua ::
    "nat \<Rightarrow> string \<Rightarrow> string \<Rightarrow> nat \<Rightarrow> int \<Rightarrow> json option \<Rightarrow> registro_idem \<Rightarrow> int \<Rightarrow> salida guion" where
  "mark_sfc_done_lua i idem_key worker_id expected_version now sfc_response registro ttl r =
     (if duenio r i \<noteq> Some worker_id then (Inr (Rechazo NotOwner), r)
      else case r_item r i of
        None \<Rightarrow> (Inr (Rechazo ItemNotFound), r\<lparr>r_claim := tdel (r_claim r) i\<rparr>)
      | Some Corrupto \<Rightarrow> (Inl ErrorLua, r)
      | Some (Valido it) \<Rightarrow>
          if version_o_1 it \<noteq> expected_version
          then (Inr (Rechazo VersionMismatch), r\<lparr>r_claim := tdel (r_claim r) i\<rparr>)
          else (Inr Exito,
                r\<lparr>r_item := (r_item r)(i := Some (Valido (item_sfc_done sfc_response now it))),
                  r_idem := tset (reloj r) ttl (r_idem r) idem_key (Valido registro)\<rparr>))"

definition item_fallado :: "string \<Rightarrow> int \<Rightarrow> bool \<Rightarrow> int \<Rightarrow> bool \<Rightarrow> item \<Rightarrow> item" where
  "item_fallado error_msg now es_definitivo proximo consumir it =
     (let it1 = (if consumir then it\<lparr>it_intentos := Some (intentos_o_0 it + 1)\<rparr> else it);
          it2 = it1\<lparr>it_ultimo_error := Some error_msg, it_updated_at := Some now\<rparr>
      in if es_definitivo then it2\<lparr>it_estado := FAILED_FINAL\<rparr>
         else it2\<lparr>it_estado := PENDING, it_proximo_reintento_at := Some proximo\<rparr>)"

definition registrar_fallo_lua ::
    "nat \<Rightarrow> string \<Rightarrow> nat \<Rightarrow> string \<Rightarrow> int \<Rightarrow> bool \<Rightarrow> int \<Rightarrow> bool \<Rightarrow> salida guion" where
  "registrar_fallo_lua i worker_id expected_version error_msg now es_definitivo proximo consumir r =
     (if duenio r i \<noteq> Some worker_id then (Inr (Rechazo NotOwner), r)
      else case r_item r i of
        None \<Rightarrow> (Inr (Rechazo ItemNotFound), r\<lparr>r_claim := tdel (r_claim r) i\<rparr>)
      | Some Corrupto \<Rightarrow> (Inl ErrorLua, r)
      | Some (Valido it) \<Rightarrow>
          if version_o_1 it \<noteq> expected_version
          then (Inr (Rechazo VersionMismatch), r\<lparr>r_claim := tdel (r_claim r) i\<rparr>)
          else let it' = item_fallado error_msg now es_definitivo proximo consumir it
               in (Inr Exito,
                   if es_definitivo
                   then libera_indice it'
                          (r\<lparr>r_item := (r_item r)(i := Some (Valido it')),
                             r_estado := (r_estado r)(PENDING := pendientes r - {i},
                                                      FAILED_FINAL := insert i (fallidos r)),
                             r_zpend := zrem i (r_zpend r),
                             r_claim := tdel (r_claim r) i\<rparr>)
                   else r\<lparr>r_item := (r_item r)(i := Some (Valido it')),
                          r_zpend := zadd i proximo (r_zpend r),
                          r_claim := tdel (r_claim r) i\<rparr>))"

subsection \<open>REPLAY_ITEM and DIFERIR_ITEM\<close>

definition item_reencolado :: "int \<Rightarrow> item \<Rightarrow> item" where
  "item_reencolado now it =
     it\<lparr>it_estado := PENDING, it_intentos := Some 0, it_proximo_reintento_at := Some now,
        it_updated_at := Some now, it_version := Some (version_o_1 it + 1)\<rparr>"

definition replay_item_lua :: "nat \<Rightarrow> int \<Rightarrow> salida_replay guion" where
  "replay_item_lua i now r =
     (case r_item r i of
        None \<Rightarrow> (Inr (ReplayRechazado ItemNotFound), r)
      | Some Corrupto \<Rightarrow> (Inl ErrorLua, r)
      | Some (Valido it) \<Rightarrow>
          if it_estado it \<noteq> FAILED_FINAL then (Inr (ReplayRechazado NotFailedFinal), r)
          else if it_smart_code it \<noteq> [] \<and> r_indice r (slot it) \<noteq> None \<and> r_indice r (slot it) \<noteq> Some i
          then (Inr (ReplayRechazado OperacionTieneItemMasReciente), r)
          else let it' = item_reencolado now it;
                   r' = r\<lparr>r_item := (r_item r)(i := Some (Valido it')),
                          r_estado := (r_estado r)(FAILED_FINAL := fallidos r - {i},
                                                   PENDING := insert i (pendientes r)),
                          r_zpend := zadd i now (r_zpend r)\<rparr>
               in (Inr (Reencolado (it_smart_code it) (version_o_1 it')),
                   if it_smart_code it \<noteq> [] then r'\<lparr>r_indice := (r_indice r)(slot it := Some i)\<rparr>
                   else r'))"

definition diferir_item_lua :: "nat \<Rightarrow> int \<Rightarrow> int \<Rightarrow> string \<Rightarrow> nat \<Rightarrow> salida guion" where
  "diferir_item_lua i proximo now ultimo_error expected_version r =
     (case r_item r i of
        None \<Rightarrow> (Inr (Rechazo ItemNotFound), r)
      | Some Corrupto \<Rightarrow> (Inl ErrorLua, r)
      | Some (Valido it) \<Rightarrow>
          if version_o_1 it \<noteq> expected_version then (Inr (Rechazo VersionMismatch), r)
          else (Inr Exito,
                r\<lparr>r_item := (r_item r)(i := Some (Valido
                     (it\<lparr>it_proximo_reintento_at := Some proximo, it_updated_at := Some now,
                         it_ultimo_error := Some ultimo_error\<rparr>))),
                  r_zpend := zadd i proximo (r_zpend r),
                  r_claim := tdel (r_claim r) i\<rparr>))"

subsection \<open>Cancelling a superseded pending item\<close>

definition leer_pendiente_lua :: "string \<Rightarrow> item crudo option guion" where
  "leer_pendiente_lua index_key r =
     (case r_indice r index_key of
        None \<Rightarrow> (Inr None, r)
      | Some i \<Rightarrow> if i \<notin> pendientes r then (Inr None, r) else (Inr (r_item r i), r))"

definition cancelar_pendiente_lua :: "string \<Rightarrow> nat \<Rightarrow> string \<Rightarrow> bool guion" where
  "cancelar_pendiente_lua index_key expected_item_id expected_payload_hash r =
     (case r_indice r index_key of
        None \<Rightarrow> (Inr False, r)
      | Some i \<Rightarrow>
          if i \<noteq> expected_item_id then (Inr False, r)
          else if i \<notin> pendientes r then (Inr False, r)
          else case r_item r i of
            None \<Rightarrow> (Inr False, r)
          | Some c \<Rightarrow>
              let borra = r\<lparr>r_item := (r_item r)(i := None),
                            r_estado := (r_estado r)(PENDING := pendientes r - {i}),
                            r_zpend := zrem i (r_zpend r),
                            r_zcreado := zrem i (r_zcreado r),
                            r_indice := (r_indice r)(index_key := None)\<rparr>
              in if expected_payload_hash = [] then (Inr True, borra)
                 else case c of
                   Corrupto \<Rightarrow> (Inl ErrorLua, r)
                 | Valido it \<Rightarrow>
                     if it_payload_hash it \<noteq> Some expected_payload_hash then (Inr False, r)
                     else (Inr True, borra))"

text \<open>The purge pipeline (\<^verbatim>\<open>MULTI\<close>/\<^verbatim>\<open>EXEC\<close>) of one state set: see \<^verbatim>\<open>_purgar_estado\<close>.\<close>

definition purga_lua :: "smart_status \<Rightarrow> nat list \<Rightarrow> nat list \<Rightarrow> redis \<Rightarrow> redis" where
  "purga_lua estado inconsistentes a_eliminar r =
     r\<lparr>r_estado := (r_estado r)(estado := r_estado r estado - set inconsistentes - set a_eliminar),
       r_item := (\<lambda>i. if i \<in> set a_eliminar then None else r_item r i),
       r_zcreado := filter (\<lambda>p. fst p \<notin> set a_eliminar) (r_zcreado r)\<rparr>"

lemmas guiones_defs [guiones] =
  enqueue_lua_def enqueue_inserta_def extend_lease_lua_def claim_item_lua_def mark_success_lua_def
  mark_sfc_done_lua_def registrar_fallo_lua_def replay_item_lua_def diferir_item_lua_def
  leer_pendiente_lua_def cancelar_pendiente_lua_def

lemma item_sfc_done_marco [simp]:
  "it_id (item_sfc_done x now it) = it_id it"
  "it_smart_code (item_sfc_done x now it) = it_smart_code it"
  "operacion_sufijo (item_sfc_done x now it) = operacion_sufijo it"
  "version_o_1 (item_sfc_done x now it) = version_o_1 it"
  "it_payload (item_sfc_done x now it) = it_payload it"
  "it_estado (item_sfc_done x now it) = SFC_DONE"
  "it_sfc_completado (item_sfc_done x now it)"
  by (simp_all add: item_sfc_done_def operacion_sufijo_def version_o_1_def Let_def split: option.splits)

lemma item_fallado_marco [simp]:
  "it_id (item_fallado e now d p c it) = it_id it"
  "it_smart_code (item_fallado e now d p c it) = it_smart_code it"
  "operacion_sufijo (item_fallado e now d p c it) = operacion_sufijo it"
  "version_o_1 (item_fallado e now d p c it) = version_o_1 it"
  "it_payload (item_fallado e now d p c it) = it_payload it"
  "it_sfc_completado (item_fallado e now d p c it) = it_sfc_completado it"
  "it_max_intentos (item_fallado e now d p c it) = it_max_intentos it"
  "it_estado (item_fallado e now d p c it) = (if d then FAILED_FINAL else PENDING)"
  "intentos_o_0 (item_fallado e now d p c it) = intentos_o_0 it + (if c then 1 else 0)"
  by (simp_all add: item_fallado_def operacion_sufijo_def version_o_1_def intentos_o_0_def Let_def)

lemma item_reencolado_marco [simp]:
  "it_id (item_reencolado now it) = it_id it"
  "it_smart_code (item_reencolado now it) = it_smart_code it"
  "slot (item_reencolado now it) = slot it"
  "it_payload (item_reencolado now it) = it_payload it"
  "it_payload_hash (item_reencolado now it) = it_payload_hash it"
  "it_operacion (item_reencolado now it) = it_operacion it"
  "it_sfc_completado (item_reencolado now it) = it_sfc_completado it"
  "it_estado (item_reencolado now it) = PENDING"
  "it_intentos (item_reencolado now it) = Some 0"
  "it_max_intentos (item_reencolado now it) = it_max_intentos it"
  "version_o_1 (item_reencolado now it) = version_o_1 it + 1"
  by (simp_all add: item_reencolado_def slot_def operacion_sufijo_def version_o_1_def)

end
