(* ===== verification/Cola_Invariante.thy ===== *)
theory Cola_Invariante
  imports Cola_Guiones
begin

text \<open>
  The invariant of the queue and its preservation by every script. It says that the three
  state sets partition the items, that the state written in an item agrees with the set the
  item is in, that the slot index is exactly the pending items by slot (one pending obligation
  = one slot), that every pending item is scheduled in \<^verbatim>\<open>pending_zset\<close>, and that a claim on an
  existing item is a claim on a pending item.
\<close>

subsection \<open>The invariant\<close>

definition smart_ok :: "string \<Rightarrow> bool" where
  "smart_ok s = (s \<noteq> [] \<and> CHR '':'' \<notin> set s)"

text \<open>The state set in which an item of a given state lives: an item stays in the set
\<^verbatim>\<open>PENDIENTE\<close> while it is PROCESSING or SFC_DONE.\<close>

fun zona :: "smart_status \<Rightarrow> smart_status option" where
  "zona PENDING = Some PENDING"
| "zona PROCESSING = Some PENDING"
| "zona SFC_DONE = Some PENDING"
| "zona COMPLETED = Some COMPLETED"
| "zona FAILED_FINAL = Some FAILED_FINAL"
| "zona _ = None"

definition item_coherente :: "(smart_status \<Rightarrow> nat set) \<Rightarrow> nat \<Rightarrow> item \<Rightarrow> bool" where
  "item_coherente est i it =
     (it_id it = i \<and> smart_ok (it_smart_code it)
      \<and> (case zona (it_estado it) of None \<Rightarrow> False | Some z \<Rightarrow> i \<in> est z))"

definition inv_items :: "redis \<Rightarrow> bool" where
  "inv_items r =
     ((\<forall>i. r_item r i \<noteq> Some Corrupto)
      \<and> (\<forall>i it. r_item r i = Some (Valido it) \<longrightarrow> item_coherente (r_estado r) i it)
      \<and> (\<forall>i \<in> pendientes r. r_item r i \<noteq> None)
      \<and> pendientes r \<inter> completados r = {} \<and> pendientes r \<inter> fallidos r = {}
      \<and> completados r \<inter> fallidos r = {})"

definition inv_indice :: "redis \<Rightarrow> bool" where
  "inv_indice r =
     (\<forall>k i. r_indice r k = Some i \<longleftrightarrow>
        i \<in> pendientes r \<and> (\<exists>it. r_item r i = Some (Valido it) \<and> slot it = k))"

definition inv_ids :: "redis \<Rightarrow> bool" where
  "inv_ids r =
     (pendientes r \<union> completados r \<union> fallidos r \<subseteq> {..r_contador r}
      \<and> dom (r_item r) \<subseteq> {..r_contador r} \<and> dom (r_claim r) \<subseteq> {..r_contador r})"

definition inv_agenda :: "redis \<Rightarrow> bool" where
  "inv_agenda r =
     (pendientes r \<subseteq> fst ` set (r_zpend r) \<and> dom (r_claim r) \<inter> dom (r_item r) \<subseteq> pendientes r)"

definition cola_inv :: "redis \<Rightarrow> bool" where
  "cola_inv r = (inv_items r \<and> inv_indice r \<and> inv_ids r \<and> inv_agenda r)"

lemmas inv_defs = inv_items_def inv_indice_def inv_ids_def inv_agenda_def item_coherente_def

lemma cola_invI:
  "inv_items r \<Longrightarrow> inv_indice r \<Longrightarrow> inv_ids r \<Longrightarrow> inv_agenda r \<Longrightarrow> cola_inv r"
  by (simp add: cola_inv_def)

lemma cola_inv_vacio: "cola_inv redis_vacio"
  by (simp add: cola_inv_def inv_defs redis_vacio_def)

subsection \<open>What the invariant gives\<close>

lemma pendiente_itemE:
  assumes "cola_inv r" "i \<in> pendientes r"
  obtains it where "r_item r i = Some (Valido it)" "item_coherente (r_estado r) i it" "r_indice r (slot it) = Some i"
proof -
  from assms have "r_item r i \<noteq> None" "r_item r i \<noteq> Some Corrupto"
    by (auto simp: cola_inv_def inv_items_def)
  then obtain it where it: "r_item r i = Some (Valido it)" by (metis crudo.exhaust not_None_eq)
  with assms have "item_coherente (r_estado r) i it" by (auto simp: cola_inv_def inv_items_def)
  moreover from it assms have "r_indice r (slot it) = Some i"
    by (auto simp: cola_inv_def inv_indice_def)
  ultimately show ?thesis using it that by blast
qed

lemma indice_pendienteD:
  assumes "cola_inv r" "r_indice r k = Some i"
  obtains it where "i \<in> pendientes r" "r_item r i = Some (Valido it)" "slot it = k" "item_coherente (r_estado r) i it"
proof -
  have "i \<in> pendientes r \<and> (\<exists>it. r_item r i = Some (Valido it) \<and> slot it = k)"
    using assms unfolding cola_inv_def inv_indice_def by blast
  then obtain it where "i \<in> pendientes r" "r_item r i = Some (Valido it)" "slot it = k" by blast
  moreover from this(2) assms have "item_coherente (r_estado r) i it"
    by (auto simp: cola_inv_def inv_items_def)
  ultimately show ?thesis using that by blast
qed

text \<open>Two pending items of the same slot are the same item.\<close>

lemma slot_unico:
  assumes "cola_inv r" "i \<in> pendientes r" "j \<in> pendientes r"
    and "r_item r i = Some (Valido a)" "r_item r j = Some (Valido b)" "slot a = slot b"
  shows "i = j"
proof -
  have "r_indice r (slot a) = Some i" "r_indice r (slot b) = Some j"
    using assms unfolding cola_inv_def inv_indice_def by blast+
  with assms(6) show ?thesis by simp
qed

lemma slot_no_viejo: "smart_ok s \<Longrightarrow> slot it \<noteq> indice_key_viejo s"
  by (simp add: slot_def smart_ok_def indice_key_viejo_distinta)

lemma dom_tdel [simp]: "dom (tdel m k) = dom m - {k}"
  by (auto simp: tdel_def split: if_splits)

lemma dom_tset [simp]: "dom (tset ahora px m k v) = insert k (dom m)"
  by (auto simp: tset_def)

lemma dom_texpire [simp]: "dom (texpire ahora px m k) = dom m"
  by (auto simp: texpire_def tget_def split: option.splits if_splits)

lemma finite_pendientes: "cola_inv r \<Longrightarrow> finite (pendientes r)"
  by (auto simp: cola_inv_def inv_ids_def intro: finite_subset [of _ "{..r_contador r}"])

lemma zona_conjuntos: "zona e = Some z \<Longrightarrow> z = PENDING \<or> z = COMPLETED \<or> z = FAILED_FINAL"
  by (cases e) auto

lemma item_coherente_otro:
  assumes "item_coherente est j b" "\<And>z. j \<in> est z \<Longrightarrow> j \<in> est' z"
  shows "item_coherente est' j b"
  using assms by (auto simp: item_coherente_def split: option.splits)

text \<open>Changing an item without moving it between sets or slots.\<close>

lemma cola_inv_actualiza:
  assumes inv: "cola_inv r" and it: "r_item r i = Some (Valido it)"
    and same: "it_id it' = it_id it" "it_smart_code it' = it_smart_code it"
      "operacion_sufijo it' = operacion_sufijo it" "zona (it_estado it') = zona (it_estado it)"
    and z: "pendientes r \<subseteq> fst ` set z"
    and cl: "dom c \<subseteq> dom (r_claim r) \<union> ({i} \<inter> pendientes r)"
  shows "cola_inv (r\<lparr>r_item := (r_item r)(i := Some (Valido it')), r_zpend := z, r_claim := c\<rparr>)"
    (is "cola_inv ?r")
proof (rule cola_invI)
  have all: "inv_items r" "inv_indice r" "inv_ids r" "inv_agenda r"
    using inv by (auto simp: cola_inv_def)
  have "item_coherente (r_estado r) i it" using all(1) it by (simp add: inv_items_def)
  then have co': "item_coherente (r_estado ?r) i it'"
    using same by (auto simp: item_coherente_def split: option.splits)
  have sl: "slot it' = slot it" using same by (simp add: slot_def)
  show "inv_items ?r"
    using all(1) co' by (auto simp: inv_items_def)
  show "inv_indice ?r"
    using all(2) it sl by (auto simp: inv_indice_def)
  have d: "i \<in> dom (r_item r)" using it by auto
  have cl': "dom c \<subseteq> {..r_contador r}" using all(3) cl unfolding inv_ids_def by blast
  show "inv_ids ?r"
    using all(3) d cl' by (auto simp: inv_ids_def)
  have "dom c \<inter> dom (r_item r) \<subseteq> pendientes r"
    using all(4) cl unfolding inv_agenda_def by blast
  then show "inv_agenda ?r"
    using d z by (simp add: inv_agenda_def insert_absorb)
qed

text \<open>Moving a pending item out of the pending set, with its slot released.\<close>

lemma cola_inv_retira:
  assumes inv: "cola_inv r" and it: "r_item r i = Some (Valido it)" and p: "i \<in> pendientes r"
    and same: "it_id it' = it_id it" "it_smart_code it' = it_smart_code it"
      "operacion_sufijo it' = operacion_sufijo it"
    and e: "e = COMPLETED \<or> e = FAILED_FINAL" "it_estado it' = e"
  shows "cola_inv (libera_indice it'
     (r\<lparr>r_item := (r_item r)(i := Some (Valido it')),
        r_estado := (r_estado r)(PENDING := pendientes r - {i}, e := insert i (r_estado r e)),
        r_zpend := zrem i (r_zpend r), r_claim := tdel (r_claim r) i\<rparr>))"
    (is "cola_inv (libera_indice it' ?r1)")
proof -
  have all: "inv_items r" "inv_indice r" "inv_ids r" "inv_agenda r"
    using inv by (auto simp: cola_inv_def)
  have co: "item_coherente (r_estado r) i it" using all(1) it by (simp add: inv_items_def)
  have sl: "slot it' = slot it" using same by (simp add: slot_def)
  have sm: "smart_ok (it_smart_code it)" using co by (simp add: item_coherente_def)
  let ?r = "?r1\<lparr>r_indice := (r_indice r)(slot it := None, indice_key_viejo (it_smart_code it) := None)\<rparr>"
  have lib: "libera_indice it' ?r1 = ?r"
    using sm sl same by (simp add: libera_indice_def smart_ok_def)
  have co': "item_coherente (r_estado ?r) i it'"
    using co same e by (auto simp: item_coherente_def)
  have otro: "item_coherente (r_estado ?r) j b" if "r_item r j = Some (Valido b)" "j \<noteq> i" for j b
  proof (rule item_coherente_otro)
    show "item_coherente (r_estado r) j b" using all(1) that by (simp add: inv_items_def)
    show "\<And>z. j \<in> r_estado r z \<Longrightarrow> j \<in> r_estado ?r z" using that e by auto
  qed
  have "inv_items ?r"
    unfolding inv_items_def
  proof (intro conjI allI impI ballI)
    fix j b assume "r_item ?r j = Some (Valido b)"
    then show "item_coherente (r_estado ?r) j b" using co' otro by (cases "j = i") auto
  qed (use all(1) p e in \<open>auto simp: inv_items_def\<close>)
  moreover have "inv_indice ?r"
    unfolding inv_indice_def
  proof (intro allI iffI)
    fix k j assume "r_indice ?r k = Some j"
    then have "r_indice r k = Some j" and "k \<noteq> slot it" by (auto split: if_splits)
    with all(2) obtain b where "j \<in> pendientes r" "r_item r j = Some (Valido b)" "slot b = k"
      unfolding inv_indice_def by blast
    moreover from this it \<open>k \<noteq> slot it\<close> have "j \<noteq> i" by auto
    ultimately show "j \<in> pendientes ?r \<and> (\<exists>b. r_item ?r j = Some (Valido b) \<and> slot b = k)"
      using e by auto
  next
    fix k j assume "j \<in> pendientes ?r \<and> (\<exists>b. r_item ?r j = Some (Valido b) \<and> slot b = k)"
    then obtain b where b: "j \<in> pendientes r" "j \<noteq> i" "r_item r j = Some (Valido b)" "slot b = k"
      using e by auto
    then have "k \<noteq> slot it" using slot_unico [OF inv b(1) p b(3) it] by auto
    moreover have "k \<noteq> indice_key_viejo (it_smart_code it)" using b(4) slot_no_viejo [OF sm] by auto
    ultimately show "r_indice ?r k = Some j" using all(2) b by (auto simp: inv_indice_def)
  qed
  moreover have d: "i \<in> dom (r_item r)" using it by auto
  have "i \<le> r_contador r" using all(3) p by (auto simp: inv_ids_def)
  then have "inv_ids ?r"
    using all(3) e by (auto simp: inv_ids_def)
  moreover have "(dom (r_claim r) - {i}) \<inter> dom (r_item r) \<subseteq> pendientes r - {i}"
      "pendientes r - {i} \<subseteq> fst ` set (r_zpend r) - {i}"
    using all(4) unfolding inv_agenda_def by blast+
  then have "inv_agenda ?r"
    using d e by (auto simp: inv_agenda_def insert_absorb)
  ultimately show ?thesis unfolding lib by (rule cola_invI)
qed

subsection \<open>Writes outside the queue\<close>

lemma cola_inv_ajeno [simp]:
  "cola_inv (r\<lparr>r_idem := x\<rparr>) = cola_inv r"
  "cola_inv (r\<lparr>r_lock := l\<rparr>) = cola_inv r"
  "cola_inv (r\<lparr>r_checkpoint := c\<rparr>) = cola_inv r"
  "cola_inv (r\<lparr>r_token := y\<rparr>) = cola_inv r"
  "cola_inv (r\<lparr>r_cuota := q\<rparr>) = cola_inv r"
  "cola_inv (r\<lparr>reloj := t\<rparr>) = cola_inv r"
  by (simp_all add: cola_inv_def inv_items_def inv_indice_def inv_ids_def inv_agenda_def)

lemma cola_inv_claim:
  assumes "cola_inv r" "dom c \<subseteq> dom (r_claim r)"
  shows "cola_inv (r\<lparr>r_claim := c\<rparr>)"
proof -
  have "dom c \<subseteq> {..r_contador r}" "dom c \<inter> dom (r_item r) \<subseteq> pendientes r"
    using assms unfolding cola_inv_def inv_ids_def inv_agenda_def by blast+
  with assms(1) show ?thesis
    by (simp add: cola_inv_def inv_items_def inv_indice_def inv_ids_def inv_agenda_def)
qed

lemma cola_inv_tdel [simp]: "cola_inv r \<Longrightarrow> cola_inv (r\<lparr>r_claim := tdel (r_claim r) i\<rparr>)"
  by (rule cola_inv_claim) (auto simp only: dom_tdel)

subsection \<open>Preservation, script by script\<close>

lemma claim_dom: "duenio r i = Some w \<Longrightarrow> i \<in> dom (r_claim r)"
  by (auto simp: duenio_def tget_def split: option.splits)

text \<open>The owner of a claim on an existing item is working on a pending item.\<close>

lemma duenio_pendiente:
  assumes "cola_inv r" "duenio r i = Some w" "r_item r i = Some c"
  shows "i \<in> pendientes r"
  using assms claim_dom [OF assms(2)] unfolding cola_inv_def inv_agenda_def by blast

lemma no_corrupto: "cola_inv r \<Longrightarrow> r_item r i \<noteq> Some Corrupto"
  by (simp add: cola_inv_def inv_items_def)

lemma coherente: "cola_inv r \<Longrightarrow> r_item r i = Some (Valido it) \<Longrightarrow> item_coherente (r_estado r) i it"
  by (simp add: cola_inv_def inv_items_def)

lemma agenda_pendientes: "cola_inv r \<Longrightarrow> pendientes r \<subseteq> fst ` set (r_zpend r)"
  by (simp add: cola_inv_def inv_agenda_def)

lemma zona_pendiente:
  assumes "cola_inv r" "i \<in> pendientes r" "r_item r i = Some (Valido it)"
  shows "zona (it_estado it) = Some PENDING"
proof -
  from coherente [OF assms(1,3)] obtain z where z: "zona (it_estado it) = Some z" "i \<in> r_estado r z"
    by (auto simp: item_coherente_def split: option.splits)
  with zona_conjuntos [OF z(1)] assms(1,2) show ?thesis
    by (auto simp: cola_inv_def inv_items_def)
qed

lemma claim_id [simp]: "r\<lparr>r_claim := r_claim r\<rparr> = r" "r\<lparr>r_zpend := r_zpend r\<rparr> = r"
  by simp_all

lemma inv_extend_lease [preserva]: "cola_inv r \<Longrightarrow> cola_inv (snd (extend_lease_lua i w px r))"
  by (simp add: extend_lease_lua_def cola_inv_claim)

lemma inv_claim_item [preserva]:
  assumes "cola_inv r"
  shows "cola_inv (snd (claim_item_lua i w px r))"
proof (cases "i \<in> pendientes r \<and> duenio r i = None")
  case True
  with assms obtain it where it: "r_item r i = Some (Valido it)" by (auto elim: pendiente_itemE)
  have "cola_inv (r\<lparr>r_item := (r_item r)(i := Some (Valido (it\<lparr>it_estado := PROCESSING\<rparr>))),
      r_zpend := r_zpend r, r_claim := tset (reloj r) px (r_claim r) i w\<rparr>)"
    by (rule cola_inv_actualiza [OF assms it])
      (use True zona_pendiente [OF assms _ it] agenda_pendientes [OF assms]
       in \<open>auto simp: operacion_sufijo_def\<close>)
  with True it show ?thesis by (simp add: claim_item_lua_def Let_def)
next
  case False
  with assms show ?thesis
    by (auto simp: claim_item_lua_def Let_def split: option.splits crudo.splits)
qed

text \<open>
  The three transitions share their guard: without ownership nothing changes, without the item
  or with another version only the claim goes.
\<close>

lemma inv_mark_success [preserva]:
  assumes "cola_inv r"
  shows "cola_inv (snd (mark_success_lua i now w v r))"
proof (cases "duenio r i = Some w \<and> (\<exists>it. r_item r i = Some (Valido it) \<and> version_o_1 it = v)")
  case True
  then obtain it where it: "r_item r i = Some (Valido it)" "version_o_1 it = v" "duenio r i = Some w"
    by auto
  have p: "i \<in> pendientes r" using duenio_pendiente [OF assms it(3,1)] .
  show ?thesis
    using cola_inv_retira [OF assms it(1) p, of "it\<lparr>it_estado := COMPLETED, it_updated_at := Some now\<rparr>" COMPLETED] it
    by (simp add: mark_success_lua_def Let_def operacion_sufijo_def)
next
  case False
  with assms show ?thesis
    by (auto simp: mark_success_lua_def Let_def split: option.splits crudo.splits)
qed

lemma inv_mark_sfc_done [preserva]:
  assumes "cola_inv r"
  shows "cola_inv (snd (mark_sfc_done_lua i k w v now resp reg ttl r))"
proof (cases "duenio r i = Some w \<and> (\<exists>it. r_item r i = Some (Valido it) \<and> version_o_1 it = v)")
  case True
  then obtain it where it: "r_item r i = Some (Valido it)" "version_o_1 it = v" "duenio r i = Some w"
    by auto
  have p: "i \<in> pendientes r" using duenio_pendiente [OF assms it(3,1)] .
  have "cola_inv (r\<lparr>r_item := (r_item r)(i := Some (Valido (item_sfc_done resp now it))),
      r_zpend := r_zpend r, r_claim := r_claim r\<rparr>)"
    by (rule cola_inv_actualiza [OF assms it(1)])
      (use zona_pendiente [OF assms p it(1)] agenda_pendientes [OF assms] in auto)
  with it show ?thesis by (simp add: mark_sfc_done_lua_def)
next
  case False
  with assms show ?thesis
    by (auto simp: mark_sfc_done_lua_def split: option.splits crudo.splits)
qed

lemma inv_registrar_fallo [preserva]:
  assumes "cola_inv r"
  shows "cola_inv (snd (registrar_fallo_lua i w v e now def prox cons r))"
proof (cases "duenio r i = Some w \<and> (\<exists>it. r_item r i = Some (Valido it) \<and> version_o_1 it = v)")
  case True
  then obtain it where it: "r_item r i = Some (Valido it)" "version_o_1 it = v" "duenio r i = Some w"
    by auto
  have p: "i \<in> pendientes r" using duenio_pendiente [OF assms it(3,1)] .
  let ?it = "item_fallado e now def prox cons it"
  show ?thesis
  proof (cases "def")
    case True
    then show ?thesis
      using cola_inv_retira [OF assms it(1) p, of ?it FAILED_FINAL] it
      by (simp add: registrar_fallo_lua_def Let_def)
  next
    case False
    have "cola_inv (r\<lparr>r_item := (r_item r)(i := Some (Valido ?it)),
        r_zpend := zadd i prox (r_zpend r), r_claim := tdel (r_claim r) i\<rparr>)"
      by (rule cola_inv_actualiza [OF assms it(1)])
        (use False zona_pendiente [OF assms p it(1)] agenda_pendientes [OF assms] in auto)
    with False it show ?thesis by (simp add: registrar_fallo_lua_def Let_def)
  qed
next
  case False
  with assms show ?thesis
    by (auto simp: registrar_fallo_lua_def Let_def split: option.splits crudo.splits)
qed

lemma inv_diferir [preserva]:
  assumes "cola_inv r"
  shows "cola_inv (snd (diferir_item_lua i prox now e v r))"
proof (cases "\<exists>it. r_item r i = Some (Valido it) \<and> version_o_1 it = v")
  case True
  then obtain it where it: "r_item r i = Some (Valido it)" "version_o_1 it = v" by auto
  have "cola_inv (r\<lparr>r_item := (r_item r)(i := Some (Valido
        (it\<lparr>it_proximo_reintento_at := Some prox, it_updated_at := Some now, it_ultimo_error := Some e\<rparr>))),
      r_zpend := zadd i prox (r_zpend r), r_claim := tdel (r_claim r) i\<rparr>)"
    by (rule cola_inv_actualiza [OF assms it(1)])
      (use agenda_pendientes [OF assms] in \<open>auto simp: operacion_sufijo_def\<close>)
  with it show ?thesis by (simp add: diferir_item_lua_def)
next
  case False
  with assms show ?thesis
    by (auto simp: diferir_item_lua_def split: option.splits crudo.splits)
qed

lemma inv_leer_pendiente [preserva]: "cola_inv r \<Longrightarrow> cola_inv (snd (leer_pendiente_lua k r))"
  by (simp add: leer_pendiente_lua_def split: option.splits)

text \<open>An item that enters the pending set: a new one, or a failed one that is replayed.\<close>

lemma cola_inv_ingresa:
  assumes inv: "cola_inv r"
    and it': "it_id it' = i" "smart_ok (it_smart_code it')" "zona (it_estado it') = Some PENDING"
    and libre: "r_indice r (slot it') = None" "i \<notin> pendientes r" "i \<notin> completados r"
    and n: "r_contador r \<le> n" "i \<le> n"
  shows "cola_inv (r\<lparr>r_contador := n, r_item := (r_item r)(i := Some (Valido it')),
      r_estado := (r_estado r)(FAILED_FINAL := fallidos r - {i}, PENDING := insert i (pendientes r)),
      r_zpend := zadd i sc (r_zpend r), r_zcreado := zc, r_indice := (r_indice r)(slot it' := Some i)\<rparr>)"
    (is "cola_inv ?r")
proof (rule cola_invI)
  have all: "inv_items r" "inv_indice r" "inv_ids r" "inv_agenda r"
    using inv by (auto simp: cola_inv_def)
  have otro: "item_coherente (r_estado ?r) j b" if "r_item r j = Some (Valido b)" "j \<noteq> i" for j b
  proof (rule item_coherente_otro)
    show "item_coherente (r_estado r) j b" using all(1) that by (simp add: inv_items_def)
    show "\<And>z. j \<in> r_estado r z \<Longrightarrow> j \<in> r_estado ?r z" using that by auto
  qed
  have yo: "item_coherente (r_estado ?r) i it'" using it' by (simp add: item_coherente_def)
  show "inv_items ?r"
    unfolding inv_items_def
  proof (intro conjI allI impI ballI)
    fix j b assume "r_item ?r j = Some (Valido b)"
    then show "item_coherente (r_estado ?r) j b" using yo otro by (cases "j = i") auto
  qed (use all(1) libre in \<open>auto simp: inv_items_def\<close>)
  show "inv_indice ?r"
    unfolding inv_indice_def
  proof (intro allI iffI)
    fix k j assume a: "r_indice ?r k = Some j"
    show "j \<in> pendientes ?r \<and> (\<exists>b. r_item ?r j = Some (Valido b) \<and> slot b = k)"
    proof (cases "k = slot it'")
      case True
      with a show ?thesis by simp
    next
      case False
      with a have "r_indice r k = Some j" by simp
      then obtain b where "j \<in> pendientes r" "r_item r j = Some (Valido b)" "slot b = k"
        using all(2) unfolding inv_indice_def by blast
      with libre(2) show ?thesis by auto
    qed
  next
    fix k j assume "j \<in> pendientes ?r \<and> (\<exists>b. r_item ?r j = Some (Valido b) \<and> slot b = k)"
    then obtain b where b: "j \<in> pendientes ?r" "r_item ?r j = Some (Valido b)" "slot b = k" by blast
    show "r_indice ?r k = Some j"
    proof (cases "j = i")
      case True
      with b show ?thesis by simp
    next
      case False
      with b have "r_indice r k = Some j" using all(2) unfolding inv_indice_def by auto
      with libre(1) show ?thesis by auto
    qed
  qed
  have "dom (r_item r) \<subseteq> {..n}" "dom (r_claim r) \<subseteq> {..n}"
      "pendientes r \<union> completados r \<union> fallidos r \<subseteq> {..n}"
    using all(3) n(1) unfolding inv_ids_def by fastforce+
  then show "inv_ids ?r" using n(2) by (auto simp: inv_ids_def)
  show "inv_agenda ?r"
    using all(4) by (auto simp: inv_agenda_def)
qed

lemma slot_item_nuevo:
  "ae_operacion a \<noteq> [] \<Longrightarrow> slot (item_nuevo a i) = indice_key (ae_smart_code a) (ae_operacion a)"
  by (simp add: slot_def item_nuevo_def operacion_sufijo_def)

lemma slot_item_sobrescrito:
  "ae_operacion a \<noteq> [] \<Longrightarrow> slot (item_sobrescrito a it) = indice_key (it_smart_code it) (ae_operacion a)"
  by (simp add: slot_def item_sobrescrito_def operacion_sufijo_def)

lemma item_sobrescrito_marco [simp]:
  "it_id (item_sobrescrito a it) = it_id it"
  "it_smart_code (item_sobrescrito a it) = it_smart_code it"
  "it_estado (item_sobrescrito a it) = PENDING"
  "it_payload (item_sobrescrito a it) = ae_payload a"
  "it_payload_hash (item_sobrescrito a it) = Some (ae_payload_hash a)"
  "\<not> it_sfc_completado (item_sobrescrito a it)"
  "it_intentos (item_sobrescrito a it) = Some 1"
  "it_max_intentos (item_sobrescrito a it) = it_max_intentos it"
  "version_o_1 (item_sobrescrito a it) = version_o_1 it + 1"
  by (simp_all add: item_sobrescrito_def version_o_1_def)

text \<open>Under the invariant, ENQUEUE overwrites exactly when the slot is taken.\<close>

lemma enqueue_bajo_inv:
  assumes "cola_inv r"
  shows "enqueue_lua k a r =
    (case r_indice r k of
       None \<Rightarrow> enqueue_inserta k a r
     | Some e \<Rightarrow>
        (case r_item r e of
           Some (Valido it) \<Rightarrow>
             (Inr \<lparr>is_new = False, data = item_sobrescrito a it, pendientes_previos = card (pendientes r)\<rparr>,
              r\<lparr>r_item := (r_item r)(e := Some (Valido (item_sobrescrito a it))),
                r_zpend := zadd e (ae_proximo a) (r_zpend r)\<rparr>)
         | _ \<Rightarrow> (Inl ErrorLua, r)))"
proof (cases "r_indice r k")
  case None
  then show ?thesis by (simp add: enqueue_lua_def)
next
  case (Some e)
  then obtain it where "e \<in> pendientes r" "r_item r e = Some (Valido it)"
    by (rule indice_pendienteD [OF assms])
  with Some show ?thesis by (simp add: enqueue_lua_def Let_def)
qed

lemma fresco:
  assumes "cola_inv r"
  shows "r_item r (r_contador r + 1) = None" "r_contador r + 1 \<notin> pendientes r"
    "r_contador r + 1 \<notin> completados r" "r_contador r + 1 \<notin> fallidos r" "r_claim r (r_contador r + 1) = None"
proof -
  let ?n = "r_contador r + 1"
  have "?n \<notin> {..r_contador r}" by simp
  then have "?n \<notin> dom (r_item r)" "?n \<notin> dom (r_claim r)"
      "?n \<notin> pendientes r \<union> completados r \<union> fallidos r"
    using assms unfolding cola_inv_def inv_ids_def by blast+
  then show "r_item r ?n = None" "?n \<notin> pendientes r" "?n \<notin> completados r" "?n \<notin> fallidos r"
      "r_claim r ?n = None"
    by (simp_all only: domIff Un_iff de_Morgan_disj not_not not_False_eq_True)
qed

lemma inv_enqueue [preserva]:
  assumes inv: "cola_inv r" and ok: "smart_ok (ae_smart_code a)" "ae_operacion a \<noteq> []"
  shows "cola_inv (snd (enqueue_lua (indice_key (ae_smart_code a) (ae_operacion a)) a r))"
proof (cases "r_indice r (indice_key (ae_smart_code a) (ae_operacion a))")
  case None
  let ?i = "r_contador r + 1"
  let ?it = "item_nuevo a ?i"
  have f: "fallidos r - {?i} = fallidos r" using fresco(4) [OF inv] by simp
  have s: "slot ?it = indice_key (ae_smart_code a) (ae_operacion a)"
    using slot_item_nuevo [OF ok(2)] .
  have campos: "it_id ?it = ?i" "it_smart_code ?it = ae_smart_code a" "it_estado ?it = PENDING"
    by (simp_all add: item_nuevo_def)
  have libre: "r_indice r (slot ?it) = None" using None s by simp
  have z: "zona (it_estado ?it) = Some PENDING" using campos by simp
  have sm: "smart_ok (it_smart_code ?it)" using ok campos by simp
  have "cola_inv (r\<lparr>r_contador := ?i, r_item := (r_item r)(?i := Some (Valido ?it)),
      r_estado := (r_estado r)(FAILED_FINAL := fallidos r - {?i}, PENDING := insert ?i (pendientes r)),
      r_zpend := zadd ?i (ae_proximo a) (r_zpend r), r_zcreado := zadd ?i (ae_now a) (r_zcreado r),
      r_indice := (r_indice r)(slot ?it := Some ?i)\<rparr>)"
    by (rule cola_inv_ingresa [OF inv campos(1) sm z libre fresco(2,3) [OF inv]]) simp_all
  with None f s show ?thesis
    by (simp add: enqueue_bajo_inv [OF inv] enqueue_inserta_def Let_def)
next
  case (Some e)
  then obtain it where it: "e \<in> pendientes r" "r_item r e = Some (Valido it)"
      "slot it = indice_key (ae_smart_code a) (ae_operacion a)" "item_coherente (r_estado r) e it"
    by (rule indice_pendienteD [OF inv])
  have "it_smart_code it = ae_smart_code a \<and> operacion_sufijo it = ae_operacion a"
    using it(3,4) ok(1)
    by (auto simp: slot_def item_coherente_def smart_ok_def dest: indice_key_inj_smart)
  then have "operacion_sufijo (item_sobrescrito a it) = operacion_sufijo it"
    using ok(2) by (simp add: item_sobrescrito_def operacion_sufijo_def)
  then have "cola_inv (r\<lparr>r_item := (r_item r)(e := Some (Valido (item_sobrescrito a it))),
      r_zpend := zadd e (ae_proximo a) (r_zpend r), r_claim := r_claim r\<rparr>)"
    by (intro cola_inv_actualiza [OF inv it(2)])
      (use zona_pendiente [OF inv it(1,2)] agenda_pendientes [OF inv] in auto)
  with Some it show ?thesis by (simp add: enqueue_bajo_inv [OF inv])
qed

lemma inv_replay [preserva]:
  assumes inv: "cola_inv r"
  shows "cola_inv (snd (replay_item_lua i now r))"
proof (cases "\<exists>it. r_item r i = Some (Valido it) \<and> it_estado it = FAILED_FINAL
    \<and> (r_indice r (slot it) = None \<or> r_indice r (slot it) = Some i)")
  case True
  then obtain it where it: "r_item r i = Some (Valido it)" "it_estado it = FAILED_FINAL"
      "r_indice r (slot it) = None \<or> r_indice r (slot it) = Some i" by blast
  let ?it = "item_reencolado now it"
  have co: "item_coherente (r_estado r) i it" using coherente [OF inv it(1)] .
  then have f: "i \<in> fallidos r" "it_id ?it = i" "smart_ok (it_smart_code ?it)"
    using it(2) by (auto simp: item_coherente_def)
  then have nf: "i \<notin> pendientes r" "i \<notin> completados r"
    using inv by (auto simp: cola_inv_def inv_items_def)
  have libre: "r_indice r (slot ?it) = None"
    using it(3) nf(1) inv by (auto elim: indice_pendienteD)
  have ctr: "i \<le> r_contador r"
    using inv f(1) unfolding cola_inv_def inv_ids_def by auto
  have z: "zona (it_estado ?it) = Some PENDING" by simp
  have comm: "(r_estado r)(PENDING := X, FAILED_FINAL := Y) = (r_estado r)(FAILED_FINAL := Y, PENDING := X)" for X Y
    by (rule fun_upd_twist) simp
  have "cola_inv (r\<lparr>r_contador := r_contador r, r_item := (r_item r)(i := Some (Valido ?it)),
      r_estado := (r_estado r)(FAILED_FINAL := fallidos r - {i}, PENDING := insert i (pendientes r)),
      r_zpend := zadd i now (r_zpend r), r_zcreado := r_zcreado r,
      r_indice := (r_indice r)(slot ?it := Some i)\<rparr>)"
    by (rule cola_inv_ingresa [OF inv f(2,3) z libre nf _ ctr]) simp
  then show ?thesis
    using it f(3) by (auto simp: replay_item_lua_def Let_def smart_ok_def comm)
next
  case False
  then show ?thesis
    using inv no_corrupto [OF inv] coherente [OF inv]
    by (auto simp: replay_item_lua_def Let_def item_coherente_def smart_ok_def
        split: option.splits crudo.splits)
qed

lemma inv_borra_pendiente:
  assumes inv: "cola_inv r" and k: "r_indice r k = Some i"
  shows "cola_inv (r\<lparr>r_item := (r_item r)(i := None), r_estado := (r_estado r)(PENDING := pendientes r - {i}),
      r_zpend := zrem i (r_zpend r), r_zcreado := zc, r_indice := (r_indice r)(k := None)\<rparr>)"
    (is "cola_inv ?r")
proof (rule cola_invI)
  have all: "inv_items r" "inv_indice r" "inv_ids r" "inv_agenda r"
    using inv by (auto simp: cola_inv_def)
  from k obtain it where it: "i \<in> pendientes r" "r_item r i = Some (Valido it)" "slot it = k"
    by (rule indice_pendienteD [OF inv])
  have otro: "item_coherente (r_estado ?r) j b" if "r_item r j = Some (Valido b)" "j \<noteq> i" for j b
  proof (rule item_coherente_otro)
    show "item_coherente (r_estado r) j b" using all(1) that by (simp add: inv_items_def)
    show "\<And>z. j \<in> r_estado r z \<Longrightarrow> j \<in> r_estado ?r z" using that by auto
  qed
  show "inv_items ?r"
    unfolding inv_items_def
  proof (intro conjI allI impI ballI)
    fix j b assume "r_item ?r j = Some (Valido b)"
    then show "item_coherente (r_estado ?r) j b" using otro by (cases "j = i") auto
  qed (use all(1) in \<open>auto simp: inv_items_def\<close>)
  show "inv_indice ?r"
    unfolding inv_indice_def
  proof (intro allI iffI)
    fix l j assume a: "r_indice ?r l = Some j"
    then have l: "r_indice r l = Some j" "l \<noteq> k" by (auto split: if_splits)
    then obtain b where b: "j \<in> pendientes r" "r_item r j = Some (Valido b)" "slot b = l"
      using all(2) unfolding inv_indice_def by blast
    moreover have "j \<noteq> i" using b it l(2) by auto
    ultimately show "j \<in> pendientes ?r \<and> (\<exists>b. r_item ?r j = Some (Valido b) \<and> slot b = l)" by auto
  next
    fix l j assume "j \<in> pendientes ?r \<and> (\<exists>b. r_item ?r j = Some (Valido b) \<and> slot b = l)"
    then obtain b where b: "j \<in> pendientes r" "j \<noteq> i" "r_item r j = Some (Valido b)" "slot b = l"
      by auto
    then have "r_indice r l = Some j" using all(2) unfolding inv_indice_def by blast
    moreover from this have "l \<noteq> k" using k b(2) by auto
    ultimately show "r_indice ?r l = Some j" by simp
  qed
  have "dom ((r_item r)(i := None)) \<subseteq> dom (r_item r)" by auto
  with all(3) show "inv_ids ?r" unfolding inv_ids_def by auto
  have "dom (r_claim r) \<inter> (dom (r_item r) - {i}) \<subseteq> pendientes r - {i}"
      "pendientes r - {i} \<subseteq> fst ` set (r_zpend r) - {i}"
    using all(4) unfolding inv_agenda_def by blast+
  then show "inv_agenda ?r" by (simp add: inv_agenda_def)
qed

lemma cancelar_casos:
  "snd (cancelar_pendiente_lua k e h r) = r \<or>
   (r_indice r k = Some e \<and>
    snd (cancelar_pendiente_lua k e h r) =
      r\<lparr>r_item := (r_item r)(e := None), r_estado := (r_estado r)(PENDING := pendientes r - {e}),
        r_zpend := zrem e (r_zpend r), r_zcreado := zrem e (r_zcreado r),
        r_indice := (r_indice r)(k := None)\<rparr>)"
  by (simp add: cancelar_pendiente_lua_def Let_def split: option.split crudo.split)

lemma inv_cancelar [preserva]: "cola_inv r \<Longrightarrow> cola_inv (snd (cancelar_pendiente_lua k e h r))"
  using cancelar_casos [of k e h r] inv_borra_pendiente [of r k e] by metis

lemma inv_purga [preserva]:
  assumes inv: "cola_inv r" and e: "e = COMPLETED \<or> e = FAILED_FINAL"
    and inc: "\<And>j. j \<in> set inc \<Longrightarrow> r_item r j = None" and dp: "set del \<inter> pendientes r = {}"
  shows "cola_inv (purga_lua e inc del r)" (is "cola_inv ?r")
proof (rule cola_invI)
  have all: "inv_items r" "inv_indice r" "inv_ids r" "inv_agenda r"
    using inv by (auto simp: cola_inv_def)
  have ip: "j \<notin> set inc" if "r_item r j \<noteq> None" for j
    using inc [of j] that by auto
  have p: "pendientes ?r = pendientes r" using e by (auto simp: purga_lua_def)
  have otro: "item_coherente (r_estado ?r) j b" if "r_item r j = Some (Valido b)" "j \<notin> set del" for j b
  proof (rule item_coherente_otro)
    show "item_coherente (r_estado r) j b" using all(1) that by (simp add: inv_items_def)
    show "\<And>z. j \<in> r_estado r z \<Longrightarrow> j \<in> r_estado ?r z" using that ip by (auto simp: purga_lua_def)
  qed
  show "inv_items ?r"
    unfolding inv_items_def
  proof (intro conjI allI impI ballI)
    fix j b assume "r_item ?r j = Some (Valido b)"
    then show "item_coherente (r_estado ?r) j b" using otro by (auto simp: purga_lua_def split: if_splits)
  next
    fix j assume "j \<in> pendientes ?r"
    then show "r_item ?r j \<noteq> None" using all(1) dp p by (auto simp: inv_items_def purga_lua_def)
  qed (use all(1) e in \<open>auto simp: inv_items_def purga_lua_def split: if_splits\<close>)
  show "inv_indice ?r"
    using all(2) dp unfolding inv_indice_def p by (auto simp: purga_lua_def)
  have di: "dom (r_item ?r) \<subseteq> dom (r_item r)" by (auto simp: purga_lua_def split: if_splits)
  have eq: "r_claim ?r = r_claim r" "r_contador ?r = r_contador r" "r_zpend ?r = r_zpend r"
    by (simp_all add: purga_lua_def)
  have st: "completados ?r \<subseteq> completados r" "fallidos ?r \<subseteq> fallidos r"
    by (auto simp: purga_lua_def)
  show "inv_ids ?r" using all(3) di st unfolding inv_ids_def p eq by blast
  show "inv_agenda ?r" using all(4) di unfolding inv_agenda_def p eq by blast
qed

subsection \<open>The queue as a state machine\<close>

text \<open>
  One step of the shared queue: any script, called by any process with any worker id and any
  arguments (an enqueue comes from a validated payload, so its code has the alphabet of
  \<^verbatim>\<open>Smart_Code__c\<close> and its category is one of the five of \<^verbatim>\<open>infer_operation_type\<close>), a write
  outside the queue, the passing of time, or the deletions of a purge. The last one, \<open>p_purga\<close>, is
  an assumption on the other processes and not a check of the code: \<^verbatim>\<open>_purgar_estado\<close> reads the
  items one by one and later deletes them in a pipeline that looks at nothing, so its deletions are
  such a step only when no id it read has become pending meanwhile. \<^verbatim>\<open>Cola_Purga\<close> models the purge
  with its reads and its blind pipeline as separate steps, and proves when they are this step.
\<close>

inductive paso_cola :: "redis \<Rightarrow> redis \<Rightarrow> bool" where
  p_enqueue: "smart_ok (ae_smart_code a) \<Longrightarrow> ae_operacion a \<in> set operaciones \<Longrightarrow>
     paso_cola r (snd (enqueue_lua (indice_key (ae_smart_code a) (ae_operacion a)) a r))"
| p_claim: "paso_cola r (snd (claim_item_lua i w px r))"
| p_lease: "paso_cola r (snd (extend_lease_lua i w px r))"
| p_success: "paso_cola r (snd (mark_success_lua i now w v r))"
| p_sfc_done: "paso_cola r (snd (mark_sfc_done_lua i k w v now resp reg ttl r))"
| p_fallo: "paso_cola r (snd (registrar_fallo_lua i w v e now def prox cons r))"
| p_replay: "paso_cola r (snd (replay_item_lua i now r))"
| p_diferir: "paso_cola r (snd (diferir_item_lua i prox now e v r))"
| p_cancelar: "paso_cola r (snd (cancelar_pendiente_lua k i h r))"
| p_purga: "e = COMPLETED \<or> e = FAILED_FINAL \<Longrightarrow> (\<And>j. j \<in> set inc \<Longrightarrow> r_item r j = None) \<Longrightarrow>
     set del \<inter> pendientes r = {} \<Longrightarrow> paso_cola r (purga_lua e inc del r)"
| p_idem: "paso_cola r (r\<lparr>r_idem := x\<rparr>)"
| p_checkpoint: "paso_cola r (r\<lparr>r_checkpoint := c\<rparr>)"
| p_lock: "paso_cola r (r\<lparr>r_lock := l\<rparr>)"
| p_token: "paso_cola r (r\<lparr>r_token := x\<rparr>)"
| p_cuota: "paso_cola r (r\<lparr>r_cuota := q\<rparr>)"
| p_tiempo: "0 \<le> t \<Longrightarrow> paso_cola r (r\<lparr>reloj := reloj r + t\<rparr>)"

lemma operaciones_no_vacias: "op \<in> set operaciones \<Longrightarrow> op \<noteq> []"
  by (auto simp: operaciones_def)

lemma paso_cola_inv: "paso_cola r r' \<Longrightarrow> cola_inv r \<Longrightarrow> cola_inv r'"
  by (induction rule: paso_cola.induct) (simp_all add: preserva operaciones_no_vacias)

definition cola_inicial :: "redis \<Rightarrow> bool" where
  "cola_inicial r = (r = redis_vacio)"

interpretation cola: maquina cola_inicial paso_cola cola_inv
  by unfold_locales (auto simp: cola_inicial_def cola_inv_vacio intro: paso_cola_inv)

end
