(* ===== verification/Cola_Contratos.thy ===== *)
theory Cola_Contratos
  imports Cola_Invariante
begin

text \<open>
  The contracts of the queue. \<open>transicion_vigilada\<close> is the contract that MARK_SUCCESS,
  MARK_SFC_DONE and REGISTRAR_FALLO share (ownership of the claim and version of the item);
  \<open>posesion\<close> is the contract of an owned key with an expiry, provided by the claims of the
  queue (and by the distributed lock, in \<^verbatim>\<open>Candado\<close>). The second half follows the version of an
  item through any run of the queue: the version only grows, and one version is one payload.
\<close>

subsection \<open>Guarded transitions\<close>

locale transicion_vigilada =
  fixes t :: "nat \<Rightarrow> string \<Rightarrow> nat \<Rightarrow> salida guion"
  assumes ajeno: "duenio r i \<noteq> Some w \<Longrightarrow> t i w v r = (Inr (Rechazo NotOwner), r)"
    and sin_item: "duenio r i = Some w \<Longrightarrow> r_item r i = None \<Longrightarrow>
      t i w v r = (Inr (Rechazo ItemNotFound), r\<lparr>r_claim := tdel (r_claim r) i\<rparr>)"
    and otra_version: "duenio r i = Some w \<Longrightarrow> r_item r i = Some (Valido it) \<Longrightarrow> version_o_1 it \<noteq> v \<Longrightarrow>
      t i w v r = (Inr (Rechazo VersionMismatch), r\<lparr>r_claim := tdel (r_claim r) i\<rparr>)"
    and corrupto: "duenio r i = Some w \<Longrightarrow> r_item r i = Some Corrupto \<Longrightarrow> t i w v r = (Inl ErrorLua, r)"
    and vigente: "duenio r i = Some w \<Longrightarrow> r_item r i = Some (Valido it) \<Longrightarrow> version_o_1 it = v \<Longrightarrow>
      fst (t i w v r) = Inr Exito"
begin

lemma exitoD:
  assumes "fst (t i w v r) = Inr Exito"
  shows "duenio r i = Some w \<and> (\<exists>it. r_item r i = Some (Valido it) \<and> version_o_1 it = v)"
proof (cases "duenio r i = Some w")
  case False
  with assms ajeno [of r i w v] show ?thesis by simp
next
  case True
  show ?thesis
  proof (cases "r_item r i")
    case None
    with assms sin_item [OF True] show ?thesis by simp
  next
    case (Some c)
    show ?thesis
    proof (cases c)
      case Corrupto
      with assms Some corrupto [OF True] show ?thesis by simp
    next
      case (Valido it)
      with assms Some True otra_version [OF True] show ?thesis by (cases "version_o_1 it = v") auto
    qed
  qed
qed

lemma exito_iff:
  "fst (t i w v r) = Inr Exito \<longleftrightarrow>
     duenio r i = Some w \<and> (\<exists>it. r_item r i = Some (Valido it) \<and> version_o_1 it = v)"
  using exitoD vigente by blast

text \<open>A refused transition never touches the item, the state sets, the schedule or the slots.\<close>

lemma rechazo_marco:
  assumes "fst (t i w v r) \<noteq> Inr Exito"
  shows "snd (t i w v r) = r \<or> snd (t i w v r) = r\<lparr>r_claim := tdel (r_claim r) i\<rparr>"
proof (cases "duenio r i = Some w")
  case False
  then show ?thesis using ajeno [of r i w v] by simp
next
  case True
  show ?thesis
  proof (cases "r_item r i")
    case None
    then show ?thesis using sin_item [OF True] by simp
  next
    case (Some c)
    show ?thesis
    proof (cases c)
      case Corrupto
      with Some show ?thesis using corrupto [OF True] by simp
    next
      case (Valido it)
      then have "version_o_1 it \<noteq> v" using assms Some vigente [OF True] by auto
      with Valido Some show ?thesis using otra_version [OF True] by simp
    qed
  qed
qed

end

interpretation ts: transicion_vigilada "\<lambda>i w v. mark_success_lua i now w v" for now
  by unfold_locales (simp_all add: mark_success_lua_def Let_def)

interpretation td: transicion_vigilada "\<lambda>i w v. mark_sfc_done_lua i k w v now resp reg ttl" for k now resp reg ttl
  by unfold_locales (simp_all add: mark_sfc_done_lua_def)

interpretation tf: transicion_vigilada "\<lambda>i w v. registrar_fallo_lua i w v e now def prox cons" for e now "def" prox cons
  by unfold_locales (simp_all add: registrar_fallo_lua_def Let_def)

subsection \<open>Owned keys with an expiry\<close>

locale posesion =
  fixes dueno_de :: "'s \<Rightarrow> 'k \<Rightarrow> string option"
    and tomar :: "'k \<Rightarrow> string \<Rightarrow> 's \<Rightarrow> bool \<times> 's"
    and renovar :: "'k \<Rightarrow> string \<Rightarrow> 's \<Rightarrow> bool \<times> 's"
  assumes tomar_libre: "fst (tomar k w s) \<Longrightarrow> dueno_de s k = None \<and> dueno_de (snd (tomar k w s)) k = Some w"
    and tomar_ocupado: "\<not> fst (tomar k w s) \<Longrightarrow> snd (tomar k w s) = s"
    and tomar_otro: "k' \<noteq> k \<Longrightarrow> dueno_de (snd (tomar k w s)) k' = dueno_de s k'"
    and renovar_ok: "fst (renovar k w s) \<longleftrightarrow> dueno_de s k = Some w"
    and renovar_marco: "dueno_de (snd (renovar k w s)) k' = dueno_de s k'"
begin

text \<open>Mutual exclusion: while one owner holds the key nobody else takes it or renews it.\<close>

lemma exclusion:
  assumes "dueno_de s k = Some w"
  shows "\<not> fst (tomar k w' s)" "w' \<noteq> w \<Longrightarrow> \<not> fst (renovar k w' s)" "snd (tomar k w' s) = s"
proof -
  show "\<not> fst (tomar k w' s)" using tomar_libre [of k w' s] assms by auto
  then show "snd (tomar k w' s) = s" by (rule tomar_ocupado)
  show "\<not> fst (renovar k w' s)" if "w' \<noteq> w" using that renovar_ok [of k w' s] assms by auto
qed

text \<open>Of two takers in a row at most one wins.\<close>

lemma un_ganador: "\<not> (fst (tomar k w s) \<and> fst (tomar k w' (snd (tomar k w s))))"
  using tomar_libre [of k w s] exclusion(1) [of "snd (tomar k w s)" k w w'] by blast

end

locale posesion_liberable = posesion dueno_de tomar renovar
  for dueno_de :: "'s \<Rightarrow> 'k \<Rightarrow> string option"
    and tomar :: "'k \<Rightarrow> string \<Rightarrow> 's \<Rightarrow> bool \<times> 's"
    and renovar :: "'k \<Rightarrow> string \<Rightarrow> 's \<Rightarrow> bool \<times> 's" +
  fixes soltar :: "'k \<Rightarrow> string \<Rightarrow> 's \<Rightarrow> bool \<times> 's"
  assumes soltar_propio: "dueno_de s k = Some w \<Longrightarrow> fst (soltar k w s) \<and> dueno_de (snd (soltar k w s)) k = None"
    and soltar_ajeno: "dueno_de s k \<noteq> Some w \<Longrightarrow> soltar k w s = (False, s)"
    and soltar_otro: "k' \<noteq> k \<Longrightarrow> dueno_de (snd (soltar k w s)) k' = dueno_de s k'"
begin

text \<open>A stale owner that releases late never frees the lock of its successor.\<close>

lemma soltar_tardio:
  assumes "dueno_de s k = Some w'" "w \<noteq> w'"
  shows "dueno_de (snd (soltar k w s)) k = Some w'"
  using soltar_ajeno [of s k w] assms by auto

lemma soltar_idempotente:
  "dueno_de s k = Some w \<Longrightarrow> soltar k w (snd (soltar k w s)) = (False, snd (soltar k w s))"
  using soltar_propio [of s k w] soltar_ajeno [of "snd (soltar k w s)" k w] by auto

end

text \<open>The claims of the queue provide the contract, at the lease of 60 seconds of the worker.\<close>

definition tomar_claim :: "nat \<Rightarrow> string \<Rightarrow> redis \<Rightarrow> bool \<times> redis" where
  "tomar_claim i w r =
     (case fst (claim_item_lua i w 60000 r) of Inr (Reclamado _) \<Rightarrow> True | _ \<Rightarrow> False,
      snd (claim_item_lua i w 60000 r))"

definition renovar_claim :: "nat \<Rightarrow> string \<Rightarrow> redis \<Rightarrow> bool \<times> redis" where
  "renovar_claim i w r =
     (fst (extend_lease_lua i w 60000 r) = Inr True, snd (extend_lease_lua i w 60000 r))"

interpretation reclamo: posesion duenio tomar_claim renovar_claim
proof
  fix k k' :: nat and w and s :: redis
  show "fst (tomar_claim k w s) \<Longrightarrow> duenio s k = None \<and> duenio (snd (tomar_claim k w s)) k = Some w"
    by (auto simp: tomar_claim_def claim_item_lua_def duenio_def Let_def
        split: option.splits crudo.splits if_splits)
  show "\<not> fst (tomar_claim k w s) \<Longrightarrow> snd (tomar_claim k w s) = s"
    by (auto simp: tomar_claim_def claim_item_lua_def Let_def
        split: option.splits crudo.splits if_splits)
  show "k' \<noteq> k \<Longrightarrow> duenio (snd (tomar_claim k w s)) k' = duenio s k'"
    by (auto simp: tomar_claim_def claim_item_lua_def duenio_def Let_def
        split: option.splits crudo.splits)
  show "fst (renovar_claim k w s) = (duenio s k = Some w)"
    by (simp add: renovar_claim_def extend_lease_lua_def)
  show "duenio (snd (renovar_claim k w s)) k' = duenio s k'"
    by (simp add: renovar_claim_def extend_lease_lua_def duenio_def tget_texpire)
qed

subsection \<open>Versions along a run\<close>

definition sigue :: "item \<Rightarrow> redis \<Rightarrow> nat \<Rightarrow> bool" where
  "sigue a r i =
     (case r_item r i of
        None \<Rightarrow> i \<le> r_contador r
      | Some Corrupto \<Rightarrow> False
      | Some (Valido b) \<Rightarrow>
          version_o_1 a < version_o_1 b
          \<or> (version_o_1 a = version_o_1 b \<and> it_payload a = it_payload b
             \<and> it_payload_hash a = it_payload_hash b))"

lemma sigue_refl: "r_item r i = Some (Valido a) \<Longrightarrow> sigue a r i"
  by (simp add: sigue_def)

text \<open>What a step may do to one item: keep its content and version, raise its version, or delete
  it for good.\<close>

definition evoluciona :: "redis \<Rightarrow> redis \<Rightarrow> nat \<Rightarrow> bool" where
  "evoluciona r r' i =
     (r_contador r \<le> r_contador r' \<and>
      (case r_item r i of
         None \<Rightarrow> i \<le> r_contador r \<longrightarrow> r_item r' i = None
       | Some c \<Rightarrow> (case r_item r' i of
           None \<Rightarrow> True
         | Some d \<Rightarrow> (case (c, d) of
             (Valido a, Valido b) \<Rightarrow>
               version_o_1 a < version_o_1 b
               \<or> (version_o_1 a = version_o_1 b \<and> it_payload a = it_payload b
                  \<and> it_payload_hash a = it_payload_hash b)
           | _ \<Rightarrow> c = d))))"

lemma sigue_paso:
  assumes s: "sigue a r i" and e: "evoluciona r r' i" and inv: "cola_inv r"
  shows "sigue a r' i"
proof -
  have c: "r_contador r \<le> r_contador r'" using e by (simp add: evoluciona_def)
  show ?thesis
  proof (cases "r_item r i")
    case None
    with s e c show ?thesis by (simp add: sigue_def evoluciona_def)
  next
    case (Some d)
    with s obtain b where b: "r_item r i = Some (Valido b)"
      by (cases d) (simp_all add: sigue_def)
    then have "i \<in> dom (r_item r)" by blast
    then have "i \<le> r_contador r'" using inv c unfolding cola_inv_def inv_ids_def by fastforce
    with s e b show ?thesis
      by (cases "r_item r' i") (auto simp: sigue_def evoluciona_def split: crudo.splits)
  qed
qed

lemma evoluciona_marco [simp]:
  "r_item r' i = r_item r i \<Longrightarrow> r_contador r' = r_contador r \<Longrightarrow> evoluciona r r' i"
  by (simp add: evoluciona_def split: option.split crudo.split)

lemma libera_indice_marco [simp]:
  "r_item (libera_indice it r) = r_item r" "r_contador (libera_indice it r) = r_contador r"
  "r_estado (libera_indice it r) = r_estado r" "r_zpend (libera_indice it r) = r_zpend r"
  "r_claim (libera_indice it r) = r_claim r" "r_idem (libera_indice it r) = r_idem r"
  "reloj (libera_indice it r) = reloj r"
  by (simp_all add: libera_indice_def)

lemma evoluciona_item:
  assumes "r_item r i = Some (Valido it)" "r_item r' = (r_item r)(i := Some (Valido it'))"
    and "r_contador r' = r_contador r"
    and "version_o_1 it < version_o_1 it' \<or> (version_o_1 it = version_o_1 it' \<and> it_payload it = it_payload it'
           \<and> it_payload_hash it = it_payload_hash it')"
  shows "evoluciona r r' j"
  using assms by (cases "j = i") (auto simp: evoluciona_def split: option.splits crudo.splits)

lemma item_sfc_done_hash [simp]: "it_payload_hash (item_sfc_done x now it) = it_payload_hash it"
  by (simp add: item_sfc_done_def Let_def split: option.splits)

lemma item_fallado_hash [simp]: "it_payload_hash (item_fallado e now d p c it) = it_payload_hash it"
  by (simp add: item_fallado_def Let_def)

lemma evoluciona_enqueue: "cola_inv r \<Longrightarrow> evoluciona r (snd (enqueue_lua k a r)) j"
proof (cases "r_indice r k")
  case None
  assume inv: "cola_inv r"
  with None fresco [OF inv] show ?thesis
    by (cases "j = r_contador r + 1")
      (auto simp: enqueue_lua_def enqueue_inserta_def Let_def evoluciona_def split: option.splits crudo.splits)
next
  case (Some e)
  assume inv: "cola_inv r"
  from Some obtain it where "r_item r e = Some (Valido it)" by (rule indice_pendienteD [OF inv])
  with Some show ?thesis
    by (intro evoluciona_item [of r e it _ "item_sobrescrito a it"]) (auto simp: enqueue_bajo_inv [OF inv])
qed

lemma evoluciona_claim: "evoluciona r (snd (claim_item_lua i w px r)) j"
proof (cases "snd (claim_item_lua i w px r) = r")
  case False
  then obtain it where "r_item r i = Some (Valido it)"
      "snd (claim_item_lua i w px r) =
         r\<lparr>r_item := (r_item r)(i := Some (Valido (it\<lparr>it_estado := PROCESSING\<rparr>))),
           r_claim := tset (reloj r) px (r_claim r) i w\<rparr>"
    by (auto simp: claim_item_lua_def Let_def split: option.splits crudo.splits if_splits)
  then show ?thesis
    by (intro evoluciona_item [of r i it _ "it\<lparr>it_estado := PROCESSING\<rparr>"]) (auto simp: version_o_1_def)
qed simp

lemma evoluciona_success: "evoluciona r (snd (mark_success_lua i now w v r)) j"
proof (cases "fst (mark_success_lua i now w v r) = Inr Exito")
  case True
  from ts.exitoD [OF True] obtain it where
    it: "duenio r i = Some w" "r_item r i = Some (Valido it)" "version_o_1 it = v" by blast
  then show ?thesis
    by (intro evoluciona_item [of r i it _ "it\<lparr>it_estado := COMPLETED, it_updated_at := Some now\<rparr>"])
      (auto simp: mark_success_lua_def Let_def version_o_1_def)
next
  case False
  with ts.rechazo_marco [OF False] show ?thesis by auto
qed

lemma evoluciona_sfc_done: "evoluciona r (snd (mark_sfc_done_lua i k w v now resp reg ttl r)) j"
proof (cases "fst (mark_sfc_done_lua i k w v now resp reg ttl r) = Inr Exito")
  case True
  from td.exitoD [OF True] obtain it where
    it: "duenio r i = Some w" "r_item r i = Some (Valido it)" "version_o_1 it = v" by blast
  then show ?thesis
    by (intro evoluciona_item [of r i it _ "item_sfc_done resp now it"]) (auto simp: mark_sfc_done_lua_def)
next
  case False
  with td.rechazo_marco [OF False] show ?thesis by auto
qed

lemma evoluciona_fallo: "evoluciona r (snd (registrar_fallo_lua i w v e now def prox cons r)) j"
proof (cases "fst (registrar_fallo_lua i w v e now def prox cons r) = Inr Exito")
  case True
  from tf.exitoD [OF True] obtain it where
    it: "duenio r i = Some w" "r_item r i = Some (Valido it)" "version_o_1 it = v" by blast
  then show ?thesis
    by (intro evoluciona_item [of r i it _ "item_fallado e now def prox cons it"])
      (auto simp: registrar_fallo_lua_def Let_def)
next
  case False
  with tf.rechazo_marco [OF False] show ?thesis by auto
qed

lemma evoluciona_replay: "evoluciona r (snd (replay_item_lua i now r)) j"
proof (cases "snd (replay_item_lua i now r) = r")
  case False
  then obtain it where it: "r_item r i = Some (Valido it)"
      "r_item (snd (replay_item_lua i now r)) = (r_item r)(i := Some (Valido (item_reencolado now it)))"
      "r_contador (snd (replay_item_lua i now r)) = r_contador r"
    by (auto simp: replay_item_lua_def Let_def split: option.splits crudo.splits if_splits)
  then show ?thesis by (intro evoluciona_item [of r i it _ "item_reencolado now it"]) auto
qed simp

lemma evoluciona_diferir: "evoluciona r (snd (diferir_item_lua i prox now e v r)) j"
proof (cases "snd (diferir_item_lua i prox now e v r) = r")
  case False
  let ?f = "\<lambda>it. it\<lparr>it_proximo_reintento_at := Some prox, it_updated_at := Some now, it_ultimo_error := Some e\<rparr>"
  from False obtain it where it: "r_item r i = Some (Valido it)"
      "snd (diferir_item_lua i prox now e v r) =
         r\<lparr>r_item := (r_item r)(i := Some (Valido (?f it))), r_zpend := zadd i prox (r_zpend r),
           r_claim := tdel (r_claim r) i\<rparr>"
    by (auto simp: diferir_item_lua_def split: option.splits crudo.splits if_splits)
  then show ?thesis by (intro evoluciona_item [of r i it _ "?f it"]) (auto simp: version_o_1_def)
qed simp

lemma evoluciona_cancelar: "evoluciona r (snd (cancelar_pendiente_lua k e h r)) j"
  using cancelar_casos [of k e h r]
  by (auto simp: evoluciona_def split: option.splits crudo.splits if_splits)

lemma evoluciona_purga: "evoluciona r (purga_lua e inc del r) j"
  by (auto simp: evoluciona_def purga_lua_def split: option.splits crudo.splits)

lemma paso_evoluciona: "paso_cola r r' \<Longrightarrow> cola_inv r \<Longrightarrow> evoluciona r r' j"
  by (induction rule: paso_cola.induct)
    (simp_all add: evoluciona_enqueue evoluciona_claim evoluciona_success evoluciona_sfc_done
      evoluciona_fallo evoluciona_replay evoluciona_diferir evoluciona_cancelar evoluciona_purga
      extend_lease_lua_def)

lemma sigue_estrella:
  assumes "paso_cola\<^sup>*\<^sup>* r r'" "cola_inv r" "sigue a r i"
  shows "sigue a r' i"
  using assms
proof (induction rule: rtranclp_induct)
  case base
  then show ?case by simp
next
  case (step s t)
  have "cola_inv s" using cola.inv_estrella [OF step.hyps(1) step.prems(1)] .
  with step show ?case using sigue_paso [OF _ paso_evoluciona] by blast
qed

text \<open>One version of an item is one payload, in every later state of the queue.\<close>

lemma version_determina_payload:
  assumes run: "paso_cola\<^sup>*\<^sup>* r r'" and inv: "cola_inv r"
    and a: "r_item r i = Some (Valido a)" and b: "r_item r' i = Some (Valido b)"
  shows "version_o_1 a \<le> version_o_1 b"
    and "version_o_1 a = version_o_1 b \<Longrightarrow> it_payload b = it_payload a \<and> it_payload_hash b = it_payload_hash a"
  using sigue_estrella [OF run inv sigue_refl [OF a]] b by (auto simp: sigue_def)

end
