(* ===== verification/Efectos.thy ===== *)
theory Efectos
  imports Cola_Contratos
begin

text \<open>
  The effects of the asynchronous Python code. An action runs in a world: the Redis database,
  the turns that the other processes take before each Redis command of this one, the log of
  what leaves the process (mails, HTTP calls, metrics), what the authenticated client puts on the wire, the tokens of the SFC in memory and what the other coroutines of
  the process do to them each time this one gets the local lock (\<open>w_relevos\<close>). Every \<^verbatim>\<open>await self.redis...\<close> takes one
  turn: first the other processes act on the database (\<open>t_otros\<close>), then the command succeeds,
  fails before reaching Redis or fails after Redis executed it (a lost reply). A theorem that
  holds for every list of turns therefore holds for every interleaving at the await points and
  for every pattern of connection failures. An exhausted list means that nobody interferes and
  nothing fails.
\<close>

datatype falla = Bien | CaeAntes | CaeDespues

record turno =
  t_otros :: "redis \<Rightarrow> redis"
  t_falla :: falla

datatype evento =
    Correo string string
  | LlamadaSFC string dict
  | Webhook string string
  | Metrica string "string list"
  | Registro string
  | Http string "string list" dict "(int \<times> string) option"
  | Bajada string string
  | Subida string string string bool

text \<open>\<open>Bajada u t\<close>: the download of the URL \<open>u\<close> gave the content \<open>t\<close>. \<open>Subida b k t ok\<close>: the content \<open>t\<close> was put under
the key \<open>k\<close> of the bucket \<open>b\<close>, and S3 accepted it or not.\<close>

text \<open>A request that the authenticated client puts on the wire: where, the method, the \<^verbatim>\<open>Authorization\<close> and signature headers, the
body and the answer.\<close>

record salida_http =
  en_url :: string
  en_metodo :: string
  en_portador :: string
  en_firma :: string
  en_cuerpo :: string
  en_respuesta :: "(int \<times> string) option"

record mundo =
  w_redis :: redis
  w_cliente :: bool
  w_turnos :: "turno list"
  w_bitacora :: "evento list"
  w_auth :: tokens
  w_relevos :: "(tokens \<Rightarrow> tokens) list"
  w_envios :: "salida_http list"

type_synonym 'a accion = "mundo \<Rightarrow> 'a resultado \<times> mundo"

subsection \<open>Sequencing, exceptions and time\<close>

definition devuelve :: "'a \<Rightarrow> 'a accion" where
  "devuelve x w = (Inr x, w)"

definition lanza :: "excepcion \<Rightarrow> 'a accion" where
  "lanza e w = (Inl e, w)"

definition luego :: "'a accion \<Rightarrow> ('a \<Rightarrow> 'b accion) \<Rightarrow> 'b accion" where
  "luego m f w = (case m w of (Inl e, w') \<Rightarrow> (Inl e, w') | (Inr x, w') \<Rightarrow> f x w')"

definition intenta :: "'a accion \<Rightarrow> (excepcion \<Rightarrow> 'a accion) \<Rightarrow> 'a accion" where
  "intenta m h w = (case m w of (Inl e, w') \<Rightarrow> h e w' | (Inr x, w') \<Rightarrow> (Inr x, w'))"

text \<open>\<^verbatim>\<open>try ... finally\<close>: the final action runs in both cases; if it raises, its exception wins.\<close>

definition finalmente :: "'a accion \<Rightarrow> unit accion \<Rightarrow> 'a accion" where
  "finalmente m fin w =
     (case m w of (x, w') \<Rightarrow> (case fin w' of (Inl e, w'') \<Rightarrow> (Inl e, w'') | (Inr _, w'') \<Rightarrow> (x, w'')))"

definition emite :: "evento \<Rightarrow> unit accion" where
  "emite ev w = (Inr (), w\<lparr>w_bitacora := w_bitacora w @ [ev]\<rparr>)"

definition ahora :: "int accion" where
  "ahora w = (Inr (reloj (w_redis w)), w)"

definition avanza :: "int \<Rightarrow> redis \<Rightarrow> redis" where
  "avanza ms r = r\<lparr>reloj := reloj r + max 0 ms\<rparr>"

definition duerme :: "int \<Rightarrow> unit accion" where
  "duerme ms w = (Inr (), w\<lparr>w_redis := avanza ms (w_redis w)\<rparr>)"

definition hay_cliente :: "bool accion" where
  "hay_cliente w = (Inr (w_cliente w), w)"

text \<open>One command to Redis.\<close>

definition redis_cmd :: "(redis \<Rightarrow> 'a resultado \<times> redis) \<Rightarrow> 'a accion" where
  "redis_cmd c w =
     (case w_turnos w of
        [] \<Rightarrow> (fst (c (w_redis w)), w\<lparr>w_redis := snd (c (w_redis w))\<rparr>)
      | t # ts \<Rightarrow>
          let r = t_otros t (w_redis w)
          in (case t_falla t of
                Bien \<Rightarrow> (fst (c r), w\<lparr>w_redis := snd (c r), w_turnos := ts\<rparr>)
              | CaeAntes \<Rightarrow> (Inl ErrorRedis, w\<lparr>w_redis := r, w_turnos := ts\<rparr>)
              | CaeDespues \<Rightarrow> (Inl ErrorRedis, w\<lparr>w_redis := snd (c r), w_turnos := ts\<rparr>)))"

text \<open>
  The persistence loop of \<^verbatim>\<open>marcar_sfc_completado\<close>, \<^verbatim>\<open>registrar_exito\<close> and \<^verbatim>\<open>registrar_encolado\<close>:
  attempts \<open>i, i+1, ..., n\<close> with a pause of half a second times the attempt between them, and a
  \<^verbatim>\<open>RuntimeError\<close> after the last one. \<open>k\<close> counts the attempts that remain.
\<close>

fun intentos_desde :: "nat \<Rightarrow> nat \<Rightarrow> nat \<Rightarrow> string \<Rightarrow> 'a accion \<Rightarrow> 'a accion" where
  "intentos_desde n i 0 msg m = lanza (RuntimeError msg)"
| "intentos_desde n i (Suc k) msg m =
     intenta m (\<lambda>e. luego (if i < n then duerme (500 * int i) else devuelve ())
                      (\<lambda>_. intentos_desde n (i + 1) k msg m))"

definition con_reintentos :: "nat \<Rightarrow> string \<Rightarrow> 'a accion \<Rightarrow> 'a accion" where
  "con_reintentos n msg m = intentos_desde n 1 n msg m"

text \<open>\<^verbatim>\<open>for x in xs: ...\<close>, collecting the values that the body returns.\<close>

fun para_cada :: "('a \<Rightarrow> 'b accion) \<Rightarrow> 'a list \<Rightarrow> 'b list accion" where
  "para_cada f [] = devuelve []"
| "para_cada f (x # xs) = luego (f x) (\<lambda>y. luego (para_cada f xs) (\<lambda>ys. devuelve (y # ys)))"

lemma luego_devuelve [simp]: "luego (devuelve x) f = f x"
  by (simp add: luego_def devuelve_def fun_eq_iff)

lemma luego_lanza [simp]: "luego (lanza e) f = lanza e"
  by (simp add: luego_def lanza_def fun_eq_iff)

lemma luego_asoc: "luego (luego m f) g = luego m (\<lambda>x. luego (f x) g)"
  by (simp add: luego_def fun_eq_iff split: prod.split sum.split)

lemma intenta_devuelve [simp]: "intenta (devuelve x) h = devuelve x"
  by (simp add: intenta_def devuelve_def fun_eq_iff)

lemma intenta_lanza [simp]: "intenta (lanza e) h = h e"
  by (simp add: intenta_def lanza_def fun_eq_iff)

subsection \<open>What an action does to the database\<close>

definition entorno :: "(redis \<Rightarrow> redis \<Rightarrow> bool) \<Rightarrow> mundo \<Rightarrow> bool" where
  "entorno R w = (\<forall>t \<in> set (w_turnos w). \<forall>r. R r (t_otros t r))"

definition respeta :: "(redis \<Rightarrow> redis \<Rightarrow> bool) \<Rightarrow> 'a accion \<Rightarrow> bool" where
  "respeta R m =
     (\<forall>w. entorno R w \<longrightarrow> R (w_redis w) (w_redis (snd (m w))) \<and> entorno R (snd (m w)))"

definition salvo :: "(redis \<Rightarrow> redis \<Rightarrow> bool) \<Rightarrow> ('a \<Rightarrow> bool) \<Rightarrow> 'a accion \<Rightarrow> bool" where
  "salvo R Q m =
     (\<forall>w x w'. entorno R w \<longrightarrow> m w = (x, w') \<longrightarrow>
        entorno R w' \<and> (R (w_redis w) (w_redis w') \<or> (\<exists>z. x = Inr z \<and> Q z)))"

definition asegura :: "(redis \<Rightarrow> redis \<Rightarrow> bool) \<Rightarrow> ('a \<Rightarrow> redis \<Rightarrow> redis \<Rightarrow> bool) \<Rightarrow> 'a accion \<Rightarrow> bool" where
  "asegura R Q m =
     (\<forall>w y w'. entorno R w \<longrightarrow> m w = (Inr y, w') \<longrightarrow> Q y (w_redis w) (w_redis w'))"

definition absorbe :: "(redis \<Rightarrow> redis \<Rightarrow> bool) \<Rightarrow> ('a \<Rightarrow> redis \<Rightarrow> redis \<Rightarrow> bool) \<Rightarrow> bool" where
  "absorbe R Q =
     ((\<forall>y r s t. R r s \<longrightarrow> Q y s t \<longrightarrow> Q y r t) \<and> (\<forall>y r s t. Q y r s \<longrightarrow> R s t \<longrightarrow> Q y r t))"

lemma respetaD:
  "respeta R m \<Longrightarrow> entorno R w \<Longrightarrow> R (w_redis w) (w_redis (snd (m w)))"
  "respeta R m \<Longrightarrow> entorno R w \<Longrightarrow> entorno R (snd (m w))"
  by (simp_all add: respeta_def)

text \<open>
  A guarantee \<open>R\<close> (reflexive, transitive, kept by the passing of time) carries over from the
  Redis commands of an action to the action, whatever the turns and the failures, when the other
  processes keep it too.
\<close>

locale garantia =
  fixes R :: "redis \<Rightarrow> redis \<Rightarrow> bool"
  assumes nada: "R r r"
    and trans: "R r s \<Longrightarrow> R s t \<Longrightarrow> R r t"
    and tiempo: "0 \<le> d \<Longrightarrow> R r (r\<lparr>reloj := reloj r + d\<rparr>)"
begin

lemma devuelve: "respeta R (devuelve x)"
  by (simp add: respeta_def devuelve_def nada)

lemma lanza: "respeta R (lanza e)"
  by (simp add: respeta_def lanza_def nada)

lemma luego:
  assumes "respeta R m" "\<And>x. respeta R (f x)"
  shows "respeta R (luego m f)"
  unfolding respeta_def
proof (intro allI impI)
  fix w assume w: "entorno R w"
  obtain x w' where m: "m w = (x, w')" by (cases "m w")
  with respetaD [OF assms(1) w] have 1: "R (w_redis w) (w_redis w')" "entorno R w'" by simp_all
  show "R (w_redis w) (w_redis (snd (luego m f w))) \<and> entorno R (snd (luego m f w))"
  proof (cases x)
    case (Inr y)
    have r: "R (w_redis w') (w_redis (snd (f y w')))" "entorno R (snd (f y w'))"
      using respetaD [OF assms(2) 1(2)] by auto
    with Inr m trans [OF 1(1) r(1)] show ?thesis by (simp add: luego_def)
  qed (use m 1 in \<open>simp add: luego_def\<close>)
qed

lemma intenta:
  assumes "respeta R m" "\<And>e. respeta R (h e)"
  shows "respeta R (intenta m h)"
  unfolding respeta_def
proof (intro allI impI)
  fix w assume w: "entorno R w"
  obtain x w' where m: "m w = (x, w')" by (cases "m w")
  with respetaD [OF assms(1) w] have 1: "R (w_redis w) (w_redis w')" "entorno R w'" by simp_all
  show "R (w_redis w) (w_redis (snd (intenta m h w))) \<and> entorno R (snd (intenta m h w))"
  proof (cases x)
    case (Inl e)
    have r: "R (w_redis w') (w_redis (snd (h e w')))" "entorno R (snd (h e w'))"
      using respetaD [OF assms(2) 1(2)] by auto
    with Inl m trans [OF 1(1) r(1)] show ?thesis by (simp add: intenta_def)
  qed (use m 1 in \<open>simp add: intenta_def\<close>)
qed

lemma finalmente:
  assumes "respeta R m" "respeta R fin"
  shows "respeta R (finalmente m fin)"
  unfolding respeta_def
proof (intro allI impI)
  fix w assume w: "entorno R w"
  obtain x w' where m: "m w = (x, w')" by (cases "m w")
  with respetaD [OF assms(1) w] have 1: "R (w_redis w) (w_redis w')" "entorno R w'" by simp_all
  have r: "R (w_redis w') (w_redis (snd (fin w')))" "entorno R (snd (fin w'))"
    using respetaD [OF assms(2) 1(2)] by auto
  with m trans [OF 1(1) r(1)]
  show "R (w_redis w) (w_redis (snd (finalmente m fin w))) \<and> entorno R (snd (finalmente m fin w))"
    by (cases "fin w'"; cases "fst (fin w')") (simp_all add: finalmente_def)
qed

lemma emite: "respeta R (emite ev)"
  by (simp add: respeta_def emite_def nada entorno_def)

lemma ahora: "respeta R ahora"
  by (simp add: respeta_def ahora_def nada)

lemma hay_cliente: "respeta R hay_cliente"
  by (simp add: respeta_def hay_cliente_def nada)

lemma duerme: "respeta R (duerme ms)"
  by (simp add: respeta_def duerme_def avanza_def tiempo entorno_def)

lemma redis_cmd:
  assumes "\<And>r. R r (snd (c r))"
  shows "respeta R (redis_cmd c)"
  unfolding respeta_def
proof (intro allI impI)
  fix w assume w: "entorno R w"
  show "R (w_redis w) (w_redis (snd (redis_cmd c w))) \<and> entorno R (snd (redis_cmd c w))"
  proof (cases "w_turnos w")
    case Nil
    then show ?thesis using assms w by (simp add: redis_cmd_def entorno_def)
  next
    case (Cons t ts)
    then have 1: "R (w_redis w) (t_otros t (w_redis w))" using w by (simp add: entorno_def)
    have "R (w_redis w) (snd (c (t_otros t (w_redis w))))" using trans [OF 1 assms] .
    with 1 Cons w show ?thesis
      by (cases "t_falla t") (auto simp: redis_cmd_def entorno_def Let_def)
  qed
qed

lemma cmd_InrE:
  assumes "redis_cmd c w = (Inr x, w')" "entorno R w"
  shows "\<exists>r. c r = (Inr x, w_redis w') \<and> R (w_redis w) r"
proof (cases "w_turnos w")
  case Nil
  with assms(1) have "c (w_redis w) = (Inr x, w_redis w')"
    by (auto simp: redis_cmd_def intro!: prod_eqI)
  then show ?thesis using nada by blast
next
  case (Cons t ts)
  with assms(1) have "c (t_otros t (w_redis w)) = (Inr x, w_redis w')"
    by (cases "t_falla t") (auto simp: redis_cmd_def Let_def intro!: prod_eqI)
  moreover have "R (w_redis w) (t_otros t (w_redis w))" using assms(2) Cons by (simp add: entorno_def)
  ultimately show ?thesis by blast
qed

lemma si: "(b \<Longrightarrow> respeta R m) \<Longrightarrow> (\<not> b \<Longrightarrow> respeta R m') \<Longrightarrow> respeta R (if b then m else m')"
  by simp

lemma intentos_desde: "respeta R m \<Longrightarrow> respeta R (intentos_desde n i k msg m)"
  by (induction k arbitrary: i) (auto intro!: lanza intenta luego duerme devuelve)

lemma con_reintentos: "respeta R m \<Longrightarrow> respeta R (con_reintentos n msg m)"
  by (simp add: con_reintentos_def intentos_desde)

lemma para_cada: "(\<And>x. x \<in> set xs \<Longrightarrow> respeta R (f x)) \<Longrightarrow> respeta R (para_cada f xs)"
  by (induction xs) (auto intro!: luego devuelve)

lemma lectura: "(\<And>r. snd (c r) = r) \<Longrightarrow> respeta R (redis_cmd c)"
  by (rule redis_cmd) (simp add: nada)

text \<open>Every result either keeps the guarantee or is one of the results \<open>Q\<close>.\<close>

lemma salvo_respeta: "respeta R m \<Longrightarrow> salvo R Q m"
  unfolding salvo_def by (metis respetaD(1) respetaD(2) snd_conv)

lemmas salvo_basicas = salvo_respeta [OF devuelve] salvo_respeta [OF lanza]

lemma salvo_luego:
  assumes "respeta R m" "\<And>x. salvo R Q (f x)"
  shows "salvo R Q (luego m f)"
  unfolding salvo_def
proof (intro allI impI)
  fix w x w' assume w: "entorno R w" and l: "luego m f w = (x, w')"
  obtain y w1 where m: "m w = (y, w1)" by (cases "m w")
  with respetaD [OF assms(1) w] have 1: "R (w_redis w) (w_redis w1)" "entorno R w1" by simp_all
  show "entorno R w' \<and> (R (w_redis w) (w_redis w') \<or> (\<exists>z. x = Inr z \<and> Q z))"
  proof (cases y)
    case (Inr z)
    with l m have "f z w1 = (x, w')" by (simp add: luego_def)
    with assms(2) 1(2) have "entorno R w' \<and> (R (w_redis w1) (w_redis w') \<or> (\<exists>z. x = Inr z \<and> Q z))"
      unfolding salvo_def by blast
    with 1(1) trans show ?thesis by blast
  qed (use l m 1 in \<open>simp add: luego_def\<close>)
qed

lemma salvo_intenta:
  assumes "salvo R Q m" "\<And>e. salvo R Q (h e)"
  shows "salvo R Q (intenta m h)"
  unfolding salvo_def
proof (intro allI impI)
  fix w x w' assume w: "entorno R w" and l: "intenta m h w = (x, w')"
  obtain y w1 where m: "m w = (y, w1)" by (cases "m w")
  with assms(1) w have 1: "entorno R w1" "R (w_redis w) (w_redis w1) \<or> (\<exists>z. y = Inr z \<and> Q z)"
    unfolding salvo_def by blast+
  show "entorno R w' \<and> (R (w_redis w) (w_redis w') \<or> (\<exists>z. x = Inr z \<and> Q z))"
  proof (cases y)
    case (Inl e)
    with l m have "h e w1 = (x, w')" by (simp add: intenta_def)
    with assms(2) 1(1) have "entorno R w' \<and> (R (w_redis w1) (w_redis w') \<or> (\<exists>z. x = Inr z \<and> Q z))"
      unfolding salvo_def by blast
    with 1(2) Inl trans show ?thesis by blast
  qed (use l m 1 in \<open>simp add: intenta_def\<close>)
qed

text \<open>A relation between the states before and after an action that returned, when it tolerates steps of
the guarantee on both sides.\<close>

lemma asegura_devuelve: "(\<And>r. Q x r r) \<Longrightarrow> asegura R Q (devuelve x)"
  by (simp add: asegura_def devuelve_def)

lemma asegura_lanza: "asegura R Q (lanza e)"
  by (simp add: asegura_def lanza_def)

lemma asegura_luego:
  assumes "absorbe R Q" "respeta R m" "\<And>x. asegura R Q (f x)"
  shows "asegura R Q (luego m f)"
  unfolding asegura_def
proof (intro allI impI)
  fix w y w' assume w: "entorno R w" and l: "luego m f w = (Inr y, w')"
  from l obtain x w1 where 1: "m w = (Inr x, w1)" "f x w1 = (Inr y, w')"
    by (auto simp: luego_def split: prod.splits sum.splits)
  with respetaD [OF assms(2) w] have "R (w_redis w) (w_redis w1)" "entorno R w1" by simp_all
  moreover from this(2) 1(2) assms(3) have "Q y (w_redis w1) (w_redis w')" unfolding asegura_def by blast
  ultimately show "Q y (w_redis w) (w_redis w')" using assms(1) unfolding absorbe_def by blast
qed

lemma asegura_despues:
  assumes "asegura R P m" "respeta R m" "\<And>x. respeta R (f x)"
    and "\<And>x y w w' r s t. f x w = (Inr y, w') \<Longrightarrow> P x r s \<Longrightarrow> R s t \<Longrightarrow> Q y r t"
  shows "asegura R Q (luego m f)"
  unfolding asegura_def
proof (intro allI impI)
  fix w y w' assume w: "entorno R w" and l: "luego m f w = (Inr y, w')"
  from l obtain x w1 where 1: "m w = (Inr x, w1)" "f x w1 = (Inr y, w')"
    by (auto simp: luego_def split: prod.splits sum.splits)
  from w 1(1) assms(1) have p: "P x (w_redis w) (w_redis w1)" unfolding asegura_def by blast
  have "entorno R w1" using respetaD(2) [OF assms(2) w] 1(1) by simp
  from respetaD(1) [OF assms(3) this] 1(2) have "R (w_redis w1) (w_redis w')" by (metis snd_conv)
  with p 1(2) assms(4) show "Q y (w_redis w) (w_redis w')" by blast
qed

lemma asegura_intenta:
  assumes "absorbe R Q" "respeta R m" "asegura R Q m" "\<And>e. asegura R Q (h e)"
  shows "asegura R Q (intenta m h)"
  unfolding asegura_def
proof (intro allI impI)
  fix w y w' assume w: "entorno R w" and l: "intenta m h w = (Inr y, w')"
  obtain x w1 where 1: "m w = (x, w1)" by (cases "m w")
  with respetaD [OF assms(2) w] have r: "R (w_redis w) (w_redis w1)" "entorno R w1" by simp_all
  show "Q y (w_redis w) (w_redis w')"
  proof (cases x)
    case (Inl e)
    with l 1 have "h e w1 = (Inr y, w')" by (simp add: intenta_def)
    with assms(4) r(2) have "Q y (w_redis w1) (w_redis w')" unfolding asegura_def by blast
    with r(1) assms(1) show ?thesis unfolding absorbe_def by blast
  next
    case (Inr z)
    with l 1 w assms(3) show ?thesis unfolding asegura_def by (auto simp: intenta_def)
  qed
qed

lemmas reglas = devuelve lanza luego intenta finalmente emite ahora hay_cliente duerme si con_reintentos para_cada

end

text \<open>
  The guarantee of the queue: the database moves by steps of the queue machine. Every service
  method that keeps it inherits, in every interleaving, the invariant and the version facts.
\<close>

interpretation gcola: garantia "paso_cola\<^sup>*\<^sup>*"
  by unfold_locales (auto intro: p_tiempo)

lemma gcola_cmd:
  "(\<And>r. paso_cola r (snd (c r))) \<Longrightarrow> respeta paso_cola\<^sup>*\<^sup>* (redis_cmd c)"
  by (rule gcola.redis_cmd) (rule r_into_rtranclp)

lemma cola_inv_accion:
  assumes "respeta paso_cola\<^sup>*\<^sup>* m" "entorno paso_cola\<^sup>*\<^sup>* w" "cola_inv (w_redis w)"
  shows "cola_inv (w_redis (snd (m w)))"
  using cola.inv_estrella [OF respetaD(1) [OF assms(1,2)] assms(3)] .

text \<open>The weakest guarantee that the clock gives: it does not go back.\<close>

definition avanza_reloj :: "redis \<Rightarrow> redis \<Rightarrow> bool" where
  "avanza_reloj r s = (reloj r \<le> reloj s)"

interpretation greloj: garantia avanza_reloj
  by unfold_locales (simp_all add: avanza_reloj_def)

text \<open>A key with an expiry keeps its value until it expires; renewing the expiry is allowed.\<close>

definition conserva :: "(redis \<Rightarrow> ('k, 'v) vence) \<Rightarrow> 'k \<Rightarrow> 'v \<Rightarrow> redis \<Rightarrow> redis \<Rightarrow> bool" where
  "conserva f k v r s =
     (reloj r \<le> reloj s \<and>
      (\<forall>e. f r k = Some (v, e) \<and> reloj s < e \<longrightarrow> (\<exists>e' \<ge> e. f s k = Some (v, e'))))"

lemma conserva_trans:
  assumes rs: "conserva f k v r s" and st: "conserva f k v s t"
  shows "conserva f k v r t"
  unfolding conserva_def
proof (intro conjI allI impI)
  show "reloj r \<le> reloj t" using rs st by (simp add: conserva_def)
  fix e assume e: "f r k = Some (v, e) \<and> reloj t < e"
  then have "reloj s < e" using st by (simp add: conserva_def)
  then obtain e1 where e1: "e \<le> e1" "f s k = Some (v, e1)" using rs e by (auto simp: conserva_def)
  then have "reloj t < e1" using e by simp
  then obtain e2 where "e1 \<le> e2" "f t k = Some (v, e2)" using st e1 by (auto simp: conserva_def)
  with e1(1) show "\<exists>e' \<ge> e. f t k = Some (v, e')" by (intro exI [of _ e2]) simp
qed

lemma conserva_vigente:
  "conserva f k v r s \<Longrightarrow> f r k = Some (v, e) \<Longrightarrow> reloj s < e \<Longrightarrow> tget (reloj s) (f s) k = Some v"
  by (auto simp: conserva_def tget_def)

lemma conserva_refl: "conserva f k v r r"
  by (auto simp: conserva_def)

interpretation glock: garantia "conserva r_lock k v" for k v
  by unfold_locales (rule conserva_refl, erule (1) conserva_trans, auto simp: conserva_def)

interpretation gidem: garantia "conserva r_idem k v" for k v
  by unfold_locales (rule conserva_refl, erule (1) conserva_trans, auto simp: conserva_def)

lemma entorno_reloj: "entorno (conserva f k v) w \<Longrightarrow> entorno avanza_reloj w"
  by (auto simp: entorno_def conserva_def avanza_reloj_def)

subsection \<open>The log of an action\<close>

text \<open>\<open>deja m Q\<close>: whatever the world, \<open>m\<close> appends to the log a list of events that \<open>Q\<close> relates to its
result.\<close>

definition deja :: "'a accion \<Rightarrow> ('a resultado \<Rightarrow> evento list \<Rightarrow> bool) \<Rightarrow> bool" where
  "deja m Q = (\<forall>w x w'. m w = (x, w') \<longrightarrow> (\<exists>t. w_bitacora w' = w_bitacora w @ t \<and> Q x t))"

lemma dejaD: "deja m Q \<Longrightarrow> m w = (x, w') \<Longrightarrow> \<exists>t. w_bitacora w' = w_bitacora w @ t \<and> Q x t"
  by (simp add: deja_def)

lemma deja_mas: "deja m Q \<Longrightarrow> (\<And>x t. Q x t \<Longrightarrow> Q' x t) \<Longrightarrow> deja m Q'"
  unfolding deja_def by blast

lemma deja_devuelve: "Q (Inr x) [] \<Longrightarrow> deja (devuelve x) Q"
  by (simp add: deja_def devuelve_def)

lemma deja_lanza: "Q (Inl e) [] \<Longrightarrow> deja (lanza e) Q"
  by (simp add: deja_def lanza_def)

lemma deja_emite: "Q (Inr ()) [ev] \<Longrightarrow> deja (emite ev) Q"
  by (simp add: deja_def emite_def)

lemma deja_luego:
  assumes m: "deja m P"
    and mal: "\<And>e t. P (Inl e) t \<Longrightarrow> Q (Inl e) t"
    and f: "\<And>y t1. P (Inr y) t1 \<Longrightarrow> deja (f y) (\<lambda>x t. Q x (t1 @ t))"
  shows "deja (luego m f) Q"
  unfolding deja_def
proof (intro allI impI)
  fix w x w' assume l: "luego m f w = (x, w')"
  obtain y w1 where 1: "m w = (y, w1)" by (cases "m w")
  from dejaD [OF m 1] obtain t1 where t1: "w_bitacora w1 = w_bitacora w @ t1" "P y t1" by blast
  show "\<exists>t. w_bitacora w' = w_bitacora w @ t \<and> Q x t"
  proof (cases y)
    case (Inl e)
    with l 1 t1 mal show ?thesis by (auto simp: luego_def)
  next
    case (Inr z)
    with l 1 have "f z w1 = (x, w')" by (simp add: luego_def)
    from dejaD [OF f this] t1 Inr obtain t where "w_bitacora w' = w_bitacora w1 @ t" "Q x (t1 @ t)" by blast
    with t1 show ?thesis by (intro exI [of _ "t1 @ t"]) simp
  qed
qed

lemma deja_intenta:
  assumes m: "deja m P"
    and bien: "\<And>y t. P (Inr y) t \<Longrightarrow> Q (Inr y) t"
    and h: "\<And>e t1. P (Inl e) t1 \<Longrightarrow> deja (h e) (\<lambda>x t. Q x (t1 @ t))"
  shows "deja (intenta m h) Q"
  unfolding deja_def
proof (intro allI impI)
  fix w x w' assume l: "intenta m h w = (x, w')"
  obtain y w1 where 1: "m w = (y, w1)" by (cases "m w")
  from dejaD [OF m 1] obtain t1 where t1: "w_bitacora w1 = w_bitacora w @ t1" "P y t1" by blast
  show "\<exists>t. w_bitacora w' = w_bitacora w @ t \<and> Q x t"
  proof (cases y)
    case (Inr z)
    with l 1 t1 bien show ?thesis by (auto simp: intenta_def)
  next
    case (Inl e)
    with l 1 have "h e w1 = (x, w')" by (simp add: intenta_def)
    from dejaD [OF h this] t1 Inl obtain t where "w_bitacora w' = w_bitacora w1 @ t" "Q x (t1 @ t)" by blast
    with t1 show ?thesis by (intro exI [of _ "t1 @ t"]) simp
  qed
qed

text \<open>An action that writes nothing in the log.\<close>

definition callada :: "'a accion \<Rightarrow> bool" where
  "callada m = deja m (\<lambda>x t. t = [])"

lemma callada_basicas:
  "callada (devuelve x)" "callada (lanza e)" "callada ahora" "callada hay_cliente" "callada (duerme ms)"
  "callada (redis_cmd c)"
  by (auto simp: callada_def deja_def devuelve_def lanza_def ahora_def hay_cliente_def duerme_def redis_cmd_def
      Let_def split: list.splits falla.splits)

lemma callada_luego: "callada m \<Longrightarrow> (\<And>x. callada (f x)) \<Longrightarrow> callada (luego m f)"
  unfolding callada_def by (erule deja_luego) auto

lemma callada_intenta: "callada m \<Longrightarrow> (\<And>e. callada (h e)) \<Longrightarrow> callada (intenta m h)"
  unfolding callada_def by (erule deja_intenta) auto

lemma callada_intentos: "callada m \<Longrightarrow> callada (intentos_desde n i k msg m)"
  by (induction k arbitrary: i) (auto intro!: callada_basicas callada_luego callada_intenta)

lemmas calladas = callada_basicas callada_luego callada_intenta callada_intentos

subsection \<open>The persistence loop\<close>

lemma redis_cmd_calma:
  "w_turnos w = [] \<Longrightarrow> redis_cmd c w = (fst (c (w_redis w)), w\<lparr>w_redis := snd (c (w_redis w))\<rparr>)"
  by (simp add: redis_cmd_def)

text \<open>The loop raises only after \<open>k\<close> failed attempts; a first success ends it.\<close>

lemma intentos_desde_exito:
  "m w = (Inr x, w') \<Longrightarrow> intentos_desde n i (Suc k) msg m w = (Inr x, w')"
  by (simp add: intenta_def)

lemma intentos_desde_resultado:
  assumes "intentos_desde n i k msg m w = (Inr x, w')"
  shows "\<exists>w1. m w1 = (Inr x, w')"
  using assms
proof (induction k arbitrary: i w)
  case 0
  then show ?case by (simp add: lanza_def)
next
  case (Suc k)
  show ?case
  proof (cases "fst (m w)")
    case (Inr y)
    with Suc.prems show ?thesis by (auto simp: intenta_def split: prod.splits)
  next
    case (Inl e)
    with Suc.prems show ?thesis
      by (auto simp: intenta_def luego_def duerme_def devuelve_def split: prod.splits if_splits dest: Suc.IH)
  qed
qed

lemma intentos_desde_error:
  "fst (intentos_desde n i k msg m w) = Inl e \<Longrightarrow> e = RuntimeError msg"
proof (induction k arbitrary: i w)
  case (Suc k)
  then show ?case
    by (auto simp: intenta_def luego_def duerme_def devuelve_def split: prod.splits if_splits sum.splits dest: Suc.IH)
qed (simp add: lanza_def)

end
