(* ===== verification/Tareas.thy ===== *)
theory Tareas
  imports Efectos
begin

text \<open>
  Concurrent coroutines, as \<^verbatim>\<open>asyncio.gather\<close> runs them. A task is either finished or has a next step: what it does
  to the world and how the task goes on, both from the world it finds. A step is the code up to an \<^verbatim>\<open>await\<close> and the
  awaited operation. Run alone a task is an action (\<open>corre\<close>); \<open>reune\<close> runs several under a schedule, with
  at most \<open>n\<close> of them started and unfinished (\<^verbatim>\<open>asyncio.Semaphore(n)\<close>, which is first in, first out). What holds for every
  schedule holds for every interleaving. The second half is a rely-guarantee calculus for tasks.
\<close>

datatype 'a tarea =
    Listo "'a resultado"
  | Sigue "mundo \<Rightarrow> 'a tarea" "mundo \<Rightarrow> mundo"

subsection \<open>Sequencing\<close>

definition tdevuelve :: "'a \<Rightarrow> 'a tarea" where
  "tdevuelve x = Listo (Inr x)"

definition tlanza :: "excepcion \<Rightarrow> 'a tarea" where
  "tlanza e = Listo (Inl e)"

definition paso :: "'a accion \<Rightarrow> 'a tarea" where
  "paso m = Sigue (\<lambda>w. Listo (fst (m w))) (\<lambda>w. snd (m w))"

primrec tluego :: "'a tarea \<Rightarrow> ('a \<Rightarrow> 'b tarea) \<Rightarrow> 'b tarea" where
  "tluego (Listo r) f = (case r of Inl e \<Rightarrow> Listo (Inl e) | Inr x \<Rightarrow> f x)"
| "tluego (Sigue s g) f = Sigue (\<lambda>w. tluego (s w) f) g"

primrec tintenta :: "'a tarea \<Rightarrow> (excepcion \<Rightarrow> 'a tarea) \<Rightarrow> 'a tarea" where
  "tintenta (Listo r) h = (case r of Inl e \<Rightarrow> h e | Inr x \<Rightarrow> Listo (Inr x))"
| "tintenta (Sigue s g) h = Sigue (\<lambda>w. tintenta (s w) h) g"

primrec corre :: "'a tarea \<Rightarrow> 'a accion" where
  "corre (Listo r) = (\<lambda>w. (r, w))"
| "corre (Sigue s g) = (\<lambda>w. corre (s w) (g w))"

text \<open>\<^verbatim>\<open>return_exceptions=True\<close>: the result of a task as a value.\<close>

definition recoge :: "'a tarea \<Rightarrow> 'a resultado tarea" where
  "recoge t = tintenta (tluego t (\<lambda>x. tdevuelve (Inr x))) (\<lambda>e. tdevuelve (Inl e))"

definition terminada :: "'a tarea \<Rightarrow> bool" where
  "terminada t = (case t of Listo _ \<Rightarrow> True | Sigue _ _ \<Rightarrow> False)"

text \<open>The tasks that are inside the semaphore: the first \<open>n\<close> unfinished ones.\<close>

definition en_marcha :: "nat \<Rightarrow> 'a tarea list \<Rightarrow> nat list" where
  "en_marcha n ts = take n (filter (\<lambda>i. \<not> terminada (ts ! i)) [0..<length ts])"

primrec en_serie :: "'a tarea list \<Rightarrow> 'a resultado list tarea" where
  "en_serie [] = tdevuelve []"
| "en_serie (t # ts) = tluego (recoge t) (\<lambda>r. tluego (en_serie ts) (\<lambda>rs. tdevuelve (r # rs)))"

text \<open>A turn of the schedule picks one of the tasks in progress; after the schedule they finish one by one.\<close>

fun reune :: "nat \<Rightarrow> nat list \<Rightarrow> 'a tarea list \<Rightarrow> 'a resultado list tarea" where
  "reune n [] ts = en_serie ts"
| "reune n (k # ks) ts =
     (case en_marcha n ts of
        [] \<Rightarrow> en_serie ts
      | js \<Rightarrow> (case ts ! (js ! (k mod length js)) of
                 Listo _ \<Rightarrow> en_serie ts
               | Sigue s g \<Rightarrow> Sigue (\<lambda>w. reune n ks (ts[js ! (k mod length js) := s w])) g))"

lemma corre_basicas [simp]:
  "corre (tdevuelve x) = devuelve x" "corre (tlanza e) = lanza e" "corre (paso m) = m"
  by (simp_all add: tdevuelve_def devuelve_def tlanza_def lanza_def paso_def fun_eq_iff)

lemma corre_luego [simp]: "corre (tluego t f) = luego (corre t) (\<lambda>x. corre (f x))"
proof (induction t)
  case (Listo r)
  then show ?case by (cases r) (simp_all add: luego_def fun_eq_iff)
next
  case (Sigue s g)
  then show ?case by (simp add: luego_def fun_eq_iff)
qed

lemma corre_intenta [simp]: "corre (tintenta t h) = intenta (corre t) (\<lambda>e. corre (h e))"
proof (induction t)
  case (Listo r)
  then show ?case by (cases r) (simp_all add: intenta_def fun_eq_iff)
next
  case (Sigue s g)
  then show ?case by (simp add: intenta_def fun_eq_iff)
qed

lemma tbasicas [simp]:
  "tluego (tdevuelve x) f = f x" "tluego (tlanza e) f = tlanza e"
  "tintenta (tdevuelve x) h = tdevuelve x" "tintenta (tlanza e) h = h e"
  by (simp_all add: tdevuelve_def tlanza_def)

lemma terminada_simps [simp]: "terminada (Listo r)" "\<not> terminada (Sigue s g)"
  by (simp_all add: terminada_def)

lemma en_marcha_indice:
  assumes "i \<in> set (en_marcha n ts)" shows "i < length ts \<and> \<not> terminada (ts ! i)"
  using assms by (auto simp: en_marcha_def dest: in_set_takeD)

lemma en_marcha_cupo: "length (en_marcha n ts) \<le> n"
  by (simp add: en_marcha_def)

subsection \<open>What every step does\<close>

text \<open>\<open>mueve G t\<close>: every step of \<open>t\<close> makes a move of \<open>G\<close>. Tasks that move by \<open>G\<close> move by \<open>G\<close> together, under any
schedule.\<close>

inductive mueve :: "(mundo \<Rightarrow> mundo \<Rightarrow> bool) \<Rightarrow> 'a tarea \<Rightarrow> bool" for G where
  m_listo: "mueve G (Listo r)"
| m_sigue: "(\<And>w. G w (g w)) \<Longrightarrow> (\<And>w. mueve G (s w)) \<Longrightarrow> mueve G (Sigue s g)"

lemma mueve_basicas: "mueve G (tdevuelve x)" "mueve G (tlanza e)"
  by (simp_all add: tdevuelve_def tlanza_def m_listo)

lemma mueve_paso: "(\<And>w. G w (snd (m w))) \<Longrightarrow> mueve G (paso m)"
  unfolding paso_def by (rule m_sigue) (auto intro: m_listo)

lemma mueve_luego: "mueve G t \<Longrightarrow> (\<And>x. mueve G (f x)) \<Longrightarrow> mueve G (tluego t f)"
proof (induction rule: mueve.induct)
  case (m_listo r)
  then show ?case by (cases r) (auto intro: mueve.intros)
next
  case (m_sigue g s)
  then show ?case by (auto intro!: mueve.m_sigue)
qed

lemma mueve_intenta: "mueve G t \<Longrightarrow> (\<And>e. mueve G (h e)) \<Longrightarrow> mueve G (tintenta t h)"
proof (induction rule: mueve.induct)
  case (m_listo r)
  then show ?case by (cases r) (auto intro: mueve.intros)
next
  case (m_sigue g s)
  then show ?case by (auto intro!: mueve.m_sigue)
qed

lemmas mueve_reglas = mueve_basicas mueve_luego mueve_intenta

lemma mueve_en_serie: "(\<And>t. t \<in> set ts \<Longrightarrow> mueve G t) \<Longrightarrow> mueve G (en_serie ts)"
  by (induction ts) (auto simp: recoge_def intro!: mueve_reglas)

lemma mueve_reune: "(\<And>t. t \<in> set ts \<Longrightarrow> mueve G t) \<Longrightarrow> mueve G (reune n ks ts)"
proof (induction n ks ts rule: reune.induct)
  case (1 n ts)
  then show ?case by (simp add: mueve_en_serie)
next
  case (2 n k ks ts)
  show ?case
  proof (cases "en_marcha n ts")
    case Nil
    then show ?thesis using 2(2) by (simp add: mueve_en_serie)
  next
    case (Cons i js)
    let ?j = "(i # js) ! (k mod length (i # js))"
    have j: "?j < length ts"
      using en_marcha_indice [of ?j n ts] Cons nth_mem [of "k mod length (i # js)" "i # js"] by simp
    show ?thesis
    proof (cases "ts ! ?j")
      case (Listo r)
      then show ?thesis using 2(2) Cons by (simp add: mueve_en_serie)
    next
      case (Sigue s g)
      with 2(2) j have "mueve G (Sigue s g)" by (metis nth_mem)
      then have sg: "\<And>w. G w (g w)" "\<And>w. mueve G (s w)" by (auto elim: mueve.cases)
      have "mueve G (reune n ks (ts[?j := s w]))" for w
      proof (rule 2(1) [OF Cons])
        show "ts ! ?j = Sigue s g" by (rule Sigue)
        fix t assume "t \<in> set (ts[?j := s w])"
        then show "mueve G t" using 2(2) sg(2) set_update_subset_insert [of ts ?j "s w"] by blast
      qed
      with Cons Sigue sg(1) show ?thesis by (auto intro!: m_sigue)
    qed
  qed
qed

lemma mueve_corre:
  assumes "reflp G" "transp G" "mueve G t" shows "G w (snd (corre t w))"
  using assms(3)
proof (induction arbitrary: w rule: mueve.induct)
  case (m_listo r)
  then show ?case using assms(1) by (simp add: reflpD)
next
  case (m_sigue g s)
  then show ?case using transpD [OF assms(2), of w "g w"] by simp
qed

lemma tluego_asoc: "tluego (tluego t f) g = tluego t (\<lambda>x. tluego (f x) g)"
proof (induction t)
  case (Listo r)
  then show ?case by (cases r) simp_all
qed simp

subsection \<open>A guarantee over the database\<close>

definition mueve_redis :: "(redis \<Rightarrow> redis \<Rightarrow> bool) \<Rightarrow> mundo \<Rightarrow> mundo \<Rightarrow> bool" where
  "mueve_redis R w w' = (entorno R w \<longrightarrow> R (w_redis w) (w_redis w') \<and> entorno R w')"

abbreviation respetuosa :: "(redis \<Rightarrow> redis \<Rightarrow> bool) \<Rightarrow> 'a tarea \<Rightarrow> bool" where
  "respetuosa R \<equiv> mueve (mueve_redis R)"

lemma rt_paso: "respeta R m \<Longrightarrow> respetuosa R (paso m)"
  by (rule mueve_paso) (auto simp: mueve_redis_def respeta_def)

lemma rt_corre:
  assumes "garantia R" "respetuosa R t" shows "respeta R (corre t)"
proof -
  have "reflp (mueve_redis R)" using garantia.nada [OF assms(1)] by (auto simp: reflp_def mueve_redis_def)
  moreover have "transp (mueve_redis R)"
    by (rule transpI) (auto simp: mueve_redis_def intro: garantia.trans [OF assms(1)])
  ultimately show ?thesis using mueve_corre [OF _ _ assms(2)] by (auto simp: respeta_def mueve_redis_def)
qed

subsection \<open>The events of a task\<close>

text \<open>A step appends to the log only events of \<open>E\<close>.\<close>

definition solo_escribe :: "(evento \<Rightarrow> bool) \<Rightarrow> mundo \<Rightarrow> mundo \<Rightarrow> bool" where
  "solo_escribe E w w' = (\<exists>t. w_bitacora w' = w_bitacora w @ t \<and> list_all E t)"

lemma solo_escribe_orden: "reflp (solo_escribe E)" "transp (solo_escribe E)"
proof -
  show "transp (solo_escribe E)"
  proof (rule transpI)
    fix u v w assume "solo_escribe E u v" "solo_escribe E v w"
    then obtain s t where "w_bitacora v = w_bitacora u @ s" "list_all E s" "w_bitacora w = w_bitacora v @ t" "list_all E t"
      by (auto simp: solo_escribe_def)
    then show "solo_escribe E u w" unfolding solo_escribe_def by (intro exI [of _ "s @ t"]) simp
  qed
qed (auto simp: reflp_def solo_escribe_def)

abbreviation escribe :: "(evento \<Rightarrow> bool) \<Rightarrow> 'a tarea \<Rightarrow> bool" where
  "escribe E \<equiv> mueve (solo_escribe E)"

lemma escribe_callada: "callada m \<Longrightarrow> escribe E (paso m)"
proof (rule mueve_paso)
  fix w assume "callada m"
  then have "w_bitacora (snd (m w)) = w_bitacora w" by (cases "m w") (auto simp: callada_def deja_def)
  then show "solo_escribe E w (snd (m w))" by (simp add: solo_escribe_def)
qed

lemma escribe_emite: "E ev \<Longrightarrow> escribe E (paso (emite ev))"
  by (rule mueve_paso) (auto simp: solo_escribe_def emite_def)

lemma escribe_corre: "escribe E t \<Longrightarrow> \<exists>l. w_bitacora (snd (corre t w)) = w_bitacora w @ l \<and> list_all E l"
  using mueve_corre [OF solo_escribe_orden] unfolding solo_escribe_def by blast

subsection \<open>Rely and guarantee\<close>

text \<open>\<open>vela R Q P t\<close>: from a world with \<open>P\<close>, every step of \<open>t\<close> makes a move of \<open>R\<close>, whatever moves of \<open>R\<close> the others make
between its steps, and its result satisfies \<open>Q\<close>. The assertions in between are stable under \<open>R\<close>.\<close>

definition estable :: "(mundo \<Rightarrow> mundo \<Rightarrow> bool) \<Rightarrow> (mundo \<Rightarrow> bool) \<Rightarrow> bool" where
  "estable R P = (\<forall>w w'. P w \<longrightarrow> R w w' \<longrightarrow> P w')"

inductive vela :: "(mundo \<Rightarrow> mundo \<Rightarrow> bool) \<Rightarrow> ('a resultado \<Rightarrow> mundo \<Rightarrow> bool) \<Rightarrow> (mundo \<Rightarrow> bool) \<Rightarrow> 'a tarea \<Rightarrow> bool"
  for R Q where
  v_listo: "(\<And>w. P w \<Longrightarrow> Q r w) \<Longrightarrow> vela R Q P (Listo r)"
| v_sigue: "(\<And>w. P w \<Longrightarrow> R w (g w) \<and> (\<exists>P'. estable R P' \<and> P' (g w) \<and> vela R Q P' (s w))) \<Longrightarrow> vela R Q P (Sigue s g)"

lemma estable_conj: "estable R P \<Longrightarrow> estable R P' \<Longrightarrow> estable R (\<lambda>w. P w \<and> P' w)"
  by (auto simp: estable_def)

lemma vela_debil: "vela R Q P t \<Longrightarrow> (\<And>w. P' w \<Longrightarrow> P w) \<Longrightarrow> vela R Q P' t"
  by (erule vela.cases) (auto intro: v_listo v_sigue)

lemma vela_mas: "vela R Q P t \<Longrightarrow> (\<And>r w. Q r w \<Longrightarrow> Q' r w) \<Longrightarrow> vela R Q' P t"
proof (induction rule: vela.induct)
  case (v_listo P r)
  then show ?case by (auto intro: vela.v_listo)
next
  case (v_sigue P g s)
  then show ?case by (intro vela.v_sigue) blast
qed

lemma vela_devuelve: "(\<And>w. P w \<Longrightarrow> Q (Inr x) w) \<Longrightarrow> vela R Q P (tdevuelve x)"
  by (simp add: tdevuelve_def v_listo)

lemma vela_lanza: "(\<And>w. P w \<Longrightarrow> Q (Inl e) w) \<Longrightarrow> vela R Q P (tlanza e)"
  by (simp add: tlanza_def v_listo)

lemma vela_paso:
  assumes "\<And>w. P w \<Longrightarrow> R w (snd (m w)) \<and> Q (fst (m w)) (snd (m w))" "\<And>r. estable R (Q r)"
  shows "vela R Q P (paso m)"
  unfolding paso_def
proof (rule v_sigue)
  fix w assume "P w"
  with assms show "R w (snd (m w)) \<and> (\<exists>P'. estable R P' \<and> P' (snd (m w)) \<and> vela R Q P' (Listo (fst (m w))))"
    by (intro conjI exI [of _ "Q (fst (m w))"]) (auto intro: v_listo)
qed

lemma vela_luego:
  assumes "vela R M P t" "\<And>e w. M (Inl e) w \<Longrightarrow> Q (Inl e) w" "\<And>x. vela R Q (M (Inr x)) (f x)"
  shows "vela R Q P (tluego t f)"
  using assms(1)
proof (induction rule: vela.induct)
  case (v_listo P r)
  show ?case
  proof (cases r)
    case (Inr x)
    with v_listo show ?thesis by (auto intro: vela_debil [OF assms(3)])
  qed (use v_listo assms(2) in \<open>auto intro: vela.v_listo\<close>)
next
  case (v_sigue P g s)
  show ?case unfolding tluego.simps by (rule vela.v_sigue) (use v_sigue in blast)
qed

lemma vela_intenta:
  assumes "vela R M P t" "\<And>x w. M (Inr x) w \<Longrightarrow> Q (Inr x) w" "\<And>e. vela R Q (M (Inl e)) (h e)"
  shows "vela R Q P (tintenta t h)"
  using assms(1)
proof (induction rule: vela.induct)
  case (v_listo P r)
  show ?case
  proof (cases r)
    case (Inl e)
    with v_listo show ?thesis by (auto intro: vela_debil [OF assms(3)])
  qed (use v_listo assms(2) in \<open>auto intro: vela.v_listo\<close>)
next
  case (v_sigue P g s)
  show ?case unfolding tintenta.simps by (rule vela.v_sigue) (use v_sigue in blast)
qed

text \<open>Adding a stable fact that the task does not use.\<close>

lemma vela_marco:
  assumes "vela R Q P t" "estable R F"
  shows "vela R (\<lambda>r w. Q r w \<and> F w) (\<lambda>w. P w \<and> F w) t"
  using assms(1)
proof (induction rule: vela.induct)
  case (v_listo P r)
  then show ?case by (auto intro: vela.v_listo)
next
  case (v_sigue P g s)
  show ?case
  proof (rule vela.v_sigue)
    fix w assume w: "P w \<and> F w"
    with v_sigue obtain P' where P': "R w (g w)" "estable R P'" "P' (g w)"
        "vela R (\<lambda>r w. Q r w \<and> F w) (\<lambda>w. P' w \<and> F w) (s w)" by blast
    with w assms(2) have "F (g w)" by (auto simp: estable_def)
    with P' estable_conj [OF P'(2) assms(2)]
    show "R w (g w) \<and> (\<exists>P'. estable R P' \<and> P' (g w) \<and> vela R (\<lambda>r w. Q r w \<and> F w) P' (s w))"
      by (intro conjI exI [of _ "\<lambda>w. P' w \<and> F w"]) auto
  qed
qed

lemma vela_corre:
  assumes "reflp R" "transp R" "vela R Q P t" "P w"
  shows "R w (snd (corre t w)) \<and> Q (fst (corre t w)) (snd (corre t w))"
  using assms(3,4)
proof (induction arbitrary: w rule: vela.induct)
  case (v_listo P r)
  then show ?case using assms(1) by (simp add: reflpD)
next
  case (v_sigue P g s)
  then obtain P' where "R w (g w)" "P' (g w)"
      "\<And>v. P' v \<Longrightarrow> R v (snd (corre (s w) v)) \<and> Q (fst (corre (s w) v)) (snd (corre (s w) v))" by blast
  then show ?case using transpD [OF assms(2)] by auto
qed

lemma vela_recoge: "vela R Q P t \<Longrightarrow> vela R (\<lambda>r w. \<exists>x. r = Inr x \<and> Q x w) P (recoge t)"
  unfolding recoge_def
  by (rule vela_intenta [where M = "\<lambda>r w. (\<exists>x. r = Inr (Inr x) \<and> Q (Inr x) w) \<or> (\<exists>e. r = Inl e \<and> Q (Inl e) w)"],
      rule vela_luego [where M = Q]) (auto intro!: vela_devuelve)

lemma estable_todas: "(\<And>i. i < n \<Longrightarrow> estable R (P i)) \<Longrightarrow> estable R (\<lambda>w. \<forall>i<n. P i w)"
  by (auto simp: estable_def)

definition juntas :: "nat \<Rightarrow> (nat \<Rightarrow> 'a resultado \<Rightarrow> mundo \<Rightarrow> bool) \<Rightarrow> 'a resultado list resultado \<Rightarrow> mundo \<Rightarrow> bool" where
  "juntas n Q r w = (\<exists>l. r = Inr l \<and> length l = n \<and> (\<forall>i<n. Q i (l ! i) w))"

lemma vela_en_serie:
  assumes "\<And>i. i < length ts \<Longrightarrow> vela R (Q i) (P i) (ts ! i)" "\<And>i. i < length ts \<Longrightarrow> estable R (P i)"
    and "\<And>i r. i < length ts \<Longrightarrow> estable R (Q i r)"
  shows "vela R (juntas (length ts) Q) (\<lambda>w. \<forall>i<length ts. P i w) (en_serie ts)"
  using assms
proof (induction ts arbitrary: P Q)
  case Nil
  then show ?case by (auto simp: juntas_def intro: vela_devuelve)
next
  case (Cons t ts P Q)
  let ?F = "\<lambda>w. \<forall>i<length ts. P (Suc i) w"
  have F: "estable R ?F" using Cons.prems(2) by (intro estable_todas) auto
  have t: "vela R (Q 0) (P 0) t" using Cons.prems(1) [of 0] by simp
  have P: "P 0 w \<and> ?F w" if "\<forall>i<length (t # ts). P i w" for w using that by auto
  have "vela R (juntas (length ts) (\<lambda>i. Q (Suc i))) ?F (en_serie ts)"
    using Cons.prems by (intro Cons.IH) fastforce+
  then have ts: "vela R (\<lambda>r w. juntas (length ts) (\<lambda>i. Q (Suc i)) r w \<and> Q 0 x w) (\<lambda>w. ?F w \<and> Q 0 x w) (en_serie ts)" for x
    using Cons.prems(3) [of 0] by (intro vela_marco) auto
  show ?case
    unfolding en_serie.simps
  proof (rule vela_luego)
    show "vela R (\<lambda>r w. (\<exists>x. r = Inr x \<and> Q 0 x w) \<and> ?F w) (\<lambda>w. \<forall>i<length (t # ts). P i w) (recoge t)"
      by (rule vela_debil [OF vela_marco [OF vela_recoge [OF t] F]]) (use P in blast)
    show "vela R (juntas (length (t # ts)) Q) (\<lambda>w. (\<exists>y. Inr x = Inr y \<and> Q 0 y w) \<and> ?F w)
        (tluego (en_serie ts) (\<lambda>rs. tdevuelve (x # rs)))" for x
      by (rule vela_luego, rule vela_debil [OF ts [of x]])
        (auto simp: juntas_def All_less_Suc2 nth_Cons' intro!: vela_devuelve)
  qed auto
qed

lemma vela_reune:
  assumes "\<And>i. i < length ts \<Longrightarrow> vela R (Q i) (P i) (ts ! i)" "\<And>i. i < length ts \<Longrightarrow> estable R (P i)"
    and "\<And>i r. i < length ts \<Longrightarrow> estable R (Q i r)"
  shows "vela R (juntas (length ts) Q) (\<lambda>w. \<forall>i<length ts. P i w) (reune n ks ts)"
  using assms
proof (induction n ks ts arbitrary: P rule: reune.induct)
  case (1 n ts P)
  then show ?case by (simp add: vela_en_serie)
next
  case (2 n k ks ts P)
  have S: ?case if "reune n (k # ks) ts = en_serie ts" using that 2(2-) by (simp add: vela_en_serie)
  show ?case
  proof (cases "en_marcha n ts")
    case Nil
    then show ?thesis by (intro S) simp
  next
    case (Cons i js)
    let ?j = "(i # js) ! (k mod length (i # js))"
    have j: "?j < length ts"
      using en_marcha_indice [of ?j n ts] Cons nth_mem [of "k mod length (i # js)" "i # js"] by simp
    show ?thesis
    proof (cases "ts ! ?j")
      case (Listo r)
      with Cons show ?thesis by (intro S) simp
    next
      case (Sigue s g)
      have "vela R (Q ?j) (P ?j) (Sigue s g)" using 2(2) [OF j] Sigue by simp
      then have sg: "\<And>w. P ?j w \<Longrightarrow> R w (g w) \<and> (\<exists>P'. estable R P' \<and> P' (g w) \<and> vela R (Q ?j) P' (s w))"
        by (auto elim: vela.cases)
      have "vela R (juntas (length ts) Q) (\<lambda>w. \<forall>i<length ts. P i w) (Sigue (\<lambda>w. reune n ks (ts[?j := s w])) g)"
      proof (rule v_sigue)
        fix w assume P: "\<forall>i<length ts. P i w"
        with sg j obtain P' where P': "R w (g w)" "estable R P'" "P' (g w)" "vela R (Q ?j) P' (s w)" by blast
        let ?P = "P(?j := P')"
        have "vela R (juntas (length (ts[?j := s w])) Q) (\<lambda>v. \<forall>i<length (ts[?j := s w]). ?P i v) (reune n ks (ts[?j := s w]))"
          by (rule 2(1) [OF Cons Sigue]) (use 2(2-) P' in \<open>auto simp: nth_list_update\<close>)
        moreover have "estable R (\<lambda>w. \<forall>i<length ts. ?P i w)" using 2(3) P'(2) by (intro estable_todas) auto
        moreover have "\<forall>i<length ts. ?P i (g w)" using P P'(1,3) 2(3) by (auto simp: estable_def)
        ultimately show "R w (g w) \<and> (\<exists>P'. estable R P' \<and> P' (g w)
            \<and> vela R (juntas (length ts) Q) P' (reune n ks (ts[?j := s w])))"
          using P'(1) by (intro conjI exI [of _ "\<lambda>w. \<forall>i<length ts. ?P i w"]) simp_all
      qed
      with Cons Sigue show ?thesis by simp
    qed
  qed
qed

end
