(* ===== verification/Url.thy ===== *)
theory Url
  imports Preludio
begin

text \<open>
  The part of \<^verbatim>\<open>urllib.parse\<close> that the code uses: \<^verbatim>\<open>urlparse\<close> with its network location, path, query and host
  name. A host in brackets is only checked for matching brackets.
\<close>

record url =
  u_esquema :: string
  u_netloc :: string
  u_ruta :: string
  u_consulta :: string

definition hasta :: "char \<Rightarrow> string \<Rightarrow> string" where
  "hasta c s = takeWhile (\<lambda>x. x \<noteq> c) s"

definition despues_de :: "char \<Rightarrow> string \<Rightarrow> string" where
  "despues_de c s = drop (length (hasta c s) + 1) s"

text \<open>\<^verbatim>\<open>s.split(c)[-1]\<close> and what \<^verbatim>\<open>rpartition\<close> leaves before it.\<close>

definition tras_ultimo :: "char \<Rightarrow> string \<Rightarrow> string" where
  "tras_ultimo c s = rev (hasta c (rev s))"

definition antes_ultimo :: "char \<Rightarrow> string \<Rightarrow> string" where
  "antes_ultimo c s = rev (despues_de c (rev s))"

definition letra_ascii :: "char \<Rightarrow> bool" where
  "letra_ascii c = (let n = of_char c :: nat in (65 \<le> n \<and> n \<le> 90) \<or> (97 \<le> n \<and> n \<le> 122))"

definition de_esquema :: "char \<Rightarrow> bool" where
  "de_esquema c = (letra_ascii c \<or> (let n = of_char c :: nat in 48 \<le> n \<and> n \<le> 57) \<or> c \<in> {CHR ''+'', CHR ''-'', CHR ''.''})"

definition limpia_url :: "string \<Rightarrow> string" where
  "limpia_url s =
     filter (\<lambda>c. c \<notin> {CHR 0x09, CHR 0x0A, CHR 0x0D}) (dropWhile (\<lambda>c. (of_char c :: nat) \<le> 32) s)"

definition separa_esquema :: "string \<Rightarrow> string \<times> string" where
  "separa_esquema s =
     (let e = hasta CHR '':'' s
      in if CHR '':'' \<in> set s \<and> e \<noteq> [] \<and> letra_ascii (hd e) \<and> list_all de_esquema e
         then (lower e, despues_de CHR '':'' s) else ([], s))"

definition separa_netloc :: "string \<Rightarrow> string \<times> string" where
  "separa_netloc s =
     (if empieza ''//'' s
      then (let r = drop 2 s; n = takeWhile (\<lambda>c. c \<notin> {CHR ''/'', CHR ''?'', CHR ''#''}) r in (n, drop (length n) r))
      else ([], s))"

definition esquemas_con_parametros :: "string list" where
  "esquemas_con_parametros =
     [[], ''ftp'', ''hdl'', ''prospero'', ''http'', ''https'', ''shttp'', ''rtsp'', ''rtsps'', ''sip'', ''sips'', ''mms'', ''sftp'', ''tel'']"

text \<open>Without the parameters (\<^verbatim>\<open>;...\<close>) of the last segment.\<close>

definition sin_parametros :: "string \<Rightarrow> string" where
  "sin_parametros s =
     (if CHR ''/'' \<in> set s then antes_ultimo CHR ''/'' s @ ''/'' @ hasta CHR '';'' (tras_ultimo CHR ''/'' s)
      else hasta CHR '';'' s)"

definition urlparse :: "string \<Rightarrow> url resultado" where
  "urlparse s =
     (case separa_esquema (limpia_url s) of (e, s1) \<Rightarrow>
      case separa_netloc s1 of (n, s2) \<Rightarrow>
        let s3 = hasta CHR ''#'' s2; r = hasta CHR ''?'' s3 in
        if (CHR ''['' \<in> set n) \<noteq> (CHR '']'' \<in> set n) then Inl (ValueError ''Invalid IPv6 URL'')
        else Inr \<lparr>u_esquema = e, u_netloc = n,
                  u_ruta = (if e \<in> set esquemas_con_parametros then sin_parametros r else r),
                  u_consulta = (if CHR ''?'' \<in> set s3 then despues_de CHR ''?'' s3 else [])\<rparr>)"

text \<open>\<^verbatim>\<open>parsed.hostname or ""\<close>\<close>

definition hostname :: "url \<Rightarrow> string" where
  "hostname u =
     (let info = tras_ultimo CHR ''@'' (u_netloc u);
          h = (if CHR ''['' \<in> set info then hasta CHR '']'' (despues_de CHR ''['' info) else hasta CHR '':'' info)
      in lower (hasta CHR ''%'' h) @ drop (length (hasta CHR ''%'' h)) h)"

subsection \<open>A URL below a base\<close>

text \<open>A base \<^verbatim>\<open>https://host\<close>, and what is appended to it.\<close>

definition base_simple :: "string \<Rightarrow> string \<Rightarrow> bool" where
  "base_simple h b =
     (b = ''https://'' @ h \<and> h \<noteq> [] \<and> list_all (\<lambda>c. 32 < (of_char c :: nat) \<and> c \<notin> {CHR ''/'', CHR ''?'', CHR ''#''}) h
      \<and> (CHR ''['' \<in> set h) = (CHR '']'' \<in> set h))"

lemma limpia_base:
  assumes "base_simple h b" shows "limpia_url (b @ s) = b @ filter (\<lambda>c. c \<notin> {CHR 0x09, CHR 0x0A, CHR 0x0D}) s"
proof -
  have "filter (\<lambda>c. c \<notin> {CHR 0x09, CHR 0x0A, CHR 0x0D}) h = h"
  proof (rule filter_True, rule ballI)
    fix c assume "c \<in> set h"
    then have "32 < (of_char c :: nat)" using assms by (auto simp: base_simple_def list_all_iff)
    then show "c \<notin> {CHR 0x09, CHR 0x0A, CHR 0x0D}" by auto
  qed
  then show ?thesis using assms by (simp add: limpia_url_def base_simple_def)
qed

lemma netloc_bajo_base:
  assumes "base_simple h b" "s \<noteq> [] \<Longrightarrow> hd s = CHR ''/''"
  obtains u where "urlparse (b @ s) = Inr u" "u_netloc u = h"
proof -
  let ?f = "filter (\<lambda>c. c \<notin> {CHR 0x09, CHR 0x0A, CHR 0x0D}) s"
  have f: "?f = [] \<or> hd ?f = CHR ''/''" using assms(2) by (cases s) auto
  have b: "b = ''https://'' @ h" using assms(1) by (simp add: base_simple_def)
  have e: "separa_esquema (b @ ?f) = (''https'', ''//'' @ h @ ?f)"
    unfolding separa_esquema_def Let_def
    by (simp add: b hasta_def despues_de_def letra_ascii_def de_esquema_def lower_def minuscula_def)
  have "takeWhile (\<lambda>c. c \<notin> {CHR ''/'', CHR ''?'', CHR ''#''}) (h @ ?f) = h"
  proof (cases ?f)
    case Nil
    then show ?thesis using assms(1) by (auto simp: base_simple_def list_all_iff intro: takeWhile_eq_all_conv [THEN iffD2])
  next
    case (Cons c r)
    with f have "c = CHR ''/''" by simp
    with Cons show ?thesis
      using assms(1) by (subst takeWhile_append2) (auto simp: base_simple_def list_all_iff)
  qed
  then have "separa_netloc (''//'' @ h @ ?f) = (h, ?f)" by (simp add: separa_netloc_def Let_def)
  with e assms(1) limpia_base [OF assms(1), of s] that show thesis
    by (auto simp: urlparse_def Let_def base_simple_def)
qed

end
