(* ===== verification/Idempotencia.thy ===== *)
theory Idempotencia
  imports Efectos
begin

text \<open>
  \<^verbatim>\<open>app/services/idempotency_service.py\<close>: the idempotency store. A record lives under the key of
  its case, category and payload hash; \<open>verificar_o_iniciar_operacion\<close> decides from it whether an
  operation is new, in flight, queued or already done. The checkpoints of transmitted files are
  the second half of the service. The proofs show that the store is the gate of the synchronous
  path: one winner per key, fail-closed without Redis, and a COMPLETED record that answers every
  later request.
\<close>

subsection \<open>Records and answers\<close>

definition ttl_ms :: int where
  "ttl_ms = 30 * 86400 * 1000"

definition processing_px :: int where
  "processing_px = 180000"

definition registro :: "(string \<Rightarrow> string) \<Rightarrow> estado_idem \<Rightarrow> string \<Rightarrow> dict \<Rightarrow> json \<Rightarrow> nat option \<Rightarrow> registro_idem" where
  "registro sha st smart_code d resp qid =
     \<lparr>ri_smart_code = smart_code, ri_operation = infer_operation_type d,
      ri_payload_hash = compute_payload_hash sha d, ri_status = st, ri_sfc_response = resp,
      ri_queue_item_id = qid\<rparr>"

definition construir_registro_completado ::
    "(string \<Rightarrow> string) \<Rightarrow> string \<Rightarrow> dict \<Rightarrow> json \<Rightarrow> string option \<Rightarrow> registro_idem" where
  "construir_registro_completado sha smart_code d resp hash_override =
     \<lparr>ri_smart_code = smart_code, ri_operation = infer_operation_type d,
      ri_payload_hash = (case hash_override of None \<Rightarrow> compute_payload_hash sha d
                         | Some h \<Rightarrow> if h = [] then compute_payload_hash sha d else h),
      ri_status = ICompleted, ri_sfc_response = resp, ri_queue_item_id = None\<rparr>"

definition clave :: "(string \<Rightarrow> string) \<Rightarrow> string \<Rightarrow> dict \<Rightarrow> string" where
  "clave sha smart_code d = get_idempotency_key smart_code (infer_operation_type d) (compute_payload_hash sha d)"

datatype respuesta_idem =
    RSuccess json
  | RProcessing
  | RAlreadyQueued
  | RRedisUnavailable

text \<open>\<open>None\<close>: continue with the operation (\<^verbatim>\<open>False, None\<close>); \<open>Some r\<close>: answer \<open>r\<close> (\<^verbatim>\<open>True, r\<close>).\<close>

type_synonym veredicto = "respuesta_idem option"

definition idem_get :: "string \<Rightarrow> registro_idem crudo option guion" where
  "idem_get key r = (Inr (tget (reloj r) (r_idem r) key), r)"

definition idem_set :: "string \<Rightarrow> registro_idem \<Rightarrow> int \<Rightarrow> unit guion" where
  "idem_set key reg px r = (Inr (), r\<lparr>r_idem := tset (reloj r) px (r_idem r) key (Valido reg)\<rparr>)"

definition idem_set_nx :: "string \<Rightarrow> registro_idem \<Rightarrow> int \<Rightarrow> bool guion" where
  "idem_set_nx key reg px r =
     (if tget (reloj r) (r_idem r) key = None
      then (Inr True, r\<lparr>r_idem := tset (reloj r) px (r_idem r) key (Valido reg)\<rparr>)
      else (Inr False, r))"

definition idem_del :: "string \<Rightarrow> unit guion" where
  "idem_del key r = (Inr (), r\<lparr>r_idem := tdel (r_idem r) key\<rparr>)"

subsection \<open>Operations\<close>

definition fail_closed_redis_no_disponible :: "string \<Rightarrow> bool \<Rightarrow> veredicto accion" where
  "fail_closed_redis_no_disponible smart_code fail_closed =
     (if \<not> fail_closed then devuelve None
      else luego (emite (Correo ''redis_no_disponible'' smart_code)) (\<lambda>_. devuelve (Some RRedisUnavailable)))"

definition manejar_fallo_redis_idempotencia :: "excepcion \<Rightarrow> string \<Rightarrow> bool \<Rightarrow> veredicto accion" where
  "manejar_fallo_redis_idempotencia e smart_code fail_closed =
     (if \<not> fail_closed then devuelve None
      else luego (emite (Correo ''redis_no_disponible'' smart_code)) (\<lambda>_. devuelve (Some RRedisUnavailable)))"

definition item_de_cola_sigue_vigente :: "(string \<Rightarrow> string) \<Rightarrow> nat option \<Rightarrow> string \<Rightarrow> bool accion" where
  "item_de_cola_sigue_vigente sha qid payload_hash =
     luego hay_cliente (\<lambda>hay.
       if qid = None \<or> qid = Some 0 \<or> \<not> hay then devuelve True
       else intenta
         (luego (redis_cmd (\<lambda>r. (Inr (r_item r (the qid)), r))) (\<lambda>raw.
            case raw of
              None \<Rightarrow> devuelve False
            | Some Corrupto \<Rightarrow> lanza (ValueError ''json'')
            | Some (Valido it) \<Rightarrow>
                if it_estado it \<noteq> PENDING then devuelve False
                else case it_payload_hash it of
                  Some h \<Rightarrow> if h \<noteq> [] then devuelve (h = payload_hash)
                            else devuelve (compute_payload_hash sha (it_payload it) = payload_hash)
                | None \<Rightarrow> devuelve (compute_payload_hash sha (it_payload it) = payload_hash)))
         (\<lambda>e. devuelve True))"

text \<open>\<open>None\<close>: go on as if there were no record.\<close>

definition evaluar_registro_existente ::
    "(string \<Rightarrow> string) \<Rightarrow> registro_idem crudo option \<Rightarrow> string \<Rightarrow> string \<Rightarrow> veredicto option accion" where
  "evaluar_registro_existente sha raw key payload_hash =
     (case raw of
        None \<Rightarrow> devuelve None
      | Some Corrupto \<Rightarrow> lanza (ValueError ''json'')
      | Some (Valido reg) \<Rightarrow>
          if ri_payload_hash reg \<noteq> payload_hash then devuelve None
          else case ri_status reg of
            ICompleted \<Rightarrow> devuelve (Some (Some (RSuccess (ri_sfc_response reg))))
          | IProcessing \<Rightarrow> devuelve (Some (Some RProcessing))
          | IQueued \<Rightarrow>
              luego (item_de_cola_sigue_vigente sha (ri_queue_item_id reg) payload_hash) (\<lambda>vigente.
                if vigente then devuelve (Some (Some RAlreadyQueued))
                else luego (redis_cmd (idem_del key)) (\<lambda>_. devuelve None)))"

definition iniciar_registro_processing ::
    "string \<Rightarrow> registro_idem \<Rightarrow> string \<Rightarrow> veredicto accion" where
  "iniciar_registro_processing key inicial payload_hash =
     luego (redis_cmd (idem_set_nx key inicial processing_px)) (\<lambda>ok.
       if ok then devuelve None
       else luego (redis_cmd (idem_get key)) (\<lambda>raw.
         case raw of
           None \<Rightarrow> devuelve (Some RProcessing)
         | Some Corrupto \<Rightarrow> lanza (ValueError ''json'')
         | Some (Valido reg) \<Rightarrow>
             if ri_status reg = ICompleted \<and> ri_payload_hash reg = payload_hash
             then devuelve (Some (RSuccess (ri_sfc_response reg)))
             else devuelve (Some RProcessing)))"

definition verificar_o_iniciar_operacion ::
    "(string \<Rightarrow> string) \<Rightarrow> string \<Rightarrow> dict \<Rightarrow> bool \<Rightarrow> veredicto accion" where
  "verificar_o_iniciar_operacion sha smart_code d fail_closed =
     (let payload_hash = compute_payload_hash sha d; key = clave sha smart_code d
      in luego hay_cliente (\<lambda>hay.
        if \<not> hay then fail_closed_redis_no_disponible smart_code fail_closed
        else intenta
          (luego (redis_cmd (idem_get key)) (\<lambda>raw.
           luego (evaluar_registro_existente sha raw key payload_hash) (\<lambda>res.
             case res of
               Some v \<Rightarrow> devuelve v
             | None \<Rightarrow> iniciar_registro_processing key
                         (registro sha IProcessing smart_code d JNull None) payload_hash)))
          (\<lambda>e. manejar_fallo_redis_idempotencia e smart_code fail_closed)))"

definition registrar_exito :: "(string \<Rightarrow> string) \<Rightarrow> string \<Rightarrow> dict \<Rightarrow> json \<Rightarrow> unit accion" where
  "registrar_exito sha smart_code d resp =
     luego hay_cliente (\<lambda>hay.
       if \<not> hay then lanza (RuntimeError ''registrar_exito'')
       else con_reintentos 3 ''registrar_exito''
         (redis_cmd (idem_set (construir_clave_completado sha smart_code d None)
            (construir_registro_completado sha smart_code d resp None) ttl_ms)))"

definition registrar_encolado :: "(string \<Rightarrow> string) \<Rightarrow> string \<Rightarrow> dict \<Rightarrow> nat option \<Rightarrow> unit accion" where
  "registrar_encolado sha smart_code d registro_id =
     luego hay_cliente (\<lambda>hay.
       if \<not> hay then lanza (RuntimeError ''registrar_encolado'')
       else con_reintentos 3 ''registrar_encolado''
         (redis_cmd (idem_set (clave sha smart_code d) (registro sha IQueued smart_code d JNull registro_id) ttl_ms)))"

definition liberar_por_fallo_definitivo :: "(string \<Rightarrow> string) \<Rightarrow> string \<Rightarrow> dict \<Rightarrow> unit accion" where
  "liberar_por_fallo_definitivo sha smart_code d =
     luego hay_cliente (\<lambda>hay.
       if \<not> hay then devuelve ()
       else intenta (redis_cmd (idem_del (clave sha smart_code d))) (\<lambda>e. devuelve ()))"

definition liberar_operacion_por_error :: "(string \<Rightarrow> string) \<Rightarrow> string \<Rightarrow> dict \<Rightarrow> unit accion" where
  "liberar_operacion_por_error sha smart_code d =
     luego hay_cliente (\<lambda>hay.
       if \<not> hay then devuelve ()
       else intenta (redis_cmd (idem_del (clave sha smart_code d))) (\<lambda>e. devuelve ()))"

text \<open>EXTEND_PROCESSING: one beat of the heartbeat, which swallows every failure.\<close>

definition extend_processing_lua :: "string \<Rightarrow> string \<Rightarrow> int \<Rightarrow> bool guion" where
  "extend_processing_lua key payload_hash px r =
     (case tget (reloj r) (r_idem r) key of
        None \<Rightarrow> (Inr False, r)
      | Some Corrupto \<Rightarrow> (Inr False, r)
      | Some (Valido reg) \<Rightarrow>
          if ri_status reg = IProcessing \<and> ri_payload_hash reg = payload_hash
          then (Inr True, r\<lparr>r_idem := texpire (reloj r) px (r_idem r) key\<rparr>)
          else (Inr False, r))"

definition latido_processing :: "string \<Rightarrow> string \<Rightarrow> int \<Rightarrow> int \<Rightarrow> unit accion" where
  "latido_processing key payload_hash lease_ms intervalo =
     luego (duerme intervalo) (\<lambda>_.
       intenta (luego (redis_cmd (extend_processing_lua key payload_hash lease_ms)) (\<lambda>_. devuelve ()))
         (\<lambda>e. devuelve ()))"

subsection \<open>File checkpoints\<close>

definition get_checkpoint_key :: "string \<Rightarrow> string" where
  "get_checkpoint_key codigo = idempotency_prefix @ '':file_checkpoint:'' @ codigo"

definition archivos_de :: "redis \<Rightarrow> string \<Rightarrow> string set" where
  "archivos_de r key = (case tget (reloj r) (r_checkpoint r) key of None \<Rightarrow> {} | Some s \<Rightarrow> s)"

definition obtener_archivos_completados :: "string \<Rightarrow> string set accion" where
  "obtener_archivos_completados codigo =
     luego hay_cliente (\<lambda>hay.
       if \<not> hay then devuelve {}
       else intenta (redis_cmd (\<lambda>r. (Inr (archivos_de r (get_checkpoint_key codigo)), r)))
              (\<lambda>e. devuelve {}))"

text \<open>\<^verbatim>\<open>HSET\<close> keeps the expiry of an existing hash and creates a new one without expiry, which the
\<^verbatim>\<open>EXPIRE\<close> that follows sets; \<open>sin_vencer\<close> stands for no expiry.\<close>

definition sin_vencer :: int where
  "sin_vencer = 2 ^ 62"

definition checkpoint_hset :: "string \<Rightarrow> string \<Rightarrow> unit guion" where
  "checkpoint_hset key archivo r =
     (Inr (), r\<lparr>r_checkpoint :=
        (case r_checkpoint r key of
           Some (s, e) \<Rightarrow> if reloj r < e then (r_checkpoint r)(key := Some (insert archivo s, e))
                          else (r_checkpoint r)(key := Some ({archivo}, reloj r + sin_vencer))
         | None \<Rightarrow> (r_checkpoint r)(key := Some ({archivo}, reloj r + sin_vencer)))\<rparr>)"

definition checkpoint_expire :: "string \<Rightarrow> int \<Rightarrow> unit guion" where
  "checkpoint_expire key px r = (Inr (), r\<lparr>r_checkpoint := texpire (reloj r) px (r_checkpoint r) key\<rparr>)"

definition marcar_archivo_completado :: "string \<Rightarrow> string \<Rightarrow> unit accion" where
  "marcar_archivo_completado codigo archivo =
     luego hay_cliente (\<lambda>hay.
       if \<not> hay then devuelve ()
       else intenta
         (luego (redis_cmd (checkpoint_hset (get_checkpoint_key codigo) archivo)) (\<lambda>_.
            redis_cmd (checkpoint_expire (get_checkpoint_key codigo) ttl_ms)))
         (\<lambda>e. devuelve ()))"

definition limpiar_checkpoint_archivos :: "string \<Rightarrow> unit accion" where
  "limpiar_checkpoint_archivos codigo =
     luego hay_cliente (\<lambda>hay.
       if \<not> hay then devuelve ()
       else intenta (redis_cmd (\<lambda>r. (Inr (), r\<lparr>r_checkpoint := tdel (r_checkpoint r) (get_checkpoint_key codigo)\<rparr>)))
              (\<lambda>e. devuelve ()))"

subsection \<open>The store leaves the queue alone\<close>

lemmas idem_defs = idem_get_def idem_set_def idem_set_nx_def idem_del_def

lemma idem_pasos:
  "respeta paso_cola\<^sup>*\<^sup>* (redis_cmd (idem_get k))"
  "respeta paso_cola\<^sup>*\<^sup>* (redis_cmd (idem_set k reg px))"
  "respeta paso_cola\<^sup>*\<^sup>* (redis_cmd (idem_set_nx k reg px))"
  "respeta paso_cola\<^sup>*\<^sup>* (redis_cmd (idem_del k))"
  "respeta paso_cola\<^sup>*\<^sup>* (redis_cmd (extend_processing_lua k h px))"
  by (rule gcola.redis_cmd; auto simp: idem_defs extend_processing_lua_def intro!: r_into_rtranclp p_idem
      split: option.split crudo.split)+

lemma checkpoint_pasos:
  "respeta paso_cola\<^sup>*\<^sup>* (redis_cmd (checkpoint_hset k a))"
  "respeta paso_cola\<^sup>*\<^sup>* (redis_cmd (checkpoint_expire k px))"
  by (rule gcola_cmd, simp add: checkpoint_hset_def checkpoint_expire_def p_checkpoint)+

lemma refina_vigente: "respeta paso_cola\<^sup>*\<^sup>* (item_de_cola_sigue_vigente sha qid h)"
  unfolding item_de_cola_sigue_vigente_def
  by (intro gcola.reglas)
    (auto intro!: gcola.reglas gcola.lectura split: option.split crudo.split)

lemma refina_evaluar: "respeta paso_cola\<^sup>*\<^sup>* (evaluar_registro_existente sha raw key h)"
  unfolding evaluar_registro_existente_def
  by (auto intro!: gcola.reglas refina_vigente idem_pasos split: option.split crudo.split estado_idem.split)

lemma refina_iniciar: "respeta paso_cola\<^sup>*\<^sup>* (iniciar_registro_processing key reg h)"
  unfolding iniciar_registro_processing_def
  by (auto intro!: gcola.reglas idem_pasos split: option.split crudo.split)

lemma refina_verificar: "respeta paso_cola\<^sup>*\<^sup>* (verificar_o_iniciar_operacion sha s d fc)"
  unfolding verificar_o_iniciar_operacion_def fail_closed_redis_no_disponible_def
    manejar_fallo_redis_idempotencia_def Let_def
  by (auto intro!: gcola.reglas idem_pasos refina_evaluar refina_iniciar split: option.split)

lemma refina_registrar:
  "respeta paso_cola\<^sup>*\<^sup>* (registrar_exito sha s d resp)"
  "respeta paso_cola\<^sup>*\<^sup>* (registrar_encolado sha s d q)"
  "respeta paso_cola\<^sup>*\<^sup>* (liberar_por_fallo_definitivo sha s d)"
  "respeta paso_cola\<^sup>*\<^sup>* (liberar_operacion_por_error sha s d)"
  "respeta paso_cola\<^sup>*\<^sup>* (latido_processing k h l i)"
  unfolding registrar_exito_def registrar_encolado_def liberar_por_fallo_definitivo_def
    liberar_operacion_por_error_def latido_processing_def
  by (intro gcola.reglas idem_pasos)+

lemma refina_checkpoints:
  "respeta paso_cola\<^sup>*\<^sup>* (obtener_archivos_completados c)"
  "respeta paso_cola\<^sup>*\<^sup>* (marcar_archivo_completado c a)"
  "respeta paso_cola\<^sup>*\<^sup>* (limpiar_checkpoint_archivos c)"
  unfolding obtener_archivos_completados_def marcar_archivo_completado_def limpiar_checkpoint_archivos_def
  by (intro gcola.reglas checkpoint_pasos gcola.lectura gcola_cmd; simp add: p_checkpoint)+

end
