(* ===== verification/Cola_Servicio.thy ===== *)
theory Cola_Servicio
  imports Idempotencia
begin

text \<open>
  The Python side of \<^verbatim>\<open>app/services/queue_service.py\<close>: the class \<^verbatim>\<open>ColaItemRedis\<close> and the methods
  of \<^verbatim>\<open>QueueService\<close>, which call the scripts, translate their replies, notify and swallow or
  propagate the failures of Redis. The settings are the record \<open>ajustes\<close>; \<open>sscan\<close> is the order
  in which Redis enumerates a set, and \<open>sha\<close> is SHA-256.
\<close>

record ajustes =
  QUEUE_MAX_RETRIES :: nat
  QUEUE_RETRY_INTERVAL_MINUTES :: nat
  QUEUE_RETENTION_DAYS :: nat
  QUEUE_RETENTION_DAYS_DLQ :: nat

definition ajustes_por_defecto :: ajustes where
  "ajustes_por_defecto =
     \<lparr>QUEUE_MAX_RETRIES = 10, QUEUE_RETRY_INTERVAL_MINUTES = 5, QUEUE_RETENTION_DAYS = 7,
      QUEUE_RETENTION_DAYS_DLQ = 30\<rparr>"

definition minutos :: "nat \<Rightarrow> int" where
  "minutos n = int n * 60000"

definition horas :: "nat \<Rightarrow> int" where
  "horas n = int n * 3600000"

definition dias :: "nat \<Rightarrow> int" where
  "dias n = int n * 86400000"

text \<open>\<^verbatim>\<open>ColaItemRedis(data)\<close> fills the fields that old items lack.\<close>

definition ColaItemRedis :: "ajustes \<Rightarrow> item \<Rightarrow> item" where
  "ColaItemRedis cfg it =
     it\<lparr>it_intentos := Some (intentos_o_0 it),
        it_max_intentos := Some (case it_max_intentos it of None \<Rightarrow> QUEUE_MAX_RETRIES cfg | Some n \<Rightarrow> n),
        it_correlation_id := Some (case it_correlation_id it of None \<Rightarrow> ''N/A'' | Some c \<Rightarrow> c),
        it_version := Some (version_o_1 it)\<rparr>"

definition texto_json :: "string option \<Rightarrow> json" where
  "texto_json t = (case t of None \<Rightarrow> JNull | Some s \<Rightarrow> JStr s)"

definition instante_json :: "int option \<Rightarrow> json" where
  "instante_json t = (case t of None \<Rightarrow> JNull | Some i \<Rightarrow> JInt i)"

definition to_dict :: "item \<Rightarrow> dict" where
  "to_dict it =
     [(''id'', JInt (int (it_id it))), (''smart_code'', JStr (it_smart_code it)),
      (''tipo_operacion'', JStr (it_tipo_operacion it)), (''payload_json'', JObj (it_payload it)),
      (''estado'', JStr (valor_status (it_estado it))), (''sfc_completado'', JBool (it_sfc_completado it)),
      (''sfc_response'', case it_sfc_response it of None \<Rightarrow> JNull | Some v \<Rightarrow> v),
      (''intentos'', JInt (int (intentos_o_0 it))),
      (''max_intentos'', case it_max_intentos it of None \<Rightarrow> JNull | Some n \<Rightarrow> JInt (int n)),
      (''ultimo_error'', texto_json (it_ultimo_error it)),
      (''proximo_reintento_at'', instante_json (it_proximo_reintento_at it)),
      (''created_at'', instante_json (it_created_at it)), (''updated_at'', instante_json (it_updated_at it)),
      (''correlation_id'', texto_json (it_correlation_id it)), (''es_duplicado'', JBool (it_es_duplicado it)),
      (''version'', JInt (int (version_o_1 it))), (''payload_hash'', texto_json (it_payload_hash it))]"

definition to_summary_dict :: "item \<Rightarrow> dict" where
  "to_summary_dict it =
     [(''smart_code'', JStr (it_smart_code it)), (''status'', JStr (valor_status (it_estado it))),
      (''sfc_completado'', JBool (it_sfc_completado it)), (''attempts'', JInt (int (intentos_o_0 it))),
      (''max_attempts'', case it_max_intentos it of None \<Rightarrow> JNull | Some n \<Rightarrow> JInt (int n)),
      (''last_error_code'', JStr (if texto_o_vacio (it_ultimo_error it) = [] then ''N/A'' else texto_o_vacio (it_ultimo_error it))),
      (''proximo_reintento_at'', instante_json (it_proximo_reintento_at it)),
      (''created_at'', instante_json (it_created_at it)), (''updated_at'', instante_json (it_updated_at it)),
      (''correlation_id'', texto_json (it_correlation_id it))]"

subsection \<open>Reading the queue\<close>

definition contar_pendientes :: "nat accion" where
  "contar_pendientes =
     luego hay_cliente (\<lambda>hay.
       if \<not> hay then devuelve 0 else redis_cmd (\<lambda>r. (Inr (card (pendientes r)), r)))"

definition sismember :: "smart_status \<Rightarrow> nat \<Rightarrow> bool accion" where
  "sismember st i = redis_cmd (\<lambda>r. (Inr (i \<in> r_estado r st), r))"

definition get_item :: "nat \<Rightarrow> item crudo option accion" where
  "get_item i = redis_cmd (\<lambda>r. (Inr (r_item r i), r))"

fun edad_primero_pendiente :: "int \<Rightarrow> (nat \<times> int) list \<Rightarrow> int option accion" where
  "edad_primero_pendiente now [] = devuelve None"
| "edad_primero_pendiente now ((i, created) # cs) =
     luego (sismember PENDING i) (\<lambda>p.
       if p then devuelve (Some (max 0 (now - created))) else edad_primero_pendiente now cs)"

definition obtener_edad_item_mas_antiguo_pendiente :: "int option accion" where
  "obtener_edad_item_mas_antiguo_pendiente =
     luego hay_cliente (\<lambda>hay.
       if \<not> hay then devuelve None
       else intenta
         (luego (redis_cmd (\<lambda>r. (Inr (take 20 (zrange_todo (r_zcreado r))), r))) (\<lambda>candidatos.
            if candidatos = [] then devuelve None
            else luego ahora (\<lambda>now. edad_primero_pendiente now candidatos)))
         (\<lambda>e. devuelve None))"

record caso_vencido =
  cv_smart_code :: string
  cv_correlation_id :: string
  cv_fecha_encolado :: int
  cv_en_cola :: int
  cv_reintentos :: nat
  cv_ultimo_error :: string

definition caso_vencido_de :: "int \<Rightarrow> item \<Rightarrow> caso_vencido accion" where
  "caso_vencido_de now it =
     (case (it_created_at it, it_intentos it) of
        (Some created, Some n) \<Rightarrow>
          devuelve \<lparr>cv_smart_code = it_smart_code it,
            cv_correlation_id = (case it_correlation_id it of None \<Rightarrow> ''N/A'' | Some c \<Rightarrow> c),
            cv_fecha_encolado = created, cv_en_cola = now - created, cv_reintentos = n,
            cv_ultimo_error = (if texto_o_vacio (it_ultimo_error it) = [] then ''Sin detalle de error''
                               else texto_o_vacio (it_ultimo_error it))\<rparr>
      | (None, _) \<Rightarrow> lanza (KeyError ''created_at'')
      | (_, None) \<Rightarrow> lanza (KeyError ''intentos''))"

text \<open>The common shape of the two listings: skip what is no longer pending or was deleted.\<close>

fun recorre_pendientes :: "(item \<Rightarrow> 'a option accion) \<Rightarrow> nat list \<Rightarrow> 'a list accion" where
  "recorre_pendientes f [] = devuelve []"
| "recorre_pendientes f (i # ids) =
     luego (sismember PENDING i) (\<lambda>p.
       if \<not> p then recorre_pendientes f ids
       else luego (get_item i) (\<lambda>raw.
         case raw of
           None \<Rightarrow> recorre_pendientes f ids
         | Some Corrupto \<Rightarrow> lanza (ValueError ''json'')
         | Some (Valido it) \<Rightarrow>
             luego (f it) (\<lambda>y. luego (recorre_pendientes f ids) (\<lambda>ys.
               devuelve (case y of None \<Rightarrow> ys | Some x \<Rightarrow> x # ys)))))"

definition obtener_casos_vencidos_sla :: "nat \<Rightarrow> caso_vencido list accion" where
  "obtener_casos_vencidos_sla horas_limite =
     luego hay_cliente (\<lambda>hay.
       if \<not> hay then devuelve []
       else luego ahora (\<lambda>now.
         luego (redis_cmd (\<lambda>r. (Inr (zrangebyscore (r_zcreado r) (now - horas horas_limite)), r))) (\<lambda>ids.
           recorre_pendientes (\<lambda>it. luego (caso_vencido_de now it) (\<lambda>c. devuelve (Some c))) ids)))"

definition con_reintentos_disponibles :: "ajustes \<Rightarrow> item \<Rightarrow> item option" where
  "con_reintentos_disponibles cfg it =
     (if intentos_o_0 it < (case it_max_intentos it of None \<Rightarrow> QUEUE_MAX_RETRIES cfg | Some n \<Rightarrow> n)
      then Some (ColaItemRedis cfg it) else None)"

definition obtener_pendientes_para_reintento :: "ajustes \<Rightarrow> item list accion" where
  "obtener_pendientes_para_reintento cfg =
     luego hay_cliente (\<lambda>hay.
       if \<not> hay then devuelve []
       else luego ahora (\<lambda>now.
         luego (redis_cmd (\<lambda>r. (Inr (zrangebyscore (r_zpend r) now), r))) (\<lambda>ids.
           recorre_pendientes (\<lambda>it. devuelve (con_reintentos_disponibles cfg it)) ids)))"

definition obtener_ids_de_set_estado :: "(nat set \<Rightarrow> nat list) \<Rightarrow> smart_status \<Rightarrow> nat list accion" where
  "obtener_ids_de_set_estado sscan st = redis_cmd (\<lambda>r. (Inr (sscan (r_estado r st)), r))"

definition mas_reciente_primero :: "item list \<Rightarrow> item list" where
  "mas_reciente_primero its = sort_key (\<lambda>it. case it_created_at it of None \<Rightarrow> (1::nat, 0) | Some c \<Rightarrow> (0, - c)) its"

fun carga_items :: "ajustes \<Rightarrow> nat list \<Rightarrow> item list accion" where
  "carga_items cfg [] = devuelve []"
| "carga_items cfg (i # ids) =
     luego (get_item i) (\<lambda>raw.
       case raw of
         None \<Rightarrow> carga_items cfg ids
       | Some Corrupto \<Rightarrow> lanza (ValueError ''json'')
       | Some (Valido it) \<Rightarrow> luego (carga_items cfg ids) (\<lambda>its. devuelve (ColaItemRedis cfg it # its)))"

definition obtener_todos_los_encolados ::
    "(nat set \<Rightarrow> nat list) \<Rightarrow> ajustes \<Rightarrow> smart_status option \<Rightarrow> item list accion" where
  "obtener_todos_los_encolados sscan cfg estado =
     luego hay_cliente (\<lambda>hay.
       if \<not> hay then devuelve []
       else intenta
         (luego (case estado of
                   Some st \<Rightarrow> obtener_ids_de_set_estado sscan st
                 | None \<Rightarrow> luego (para_cada (obtener_ids_de_set_estado sscan) [PENDING, COMPLETED, FAILED_FINAL])
                             (\<lambda>listas. devuelve (rev (remdups (rev (concat listas)))))) (\<lambda>ids.
          luego (carga_items cfg ids) (\<lambda>its. devuelve (mas_reciente_primero its))))
         (\<lambda>e. devuelve []))"

subsection \<open>Transitions\<close>

definition encolar_despacho ::
    "(string \<Rightarrow> string) \<Rightarrow> ajustes \<Rightarrow> string \<Rightarrow> string \<Rightarrow> string \<Rightarrow> dict \<Rightarrow> string \<Rightarrow> item accion" where
  "encolar_despacho sha cfg correlation_id smart_code tipo payload error_inicial =
     luego hay_cliente (\<lambda>hay.
       if \<not> hay then lanza (RuntimeError ''Cliente de Redis no disponible.'')
       else luego ahora (\<lambda>now.
         let op = infer_operation_type payload;
             args = \<lparr>ae_smart_code = smart_code, ae_tipo_operacion = tipo, ae_payload = payload,
                     ae_error_inicial = error_inicial, ae_max_intentos = QUEUE_MAX_RETRIES cfg, ae_now = now,
                     ae_proximo = now + minutos (QUEUE_RETRY_INTERVAL_MINUTES cfg),
                     ae_correlation_id = (if correlation_id = [] then ''N/A'' else correlation_id),
                     ae_payload_hash = compute_payload_hash sha payload, ae_operacion = op\<rparr>
         in luego (redis_cmd (enqueue_lua (indice_key smart_code op) args)) (\<lambda>res.
           if \<not> is_new res then devuelve (ColaItemRedis cfg (data res))
           else luego (if pendientes_previos res = 0 then emite (Correo ''sfc_caida_contingencia'' smart_code)
                       else devuelve ()) (\<lambda>_.
             luego (if (pendientes_previos res + 1) mod 100 = 0
                    then emite (Correo ''umbral_cola'' (str_nat (pendientes_previos res + 1))) else devuelve ())
               (\<lambda>_. devuelve (ColaItemRedis cfg (data res)))))))"

datatype transicion = TCompleted | TFailed | TNotOwner | TVersionMismatch | TNotFound

definition marcar_sfc_completado ::
    "(string \<Rightarrow> string) \<Rightarrow> nat \<Rightarrow> string \<Rightarrow> nat \<Rightarrow> string \<Rightarrow> dict \<Rightarrow> json option \<Rightarrow> string option \<Rightarrow> transicion accion" where
  "marcar_sfc_completado sha i worker_id expected_version smart_code payload resp payload_hash =
     luego hay_cliente (\<lambda>hay.
       if \<not> hay then lanza (RuntimeError ''Cliente de Redis no disponible al intentar persistir SFC_DONE.'')
       else luego ahora (\<lambda>now.
         let key = construir_clave_completado sha smart_code payload payload_hash;
             reg = construir_registro_completado sha smart_code payload
                     (case resp of None \<Rightarrow> JNull | Some v \<Rightarrow> v) payload_hash
         in con_reintentos 3 ''No fue posible persistir SFC_DONE''
              (luego (redis_cmd (mark_sfc_done_lua i key worker_id expected_version now resp reg ttl_ms)) (\<lambda>res.
                 case res of
                   Exito \<Rightarrow> devuelve TCompleted
                 | Rechazo NotOwner \<Rightarrow> devuelve TNotOwner
                 | Rechazo VersionMismatch \<Rightarrow> devuelve TVersionMismatch
                 | Rechazo ItemNotFound \<Rightarrow> devuelve TNotFound
                 | _ \<Rightarrow> lanza (RuntimeError ''Fallo en transicion'')))))"

definition reclamar_item_para_procesamiento :: "ajustes \<Rightarrow> nat \<Rightarrow> string \<Rightarrow> nat \<Rightarrow> item option accion" where
  "reclamar_item_para_procesamiento cfg i worker_id lease_segundos =
     luego hay_cliente (\<lambda>hay.
       if \<not> hay then devuelve None
       else intenta
         (luego (redis_cmd (claim_item_lua i worker_id (int lease_segundos * 1000))) (\<lambda>res.
            case res of Reclamado it \<Rightarrow> devuelve (Some (ColaItemRedis cfg it)) | NoReclamado _ \<Rightarrow> devuelve None))
         (\<lambda>e. devuelve None))"

definition marcar_exitoso :: "nat \<Rightarrow> string \<Rightarrow> nat \<Rightarrow> transicion accion" where
  "marcar_exitoso i worker_id expected_version =
     luego hay_cliente (\<lambda>hay.
       if \<not> hay then lanza (RuntimeError ''Cliente de Redis no disponible.'')
       else luego ahora (\<lambda>now.
         luego (redis_cmd (mark_success_lua i now worker_id expected_version)) (\<lambda>res.
           case res of
             Exito \<Rightarrow> devuelve TCompleted
           | Rechazo ItemNotFound \<Rightarrow> devuelve TNotFound
           | Rechazo NotOwner \<Rightarrow> devuelve TNotOwner
           | Rechazo VersionMismatch \<Rightarrow> devuelve TVersionMismatch
           | _ \<Rightarrow> lanza (RuntimeError ''Fallo en transicion de estado''))))"

text \<open>The retry policy: whether this failure is the last one, and the pause before the next try.\<close>

definition max_intentos_de :: "ajustes \<Rightarrow> item \<Rightarrow> nat" where
  "max_intentos_de cfg it =
     (case it_max_intentos it of None \<Rightarrow> QUEUE_MAX_RETRIES cfg
      | Some n \<Rightarrow> if n = 0 then QUEUE_MAX_RETRIES cfg else n)"

definition es_definitivo :: "ajustes \<Rightarrow> item \<Rightarrow> bool \<Rightarrow> bool" where
  "es_definitivo cfg it consumir = (consumir \<and> max_intentos_de cfg it \<le> intentos_o_0 it + 1)"

definition espera_minutos :: "ajustes \<Rightarrow> item \<Rightarrow> bool \<Rightarrow> nat" where
  "espera_minutos cfg it consumir =
     (if consumir then QUEUE_RETRY_INTERVAL_MINUTES cfg * (intentos_o_0 it + 1)
      else QUEUE_RETRY_INTERVAL_MINUTES cfg)"

definition registrar_fallo ::
    "(string \<Rightarrow> string) \<Rightarrow> ajustes \<Rightarrow> item \<Rightarrow> string \<Rightarrow> string \<Rightarrow> bool \<Rightarrow> transicion accion" where
  "registrar_fallo sha cfg it error_msg worker_id consumir =
     luego hay_cliente (\<lambda>hay.
       if \<not> hay then devuelve TNotFound
       else luego ahora (\<lambda>now.
         intenta
           (luego (redis_cmd (registrar_fallo_lua (it_id it) worker_id (version_o_1 it) error_msg now
                     (es_definitivo cfg it consumir) (now + minutos (espera_minutos cfg it consumir)) consumir))
             (\<lambda>res. case res of
                Rechazo NotOwner \<Rightarrow> devuelve TNotOwner
              | Rechazo VersionMismatch \<Rightarrow> devuelve TVersionMismatch
              | Rechazo _ \<Rightarrow> devuelve TNotFound
              | Exito \<Rightarrow>
                  luego (if es_definitivo cfg it consumir
                         then luego (emite (Correo ''caso_fallido_definitivo'' (it_smart_code it))) (\<lambda>_.
                                if it_smart_code it \<noteq> [] \<and> it_payload it \<noteq> []
                                then liberar_por_fallo_definitivo sha (it_smart_code it) (it_payload it)
                                else devuelve ())
                         else devuelve ()) (\<lambda>_. devuelve TFailed)))
           (\<lambda>e. devuelve TNotFound)))"

definition reencolar_item_fallido :: "(string \<Rightarrow> string) \<Rightarrow> ajustes \<Rightarrow> nat \<Rightarrow> salida_replay accion" where
  "reencolar_item_fallido sha cfg i =
     luego hay_cliente (\<lambda>hay.
       if \<not> hay then devuelve (ReplayRechazado RedisNoDisponible)
       else luego ahora (\<lambda>now.
         luego (intenta (luego (redis_cmd (replay_item_lua i now)) (\<lambda>res. devuelve (Inr res)))
                  (\<lambda>e. devuelve (Inl ()))) (\<lambda>intento.
           case intento of
             Inl _ \<Rightarrow> devuelve (ReplayRechazado ErrorRedisReplay)
           | Inr (ReplayRechazado why) \<Rightarrow> devuelve (ReplayRechazado why)
           | Inr (Reencolado smart_code v) \<Rightarrow>
               luego (if smart_code = [] then devuelve ()
                      else intenta
                        (luego (get_item i) (\<lambda>raw.
                           case raw of
                             None \<Rightarrow> devuelve ()
                           | Some Corrupto \<Rightarrow> lanza (ValueError ''json'')
                           | Some (Valido it) \<Rightarrow> registrar_encolado sha smart_code (it_payload it) (Some i)))
                        (\<lambda>e. devuelve ())) (\<lambda>_. devuelve (Reencolado smart_code v)))))"

text \<open>The purge of one state set: the reads come first, the deletions later in one pipeline.\<close>

fun clasifica_purga :: "int \<Rightarrow> nat list \<Rightarrow> (nat list \<times> nat list) accion" where
  "clasifica_purga limite [] = devuelve ([], [])"
| "clasifica_purga limite (i # ids) =
     luego (get_item i) (\<lambda>raw.
       case raw of
         None \<Rightarrow> luego (clasifica_purga limite ids) (\<lambda>(inc, del). devuelve (i # inc, del))
       | Some Corrupto \<Rightarrow> lanza (ValueError ''json'')
       | Some (Valido it) \<Rightarrow>
           (case it_updated_at it of
              None \<Rightarrow> lanza (KeyError ''updated_at'')
            | Some u \<Rightarrow> luego (clasifica_purga limite ids) (\<lambda>(inc, del).
                devuelve (inc, if u \<le> limite then i # del else del))))"

definition purgar_estado :: "(nat set \<Rightarrow> nat list) \<Rightarrow> smart_status \<Rightarrow> int \<Rightarrow> nat accion" where
  "purgar_estado sscan st limite =
     luego (obtener_ids_de_set_estado sscan st) (\<lambda>ids.
     luego (clasifica_purga limite ids) (\<lambda>(inc, del).
       if inc = [] \<and> del = [] then devuelve 0
       else luego (redis_cmd (\<lambda>r. (Inr (), purga_lua st inc del r))) (\<lambda>_. devuelve (length del))))"

definition purgar_registros_antiguos :: "(nat set \<Rightarrow> nat list) \<Rightarrow> ajustes \<Rightarrow> nat accion" where
  "purgar_registros_antiguos sscan cfg =
     luego hay_cliente (\<lambda>hay.
       if \<not> hay then devuelve 0
       else luego ahora (\<lambda>now.
         intenta
           (luego (purgar_estado sscan COMPLETED (now - dias (QUEUE_RETENTION_DAYS cfg))) (\<lambda>a.
            luego (purgar_estado sscan FAILED_FINAL (now - dias (QUEUE_RETENTION_DAYS_DLQ cfg))) (\<lambda>b.
              devuelve (a + b))))
           (\<lambda>e. devuelve 0)))"

definition mensaje_diferido :: string where
  "mensaje_diferido = ''Reintento pospuesto autom'' @ [char_of (195::nat), char_of (161::nat)] @ ''ticamente por ca''
       @ [char_of (195::nat), char_of (173::nat)] @ ''da de plataforma SFC.''"

definition diferir_pendientes_por_caida_sfc :: "ajustes \<Rightarrow> item list \<Rightarrow> nat option \<Rightarrow> nat accion" where
  "diferir_pendientes_por_caida_sfc cfg registros minutos_delay =
     luego hay_cliente (\<lambda>hay.
       if \<not> hay \<or> registros = [] then devuelve 0
       else let delay = (case minutos_delay of None \<Rightarrow> QUEUE_RETRY_INTERVAL_MINUTES cfg
                         | Some m \<Rightarrow> if m = 0 then QUEUE_RETRY_INTERVAL_MINUTES cfg else m)
       in luego ahora (\<lambda>now.
         luego (para_cada (\<lambda>it.
                  intenta (luego (redis_cmd (diferir_item_lua (it_id it) (now + minutos delay) now
                                    mensaje_diferido (version_o_1 it)))
                             (\<lambda>res. devuelve (if res = Exito then 1 else 0)))
                    (\<lambda>e. devuelve 0)) registros)
           (\<lambda>ns. devuelve (sum_list ns))))"

definition cancelar_pendiente_por_smart_code :: "string \<Rightarrow> string \<Rightarrow> bool accion" where
  "cancelar_pendiente_por_smart_code smart_code op =
     luego hay_cliente (\<lambda>hay.
       if \<not> hay \<or> smart_code = [] then devuelve False
       else intenta
         (luego (redis_cmd (leer_pendiente_lua (indice_key smart_code op))) (\<lambda>raw.
            case raw of
              None \<Rightarrow> devuelve False
            | Some Corrupto \<Rightarrow> lanza (ValueError ''json'')
            | Some (Valido it) \<Rightarrow>
                redis_cmd (cancelar_pendiente_lua (indice_key smart_code op) (it_id it)
                  (texto_o_vacio (it_payload_hash it)))))
         (\<lambda>e. devuelve False))"

definition extender_lease_item :: "nat \<Rightarrow> string \<Rightarrow> nat \<Rightarrow> bool accion" where
  "extender_lease_item i worker_id lease_segundos =
     luego hay_cliente (\<lambda>hay.
       if \<not> hay then devuelve False
       else intenta (redis_cmd (extend_lease_lua i worker_id (int lease_segundos * 1000))) (\<lambda>e. devuelve False))"

end
