(* ===== verification/Cola_Refinamiento.thy ===== *)
theory Cola_Refinamiento
  imports Cola_Servicio
begin

text \<open>
  Every method of \<^verbatim>\<open>QueueService\<close> but the purge moves the database by steps of the queue machine,
  whatever the interleaving and the connection failures. The purge has its own conditions, in
  \<^verbatim>\<open>Purga_Servicio\<close>.
\<close>

subsection \<open>The scripts as steps\<close>

lemma cmd_pasos:
  "respeta paso_cola\<^sup>*\<^sup>* (redis_cmd (claim_item_lua i w px))"
  "respeta paso_cola\<^sup>*\<^sup>* (redis_cmd (extend_lease_lua i w px))"
  "respeta paso_cola\<^sup>*\<^sup>* (redis_cmd (mark_success_lua i now w v))"
  "respeta paso_cola\<^sup>*\<^sup>* (redis_cmd (mark_sfc_done_lua i k w v now resp reg ttl))"
  "respeta paso_cola\<^sup>*\<^sup>* (redis_cmd (registrar_fallo_lua i w v e now def prox cons))"
  "respeta paso_cola\<^sup>*\<^sup>* (redis_cmd (replay_item_lua i now))"
  "respeta paso_cola\<^sup>*\<^sup>* (redis_cmd (diferir_item_lua i prox now e v))"
  "respeta paso_cola\<^sup>*\<^sup>* (redis_cmd (cancelar_pendiente_lua k i h))"
  by (rule gcola_cmd, rule paso_cola.intros)+

lemma leer_pendiente_marco [simp]: "snd (leer_pendiente_lua k r) = r"
  by (simp add: leer_pendiente_lua_def split: option.split)

lemma cmd_lecturas:
  "respeta paso_cola\<^sup>*\<^sup>* (sismember st i)" "respeta paso_cola\<^sup>*\<^sup>* (get_item i)"
  "respeta paso_cola\<^sup>*\<^sup>* (redis_cmd (leer_pendiente_lua k))"
  "respeta paso_cola\<^sup>*\<^sup>* (obtener_ids_de_set_estado sscan st)"
  unfolding sismember_def get_item_def obtener_ids_de_set_estado_def
  by (rule gcola.lectura, simp)+

lemma refina_enqueue:
  assumes "smart_ok (ae_smart_code a)" "ae_operacion a \<in> set operaciones"
  shows "respeta paso_cola\<^sup>*\<^sup>* (redis_cmd (enqueue_lua (indice_key (ae_smart_code a) (ae_operacion a)) a))"
  by (rule gcola_cmd) (rule p_enqueue [OF assms])

subsection \<open>The methods\<close>

lemma refina_encolar:
  assumes "smart_ok smart_code"
  shows "respeta paso_cola\<^sup>*\<^sup>* (encolar_despacho sha cfg cid smart_code tipo payload e)"
  unfolding encolar_despacho_def Let_def
  using refina_enqueue [of "\<lparr>ae_smart_code = smart_code, ae_tipo_operacion = tipo, ae_payload = payload,
      ae_error_inicial = e, ae_max_intentos = QUEUE_MAX_RETRIES cfg, ae_now = now,
      ae_proximo = now + minutos (QUEUE_RETRY_INTERVAL_MINUTES cfg),
      ae_correlation_id = (if cid = [] then ''N/A'' else cid),
      ae_payload_hash = compute_payload_hash sha payload, ae_operacion = infer_operation_type payload\<rparr>" for now]
    assms infer_en_operaciones
  by (intro gcola.reglas) simp_all

lemma refina_sfc_completado:
  "respeta paso_cola\<^sup>*\<^sup>* (marcar_sfc_completado sha i w v s d resp h)"
  unfolding marcar_sfc_completado_def Let_def
  by (auto intro!: gcola.reglas cmd_pasos split: salida.split razon.split)

lemma refina_reclamar: "respeta paso_cola\<^sup>*\<^sup>* (reclamar_item_para_procesamiento cfg i w l)"
  unfolding reclamar_item_para_procesamiento_def
  by (auto intro!: gcola.reglas cmd_pasos split: salida_claim.split)

lemma refina_exitoso: "respeta paso_cola\<^sup>*\<^sup>* (marcar_exitoso i w v)"
  unfolding marcar_exitoso_def
  by (auto intro!: gcola.reglas cmd_pasos split: salida.split razon.split)

lemma refina_registrar_fallo: "respeta paso_cola\<^sup>*\<^sup>* (registrar_fallo sha cfg it e w cons)"
  unfolding registrar_fallo_def
  by (auto intro!: gcola.reglas cmd_pasos refina_registrar split: salida.split razon.split)

lemma refina_reencolar: "respeta paso_cola\<^sup>*\<^sup>* (reencolar_item_fallido sha cfg i)"
  unfolding reencolar_item_fallido_def
  by (auto intro!: gcola.reglas cmd_pasos cmd_lecturas refina_registrar
      split: sum.split salida_replay.split option.split crudo.split)

lemma refina_diferir: "respeta paso_cola\<^sup>*\<^sup>* (diferir_pendientes_por_caida_sfc cfg its m)"
  unfolding diferir_pendientes_por_caida_sfc_def Let_def
  by (auto intro!: gcola.reglas cmd_pasos)

lemma refina_cancelar: "respeta paso_cola\<^sup>*\<^sup>* (cancelar_pendiente_por_smart_code s op)"
  unfolding cancelar_pendiente_por_smart_code_def
  by (auto intro!: gcola.reglas cmd_pasos cmd_lecturas split: option.split crudo.split)

lemma refina_extender: "respeta paso_cola\<^sup>*\<^sup>* (extender_lease_item i w l)"
  unfolding extender_lease_item_def
  by (auto intro!: gcola.reglas cmd_pasos)

lemma refina_recorre:
  "(\<And>it. respeta paso_cola\<^sup>*\<^sup>* (f it)) \<Longrightarrow> respeta paso_cola\<^sup>*\<^sup>* (recorre_pendientes f ids)"
  by (induction ids) (auto intro!: gcola.reglas cmd_lecturas split: option.split crudo.split)

lemma refina_caso_vencido: "respeta paso_cola\<^sup>*\<^sup>* (caso_vencido_de now it)"
  by (simp add: caso_vencido_de_def gcola.devuelve gcola.lanza split: option.split prod.split)

lemma refina_listados:
  "respeta paso_cola\<^sup>*\<^sup>* (obtener_pendientes_para_reintento cfg)"
  "respeta paso_cola\<^sup>*\<^sup>* (obtener_casos_vencidos_sla n)"
  "respeta paso_cola\<^sup>*\<^sup>* contar_pendientes"
  unfolding obtener_pendientes_para_reintento_def obtener_casos_vencidos_sla_def contar_pendientes_def
  by (intro gcola.reglas gcola.lectura refina_recorre refina_caso_vencido; simp)+

lemma refina_edad_lista: "respeta paso_cola\<^sup>*\<^sup>* (edad_primero_pendiente now cs)"
  by (induction now cs rule: edad_primero_pendiente.induct) (auto intro!: gcola.reglas cmd_lecturas)

lemma refina_edad: "respeta paso_cola\<^sup>*\<^sup>* obtener_edad_item_mas_antiguo_pendiente"
  unfolding obtener_edad_item_mas_antiguo_pendiente_def
  by (intro gcola.reglas gcola.lectura refina_edad_lista) simp

lemma refina_carga: "respeta paso_cola\<^sup>*\<^sup>* (carga_items cfg ids)"
  by (induction ids) (auto intro!: gcola.reglas cmd_lecturas split: option.split crudo.split)

lemma refina_todos: "respeta paso_cola\<^sup>*\<^sup>* (obtener_todos_los_encolados sscan cfg est)"
  unfolding obtener_todos_los_encolados_def
  by (auto intro!: gcola.reglas cmd_lecturas refina_carga split: option.split)

lemmas refina_metodos =
  refina_encolar refina_sfc_completado refina_reclamar refina_exitoso refina_registrar_fallo refina_reencolar
  refina_diferir refina_cancelar refina_extender refina_listados refina_edad refina_todos

end
