(* ===== verification/Cola_Purga.thy ===== *)
theory Cola_Purga
  imports Cola_Contratos
begin

text \<open>
  The queue with its purges in flight. \<^verbatim>\<open>_purgar_estado\<close> lists the ids of a terminal state set,
  reads their items one by one and afterwards deletes what it noted in one pipeline, which checks
  nothing. Here each of these is a step of its own and any process may act between two of them, so
  the machine \<open>paso_vivo\<close> has no guard on what a purge deletes. Its history variable
  \<open>cv_reabiertos\<close> collects the ids that became pending again while a purge of
  \<^verbatim>\<open>FALLIDO_DEFINITIVO\<close> held them; only REPLAY_ITEM does that (\<open>solo_replay_reabre\<close>).
\<close>

subsection \<open>What a step does to an id that is not pending\<close>

text \<open>An id that exists and is not pending becomes pending only by the replay of that very id out
  of \<^verbatim>\<open>FALLIDO_DEFINITIVO\<close>.\<close>

lemma pendientes_libera [simp]: "r_estado (libera_indice it r) = r_estado r"
  by (simp add: libera_indice_def)

lemma solo_replay_reabre:
  assumes "paso_cola r s" "cola_inv r" "i \<le> r_contador r" "i \<notin> pendientes r" "i \<in> pendientes s"
  shows "i \<in> fallidos r \<and> (\<exists>now. s = snd (replay_item_lua i now r))"
  using assms
proof (induction rule: paso_cola.induct)
  case (p_enqueue a r)
  then show ?case
    by (auto simp: enqueue_lua_def enqueue_inserta_def Let_def split: option.splits crudo.splits if_splits)
next
  case (p_replay r j now)
  then have j: "j = i"
    by (auto simp: replay_item_lua_def Let_def split: option.splits crudo.splits if_splits)
  with p_replay obtain it where it: "r_item r i = Some (Valido it)" "it_estado it = FAILED_FINAL"
    by (auto simp: replay_item_lua_def Let_def split: option.splits crudo.splits if_splits)
  from coherente [OF p_replay.prems(1) it(1)] it(2) have "i \<in> fallidos r" by (simp add: item_coherente_def)
  with j show ?case by blast
next
  case (p_cancelar r k j h)
  then show ?case using cancelar_casos [of k j h r] by auto
next
  case (p_fallo r j w v e now d prox cons)
  then show ?case by (auto simp: registrar_fallo_lua_def Let_def split: option.splits crudo.splits if_splits)
qed (auto simp: claim_item_lua_def extend_lease_lua_def mark_success_lua_def mark_sfc_done_lua_def
    diferir_item_lua_def purga_lua_def Let_def split: option.splits crudo.splits if_splits)

text \<open>An id that is not pending does not enter \<^verbatim>\<open>FALLIDO_DEFINITIVO\<close>: what is done stays done.\<close>

lemma fallido_desde_pendiente:
  assumes "paso_cola r s" "cola_inv r" "i \<notin> pendientes r" "i \<in> fallidos s"
  shows "i \<in> fallidos r"
  using assms
proof (induction rule: paso_cola.induct)
  case (p_fallo r j w v e now d prox cons)
  have "i \<in> pendientes r" if "duenio r i = Some w" "r_item r i = Some (Valido it)" for it
  proof -
    from that have "i \<in> dom (r_claim r) \<inter> dom (r_item r)"
      by (auto simp: duenio_def tget_def split: option.splits if_splits)
    with p_fallo.prems(1) show ?thesis unfolding cola_inv_def inv_agenda_def by blast
  qed
  with p_fallo.prems show ?case
    by (auto simp: registrar_fallo_lua_def Let_def split: option.splits crudo.splits if_splits)
next
  case (p_cancelar r k j h)
  then show ?case using cancelar_casos [of k j h r] by auto
next
  case (p_enqueue a r)
  then show ?case
    by (auto simp: enqueue_lua_def enqueue_inserta_def Let_def split: option.splits crudo.splits if_splits)
qed (auto simp: claim_item_lua_def extend_lease_lua_def mark_success_lua_def mark_sfc_done_lua_def
    replay_item_lua_def diferir_item_lua_def purga_lua_def Let_def split: option.splits crudo.splits if_splits)

lemma contador_crece: "paso_cola r s \<Longrightarrow> cola_inv r \<Longrightarrow> r_contador r \<le> r_contador s"
  using paso_evoluciona [of r s 0] by (simp add: evoluciona_def)

lemma sin_item_para_siempre:
  "paso_cola r s \<Longrightarrow> cola_inv r \<Longrightarrow> i \<le> r_contador r \<Longrightarrow> r_item r i = None \<Longrightarrow> r_item s i = None"
  using paso_evoluciona [of r s i] by (simp add: evoluciona_def)

subsection \<open>A purge in flight\<close>

text \<open>The locals of \<^verbatim>\<open>_purgar_estado\<close>: the set, the limit, the ids still to read, \<^verbatim>\<open>inconsistentes\<close>
  and \<^verbatim>\<open>a_eliminar\<close>.\<close>

record purga =
  pg_estado :: smart_status
  pg_limite :: int
  pg_ids :: "nat list"
  pg_inc :: "nat list"
  pg_del :: "nat list"

text \<open>One turn of the loop over the ids; \<open>None\<close> when it raises (the JSON, or the missing
  \<^verbatim>\<open>updated_at\<close>), which ends the purge with nothing deleted.\<close>

definition purga_lee :: "redis \<Rightarrow> purga \<Rightarrow> purga option" where
  "purga_lee r p =
     (case pg_ids p of
        [] \<Rightarrow> Some p
      | i # ids \<Rightarrow>
          (case r_item r i of
             None \<Rightarrow> Some (p\<lparr>pg_ids := ids, pg_inc := pg_inc p @ [i]\<rparr>)
           | Some Corrupto \<Rightarrow> None
           | Some (Valido it) \<Rightarrow>
               (case it_updated_at it of
                  None \<Rightarrow> None
                | Some u \<Rightarrow> Some (if u \<le> pg_limite p then p\<lparr>pg_ids := ids, pg_del := pg_del p @ [i]\<rparr>
                                 else p\<lparr>pg_ids := ids\<rparr>))))"

record cola_viva =
  cv_redis :: redis
  cv_purgas :: "string \<rightharpoonup> purga"
  cv_reabiertos :: "nat set"

definition sostenidos :: "cola_viva \<Rightarrow> nat set" where
  "sostenidos v = {i. \<exists>w p. cv_purgas v w = Some p \<and> pg_estado p = FAILED_FINAL \<and> i \<in> set (pg_ids p) \<union> set (pg_del p)}"

definition reabre :: "redis \<Rightarrow> redis \<Rightarrow> nat set" where
  "reabre r s = {i. i \<notin> pendientes r \<and> i \<in> pendientes s}"

text \<open>
  The steps: any step of the queue; a process that opens a purge of a terminal state with ids it
  listed, lists more of them (another page of \<^verbatim>\<open>SSCAN\<close>), reads the next item, deletes in its
  pipeline, or dies.
\<close>

inductive paso_vivo :: "cola_viva \<Rightarrow> cola_viva \<Rightarrow> bool" where
  v_cola: "paso_cola (cv_redis v) r \<Longrightarrow>
     paso_vivo v (v\<lparr>cv_redis := r, cv_reabiertos := cv_reabiertos v \<union> (sostenidos v \<inter> reabre (cv_redis v) r)\<rparr>)"
| v_abre: "cv_purgas v w = None \<Longrightarrow> e = COMPLETED \<or> e = FAILED_FINAL \<Longrightarrow> set ids \<subseteq> r_estado (cv_redis v) e \<Longrightarrow>
     paso_vivo v (v\<lparr>cv_purgas := (cv_purgas v)(w \<mapsto> \<lparr>pg_estado = e, pg_limite = l, pg_ids = ids, pg_inc = [], pg_del = []\<rparr>)\<rparr>)"
| v_pagina: "cv_purgas v w = Some p \<Longrightarrow> set ids \<subseteq> r_estado (cv_redis v) (pg_estado p) \<Longrightarrow>
     paso_vivo v (v\<lparr>cv_purgas := (cv_purgas v)(w \<mapsto> p\<lparr>pg_ids := pg_ids p @ ids\<rparr>)\<rparr>)"
| v_lee: "cv_purgas v w = Some p \<Longrightarrow>
     paso_vivo v (v\<lparr>cv_purgas := (cv_purgas v)(w := purga_lee (cv_redis v) p)\<rparr>)"
| v_borra: "cv_purgas v w = Some p \<Longrightarrow> pg_ids p = [] \<Longrightarrow>
     paso_vivo v (v\<lparr>cv_redis := purga_lua (pg_estado p) (pg_inc p) (pg_del p) (cv_redis v),
       cv_purgas := (cv_purgas v)(w := None)\<rparr>)"
| v_muere: "paso_vivo v (v\<lparr>cv_purgas := (cv_purgas v)(w := None)\<rparr>)"

definition viva_inicial :: "cola_viva \<Rightarrow> bool" where
  "viva_inicial v = (v = \<lparr>cv_redis = redis_vacio, cv_purgas = Map.empty, cv_reabiertos = {}\<rparr>)"

subsection \<open>The invariant while nothing held is reopened\<close>

definition fuera :: "redis \<Rightarrow> nat \<Rightarrow> bool" where
  "fuera r i = (i \<le> r_contador r \<and> i \<notin> pendientes r)"

definition purga_ok :: "redis \<Rightarrow> purga \<Rightarrow> bool" where
  "purga_ok r p =
     ((pg_estado p = COMPLETED \<or> pg_estado p = FAILED_FINAL)
      \<and> (\<forall>i \<in> set (pg_ids p) \<union> set (pg_del p). fuera r i \<and> (pg_estado p = COMPLETED \<longrightarrow> i \<notin> fallidos r))
      \<and> (\<forall>i \<in> set (pg_inc p). i \<le> r_contador r \<and> r_item r i = None))"

definition viva_inv :: "cola_viva \<Rightarrow> bool" where
  "viva_inv v =
     (cv_reabiertos v = {} \<longrightarrow>
        cola_inv (cv_redis v) \<and> (\<forall>w p. cv_purgas v w = Some p \<longrightarrow> purga_ok (cv_redis v) p))"

lemma terminal_fuera:
  assumes "cola_inv r" "e = COMPLETED \<or> e = FAILED_FINAL" "i \<in> r_estado r e"
  shows "fuera r i \<and> (e = COMPLETED \<longrightarrow> i \<notin> fallidos r)"
  using assms unfolding fuera_def cola_inv_def inv_items_def inv_ids_def by blast

lemma purga_ok_paso:
  assumes p: "purga_ok r p" and paso: "paso_cola r s" and inv: "cola_inv r"
    and sin: "pg_estado p = FAILED_FINAL \<Longrightarrow> (set (pg_ids p) \<union> set (pg_del p)) \<inter> reabre r s = {}"
  shows "purga_ok s p"
proof -
  have "fuera s i \<and> (pg_estado p = COMPLETED \<longrightarrow> i \<notin> fallidos s)" if i: "i \<in> set (pg_ids p) \<union> set (pg_del p)" for i
  proof -
    have f: "fuera r i" "pg_estado p = COMPLETED \<Longrightarrow> i \<notin> fallidos r" using p i unfolding purga_ok_def by blast+
    have "i \<notin> pendientes s"
    proof
      assume s: "i \<in> pendientes s"
      with solo_replay_reabre [OF paso inv] f have "i \<in> fallidos r" by (auto simp: fuera_def)
      with f(2) p have "pg_estado p = FAILED_FINAL" by (auto simp: purga_ok_def)
      with sin i s f(1) show False by (auto simp: reabre_def fuera_def)
    qed
    with f contador_crece [OF paso inv] fallido_desde_pendiente [OF paso inv] show ?thesis
      by (auto simp: fuera_def)
  qed
  moreover have "i \<le> r_contador s \<and> r_item s i = None" if "i \<in> set (pg_inc p)" for i
  proof -
    have "i \<le> r_contador r" "r_item r i = None" using p that unfolding purga_ok_def by blast+
    with contador_crece [OF paso inv] sin_item_para_siempre [OF paso inv] show ?thesis by simp
  qed
  ultimately show ?thesis using p unfolding purga_ok_def by blast
qed

lemma purga_ok_lee: "purga_ok r p \<Longrightarrow> purga_lee r p = Some q \<Longrightarrow> purga_ok r q"
  by (auto simp: purga_ok_def purga_lee_def fuera_def split: list.splits option.splits crudo.splits if_splits)

text \<open>The blind pipeline of a purge that still holds its readings is the step \<open>p_purga\<close>.\<close>

lemma purga_ok_es_paso: "purga_ok r p \<Longrightarrow> paso_cola r (purga_lua (pg_estado p) (pg_inc p) (pg_del p) r)"
  by (rule p_purga) (auto simp: purga_ok_def fuera_def)

lemma purga_no_reabre: "e = COMPLETED \<or> e = FAILED_FINAL \<Longrightarrow> reabre r (purga_lua e inc del r) = {}"
  by (auto simp: reabre_def purga_lua_def)

lemma viva_inv_paso: "paso_vivo v v' \<Longrightarrow> viva_inv v \<Longrightarrow> viva_inv v'"
proof (induction rule: paso_vivo.induct)
  case (v_cola v r)
  show ?case
    unfolding viva_inv_def
  proof (intro impI conjI allI)
    assume vacio: "cv_reabiertos (v\<lparr>cv_redis := r,
        cv_reabiertos := cv_reabiertos v \<union> (sostenidos v \<inter> reabre (cv_redis v) r)\<rparr>) = {}"
    with v_cola have inv: "cola_inv (cv_redis v)" and ok: "\<And>w p. cv_purgas v w = Some p \<Longrightarrow> purga_ok (cv_redis v) p"
      by (simp_all add: viva_inv_def)
    from paso_cola_inv [OF v_cola.hyps inv]
    show "cola_inv (cv_redis (v\<lparr>cv_redis := r,
        cv_reabiertos := cv_reabiertos v \<union> (sostenidos v \<inter> reabre (cv_redis v) r)\<rparr>))" by simp
    fix w p assume p: "cv_purgas (v\<lparr>cv_redis := r,
        cv_reabiertos := cv_reabiertos v \<union> (sostenidos v \<inter> reabre (cv_redis v) r)\<rparr>) w = Some p"
    have "purga_ok r p"
    proof (rule purga_ok_paso [OF ok v_cola.hyps inv])
      show "cv_purgas v w = Some p" using p by simp
      then show "(set (pg_ids p) \<union> set (pg_del p)) \<inter> reabre (cv_redis v) r = {}" if "pg_estado p = FAILED_FINAL"
        using that vacio unfolding sostenidos_def by simp blast
    qed
    then show "purga_ok (cv_redis (v\<lparr>cv_redis := r,
        cv_reabiertos := cv_reabiertos v \<union> (sostenidos v \<inter> reabre (cv_redis v) r)\<rparr>)) p" by simp
  qed
next
  case (v_abre v w e ids l)
  then show ?case using terminal_fuera by (auto simp: viva_inv_def purga_ok_def)
next
  case (v_pagina v w p ids)
  have "purga_ok (cv_redis v) (p\<lparr>pg_ids := pg_ids p @ ids\<rparr>)" if "cola_inv (cv_redis v)" "purga_ok (cv_redis v) p"
    using that terminal_fuera [of "cv_redis v" "pg_estado p"] v_pagina.hyps(2) by (auto simp: purga_ok_def)
  with v_pagina show ?case by (auto simp: viva_inv_def)
next
  case (v_lee v w p)
  then show ?case using purga_ok_lee [of "cv_redis v" p] by (simp add: viva_inv_def)
next
  case (v_borra v w p)
  let ?r = "purga_lua (pg_estado p) (pg_inc p) (pg_del p) (cv_redis v)"
  have "cola_inv ?r \<and> (\<forall>u q. u \<noteq> w \<longrightarrow> cv_purgas v u = Some q \<longrightarrow> purga_ok ?r q)" if "cv_reabiertos v = {}"
  proof -
    have inv: "cola_inv (cv_redis v)" and ok: "\<And>w p. cv_purgas v w = Some p \<Longrightarrow> purga_ok (cv_redis v) p"
      using v_borra that by (simp_all add: viva_inv_def)
    have p: "purga_ok (cv_redis v) p" using ok v_borra.hyps(1) .
    note paso = purga_ok_es_paso [OF p]
    have "reabre (cv_redis v) ?r = {}" using purga_no_reabre p unfolding purga_ok_def by blast
    then show ?thesis using paso_cola_inv [OF paso inv] purga_ok_paso [OF ok paso inv] by simp
  qed
  then show ?case by (simp add: viva_inv_def)
next
  case (v_muere v w)
  then show ?case by (auto simp: viva_inv_def)
qed

interpretation viva: maquina viva_inicial paso_vivo viva_inv
  by unfold_locales (simp add: viva_inicial_def viva_inv_def cola_inv_vacio, rule viva_inv_paso)

text \<open>A run of the queue without purges in flight is a run of this machine.\<close>

lemma alcanzable_viva:
  assumes "alcanzable cola_inicial paso_cola r"
  shows "alcanzable viva_inicial paso_vivo \<lparr>cv_redis = r, cv_purgas = Map.empty, cv_reabiertos = {}\<rparr>"
  using assms
proof (induction rule: alcanzable.induct)
  case (alc_inicio r)
  then show ?case by (auto simp: cola_inicial_def viva_inicial_def intro: alcanzable.alc_inicio)
next
  case (alc_paso r s)
  from v_cola [of "\<lparr>cv_redis = r, cv_purgas = Map.empty, cv_reabiertos = {}\<rparr>" s] alc_paso
  show ?case by (auto simp: sostenidos_def intro: alcanzable.alc_paso)
qed

end
