(* ===== verification/Purga_Servicio.thy ===== *)
theory Purga_Servicio
  imports Cola_Refinamiento Cola_Purga
begin

text \<open>
  The purge of the service against interference. \<open>sin_reapertura\<close> is what the other processes may
  do while \<^verbatim>\<open>FALLIDO_DEFINITIVO\<close> is purged: any steps of the queue after which no id that was out of
  \<^verbatim>\<open>PENDIENTE\<close> is back in it, that is any steps but a successful replay (\<open>solo_replay_reabre\<close>). Under it, and for
  \<^verbatim>\<open>EXITOSO\<close> under any steps, \<^verbatim>\<open>_purgar_estado\<close> is a run of the queue machine. The second half says
  that a method uses up turns of the other processes and adds none.
\<close>

subsection \<open>Turns\<close>

definition consume :: "'a accion \<Rightarrow> bool" where
  "consume m = (\<forall>w. set (w_turnos (snd (m w))) \<subseteq> set (w_turnos w))"

lemma consume_basicas:
  "consume (devuelve x)" "consume (lanza e)" "consume (emite ev)" "consume ahora" "consume hay_cliente" "consume (duerme ms)"
  by (simp_all add: consume_def devuelve_def lanza_def emite_def ahora_def hay_cliente_def duerme_def)

lemma consume_cmd: "consume (redis_cmd c)"
  by (auto simp: consume_def redis_cmd_def Let_def split: list.splits falla.splits)

lemma consume_luego:
  assumes "consume m" "\<And>x. consume (f x)"
  shows "consume (luego m f)"
  unfolding consume_def
proof
  fix w
  obtain x w1 where "m w = (x, w1)" by fastforce
  with assms(1) assms(2) [unfolded consume_def, rule_format, of _ w1]
  show "set (w_turnos (snd (luego m f w))) \<subseteq> set (w_turnos w)"
    by (cases x) (force simp: consume_def luego_def)+
qed

lemma consume_intenta:
  assumes "consume m" "\<And>e. consume (h e)"
  shows "consume (intenta m h)"
  unfolding consume_def
proof
  fix w
  obtain x w1 where "m w = (x, w1)" by fastforce
  with assms(1) assms(2) [unfolded consume_def, rule_format, of _ w1]
  show "set (w_turnos (snd (intenta m h w))) \<subseteq> set (w_turnos w)"
    by (cases x) (force simp: consume_def intenta_def)+
qed

lemma consume_si: "consume m \<Longrightarrow> consume m' \<Longrightarrow> consume (if b then m else m')"
  by simp

lemma consume_con_reintentos: "consume m \<Longrightarrow> consume (con_reintentos n msg m)"
proof -
  have "consume m \<Longrightarrow> consume (intentos_desde n i k msg m)" for i k
    by (induction k arbitrary: i) (auto intro!: consume_basicas consume_luego consume_intenta)
  then show "consume m \<Longrightarrow> consume (con_reintentos n msg m)" by (simp add: con_reintentos_def)
qed

lemma consume_para_cada: "(\<And>x. consume (f x)) \<Longrightarrow> consume (para_cada f xs)"
  by (induction xs) (auto intro!: consume_basicas consume_luego)

lemmas consume_reglas = consume_basicas consume_cmd consume_luego consume_intenta consume_si
  consume_con_reintentos consume_para_cada

lemma consume_entorno: "consume m \<Longrightarrow> entorno R w \<Longrightarrow> entorno R (snd (m w))"
  by (auto simp: consume_def entorno_def)

lemma consume_recorre: "(\<And>it. consume (f it)) \<Longrightarrow> consume (recorre_pendientes f ids)"
  by (induction ids)
    (auto intro!: consume_reglas simp: sismember_def get_item_def split: option.split crudo.split)

lemma consume_edad: "consume (edad_primero_pendiente now cs)"
  by (induction now cs rule: edad_primero_pendiente.induct) (auto intro!: consume_reglas simp: sismember_def)

lemma consume_carga: "consume (carga_items cfg ids)"
  by (induction ids) (auto intro!: consume_reglas simp: get_item_def split: option.split crudo.split)

lemma consume_clasifica: "consume (clasifica_purga l ids)"
  by (induction ids) (auto intro!: consume_reglas simp: get_item_def split: option.split crudo.split)

lemma consume_purgar_estado: "consume (purgar_estado sscan e l)"
  unfolding purgar_estado_def obtener_ids_de_set_estado_def
  by (auto intro!: consume_reglas consume_clasifica)

lemma consume_purgar: "consume (purgar_registros_antiguos sscan cfg)"
  unfolding purgar_registros_antiguos_def by (intro consume_reglas consume_purgar_estado)

subsection \<open>What the others may do during a purge\<close>

definition sin_reapertura :: "redis \<Rightarrow> redis \<Rightarrow> bool" where
  "sin_reapertura r s = (paso_cola\<^sup>*\<^sup>* r s \<and> (cola_inv r \<longrightarrow> (\<forall>i. fuera r i \<longrightarrow> fuera s i)))"

interpretation gsin: garantia sin_reapertura
proof
  fix r s t :: redis and d :: int
  show "sin_reapertura r r" by (simp add: sin_reapertura_def)
  show "sin_reapertura r t" if "sin_reapertura r s" "sin_reapertura s t"
  proof -
    have run: "paso_cola\<^sup>*\<^sup>* r s" using that(1) by (simp add: sin_reapertura_def)
    moreover have "paso_cola\<^sup>*\<^sup>* s t" using that(2) by (simp add: sin_reapertura_def)
    ultimately have "paso_cola\<^sup>*\<^sup>* r t" by (rule rtranclp_trans)
    then show ?thesis using that cola.inv_estrella [OF run] by (auto simp: sin_reapertura_def)
  qed
  show "sin_reapertura r (r\<lparr>reloj := reloj r + d\<rparr>)" if "0 \<le> d"
    using that by (auto simp: sin_reapertura_def fuera_def intro: p_tiempo)
qed

text \<open>Every step but the replay of an id out of \<^verbatim>\<open>PENDIENTE\<close> is allowed.\<close>

lemma paso_sin_reapertura:
  assumes "paso_cola r s" "\<And>i now. s = snd (replay_item_lua i now r) \<Longrightarrow> i \<in> pendientes s \<Longrightarrow> i \<in> pendientes r"
  shows "sin_reapertura r s"
proof -
  have "fuera s i" if "cola_inv r" "fuera r i" for i
    using solo_replay_reabre [OF assms(1) that(1), of i] contador_crece [OF assms(1) that(1)] that(2) assms(2)
    by (fastforce simp: fuera_def)
  with assms(1) show ?thesis by (simp add: sin_reapertura_def)
qed

definition permitido :: "smart_status \<Rightarrow> redis \<Rightarrow> redis \<Rightarrow> bool" where
  "permitido e = (if e = COMPLETED then paso_cola\<^sup>*\<^sup>* else sin_reapertura)"

interpretation gperm: garantia "permitido e" for e
  using gcola.garantia_axioms gsin.garantia_axioms by (cases "e = COMPLETED") (simp_all add: permitido_def [abs_def])

lemma permitido_paso: "permitido e r s \<Longrightarrow> paso_cola\<^sup>*\<^sup>* r s"
  by (auto simp: permitido_def sin_reapertura_def split: if_splits)

lemma purga_ok_estrella:
  "paso_cola\<^sup>*\<^sup>* r s \<Longrightarrow> cola_inv r \<Longrightarrow> pg_estado p = COMPLETED \<Longrightarrow> purga_ok r p \<Longrightarrow> purga_ok s p"
proof (induction rule: rtranclp_induct)
  case (step s t)
  have "purga_ok s p" using step by blast
  from purga_ok_paso [OF this step.hyps(2) cola.inv_estrella [OF step.hyps(1)]] step.prems show ?case by simp
qed

lemma sin_item_estrella:
  "paso_cola\<^sup>*\<^sup>* r s \<Longrightarrow> cola_inv r \<Longrightarrow> i \<le> r_contador r \<Longrightarrow> r_item r i = None
     \<Longrightarrow> r_item s i = None \<and> r_contador r \<le> r_contador s"
proof (induction rule: rtranclp_induct)
  case (step s t)
  note inv = cola.inv_estrella [OF step.hyps(1) step.prems(1)]
  show ?case using step contador_crece [OF step.hyps(2) inv] sin_item_para_siempre [OF step.hyps(2) inv, of i] by simp
qed simp

text \<open>What a purge has read stays true under the interference allowed to it.\<close>

lemma purga_ok_estable:
  assumes "permitido (pg_estado p) r s" "cola_inv r" "purga_ok r p"
  shows "purga_ok s p"
proof (cases "pg_estado p = COMPLETED")
  case True
  with assms show ?thesis using purga_ok_estrella by (simp add: permitido_def)
next
  case False
  with assms have "sin_reapertura r s" by (simp add: permitido_def)
  with assms(2,3) False sin_item_estrella [of r s] show ?thesis
    by (fastforce simp: sin_reapertura_def purga_ok_def)
qed

subsection \<open>The purge of one state set\<close>

abbreviation en_vuelo :: "smart_status \<Rightarrow> nat list \<Rightarrow> nat list \<Rightarrow> nat list \<Rightarrow> purga" where
  "en_vuelo e ids inc del \<equiv> \<lparr>pg_estado = e, pg_limite = 0, pg_ids = ids, pg_inc = inc, pg_del = del\<rparr>"

lemma luego_InrE:
  assumes "luego m f w = (Inr y, w2)"
  obtains x w1 where "m w = (Inr x, w1)" "f x w1 = (Inr y, w2)"
  using assms by (cases "m w"; cases "fst (m w)") (auto simp: luego_def)

lemma permitido_lecturas:
  "respeta (permitido e) (get_item i)" "respeta (permitido e) (obtener_ids_de_set_estado sscan st)"
  unfolding get_item_def obtener_ids_de_set_estado_def by (rule gperm.lectura, simp)+

lemma permitido_clasifica: "respeta (permitido e) (clasifica_purga l ids)"
  by (induction ids) (auto intro!: gperm.reglas permitido_lecturas split: option.split crudo.split)

lemma clasifica_ok:
  assumes "clasifica_purga l ids w = (Inr (inc, del), w')" "entorno (permitido e) w" "cola_inv (w_redis w)"
    "purga_ok (w_redis w) (en_vuelo e ids [] [])"
  shows "purga_ok (w_redis w') (en_vuelo e [] inc del)"
  using assms
proof (induction ids arbitrary: w inc del)
  case Nil
  then show ?case by (simp add: devuelve_def)
next
  case (Cons i ids)
  from Cons.prems(1) obtain raw w1 where g: "get_item i w = (Inr raw, w1)"
    and k: "(case raw of
         None \<Rightarrow> luego (clasifica_purga l ids) (\<lambda>(inc, del). devuelve (i # inc, del))
       | Some Corrupto \<Rightarrow> lanza (ValueError ''json'')
       | Some (Valido it) \<Rightarrow>
           (case it_updated_at it of
              None \<Rightarrow> lanza (KeyError ''updated_at'')
            | Some u \<Rightarrow> luego (clasifica_purga l ids) (\<lambda>(inc, del).
                devuelve (inc, if u \<le> l then i # del else del)))) w1 = (Inr (inc, del), w')"
    by (auto elim: luego_InrE)
  have raw: "raw = r_item (w_redis w1) i" and p1: "permitido e (w_redis w) (w_redis w1)"
    using gperm.cmd_InrE [OF _ Cons.prems(2)] g unfolding get_item_def by fastforce+
  have e1: "entorno (permitido e) w1" using respetaD(2) [OF permitido_lecturas(1) Cons.prems(2)] g by (metis snd_conv)
  have i1: "cola_inv (w_redis w1)" using cola.inv_estrella [OF permitido_paso [OF p1] Cons.prems(3)] .
  have "purga_ok (w_redis w1) (en_vuelo e (i # ids) [] [])"
    using purga_ok_estable [of "en_vuelo e (i # ids) [] []"] p1 Cons.prems(3,4) by simp
  then have ids: "purga_ok (w_redis w1) (en_vuelo e ids [] [])" and uno: "purga_ok (w_redis w1) (en_vuelo e [] [] [i])"
    by (auto simp: purga_ok_def)
  have sigue: "purga_ok (w_redis w') (en_vuelo e [] inc' del') \<and> permitido e (w_redis w1) (w_redis w')"
    if "clasifica_purga l ids w1 = (Inr (inc', del'), w')" for inc' del'
    using Cons.IH [OF that e1 i1 ids] respetaD(1) [OF permitido_clasifica e1, of l ids] that by simp
  show ?case
  proof (cases raw)
    case None
    with k obtain inc' where 1: "clasifica_purga l ids w1 = (Inr (inc', del), w')" "inc = i # inc'"
      by (auto simp: devuelve_def elim!: luego_InrE)
    from None raw ids uno have "purga_ok (w_redis w1) (en_vuelo e [] [i] [])" by (auto simp: purga_ok_def fuera_def)
    with sigue [OF 1(1)] purga_ok_estable [of "en_vuelo e [] [i] []" "w_redis w1" "w_redis w'"] i1 1(2)
    show ?thesis by (auto simp: purga_ok_def)
  next
    case (Some c)
    with k obtain del' where 1: "clasifica_purga l ids w1 = (Inr (inc, del'), w')" "del = del' \<or> del = i # del'"
      by (auto simp: devuelve_def lanza_def elim!: luego_InrE split: crudo.splits option.splits if_splits)
    with sigue [OF 1(1)] purga_ok_estable [of "en_vuelo e [] [] [i]" "w_redis w1" "w_redis w'"] i1 uno
    show ?thesis by (auto simp: purga_ok_def)
  qed
qed

lemma cmd_estado:
  assumes "entorno R w" "\<And>r. R r r"
  shows "\<exists>r. R (w_redis w) r \<and> (w_redis (snd (redis_cmd c w)) = r \<or> w_redis (snd (redis_cmd c w)) = snd (c r))
    \<and> entorno R (snd (redis_cmd c w))"
  using assms by (cases "w_turnos w"; cases "t_falla (hd (w_turnos w))")
    (auto simp: redis_cmd_def entorno_def Let_def)

text \<open>
  \<^verbatim>\<open>_purgar_estado\<close>, with its reads interleaved with the other processes and failing or not, is a run
  of the queue machine, when nobody reopens an item of \<^verbatim>\<open>FALLIDO_DEFINITIVO\<close> while it is purged. \<open>SSCAN\<close>
  lists members of the set only.
\<close>

lemma purgar_estado_refina:
  assumes "e = COMPLETED \<or> e = FAILED_FINAL" "\<And>A. set (sscan A) \<subseteq> A"
    and w: "entorno (permitido e) w" and inv: "cola_inv (w_redis w)"
  shows "paso_cola\<^sup>*\<^sup>* (w_redis w) (w_redis (snd (purgar_estado sscan e l w))) \<and> entorno (permitido e) (snd (purgar_estado sscan e l w))"
    (is "?Q (snd (?m w))")
proof -
  obtain x w1 where 1: "obtener_ids_de_set_estado sscan e w = (x, w1)" by fastforce
  have r1: "permitido e (w_redis w) (w_redis w1)" "entorno (permitido e) w1"
    using respetaD [OF permitido_lecturas(2) [of e sscan e] w] 1 by simp_all
  have i1: "cola_inv (w_redis w1)" using cola.inv_estrella [OF permitido_paso [OF r1(1)] inv] .
  show ?thesis
  proof (cases x)
    case (Inl ex)
    with 1 r1 show ?thesis by (simp add: purgar_estado_def luego_def permitido_paso)
  next
    case (Inr ids)
    have "ids = sscan (r_estado (w_redis w1) e)"
      using gperm.cmd_InrE [OF _ w] 1 Inr unfolding obtener_ids_de_set_estado_def by fastforce
    with terminal_fuera [OF i1 assms(1)] assms(1,2) have ok1: "purga_ok (w_redis w1) (en_vuelo e ids [] [])"
      unfolding purga_ok_def by (simp, blast)
    obtain y w2 where 2: "clasifica_purga l ids w1 = (y, w2)" by fastforce
    have r2: "permitido e (w_redis w1) (w_redis w2)" "entorno (permitido e) w2"
      using respetaD [OF permitido_clasifica [of e l ids] r1(2)] 2 by simp_all
    have p2: "permitido e (w_redis w) (w_redis w2)" using gperm.trans [OF r1(1) r2(1)] .
    have i2: "cola_inv (w_redis w2)" using cola.inv_estrella [OF permitido_paso [OF p2] inv] .
    show ?thesis
    proof (cases "\<exists>inc del. y = Inr (inc, del) \<and> (inc \<noteq> [] \<or> del \<noteq> [])")
      case False
      with 1 2 Inr r2(2) p2 show ?thesis
        by (cases y) (auto simp: purgar_estado_def luego_def devuelve_def permitido_paso)
    next
      case True
      then obtain inc del where y: "y = Inr (inc, del)" "inc \<noteq> [] \<or> del \<noteq> []" by blast
      have ok2: "purga_ok (w_redis w2) (en_vuelo e [] inc del)" using clasifica_ok [OF _ r1(2) i1 ok1] 2 y(1) by simp
      let ?c = "\<lambda>r. (Inr (), purga_lua e inc del r) :: unit resultado \<times> redis"
      obtain r where r: "permitido e (w_redis w2) r" "entorno (permitido e) (snd (redis_cmd ?c w2))"
        "w_redis (snd (redis_cmd ?c w2)) = r \<or> w_redis (snd (redis_cmd ?c w2)) = purga_lua e inc del r"
        using cmd_estado [OF r2(2) gperm.nada, of ?c] by auto
      have "purga_ok r (en_vuelo e [] inc del)" using purga_ok_estable [OF _ i2 ok2] r(1) by simp
      from purga_ok_es_paso [OF this] have "paso_cola r (purga_lua e inc del r)" by simp
      moreover have "paso_cola\<^sup>*\<^sup>* (w_redis w) r" using permitido_paso [OF gperm.trans [OF p2 r(1)]] .
      ultimately have "paso_cola\<^sup>*\<^sup>* (w_redis w) (w_redis (snd (redis_cmd ?c w2)))"
        using r(3) by (auto intro: rtranclp.rtrancl_into_rtrancl)
      moreover have "\<exists>z. ?m w = (z, snd (redis_cmd ?c w2))"
        using 1 2 Inr y
        by (cases "fst (redis_cmd ?c w2)") (auto simp: purgar_estado_def luego_def devuelve_def split: prod.split)
      ultimately show ?thesis using r(2) by auto
    qed
  qed
qed

lemma purgar_registros_refina:
  assumes "\<And>A. set (sscan A) \<subseteq> A" "entorno sin_reapertura w" "cola_inv (w_redis w)"
  shows "paso_cola\<^sup>*\<^sup>* (w_redis w) (w_redis (snd (purgar_registros_antiguos sscan cfg w)))"
proof -
  let ?now = "reloj (w_redis w)"
  let ?a = "purgar_estado sscan COMPLETED (?now - dias (QUEUE_RETENTION_DAYS cfg))"
  let ?b = "purgar_estado sscan FAILED_FINAL (?now - dias (QUEUE_RETENTION_DAYS_DLQ cfg))"
  have ec: "entorno (permitido COMPLETED) w"
    using assms(2) by (auto simp: entorno_def permitido_def sin_reapertura_def)
  obtain x w1 where 1: "?a w = (x, w1)" by fastforce
  have a: "paso_cola\<^sup>*\<^sup>* (w_redis w) (w_redis w1)"
    using purgar_estado_refina [OF _ assms(1) ec assms(3), of "?now - dias (QUEUE_RETENTION_DAYS cfg)"] 1 by simp
  have e1: "entorno (permitido FAILED_FINAL) w1"
    using consume_entorno [OF consume_purgar_estado assms(2), of sscan COMPLETED "?now - dias (QUEUE_RETENTION_DAYS cfg)"] 1
    by (simp add: permitido_def)
  have "paso_cola\<^sup>*\<^sup>* (w_redis w1) (w_redis (snd (?b w1)))"
    using purgar_estado_refina [OF _ assms(1) e1 cola.inv_estrella [OF a assms(3)]] by simp
  with a have "paso_cola\<^sup>*\<^sup>* (w_redis w) (w_redis (snd (?b w1)))" by simp
  with a 1 show ?thesis
    by (cases x; cases "?b w1"; cases "fst (?b w1)")
      (auto simp: purgar_registros_antiguos_def hay_cliente_def ahora_def luego_def intenta_def devuelve_def)
qed

end
