(* ===== verification/Cola_Propiedades.thy ===== *)
theory Cola_Propiedades
  imports Cola_Purga
begin

text \<open>
  The properties of the queue scripts: one obligation per slot, no update lost between the
  claim of an item and its completion, the frame of a refused transition and the cancellation
  of a superseded item. The witnesses run the scripts on a queue with one item of the case
  \<^verbatim>\<open>A1\<close>.
\<close>

subsection \<open>A concrete run\<close>

definition args_ej :: "string \<Rightarrow> int \<Rightarrow> args_enqueue" where
  "args_ej estado now =
     \<lparr>ae_smart_code = ''A1'', ae_tipo_operacion = ''DESPACHO_M2_M3'', ae_payload = [(''Status'', JStr estado)],
      ae_error_inicial = ''sfc caida'', ae_max_intentos = 10, ae_now = now, ae_proximo = now + 300000,
      ae_correlation_id = ''c'', ae_payload_hash = estado, ae_operacion = ''M3_UPDATE''\<rparr>"

definition encola_ej :: "string \<Rightarrow> int \<Rightarrow> redis \<Rightarrow> redis" where
  "encola_ej estado now r = snd (enqueue_lua (indice_key ''A1'' ''M3_UPDATE'') (args_ej estado now) r)"

definition cola_ej :: redis where
  "cola_ej = encola_ej ''a'' 0 redis_vacio"

definition item_ej :: item where
  "item_ej = item_nuevo (args_ej ''a'' 0) 1"

lemma cola_ej_simps [simp]:
  "r_item cola_ej = [1 \<mapsto> Valido item_ej]" "pendientes cola_ej = {1}" "reloj cola_ej = 0"
  "completados cola_ej = {}" "fallidos cola_ej = {}"
  "r_indice cola_ej = [indice_key ''A1'' ''M3_UPDATE'' \<mapsto> 1]" "r_claim cola_ej = (\<lambda>_. None)"
  "r_zpend cola_ej = [(1, 300000)]" "r_contador cola_ej = 1" "duenio cola_ej i = None"
  "r_zcreado cola_ej = [(1, 0)]" "r_idem cola_ej = (\<lambda>_. None)" "r_lock cola_ej = (\<lambda>_. None)"
  "r_checkpoint cola_ej = (\<lambda>_. None)"
  by (auto simp: cola_ej_def encola_ej_def item_ej_def enqueue_lua_def enqueue_inserta_def redis_vacio_def
      Let_def args_ej_def zadd_def zrem_def duenio_def tget_def)

lemma item_ej_simps [simp]:
  "it_id item_ej = 1" "it_smart_code item_ej = ''A1''" "it_estado item_ej = PENDING"
  "it_payload item_ej = [(''Status'', JStr ''a'')]" "version_o_1 item_ej = 1"
  "it_payload_hash item_ej = Some ''a''" "slot item_ej = indice_key ''A1'' ''M3_UPDATE''"
  "it_sfc_completado item_ej = False" "it_intentos item_ej = Some 1" "it_max_intentos item_ej = Some 10"
  by (simp_all add: item_ej_def item_nuevo_def args_ej_def version_o_1_def slot_def operacion_sufijo_def)

lemma encola_ej_paso: "paso_cola r (encola_ej estado now r)"
  using p_enqueue [of "args_ej estado now" r]
  by (simp add: encola_ej_def args_ej_def smart_ok_def operaciones_def)

lemma alcanzable_cola_ej: "alcanzable cola_inicial paso_cola cola_ej"
  unfolding cola_ej_def
  by (rule alc_paso [of cola_inicial paso_cola redis_vacio])
    (simp_all add: alc_inicio cola_inicial_def encola_ej_paso)

lemma cola_inv_ej: "cola_inv cola_ej"
  using cola.inv_alcanzable [OF alcanzable_cola_ej] .

subsection \<open>One obligation per slot\<close>

text \<open>
  C3. In every state that the queue can reach by any interleaving of its scripts, called by any
  processes with any arguments, and of the separate reads and unguarded pipelines of any number of
  purges, two pending items of the same case and category are the same item, every pending item is
  well-formed, is the one its slot index points to, and is scheduled in \<^verbatim>\<open>pending_zset\<close>: no dispatch is
  duplicated in the queue and none is forgotten. The one condition is that no REPLAY_ITEM has put
  back an item that a purge of \<^verbatim>\<open>FALLIDO_DEFINITIVO\<close> in flight had already listed or noted
  (\<open>cv_reabiertos\<close>); the code does not prevent that race, and
  \<^verbatim>\<open>purga_contra_replay_pierde_el_caso\<close> shows what it does. The purge of \<^verbatim>\<open>EXITOSO\<close> needs no condition.
\<close>

theorem ranura_unica_y_agendada:
  assumes "alcanzable viva_inicial paso_vivo v" "cv_reabiertos v = {}" "r = cv_redis v" "i \<in> pendientes r"
  shows "\<exists>it. r_item r i = Some (Valido it) \<and> it_id it = i \<and> it_estado it \<in> {PENDING, PROCESSING, SFC_DONE}
           \<and> r_indice r (slot it) = Some i \<and> i \<in> fst ` set (r_zpend r)
           \<and> i \<notin> completados r \<and> i \<notin> fallidos r
           \<and> (\<forall>j \<in> pendientes r. \<forall>b. r_item r j = Some (Valido b) \<longrightarrow> slot b = slot it \<longrightarrow> j = i)"
proof -
  have inv: "cola_inv r" using viva.inv_alcanzable [OF assms(1)] assms(2,3) by (simp add: viva_inv_def)
  obtain it where it: "r_item r i = Some (Valido it)" "item_coherente (r_estado r) i it" "r_indice r (slot it) = Some i"
    using pendiente_itemE [OF inv assms(4)] .
  have "i \<notin> completados r" "i \<notin> fallidos r"
    using inv assms(4) by (auto simp: cola_inv_def inv_items_def)
  moreover have "zona (it_estado it) = Some PENDING"
    using zona_pendiente [OF inv assms(4) it(1)] .
  then have "it_estado it \<in> {PENDING, PROCESSING, SFC_DONE}"
    by (cases "it_estado it") auto
  moreover have "i \<in> fst ` set (r_zpend r)"
    using agenda_pendientes [OF inv] assms(4) by blast
  ultimately show ?thesis
    using it slot_unico [OF inv _ assms(4) _ it(1)] by (auto simp: item_coherente_def)
qed

text \<open>The queue with its one item, while a worker purges \<^verbatim>\<open>FALLIDO_DEFINITIVO\<close>.\<close>

definition viva_ej :: cola_viva where
  "viva_ej = \<lparr>cv_redis = cola_ej,
     cv_purgas = [''w'' \<mapsto> \<lparr>pg_estado = FAILED_FINAL, pg_limite = 0, pg_ids = [], pg_inc = [], pg_del = []\<rparr>],
     cv_reabiertos = {}\<rparr>"

lemma alcanzable_viva_ej: "alcanzable viva_inicial paso_vivo viva_ej"
proof (rule alc_paso [OF alcanzable_viva [OF alcanzable_cola_ej]])
  show "paso_vivo \<lparr>cv_redis = cola_ej, cv_purgas = Map.empty, cv_reabiertos = {}\<rparr> viva_ej"
    using v_abre [of "\<lparr>cv_redis = cola_ej, cv_purgas = Map.empty, cv_reabiertos = {}\<rparr>" "''w''" FAILED_FINAL "[]" 0]
    by (simp add: viva_ej_def)
qed

lemma ranura_unica_y_agendada_testigo:
  "\<exists>it. r_item cola_ej 1 = Some (Valido it) \<and> r_indice cola_ej (slot it) = Some 1"
  using ranura_unica_y_agendada [OF alcanzable_viva_ej, of cola_ej 1] by (auto simp: viva_ej_def)

subsection \<open>No update is lost\<close>

lemma reclamadoD:
  assumes "fst (claim_item_lua i w px r) = Inr (Reclamado a)"
  shows "\<exists>it. r_item r i = Some (Valido it) \<and> a = it\<lparr>it_estado := PROCESSING\<rparr> \<and> i \<in> pendientes r \<and> duenio r i = None
    \<and> snd (claim_item_lua i w px r) = r\<lparr>r_item := (r_item r)(i := Some (Valido a)),
        r_claim := tset (reloj r) px (r_claim r) i w\<rparr>"
  using assms by (auto simp: claim_item_lua_def Let_def split: if_splits option.splits crudo.splits)

text \<open>
  C1. What a worker marks as successful is what it sent: if a worker claims an item and later,
  after any interleaving of other processes (overwrites of the same slot, expired leases, other
  claims, deferrals, replays), MARK_SUCCESS with the version it claimed succeeds, then the item
  that becomes EXITOSO has exactly the payload and the hash that the worker claimed, it leaves
  the pending set and its slot is free.
\<close>

theorem exito_es_de_lo_reclamado:
  assumes "alcanzable cola_inicial paso_cola r"
    and "fst (claim_item_lua i w px r) = Inr (Reclamado a)"
    and "paso_cola\<^sup>*\<^sup>* (snd (claim_item_lua i w px r)) r1"
    and "fst (mark_success_lua i now w (version_o_1 a) r1) = Inr Exito"
  shows "\<exists>b. r_item (snd (mark_success_lua i now w (version_o_1 a) r1)) i = Some (Valido b)
           \<and> it_estado b = COMPLETED \<and> it_payload b = it_payload a \<and> it_payload_hash b = it_payload_hash a
           \<and> i \<notin> pendientes (snd (mark_success_lua i now w (version_o_1 a) r1))
           \<and> i \<in> completados (snd (mark_success_lua i now w (version_o_1 a) r1))
           \<and> r_indice (snd (mark_success_lua i now w (version_o_1 a) r1)) (slot b) \<noteq> Some i"
proof -
  have inv: "cola_inv (snd (claim_item_lua i w px r))"
    using cola.inv_alcanzable [OF assms(1)] by (rule preserva)
  have a: "r_item (snd (claim_item_lua i w px r)) i = Some (Valido a)"
    using reclamadoD [OF assms(2)] by auto
  obtain it where it: "r_item r1 i = Some (Valido it)" "version_o_1 it = version_o_1 a" "duenio r1 i = Some w"
    using ts.exitoD [OF assms(4)] by blast
  have p: "it_payload it = it_payload a" "it_payload_hash it = it_payload_hash a"
    using version_determina_payload(2) [OF assms(3) inv a it(1)] it(2) by auto
  have "smart_ok (it_smart_code it)"
    using coherente [OF cola.inv_estrella [OF assms(3) inv] it(1)] by (simp add: item_coherente_def)
  then have "it_smart_code it \<noteq> []" by (simp add: smart_ok_def)
  with it p show ?thesis
    by (auto simp: mark_success_lua_def libera_indice_def slot_def operacion_sufijo_def Let_def)
qed

lemma exito_es_de_lo_reclamado_testigo:
  "it_payload (item_ej\<lparr>it_estado := PROCESSING\<rparr>) = [(''Status'', JStr ''a'')] \<and>
   (\<exists>b. r_item (snd (mark_success_lua 1 5 ''w'' 1 (snd (claim_item_lua 1 ''w'' 60000 cola_ej)))) 1 = Some (Valido b)
      \<and> it_payload b = [(''Status'', JStr ''a'')])"
  using exito_es_de_lo_reclamado [OF alcanzable_cola_ej, of 1 "''w''" 60000 "item_ej\<lparr>it_estado := PROCESSING\<rparr>"
      "snd (claim_item_lua 1 ''w'' 60000 cola_ej)" 5]
  by (force simp: claim_item_lua_def mark_success_lua_def duenio_def tset_def tget_def Let_def version_o_1_def
      item_ej_def item_nuevo_def args_ej_def)

text \<open>
  C2. A stale completion changes nothing but its own claim: if the item has been overwritten
  with another payload since the claim, MARK_SUCCESS, MARK_SFC_DONE and REGISTRAR_FALLO with the
  claimed version all refuse, and the items, the state sets, the schedule, the slots and the
  idempotency records stay as they were, so the newer payload is still owed to the SFC.
\<close>

theorem lo_mas_nuevo_no_se_pierde:
  assumes "alcanzable cola_inicial paso_cola r"
    and "fst (claim_item_lua i w px r) = Inr (Reclamado a)"
    and "paso_cola\<^sup>*\<^sup>* (snd (claim_item_lua i w px r)) r1"
    and "r_item r1 i = Some (Valido b)" "it_payload b \<noteq> it_payload a"
    and "t = mark_success_lua i now w' (version_o_1 a)
       \<or> t = mark_sfc_done_lua i k w' (version_o_1 a) now resp reg ttl
       \<or> t = registrar_fallo_lua i w' (version_o_1 a) e now def prox cons"
  shows "(fst (t r1) = Inr (Rechazo NotOwner) \<or> fst (t r1) = Inr (Rechazo VersionMismatch))
    \<and> r_item (snd (t r1)) = r_item r1 \<and> r_estado (snd (t r1)) = r_estado r1 \<and> r_zpend (snd (t r1)) = r_zpend r1
    \<and> r_indice (snd (t r1)) = r_indice r1 \<and> r_idem (snd (t r1)) = r_idem r1"
proof -
  have inv: "cola_inv (snd (claim_item_lua i w px r))"
    using cola.inv_alcanzable [OF assms(1)] by (rule preserva)
  have a: "r_item (snd (claim_item_lua i w px r)) i = Some (Valido a)"
    using reclamadoD [OF assms(2)] by auto
  have v: "version_o_1 b \<noteq> version_o_1 a"
    using version_determina_payload(2) [OF assms(3) inv a assms(4)] assms(5) by auto
  show ?thesis
  proof (cases "duenio r1 i = Some w'")
    case True
    from assms(6) show ?thesis
      using ts.otra_version [OF True assms(4) v] td.otra_version [OF True assms(4) v]
        tf.otra_version [OF True assms(4) v] by auto
  next
    case False
    from assms(6) show ?thesis
      using ts.ajeno [OF False] td.ajeno [OF False] tf.ajeno [OF False] by auto
  qed
qed

lemma lo_mas_nuevo_no_se_pierde_testigo:
  "let r1 = encola_ej ''b'' 10 (snd (claim_item_lua 1 ''w'' 60000 cola_ej)) in
     r_item (snd (mark_success_lua 1 20 ''w'' 1 r1)) = r_item r1"
  using lo_mas_nuevo_no_se_pierde [OF alcanzable_cola_ej, of 1 "''w''" 60000 "item_ej\<lparr>it_estado := PROCESSING\<rparr>"
      "encola_ej ''b'' 10 (snd (claim_item_lua 1 ''w'' 60000 cola_ej))"
      "item_sobrescrito (args_ej ''b'' 10) (item_ej\<lparr>it_estado := PROCESSING\<rparr>)"
      "mark_success_lua 1 20 ''w'' 1" 20 "''w''"] encola_ej_paso [of "snd (claim_item_lua 1 ''w'' 60000 cola_ej)" "''b''" 10]
  by (simp add: claim_item_lua_def encola_ej_def enqueue_lua_def Let_def version_o_1_def r_into_rtranclp)
    (simp add: args_ej_def item_ej_def item_nuevo_def)

end
