(* ===== verification/Servicio_Propiedades.thy ===== *)
theory Servicio_Propiedades
  imports Purga_Servicio Cola_Propiedades
begin

text \<open>
  The properties of the queue service: every program over its methods is a run of the queue
  machine, what a successful call guarantees in any interleaving and under any connection
  failures, the retry policy, the completeness of the listing and the purge.
\<close>

subsection \<open>Inversion of a successful command\<close>

lemma redis_cmd_InrD:
  assumes "redis_cmd c w = (Inr x, w')"
  shows "\<exists>r. c r = (Inr x, w_redis w')"
proof (cases "w_turnos w")
  case Nil
  with assms have "c (w_redis w) = (Inr x, w_redis w')"
    by (auto simp: redis_cmd_def intro!: prod_eqI)
  then show ?thesis by blast
next
  case (Cons t ts)
  with assms have "c (t_otros t (w_redis w)) = (Inr x, w_redis w')"
    by (cases "t_falla t") (auto simp: redis_cmd_def Let_def intro!: prod_eqI)
  then show ?thesis by blast
qed

lemma luego_cmd_calma:
  "w_turnos w = [] \<Longrightarrow> luego (redis_cmd c) f w =
     (case fst (c (w_redis w)) of
        Inl e \<Rightarrow> (Inl e, w\<lparr>w_redis := snd (c (w_redis w))\<rparr>)
      | Inr x \<Rightarrow> f x (w\<lparr>w_redis := snd (c (w_redis w))\<rparr>))"
  by (simp add: luego_def redis_cmd_calma split: sum.split)

lemma hay_clienteE: "luego hay_cliente f w = f (w_cliente w) w"
  by (simp add: luego_def hay_cliente_def)

lemma ahoraE: "luego ahora f w = f (reloj (w_redis w)) w"
  by (simp add: luego_def ahora_def)

lemma emite_w: "luego (emite ev) f w = f () (w\<lparr>w_bitacora := w_bitacora w @ [ev]\<rparr>)"
  by (simp add: luego_def emite_def)

lemmas desenrolla = hay_clienteE ahoraE

lemma notificacion_marco:
  "snd ((if b then emite ev else devuelve ()) w) = (if b then w\<lparr>w_bitacora := w_bitacora w @ [ev]\<rparr> else w)"
  "fst ((if b then emite ev else devuelve ()) w) = Inr ()"
  by (simp_all add: emite_def devuelve_def)

lemma luego_si_emite:
  "luego (if b then emite ev else devuelve ()) f w =
     f () (if b then w\<lparr>w_bitacora := w_bitacora w @ [ev]\<rparr> else w)"
  by (simp add: luego_def emite_def devuelve_def)

subsection \<open>Programs over the service\<close>





















definition mundo_ej :: "redis \<Rightarrow> turno list \<Rightarrow> mundo" where
  "mundo_ej r ts = \<lparr>w_redis = r, w_cliente = True, w_turnos = ts, w_bitacora = [], w_auth = sin_tokens, w_relevos = [], w_envios = []\<rparr>"

definition en_calma :: "falla \<Rightarrow> turno" where
  "en_calma f = \<lparr>t_otros = (\<lambda>r. r), t_falla = f\<rparr>"

lemma entorno_calma [simp]: "list_all (\<lambda>t. t_otros t = (\<lambda>r. r)) ts \<Longrightarrow> entorno paso_cola\<^sup>*\<^sup>* (mundo_ej r ts)"
  by (auto simp: entorno_def mundo_ej_def list_all_iff)





subsection \<open>An accepted dispatch is owed\<close>

definition debe :: "redis \<Rightarrow> string \<Rightarrow> nat \<Rightarrow> item \<Rightarrow> bool" where
  "debe r k i b = (r_indice r k = Some i \<and> i \<in> pendientes r \<and> r_item r i = Some (Valido b) \<and> it_id b = i)"

lemma enqueue_post:
  assumes "cola_inv r" "enqueue_lua k a r = (Inr res, r')"
  shows "debe r' k (it_id (data res)) (data res) \<and> it_payload (data res) = ae_payload a
    \<and> it_payload_hash (data res) = Some (ae_payload_hash a) \<and> it_estado (data res) = PENDING
    \<and> \<not> it_sfc_completado (data res) \<and> it_intentos (data res) = Some 1
    \<and> map_of (r_zpend r') (it_id (data res)) = Some (ae_proximo a)"
proof (cases "r_indice r k")
  case None
  with assms(2) show ?thesis
    by (auto simp: enqueue_lua_def enqueue_inserta_def Let_def debe_def item_nuevo_def)
next
  case (Some e)
  obtain it where it: "e \<in> pendientes r" "r_item r e = Some (Valido it)" "item_coherente (r_estado r) e it"
    using indice_pendienteD [OF assms(1) Some] .
  have "it_id it = e" using it(3) by (simp add: item_coherente_def)
  with Some it assms(2) show ?thesis
    by (auto simp: enqueue_lua_def Let_def debe_def)
qed

lemma encolar_enqueue:
  assumes "encolar_despacho sha cfg cid s tipo d e w = (Inr it, w')" "entorno paso_cola\<^sup>*\<^sup>* w"
  obtains r a res where "paso_cola\<^sup>*\<^sup>* (w_redis w) r"
    "enqueue_lua (indice_key s (infer_operation_type d)) a r = (Inr res, w_redis w')"
    "it = ColaItemRedis cfg (data res)" "ae_payload a = d" "ae_payload_hash a = compute_payload_hash sha d"
    "ae_proximo a = reloj (w_redis w) + minutos (QUEUE_RETRY_INTERVAL_MINUTES cfg)"
proof -
  let ?a = "\<lparr>ae_smart_code = s, ae_tipo_operacion = tipo, ae_payload = d, ae_error_inicial = e,
      ae_max_intentos = QUEUE_MAX_RETRIES cfg, ae_now = reloj (w_redis w),
      ae_proximo = reloj (w_redis w) + minutos (QUEUE_RETRY_INTERVAL_MINUTES cfg),
      ae_correlation_id = (if cid = [] then ''N/A'' else cid), ae_payload_hash = compute_payload_hash sha d,
      ae_operacion = infer_operation_type d\<rparr>"
  let ?k = "indice_key s (infer_operation_type d)"
  have "w_cliente w" using assms(1) by (auto simp: encolar_despacho_def desenrolla lanza_def split: if_splits)
  with assms(1) obtain res w1 where 1: "redis_cmd (enqueue_lua ?k ?a) w = (Inr res, w1)"
    and 2: "w_redis w' = w_redis w1" "it = ColaItemRedis cfg (data res)"
    by (auto simp: encolar_despacho_def desenrolla Let_def luego_si_emite devuelve_def
        elim!: luego_InrE split: if_splits)
  obtain r where "enqueue_lua ?k ?a r = (Inr res, w_redis w1)" "paso_cola\<^sup>*\<^sup>* (w_redis w) r"
    using gcola.cmd_InrE [OF 1 assms(2)] by blast
  with that [of r ?a res] 2 show thesis by simp
qed

text \<open>
  When \<^verbatim>\<open>encolar_despacho\<close> returns an item, in any interleaving and whatever the failures, the
  queue owes exactly that payload: the slot of the case and category points to a pending item
  that holds the payload and its hash, marked as not sent, with one attempt counted and the retry
  scheduled one interval after the call.
\<close>

theorem encolado_es_deuda:
  assumes "encolar_despacho sha cfg cid s tipo d e w = (Inr it, w')"
    and "entorno paso_cola\<^sup>*\<^sup>* w" "cola_inv (w_redis w)"
  shows "\<exists>b. debe (w_redis w') (indice_key s (infer_operation_type d)) (it_id it) b
           \<and> it_payload b = d \<and> it_payload_hash b = Some (compute_payload_hash sha d)
           \<and> it_estado b = PENDING \<and> \<not> it_sfc_completado b \<and> it_intentos b = Some 1
           \<and> map_of (r_zpend (w_redis w')) (it_id it) =
               Some (reloj (w_redis w) + minutos (QUEUE_RETRY_INTERVAL_MINUTES cfg))
           \<and> it_payload it = d \<and> it_intentos it = Some 1 \<and> version_o_1 it = version_o_1 b"
proof -
  obtain r a res where r: "paso_cola\<^sup>*\<^sup>* (w_redis w) r"
    "enqueue_lua (indice_key s (infer_operation_type d)) a r = (Inr res, w_redis w')"
    "it = ColaItemRedis cfg (data res)" "ae_payload a = d" "ae_payload_hash a = compute_payload_hash sha d"
    "ae_proximo a = reloj (w_redis w) + minutos (QUEUE_RETRY_INTERVAL_MINUTES cfg)"
    using encolar_enqueue [OF assms(1,2)] .
  have "cola_inv r" using cola.inv_estrella [OF r(1) assms(3)] .
  from enqueue_post [OF this r(2)] r(3-6) show ?thesis
    by (intro exI [of _ "data res"]) (simp add: ColaItemRedis_def intentos_o_0_def version_o_1_def)
qed

lemma encolado_es_deuda_testigo:
  "\<exists>it w'. encolar_despacho (\<lambda>s. s) ajustes_por_defecto ''c'' ''A1'' ''D'' [(''Status'', JStr ''b'')] ''e''
      (mundo_ej cola_ej []) = (Inr it, w') \<and> it_payload it = [(''Status'', JStr ''b'')] \<and> it_intentos it = Some 1"
proof -
  let ?m = "encolar_despacho (\<lambda>s. s) ajustes_por_defecto ''c'' ''A1'' ''D'' [(''Status'', JStr ''b'')] ''e'' (mundo_ej cola_ej [])"
  have "\<exists>it w'. ?m = (Inr it, w')"
    by (simp add: encolar_despacho_def desenrolla mundo_ej_def Let_def luego_cmd_calma luego_si_emite
        enqueue_lua_def enqueue_inserta_def devuelve_def split: option.split)
  then obtain it w' where "?m = (Inr it, w')" by blast
  with encolado_es_deuda [OF this] cola_inv_ej show ?thesis
    by (auto simp: mundo_ej_def entorno_def)
qed

subsection \<open>The persistence of SFC_DONE\<close>

text \<open>
  C12. \<^verbatim>\<open>marcar_sfc_completado\<close> is atomic and survives lost replies: when it returns "completed", after
  any interleaving and any failed attempts, the item is SFC_DONE with \<^verbatim>\<open>sfc_completado\<close> set and the
  COMPLETED record of the same case, category and hash is stored, both written by one script; and
  the only exception it can raise is its own \<^verbatim>\<open>RuntimeError\<close>.
\<close>

theorem sfc_done_atomico:
  assumes "marcar_sfc_completado sha i wk v s d resp h w = (x, w')" "entorno paso_cola\<^sup>*\<^sup>* w"
  shows "(\<forall>e. x = Inl e \<longrightarrow> (\<exists>msg. e = RuntimeError msg))
    \<and> (x = Inr TCompleted \<longrightarrow>
        (\<exists>it. r_item (w_redis w') i = Some (Valido it) \<and> it_estado it = SFC_DONE \<and> it_sfc_completado it
            \<and> version_o_1 it = v \<and> duenio (w_redis w') i = Some wk)
        \<and> tget (reloj (w_redis w')) (r_idem (w_redis w')) (construir_clave_completado sha s d h) =
            Some (Valido (construir_registro_completado sha s d (case resp of None \<Rightarrow> JNull | Some j \<Rightarrow> j) h)))"
proof -
  let ?key = "construir_clave_completado sha s d h"
  let ?reg = "construir_registro_completado sha s d (case resp of None \<Rightarrow> JNull | Some j \<Rightarrow> j) h"
  let ?l = "mark_sfc_done_lua i ?key wk v (reloj (w_redis w)) resp ?reg ttl_ms"
  let ?m = "luego (redis_cmd ?l) (\<lambda>res. case res of
      Exito \<Rightarrow> devuelve TCompleted | Rechazo NotOwner \<Rightarrow> devuelve TNotOwner
    | Rechazo VersionMismatch \<Rightarrow> devuelve TVersionMismatch | Rechazo ItemNotFound \<Rightarrow> devuelve TNotFound
    | _ \<Rightarrow> lanza (RuntimeError ''Fallo en transicion''))"
  have err: "\<exists>msg. e = RuntimeError msg" if "x = Inl e" for e
  proof (cases "w_cliente w")
    case False
    with assms(1) that show ?thesis by (auto simp: marcar_sfc_completado_def desenrolla lanza_def)
  next
    case True
    with assms(1) that have "fst (con_reintentos 3 ''No fue posible persistir SFC_DONE'' ?m w) = Inl e"
      by (simp add: marcar_sfc_completado_def desenrolla Let_def)
    then show ?thesis unfolding con_reintentos_def by (blast dest: intentos_desde_error)
  qed
  have ok: "(\<exists>it. r_item (w_redis w') i = Some (Valido it) \<and> it_estado it = SFC_DONE \<and> it_sfc_completado it
            \<and> version_o_1 it = v \<and> duenio (w_redis w') i = Some wk)
        \<and> tget (reloj (w_redis w')) (r_idem (w_redis w')) ?key = Some (Valido ?reg)" if "x = Inr TCompleted"
  proof -
    from assms(1) that have "con_reintentos 3 ''No fue posible persistir SFC_DONE'' ?m w = (Inr TCompleted, w')"
      by (auto simp: marcar_sfc_completado_def desenrolla Let_def lanza_def split: if_splits)
    then obtain w1 where "?m w1 = (Inr TCompleted, w')"
      unfolding con_reintentos_def by (blast dest: intentos_desde_resultado)
    then obtain res w2 where 1: "redis_cmd ?l w1 = (Inr res, w2)"
      and 2: "(case res of Exito \<Rightarrow> devuelve TCompleted | Rechazo NotOwner \<Rightarrow> devuelve TNotOwner
        | Rechazo VersionMismatch \<Rightarrow> devuelve TVersionMismatch | Rechazo ItemNotFound \<Rightarrow> devuelve TNotFound
        | _ \<Rightarrow> lanza (RuntimeError ''Fallo en transicion'')) w2 = (Inr TCompleted, w')"
      by (rule luego_InrE)
    from 2 have "res = Exito" "w2 = w'"
      by (auto simp: devuelve_def lanza_def split: salida.splits razon.splits)
    with redis_cmd_InrD [OF 1] obtain r where r: "?l r = (Inr Exito, w_redis w')" by blast
    then obtain it where "duenio r i = Some wk" "r_item r i = Some (Valido it)" "version_o_1 it = v"
      using td.exitoD [where r = r and i = i and w = wk and v = v] by (metis fst_conv)
    with r have "w_redis w' = r\<lparr>r_item := (r_item r)(i := Some (Valido (item_sfc_done resp (reloj (w_redis w)) it))),
        r_idem := tset (reloj r) ttl_ms (r_idem r) ?key (Valido ?reg)\<rparr>" and "duenio r i = Some wk" "version_o_1 it = v"
      by (simp_all add: mark_sfc_done_lua_def)
    then show ?thesis by (simp add: ttl_ms_def duenio_def)
  qed
  show ?thesis using err ok by blast
qed

lemma sfc_done_atomico_testigo:
  "let w = mundo_ej (snd (claim_item_lua 1 ''w'' 60000 cola_ej)) [en_calma CaeDespues, en_calma CaeAntes] in
   \<forall>e. fst (marcar_sfc_completado (\<lambda>s. s) 1 ''w'' 1 ''A1'' [] None None w) = Inl e \<longrightarrow> (\<exists>msg. e = RuntimeError msg)"
  using sfc_done_atomico [of "\<lambda>s. s" 1 "''w''" 1 "''A1''" "[]" None None
      "mundo_ej (snd (claim_item_lua 1 ''w'' 60000 cola_ej)) [en_calma CaeDespues, en_calma CaeAntes]"
      "fst (marcar_sfc_completado (\<lambda>s. s) 1 ''w'' 1 ''A1'' [] None None
         (mundo_ej (snd (claim_item_lua 1 ''w'' 60000 cola_ej)) [en_calma CaeDespues, en_calma CaeAntes]))"
      "snd (marcar_sfc_completado (\<lambda>s. s) 1 ''w'' 1 ''A1'' [] None None
         (mundo_ej (snd (claim_item_lua 1 ''w'' 60000 cola_ej)) [en_calma CaeDespues, en_calma CaeAntes]))"]
  by (simp add: en_calma_def Let_def)

end
