(* ===== verification/Politica_Reintentos.thy ===== *)
theory Politica_Reintentos
  imports Servicio_Propiedades
begin

text \<open>
  The retry policy of \<^verbatim>\<open>registrar_fallo\<close>: how many consuming failures an item takes before it falls
  to the dead-letter set, when it is retried, and that failures of the other side never consume.
  A cycle is what the scheduler does with a failing item: claim it and register the failure.
\<close>

definition ciclo_fallido ::
    "(string \<Rightarrow> string) \<Rightarrow> ajustes \<Rightarrow> bool \<Rightarrow> nat \<Rightarrow> string \<Rightarrow> string \<Rightarrow> transicion accion" where
  "ciclo_fallido sha cfg consumir i worker err =
     luego (reclamar_item_para_procesamiento cfg i worker 60) (\<lambda>res.
       case res of None \<Rightarrow> devuelve TNotFound | Some it \<Rightarrow> registrar_fallo sha cfg it err worker consumir)"

fun ciclos_fallidos ::
    "(string \<Rightarrow> string) \<Rightarrow> ajustes \<Rightarrow> bool \<Rightarrow> nat \<Rightarrow> string \<Rightarrow> string \<Rightarrow> nat \<Rightarrow> unit accion" where
  "ciclos_fallidos sha cfg consumir i worker err 0 = devuelve ()"
| "ciclos_fallidos sha cfg consumir i worker err (Suc n) =
     luego (ciclo_fallido sha cfg consumir i worker err) (\<lambda>_. ciclos_fallidos sha cfg consumir i worker err n)"

text \<open>An item that waits for its turn, in a world where nobody interferes.\<close>

definition espera_turno :: "mundo \<Rightarrow> nat \<Rightarrow> nat \<Rightarrow> nat \<Rightarrow> dict \<Rightarrow> bool" where
  "espera_turno w i k M d =
     (w_turnos w = [] \<and> w_cliente w \<and> cola_inv (w_redis w) \<and> i \<in> pendientes (w_redis w)
      \<and> duenio (w_redis w) i = None
      \<and> (\<exists>it. r_item (w_redis w) i = Some (Valido it) \<and> intentos_o_0 it = k \<and> it_max_intentos it = Some M
            \<and> it_payload it = d))"

definition caido :: "mundo \<Rightarrow> nat \<Rightarrow> dict \<Rightarrow> bool" where
  "caido w i d =
     (i \<in> fallidos (w_redis w) \<and> i \<notin> pendientes (w_redis w)
      \<and> (\<exists>it. r_item (w_redis w) i = Some (Valido it) \<and> it_estado it = FAILED_FINAL \<and> it_payload it = d
            \<and> r_indice (w_redis w) (slot it) = None))"

lemma entorno_vacio [simp]: "w_turnos w = [] \<Longrightarrow> entorno R w"
  by (simp add: entorno_def)

lemma reclamar_calma:
  assumes "espera_turno w i k M d"
  obtains it where "r_item (w_redis w) i = Some (Valido it)" "intentos_o_0 it = k" "it_max_intentos it = Some M"
    "it_payload it = d"
    "reclamar_item_para_procesamiento cfg i worker 60 w =
       (Inr (Some (ColaItemRedis cfg (it\<lparr>it_estado := PROCESSING\<rparr>))),
        w\<lparr>w_redis := (w_redis w)\<lparr>r_item := (r_item (w_redis w))(i := Some (Valido (it\<lparr>it_estado := PROCESSING\<rparr>))),
             r_claim := tset (reloj (w_redis w)) 60000 (r_claim (w_redis w)) i worker\<rparr>\<rparr>)"
proof -
  obtain it where it: "r_item (w_redis w) i = Some (Valido it)" "intentos_o_0 it = k" "it_max_intentos it = Some M"
      "it_payload it = d"
    using assms by (auto simp: espera_turno_def)
  have "reclamar_item_para_procesamiento cfg i worker 60 w =
       (Inr (Some (ColaItemRedis cfg (it\<lparr>it_estado := PROCESSING\<rparr>))),
        w\<lparr>w_redis := (w_redis w)\<lparr>r_item := (r_item (w_redis w))(i := Some (Valido (it\<lparr>it_estado := PROCESSING\<rparr>))),
             r_claim := tset (reloj (w_redis w)) 60000 (r_claim (w_redis w)) i worker\<rparr>\<rparr>)"
    using assms it
    by (simp add: reclamar_item_para_procesamiento_def desenrolla intenta_def luego_cmd_calma espera_turno_def
        claim_item_lua_def Let_def devuelve_def)
  with it that show ?thesis by blast
qed

lemma liberar_calma:
  "w_turnos w = [] \<Longrightarrow> w_cliente w \<Longrightarrow>
   liberar_por_fallo_definitivo sha s d w =
     (Inr (), w\<lparr>w_redis := (w_redis w)\<lparr>r_idem := tdel (r_idem (w_redis w)) (clave sha s d)\<rparr>\<rparr>)"
  by (simp add: liberar_por_fallo_definitivo_def desenrolla intenta_def redis_cmd_calma idem_del_def)

lemma ciclo_calma:
  assumes v: "espera_turno w i k M d" and M: "0 < M"
  shows "if consumir \<and> M \<le> k + 1 then caido (snd (ciclo_fallido sha cfg consumir i worker err w)) i d
         else espera_turno (snd (ciclo_fallido sha cfg consumir i worker err w)) i (if consumir then k + 1 else k) M d
              \<and> map_of (r_zpend (w_redis (snd (ciclo_fallido sha cfg consumir i worker err w)))) i =
                  Some (reloj (w_redis w) + minutos (QUEUE_RETRY_INTERVAL_MINUTES cfg * (if consumir then k + 1 else 1)))"
proof -
  obtain it where it: "r_item (w_redis w) i = Some (Valido it)" "intentos_o_0 it = k" "it_max_intentos it = Some M"
      "it_payload it = d"
    and claim: "reclamar_item_para_procesamiento cfg i worker 60 w =
       (Inr (Some (ColaItemRedis cfg (it\<lparr>it_estado := PROCESSING\<rparr>))),
        w\<lparr>w_redis := (w_redis w)\<lparr>r_item := (r_item (w_redis w))(i := Some (Valido (it\<lparr>it_estado := PROCESSING\<rparr>))),
             r_claim := tset (reloj (w_redis w)) 60000 (r_claim (w_redis w)) i worker\<rparr>\<rparr>)" (is "_ = (_, ?w1)")
    using reclamar_calma [OF v] by metis
  let ?ci = "ColaItemRedis cfg (it\<lparr>it_estado := PROCESSING\<rparr>)"
  have w: "w_turnos w = []" "w_cliente w" "cola_inv (w_redis w)" "i \<in> pendientes (w_redis w)"
    using v by (auto simp: espera_turno_def)
  have coh: "it_id it = i" "smart_ok (it_smart_code it)"
    using coherente [OF w(3) it(1)] by (simp_all add: item_coherente_def)
  have ci: "it_id ?ci = i" "version_o_1 ?ci = version_o_1 it" "intentos_o_0 ?ci = k" "it_max_intentos ?ci = Some M"
      "it_smart_code ?ci = it_smart_code it" "it_payload ?ci = d"
    using it coh by (simp_all add: ColaItemRedis_def version_o_1_def intentos_o_0_def)
  have ed: "es_definitivo cfg ?ci consumir = (consumir \<and> M \<le> k + 1)"
    using M ci by (simp add: es_definitivo_def max_intentos_de_def)
  have em: "espera_minutos cfg ?ci consumir = QUEUE_RETRY_INTERVAL_MINUTES cfg * (if consumir then k + 1 else 1)"
    using ci by (simp add: espera_minutos_def)
  let ?r1 = "w_redis ?w1"
  let ?prox = "reloj (w_redis w) + minutos (QUEUE_RETRY_INTERVAL_MINUTES cfg * (if consumir then k + 1 else 1))"
  let ?lua = "registrar_fallo_lua i worker (version_o_1 it) err (reloj (w_redis w)) (consumir \<and> M \<le> k + 1) ?prox consumir"
  let ?it1 = "it\<lparr>it_estado := PROCESSING\<rparr>"
  let ?it2 = "item_fallado err (reloj (w_redis w)) (consumir \<and> M \<le> k + 1) ?prox consumir ?it1"
  have own: "duenio ?r1 i = Some worker" by (simp add: duenio_def)
  have v1: "version_o_1 ?it1 = version_o_1 it" "intentos_o_0 ?it1 = k" "operacion_sufijo ?it1 = operacion_sufijo it"
    using it by (simp_all add: version_o_1_def intentos_o_0_def operacion_sufijo_def)
  have lua: "fst (?lua ?r1) = Inr Exito" using own v1 by (simp add: registrar_fallo_lua_def Let_def)
  have inv2: "cola_inv (snd (?lua ?r1))"
    using w(3) inv_claim_item [OF w(3), of i worker 60000] it v
    by (intro preserva) (simp add: claim_item_lua_def espera_turno_def Let_def)
  have item2: "r_item (snd (?lua ?r1)) i = Some (Valido ?it2)"
    using own v1 by (simp add: registrar_fallo_lua_def Let_def)
  show ?thesis
  proof (cases "consumir \<and> M \<le> k + 1")
    case True
    have red: "w_redis (snd (ciclo_fallido sha cfg consumir i worker err w)) =
        snd (?lua ?r1) \<lparr>r_idem := r_idem (w_redis (snd (ciclo_fallido sha cfg consumir i worker err w)))\<rparr>"
      using w claim lua True ci ed em
      by (simp add: ciclo_fallido_def luego_def [of "reclamar_item_para_procesamiento cfg i worker 60"] registrar_fallo_def
          desenrolla intenta_def luego_cmd_calma luego_asoc luego_si_emite emite_w liberar_calma devuelve_def
          luego_def [of "liberar_por_fallo_definitivo sha (it_smart_code it) d"])
    have "slot ?it2 = slot it" using v1 by (simp add: slot_def)
    with own v1 True coh w(4) have "caido (w\<lparr>w_redis := snd (?lua ?r1)\<rparr>) i d"
      using it by (auto simp: caido_def registrar_fallo_lua_def Let_def libera_indice_def smart_ok_def slot_def)
    then have "caido (snd (ciclo_fallido sha cfg consumir i worker err w)) i d"
      unfolding caido_def by (subst (1 2 3 4) red) simp
    with True show ?thesis by simp
  next
    case False
    have red: "snd (ciclo_fallido sha cfg consumir i worker err w) = w\<lparr>w_redis := snd (?lua ?r1)\<rparr>"
      using w claim lua False ci ed em
      by (auto simp add: ciclo_fallido_def luego_def [of "reclamar_item_para_procesamiento cfg i worker 60"]
          registrar_fallo_def desenrolla intenta_def luego_cmd_calma devuelve_def)
    have "duenio (snd (?lua ?r1)) i = None" "i \<in> pendientes (snd (?lua ?r1))"
        "map_of (r_zpend (snd (?lua ?r1))) i = Some ?prox"
      using own v1 False w(4) by (auto simp: registrar_fallo_lua_def Let_def duenio_def)
    with False red inv2 item2 w it v1 show ?thesis by (auto simp: espera_turno_def)
  qed
qed

lemma ciclos_Suc:
  "snd (ciclos_fallidos sha cfg c i wk err (Suc n) w) =
     (case ciclo_fallido sha cfg c i wk err w of
        (Inl e, w') \<Rightarrow> w' | (Inr x, w') \<Rightarrow> snd (ciclos_fallidos sha cfg c i wk err n w'))"
  by (simp add: luego_def split: prod.split sum.split)

lemma ciclo_sin_error: "w_cliente w \<Longrightarrow> \<exists>x. fst (ciclo_fallido sha cfg c i wk err w) = Inr x"
proof -
  have intenta_sin_error: "\<exists>x. fst (intenta m (\<lambda>e. devuelve y) w) = Inr x" for m :: "'b accion" and y w
    by (simp add: intenta_def devuelve_def split: prod.split sum.split)
  have r: "\<exists>x. fst (reclamar_item_para_procesamiento cfg i wk 60 w) = Inr x" for w
    unfolding reclamar_item_para_procesamiento_def desenrolla
    by (simp add: devuelve_def intenta_def split: prod.split sum.split)
  have f: "\<exists>x. fst (registrar_fallo sha cfg it err wk c w) = Inr x" for it w
    unfolding registrar_fallo_def desenrolla
    by (simp add: devuelve_def intenta_def desenrolla split: prod.split sum.split)
  obtain y w1 where "reclamar_item_para_procesamiento cfg i wk 60 w = (Inr y, w1)"
    using r [of w] by (metis prod.collapse)
  with f show ?thesis by (cases y) (simp_all add: ciclo_fallido_def luego_def devuelve_def)
qed

text \<open>
  C11. The retry budget of an item is exact. An item with \<open>k\<close> attempts counted and a limit of \<open>M\<close>
  is still pending, with its payload intact, after every run of fewer than \<open>M - k\<close> consuming
  failures, and after exactly \<open>M - k\<close> of them it has left the pending set for FALLIDO_DEFINITIVO,
  with its slot free and its payload kept for a replay. A newly enqueued item has \<open>k = 1\<close>.
\<close>

theorem presupuesto_de_reintentos:
  assumes "espera_turno w i k M d" "k < M"
  shows "(k + n < M \<longrightarrow> espera_turno (snd (ciclos_fallidos sha cfg True i wk err n w)) i (k + n) M d)
         \<and> (k + n = M \<longrightarrow> caido (snd (ciclos_fallidos sha cfg True i wk err n w)) i d)"
  using assms
proof (induction n arbitrary: w k)
  case 0
  then show ?case by (simp add: devuelve_def)
next
  case (Suc n)
  have M: "0 < M" using Suc.prems by simp
  have "w_cliente w" using Suc.prems by (simp add: espera_turno_def)
  then obtain x w1 where c: "ciclo_fallido sha cfg True i wk err w = (Inr x, w1)"
    using ciclo_sin_error by (metis prod.collapse)
  have paso: "if M \<le> k + 1 then caido w1 i d else espera_turno w1 i (k + 1) M d"
    using ciclo_calma [OF Suc.prems(1) M, of True sha cfg wk err] c by (simp split: if_splits)
  show ?case
  proof (cases "M \<le> k + 1")
    case True
    with Suc.prems(2) paso c show ?thesis by (cases n) (simp_all add: ciclos_Suc luego_def devuelve_def)
  next
    case False
    with paso Suc.IH [of w1 "k + 1"] c show ?thesis by (simp add: ciclos_Suc del: ciclos_fallidos.simps)
  qed
qed

lemma espera_turno_ej: "espera_turno (mundo_ej cola_ej []) 1 1 10 [(''Status'', JStr ''a'')]"
  by (simp add: espera_turno_def mundo_ej_def cola_inv_ej intentos_o_0_def)

lemma presupuesto_de_reintentos_testigo:
  "caido (snd (ciclos_fallidos (\<lambda>s. s) ajustes_por_defecto True 1 ''w'' ''e'' 9 (mundo_ej cola_ej []))) 1
     [(''Status'', JStr ''a'')]"
  using presupuesto_de_reintentos [OF espera_turno_ej, of 9 "\<lambda>s. s" ajustes_por_defecto "''w''" "''e''"]
  by (simp del: ciclos_fallidos.simps)

text \<open>
  Failures of the other side are free and cannot lose a case: any number of failures registered
  without consuming attempts leaves the item pending with the same attempts, limit and payload,
  and each of them schedules the retry one plain interval ahead.
\<close>

theorem fallos_ajenos_no_consumen:
  assumes "espera_turno w i k M d" "0 < M"
  shows "espera_turno (snd (ciclos_fallidos sha cfg False i wk err n w)) i k M d
         \<and> (n = 1 \<longrightarrow> map_of (r_zpend (w_redis (snd (ciclos_fallidos sha cfg False i wk err n w)))) i =
              Some (reloj (w_redis w) + minutos (QUEUE_RETRY_INTERVAL_MINUTES cfg)))"
proof -
  have paso: "espera_turno (snd (ciclo_fallido sha cfg False i wk err w)) i k M d
      \<and> map_of (r_zpend (w_redis (snd (ciclo_fallido sha cfg False i wk err w)))) i =
          Some (reloj (w_redis w) + minutos (QUEUE_RETRY_INTERVAL_MINUTES cfg))"
    if "espera_turno w i k M d" for w
    using ciclo_calma [OF that assms(2), of False] by simp
  have "espera_turno (snd (ciclos_fallidos sha cfg False i wk err n w)) i k M d"
    using assms(1)
  proof (induction n arbitrary: w)
    case 0
    then show ?case by (simp add: devuelve_def)
  next
    case (Suc n)
    have "w_cliente w" using Suc.prems by (simp add: espera_turno_def)
    then obtain x w1 where "ciclo_fallido sha cfg False i wk err w = (Inr x, w1)"
      using ciclo_sin_error by (metis prod.collapse)
    with paso [OF Suc.prems] Suc.IH [of w1] show ?case by (simp add: ciclos_Suc del: ciclos_fallidos.simps)
  qed
  moreover have "snd (ciclos_fallidos sha cfg False i wk err 1 w) = snd (ciclo_fallido sha cfg False i wk err w)"
    by (simp add: ciclos_Suc luego_def devuelve_def split: prod.split sum.split)
  ultimately show ?thesis using paso [OF assms(1)] by (auto simp del: ciclos_fallidos.simps)
qed

lemma fallos_ajenos_no_consumen_testigo:
  "espera_turno (snd (ciclos_fallidos (\<lambda>s. s) ajustes_por_defecto False 1 ''w'' ''e'' 50 (mundo_ej cola_ej []))) 1 1 10
     [(''Status'', JStr ''a'')]"
  using fallos_ajenos_no_consumen [OF espera_turno_ej, of "\<lambda>s. s" ajustes_por_defecto "''w''" "''e''" 50]
  by (simp del: ciclos_fallidos.simps)

end
