(* ===== verification/Consultas_Purga.thy ===== *)
theory Consultas_Purga
  imports Politica_Reintentos
begin

text \<open>
  What the scheduler sees and what the purge removes: the listing of due items is complete,
  without repetitions and in order of schedule; the purge deletes exactly the old terminal items
  when nobody interferes, and the run that shows why it is not atomic.
\<close>

subsection \<open>The schedule has no repetitions\<close>

definition agenda_distinta :: "redis \<Rightarrow> bool" where
  "agenda_distinta r = distinct (map fst (r_zpend r))"

lemma agenda_paso: "paso_cola r s \<Longrightarrow> agenda_distinta r \<Longrightarrow> agenda_distinta s"
proof (induction rule: paso_cola.induct)
  case (p_cancelar r k i h)
  then show ?case using cancelar_casos [of k i h r] by (auto simp: agenda_distinta_def distinct_zrem)
qed (auto simp: agenda_distinta_def enqueue_lua_def enqueue_inserta_def claim_item_lua_def extend_lease_lua_def
    mark_success_lua_def mark_sfc_done_lua_def registrar_fallo_lua_def replay_item_lua_def diferir_item_lua_def
    libera_indice_def purga_lua_def Let_def distinct_zadd distinct_zrem split: option.splits crudo.splits)

interpretation agenda: maquina cola_inicial paso_cola agenda_distinta
  by unfold_locales (simp add: cola_inicial_def agenda_distinta_def redis_vacio_def, rule agenda_paso)

subsection \<open>The listing\<close>

definition listable :: "ajustes \<Rightarrow> redis \<Rightarrow> nat \<Rightarrow> item option" where
  "listable cfg r i =
     (if i \<in> pendientes r then
        (case r_item r i of Some (Valido it) \<Rightarrow> con_reintentos_disponibles cfg it | _ \<Rightarrow> None)
      else None)"

lemma sismember_calma: "w_turnos w = [] \<Longrightarrow> luego (sismember st i) f w = f (i \<in> r_estado (w_redis w) st) w"
  by (simp add: sismember_def luego_cmd_calma)

lemma get_item_calma: "w_turnos w = [] \<Longrightarrow> luego (get_item i) f w = f (r_item (w_redis w) i) w"
  by (simp add: get_item_def luego_cmd_calma)

lemma recorre_calma:
  assumes "w_turnos w = []" "cola_inv (w_redis w)"
  shows "recorre_pendientes (\<lambda>it. devuelve (con_reintentos_disponibles cfg it)) ids w =
    (Inr (List.map_filter (listable cfg (w_redis w)) ids), w)"
proof (induction ids)
  case Nil
  then show ?case by (simp add: devuelve_def List.map_filter_simps)
next
  case (Cons i ids)
  show ?case
  proof (cases "i \<in> pendientes (w_redis w)")
    case False
    with Cons assms show ?thesis
      by (simp add: sismember_calma listable_def List.map_filter_simps)
  next
    case True
    obtain it where it: "r_item (w_redis w) i = Some (Valido it)"
      using pendiente_itemE [OF assms(2) True] by blast
    have "luego (recorre_pendientes (\<lambda>it. devuelve (con_reintentos_disponibles cfg it)) ids) g w =
        g (List.map_filter (listable cfg (w_redis w)) ids) w" for g :: "item list \<Rightarrow> item list accion"
      by (simp add: luego_def Cons)
    with True it assms have "recorre_pendientes (\<lambda>it. devuelve (con_reintentos_disponibles cfg it)) (i # ids) w =
        devuelve (List.map_filter (listable cfg (w_redis w)) (i # ids)) w"
      by (simp add: sismember_calma get_item_calma listable_def [of _ _ i] List.map_filter_simps split: option.split)
    then show ?thesis by (rule trans [OF _ devuelve_def])
  qed
qed

lemma con_reintentos_id:
  "con_reintentos_disponibles cfg it = Some it' \<Longrightarrow> it_id it' = it_id it \<and> it_payload it' = it_payload it
     \<and> version_o_1 it' = version_o_1 it"
  by (auto simp: con_reintentos_disponibles_def ColaItemRedis_def version_o_1_def split: if_splits)

lemma listable_id:
  "cola_inv r \<Longrightarrow> listable cfg r i = Some it \<Longrightarrow> it_id it = i \<and> i \<in> pendientes r"
  by (auto simp: listable_def dest!: con_reintentos_id coherente split: if_splits option.splits crudo.splits)
    (simp add: item_coherente_def)

lemma map_filter_ids:
  assumes "\<And>i it. f i = Some it \<Longrightarrow> g it = i"
  shows "map g (List.map_filter f ids) = filter (\<lambda>i. f i \<noteq> None) ids"
  using assms by (induction ids) (auto simp: List.map_filter_def)

lemma map_of_eq_set: "distinct (map fst z) \<Longrightarrow> map_of z i = Some s \<longleftrightarrow> (i, s) \<in> set z"
  by simp

text \<open>
  The listing of the scheduler forgets nobody: in a reachable state, with no interference, it
  returns each pending item whose retry instant has come and that has attempts left, exactly once,
  in the order of the retry instants, and nothing else.
\<close>

theorem listado_completo:
  assumes "alcanzable cola_inicial paso_cola (w_redis w)" "w_turnos w = []" "w_cliente w"
  shows "\<exists>its. obtener_pendientes_para_reintento cfg w = (Inr its, w)
    \<and> distinct (map it_id its)
    \<and> sorted (map (\<lambda>i. the (map_of (r_zpend (w_redis w)) i)) (map it_id its))
    \<and> set (map it_id its) =
        {i \<in> pendientes (w_redis w). \<exists>s it. map_of (r_zpend (w_redis w)) i = Some s \<and> s \<le> reloj (w_redis w)
           \<and> r_item (w_redis w) i = Some (Valido it)
           \<and> intentos_o_0 it < (case it_max_intentos it of None \<Rightarrow> QUEUE_MAX_RETRIES cfg | Some n \<Rightarrow> n)}"
proof -
  let ?r = "w_redis w"
  let ?ids = "zrangebyscore (r_zpend ?r) (reloj ?r)"
  let ?its = "List.map_filter (listable cfg ?r) ?ids"
  have inv: "cola_inv ?r" using cola.inv_alcanzable [OF assms(1)] .
  have d: "distinct (map fst (r_zpend ?r))"
    using agenda.inv_alcanzable [OF assms(1)] by (simp add: agenda_distinta_def)
  have run: "obtener_pendientes_para_reintento cfg w = (Inr ?its, w)"
    using assms by (simp add: obtener_pendientes_para_reintento_def desenrolla luego_cmd_calma recorre_calma inv)
  have ids: "map it_id ?its = filter (\<lambda>i. listable cfg ?r i \<noteq> None) ?ids"
    by (rule map_filter_ids) (use listable_id [OF inv] in blast)
  have "distinct (map it_id ?its)"
    unfolding ids using distinct_zrangebyscore [OF d] by simp
  moreover have "sorted (map (\<lambda>i. the (map_of (r_zpend ?r) i)) (map it_id ?its))"
    unfolding ids using zrangebyscore_ordenado [OF d] by (rule sorted_filter)
  moreover have "set (map it_id ?its) =
      {i \<in> pendientes ?r. \<exists>s it. map_of (r_zpend ?r) i = Some s \<and> s \<le> reloj ?r \<and> r_item ?r i = Some (Valido it)
         \<and> intentos_o_0 it < (case it_max_intentos it of None \<Rightarrow> QUEUE_MAX_RETRIES cfg | Some n \<Rightarrow> n)}"
  proof (rule set_eqI)
    fix i
    show "i \<in> set (map it_id ?its) \<longleftrightarrow> i \<in> {i \<in> pendientes ?r. \<exists>s it. map_of (r_zpend ?r) i = Some s \<and> s \<le> reloj ?r
        \<and> r_item ?r i = Some (Valido it)
        \<and> intentos_o_0 it < (case it_max_intentos it of None \<Rightarrow> QUEUE_MAX_RETRIES cfg | Some n \<Rightarrow> n)}"
    proof (cases "i \<in> pendientes ?r")
      case False
      then show ?thesis unfolding ids by (simp add: listable_def)
    next
      case True
      obtain it where it: "r_item ?r i = Some (Valido it)" using pendiente_itemE [OF inv True] by blast
      have "i \<in> set ?ids \<longleftrightarrow> (\<exists>s. map_of (r_zpend ?r) i = Some s \<and> s \<le> reloj ?r)"
        by (auto simp: set_zrangebyscore map_of_eq_set [OF d])
      with True it show ?thesis
        unfolding ids by (simp add: listable_def con_reintentos_disponibles_def)
    qed
  qed
  ultimately show ?thesis using run by blast
qed

lemma listado_completo_testigo:
  "\<exists>its. obtener_pendientes_para_reintento ajustes_por_defecto (mundo_ej (cola_ej\<lparr>reloj := 300000\<rparr>) []) =
      (Inr its, mundo_ej (cola_ej\<lparr>reloj := 300000\<rparr>) []) \<and> distinct (map it_id its) \<and> set (map it_id its) = {1}"
proof -
  have "paso_cola cola_ej (cola_ej\<lparr>reloj := 300000\<rparr>)" using p_tiempo [of 300000 cola_ej] by simp
  then have "alcanzable cola_inicial paso_cola (cola_ej\<lparr>reloj := 300000\<rparr>)"
    by (rule alc_paso [OF alcanzable_cola_ej])
  from listado_completo [of "mundo_ej (cola_ej\<lparr>reloj := 300000\<rparr>) []" ajustes_por_defecto] this
  show ?thesis by (simp add: mundo_ej_def intentos_o_0_def) fastforce
qed

subsection \<open>The purge\<close>

definition purgable :: "redis \<Rightarrow> int \<Rightarrow> nat \<Rightarrow> bool" where
  "purgable r limite i =
     (case r_item r i of Some (Valido it) \<Rightarrow> (case it_updated_at it of Some u \<Rightarrow> u \<le> limite | None \<Rightarrow> False) | _ \<Rightarrow> False)"

lemma clasifica_calma:
  assumes "w_turnos w = []" "cola_inv (w_redis w)"
    and "\<And>i it. i \<in> set ids \<Longrightarrow> r_item (w_redis w) i = Some (Valido it) \<Longrightarrow> it_updated_at it \<noteq> None"
  shows "clasifica_purga limite ids w =
    (Inr (filter (\<lambda>i. r_item (w_redis w) i = None) ids, filter (purgable (w_redis w) limite) ids), w)"
  using assms(3)
proof (induction ids)
  case Nil
  then show ?case by (simp add: devuelve_def)
next
  case (Cons i ids)
  have IH: "luego (clasifica_purga limite ids) g w =
      g (filter (\<lambda>i. r_item (w_redis w) i = None) ids, filter (purgable (w_redis w) limite) ids) w"
    for g :: "nat list \<times> nat list \<Rightarrow> (nat list \<times> nat list) accion"
  proof -
    have "clasifica_purga limite ids w =
        (Inr (filter (\<lambda>i. r_item (w_redis w) i = None) ids, filter (purgable (w_redis w) limite) ids), w)"
      by (rule Cons.IH) (rule Cons.prems, simp_all)
    then show ?thesis by (simp add: luego_def)
  qed
  show ?case
  proof (cases "r_item (w_redis w) i")
    case None
    then show ?thesis using assms by (simp add: get_item_calma IH purgable_def [of _ _ i] devuelve_def)
  next
    case (Some c)
    with no_corrupto [OF assms(2), of i] obtain it where it: "r_item (w_redis w) i = Some (Valido it)"
      by (cases c) auto
    obtain u where "it_updated_at it = Some u" using Cons.prems it by fastforce
    with it show ?thesis using assms by (simp add: get_item_calma IH purgable_def [of _ _ i] devuelve_def)
  qed
qed

text \<open>
  With no interference the purge of a terminal state deletes exactly the items of that state
  whose last update is at or before the limit, never touches a pending item, its slot or its
  schedule, keeps the queue invariant and returns the number of deleted items.
\<close>

theorem purga_exacta:
  assumes "w_turnos w = []" "cola_inv (w_redis w)" "st = COMPLETED \<or> st = FAILED_FINAL"
    and "set (sscan (r_estado (w_redis w) st)) = r_estado (w_redis w) st"
    and "\<And>i it. i \<in> r_estado (w_redis w) st \<Longrightarrow> r_item (w_redis w) i = Some (Valido it) \<Longrightarrow> it_updated_at it \<noteq> None"
  shows "\<exists>w' n. purgar_estado sscan st limite w = (Inr n, w') \<and> cola_inv (w_redis w')
    \<and> r_item (w_redis w') =
        (\<lambda>i. if i \<in> r_estado (w_redis w) st \<and> purgable (w_redis w) limite i then None else r_item (w_redis w) i)
    \<and> pendientes (w_redis w') = pendientes (w_redis w) \<and> r_indice (w_redis w') = r_indice (w_redis w)
    \<and> r_zpend (w_redis w') = r_zpend (w_redis w)
    \<and> n = length (filter (purgable (w_redis w) limite) (sscan (r_estado (w_redis w) st)))"
proof -
  let ?r = "w_redis w"
  let ?ids = "sscan (r_estado ?r st)"
  let ?inc = "filter (\<lambda>i. r_item ?r i = None) ?ids" and ?del = "filter (purgable ?r limite) ?ids"
  have c: "clasifica_purga limite ?ids w = (Inr (?inc, ?del), w)"
    using assms by (intro clasifica_calma) auto
  have p: "purgar_estado sscan st limite w =
      (Inr (length ?del), if ?inc = [] \<and> ?del = [] then w else w\<lparr>w_redis := purga_lua st ?inc ?del ?r\<rparr>)"
    unfolding purgar_estado_def
    using assms(1) c
    by (simp add: obtener_ids_de_set_estado_def luego_cmd_calma luego_def [of "clasifica_purga limite ?ids"] devuelve_def)
  have nada: "purga_lua st [] [] ?r = ?r"
    by (simp add: purga_lua_def)
  have red: "w_redis (snd (purgar_estado sscan st limite w)) = purga_lua st ?inc ?del ?r"
    by (simp add: p nada)
  have inv: "cola_inv (purga_lua st ?inc ?del ?r)"
    using assms by (intro inv_purga) (auto simp: cola_inv_def inv_items_def)
  have pend: "pendientes (purga_lua st ?inc ?del ?r) = pendientes ?r"
    using assms(3) by (auto simp: purga_lua_def)
  have item: "r_item (purga_lua st ?inc ?del ?r) =
      (\<lambda>i. if i \<in> r_estado ?r st \<and> purgable ?r limite i then None else r_item ?r i)"
    using assms(4) by (auto simp: purga_lua_def fun_eq_iff)
  have otros: "r_indice (purga_lua st ?inc ?del ?r) = r_indice ?r" "r_zpend (purga_lua st ?inc ?del ?r) = r_zpend ?r"
    by (simp_all add: purga_lua_def)
  show ?thesis
    by (rule exI [of _ "snd (purgar_estado sscan st limite w)"], rule exI [of _ "length ?del"])
      (simp add: red inv pend item otros, simp add: p)
qed

definition testigo_purga :: redis where
  "testigo_purga =
     snd (mark_success_lua 1 5 ''w'' 1 (snd (claim_item_lua 1 ''w'' 60000 cola_ej)))"

lemma testigo_purga_simps [simp]:
  "pendientes testigo_purga = {}" "completados testigo_purga = {1}"
  "r_item testigo_purga = [1 \<mapsto> Valido (item_ej\<lparr>it_estado := COMPLETED, it_updated_at := Some 5\<rparr>)]"
  by (auto simp: testigo_purga_def mark_success_lua_def claim_item_lua_def duenio_def Let_def version_o_1_def
      item_ej_def item_nuevo_def args_ej_def)

lemma cola_inv_testigo_purga: "cola_inv testigo_purga"
  unfolding testigo_purga_def by (intro preserva cola_inv_ej)

lemma purga_exacta_testigo:
  "\<exists>w' n. purgar_estado (\<lambda>A. sorted_list_of_set A) COMPLETED 5 (mundo_ej testigo_purga []) = (Inr n, w')
     \<and> r_item (w_redis w') 1 = None"
  using purga_exacta [of "mundo_ej testigo_purga []" COMPLETED "\<lambda>A. sorted_list_of_set A" 5]
  by (simp add: mundo_ej_def cola_inv_testigo_purga purgable_def) fastforce

text \<open>The queue with one item in FALLIDO_DEFINITIVO, last updated at instant 5.\<close>

definition cola_caida :: redis where
  "cola_caida =
     snd (registrar_fallo_lua 1 ''w'' 1 ''e'' 5 True 0 True (snd (claim_item_lua 1 ''w'' 60000 cola_ej)))"

lemma cola_caida_simps [simp]:
  "pendientes cola_caida = {}" "fallidos cola_caida = {1}" "completados cola_caida = {}" "reloj cola_caida = 0"
  "r_item cola_caida = [1 \<mapsto> Valido (item_fallado ''e'' 5 True 0 True (item_ej\<lparr>it_estado := PROCESSING\<rparr>))]"
  "r_indice cola_caida (indice_key ''A1'' ''M3_UPDATE'') = None"
  by (auto simp: cola_caida_def registrar_fallo_lua_def claim_item_lua_def duenio_def Let_def version_o_1_def
      item_ej_def item_nuevo_def args_ej_def libera_indice_def slot_def operacion_sufijo_def item_fallado_def)

lemma cola_inv_caida: "cola_inv cola_caida"
  unfolding cola_caida_def by (intro preserva cola_inv_ej)

definition turnos_carrera :: "turno list" where
  "turnos_carrera =
     [en_calma Bien, en_calma Bien, \<lparr>t_otros = (\<lambda>r. snd (replay_item_lua 1 9 r)), t_falla = Bien\<rparr>]"

text \<open>
  The purge is not atomic, and a replay of the administrator can lose a case: on a reachable
  queue with one old item in FALLIDO_DEFINITIVO, if the replay of that item runs after the purge
  read it and before the pipeline of the purge, the purge deletes the item that is now pending.
  The set PENDIENTE is left with an id without an item, and the case is never sent.
\<close>

theorem purga_contra_replay_pierde_el_caso:
  "let w' = snd (purgar_estado (\<lambda>A. sorted_list_of_set A) FAILED_FINAL 5 (mundo_ej cola_caida turnos_carrera))
   in cola_inv cola_caida \<and> entorno paso_cola\<^sup>*\<^sup>* (mundo_ej cola_caida turnos_carrera)
      \<and> 1 \<in> pendientes (w_redis w') \<and> r_item (w_redis w') 1 = None \<and> \<not> cola_inv (w_redis w')"
proof -
  let ?w' = "snd (purgar_estado (\<lambda>A. sorted_list_of_set A) FAILED_FINAL 5 (mundo_ej cola_caida turnos_carrera))"
  have ent: "entorno paso_cola\<^sup>*\<^sup>* (mundo_ej cola_caida turnos_carrera)"
    by (auto simp: entorno_def mundo_ej_def turnos_carrera_def en_calma_def intro: p_replay)
  let ?it = "item_fallado ''e'' 5 True 0 True (item_ej\<lparr>it_estado := PROCESSING\<rparr>)"
  have it: "it_updated_at ?it = Some 5" "slot ?it = indice_key ''A1'' ''M3_UPDATE''"
    by (simp_all add: item_fallado_def item_ej_def item_nuevo_def args_ej_def slot_def operacion_sufijo_def)
  let ?r = "snd (replay_item_lua 1 9 cola_caida)"
  have rep: "pendientes ?r = {1}"
    using it by (simp add: replay_item_lua_def Let_def)
  have "w_redis ?w' = purga_lua FAILED_FINAL [] [1] ?r"
    using it by (simp add: purgar_estado_def obtener_ids_de_set_estado_def get_item_def luego_def redis_cmd_def
        mundo_ej_def turnos_carrera_def en_calma_def Let_def devuelve_def)
  with rep have "1 \<in> pendientes (w_redis ?w') \<and> r_item (w_redis ?w') 1 = None"
    by (simp add: purga_lua_def)
  moreover from this have "\<not> cola_inv (w_redis ?w')"
    by (auto simp: cola_inv_def inv_items_def)
  ultimately show ?thesis using ent cola_inv_caida by (simp add: Let_def)
qed

end
