(* ===== verification/Candado.thy ===== *)
theory Candado
  imports Consultas_Purga
begin

text \<open>
  \<^verbatim>\<open>app/core/distributed_lock.py\<close>: the two Lua scripts, the class \<^verbatim>\<open>RedisLock\<close> and its operations.
  The scripts provide the contract \<open>posesion_liberable\<close>. The class serves the dispatch lock per
  case (\<^verbatim>\<open>{sfc:despacho}:<smart_code>\<close>) and the locks of the periodic jobs.
\<close>

subsection \<open>Scripts\<close>

definition dueno_lock :: "redis \<Rightarrow> string \<Rightarrow> string option" where
  "dueno_lock r k = tget (reloj r) (r_lock r) k"

text \<open>\<^verbatim>\<open>SET key token NX EX lease\<close>\<close>

definition set_nx_lock :: "int \<Rightarrow> string \<Rightarrow> string \<Rightarrow> redis \<Rightarrow> bool \<times> redis" where
  "set_nx_lock px k token r =
     (if dueno_lock r k = None then (True, r\<lparr>r_lock := tset (reloj r) px (r_lock r) k token\<rparr>) else (False, r))"

definition extend_lock_lua :: "int \<Rightarrow> string \<Rightarrow> string \<Rightarrow> redis \<Rightarrow> bool \<times> redis" where
  "extend_lock_lua px k token r =
     (if dueno_lock r k = Some token then (True, r\<lparr>r_lock := texpire (reloj r) px (r_lock r) k\<rparr>) else (False, r))"

definition release_lock_lua :: "string \<Rightarrow> string \<Rightarrow> redis \<Rightarrow> bool \<times> redis" where
  "release_lock_lua k token r =
     (if dueno_lock r k = Some token then (True, r\<lparr>r_lock := tdel (r_lock r) k\<rparr>) else (False, r))"

definition como_cmd :: "(redis \<Rightarrow> bool \<times> redis) \<Rightarrow> bool guion" where
  "como_cmd f r = (Inr (fst (f r)), snd (f r))"

text \<open>The lease of the service is 60 seconds (the default of the constructor).\<close>

definition lease_por_defecto :: int where
  "lease_por_defecto = 60000"

interpretation cerrojo: posesion_liberable dueno_lock "set_nx_lock lease_por_defecto"
  "extend_lock_lua lease_por_defecto" release_lock_lua
  by unfold_locales
    (auto simp: set_nx_lock_def extend_lock_lua_def release_lock_lua_def dueno_lock_def lease_por_defecto_def
      tget_texpire split: if_splits)

subsection \<open>The class\<close>

record RedisLock =
  lock_key :: string
  owner_token :: string
  lease_segundos :: nat
  intervalo_heartbeat :: nat
  acquired :: bool
  redis_error :: bool

definition nuevo_lock :: "string \<Rightarrow> string \<Rightarrow> nat \<Rightarrow> RedisLock" where
  "nuevo_lock k token lease =
     \<lparr>lock_key = k, owner_token = token, lease_segundos = lease, intervalo_heartbeat = 15,
      acquired = False, redis_error = False\<rparr>"

definition lease_ms :: "RedisLock \<Rightarrow> int" where
  "lease_ms c = int (lease_segundos c) * 1000"

text \<open>The result is the value of \<^verbatim>\<open>acquire()\<close> with the object after the call.\<close>

definition acquire :: "RedisLock \<Rightarrow> (bool \<times> RedisLock) accion" where
  "acquire c =
     (let c0 = c\<lparr>redis_error := False\<rparr> in
      luego hay_cliente (\<lambda>hay.
        if \<not> hay then devuelve (False, c0\<lparr>redis_error := True\<rparr>)
        else intenta
          (luego (redis_cmd (como_cmd (set_nx_lock (lease_ms c) (lock_key c) (owner_token c)))) (\<lambda>ok.
             devuelve (ok, c0\<lparr>acquired := ok\<rparr>)))
          (\<lambda>e. devuelve (False, c0\<lparr>redis_error := True\<rparr>))))"

text \<open>One turn of the heartbeat loop: it ends when \<open>acquired\<close> is off.\<close>

definition heartbeat :: "RedisLock \<Rightarrow> RedisLock accion" where
  "heartbeat c =
     (if \<not> acquired c then devuelve c
      else luego (duerme (int (intervalo_heartbeat c) * 1000)) (\<lambda>_.
        intenta
          (luego (redis_cmd (como_cmd (extend_lock_lua (lease_ms c) (lock_key c) (owner_token c)))) (\<lambda>ok.
             devuelve (if ok then c else c\<lparr>acquired := False\<rparr>)))
          (\<lambda>e. devuelve c)))"

definition release :: "RedisLock \<Rightarrow> RedisLock accion" where
  "release c =
     (if \<not> acquired c then devuelve c
      else let c1 = c\<lparr>acquired := False\<rparr> in
        luego hay_cliente (\<lambda>hay.
          if \<not> hay then devuelve c1
          else intenta
            (luego (redis_cmd (como_cmd (release_lock_lua (lock_key c) (owner_token c)))) (\<lambda>_. devuelve c1))
            (\<lambda>e. devuelve c1)))"

text \<open>\<^verbatim>\<open>async with RedisLock(...) as lock: body\<close>. The body sees the object after \<open>acquire\<close>.\<close>

definition con_lock :: "RedisLock \<Rightarrow> (RedisLock \<Rightarrow> 'a accion) \<Rightarrow> 'a accion" where
  "con_lock c cuerpo =
     luego (acquire c) (\<lambda>(ok, c1). finalmente (cuerpo c1) (luego (release c1) (\<lambda>_. devuelve ())))"

subsection \<open>The lock leaves the queue alone\<close>

lemma como_cmd_lock:
  "respeta paso_cola\<^sup>*\<^sup>* (redis_cmd (como_cmd (set_nx_lock px k t)))"
  "respeta paso_cola\<^sup>*\<^sup>* (redis_cmd (como_cmd (extend_lock_lua px k t)))"
  "respeta paso_cola\<^sup>*\<^sup>* (redis_cmd (como_cmd (release_lock_lua k t)))"
  by (rule gcola.redis_cmd;
      auto simp: como_cmd_def set_nx_lock_def extend_lock_lua_def release_lock_lua_def intro!: r_into_rtranclp p_lock)+

lemma refina_lock:
  "respeta paso_cola\<^sup>*\<^sup>* (acquire c)" "respeta paso_cola\<^sup>*\<^sup>* (release c)" "respeta paso_cola\<^sup>*\<^sup>* (heartbeat c)"
  unfolding acquire_def release_def heartbeat_def Let_def
  by (intro gcola.reglas como_cmd_lock)+

lemma refina_con_lock: "(\<And>c. respeta paso_cola\<^sup>*\<^sup>* (f c)) \<Longrightarrow> respeta paso_cola\<^sup>*\<^sup>* (con_lock c f)"
  unfolding con_lock_def by (intro gcola.luego refina_lock) (auto intro!: gcola.reglas refina_lock)

subsection \<open>What the others may do to a held lock\<close>

text \<open>One step of the database taken by a process that does not have the token \<open>a\<close>.\<close>

inductive paso_ajeno :: "string \<Rightarrow> redis \<Rightarrow> redis \<Rightarrow> bool" for a :: string where
  a_tomar: "b \<noteq> a \<Longrightarrow> paso_ajeno a r (snd (set_nx_lock px k b r))"
| a_renovar: "b \<noteq> a \<Longrightarrow> paso_ajeno a r (snd (extend_lock_lua px k b r))"
| a_soltar: "b \<noteq> a \<Longrightarrow> paso_ajeno a r (snd (release_lock_lua k b r))"
| a_tiempo: "0 \<le> t \<Longrightarrow> paso_ajeno a r (r\<lparr>reloj := reloj r + t\<rparr>)"
| a_otro: "r_lock s = r_lock r \<Longrightarrow> reloj r \<le> reloj s \<Longrightarrow> paso_ajeno a r s"

lemma paso_ajeno_conserva: "paso_ajeno a r s \<Longrightarrow> conserva r_lock k a r s"
proof (induction rule: paso_ajeno.induct)
  case (a_renovar b r px k')
  then show ?case
    by (auto simp: conserva_def extend_lock_lua_def dueno_lock_def texpire_def tget_def split: option.splits if_splits)
qed (auto simp: conserva_def set_nx_lock_def release_lock_lua_def dueno_lock_def tget_def tset_def tdel_def
    split: option.splits if_splits)

lemma pasos_ajenos_conservan: "(paso_ajeno a)\<^sup>*\<^sup>* r s \<Longrightarrow> conserva r_lock k a r s"
proof (induction rule: rtranclp_induct)
  case base
  show ?case by (rule glock.nada)
next
  case (step s t)
  then show ?case using glock.trans paso_ajeno_conserva by blast
qed

lemma acquire_TrueD:
  assumes "acquire c w = (Inr (True, c1), w1)"
  shows "r_lock (w_redis w1) (lock_key c) = Some (owner_token c, reloj (w_redis w1) + lease_ms c)
    \<and> acquired c1 \<and> \<not> redis_error c1 \<and> lock_key c1 = lock_key c \<and> owner_token c1 = owner_token c"
proof -
  let ?cmd = "como_cmd (set_nx_lock (lease_ms c) (lock_key c) (owner_token c))"
  from assms obtain w0 where 1: "redis_cmd ?cmd w = (Inr True, w0)" "w1 = w0" "c1 = c\<lparr>redis_error := False, acquired := True\<rparr>"
    by (auto simp: acquire_def Let_def hay_cliente_def intenta_def luego_def devuelve_def split: if_splits prod.splits sum.splits)
  obtain r where "?cmd r = (Inr True, w_redis w0)" using redis_cmd_InrD [OF 1(1)] by blast
  then have "w_redis w0 = r\<lparr>r_lock := tset (reloj r) (lease_ms c) (r_lock r) (lock_key c) (owner_token c)\<rparr>"
    by (auto simp: como_cmd_def set_nx_lock_def split: if_splits)
  with 1(2,3) show ?thesis by (simp add: tset_def)
qed

lemma acquire_FalseD:
  assumes "acquire c w = (Inr (False, c1), w1)" "\<not> redis_error c1"
  shows "\<exists>b. dueno_lock (w_redis w1) (lock_key c) = Some b"
proof -
  let ?cmd = "como_cmd (set_nx_lock (lease_ms c) (lock_key c) (owner_token c))"
  from assms have 1: "redis_cmd ?cmd w = (Inr False, w1)"
    by (auto simp: acquire_def Let_def hay_cliente_def intenta_def luego_def devuelve_def split: if_splits prod.splits sum.splits)
  obtain r where "?cmd r = (Inr False, w_redis w1)" using redis_cmd_InrD [OF 1] by blast
  then show ?thesis by (auto simp: como_cmd_def set_nx_lock_def split: if_splits)
qed

subsection \<open>Properties\<close>

text \<open>
  C13. Mutual exclusion of the dispatch lock: once \<open>acquire\<close> returned true, whatever the other
  processes (other tokens) do and however long they take within the lease, the lock still belongs
  to this owner, and the \<open>SET NX\<close> of every other owner is refused and changes nothing.
\<close>

theorem candado_exclusivo:
  assumes "acquire c w = (Inr (True, c1), w1)"
    and "(paso_ajeno (owner_token c))\<^sup>*\<^sup>* (w_redis w1) r"
    and "reloj r < reloj (w_redis w1) + lease_ms c"
  shows "dueno_lock r (lock_key c) = Some (owner_token c)
         \<and> set_nx_lock px (lock_key c) b r = (False, r)
         \<and> (b \<noteq> owner_token c \<longrightarrow> release_lock_lua (lock_key c) b r = (False, r))"
proof -
  have "conserva r_lock (lock_key c) (owner_token c) (w_redis w1) r"
    using pasos_ajenos_conservan [OF assms(2)] .
  with acquire_TrueD [OF assms(1)] assms(3)
  obtain e where "reloj r < e" "r_lock r (lock_key c) = Some (owner_token c, e)"
    by (auto simp: conserva_def)
  then have d: "dueno_lock r (lock_key c) = Some (owner_token c)" by (simp add: dueno_lock_def tget_def)
  then show ?thesis by (auto simp: set_nx_lock_def release_lock_lua_def)
qed

definition lock_ej :: RedisLock where
  "lock_ej = nuevo_lock ''{sfc:despacho}:A1'' ''token-a'' 60"

lemma acquire_ej:
  "acquire lock_ej (mundo_ej redis_vacio []) =
     (Inr (True, lock_ej\<lparr>acquired := True\<rparr>),
      mundo_ej (redis_vacio\<lparr>r_lock := [''{sfc:despacho}:A1'' \<mapsto> (''token-a'', 60000)]\<rparr>) [])"
  by (simp add: acquire_def lock_ej_def nuevo_lock_def mundo_ej_def Let_def desenrolla intenta_def luego_cmd_calma
      como_cmd_def set_nx_lock_def dueno_lock_def redis_vacio_def lease_ms_def tset_def devuelve_def)

lemma candado_exclusivo_testigo:
  "let r = snd (set_nx_lock 60000 ''{sfc:despacho}:A1'' ''token-b'' (w_redis (snd (acquire lock_ej (mundo_ej redis_vacio [])))))
   in dueno_lock r ''{sfc:despacho}:A1'' = Some ''token-a''"
proof -
  let ?r1 = "w_redis (snd (acquire lock_ej (mundo_ej redis_vacio [])))"
  let ?r = "snd (set_nx_lock 60000 ''{sfc:despacho}:A1'' ''token-b'' ?r1)"
  have "paso_ajeno ''token-a'' ?r1 ?r" by (rule a_tomar) simp
  then have p: "(paso_ajeno (owner_token lock_ej))\<^sup>*\<^sup>* ?r1 ?r" by (simp add: lock_ej_def nuevo_lock_def)
  show ?thesis
    using candado_exclusivo [OF acquire_ej, of ?r] p
    by (simp add: acquire_ej Let_def)
      (simp add: lock_ej_def nuevo_lock_def lease_ms_def mundo_ej_def set_nx_lock_def dueno_lock_def tget_def redis_vacio_def)
qed

text \<open>
  A refusal is honest and a late release is harmless: when \<open>acquire\<close> answers false without
  \<open>redis_error\<close> somebody really holds the lock, and a \<open>release\<close> whose lock now belongs to another
  token leaves the database untouched, whatever the object still believes.
\<close>

theorem rechazo_honesto_y_liberacion_tardia:
  "(acquire c w = (Inr (False, c1), w1) \<longrightarrow> \<not> redis_error c1 \<longrightarrow> (\<exists>b. dueno_lock (w_redis w1) (lock_key c) = Some b))
   \<and> (w_turnos w = [] \<longrightarrow> dueno_lock (w_redis w) (lock_key c) = Some b \<longrightarrow> b \<noteq> owner_token c \<longrightarrow>
        w_redis (snd (release c w)) = w_redis w)"
proof (intro conjI impI)
  show "\<exists>b. dueno_lock (w_redis w1) (lock_key c) = Some b"
    if "acquire c w = (Inr (False, c1), w1)" "\<not> redis_error c1"
    using acquire_FalseD [OF that] .
  assume b: "w_turnos w = []" "dueno_lock (w_redis w) (lock_key c) = Some b" "b \<noteq> owner_token c"
  have "release_lock_lua (lock_key c) (owner_token c) (w_redis w) = (False, w_redis w)"
    using cerrojo.soltar_ajeno [of "w_redis w" "lock_key c" "owner_token c"] b by simp
  with b(1) show "w_redis (snd (release c w)) = w_redis w"
    by (simp add: release_def Let_def desenrolla intenta_def luego_cmd_calma como_cmd_def devuelve_def)
qed

lemma rechazo_honesto_y_liberacion_tardia_testigo:
  "w_redis (snd (release (lock_ej\<lparr>owner_token := ''token-b'', acquired := True\<rparr>)
      (snd (acquire lock_ej (mundo_ej redis_vacio []))))) =
   w_redis (snd (acquire lock_ej (mundo_ej redis_vacio [])))"
  using rechazo_honesto_y_liberacion_tardia [of "lock_ej\<lparr>owner_token := ''token-b'', acquired := True\<rparr>"
      "snd (acquire lock_ej (mundo_ej redis_vacio []))" _ _ "''token-a''"]
  unfolding acquire_ej
  by (simp add: lock_ej_def nuevo_lock_def mundo_ej_def dueno_lock_def tget_def redis_vacio_def)

end
