(* ===== verification/Idempotencia_Propiedades.thy ===== *)
theory Idempotencia_Propiedades
  imports Candado
begin

text \<open>
  The properties of the idempotency store: what the hash and the key identify, fail-closed, one
  winner per key, a stored success that answers every later request, and the classification of
  a queued record whose item is being processed.
\<close>

subsection \<open>Every command of the store keeps the clock\<close>

lemma idem_reloj:
  "respeta avanza_reloj (redis_cmd (idem_get k))" "respeta avanza_reloj (redis_cmd (idem_set k reg px))"
  "respeta avanza_reloj (redis_cmd (idem_set_nx k reg px))" "respeta avanza_reloj (redis_cmd (idem_del k))"
  by (rule greloj.redis_cmd, simp add: avanza_reloj_def idem_defs)+

lemma reloj_vigente: "respeta avanza_reloj (item_de_cola_sigue_vigente sha qid h)"
  unfolding item_de_cola_sigue_vigente_def
  by (intro greloj.reglas) (auto intro!: greloj.reglas greloj.lectura split: option.split crudo.split)

lemma reloj_evaluar: "respeta avanza_reloj (evaluar_registro_existente sha raw key h)"
  unfolding evaluar_registro_existente_def
  by (auto intro!: greloj.reglas reloj_vigente idem_reloj split: option.split crudo.split estado_idem.split)

lemma reloj_iniciar: "respeta avanza_reloj (iniciar_registro_processing key reg h)"
  unfolding iniciar_registro_processing_def
  by (auto intro!: greloj.reglas idem_reloj split: option.split crudo.split)

lemma reloj_resto:
  "respeta avanza_reloj (luego (evaluar_registro_existente sha raw key h) (\<lambda>res.
     case res of Some v \<Rightarrow> devuelve v | None \<Rightarrow> iniciar_registro_processing key reg h))"
  by (auto intro!: greloj.luego greloj.devuelve reloj_evaluar reloj_iniciar split: option.split)

subsection \<open>The verdict\<close>

text \<open>The body of the \<^verbatim>\<open>try\<close> of \<^verbatim>\<open>verificar_o_iniciar_operacion\<close>.\<close>

definition consulta :: "(string \<Rightarrow> string) \<Rightarrow> string \<Rightarrow> dict \<Rightarrow> veredicto accion" where
  "consulta sha s d =
     luego (redis_cmd (idem_get (clave sha s d))) (\<lambda>raw.
       luego (evaluar_registro_existente sha raw (clave sha s d) (compute_payload_hash sha d)) (\<lambda>res.
         case res of Some v \<Rightarrow> devuelve v
         | None \<Rightarrow> iniciar_registro_processing (clave sha s d)
                     (registro sha IProcessing s d JNull None) (compute_payload_hash sha d)))"

lemma reloj_consulta: "respeta avanza_reloj (consulta sha s d)"
  unfolding consulta_def by (intro greloj.luego idem_reloj reloj_resto)

lemma verificar_casos:
  "verificar_o_iniciar_operacion sha s d True w =
     (if w_cliente w then
        (case consulta sha s d w of
           (Inr v, w') \<Rightarrow> (Inr v, w')
         | (Inl e, w') \<Rightarrow> (Inr (Some RRedisUnavailable),
                            w'\<lparr>w_bitacora := w_bitacora w' @ [Correo ''redis_no_disponible'' s]\<rparr>))
      else (Inr (Some RRedisUnavailable), w\<lparr>w_bitacora := w_bitacora w @ [Correo ''redis_no_disponible'' s]\<rparr>))"
  by (simp add: verificar_o_iniciar_operacion_def fail_closed_redis_no_disponible_def Let_def desenrolla intenta_def
      manejar_fallo_redis_idempotencia_def emite_w devuelve_def consulta_def split: prod.split sum.split)

lemma iniciar_NoneD:
  assumes "iniciar_registro_processing key reg h w = (Inr None, w')"
  shows "r_idem (w_redis w') key = Some (Valido reg, reloj (w_redis w') + processing_px)"
proof -
  from assms have 1: "redis_cmd (idem_set_nx key reg processing_px) w = (Inr True, w')"
    unfolding iniciar_registro_processing_def
    by (auto simp: devuelve_def lanza_def elim!: luego_InrE split: if_splits option.splits crudo.splits)
  obtain r where "idem_set_nx key reg processing_px r = (Inr True, w_redis w')"
    using redis_cmd_InrD [OF 1] by blast
  then have "w_redis w' = r\<lparr>r_idem := tset (reloj r) processing_px (r_idem r) key (Valido reg)\<rparr>"
    by (auto simp: idem_set_nx_def split: if_splits)
  then show ?thesis by (simp add: tset_def)
qed

lemma consulta_NoneD:
  assumes "consulta sha s d w = (Inr None, w')"
  shows "r_idem (w_redis w') (clave sha s d) =
    Some (Valido (registro sha IProcessing s d JNull None), reloj (w_redis w') + processing_px)"
proof -
  from assms obtain raw w1 res w2 where
    1: "evaluar_registro_existente sha raw (clave sha s d) (compute_payload_hash sha d) w1 = (Inr res, w2)"
    and 2: "(case res of Some v \<Rightarrow> devuelve v
         | None \<Rightarrow> iniciar_registro_processing (clave sha s d)
                     (registro sha IProcessing s d JNull None) (compute_payload_hash sha d)) w2 = (Inr None, w')"
    unfolding consulta_def by (elim luego_InrE) blast
  have "res \<noteq> Some None"
  proof
    assume "res = Some None"
    with 1 show False unfolding evaluar_registro_existente_def
      by (auto simp: devuelve_def lanza_def elim!: luego_InrE split: if_splits option.splits crudo.splits estado_idem.splits)
  qed
  with 2 have "res = None" by (cases res) (auto simp: devuelve_def)
  with 2 show ?thesis using iniciar_NoneD by simp
qed

lemma verificar_NoneD:
  assumes "verificar_o_iniciar_operacion sha s d True w = (Inr None, w')"
  shows "r_idem (w_redis w') (clave sha s d) =
    Some (Valido (registro sha IProcessing s d JNull None), reloj (w_redis w') + processing_px)"
  using assms consulta_NoneD by (auto simp: verificar_casos split: if_splits prod.splits sum.splits)

text \<open>A record of this hash that stays alive until the end of the call decides the verdict.\<close>

definition respuesta_de :: "registro_idem \<Rightarrow> respuesta_idem" where
  "respuesta_de reg = (case ri_status reg of ICompleted \<Rightarrow> RSuccess (ri_sfc_response reg) | _ \<Rightarrow> RProcessing)"

lemma verificar_decidido:
  assumes key: "r_idem r0 (clave sha s d) = Some (Valido reg, e)"
    and reg: "ri_payload_hash reg = compute_payload_hash sha d" "ri_status reg \<noteq> IQueued"
    and w: "conserva r_idem (clave sha s d) (Valido reg) r0 (w_redis w)"
      "entorno (conserva r_idem (clave sha s d) (Valido reg)) w"
    and run: "verificar_o_iniciar_operacion sha s d True w = (x, w')" and fin: "reloj (w_redis w') < e"
  shows "x = Inr (Some (respuesta_de reg)) \<or> x = Inr (Some RRedisUnavailable)"
proof (cases "w_cliente w")
  case False
  with run show ?thesis by (auto simp: verificar_casos)
next
  case True
  show ?thesis
  proof (cases "fst (consulta sha s d w)")
    case (Inl er)
    with True run show ?thesis by (auto simp: verificar_casos split: prod.splits)
  next
    case (Inr v)
    with True run have c: "consulta sha s d w = (Inr v, w')" "x = Inr v"
      by (auto simp: verificar_casos split: prod.splits)
    let ?resto = "\<lambda>raw. luego (evaluar_registro_existente sha raw (clave sha s d) (compute_payload_hash sha d)) (\<lambda>res.
         case res of Some v \<Rightarrow> devuelve v
         | None \<Rightarrow> iniciar_registro_processing (clave sha s d)
                     (registro sha IProcessing s d JNull None) (compute_payload_hash sha d))"
    from c(1) obtain raw w1 where 1: "redis_cmd (idem_get (clave sha s d)) w = (Inr raw, w1)"
      and 2: "?resto raw w1 = (Inr v, w')"
      unfolding consulta_def by (rule luego_InrE)
    obtain r where r: "idem_get (clave sha s d) r = (Inr raw, w_redis w1)"
        "conserva r_idem (clave sha s d) (Valido reg) (w_redis w) r"
      using gidem.cmd_InrE [OF 1 w(2)] by blast
    have raw: "raw = tget (reloj r) (r_idem r) (clave sha s d)" "r = w_redis w1"
      using r(1) by (auto simp: idem_get_def)
    have "entorno avanza_reloj w1"
      using respetaD(2) [OF idem_reloj(1) entorno_reloj [OF w(2)], of "clave sha s d"] 1 by simp
    moreover have "respeta avanza_reloj (?resto raw)" by (rule reloj_resto)
    ultimately have "avanza_reloj (w_redis w1) (w_redis (snd (?resto raw w1)))" by (rule respetaD(1) [rotated])
    then have "reloj (w_redis w1) \<le> reloj (w_redis w')"
      unfolding 2 by (simp add: avanza_reloj_def)
    then have "raw = Some (Valido reg)"
      using conserva_vigente [OF conserva_trans [OF w(1) r(2)] key] fin raw by simp
    with 2 reg have "v = Some (respuesta_de reg)"
      by (cases "ri_status reg") (auto simp: evaluar_registro_existente_def respuesta_de_def devuelve_def)
    with c(2) show ?thesis by simp
  qed
qed

subsection \<open>Properties\<close>

text \<open>
  C15. Two requests with the same content get the same key: the payload hash depends only on the
  values of the fields, not on their order, and not on the two dates that the schema fills in; and
  different case codes, categories or hashes never share a key.
\<close>

theorem identidad_de_operacion:
  assumes "distinct (map fst d)" "distinct (map fst d')"
    and "\<forall>k. k \<notin> {''CreatedDate'', ''ClosedDate''} \<longrightarrow> map_of d k = map_of d' k"
    and "\<forall>t. CHR '':'' \<notin> set (sha t)"
  shows "compute_payload_hash sha d = compute_payload_hash sha d'
    \<and> (get_idempotency_key s op (compute_payload_hash sha d) = get_idempotency_key s' op' (sha t)
        \<longrightarrow> op \<in> set operaciones \<longrightarrow> op' \<in> set operaciones
        \<longrightarrow> s = s' \<and> op = op' \<and> compute_payload_hash sha d = sha t)"
proof (intro conjI impI)
  show "compute_payload_hash sha d = compute_payload_hash sha d'"
    using assms(1,2) by (rule hash_solo_contenido) (use assms(3) in \<open>simp add: campos_excluidos_del_hash_def\<close>)
  assume k: "get_idempotency_key s op (compute_payload_hash sha d) = get_idempotency_key s' op' (sha t)"
    and op: "op \<in> set operaciones" "op' \<in> set operaciones"
  have "CHR '':'' \<notin> set (compute_payload_hash sha d)" using assms(4) by (simp add: compute_payload_hash_def)
  then show "s = s'" "op = op'" "compute_payload_hash sha d = sha t"
    using clave_idempotencia_inj [OF k operaciones_sin_separador [OF op(1)] operaciones_sin_separador [OF op(2)]] assms(4)
    by blast+
qed

lemma identidad_de_operacion_testigo:
  "compute_payload_hash (\<lambda>t. filter (\<lambda>c. c \<noteq> CHR '':'') t)
     [(''Status'', JStr ''New''), (''Name'', JInt 3), (''CreatedDate'', JStr ''hoy'')] =
   compute_payload_hash (\<lambda>t. filter (\<lambda>c. c \<noteq> CHR '':'') t) [(''Name'', JInt 3), (''Status'', JStr ''New'')]"
  using identidad_de_operacion [of "[(''Status'', JStr ''New''), (''Name'', JInt 3), (''CreatedDate'', JStr ''hoy'')]"
      "[(''Name'', JInt 3), (''Status'', JStr ''New'')]" "\<lambda>t. filter (\<lambda>c. c \<noteq> CHR '':'') t" "''A''" "''M3_UPDATE''"
      "''A''" "''M3_UPDATE''" "[]"]
  by simp

text \<open>
  C14. The gate fails closed: \<^verbatim>\<open>verificar_o_iniciar_operacion\<close> never raises, and it lets the operation
  continue only when its PROCESSING record is really stored under the key of the operation, with
  a fresh lease of three minutes; without a Redis client it blocks.
\<close>

theorem verificar_falla_cerrado:
  "(\<exists>v. fst (verificar_o_iniciar_operacion sha s d True w) = Inr v)
   \<and> (fst (verificar_o_iniciar_operacion sha s d True w) = Inr None \<longrightarrow>
        w_cliente w \<and> r_idem (w_redis (snd (verificar_o_iniciar_operacion sha s d True w))) (clave sha s d) =
          Some (Valido (registro sha IProcessing s d JNull None),
                reloj (w_redis (snd (verificar_o_iniciar_operacion sha s d True w))) + processing_px))"
proof (intro conjI impI)
  show "\<exists>v. fst (verificar_o_iniciar_operacion sha s d True w) = Inr v"
    by (simp add: verificar_casos split: prod.split sum.split)
next
  assume n: "fst (verificar_o_iniciar_operacion sha s d True w) = Inr None"
  then show "w_cliente w" by (auto simp: verificar_casos split: if_splits)
  show "r_idem (w_redis (snd (verificar_o_iniciar_operacion sha s d True w))) (clave sha s d) =
          Some (Valido (registro sha IProcessing s d JNull None),
                reloj (w_redis (snd (verificar_o_iniciar_operacion sha s d True w))) + processing_px)"
    using n by (intro verificar_NoneD) (auto intro: prod_eqI)
qed

definition pl_ej :: dict where
  "pl_ej = [(''Status'', JStr ''New'')]"

lemma verificar_ej:
  "verificar_o_iniciar_operacion sha ''A1'' pl_ej True (mundo_ej redis_vacio []) =
     (Inr None, mundo_ej (redis_vacio\<lparr>r_idem :=
        [clave sha ''A1'' pl_ej \<mapsto> (Valido (registro sha IProcessing ''A1'' pl_ej JNull None), 180000)]\<rparr>) [])"
  by (simp add: verificar_casos consulta_def luego_cmd_calma mundo_ej_def idem_get_def redis_vacio_def
      evaluar_registro_existente_def iniciar_registro_processing_def idem_set_nx_def tset_def processing_px_def
      devuelve_def)

lemma verificar_falla_cerrado_testigo:
  "\<exists>v. fst (verificar_o_iniciar_operacion (\<lambda>t. t) ''A1'' pl_ej True (mundo_ej redis_vacio [en_calma CaeDespues])) = Inr v"
  using verificar_falla_cerrado [of "\<lambda>t. t" "''A1''" pl_ej "mundo_ej redis_vacio [en_calma CaeDespues]"] by blast

text \<open>
  C5. One winner: after a request was let through, every later request with the same case, category
  and hash, in any interleaving in which nobody rewrites the live record (renewing its lease is
  allowed) and as long as the lease has not run out, is told "processing" or is blocked because
  Redis fails; it is never let through to the SFC.
\<close>

theorem una_sola_ganadora:
  assumes "verificar_o_iniciar_operacion sha s d True w1 = (Inr None, w1')"
    and "conserva r_idem (clave sha s d) (Valido (registro sha IProcessing s d JNull None)) (w_redis w1') (w_redis w2)"
    and "entorno (conserva r_idem (clave sha s d) (Valido (registro sha IProcessing s d JNull None))) w2"
    and "verificar_o_iniciar_operacion sha s d True w2 = (x, w2')"
    and "reloj (w_redis w2') < reloj (w_redis w1') + processing_px"
  shows "x = Inr (Some RProcessing) \<or> x = Inr (Some RRedisUnavailable)"
  using verificar_decidido [OF verificar_NoneD [OF assms(1)] _ _ assms(2-5)]
  by (simp add: registro_def respuesta_de_def)

lemma una_sola_ganadora_testigo:
  "fst (verificar_o_iniciar_operacion (\<lambda>t. t) ''A1'' pl_ej True
      (snd (verificar_o_iniciar_operacion (\<lambda>t. t) ''A1'' pl_ej True (mundo_ej redis_vacio [])))) \<noteq> Inr None"
proof -
  let ?reg = "registro (\<lambda>t. t) IProcessing ''A1'' pl_ej JNull None"
  let ?w = "mundo_ej (redis_vacio\<lparr>r_idem := [clave (\<lambda>t. t) ''A1'' pl_ej \<mapsto> (Valido ?reg, 180000)]\<rparr>) []"
  have t: "reloj (w_redis (snd (verificar_o_iniciar_operacion (\<lambda>t. t) ''A1'' pl_ej True ?w))) = 0"
    by (simp add: verificar_casos consulta_def luego_cmd_calma mundo_ej_def idem_get_def redis_vacio_def
        evaluar_registro_existente_def registro_def tget_def devuelve_def)
  have "fst (verificar_o_iniciar_operacion (\<lambda>t. t) ''A1'' pl_ej True ?w) \<noteq> Inr None"
    using una_sola_ganadora [OF verificar_ej [of "\<lambda>t. t"], of ?w] t
    by (cases "verificar_o_iniciar_operacion (\<lambda>t. t) ''A1'' pl_ej True ?w")
      (auto simp: conserva_def mundo_ej_def entorno_def processing_px_def redis_vacio_def)
  then show ?thesis by (simp add: verificar_ej)
qed

subsection \<open>Who keeps a record\<close>

text \<open>
  The methods that keep the record of a key until it expires, in any interleaving with others that
  keep it: every queue method but MARK_SFC_DONE, \<^verbatim>\<open>registrar_fallo\<close> and the replay (which write or
  release the record of their own item), and every operation of the store on another key. Who
  loses it: the two releases of that key (\<^verbatim>\<open>liberar_operacion_por_error\<close>, and \<^verbatim>\<open>liberar_por_fallo_definitivo\<close>
  after the last refused webhook), a record written over it, and a request that drops a queued
  record it had read before.
\<close>

lemma conserva_igual [intro]: "f s = f r \<Longrightarrow> reloj s = reloj r \<Longrightarrow> conserva f k v r s"
  by (auto simp: conserva_def)

lemma guiones_sin_idem:
  "r_idem (snd (enqueue_lua q a r)) = r_idem r" "reloj (snd (enqueue_lua q a r)) = reloj r"
  "r_idem (snd (claim_item_lua i w px r)) = r_idem r" "reloj (snd (claim_item_lua i w px r)) = reloj r"
  "r_idem (snd (extend_lease_lua i w px r)) = r_idem r" "reloj (snd (extend_lease_lua i w px r)) = reloj r"
  "r_idem (snd (mark_success_lua i now w n r)) = r_idem r" "reloj (snd (mark_success_lua i now w n r)) = reloj r"
  "r_idem (snd (diferir_item_lua i prox now e n r)) = r_idem r" "reloj (snd (diferir_item_lua i prox now e n r)) = reloj r"
  "r_idem (snd (cancelar_pendiente_lua q i h r)) = r_idem r" "reloj (snd (cancelar_pendiente_lua q i h r)) = reloj r"
  "r_idem (purga_lua est inc del r) = r_idem r" "reloj (purga_lua est inc del r) = reloj r"
  by (auto simp: guiones_defs purga_lua_def Let_def split: option.split crudo.split)

lemma cmd_conserva:
  "(\<And>r. r_idem (snd (c r)) = r_idem r \<and> reloj (snd (c r)) = reloj r) \<Longrightarrow> respeta (conserva r_idem k v) (redis_cmd c)"
  by (rule gidem.redis_cmd) auto

lemma cola_conserva_el_registro:
  "respeta (conserva r_idem k v) (encolar_despacho sha cfg cid s tipo d e)"
  "respeta (conserva r_idem k v) (reclamar_item_para_procesamiento cfg i w l)"
  "respeta (conserva r_idem k v) (marcar_exitoso i w n)"
  "respeta (conserva r_idem k v) (diferir_pendientes_por_caida_sfc cfg its m)"
  "respeta (conserva r_idem k v) (cancelar_pendiente_por_smart_code s op)"
  "respeta (conserva r_idem k v) (extender_lease_item i w l)"
  unfolding encolar_despacho_def reclamar_item_para_procesamiento_def marcar_exitoso_def
    diferir_pendientes_por_caida_sfc_def cancelar_pendiente_por_smart_code_def extender_lease_item_def Let_def
  by (auto intro!: gidem.reglas cmd_conserva simp: guiones_sin_idem
      split: salida.split razon.split salida_claim.split option.split crudo.split)

lemma get_item_conserva: "respeta (conserva r_idem k v) (get_item i)"
  unfolding get_item_def by (rule cmd_conserva) simp

lemma conserva_clasifica: "respeta (conserva r_idem k v) (clasifica_purga l ids)"
  by (induction ids) (auto intro!: gidem.reglas cmd_conserva simp: get_item_def split: option.split crudo.split)

lemma purga_conserva_el_registro: "respeta (conserva r_idem k v) (purgar_registros_antiguos sscan cfg)"
  unfolding purgar_registros_antiguos_def purgar_estado_def obtener_ids_de_set_estado_def
  by (auto intro!: gidem.reglas cmd_conserva conserva_clasifica simp: guiones_sin_idem)

lemma otra_clave_conserva:
  assumes "k' \<noteq> k"
  shows "respeta (conserva r_idem k v) (redis_cmd (idem_set k' reg px))"
    "respeta (conserva r_idem k v) (redis_cmd (idem_set_nx k' reg px))"
    "respeta (conserva r_idem k v) (redis_cmd (idem_del k'))"
    "respeta (conserva r_idem k v) (redis_cmd (idem_get q))"
  by (rule gidem.redis_cmd; use assms in \<open>auto simp: conserva_def idem_defs tset_def tdel_def\<close>)+

lemma almacen_conserva_el_registro:
  assumes "clave sha s d \<noteq> k" "construir_clave_completado sha s d None \<noteq> k"
  shows "respeta (conserva r_idem k v) (verificar_o_iniciar_operacion sha s d fc)"
    "respeta (conserva r_idem k v) (registrar_exito sha s d resp)"
    "respeta (conserva r_idem k v) (registrar_encolado sha s d q)"
    "respeta (conserva r_idem k v) (liberar_por_fallo_definitivo sha s d)"
    "respeta (conserva r_idem k v) (liberar_operacion_por_error sha s d)"
  unfolding verificar_o_iniciar_operacion_def fail_closed_redis_no_disponible_def manejar_fallo_redis_idempotencia_def
    evaluar_registro_existente_def iniciar_registro_processing_def item_de_cola_sigue_vigente_def
    registrar_exito_def registrar_encolado_def liberar_por_fallo_definitivo_def liberar_operacion_por_error_def Let_def
  using assms
  by (auto intro!: gidem.reglas otra_clave_conserva get_item_conserva [unfolded get_item_def]
      split: option.split crudo.split estado_idem.split)

text \<open>
  C6. A stored success answers for thirty days, as long as nobody deletes or overwrites its record:
  once \<^verbatim>\<open>registrar_exito\<close> returns, after any failed attempts, every later request with the same case,
  category and hash is answered with the stored response of the SFC (or blocked because Redis
  fails), in any interleaving of processes that keep the record. The methods that keep it are those of
  \<open>cola_conserva_el_registro\<close>, \<open>purga_conserva_el_registro\<close> and, on other keys, \<open>almacen_conserva_el_registro\<close>; the last
  refused notification of the webhook does not (\<^verbatim>\<open>rechazo_del_webhook_reabre_la_compuerta\<close>).
\<close>

theorem exito_no_se_repite:
  assumes "registrar_exito sha s d resp w1 = (Inr (), w1')"
    and "infer_operation_type d' = infer_operation_type d" "compute_payload_hash sha d' = compute_payload_hash sha d"
    and "conserva r_idem (clave sha s d) (Valido (construir_registro_completado sha s d resp None)) (w_redis w1') (w_redis w2)"
    and "entorno (conserva r_idem (clave sha s d) (Valido (construir_registro_completado sha s d resp None))) w2"
    and "verificar_o_iniciar_operacion sha s d' True w2 = (x, w2')"
    and "reloj (w_redis w2') < reloj (w_redis w1') + ttl_ms"
  shows "x = Inr (Some (RSuccess resp)) \<or> x = Inr (Some RRedisUnavailable)"
proof -
  let ?reg = "construir_registro_completado sha s d resp None"
  have k: "construir_clave_completado sha s d None = clave sha s d"
    by (simp add: construir_clave_completado_def clave_def)
  from assms(1) have "con_reintentos 3 ''registrar_exito'' (redis_cmd (idem_set (clave sha s d) ?reg ttl_ms)) w1 = (Inr (), w1')"
    by (auto simp: registrar_exito_def desenrolla k lanza_def split: if_splits)
  then obtain w0 where c: "redis_cmd (idem_set (clave sha s d) ?reg ttl_ms) w0 = (Inr (), w1')"
    unfolding con_reintentos_def by (blast dest: intentos_desde_resultado)
  obtain r where "idem_set (clave sha s d) ?reg ttl_ms r = (Inr (), w_redis w1')"
    using redis_cmd_InrD [OF c] by blast
  then have "w_redis w1' = r\<lparr>r_idem := tset (reloj r) ttl_ms (r_idem r) (clave sha s d) (Valido ?reg)\<rparr>"
    by (simp add: idem_set_def)
  then have key: "r_idem (w_redis w1') (clave sha s d) = Some (Valido ?reg, reloj (w_redis w1') + ttl_ms)"
    by (simp add: tset_def)
  have c: "clave sha s d' = clave sha s d" using assms(2,3) by (simp add: clave_def)
  show ?thesis
    using verificar_decidido [of "w_redis w1'" sha s d' ?reg "reloj (w_redis w1') + ttl_ms" w2 x w2'] key assms(3-7) c
    by (simp add: construir_registro_completado_def respuesta_de_def)
qed

lemma exito_no_se_repite_testigo:
  "\<exists>w1'. registrar_exito (\<lambda>t. t) ''A1'' pl_ej (JStr ''ok'') (mundo_ej redis_vacio []) = (Inr (), w1')
     \<and> fst (verificar_o_iniciar_operacion (\<lambda>t. t) ''A1'' pl_ej True w1') \<noteq> Inr None"
proof -
  let ?reg = "construir_registro_completado (\<lambda>t. t) ''A1'' pl_ej (JStr ''ok'') None"
  let ?w = "mundo_ej (redis_vacio\<lparr>r_idem := [clave (\<lambda>t. t) ''A1'' pl_ej \<mapsto> (Valido ?reg, ttl_ms)]\<rparr>) []"
  have run: "registrar_exito (\<lambda>t. t) ''A1'' pl_ej (JStr ''ok'') (mundo_ej redis_vacio []) = (Inr (), ?w)"
    by (simp add: registrar_exito_def desenrolla mundo_ej_def con_reintentos_def numeral_3_eq_3 intenta_def
        redis_cmd_calma idem_set_def tset_def construir_clave_completado_def clave_def redis_vacio_def)
  have t: "reloj (w_redis (snd (verificar_o_iniciar_operacion (\<lambda>t. t) ''A1'' pl_ej True ?w))) = 0"
    by (simp add: verificar_casos consulta_def luego_cmd_calma mundo_ej_def idem_get_def redis_vacio_def
        evaluar_registro_existente_def construir_registro_completado_def tget_def ttl_ms_def devuelve_def)
  have "fst (verificar_o_iniciar_operacion (\<lambda>t. t) ''A1'' pl_ej True ?w) \<noteq> Inr None"
    using exito_no_se_repite [OF run refl refl, of ?w] t
    by (cases "verificar_o_iniciar_operacion (\<lambda>t. t) ''A1'' pl_ej True ?w")
      (auto simp: conserva_def mundo_ej_def entorno_def ttl_ms_def redis_vacio_def)
  with run show ?thesis by blast
qed

lemma vigente_calma:
  assumes "w_turnos w = []" "w_cliente w" "i \<noteq> 0" "r_item (w_redis w) i = Some (Valido it)" "it_payload_hash it = Some h" "h \<noteq> []"
  shows "item_de_cola_sigue_vigente sha (Some i) ph w = (Inr (it_estado it = PENDING \<and> h = ph), w)"
  using assms by (simp add: item_de_cola_sigue_vigente_def desenrolla intenta_def luego_cmd_calma devuelve_def)

text \<open>
  A QUEUED record is trusted only while its queue item is in state PENDIENTE with the same hash:
  then the request is answered "already queued"; in every other case the record is dropped and the
  request is let through as new. This includes the item that a worker is processing at that moment
  (PROCESSING) or has already sent (SFC_DONE): a retry of the CRM in that window is let through
  although its content is still in the queue, untouched.
\<close>

theorem registro_encolado_se_contrasta:
  assumes "w_turnos w = []" "w_cliente w"
    and "tget (reloj (w_redis w)) (r_idem (w_redis w)) (clave sha s d) = Some (Valido reg)"
    and "ri_status reg = IQueued" "ri_payload_hash reg = compute_payload_hash sha d" "ri_queue_item_id reg = Some i" "i \<noteq> 0"
    and "r_item (w_redis w) i = Some (Valido it)" "it_payload_hash it = Some h" "h \<noteq> []"
  shows "if it_estado it = PENDING \<and> h = compute_payload_hash sha d
         then verificar_o_iniciar_operacion sha s d True w = (Inr (Some RAlreadyQueued), w)
         else \<exists>w'. verificar_o_iniciar_operacion sha s d True w = (Inr None, w')
                \<and> r_item (w_redis w') = r_item (w_redis w)
                \<and> r_idem (w_redis w') (clave sha s d) =
                    Some (Valido (registro sha IProcessing s d JNull None), reloj (w_redis w) + processing_px)"
proof -
  have v: "luego (item_de_cola_sigue_vigente sha (Some i) (compute_payload_hash sha d)) f w =
      f (it_estado it = PENDING \<and> h = compute_payload_hash sha d) w" for f :: "bool \<Rightarrow> veredicto option accion"
    using vigente_calma [OF assms(1,2,7-10)] by (simp add: luego_def)
  show ?thesis
  proof (cases "it_estado it = PENDING \<and> h = compute_payload_hash sha d")
    case True
    have e: "evaluar_registro_existente sha (Some (Valido reg)) (clave sha s d) (compute_payload_hash sha d) w =
        (Inr (Some (Some RAlreadyQueued)), w)"
      using assms v True by (simp add: evaluar_registro_existente_def devuelve_def)
    have "consulta sha s d w = (Inr (Some RAlreadyQueued), w)"
      using assms e by (simp add: consulta_def luego_cmd_calma idem_get_def devuelve_def
          luego_def [of "evaluar_registro_existente sha (Some (Valido reg)) (clave sha s d) (compute_payload_hash sha d)"])
    with True assms(2) show ?thesis by (simp add: verificar_casos)
  next
    case False
    let ?r = "(w_redis w)\<lparr>r_idem := tset (reloj (w_redis w)) processing_px (tdel (r_idem (w_redis w)) (clave sha s d))
        (clave sha s d) (Valido (registro sha IProcessing s d JNull None))\<rparr>"
    have e: "evaluar_registro_existente sha (Some (Valido reg)) (clave sha s d) (compute_payload_hash sha d) w =
        (Inr None, w\<lparr>w_redis := (w_redis w)\<lparr>r_idem := tdel (r_idem (w_redis w)) (clave sha s d)\<rparr>\<rparr>)"
      using assms v False
      by (simp add: evaluar_registro_existente_def luego_cmd_calma idem_del_def devuelve_def)
    have "consulta sha s d w = (Inr None, w\<lparr>w_redis := ?r\<rparr>)"
      using assms e
      by (simp add: consulta_def luego_cmd_calma idem_get_def iniciar_registro_processing_def idem_set_nx_def devuelve_def
          luego_def [of "evaluar_registro_existente sha (Some (Valido reg)) (clave sha s d) (compute_payload_hash sha d)"])
    with False assms(2) show ?thesis by (auto simp: verificar_casos tset_def)
  qed
qed

definition cola_en_vuelo :: redis where
  "cola_en_vuelo = (snd (claim_item_lua 1 ''w'' 60000 cola_ej))\<lparr>r_idem :=
     [clave (\<lambda>t. ''a'') ''A1'' [(''Status'', JStr ''a'')] \<mapsto>
        (Valido (registro (\<lambda>t. ''a'') IQueued ''A1'' [(''Status'', JStr ''a'')] JNull (Some 1)), ttl_ms)]\<rparr>"

lemma registro_encolado_se_contrasta_testigo:
  "fst (verificar_o_iniciar_operacion (\<lambda>t. ''a'') ''A1'' [(''Status'', JStr ''a'')] True (mundo_ej cola_en_vuelo [])) = Inr None
   \<and> 1 \<in> pendientes cola_en_vuelo"
  using registro_encolado_se_contrasta [of "mundo_ej cola_en_vuelo []" "\<lambda>t. ''a''" "''A1''" "[(''Status'', JStr ''a'')]"
      "registro (\<lambda>t. ''a'') IQueued ''A1'' [(''Status'', JStr ''a'')] JNull (Some 1)" 1
      "item_ej\<lparr>it_estado := PROCESSING\<rparr>" "''a''"]
  by (auto simp: mundo_ej_def cola_en_vuelo_def claim_item_lua_def Let_def tget_def ttl_ms_def registro_def compute_payload_hash_def)

end
