(* ===== verification/Errores.thy ===== *)
theory Errores
  imports Idempotencia_Propiedades
begin

text \<open>
  \<^verbatim>\<open>app/core/exceptions.py\<close>: the exception of the SFC and its transient test, the reading of an
  error response, the matching of the error matrix, the classification, and the cache of the
  matrix. \<open>cargar\<close> is \<^verbatim>\<open>json.loads\<close> (\<open>None\<close> for a decoding error) and \<open>py_str\<close> is \<^verbatim>\<open>str\<close> on values
  that are not strings; both are parameters.
\<close>

subsection \<open>The exception\<close>

definition error_types_transitorios :: "string set" where
  "error_types_transitorios =
     {''SERVER_ERROR'', ''SFC_DOWN'', ''TIMEOUT'', ''NETWORK_ERROR'', ''INFRASTRUCTURE_ERROR'',
      ''THROTTLED_ERROR'', ''RATE_LIMIT_ERROR'', ''RESOURCE_EXHAUSTED''}"

definition es_transitoria :: "error_sfc \<Rightarrow> bool" where
  "es_transitoria e =
     (status_code e \<ge> 500 \<or> status_code e \<in> {429, 503} \<or> error_type e \<in> error_types_transitorios)"

text \<open>The only text of a \<^verbatim>\<open>ValidationError\<close> that reaches logs and answers: no rejected value in it.\<close>

definition resumir_validation_error_sin_pii :: "(string list \<times> string) list \<Rightarrow> string" where
  "resumir_validation_error_sin_pii errores =
     (let texto = une ''; '' (map (\<lambda>(loc, msg). une ''.'' loc @ '': '' @ msg) errores)
      in if texto \<noteq> [] then texto
         else ''Error de validaci'' @ con_tilde CHR ''o'' @ ''n sin detalle.'')"

text \<open>\<^verbatim>\<open>str(exc)\<close>; for a \<^verbatim>\<open>ValidationError\<close>, whose text the code never uses, the summary.\<close>

definition str_error_sfc :: "error_sfc \<Rightarrow> string" where
  "str_error_sfc e = ''['' @ error_type e @ ''] '' @ raw_message e"

definition str_exc :: "excepcion \<Rightarrow> string" where
  "str_exc x = (case x of
     ErrorRedis \<Rightarrow> ''ConnectionError'' | ErrorLua \<Rightarrow> ''ResponseError''
   | SfcIntegrationException e \<Rightarrow> str_error_sfc e | HTTPException c s \<Rightarrow> s
   | RuntimeError s \<Rightarrow> s | ValueError s \<Rightarrow> s | KeyError s \<Rightarrow> s | TypeError s \<Rightarrow> s | ErrorRed s \<Rightarrow> s
   | ErrorValidacion errs \<Rightarrow> resumir_validation_error_sin_pii errs)"

subsection \<open>Reading the response\<close>

definition texto_de :: "(json \<Rightarrow> string) \<Rightarrow> json \<Rightarrow> string" where
  "texto_de py_str v = (case v of JStr s \<Rightarrow> s | _ \<Rightarrow> py_str v)"

definition val_str :: "(json \<Rightarrow> string) \<Rightarrow> json \<Rightarrow> string" where
  "val_str py_str v = (case v of JArr (x # _) \<Rightarrow> texto_de py_str x | _ \<Rightarrow> texto_de py_str v)"

definition campos_y_mensajes :: "(json \<Rightarrow> string) \<Rightarrow> dict \<Rightarrow> string list \<times> string list" where
  "campos_y_mensajes py_str m = (map fst m, map (\<lambda>(k, v). k @ '': '' @ val_str py_str v) m)"

definition extraer_informacion_error ::
    "(string \<Rightarrow> json option) \<Rightarrow> (json \<Rightarrow> string) \<Rightarrow> string \<Rightarrow> string option \<times> string" where
  "extraer_informacion_error cargar py_str response_text =
     (case cargar response_text of
        Some (JObj dic) \<Rightarrow>
          (case (if obtener dic ''message'' = JNull then obtener dic ''messages'' else obtener dic ''message'') of
             JObj m \<Rightarrow>
               (case campos_y_mensajes py_str m of (campos, mensajes) \<Rightarrow>
                  (if campos = [] then None else Some (une '', '' campos),
                   if mensajes = [] then response_text else une '' | '' mensajes))
           | JStr s \<Rightarrow> (None, s)
           | _ \<Rightarrow>
               (case map_of dic ''detail'' of
                  Some v \<Rightarrow>
                    if v \<noteq> JStr ''Error APIException'' then (None, texto_de py_str v)
                    else (case campos_y_mensajes py_str (filter (\<lambda>(k, _). k \<notin> {''status_code'', ''detail''}) dic) of
                            (campos, mensajes) \<Rightarrow>
                              if campos = [] then (None, response_text)
                              else (Some (une '', '' campos), une '' | '' mensajes))
                | None \<Rightarrow>
                    (case campos_y_mensajes py_str (filter (\<lambda>(k, _). k \<notin> {''status_code'', ''detail''}) dic) of
                       (campos, mensajes) \<Rightarrow>
                         if campos = [] then (None, response_text)
                         else (Some (une '', '' campos), une '' | '' mensajes))))
      | _ \<Rightarrow> (None, response_text))"

subsection \<open>Matching\<close>

text \<open>The alphabet \<^verbatim>\<open>[a-zA-Z0-9_-]\<close> of \<^verbatim>\<open>Smart_Code__c\<close>.\<close>

definition es_id :: "char \<Rightarrow> bool" where
  "es_id c = (let n = of_char c :: nat in (48 \<le> n \<and> n \<le> 57) \<or> (65 \<le> n \<and> n \<le> 90) \<or> (97 \<le> n \<and> n \<le> 122) \<or> n = 95 \<or> n = 45)"

text \<open>The search of \<^verbatim>\<open>(?<![a-zA-Z0-9_-]) + re.escape(pat) + (?![a-zA-Z0-9_-])\<close>; \<open>previo\<close> tells whether
the character before the text belongs to the alphabet.\<close>

fun busca_anclada :: "bool \<Rightarrow> string \<Rightarrow> string \<Rightarrow> bool" where
  "busca_anclada previo pat [] = (pat = [] \<and> \<not> previo)"
| "busca_anclada previo pat (c # cs) =
     ((\<not> previo \<and> empieza pat (c # cs)
         \<and> (case drop (length pat) (c # cs) of [] \<Rightarrow> True | d # _ \<Rightarrow> \<not> es_id d))
      \<or> busca_anclada (es_id c) pat cs)"

definition coincide :: "string \<Rightarrow> string \<Rightarrow> bool" where
  "coincide subcadena texto =
     (if CHR '' '' \<in> set subcadena then contiene subcadena texto else busca_anclada False subcadena texto)"

record regla =
  subcadena :: string
  tipo :: string
  accion :: string

definition casa_regla :: "string list \<Rightarrow> regla \<Rightarrow> bool" where
  "casa_regla textos_lower r =
     (lower (subcadena r) \<noteq> [] \<and> (\<exists>t \<in> set textos_lower. coincide (lower (subcadena r)) t))"

definition buscar_primera_coincidencia :: "regla list \<Rightarrow> string list \<Rightarrow> regla option" where
  "buscar_primera_coincidencia reglas textos_lower = find (casa_regla textos_lower) reglas"

definition accion_no_mapeada :: string where
  "accion_no_mapeada = ''Error no mapeado por la SFC. Por favor revisar los logs del payload.''"

text \<open>\<^verbatim>\<open>procesar_y_lanzar\<close> without its effects: the exception it raises, and whether it mails that the
error is unknown.\<close>

definition clasificar ::
    "(string \<Rightarrow> json option) \<Rightarrow> (json \<Rightarrow> string) \<Rightarrow> regla list \<Rightarrow> int \<Rightarrow> string \<Rightarrow> error_sfc \<times> bool" where
  "clasificar cargar py_str matriz st response_text =
     (case extraer_informacion_error cargar py_str response_text of (field, raw) \<Rightarrow>
       let textos = [lower raw, lower (texto_o_vacio field), lower response_text];
           not_found = (if contiene ''codigo_queja'' (lower (texto_o_vacio field))
                        then buscar_primera_coincidencia (filter (\<lambda>r. tipo r = ''NOT_FOUND_ERROR'') matriz) textos
                        else None);
           regla = (case not_found of None \<Rightarrow> buscar_primera_coincidencia matriz textos | Some r \<Rightarrow> Some r);
           et = (case regla of None \<Rightarrow> ''UNKNOWN_SFC_ERROR'' | Some r \<Rightarrow> tipo r);
           ac = (case regla of None \<Rightarrow> accion_no_mapeada | Some r \<Rightarrow> accion r)
       in (\<lparr>status_code = st, error_type = et, sfc_field = field, raw_message = raw, crm_action = ac\<rparr>,
           regla = None \<or> et = ''UNKNOWN_SFC_ERROR''))"

definition procesar_y_lanzar ::
    "(string \<Rightarrow> json option) \<Rightarrow> (json \<Rightarrow> string) \<Rightarrow> regla list \<Rightarrow> int \<Rightarrow> string \<Rightarrow> 'a accion" where
  "procesar_y_lanzar cargar py_str matriz st response_text =
     (case clasificar cargar py_str matriz st response_text of (e, desconocido) \<Rightarrow>
        luego (if desconocido then emite (Correo ''error_no_mapeado'' (raw_message e)) else devuelve ())
          (\<lambda>_. lanza (SfcIntegrationException e)))"

subsection \<open>The cache of the matrix\<close>

record cache_matriz =
  matriz :: "regla list"
  ultima_actualizacion :: int
  ultimo_exito :: int

datatype respuesta_hojas = HojaExcepcion | HojaHttp int | HojaFilas "string list list"

definition cache_ttl_ms :: int where
  "cache_ttl_ms = 600000"

definition max_stale_ms :: int where
  "max_stale_ms = 86400000"

definition regla_de_fila :: "string list \<Rightarrow> regla option" where
  "regla_de_fila row =
     (case row of
        [] \<Rightarrow> None
      | a # resto \<Rightarrow>
          if a = [] then None
          else Some \<lparr>subcadena = strip a,
                     tipo = (case resto of b # _ \<Rightarrow> strip b | [] \<Rightarrow> ''UNKNOWN_SFC_ERROR''),
                     accion = (case resto of _ # c # _ \<Rightarrow> strip c | _ \<Rightarrow> ''Revisar logs del payload.'')\<rparr>)"

definition reglas_de_filas :: "string list list \<Rightarrow> regla list" where
  "reglas_de_filas rows = List.map_filter regla_de_fila (drop 1 rows)"

text \<open>The refresh: the new cache if it succeeded, and whether the alert of an old matrix goes out.\<close>

definition refrescar_matriz :: "respuesta_hojas \<Rightarrow> int \<Rightarrow> cache_matriz \<Rightarrow> cache_matriz option \<times> bool" where
  "refrescar_matriz hojas now c =
     (case hojas of
        HojaExcepcion \<Rightarrow> (None, ultimo_exito c > 0 \<and> now - ultimo_exito c > max_stale_ms)
      | HojaHttp n \<Rightarrow> (None, False)
      | HojaFilas rows \<Rightarrow>
          let rs = reglas_de_filas rows in
          if rs = [] then (None, False)
          else (Some \<lparr>matriz = rs, ultima_actualizacion = now, ultimo_exito = now\<rparr>, False))"

definition cargar_matriz_local :: "regla list option \<Rightarrow> int \<Rightarrow> cache_matriz \<Rightarrow> cache_matriz" where
  "cargar_matriz_local local_json now c =
     (case local_json of
        None \<Rightarrow> c\<lparr>matriz := []\<rparr>
      | Some rs \<Rightarrow> c\<lparr>matriz := rs, ultima_actualizacion := now\<rparr>)"

definition matriz_fresca :: "int \<Rightarrow> cache_matriz \<Rightarrow> bool" where
  "matriz_fresca now c = (matriz c \<noteq> [] \<and> ultima_actualizacion c > 0 \<and> now - ultima_actualizacion c < cache_ttl_ms)"

text \<open>\<^verbatim>\<open>obtener_matriz_errores\<close> of one caller that holds the single-flight lock at \<open>now\<close>: the matrix it
returns is the one of the new cache; the last component says that Google was asked.\<close>

definition obtener_matriz_errores ::
    "bool \<Rightarrow> respuesta_hojas \<Rightarrow> regla list option \<Rightarrow> int \<Rightarrow> cache_matriz \<Rightarrow> cache_matriz \<times> bool \<times> bool" where
  "obtener_matriz_errores hay_planilla hojas local_json now c =
     (if matriz_fresca now c then (c, False, False)
      else case (if hay_planilla then refrescar_matriz hojas now c else (None, False)) of
        (Some c', alerta) \<Rightarrow> (c', alerta, True)
      | (None, alerta) \<Rightarrow>
          let c1 = (if matriz c = [] then cargar_matriz_local local_json now c else c)
          in (c1\<lparr>ultima_actualizacion := now\<rparr>, alerta, hay_planilla))"

subsection \<open>Whole words\<close>

definition ocurre :: "string \<Rightarrow> string \<Rightarrow> bool" where
  "ocurre p s = (\<exists>a b. s = a @ p @ b \<and> (a = [] \<or> \<not> es_id (last a)) \<and> (b = [] \<or> \<not> es_id (hd b)))"

lemma busca_anclada_iff:
  "busca_anclada previo p s \<longleftrightarrow>
     (\<exists>a b. s = a @ p @ b \<and> (if a = [] then \<not> previo else \<not> es_id (last a)) \<and> (b = [] \<or> \<not> es_id (hd b)))"
proof (induction previo p s rule: busca_anclada.induct)
  case (1 previo pat)
  then show ?case by auto
next
  case (2 previo pat c cs)
  have ini: "(\<not> previo \<and> empieza pat (c # cs)
         \<and> (case drop (length pat) (c # cs) of [] \<Rightarrow> True | d # _ \<Rightarrow> \<not> es_id d))
      \<longleftrightarrow> (\<not> previo \<and> (\<exists>b. c # cs = pat @ b \<and> (b = [] \<or> \<not> es_id (hd b))))"
  proof (cases "empieza pat (c # cs)")
    case True
    then obtain t where t: "c # cs = pat @ t" by (auto simp: empieza_iff)
    then have "drop (length pat) (c # cs) = t" by simp
    moreover have "(\<exists>b. c # cs = pat @ b \<and> (b = [] \<or> \<not> es_id (hd b))) \<longleftrightarrow> t = [] \<or> \<not> es_id (hd t)"
      using t by auto
    ultimately show ?thesis using True by (cases t) simp_all
  qed (auto simp: empieza_iff)
  have resto: "(\<exists>a b. cs = a @ pat @ b \<and> (if a = [] then \<not> es_id c else \<not> es_id (last a)) \<and> (b = [] \<or> \<not> es_id (hd b)))
      \<longleftrightarrow> (\<exists>a b. c # cs = (c # a) @ pat @ b \<and> \<not> es_id (last (c # a)) \<and> (b = [] \<or> \<not> es_id (hd b)))"
    by (metis (no_types, lifting) append_Cons last.simps list.inject)
  have casos: "(\<exists>a b. c # cs = a @ pat @ b \<and> (if a = [] then \<not> previo else \<not> es_id (last a)) \<and> (b = [] \<or> \<not> es_id (hd b)))
      \<longleftrightarrow> (\<not> previo \<and> (\<exists>b. c # cs = pat @ b \<and> (b = [] \<or> \<not> es_id (hd b))))
        \<or> (\<exists>a b. c # cs = (c # a) @ pat @ b \<and> \<not> es_id (last (c # a)) \<and> (b = [] \<or> \<not> es_id (hd b)))"
    (is "?L \<longleftrightarrow> ?A \<or> ?B")
  proof
    assume ?L
    then obtain a b where ab: "c # cs = a @ pat @ b" "if a = [] then \<not> previo else \<not> es_id (last a)" "b = [] \<or> \<not> es_id (hd b)"
      by blast
    show "?A \<or> ?B"
    proof (cases a)
      case Nil
      with ab(1,2) have "\<not> previo" "c # cs = pat @ b" by simp_all
      with ab(3) have ?A by blast
      then show ?thesis ..
    next
      case (Cons d a')
      with ab(1) have "d = c" by simp
      with Cons ab(1,2) have "c # cs = (c # a') @ pat @ b" "\<not> es_id (last (c # a'))" by simp_all
      with ab(3) have ?B by blast
      then show ?thesis ..
    qed
  next
    assume "?A \<or> ?B"
    then show ?L
    proof
      assume ?A
      then obtain b where "\<not> previo" "c # cs = pat @ b" "b = [] \<or> \<not> es_id (hd b)" by blast
      then show ?L by (intro exI [of _ "[]"] exI [of _ b]) simp
    next
      assume ?B
      then obtain a b where "c # cs = (c # a) @ pat @ b" "\<not> es_id (last (c # a))" "b = [] \<or> \<not> es_id (hd b)" by blast
      then show ?L by (intro exI [of _ "c # a"] exI [of _ b]) simp
    qed
  qed
  show ?case
    using 2 ini resto casos by (simp only: busca_anclada.simps)
qed

lemma busca_ocurre: "busca_anclada False p s \<longleftrightarrow> ocurre p s"
  unfolding busca_anclada_iff ocurre_def by (intro ex_cong1) auto

text \<open>The words of a text: its maximal runs of characters of the alphabet.\<close>

fun palabras_desde :: "string \<Rightarrow> string \<Rightarrow> string list" where
  "palabras_desde ac [] = (if ac = [] then [] else [rev ac])"
| "palabras_desde ac (c # cs) =
     (if es_id c then palabras_desde (c # ac) cs
      else if ac = [] then palabras_desde [] cs else rev ac # palabras_desde [] cs)"

definition palabras :: "string \<Rightarrow> string list" where
  "palabras s = palabras_desde [] s"

lemma ocurre_entera:
  assumes "list_all es_id u" "p \<noteq> []"
  shows "ocurre p u \<longleftrightarrow> p = u"
proof
  assume "ocurre p u"
  then obtain a b where u: "u = a @ p @ b" "a = [] \<or> \<not> es_id (last a)" "b = [] \<or> \<not> es_id (hd b)"
    by (auto simp: ocurre_def)
  have "a = []" using assms(1) u by (cases a rule: rev_cases) auto
  moreover have "b = []" using assms(1) u by (cases b) auto
  ultimately show "p = u" using u by simp
next
  assume "p = u"
  then show "ocurre p u" unfolding ocurre_def by (intro exI [of _ "[]"]) simp
qed

lemma ocurre_separada:
  assumes c: "\<not> es_id c" and p: "list_all es_id p" "p \<noteq> []"
  shows "ocurre p (u @ c # v) \<longleftrightarrow> ocurre p u \<or> ocurre p v"
proof
  assume "ocurre p (u @ c # v)"
  then obtain a b where ab: "u @ c # v = a @ p @ b" "a = [] \<or> \<not> es_id (last a)" "b = [] \<or> \<not> es_id (hd b)"
    by (auto simp: ocurre_def)
  have cp: "c \<notin> set p" using c p(1) by (auto simp: list_all_iff)
  have "(\<exists>z. u = a @ z \<and> z @ c # v = p @ b) \<or> (\<exists>z. a = u @ z \<and> c # v = z @ p @ b)"
    using ab(1) by (metis append_eq_append_conv2)
  then consider (izq) z where "a = u @ c # z" "v = z @ p @ b" | (der) z where "u = a @ z" "z @ c # v = p @ b"
  proof
    assume "\<exists>z. u = a @ z \<and> z @ c # v = p @ b"
    then show thesis using that(2) by blast
  next
    assume "\<exists>z. a = u @ z \<and> c # v = z @ p @ b"
    then obtain z where z: "a = u @ z" "c # v = z @ p @ b" by blast
    show thesis
    proof (cases z)
      case Nil
      with z cp p(2) show thesis by (cases p) auto
    next
      case (Cons d y)
      with z that(1) show thesis by simp
    qed
  qed
  then show "ocurre p u \<or> ocurre p v"
  proof cases
    case izq
    with ab c have "ocurre p v" unfolding ocurre_def
      by (intro exI [of _ z] exI [of _ b]) (auto split: if_splits)
    then show ?thesis ..
  next
    case der
    from der(2) obtain y where y: "z = p @ y" "y @ c # v = b"
      using cp p(2) by (auto simp: append_eq_append_conv2 append_eq_Cons_conv Cons_eq_append_conv)
    with ab(2,3) der(1) have "ocurre p u" unfolding ocurre_def
      by (intro exI [of _ a] exI [of _ y]) (cases y; auto)
    then show ?thesis ..
  qed
next
  assume "ocurre p u \<or> ocurre p v"
  then show "ocurre p (u @ c # v)"
  proof
    assume "ocurre p u"
    then obtain a b where "u = a @ p @ b" "a = [] \<or> \<not> es_id (last a)" "b = [] \<or> \<not> es_id (hd b)"
      by (auto simp: ocurre_def)
    then show ?thesis unfolding ocurre_def
      by (intro exI [of _ a] exI [of _ "b @ c # v"]) (use c in \<open>cases b; auto\<close>)
  next
    assume "ocurre p v"
    then obtain a b where "v = a @ p @ b" "a = [] \<or> \<not> es_id (last a)" "b = [] \<or> \<not> es_id (hd b)"
      by (auto simp: ocurre_def)
    then show ?thesis unfolding ocurre_def
      by (intro exI [of _ "u @ c # a"] exI [of _ b]) (use c in auto)
  qed
qed

lemma palabras_desde_iff:
  assumes "list_all es_id p" "p \<noteq> []" "list_all es_id ac"
  shows "p \<in> set (palabras_desde ac s) \<longleftrightarrow> ocurre p (rev ac @ s)"
  using assms(3)
proof (induction ac s rule: palabras_desde.induct)
  case (1 ac)
  then show ?case using ocurre_entera [of "rev ac" p] assms(2) by (auto simp: ocurre_def)
next
  case (2 ac c cs)
  show ?case
  proof (cases "es_id c")
    case True
    with 2 show ?thesis by simp
  next
    case False
    have "ocurre p (rev ac @ c # cs) \<longleftrightarrow> ocurre p (rev ac) \<or> ocurre p cs"
      using ocurre_separada [OF False assms(1,2)] .
    moreover have "ocurre p (rev ac) \<longleftrightarrow> p = rev ac" using ocurre_entera assms(2) "2.prems" by simp
    ultimately show ?thesis using False 2 assms(2) by auto
  qed
qed

lemma coincide_palabra:
  assumes "list_all es_id p" "p \<noteq> []"
  shows "coincide p s \<longleftrightarrow> p \<in> set (palabras s)"
proof -
  have "\<not> es_id (CHR '' '')" by (simp add: es_id_def)
  then have "CHR '' '' \<notin> set p" using assms(1) by (auto simp: list_all_iff)
  then show ?thesis
    using palabras_desde_iff [OF assms, of "[]" s] by (simp add: coincide_def busca_ocurre palabras_def)
qed

subsection \<open>Properties\<close>

text \<open>
  C17. A rule of one token never fires inside a longer identifier: for a non-empty rule over the
  alphabet of \<^verbatim>\<open>Smart_Code__c\<close>, the match holds exactly when the rule is one of the whole words of the
  text, so no case code that merely contains the token can change the classification of an error.
\<close>

theorem regla_de_un_token_es_palabra_completa:
  assumes "subcadena r = p" "list_all es_id (lower p)" "p \<noteq> []"
  shows "casa_regla textos r \<longleftrightarrow> (\<exists>t \<in> set textos. lower p \<in> set (palabras t))"
proof -
  have "lower p \<noteq> []" using assms(3) by (simp add: lower_def)
  with assms show ?thesis by (simp add: casa_regla_def coincide_palabra)
qed

lemma regla_de_un_token_es_palabra_completa_testigo:
  "\<not> casa_regla [''error del caso sc-556240-01''] \<lparr>subcadena = ''556240'', tipo = ''DUPLICATE_FILE'', accion = []\<rparr>
   \<and> casa_regla [''error (556240): ya existe''] \<lparr>subcadena = ''556240'', tipo = ''DUPLICATE_FILE'', accion = []\<rparr>"
  using regla_de_un_token_es_palabra_completa [of "\<lparr>subcadena = ''556240'', tipo = ''DUPLICATE_FILE'', accion = []\<rparr>" "''556240''"]
  by (simp add: lower_def minuscula_def es_id_def palabras_def)

lemma contiene_append: "contiene p s \<Longrightarrow> contiene p (a @ s)"
  unfolding contiene_iff by (metis append.assoc)

lemma primera_en_filtro:
  "r \<in> set m \<Longrightarrow> P r \<Longrightarrow> casa_regla ts r \<Longrightarrow>
   \<exists>r'. buscar_primera_coincidencia (filter P m) ts = Some r' \<and> P r'"
  by (induction m) (auto simp: buscar_primera_coincidencia_def)

lemma extraer_un_campo:
  assumes "cargar t = Some (JObj dic)"
    and "dic = [(campo, JArr [JStr m])] \<and> campo \<notin> {''message'', ''messages'', ''status_code'', ''detail''}
       \<or> obtener dic ''message'' = JNull \<and> obtener dic ''messages'' = JObj [(campo, JArr [JStr m])]"
  shows "extraer_informacion_error cargar py_str t = (Some campo, campo @ '': '' @ m)"
  using assms
  by (auto simp: extraer_informacion_error_def campos_y_mensajes_def val_str_def texto_de_def obtener_def)

text \<open>
  An unknown case is recognised as such, in both shapes of the error of the SFC (the standard
  envelope with \<^verbatim>\<open>messages\<close> and the flat one), for every message that says so and every position of the
  rules: when the field is \<^verbatim>\<open>codigo_queja\<close> and the matrix has a NOT_FOUND_ERROR rule for the phrase,
  the error is NOT_FOUND_ERROR even if an earlier rule (\<^verbatim>\<open>codigo_queja\<close>, ALREADY_EXISTS) matches
  too; for any other field the first matching rule of the matrix decides.
\<close>

theorem queja_inexistente_se_reconoce:
  assumes "cargar t = Some (JObj dic)"
    and "dic = [(campo, JArr [JStr m])] \<and> campo \<notin> {''message'', ''messages'', ''status_code'', ''detail''}
       \<or> obtener dic ''message'' = JNull \<and> obtener dic ''messages'' = JObj [(campo, JArr [JStr m])]"
    and "r \<in> set mz" "tipo r = ''NOT_FOUND_ERROR''" "contiene (lower (subcadena r)) (lower m)"
      "CHR '' '' \<in> set (lower (subcadena r))"
  shows "if contiene ''codigo_queja'' (lower campo)
         then error_type (fst (clasificar cargar py_str mz st t)) = ''NOT_FOUND_ERROR''
         else \<exists>r1. buscar_primera_coincidencia mz [lower (campo @ '': '' @ m), lower campo, lower t] = Some r1
                \<and> error_type (fst (clasificar cargar py_str mz st t)) = tipo r1"
proof -
  have x: "extraer_informacion_error cargar py_str t = (Some campo, campo @ '': '' @ m)"
    using assms(1,2) by (rule extraer_un_campo)
  let ?ts = "[lower (campo @ '': '' @ m), lower campo, lower t]"
  have "contiene (lower (subcadena r)) (lower (campo @ '': '' @ m))"
    using contiene_append [OF assms(5), of "lower (campo @ '': '')"] by (simp add: lower_def)
  then have casa: "casa_regla ?ts r"
    using assms(6) by (auto simp: casa_regla_def coincide_def)
  obtain r1 where r1: "buscar_primera_coincidencia (filter (\<lambda>r. tipo r = ''NOT_FOUND_ERROR'') mz) ?ts = Some r1"
      "tipo r1 = ''NOT_FOUND_ERROR''"
    using primera_en_filtro [of r mz "\<lambda>r. tipo r = ''NOT_FOUND_ERROR''" ?ts] assms(3,4) casa by blast
  obtain r2 where r2: "buscar_primera_coincidencia (filter (\<lambda>r. True) mz) ?ts = Some r2"
    using primera_en_filtro [of r mz "\<lambda>r. True" ?ts] assms(3) casa by blast
  show ?thesis using r1 r2 by (simp add: clasificar_def x Let_def texto_o_vacio_def)
qed

definition matriz_ej :: "regla list" where
  "matriz_ej = [\<lparr>subcadena = ''codigo_queja'', tipo = ''ALREADY_EXISTS'', accion = []\<rparr>,
                \<lparr>subcadena = ''does not exist'', tipo = ''NOT_FOUND_ERROR'', accion = []\<rparr>]"

lemma queja_inexistente_se_reconoce_testigo:
  "error_type (fst (clasificar
      (\<lambda>t. Some (JObj [(''codigo_queja'', JArr [JStr ''Object with codigo_queja=X does not exist.''])]))
      (\<lambda>j. []) matriz_ej 400 ''...'')) = ''NOT_FOUND_ERROR''"
  using queja_inexistente_se_reconoce [of
      "\<lambda>t. Some (JObj [(''codigo_queja'', JArr [JStr ''Object with codigo_queja=X does not exist.''])])" "''...''"
      "[(''codigo_queja'', JArr [JStr ''Object with codigo_queja=X does not exist.''])]" "''codigo_queja''"
      "''Object with codigo_queja=X does not exist.''" "\<lparr>subcadena = ''does not exist'', tipo = ''NOT_FOUND_ERROR'', accion = []\<rparr>"
      matriz_ej "\<lambda>j. []" 400]
  by (simp add: matriz_ej_def lower_def minuscula_def)

text \<open>
  The cache of the error matrix: a matrix once loaded is never lost, whatever Google or the local
  file answer; Google is asked only when the copy is empty or older than ten minutes; after a call at
  \<open>now\<close> every caller of the next ten minutes gets the same copy without asking again (those that were
  waiting for the lock included); and the alert goes out only when the last success is older than a day.
\<close>

theorem cache_de_la_matriz:
  assumes "obtener_matriz_errores hay hojas loc now c = (c', alerta, pregunta)" "0 < now"
  shows "(matriz c \<noteq> [] \<longrightarrow> matriz c' \<noteq> [])
    \<and> (pregunta \<longrightarrow> matriz c = [] \<or> ultima_actualizacion c \<le> 0 \<or> cache_ttl_ms \<le> now - ultima_actualizacion c)
    \<and> (matriz c' \<noteq> [] \<longrightarrow> (\<forall>t hay' hojas' loc'. now \<le> t \<and> t < ultima_actualizacion c' + cache_ttl_ms
         \<longrightarrow> obtener_matriz_errores hay' hojas' loc' t c' = (c', False, False)))
    \<and> (\<not> matriz_fresca now c \<longrightarrow> ultima_actualizacion c' = now)
    \<and> (alerta \<longrightarrow> max_stale_ms < now - ultimo_exito c)"
  using assms
  by (auto simp: obtener_matriz_errores_def refrescar_matriz_def cargar_matriz_local_def matriz_fresca_def Let_def
      cache_ttl_ms_def split: if_splits option.splits respuesta_hojas.splits)

lemma cache_de_la_matriz_testigo:
  "let c' = fst (obtener_matriz_errores True HojaExcepcion None 1000 \<lparr>matriz = matriz_ej, ultima_actualizacion = 0, ultimo_exito = 0\<rparr>)
   in matriz c' \<noteq> []"
  using cache_de_la_matriz [of True HojaExcepcion None 1000 "\<lparr>matriz = matriz_ej, ultima_actualizacion = 0, ultimo_exito = 0\<rparr>"
      "\<lparr>matriz = matriz_ej, ultima_actualizacion = 1000, ultimo_exito = 0\<rparr>" False True]
  by (simp add: obtener_matriz_errores_def refrescar_matriz_def matriz_fresca_def matriz_ej_def)

end
