(* ===== verification/Orquestador.thy ===== *)
theory Orquestador
  imports Errores "HOL-Library.AList"
begin

text \<open>
  \<^verbatim>\<open>app/services/despacho_queja_orchestrator.py\<close>: from a complaint payload to the calls of Momento 2
  and Momento 3. The two services are injected into the class (\<^verbatim>\<open>m2_service\<close>, \<^verbatim>\<open>m3_service\<close>): here they
  are the fields of \<open>servicios\<close>, with the S3 listing of \<^verbatim>\<open>m3_service.s3_service\<close> and the Pydantic
  validation of the queued payload. The properties hold for every answer that they may give.
\<close>

record servicios =
  sv_m2 :: "dict \<Rightarrow> dict accion"
  sv_fraude :: "dict \<Rightarrow> dict accion"
  sv_cierre :: "dict \<Rightarrow> dict accion"
  sv_tramite :: "dict \<Rightarrow> dict accion"
  sv_listar :: "string \<Rightarrow> string \<Rightarrow> json list accion"
  sv_validar :: "dict \<Rightarrow> dict accion"

subsection \<open>Small readings of the payload\<close>

definition texto_en :: "dict \<Rightarrow> string \<Rightarrow> string" where
  "texto_en d k = texto_o_vacio (texto_opcional (obtener d k))"

definition archivos_s3 :: "dict \<Rightarrow> json list" where
  "archivos_s3 d = (case obtener d ''archivos_s3'' of JArr xs \<Rightarrow> xs | _ \<Rightarrow> [])"

definition smart_code_de :: "dict \<Rightarrow> string" where
  "smart_code_de d = texto_en d ''Smart_Code__c''"

definition estado_de :: "dict \<Rightarrow> string" where
  "estado_de d = texto_en d ''status''"

definition caso_s3_de :: "dict \<Rightarrow> string" where
  "caso_s3_de d = (if texto_en d ''Case_id'' \<noteq> [] then texto_en d ''Case_id'' else smart_code_de d)"

subsection \<open>A case that the SFC has already closed\<close>

definition frases_ya_cerrada :: "string list" where
  "frases_ya_cerrada =
     [''ya cuenta con un documento de respuesta final'',
      ''la queja se encuentra con estado cerrado'',
      ''no se puede actualizar el anexo debido a que la queja se encuentra cerrada'',
      ''queja ya esta cerrada'',
      ''already closed'']"

definition texto_del_error :: "excepcion \<Rightarrow> string" where
  "texto_del_error x =
     (case x of
        SfcIntegrationException e \<Rightarrow> if raw_message e \<noteq> [] then raw_message e else str_exc x
      | _ \<Rightarrow> str_exc x)"

definition es_error_caso_ya_cerrado :: "excepcion \<Rightarrow> bool" where
  "es_error_caso_ya_cerrado x = (\<exists>f \<in> set frases_ya_cerrada. contiene f (lower (texto_del_error x)))"

definition resultado_por_cierre_confirmado :: "string \<Rightarrow> bool \<Rightarrow> dict" where
  "resultado_por_cierre_confirmado smart_code es_cierre =
     (if es_cierre
      then [(''status'', JStr ''success''),
            (''message'', JStr (''Caso '' @ smart_code @ '' ya se encuentra cerrado en la SFC (Estado 4).'')),
            (''codigo_queja_sfc'', JStr smart_code)]
      else [(''status'', JStr ''noop''),
            (''message'', JStr (''La actualizaci'' @ con_tilde CHR ''o'' @ ''n de tr'' @ con_tilde CHR ''a''
               @ ''mite para el caso '' @ smart_code @ '' no se aplic'' @ con_tilde CHR ''o''
               @ '': la SFC reporta que el caso ya se encuentra cerrado (Estado 4).'')),
            (''codigo_queja_sfc'', JStr smart_code)])"

text \<open>\<^verbatim>\<open>except SfcIntegrationException\<close>: the other exceptions go through.\<close>

definition intenta_sfc :: "'a accion \<Rightarrow> (error_sfc \<Rightarrow> 'a accion) \<Rightarrow> 'a accion" where
  "intenta_sfc m h = intenta m (\<lambda>x. case x of SfcIntegrationException e \<Rightarrow> h e | _ \<Rightarrow> lanza x)"

definition ejecutar_paso_o_exito_si_ya_cerrado :: "dict accion \<Rightarrow> string \<Rightarrow> bool \<Rightarrow> dict accion" where
  "ejecutar_paso_o_exito_si_ya_cerrado paso smart_code es_cierre =
     intenta_sfc paso (\<lambda>e.
       if es_error_caso_ya_cerrado (SfcIntegrationException e)
       then devuelve (resultado_por_cierre_confirmado smart_code es_cierre)
       else lanza (SfcIntegrationException e))"

definition limpiar_checkpoint_si_cierre_exitoso :: "dict \<Rightarrow> string \<Rightarrow> bool \<Rightarrow> bool \<Rightarrow> dict accion" where
  "limpiar_checkpoint_si_cierre_exitoso resultado smart_code es_cierre limpiar_en_exito =
     (if \<not> limpiar_en_exito then devuelve resultado
      else if es_cierre \<and> estado_de resultado = ''success''
      then luego (intenta (limpiar_checkpoint_archivos smart_code) (\<lambda>e. devuelve ()))
             (\<lambda>_. devuelve resultado)
      else devuelve resultado)"

subsection \<open>The steps of Momento 3\<close>

definition ejecutar_pasos_momento_3 :: "servicios \<Rightarrow> dict \<Rightarrow> bool \<Rightarrow> bool \<Rightarrow> dict accion" where
  "ejecutar_pasos_momento_3 sv p es_fraude es_cierre =
     (let cierre = ejecutar_paso_o_exito_si_ya_cerrado (sv_cierre sv p) (smart_code_de p) True;
          tramite = ejecutar_paso_o_exito_si_ya_cerrado (sv_tramite sv p) (smart_code_de p) False
      in if es_fraude then
           luego (intenta_sfc (luego (sv_fraude sv p) (\<lambda>r. devuelve (Some r)))
                    (\<lambda>e. if es_cierre \<and> es_error_caso_ya_cerrado (SfcIntegrationException e)
                         then devuelve None else lanza (SfcIntegrationException e)))
             (\<lambda>res. case res of
                Some r \<Rightarrow> if estado_de r = ''error'' then devuelve r
                          else if es_cierre then cierre else devuelve r
              | None \<Rightarrow> cierre)
         else if es_cierre then cierre
         else tramite)"

subsection \<open>The dispatch\<close>

text \<open>\<^verbatim>\<open>ArchivoS3Schema(**a)\<close> is applied by the listing itself, which builds the three keys of each entry.\<close>

definition con_listado :: "servicios \<Rightarrow> dict \<Rightarrow> dict accion" where
  "con_listado sv p =
     (if texto_en p ''directorio_s3'' \<noteq> [] \<and> archivos_s3 p = [] then
        luego (sv_listar sv (texto_en p ''directorio_s3'') (caso_s3_de p)) (\<lambda>remotos.
          devuelve (if remotos \<noteq> [] then AList.update ''archivos_s3'' (JArr remotos) p else p))
      else devuelve p)"

definition tiene_campos_m3 :: "dict \<Rightarrow> bool" where
  "tiene_campos_m3 p =
     (obtener p ''sc_genero__c'' \<noteq> JNull \<or> obtener p ''sc_LGBTIQ__c'' \<noteq> JNull
      \<or> obtener p ''sc_Condicion_especial__c'' \<noteq> JNull \<or> obtener p ''producto_digital__c'' \<noteq> JNull
      \<or> obtener p ''admision_col__c'' \<noteq> JStr ''No Aplica'')"

definition fraude_sin_soportes :: error_sfc where
  "fraude_sin_soportes =
     \<lparr>status_code = 400, error_type = ''CRM_PAYLOAD_VALIDATION_ERROR'', sfc_field = Some ''archivos_s3'',
      raw_message = ''No se encontraron documentos de investigaci'' @ con_tilde CHR ''o'' @ ''n de fraude (INV_FRAUDE_SFC) en S3.'',
      crm_action = ''Aseg'' @ con_tilde CHR ''u'' @ ''rese de cargar los documentos de soporte de la investigaci'' @ con_tilde CHR ''o''
        @ ''n de fraude en S3 antes de enviar el caso.''\<rparr>"

definition es_caso_no_encontrado :: "error_sfc \<Rightarrow> bool" where
  "es_caso_no_encontrado e = (status_code e = 404 \<or> error_type e = ''NOT_FOUND_ERROR'')"

definition sin_adjuntos :: "dict \<Rightarrow> dict" where
  "sin_adjuntos p = AList.update ''directorio_s3'' JNull (AList.update ''archivos_s3'' (JArr []) p)"

definition despacho_clasificado :: "servicios \<Rightarrow> dict \<Rightarrow> bool \<Rightarrow> dict accion" where
  "despacho_clasificado sv p limpiar_en_exito =
     (let es_cierre = es_cierre_de p; es_fraude = es_fraude_de p;
          es_m2_puro = status_nuevo p \<and> \<not> tiene_campos_m3 p \<and> \<not> es_fraude \<and> \<not> es_cierre;
          momento_3 = luego (ejecutar_pasos_momento_3 sv p es_fraude es_cierre)
                        (\<lambda>r. limpiar_checkpoint_si_cierre_exitoso r (smart_code_de p) es_cierre limpiar_en_exito)
      in if es_fraude \<and> archivos_s3 p = [] then lanza (SfcIntegrationException fraude_sin_soportes)
         else intenta_sfc (if es_m2_puro then sv_m2 sv p else momento_3)
           (\<lambda>e. if es_caso_no_encontrado e then
                   luego (sv_m2 sv (sin_adjuntos p)) (\<lambda>res_m2.
                     if estado_de res_m2 \<noteq> ''success'' then devuelve res_m2 else momento_3)
                 else lanza (SfcIntegrationException e)))"

definition procesar_despacho :: "servicios \<Rightarrow> dict \<Rightarrow> bool \<Rightarrow> dict accion" where
  "procesar_despacho sv payload limpiar_en_exito =
     luego (con_listado sv payload) (\<lambda>p. despacho_clasificado sv p limpiar_en_exito)"

definition redis_payload_invalido :: "string \<Rightarrow> error_sfc" where
  "redis_payload_invalido resumen =
     \<lparr>status_code = 500, error_type = ''REDIS_PAYLOAD_INVALIDO'', sfc_field = None,
      raw_message = ''Estructura inv'' @ con_tilde CHR ''a'' @ ''lida en el payload rehidratado de Redis: '' @ resumen,
      crm_action = ''Contactar al equipo de infraestructura: un '' @ con_tilde CHR ''i'' @ ''tem de la cola qued'' @ con_tilde CHR ''o''
        @ '' con datos corruptos/incompletos.''\<rparr>"

definition procesar_despacho_raw_json :: "servicios \<Rightarrow> dict \<Rightarrow> bool \<Rightarrow> dict accion" where
  "procesar_despacho_raw_json sv payload_dict limpiar_en_exito =
     intenta (luego (sv_validar sv payload_dict) (\<lambda>p. procesar_despacho sv p limpiar_en_exito))
       (\<lambda>x. case x of
          ErrorValidacion errs \<Rightarrow>
            lanza (SfcIntegrationException (redis_payload_invalido (resumir_validation_error_sin_pii errs)))
        | _ \<Rightarrow> lanza x)"

subsection \<open>The calls of a dispatch\<close>

text \<open>The calls that a log shows. \<open>anotados\<close>: the services with their calls written in the log; \<open>mudos\<close>: whatever else they
write there (requests, mails, metrics) is no call of a service.\<close>

definition es_llamada :: "evento \<Rightarrow> bool" where
  "es_llamada ev = (case ev of LlamadaSFC _ _ \<Rightarrow> True | _ \<Rightarrow> False)"

definition llamadas :: "evento list \<Rightarrow> evento list" where
  "llamadas t = filter es_llamada t"

lemma llamadas_simps [simp]:
  "llamadas [] = []" "llamadas (s @ t) = llamadas s @ llamadas t" "llamadas [LlamadaSFC n p] = [LlamadaSFC n p]"
  by (simp_all add: llamadas_def es_llamada_def)

definition reservada :: "'a accion \<Rightarrow> bool" where
  "reservada m = deja m (\<lambda>x t. llamadas t = [])"

lemma reservada_callada: "callada m \<Longrightarrow> reservada m"
  unfolding callada_def reservada_def by (erule deja_mas) simp

definition anota :: "string \<Rightarrow> (dict \<Rightarrow> dict accion) \<Rightarrow> dict \<Rightarrow> dict accion" where
  "anota n f p = luego (emite (LlamadaSFC n p)) (\<lambda>_. f p)"

definition anotados :: "servicios \<Rightarrow> servicios" where
  "anotados sv = sv\<lparr>sv_m2 := anota ''M2'' (sv_m2 sv), sv_fraude := anota ''FRAUDE'' (sv_fraude sv),
     sv_cierre := anota ''CIERRE'' (sv_cierre sv), sv_tramite := anota ''TRAMITE'' (sv_tramite sv)\<rparr>"

definition mudos :: "servicios \<Rightarrow> bool" where
  "mudos sv = ((\<forall>p. reservada (sv_m2 sv p) \<and> reservada (sv_fraude sv p) \<and> reservada (sv_cierre sv p)
                    \<and> reservada (sv_tramite sv p)) \<and> (\<forall>a b. reservada (sv_listar sv a b)))"

text \<open>The steps of Momento 3 that a category asks for, and the part of them that a failure leaves done.\<close>

definition pasos_completos :: "dict \<Rightarrow> bool \<Rightarrow> bool \<Rightarrow> evento list" where
  "pasos_completos p es_fraude es_cierre =
     (if es_fraude then [LlamadaSFC ''FRAUDE'' p] else []) @ (if es_cierre then [LlamadaSFC ''CIERRE'' p] else [])
     @ (if \<not> es_fraude \<and> \<not> es_cierre then [LlamadaSFC ''TRAMITE'' p] else [])"

definition pasos_parciales :: "dict \<Rightarrow> bool \<Rightarrow> bool \<Rightarrow> evento list set" where
  "pasos_parciales p es_fraude es_cierre = {pasos_completos p es_fraude es_cierre, [hd (pasos_completos p es_fraude es_cierre)]}"

lemma deja_anota: "reservada (f p) \<Longrightarrow> deja (anota n f p) (\<lambda>x t. llamadas t = [LlamadaSFC n p])"
  unfolding anota_def
  by (rule deja_luego [where P = "\<lambda>x t. llamadas t = [LlamadaSFC n p]"])
    (auto simp: reservada_def intro: deja_emite elim: deja_mas)

lemma callada_limpiar: "callada (limpiar_checkpoint_si_cierre_exitoso r s c l)"
  unfolding limpiar_checkpoint_si_cierre_exitoso_def limpiar_checkpoint_archivos_def
  by (auto intro!: calladas)

lemma limpiar_resultado:
  "deja (limpiar_checkpoint_si_cierre_exitoso r s c l) (\<lambda>x t. t = [] \<and> (\<forall>y. x = Inr y \<longrightarrow> y = r))"
proof -
  have "callada (intenta (limpiar_checkpoint_archivos s) (\<lambda>e. devuelve ()))"
    unfolding limpiar_checkpoint_archivos_def by (auto intro!: calladas)
  then show ?thesis
    unfolding limpiar_checkpoint_si_cierre_exitoso_def callada_def
    by (auto intro!: deja_devuelve elim!: deja_luego)
qed

lemma deja_paso:
  assumes "reservada (f p)"
  shows "deja (ejecutar_paso_o_exito_si_ya_cerrado (anota n f p) s c) (\<lambda>x t. llamadas t = [LlamadaSFC n p])"
  unfolding ejecutar_paso_o_exito_si_ya_cerrado_def intenta_sfc_def
  by (rule deja_intenta, rule deja_anota, rule assms) (auto intro!: deja_devuelve deja_lanza split: excepcion.split)

text \<open>Momento 3: the first step is always sent; a result other than \<^verbatim>\<open>error\<close> means that all were.\<close>

lemma deja_pasos:
  assumes "mudos sv"
  shows "deja (ejecutar_pasos_momento_3 (anotados sv) p f c)
    (\<lambda>x t. llamadas t \<in> pasos_parciales p f c
       \<and> (\<forall>r. x = Inr r \<longrightarrow> estado_de r \<noteq> ''error'' \<longrightarrow> llamadas t = pasos_completos p f c))"
proof -
  have F: "deja (anota ''FRAUDE'' (sv_fraude sv) p) (\<lambda>x t. llamadas t = [LlamadaSFC ''FRAUDE'' p])"
    by (rule deja_anota) (use assms in \<open>simp add: mudos_def\<close>)
  have C: "deja (ejecutar_paso_o_exito_si_ya_cerrado (anota ''CIERRE'' (sv_cierre sv) p) s True)
      (\<lambda>x t. llamadas t = [LlamadaSFC ''CIERRE'' p])" for s
    by (rule deja_paso) (use assms in \<open>simp add: mudos_def\<close>)
  have T: "deja (ejecutar_paso_o_exito_si_ya_cerrado (anota ''TRAMITE'' (sv_tramite sv) p) s False)
      (\<lambda>x t. llamadas t = [LlamadaSFC ''TRAMITE'' p])" for s
    by (rule deja_paso) (use assms in \<open>simp add: mudos_def\<close>)
  have F': "deja (intenta_sfc (luego (anota ''FRAUDE'' (sv_fraude sv) p) (\<lambda>r. devuelve (Some r)))
      (\<lambda>e. if c \<and> es_error_caso_ya_cerrado (SfcIntegrationException e)
           then devuelve None else lanza (SfcIntegrationException e)))
      (\<lambda>x t. llamadas t = [LlamadaSFC ''FRAUDE'' p] \<and> (x = Inr None \<longrightarrow> c))"
    unfolding intenta_sfc_def
    by (rule deja_intenta, rule deja_luego [where Q = "\<lambda>x t. llamadas t = [LlamadaSFC ''FRAUDE'' p] \<and> x \<noteq> Inr None", OF F])
      (auto intro!: deja_devuelve deja_lanza split: excepcion.split)
  show ?thesis
  proof (cases f)
    case True
    show ?thesis
      unfolding ejecutar_pasos_momento_3_def Let_def if_P [OF True] anotados_def
      by (simp, rule deja_luego [OF F'])
        (auto simp: True pasos_parciales_def pasos_completos_def intro!: deja_devuelve deja_mas [OF C] split: option.split)
  next
    case False
    show ?thesis
      unfolding ejecutar_pasos_momento_3_def Let_def anotados_def if_not_P [OF False]
      by (auto simp: False pasos_parciales_def pasos_completos_def intro!: deja_mas [OF C] deja_mas [OF T])
  qed
qed

lemma deja_momento_3:
  assumes "mudos sv"
  shows "deja (luego (ejecutar_pasos_momento_3 (anotados sv) p f c)
               (\<lambda>r. limpiar_checkpoint_si_cierre_exitoso r s c' l))
    (\<lambda>x t. llamadas t \<in> pasos_parciales p f c
       \<and> (\<forall>r. x = Inr r \<longrightarrow> estado_de r \<noteq> ''error'' \<longrightarrow> llamadas t = pasos_completos p f c))"
  by (rule deja_luego [OF deja_pasos [OF assms]]) (auto intro!: deja_mas [OF limpiar_resultado])

lemma puro_es_creacion:
  assumes "obtener p ''admision_col__c'' \<noteq> JNull"
  shows "status_nuevo p \<and> \<not> tiene_campos_m3 p \<and> \<not> es_fraude_de p \<and> \<not> es_cierre_de p
    \<longleftrightarrow> infer_operation_type p = ''M2_CREATION''"
  using assms by (auto simp: infer_operation_type_def tiene_campos_m3_def tiene_campos_m3_de_def presente_def Let_def)

definition primera_fase :: "dict \<Rightarrow> evento list set" where
  "primera_fase p =
     (if infer_operation_type p = ''M2_CREATION'' then {[LlamadaSFC ''M2'' p]}
      else pasos_parciales p (es_fraude_de p) (es_cierre_de p))"

definition recuperacion :: "dict \<Rightarrow> evento list set" where
  "recuperacion p =
     {[LlamadaSFC ''M2'' (sin_adjuntos p)]}
     \<union> (\<lambda>s. LlamadaSFC ''M2'' (sin_adjuntos p) # s) ` pasos_parciales p (es_fraude_de p) (es_cierre_de p)"

definition sin_soportes :: "dict \<Rightarrow> bool" where
  "sin_soportes p = (es_fraude_de p \<and> archivos_s3 p = [])"

definition exito_completo :: "dict \<Rightarrow> evento list \<Rightarrow> bool" where
  "exito_completo p t =
     (if infer_operation_type p = ''M2_CREATION''
      then t = [LlamadaSFC ''M2'' p]
        \<or> t = [LlamadaSFC ''M2'' p, LlamadaSFC ''M2'' (sin_adjuntos p)] @ pasos_completos p (es_fraude_de p) (es_cierre_de p)
      else \<exists>s. t = s @ pasos_completos p (es_fraude_de p) (es_cierre_de p)
             \<and> (s = [] \<or> (\<exists>s' \<in> primera_fase p. s = s' @ [LlamadaSFC ''M2'' (sin_adjuntos p)])))"

lemma deja_clasificado:
  assumes sv: "mudos sv" and adm: "obtener p ''admision_col__c'' \<noteq> JNull"
  shows "deja (despacho_clasificado (anotados sv) p l)
    (\<lambda>x t. (if sin_soportes p then llamadas t = [] \<and> x = Inl (SfcIntegrationException fraude_sin_soportes)
            else llamadas t \<in> primera_fase p \<or> (\<exists>s \<in> primera_fase p. \<exists>u \<in> recuperacion p. llamadas t = s @ u))
       \<and> (\<forall>r. x = Inr r \<longrightarrow> estado_de r = ''success'' \<longrightarrow> exito_completo p (llamadas t)))"
proof -
  let ?f = "es_fraude_de p" and ?c = "es_cierre_de p"
  let ?puro = "infer_operation_type p = ''M2_CREATION''"
  let ?m3 = "luego (ejecutar_pasos_momento_3 (anotados sv) p ?f ?c)
                 (\<lambda>r. limpiar_checkpoint_si_cierre_exitoso r (smart_code_de p) ?c l)"
  have M: "deja (sv_m2 (anotados sv) q) (\<lambda>x t. llamadas t = [LlamadaSFC ''M2'' q])" for q
    unfolding anotados_def by (simp, rule deja_anota) (use sv in \<open>simp add: mudos_def\<close>)
  have uno: "deja (if ?puro then sv_m2 (anotados sv) p else ?m3)
      (\<lambda>x t. llamadas t \<in> primera_fase p \<and> (\<forall>r. x = Inr r \<longrightarrow> estado_de r = ''success'' \<longrightarrow> exito_completo p (llamadas t)))"
    by (cases ?puro)
      (auto simp: primera_fase_def exito_completo_def intro!: deja_mas [OF M] deja_mas [OF deja_momento_3 [OF sv]])
  have dos: "deja (luego (sv_m2 (anotados sv) (sin_adjuntos p)) (\<lambda>r. if estado_de r \<noteq> ''success'' then devuelve r else ?m3))
      (\<lambda>x t. llamadas t \<in> recuperacion p \<and> (\<forall>r. x = Inr r \<longrightarrow> estado_de r = ''success'' \<longrightarrow>
          llamadas t = LlamadaSFC ''M2'' (sin_adjuntos p) # pasos_completos p ?f ?c))"
    by (rule deja_luego [OF M])
      (auto simp: recuperacion_def intro!: deja_devuelve deja_mas [OF deja_momento_3 [OF sv]])
  have tres: "exito_completo p (s @ LlamadaSFC ''M2'' (sin_adjuntos p) # pasos_completos p ?f ?c)"
    if "s \<in> primera_fase p" for s
  proof (cases ?puro)
    case True
    with that show ?thesis by (simp add: exito_completo_def primera_fase_def)
  next
    case False
    with that show ?thesis
      by (auto simp: exito_completo_def intro!: exI [of _ "s @ [LlamadaSFC ''M2'' (sin_adjuntos p)]"])
  qed
  show ?thesis
  proof (cases "sin_soportes p")
    case True
    then show ?thesis
      by (auto simp: despacho_clasificado_def Let_def sin_soportes_def intro: deja_lanza)
  next
    case False
    then have "despacho_clasificado (anotados sv) p l =
        intenta_sfc (if ?puro then sv_m2 (anotados sv) p else ?m3)
          (\<lambda>e. if es_caso_no_encontrado e then
              luego (sv_m2 (anotados sv) (sin_adjuntos p)) (\<lambda>r. if estado_de r \<noteq> ''success'' then devuelve r else ?m3)
            else lanza (SfcIntegrationException e))"
      unfolding despacho_clasificado_def Let_def sin_soportes_def puro_es_creacion [OF adm] by (rule if_not_P)
    moreover have "deja \<dots> (\<lambda>x t. (llamadas t \<in> primera_fase p \<or> (\<exists>s \<in> primera_fase p. \<exists>u \<in> recuperacion p. llamadas t = s @ u))
        \<and> (\<forall>r. x = Inr r \<longrightarrow> estado_de r = ''success'' \<longrightarrow> exito_completo p (llamadas t)))"
      unfolding intenta_sfc_def
      by (rule deja_intenta [OF uno])
        (use tres in \<open>auto intro!: deja_lanza deja_mas [OF dos] split: excepcion.split\<close>)
    ultimately show ?thesis using False by simp
  qed
qed

lemma obtener_update [simp]: "obtener (AList.update k v d) k' = (if k' = k then v else obtener d k')"
  by (auto simp: obtener_def update_conv)

lemma clase_con_archivos [simp]:
  "infer_operation_type (AList.update ''archivos_s3'' v p) = infer_operation_type p"
  by (simp add: infer_operation_type_def es_cierre_de_def es_fraude_de_def presente_def tiene_campos_m3_de_def
      status_nuevo_def)

text \<open>
  C16. The regulatory sequence of a dispatch, for every answer of the SFC and of S3. The category that
  identifies the operation (\<^verbatim>\<open>infer_operation_type\<close>, in the idempotency key and the queue slot) is the one
  that routes it: an M2 creation calls Momento 2 once; the other categories call the steps of Momento 3,
  the fraud step before the closing one. At most one recovery follows, which creates the case without
  attachments and repeats Momento 3. A dispatch that ends in \<^verbatim>\<open>success\<close> has sent every step of its
  category, in order, after whatever came before. Nothing is sent for a fraud without documents.
\<close>

theorem secuencia_de_llamadas:
  assumes "mudos sv" "obtener p ''admision_col__c'' \<noteq> JNull"
    and "procesar_despacho (anotados sv) p l w = (x, w')"
  shows "\<exists>p' t. (p' = p \<or> (\<exists>xs. p' = AList.update ''archivos_s3'' (JArr xs) p))
    \<and> infer_operation_type p' = infer_operation_type p
    \<and> w_bitacora w' = w_bitacora w @ t
    \<and> (llamadas t = [] \<and> (\<exists>e. x = Inl e)
       \<or> llamadas t \<in> primera_fase p' \<or> (\<exists>s \<in> primera_fase p'. \<exists>u \<in> recuperacion p'. llamadas t = s @ u))
    \<and> (sin_soportes p' \<longrightarrow> llamadas t = [])
    \<and> (\<forall>r. x = Inr r \<and> estado_de r = ''success'' \<longrightarrow> exito_completo p' (llamadas t))"
proof -
  let ?ok = "\<lambda>p'. p' = p \<or> (\<exists>xs. p' = AList.update ''archivos_s3'' (JArr xs) p)"
  have L: "deja (con_listado (anotados sv) p) (\<lambda>x t. llamadas t = [] \<and> (\<forall>p'. x = Inr p' \<longrightarrow> ?ok p'))"
  proof -
    have "deja (sv_listar (anotados sv) a b) (\<lambda>x t. llamadas t = [])" for a b
      using assms(1) by (simp add: mudos_def anotados_def reservada_def)
    then have "deja (luego (sv_listar (anotados sv) a b) (\<lambda>remotos.
          devuelve (if remotos \<noteq> [] then AList.update ''archivos_s3'' (JArr remotos) p else p)))
        (\<lambda>x t. llamadas t = [] \<and> (\<forall>p'. x = Inr p' \<longrightarrow> ?ok p'))" for a b
      by (rule deja_luego [where P = "\<lambda>x t. llamadas t = []"]) (auto intro!: deja_devuelve)
    then show ?thesis
      unfolding con_listado_def by (auto intro!: deja_devuelve)
  qed
  let ?Q = "\<lambda>p' x t. (llamadas t = [] \<and> (\<exists>e. x = Inl e)
       \<or> llamadas t \<in> primera_fase p' \<or> (\<exists>s \<in> primera_fase p'. \<exists>u \<in> recuperacion p'. llamadas t = s @ u))
    \<and> (sin_soportes p' \<longrightarrow> llamadas t = [])
    \<and> (\<forall>r. x = Inr r \<and> estado_de r = ''success'' \<longrightarrow> exito_completo p' (llamadas t))"
  have "deja (despacho_clasificado (anotados sv) p' l) (?Q p')" if "?ok p'" for p'
  proof -
    have "obtener p' ''admision_col__c'' \<noteq> JNull" using that assms(2) by auto
    from deja_clasificado [OF assms(1) this] show ?thesis
      by (rule deja_mas) (auto split: if_splits)
  qed
  note Q = this
  have "deja (procesar_despacho (anotados sv) p l) (\<lambda>x t. \<exists>p'. ?ok p' \<and> ?Q p' x t)"
    unfolding procesar_despacho_def
  proof (rule deja_luego [OF L])
    fix p' and t1 :: "evento list" assume 1: "llamadas t1 = [] \<and> (\<forall>q. Inr p' = Inr q \<longrightarrow> ?ok q)"
    then have "?ok p'" by blast
    then show "deja (despacho_clasificado (anotados sv) p' l) (\<lambda>x t. \<exists>p'. ?ok p' \<and> ?Q p' x (t1 @ t))"
      using 1 by (intro deja_mas [OF Q]) auto
  qed blast
  from dejaD [OF this assms(3)] obtain t p' where t: "w_bitacora w' = w_bitacora w @ t" "?ok p'" "?Q p' x t" by blast
  moreover have "infer_operation_type p' = infer_operation_type p" using t(2) by auto
  ultimately show ?thesis by (intro exI [of _ p'] exI [of _ t]) simp
qed

text \<open>A closing of a case that the SFC does not know: the first closing call answers 404.\<close>

definition p_cierre_ej :: dict where
  "p_cierre_ej = [(''Smart_Code__c'', JStr ''SC1''), (''Status'', JStr ''Closed''),
                  (''admision_col__c'', JStr ''No Aplica'')]"

definition err_ej :: "int \<Rightarrow> string \<Rightarrow> error_sfc" where
  "err_ej n msg = \<lparr>status_code = n, error_type = [], sfc_field = None, raw_message = msg, crm_action = []\<rparr>"

definition sv_ej :: "dict accion \<Rightarrow> servicios" where
  "sv_ej cierre = \<lparr>sv_m2 = \<lambda>p. devuelve [(''status'', JStr ''success'')], sv_fraude = \<lambda>p. devuelve [],
     sv_cierre = \<lambda>p. cierre, sv_tramite = \<lambda>p. cierre, sv_listar = \<lambda>a b. devuelve [], sv_validar = devuelve\<rparr>"

lemma mudos_ej: "callada m \<Longrightarrow> mudos (sv_ej m)"
  by (simp add: mudos_def sv_ej_def callada_basicas reservada_callada)

lemma secuencia_de_llamadas_testigo:
  "\<exists>t. w_bitacora (snd (procesar_despacho (anotados (sv_ej (lanza (SfcIntegrationException (err_ej 404 []))))) p_cierre_ej True (mundo_ej redis_vacio [])))
     = w_bitacora (mundo_ej redis_vacio []) @ t"
  using secuencia_de_llamadas [OF mudos_ej [OF callada_basicas(2)] _ surjective_pairing, of p_cierre_ej]
  by (fastforce simp: p_cierre_ej_def obtener_def)

subsection \<open>A case already closed\<close>

text \<open>
  What is answered when the SFC says that the case is already closed: a closing is confirmed as
  \<^verbatim>\<open>success\<close>, an update is reported as \<^verbatim>\<open>noop\<close> and never as written, and a fraud step that finds the
  case closed does not stop the closing that follows it but does stop a dispatch without one.
\<close>

theorem caso_ya_cerrado_es_honesto:
  assumes "es_error_caso_ya_cerrado (SfcIntegrationException e)" "\<not> es_caso_no_encontrado e"
    and "texto_en p ''directorio_s3'' = []" "obtener p ''admision_col__c'' \<noteq> JNull" "\<not> sin_soportes p"
    and "infer_operation_type p \<noteq> ''M2_CREATION''"
    and "(if es_fraude_de p then sv_fraude sv p else if es_cierre_de p then sv_cierre sv p else sv_tramite sv p) w
       = (Inl (SfcIntegrationException e), w1)"
  shows "(\<not> es_fraude_de p \<and> \<not> es_cierre_de p \<longrightarrow>
            (\<exists>r. procesar_despacho sv p l w = (Inr r, w1) \<and> estado_de r = ''noop''))
    \<and> (\<not> es_fraude_de p \<and> es_cierre_de p \<longrightarrow>
            (\<exists>r w2. procesar_despacho sv p False w = (Inr r, w1) \<and> estado_de r = ''success''))
    \<and> (es_fraude_de p \<and> es_cierre_de p \<and> sv_cierre sv p w1 = (Inr r1, w2) \<longrightarrow>
            procesar_despacho sv p False w = (Inr r1, w2))
    \<and> (es_fraude_de p \<and> \<not> es_cierre_de p \<longrightarrow>
            procesar_despacho sv p l w = (Inl (SfcIntegrationException e), w1))"
proof -
  have puro: "\<not> (status_nuevo p \<and> \<not> tiene_campos_m3 p \<and> \<not> es_fraude_de p \<and> \<not> es_cierre_de p)"
    using puro_es_creacion [OF assms(4)] assms(6) by blast
  have d: "procesar_despacho sv p l w = intenta_sfc
      (luego (ejecutar_pasos_momento_3 sv p (es_fraude_de p) (es_cierre_de p))
         (\<lambda>r. limpiar_checkpoint_si_cierre_exitoso r (smart_code_de p) (es_cierre_de p) l))
      (\<lambda>e. if es_caso_no_encontrado e then
          luego (sv_m2 sv (sin_adjuntos p)) (\<lambda>res_m2.
            if estado_de res_m2 \<noteq> ''success'' then devuelve res_m2
            else luego (ejecutar_pasos_momento_3 sv p (es_fraude_de p) (es_cierre_de p))
                   (\<lambda>r. limpiar_checkpoint_si_cierre_exitoso r (smart_code_de p) (es_cierre_de p) l))
        else lanza (SfcIntegrationException e)) w" for l w
    using assms(3,5) puro
    unfolding procesar_despacho_def con_listado_def despacho_clasificado_def Let_def sin_soportes_def
    by (simp only: if_False if_not_P simp_thms luego_devuelve)
  note m = ejecutar_pasos_momento_3_def intenta_sfc_def intenta_def luego_def devuelve_def lanza_def
    ejecutar_paso_o_exito_si_ya_cerrado_def limpiar_checkpoint_si_cierre_exitoso_def Let_def
  show ?thesis
    using assms(1,2,7) unfolding d
    by (auto simp: m resultado_por_cierre_confirmado_def estado_de_def texto_en_def obtener_def
        texto_opcional_def texto_o_vacio_def split: if_splits)
qed

definition p_tramite_ej :: dict where
  "p_tramite_ej = [(''Smart_Code__c'', JStr ''SC1''), (''Status'', JStr ''Open''),
                   (''admision_col__c'', JStr ''No Aplica'')]"

lemma clase_tramite_ej: "\<not> es_fraude_de p_tramite_ej" "\<not> es_cierre_de p_tramite_ej"
  "infer_operation_type p_tramite_ej = ''M3_UPDATE''"
  by (simp_all add: p_tramite_ej_def es_fraude_de_def es_cierre_de_def es_estado_cierre_def presente_def
      infer_operation_type_def status_nuevo_def obtener_def texto_opcional_def texto_o_vacio_def strip_def lower_def
      minuscula_def es_espacio_def Let_def)

lemma caso_ya_cerrado_es_honesto_testigo:
  "\<exists>r. procesar_despacho (sv_ej (lanza (SfcIntegrationException (err_ej 400 ''Case already closed.'')))) p_tramite_ej True
         (mundo_ej redis_vacio []) = (Inr r, mundo_ej redis_vacio []) \<and> estado_de r = ''noop''"
  using caso_ya_cerrado_es_honesto [of "err_ej 400 ''Case already closed.''" p_tramite_ej
      "sv_ej (lanza (SfcIntegrationException (err_ej 400 ''Case already closed.'')))" "mundo_ej redis_vacio []"
      "mundo_ej redis_vacio []" True] clase_tramite_ej
  by (simp add: es_error_caso_ya_cerrado_def frases_ya_cerrada_def texto_del_error_def err_ej_def lower_def minuscula_def
      es_caso_no_encontrado_def sin_soportes_def p_tramite_ej_def texto_en_def obtener_def texto_opcional_def
      texto_o_vacio_def sv_ej_def lanza_def)

subsection \<open>The checkpoint of the attachments\<close>

text \<open>The guarantee of the checkpoint \<open>k\<close> until \<open>T\<close>: the files written down stay written down. Marking a
file keeps it when \<open>T\<close> is at most thirty days away.\<close>

definition cuida :: "string \<Rightarrow> int \<Rightarrow> redis \<Rightarrow> redis \<Rightarrow> bool" where
  "cuida k T r s =
     (reloj r \<le> reloj s \<and>
      (reloj s < T \<and> T \<le> reloj r + ttl_ms \<longrightarrow>
        (\<forall>S e. r_checkpoint r k = Some (S, e) \<and> T \<le> e \<longrightarrow>
           (\<exists>S' e'. S \<subseteq> S' \<and> T \<le> e' \<and> r_checkpoint s k = Some (S', e')))))"

lemma cuida_trans:
  assumes rs: "cuida k T r s" and st: "cuida k T s t"
  shows "cuida k T r t"
  unfolding cuida_def
proof (intro conjI impI allI)
  show "reloj r \<le> reloj t" using rs st by (simp add: cuida_def)
  fix S e assume h: "reloj t < T \<and> T \<le> reloj r + ttl_ms" "r_checkpoint r k = Some (S, e) \<and> T \<le> e"
  then have "reloj s < T \<and> T \<le> reloj r + ttl_ms" using st by (simp add: cuida_def)
  then obtain S1 e1 where 1: "S \<subseteq> S1" "T \<le> e1" "r_checkpoint s k = Some (S1, e1)"
    using rs h(2) unfolding cuida_def by metis
  have "reloj t < T \<and> T \<le> reloj s + ttl_ms" using h(1) rs by (simp add: cuida_def)
  then obtain S2 e2 where "S1 \<subseteq> S2" "T \<le> e2" "r_checkpoint t k = Some (S2, e2)"
    using st 1(2,3) unfolding cuida_def by metis
  with 1(1) show "\<exists>S' e'. S \<subseteq> S' \<and> T \<le> e' \<and> r_checkpoint t k = Some (S', e')" by blast
qed

lemma cuida_refl: "cuida k T r r"
  by (auto simp: cuida_def)

interpretation gcheck: garantia "cuida k T" for k T
  by unfold_locales (rule cuida_refl, erule (1) cuida_trans, auto simp: cuida_def)

lemma marcar_cuida: "respeta (cuida k T) (marcar_archivo_completado c a)"
proof -
  have 1: "respeta (cuida k T) (redis_cmd (checkpoint_hset key a))" for key
    by (rule gcheck.redis_cmd) (auto simp: checkpoint_hset_def cuida_def split: option.splits)
  have 2: "respeta (cuida k T) (redis_cmd (checkpoint_expire key ttl_ms))" for key
    by (rule gcheck.redis_cmd) (auto simp: checkpoint_expire_def cuida_def texpire_def tget_def split: option.splits)
  show ?thesis
    unfolding marcar_archivo_completado_def by (intro gcheck.reglas 1 2)
qed

lemma limpiar_cuida:
  "k \<noteq> get_checkpoint_key c \<Longrightarrow> respeta (cuida k T) (limpiar_checkpoint_archivos c)"
  unfolding limpiar_checkpoint_archivos_def
  by (intro gcheck.reglas gcheck.redis_cmd) (auto simp: cuida_def tdel_def)

lemma limpiar_si_salvo:
  "salvo (cuida k T) (\<lambda>r. l \<and> c \<and> estado_de r = ''success'' \<and> k = get_checkpoint_key s)
     (limpiar_checkpoint_si_cierre_exitoso res s c l)"
proof (cases "l \<and> c \<and> estado_de res = ''success'' \<and> k = get_checkpoint_key s")
  case True
  have "entorno (cuida k T) w' \<and> x = Inr res"
    if "entorno (cuida k T) w" "limpiar_checkpoint_si_cierre_exitoso res s c l w = (x, w')" for w x w'
    using that True
    by (auto simp: limpiar_checkpoint_si_cierre_exitoso_def limpiar_checkpoint_archivos_def luego_def intenta_def
        devuelve_def hay_cliente_def redis_cmd_def entorno_def Let_def
        split: if_splits list.splits falla.splits)
  then show ?thesis using True unfolding salvo_def by blast
next
  case False
  have "respeta (cuida k T) (limpiar_checkpoint_si_cierre_exitoso res s c l)"
    unfolding limpiar_checkpoint_si_cierre_exitoso_def
    by (cases "k = get_checkpoint_key s") (use False in \<open>auto intro!: gcheck.reglas limpiar_cuida\<close>)
  then show ?thesis by (rule gcheck.salvo_respeta)
qed

definition servicios_cuidan :: "string \<Rightarrow> int \<Rightarrow> servicios \<Rightarrow> bool" where
  "servicios_cuidan k T sv =
     ((\<forall>p. respeta (cuida k T) (sv_m2 sv p) \<and> respeta (cuida k T) (sv_fraude sv p)
           \<and> respeta (cuida k T) (sv_cierre sv p) \<and> respeta (cuida k T) (sv_tramite sv p))
      \<and> (\<forall>a b. respeta (cuida k T) (sv_listar sv a b)))"

lemma pasos_cuidan:
  assumes "servicios_cuidan k T sv"
  shows "respeta (cuida k T) (ejecutar_pasos_momento_3 sv p f c)"
  using assms unfolding servicios_cuidan_def ejecutar_pasos_momento_3_def Let_def intenta_sfc_def
    ejecutar_paso_o_exito_si_ya_cerrado_def
  by (auto intro!: gcheck.reglas split: excepcion.split option.split)

lemma clasificado_cuida:
  assumes "servicios_cuidan k T sv"
  shows "salvo (cuida k T) (\<lambda>r. l \<and> es_cierre_de p \<and> estado_de r = ''success'' \<and> k = get_checkpoint_key (smart_code_de p))
    (despacho_clasificado sv p l)"
proof -
  have m3: "salvo (cuida k T) (\<lambda>r. l \<and> es_cierre_de p \<and> estado_de r = ''success'' \<and> k = get_checkpoint_key (smart_code_de p))
      (luego (ejecutar_pasos_momento_3 sv p (es_fraude_de p) (es_cierre_de p))
         (\<lambda>r. limpiar_checkpoint_si_cierre_exitoso r (smart_code_de p) (es_cierre_de p) l))"
    by (rule gcheck.salvo_luego [OF pasos_cuidan [OF assms] limpiar_si_salvo])
  have m2: "respeta (cuida k T) (sv_m2 sv q)" for q
    using assms by (simp add: servicios_cuidan_def)
  have gen: "salvo (cuida k T) Q (if b then lanza e0 else intenta_sfc (if puro then sv_m2 sv p else M)
      (\<lambda>e. if es_caso_no_encontrado e then luego (sv_m2 sv (sin_adjuntos p)) (\<lambda>res.
             if estado_de res \<noteq> ''success'' then devuelve res else M)
           else lanza (SfcIntegrationException e)))"
    if "salvo (cuida k T) Q M" for Q b e0 puro M
    unfolding intenta_sfc_def
    by (auto intro!: gcheck.salvo_intenta that gcheck.salvo_respeta [OF m2] gcheck.salvo_basicas
        gcheck.salvo_luego [OF m2] split: excepcion.split)
  show ?thesis
    unfolding despacho_clasificado_def Let_def by (rule gen [OF m3])
qed

text \<open>
  The attachments already sent are not sent again: the files noted in the checkpoint of a case are
  still noted when a dispatch ends (whatever its result, with any interleaving and any connection
  failure), unless the dispatch is a closing of that very case which ended in \<^verbatim>\<open>success\<close> and the
  caller asked for the cleaning; the worker, which still has to store its result, does not ask for it.
\<close>

theorem adjuntos_no_se_reenvian:
  assumes "servicios_cuidan k T sv" "entorno (cuida k T) w"
    and "procesar_despacho sv p l w = (x, w')"
    and "r_checkpoint (w_redis w) k = Some (S, e)" "T \<le> e" "T \<le> reloj (w_redis w) + ttl_ms" "reloj (w_redis w') < T"
    and "\<not> (l \<and> es_cierre_de p \<and> k = get_checkpoint_key (smart_code_de p)
           \<and> (\<exists>r. x = Inr r \<and> estado_de r = ''success''))"
  shows "\<exists>S' e'. S \<subseteq> S' \<and> T \<le> e' \<and> r_checkpoint (w_redis w') k = Some (S', e')"
proof -
  have c: "es_cierre_de (AList.update ''archivos_s3'' v p) = es_cierre_de p"
    "smart_code_de (AList.update ''archivos_s3'' v p) = smart_code_de p" for v
    by (simp_all add: es_cierre_de_def smart_code_de_def texto_en_def)
  have "salvo (cuida k T) (\<lambda>r. l \<and> es_cierre_de p \<and> estado_de r = ''success'' \<and> k = get_checkpoint_key (smart_code_de p))
      (procesar_despacho sv p l)"
    unfolding procesar_despacho_def con_listado_def
    using assms(1) clasificado_cuida [OF assms(1), of l p]
      clasificado_cuida [OF assms(1), of l "AList.update ''archivos_s3'' v p" for v, unfolded c]
    by (auto simp: luego_asoc servicios_cuidan_def intro!: gcheck.salvo_luego)
  with assms(2,3,8) have "cuida k T (w_redis w) (w_redis w')"
    unfolding salvo_def by blast
  with assms(4-7) show ?thesis unfolding cuida_def by blast
qed

lemma adjuntos_no_se_reenvian_testigo:
  "\<exists>S' e'. {''carta.pdf''} \<subseteq> S' \<and> 500 \<le> e' \<and> r_checkpoint (w_redis (snd (procesar_despacho (sv_ej (devuelve []))
     p_cierre_ej False (mundo_ej (redis_vacio\<lparr>r_checkpoint := [get_checkpoint_key ''SC1'' \<mapsto> ({''carta.pdf''}, 900)]\<rparr>) []))))
     (get_checkpoint_key ''SC1'') = Some (S', e')"
  by (rule adjuntos_no_se_reenvian [OF _ _ surjective_pairing, where e = 900 and l = False])
    (simp_all add: servicios_cuidan_def sv_ej_def gcheck.devuelve mundo_ej_def entorno_def redis_vacio_def ttl_ms_def
      procesar_despacho_def con_listado_def despacho_clasificado_def ejecutar_pasos_momento_3_def Let_def
      intenta_sfc_def intenta_def luego_def devuelve_def ejecutar_paso_o_exito_si_ya_cerrado_def
      limpiar_checkpoint_si_cierre_exitoso_def lanza_def)

end
