(* ===== verification/Fechas.thy ===== *)
theory Fechas
  imports Clasificacion
begin

text \<open>
  The part of \<^verbatim>\<open>datetime\<close> that the schemas and the mapper use: calendar dates with their ordinal
  (\<^verbatim>\<open>date.toordinal\<close>), and the reading and printing of the extended ISO 8601 texts
  \<^verbatim>\<open>YYYY-MM-DD[?HH[:MM[:SS[.f+]]][Z|+HH:MM|-HH:MM]]\<close> (\<open>?\<close> is any one ASCII character). The basic and
  week forms that \<^verbatim>\<open>fromisoformat\<close> also accepts are not read.
\<close>

subsection \<open>Calendar\<close>

record fecha =
  anio :: nat
  mes :: nat
  dia :: nat

definition bisiesto :: "nat \<Rightarrow> bool" where
  "bisiesto a = (4 dvd a \<and> (\<not> 100 dvd a \<or> 400 dvd a))"

definition dias_mes :: "nat \<Rightarrow> nat \<Rightarrow> nat" where
  "dias_mes a m = (if m = 2 then (if bisiesto a then 29 else 28) else if m \<in> {4, 6, 9, 11} then 30 else 31)"

definition fecha_valida :: "fecha \<Rightarrow> bool" where
  "fecha_valida f = (1 \<le> anio f \<and> anio f \<le> 9999 \<and> 1 \<le> mes f \<and> mes f \<le> 12 \<and> 1 \<le> dia f \<and> dia f \<le> dias_mes (anio f) (mes f))"

definition dias_antes_anio :: "nat \<Rightarrow> nat" where
  "dias_antes_anio a = (let y = a - 1 in y * 365 + y div 4 - y div 100 + y div 400)"

fun dias_antes_mes :: "nat \<Rightarrow> nat \<Rightarrow> nat" where
  "dias_antes_mes a 0 = 0"
| "dias_antes_mes a (Suc m) = (if m = 0 then 0 else dias_antes_mes a m + dias_mes a m)"

definition toordinal :: "fecha \<Rightarrow> nat" where
  "toordinal f = dias_antes_anio (anio f) + dias_antes_mes (anio f) (mes f) + dia f"

text \<open>\<^verbatim>\<open>a < b\<close> on dates.\<close>

definition antes :: "fecha \<Rightarrow> fecha \<Rightarrow> bool" where
  "antes f g = (anio f < anio g \<or> anio f = anio g \<and> (mes f < mes g \<or> mes f = mes g \<and> dia f < dia g))"

lemma dias_antes_mes_mono:
  assumes "m < m'" "1 \<le> m"
  shows "dias_antes_mes a m + dias_mes a m \<le> dias_antes_mes a m'"
  using assms
proof (induction m')
  case (Suc k)
  then show ?case by (cases "m < k") (auto simp: less_Suc_eq)
qed simp

lemma dias_del_anio: "dias_antes_mes a 12 + 31 = (if bisiesto a then 366 else 365)"
  by (simp add: eval_nat_numeral dias_mes_def)

lemma bisiesto_div:
  "y div 4 - y div 100 + y div 400 + (if bisiesto (Suc y) then 1 else 0)
     = Suc y div 4 - Suc y div 100 + Suc y div (400::nat)"
proof -
  have s: "Suc y div k = y div k + (if k dvd Suc y then 1 else 0)" if "0 < k" for k
    by (simp add: div_Suc dvd_eq_mod_eq_0)
  have "(400::nat) dvd Suc y \<Longrightarrow> 100 dvd Suc y" "(100::nat) dvd Suc y \<Longrightarrow> 4 dvd Suc y"
    by (auto elim: dvd_trans [rotated])
  moreover have "y div 100 \<le> y div 4" by (rule div_le_mono2) simp_all
  ultimately show ?thesis unfolding bisiesto_def by (auto simp: s)
qed

lemma suma_bisiesta:
  "c \<le> b \<Longrightarrow> c' \<le> b' \<Longrightarrow> b - c + d + e = b' - c' + d' \<Longrightarrow> k = 365 + e \<Longrightarrow>
   Suc y * 365 + b' - c' + d' = y * 365 + b - c + d + (k :: nat)"
  by simp

lemma dias_antes_anio_Suc:
  assumes "1 \<le> a"
  shows "dias_antes_anio (Suc a) = dias_antes_anio a + (if bisiesto a then 366 else 365)"
proof -
  obtain y where a: "a = Suc y" using assms by (cases a) auto
  have "y div 100 \<le> y div 4" "Suc y div 100 \<le> Suc y div 4" by (rule div_le_mono2; simp)+
  from suma_bisiesta [OF this bisiesto_div, of "if bisiesto (Suc y) then 366 else 365" y] show ?thesis
    unfolding a dias_antes_anio_def Let_def diff_Suc_1 by (simp only: split: if_splits) simp
qed

lemma dias_antes_anio_mono:
  assumes "a < a'" "1 \<le> a"
  shows "dias_antes_anio a + (if bisiesto a then 366 else 365) \<le> dias_antes_anio a'"
  using assms
proof (induction a')
  case (Suc k)
  then show ?case using dias_antes_anio_Suc [of k] dias_antes_anio_Suc [of a]
    by (cases "a < k") (auto simp: less_Suc_eq)
qed simp

text \<open>The ordinal grows with the date: comparing dates is comparing their day numbers.\<close>

lemma toordinal_mono:
  assumes "fecha_valida f" "fecha_valida g" "antes f g"
  shows "toordinal f < toordinal g"
proof -
  have f: "1 \<le> mes f" "mes f \<le> 12" "1 \<le> dia f" "dia f \<le> dias_mes (anio f) (mes f)" "1 \<le> anio f"
    and g: "1 \<le> mes g" "1 \<le> dia g" using assms(1,2) by (auto simp: fecha_valida_def)
  show ?thesis
  proof (cases "anio f = anio g")
    case True
    then show ?thesis
      using assms(3) f g dias_antes_mes_mono [of "mes f" "mes g" "anio f"] by (auto simp: toordinal_def antes_def)
  next
    case False
    then have "anio f < anio g" using assms(3) by (auto simp: antes_def)
    moreover have "dias_antes_mes (anio f) (mes f) + dia f \<le> (if bisiesto (anio f) then 366 else 365)"
    proof (cases "mes f = 12")
      case True
      then have "dia f \<le> 31" using f(4) by (simp add: dias_mes_def)
      then show ?thesis using True dias_del_anio [of "anio f"] by simp
    next
      case False
      then show ?thesis
        using f dias_antes_mes_mono [of "mes f" 12 "anio f"] dias_del_anio [of "anio f"] by simp
    qed
    ultimately show ?thesis using dias_antes_anio_mono [of "anio f" "anio g"] f g by (simp add: toordinal_def)
  qed
qed

lemma antes_total: "antes f g \<or> antes g f \<or> f = g"
  by (cases f; cases g) (auto simp: antes_def)

lemma toordinal_antes:
  "fecha_valida f \<Longrightarrow> fecha_valida g \<Longrightarrow> toordinal f < toordinal g \<longleftrightarrow> antes f g"
  using toordinal_mono [of f g] toordinal_mono [of g f] antes_total [of f g] by auto

subsection \<open>ISO texts\<close>

definition es_digito :: "char \<Rightarrow> bool" where
  "es_digito c = (let n = of_char c :: nat in 48 \<le> n \<and> n \<le> 57)"

definition isdigit :: "string \<Rightarrow> bool" where
  "isdigit s = (s \<noteq> [] \<and> list_all es_digito s)"

text \<open>Exactly \<open>n\<close> digits at the front.\<close>

definition digitos :: "nat \<Rightarrow> string \<Rightarrow> (nat \<times> string) option" where
  "digitos n s = (if n \<le> length s \<and> list_all es_digito (take n s) then Some (valor_digitos 0 (take n s), drop n s) else None)"

fun con_ceros :: "nat \<Rightarrow> nat \<Rightarrow> string" where
  "con_ceros 0 n = []"
| "con_ceros (Suc k) n = con_ceros k (n div 10) @ [char_of (48 + n mod 10)]"

definition fecha_texto :: "fecha \<Rightarrow> string" where
  "fecha_texto f = con_ceros 4 (anio f) @ ''-'' @ con_ceros 2 (mes f) @ ''-'' @ con_ceros 2 (dia f)"

definition lee_fecha :: "string \<Rightarrow> (fecha \<times> string) option" where
  "lee_fecha s =
     (case digitos 4 s of
        Some (a, CHR ''-'' # s1) \<Rightarrow>
          (case digitos 2 s1 of
             Some (m, CHR ''-'' # s2) \<Rightarrow>
               (case digitos 2 s2 of
                  Some (d, s3) \<Rightarrow>
                    (let f = \<lparr>anio = a, mes = m, dia = d\<rparr> in if fecha_valida f then Some (f, s3) else None)
                | None \<Rightarrow> None)
           | _ \<Rightarrow> None)
      | _ \<Rightarrow> None)"

text \<open>\<^verbatim>\<open>date.fromisoformat\<close>\<close>

definition date_fromisoformat :: "string \<Rightarrow> fecha option" where
  "date_fromisoformat s = (case lee_fecha s of Some (f, []) \<Rightarrow> Some f | _ \<Rightarrow> None)"

record hora =
  hh :: nat
  mi :: nat
  ss :: nat
  micro :: nat

definition hora_valida :: "hora \<Rightarrow> bool" where
  "hora_valida h = (hh h < 24 \<and> mi h < 60 \<and> ss h < 60 \<and> micro h < 1000000)"

definition lee_fraccion :: "string \<Rightarrow> (nat \<times> string) option" where
  "lee_fraccion s =
     (let ds = takeWhile es_digito s in
      if ds = [] then None
      else Some (valor_digitos 0 (take 6 (ds @ replicate 6 CHR ''0'')), dropWhile es_digito s))"

definition lee_hora :: "string \<Rightarrow> (hora \<times> string) option" where
  "lee_hora s =
     (case digitos 2 s of
        None \<Rightarrow> None
      | Some (h, CHR '':'' # s1) \<Rightarrow>
          (case digitos 2 s1 of
             None \<Rightarrow> None
           | Some (m, CHR '':'' # s2) \<Rightarrow>
               (case digitos 2 s2 of
                  None \<Rightarrow> None
                | Some (x, CHR ''.'' # s3) \<Rightarrow>
                    map_option (\<lambda>(u, r). (\<lparr>hh = h, mi = m, ss = x, micro = u\<rparr>, r)) (lee_fraccion s3)
                | Some (x, r) \<Rightarrow> Some (\<lparr>hh = h, mi = m, ss = x, micro = 0\<rparr>, r))
           | Some (m, r) \<Rightarrow> Some (\<lparr>hh = h, mi = m, ss = 0, micro = 0\<rparr>, r))
      | Some (h, r) \<Rightarrow> Some (\<lparr>hh = h, mi = 0, ss = 0, micro = 0\<rparr>, r))"

text \<open>The offset in minutes.\<close>

definition lee_zona :: "string \<Rightarrow> int option option" where
  "lee_zona s =
     (case s of
        [] \<Rightarrow> Some None
      | c # r \<Rightarrow>
          if c = CHR ''Z'' then (if r = [] then Some (Some 0) else None)
          else if c = CHR ''+'' \<or> c = CHR ''-'' then
            (case digitos 2 r of
               Some (h, CHR '':'' # r1) \<Rightarrow>
                 (case digitos 2 r1 of
                    Some (m, []) \<Rightarrow>
                      (if h < 24 \<and> m < 60
                       then Some (Some ((if c = CHR ''-'' then - 1 else 1) * int (60 * h + m))) else None)
                  | _ \<Rightarrow> None)
             | _ \<Rightarrow> None)
          else None)"

record instante =
  i_fecha :: fecha
  i_hora :: hora
  i_zona :: "int option"

text \<open>\<^verbatim>\<open>datetime.fromisoformat\<close>\<close>

definition fromisoformat :: "string \<Rightarrow> instante option" where
  "fromisoformat s =
     (case lee_fecha s of
        None \<Rightarrow> None
      | Some (f, []) \<Rightarrow> Some \<lparr>i_fecha = f, i_hora = \<lparr>hh = 0, mi = 0, ss = 0, micro = 0\<rparr>, i_zona = None\<rparr>
      | Some (f, _ # s1) \<Rightarrow>
          (case lee_hora s1 of
             None \<Rightarrow> None
           | Some (h, s2) \<Rightarrow>
               if \<not> hora_valida h then None
               else map_option (\<lambda>z. \<lparr>i_fecha = f, i_hora = h, i_zona = z\<rparr>) (lee_zona s2)))"

definition hora_texto :: "hora \<Rightarrow> string" where
  "hora_texto h = con_ceros 2 (hh h) @ '':'' @ con_ceros 2 (mi h) @ '':'' @ con_ceros 2 (ss h)"

definition zona_texto :: "int option \<Rightarrow> string" where
  "zona_texto z =
     (case z of
        None \<Rightarrow> []
      | Some m \<Rightarrow> (if m < 0 then CHR ''-'' else CHR ''+'')
          # con_ceros 2 (nat \<bar>m\<bar> div 60) @ '':'' @ con_ceros 2 (nat \<bar>m\<bar> mod 60))"

text \<open>\<^verbatim>\<open>isoformat()\<close> and \<^verbatim>\<open>strftime("%Y-%m-%dT%H:%M:%S")\<close>\<close>

definition isoformat :: "instante \<Rightarrow> string" where
  "isoformat i =
     fecha_texto (i_fecha i) @ ''T'' @ hora_texto (i_hora i)
     @ (if micro (i_hora i) = 0 then [] else ''.'' @ con_ceros 6 (micro (i_hora i))) @ zona_texto (i_zona i)"

definition segundos_texto :: "instante \<Rightarrow> string" where
  "segundos_texto i = fecha_texto (i_fecha i) @ ''T'' @ hora_texto (i_hora i)"

subsection \<open>Printed dates are read back\<close>

lemma length_con_ceros [simp]: "length (con_ceros k n) = k"
  by (induction k arbitrary: n) simp_all

lemma es_digito_48: "es_digito (char_of (48 + n mod 10 :: nat))"
  by (simp add: es_digito_def)

lemma con_ceros_digitos: "list_all es_digito (con_ceros k n)"
  by (induction k arbitrary: n) (simp_all add: es_digito_48)

lemma valor_con_ceros: "valor_digitos 0 (con_ceros k n) = n mod 10 ^ k"
proof (induction k arbitrary: n)
  case (Suc k)
  have "10 * (n div 10 mod 10 ^ k) + n mod 10 = n mod (10 * 10 ^ k)"
    by (simp add: mod_mult2_eq)
  with Suc show ?case by (simp add: valor_digitos_append algebra_simps)
qed simp

lemma digitos_con_ceros:
  "digitos k (con_ceros k n @ s) = Some (n mod 10 ^ k, s)"
  by (simp add: digitos_def con_ceros_digitos valor_con_ceros)

lemma fecha_valida_cotas: "fecha_valida f \<Longrightarrow> anio f < 10000 \<and> mes f < 100 \<and> dia f < 100"
  by (auto simp: fecha_valida_def dias_mes_def split: if_splits)

lemma lee_fecha_texto [simp]:
  assumes "fecha_valida f"
  shows "lee_fecha (fecha_texto f @ s) = Some (f, s)"
  using assms fecha_valida_cotas [OF assms]
  by (cases f) (simp add: lee_fecha_def fecha_texto_def digitos_con_ceros Let_def)

lemma date_fromisoformat_texto [simp]: "fecha_valida f \<Longrightarrow> date_fromisoformat (fecha_texto f) = Some f"
  using lee_fecha_texto [of f "[]"] by (simp add: date_fromisoformat_def)

lemma lee_fecha_valida: "lee_fecha s = Some (f, r) \<Longrightarrow> fecha_valida f"
  by (auto simp: lee_fecha_def Let_def split: option.splits prod.splits list.splits char.splits bool.splits if_splits)

lemma date_fromisoformat_valida: "date_fromisoformat s = Some f \<Longrightarrow> fecha_valida f"
  by (auto simp: date_fromisoformat_def split: option.splits prod.splits list.splits dest: lee_fecha_valida)

lemma fromisoformat_valida: "fromisoformat s = Some i \<Longrightarrow> fecha_valida (i_fecha i)"
  by (auto simp: fromisoformat_def split: option.splits prod.splits list.splits if_splits dest: lee_fecha_valida)

end
