(* ===== verification/Mapeo.thy ===== *)
theory Mapeo
  imports Fechas "HOL-Library.AList"
begin

text \<open>
  \<^verbatim>\<open>app/core/mapping.py\<close>, first part: the normal form of a text, the catalogs with their inverse indices,
  their loading (Google Sheets, the packaged JSON, DIVIPOLA) and the cache. Python dictionaries are
  association lists in insertion order (\<^verbatim>\<open>d[k] = v\<close> is \<open>AList.update\<close>). The accents and marks of the
  Latin-1 block of Unicode, the alphabet of the catalogs, are written out over UTF-8; other non-ASCII
  characters count as letters without accents. \<open>py_str\<close> is \<^verbatim>\<open>str\<close> on values that are not texts,
  integers, booleans or \<^verbatim>\<open>None\<close>.
\<close>

subsection \<open>Texts\<close>

text \<open>The letter under the accent of the character \<^verbatim>\<open>U+00C0 + n - 128\<close>.\<close>

definition letra_base :: "nat \<Rightarrow> char option" where
  "letra_base n =
     (if 128 \<le> n \<and> n \<le> 133 then Some CHR ''A'' else if n = 135 then Some CHR ''C''
      else if 136 \<le> n \<and> n \<le> 139 then Some CHR ''E'' else if 140 \<le> n \<and> n \<le> 143 then Some CHR ''I''
      else if n = 145 then Some CHR ''N'' else if 146 \<le> n \<and> n \<le> 150 then Some CHR ''O''
      else if 153 \<le> n \<and> n \<le> 156 then Some CHR ''U'' else if n = 157 then Some CHR ''Y''
      else if 160 \<le> n \<and> n \<le> 165 then Some CHR ''a'' else if n = 167 then Some CHR ''c''
      else if 168 \<le> n \<and> n \<le> 171 then Some CHR ''e'' else if 172 \<le> n \<and> n \<le> 175 then Some CHR ''i''
      else if n = 177 then Some CHR ''n'' else if 178 \<le> n \<and> n \<le> 182 then Some CHR ''o''
      else if 185 \<le> n \<and> n \<le> 188 then Some CHR ''u'' else if n = 189 \<or> n = 191 then Some CHR ''y''
      else None)"

text \<open>\<^verbatim>\<open>NFD\<close> without the combining marks (\<^verbatim>\<open>U+0300\<close> to \<^verbatim>\<open>U+036F\<close>).\<close>

fun quita_tildes :: "string \<Rightarrow> string" where
  "quita_tildes (c # d # s) =
     (let m = of_char c :: nat; n = of_char d :: nat in
      if m = 195 then (case letra_base n of Some b \<Rightarrow> b # quita_tildes s | None \<Rightarrow> c # d # quita_tildes s)
      else if m = 204 \<or> m = 205 \<and> n < 176 then quita_tildes s
      else c # quita_tildes (d # s))"
| "quita_tildes s = s"

definition es_alfanum :: "char \<Rightarrow> bool" where
  "es_alfanum c = (let n = of_char c :: nat in (48 \<le> n \<and> n \<le> 57) \<or> (65 \<le> n \<and> n \<le> 90) \<or> (97 \<le> n \<and> n \<le> 122))"

text \<open>\<^verbatim>\<open>re.sub(r"[^\w\s]", "", s)\<close>\<close>

fun quita_signos :: "string \<Rightarrow> string" where
  "quita_signos [] = []"
| "quita_signos (c # s) =
     (let m = of_char c :: nat in
      if m < 128 then (if es_alfanum c \<or> c = CHR ''_'' \<or> es_espacio c then c # quita_signos s else quita_signos s)
      else if m = 194 then
        (case s of
           [] \<Rightarrow> [c]
         | d # s' \<Rightarrow>
             if (of_char d :: nat) \<in> {160, 170, 178, 179, 181, 185, 186, 188, 189, 190}
             then c # d # quita_signos s' else quita_signos s')
      else c # quita_signos s)"

definition normalize_text :: "string \<Rightarrow> string" where
  "normalize_text s = (if s = [] then [] else strip (lower (quita_signos (quita_tildes s))))"

definition str_de :: "(json \<Rightarrow> string) \<Rightarrow> json \<Rightarrow> string" where
  "str_de py_str v =
     (case v of JStr s \<Rightarrow> s | JInt i \<Rightarrow> str_int i | JBool b \<Rightarrow> (if b then ''True'' else ''False'')
      | JNull \<Rightarrow> ''None'' | _ \<Rightarrow> py_str v)"

text \<open>\<^verbatim>\<open>bool(v)\<close>, for the values that can be empty.\<close>

definition verdadero :: "json \<Rightarrow> bool" where
  "verdadero v =
     (case v of JNull \<Rightarrow> False | JBool b \<Rightarrow> b | JInt i \<Rightarrow> i \<noteq> 0 | JStr s \<Rightarrow> s \<noteq> [] | JFloat s \<Rightarrow> s \<notin> {''0.0'', ''-0.0''}
      | JArr xs \<Rightarrow> xs \<noteq> [] | JObj d \<Rightarrow> d \<noteq> [])"

text \<open>\<^verbatim>\<open>re.sub("<[^>]*>", "", s)\<close>: a \<open><\<close> with a \<open>>\<close> after it goes, with all that lies between.\<close>

definition hasta_mayor :: "string \<Rightarrow> string option" where
  "hasta_mayor s = (case dropWhile (\<lambda>c. c \<noteq> CHR ''>'') s of [] \<Rightarrow> None | _ # r \<Rightarrow> Some r)"

lemma hasta_mayor_length [termination_simp]: "hasta_mayor s = Some r \<Longrightarrow> length r < length s"
  using length_dropWhile_le [of "\<lambda>c. c \<noteq> CHR ''>''" s]
  by (auto simp: hasta_mayor_def split: list.splits)

fun quita_etiquetas :: "string \<Rightarrow> string" where
  "quita_etiquetas [] = []"
| "quita_etiquetas (c # s) =
     (if c = CHR ''<'' then (case hasta_mayor s of Some r \<Rightarrow> quita_etiquetas r | None \<Rightarrow> c # quita_etiquetas s)
      else c # quita_etiquetas s)"

definition strip_html :: "string \<Rightarrow> string" where
  "strip_html s = (if s = [] then [] else strip (quita_etiquetas s))"

subsection \<open>Catalogs\<close>

type_synonym catalogo = "(string \<times> string) list"

record mapeador =
  CATALOGOS :: "(string \<times> catalogo) list"
  INVERSE_CATALOGS :: "(string \<times> (string \<times> json) list) list"
  MAPPING_M1 :: catalogo
  MAPPING_M4 :: catalogo
  DEPT_DIVIPOLA_INV :: catalogo
  MUNI_DIVIPOLA_INV :: catalogo
  DEPT_DIVIPOLA :: catalogo
  MUNI_DIVIPOLA :: catalogo
  ULTIMA_ACTUALIZACION :: int
  ULTIMO_EXITO_TIMESTAMP :: int

definition producto_sfc_texto_to_sf :: catalogo where
  "producto_sfc_texto_to_sf =
     [(''wallet'', ''Wallet''), (''exchange'', ''Exchange''), (''transactions'', ''Transactions''), (''p2p'', ''P2P''),
      (''tarjeta digital'', ''Tarjeta Digital''), (''tarjeta fisica'', ''Tarjeta Fisica''),
      (''cuenta perfil'', ''Cuenta perfil''), (''otro'', ''Otro'')]"

definition default_mapping_m1 :: catalogo where
  "default_mapping_m1 =
     [(''codigo_queja'', ''Smart_Code__c''), (''fecha_creacion'', ''CreatedDate''), (''nombres'', ''SuppliedName''),
      (''numero_id_CF'', ''id_number__c''), (''correo'', ''SuppliedEmail''), (''telefono'', ''SuppliedPhone''),
      (''direccion'', ''direccion__c''), (''departamento_cod'', ''Departamento__c''), (''municipio_cod'', ''SC_municipio__c''),
      (''texto_queja'', ''Description''), (''anexo_queja'', ''smart_anexo_queja__c''), (''tipo_id_CF'', ''SC_id_type__c''),
      (''tipo_persona'', ''tipo_de_persona__c''), (''sexo'', ''sc_genero__c''), (''lgbtiq'', ''sc_LGBTIQ__c''),
      (''canal_cod'', ''canal__c''), (''condicion_especial'', ''sc_Condicion_especial__c''), (''producto_cod'', ''Product__c''),
      (''macro_motivo_cod'', ''Categorias_COL__c''), (''tutela'', ''Tutela__c''), (''ente_control'', ''Ente_de_control__c''),
      (''desistimiento_queja'', ''Desistimiento__c''), (''queja_expres'', ''Quejas_express__c''),
      (''codigo_pais'', ''codigo_pais__c''), (''producto_nombre'', ''smart_Producto_nombre__c''),
      (''escalamiento_DCF'', ''smart_escalamiento_DCF__c''), (''replica'', ''replica__c''),
      (''argumento_replica'', ''argumento_replica__c'')]"

definition default_mapping_m4 :: catalogo where
  "default_mapping_m4 =
     [(''numero_id_CF'', ''id_number__c''), (''tipo_id_CF'', ''SC_id_type__c''), (''nombre'', ''FirstName''),
      (''nombres'', ''FirstName''), (''Nombres'', ''FirstName''), (''apellido'', ''LastName''), (''apellidos'', ''LastName''),
      (''Apellidos'', ''LastName''), (''fecha_nacimiento'', ''fecha_nacimiento__c''), (''correo'', ''SuppliedEmail''),
      (''Correo'', ''SuppliedEmail''), (''telefono'', ''SuppliedPhone''),
      (''Tel'' @ con_tilde CHR ''e'' @ ''fono'', ''SuppliedPhone''), (''Telefono'', ''SuppliedPhone''),
      (''razon_social'', ''company_name__c''), (''direccion'', ''direccion__c''),
      (''Direcci'' @ con_tilde CHR ''o'' @ ''n'', ''direccion__c''), (''Direccion'', ''direccion__c''),
      (''departamento_cod'', ''Departamento__c''), (''municipio_cod'', ''SC_municipio__c'')]"

definition cat_de :: "mapeador \<Rightarrow> string \<Rightarrow> catalogo" where
  "cat_de mp k = (case map_of (CATALOGOS mp) k of None \<Rightarrow> [] | Some c \<Rightarrow> c)"

definition inv_de :: "mapeador \<Rightarrow> string \<Rightarrow> (string \<times> json) list" where
  "inv_de mp k = (case map_of (INVERSE_CATALOGS mp) k of None \<Rightarrow> [] | Some c \<Rightarrow> c)"

definition valor_codigo :: "string \<Rightarrow> json" where
  "valor_codigo k = (if isdigit k then JInt (int (valor_digitos 0 k)) else JStr k)"

definition inverso_de :: "catalogo \<Rightarrow> (string \<times> json) list" where
  "inverso_de cat =
     foldl (\<lambda>m (k, v). AList.update k (valor_codigo k) (AList.update (normalize_text v) (valor_codigo k) m)) [] cat"

definition alias_tipo_id :: "(string \<times> json) list" where
  "alias_tipo_id = [(''cc'', JInt 1), (''ce'', JInt 2), (''rut'', JInt 3), (''nit'', JInt 3), (''dni'', JInt 4),
     (''pass'', JInt 5), (''passport'', JInt 5), (''pasaporte'', JInt 5)]"

definition alias_punto_recepcion :: "(string \<times> json) list" where
  "alias_punto_recepcion = [(''activate b2c'', JInt 99), (''form: change data'', JInt 99), (''updatecom'', JInt 99),
     (''manual'', JInt 1), (''internet'', JInt 2)]"

definition agrega_alias :: "(string \<times> json) list \<Rightarrow> (string \<times> json) list \<Rightarrow> (string \<times> json) list" where
  "agrega_alias alias indice = foldl (\<lambda>m (k, v). AList.update k v m) indice alias"

definition con_alias :: "string \<times> (string \<times> json) list \<Rightarrow> string \<times> (string \<times> json) list" where
  "con_alias p =
     (fst p, if fst p = ''tipo_id'' then agrega_alias alias_tipo_id (snd p)
             else if fst p = ''punto_recepcion'' then agrega_alias alias_punto_recepcion (snd p) else snd p)"

definition productos_por_defecto :: catalogo where
  "productos_por_defecto =
     map (\<lambda>(i, p). (''207_'' @ str_nat i, snd p)) (enumerate 1 producto_sfc_texto_to_sf)"

definition construir_indices_inversos :: "mapeador \<Rightarrow> mapeador" where
  "construir_indices_inversos mp =
     (let cats = (if cat_de mp ''producto'' = [] then AList.update ''producto'' productos_por_defecto (CATALOGOS mp)
                  else CATALOGOS mp)
      in mp\<lparr>CATALOGOS := cats, INVERSE_CATALOGS := map (\<lambda>(k, c). con_alias (k, inverso_de c)) cats\<rparr>)"

subsection \<open>Loading\<close>

text \<open>\<open>recurso\<close>: the parsed \<^verbatim>\<open>divipola_sfc_crm.json\<close> (departments, municipalities), if it could be read.\<close>

definition inverso_divipola :: "catalogo \<Rightarrow> catalogo" where
  "inverso_divipola c = foldl (\<lambda>m (k, v). AList.update (normalize_text v) k m) [] c"

definition cargar_divipola :: "(catalogo \<times> catalogo) option \<Rightarrow> bool \<Rightarrow> mapeador \<Rightarrow> mapeador" where
  "cargar_divipola recurso force mp =
     (if DEPT_DIVIPOLA mp \<noteq> [] \<and> MUNI_DIVIPOLA mp \<noteq> [] \<and> \<not> force then mp
      else case recurso of
        None \<Rightarrow> mp
      | Some (deps, munis) \<Rightarrow>
          mp\<lparr>DEPT_DIVIPOLA_INV := deps, MUNI_DIVIPOLA_INV := munis,
             DEPT_DIVIPOLA := AList.update ''bogota dc'' ''11'' (AList.update ''bogota'' ''11'' (inverso_divipola deps)),
             MUNI_DIVIPOLA := AList.update ''bogota dc'' ''11001'' (AList.update ''bogota'' ''11001'' (inverso_divipola munis))\<rparr>)"

definition cargar_catalogos_local ::
    "(string \<times> catalogo) list option \<Rightarrow> (catalogo \<times> catalogo) option \<Rightarrow> bool \<Rightarrow> mapeador \<Rightarrow> mapeador" where
  "cargar_catalogos_local recurso divipola force mp =
     (if CATALOGOS mp \<noteq> [] \<and> INVERSE_CATALOGS mp \<noteq> [] \<and> \<not> force then mp
      else case recurso of
        None \<Rightarrow> mp
      | Some cats \<Rightarrow>
          cargar_divipola divipola force
            ((construir_indices_inversos (mp\<lparr>CATALOGOS := cats\<rparr>))\<lparr>MAPPING_M1 := default_mapping_m1, MAPPING_M4 := default_mapping_m4\<rparr>))"

text \<open>The sheets: a range title and the rows of its cells.\<close>

definition titulo_de :: "string \<Rightarrow> string" where
  "titulo_de rango = strip (filter (\<lambda>c. [c] \<noteq> apostrofo) (takeWhile (\<lambda>c. c \<noteq> CHR ''!'') rango))"

definition fila_catalogo :: "string list \<Rightarrow> (string \<times> string) option" where
  "fila_catalogo row = (case row of a # b # _ \<Rightarrow> if a \<noteq> [] \<and> b \<noteq> [] then Some (strip a, strip b) else None | _ \<Rightarrow> None)"

definition fila_mapeo :: "string list \<Rightarrow> (string \<times> string \<times> string) option" where
  "fila_mapeo row =
     (case row of
        a # b # c # _ \<Rightarrow> if a \<noteq> [] \<and> b \<noteq> [] \<and> c \<noteq> [] then Some (lower (strip a), strip b, strip c) else None
      | _ \<Rightarrow> None)"

definition de_momento :: "string \<Rightarrow> (string \<times> string \<times> string) list \<Rightarrow> catalogo" where
  "de_momento n filas =
     foldl (\<lambda>m (mom, k, v).
       if (if contiene ''momento_1'' mom \<or> contiene ''m1'' mom then ''1''
           else if contiene ''momento_4'' mom \<or> contiene ''m4'' mom then ''4'' else []) = n
       then AList.update k v m else m) [] filas"

definition parsear_value_ranges ::
    "(string \<times> string list list) list \<Rightarrow> (string \<times> catalogo) list \<times> catalogo \<times> catalogo" where
  "parsear_value_ranges vrs =
     (let es_mapeo = (\<lambda>(r, _). lower (titulo_de r) = ''mapeo_campos'');
          filas = concat (map (\<lambda>(_, rows). List.map_filter fila_mapeo (drop 1 rows)) (filter es_mapeo vrs));
          cats = foldl (\<lambda>m (r, rows).
                   let c = foldl (\<lambda>d (k, v). AList.update k v d) [] (List.map_filter fila_catalogo (drop 1 rows))
                   in if c = [] then m else AList.update (lower (titulo_de r)) c m) [] (filter (\<lambda>p. \<not> es_mapeo p) vrs)
      in (cats, de_momento ''1'' filas, de_momento ''4'' filas))"

subsection \<open>The cache\<close>

text \<open>What Google gives: an exception somewhere on the way, no token or a status other than 200, or the
ranges of the batch.\<close>

datatype respuesta_catalogos = CatExcepcion | CatSinDatos | CatRangos "(string \<times> string list list) list"

definition cat_ttl_ms :: int where
  "cat_ttl_ms = 600000"

definition cat_max_stale_ms :: int where
  "cat_max_stale_ms = 86400000"

definition alerta_stale :: "int \<Rightarrow> mapeador \<Rightarrow> bool" where
  "alerta_stale now mp = (ULTIMO_EXITO_TIMESTAMP mp > 0 \<and> now - ULTIMO_EXITO_TIMESTAMP mp > cat_max_stale_ms)"

definition refrescar_catalogos_desde_sheets ::
    "respuesta_catalogos \<Rightarrow> int \<Rightarrow> mapeador \<Rightarrow> mapeador option \<times> bool" where
  "refrescar_catalogos_desde_sheets resp now mp =
     (case resp of
        CatExcepcion \<Rightarrow> (None, alerta_stale now mp)
      | CatSinDatos \<Rightarrow> (None, False)
      | CatRangos vrs \<Rightarrow>
          (case parsear_value_ranges vrs of (cats, m1, m4) \<Rightarrow>
             if cats = [] then (None, False)
             else (Some ((construir_indices_inversos (mp\<lparr>CATALOGOS := cats\<rparr>))
                     \<lparr>MAPPING_M1 := (if m1 = [] then default_mapping_m1 else m1),
                      MAPPING_M4 := (if m4 = [] then default_mapping_m4 else m4),
                      ULTIMA_ACTUALIZACION := now, ULTIMO_EXITO_TIMESTAMP := now\<rparr>), False)))"

definition catalogos_frescos :: "int \<Rightarrow> mapeador \<Rightarrow> bool" where
  "catalogos_frescos now mp =
     (CATALOGOS mp \<noteq> [] \<and> ULTIMA_ACTUALIZACION mp > 0 \<and> now - ULTIMA_ACTUALIZACION mp < cat_ttl_ms)"

text \<open>One caller with the single-flight lock at \<open>now\<close>; the second component says that the alert went out.\<close>

definition obtener_catalogos_y_mapeos ::
    "(string \<times> catalogo) list option \<Rightarrow> (catalogo \<times> catalogo) option \<Rightarrow> bool \<Rightarrow> respuesta_catalogos \<Rightarrow> int
     \<Rightarrow> mapeador \<Rightarrow> mapeador \<times> bool" where
  "obtener_catalogos_y_mapeos recurso divipola hay_planilla resp now mp =
     (if catalogos_frescos now mp then (mp, False)
      else case (if hay_planilla then refrescar_catalogos_desde_sheets resp now mp else (None, False)) of
        (Some mp', alerta) \<Rightarrow> (mp', alerta)
      | (None, alerta) \<Rightarrow>
          ((if CATALOGOS mp = [] then cargar_catalogos_local recurso divipola False mp else mp)
             \<lparr>ULTIMA_ACTUALIZACION := now\<rparr>, alerta))"

text \<open>The allowed values, with the mapper after the lazy loading of the packaged catalogs.\<close>

definition get_crm_allowed_values ::
    "(string \<times> catalogo) list option \<Rightarrow> (catalogo \<times> catalogo) option \<Rightarrow> mapeador \<Rightarrow> string \<Rightarrow> mapeador \<times> string list" where
  "get_crm_allowed_values recurso divipola mp k =
     (let mp' = (if CATALOGOS mp = [] then cargar_catalogos_local recurso divipola False mp else mp)
      in (mp', map snd (cat_de mp' k) @ (if k = ''tipo_id'' then [''NIT'', ''N.I.T.'', ''R.U.T.''] else [])))"

end
