(* ===== verification/Mapeo_Traduccion.thy ===== *)
theory Mapeo_Traduccion
  imports Mapeo
begin

text \<open>
  \<^verbatim>\<open>app/core/mapping.py\<close>, second part: the reading of the fields, the translation of one value in each
  direction, and the payloads that go to the SFC (Momento 2 and 3) and to the CRM (Momento 1 and 4).
  A translation that may raise gives a \<^verbatim>\<open>json resultado\<close>.
\<close>

definition ligar :: "'a resultado \<Rightarrow> ('a \<Rightarrow> 'b resultado) \<Rightarrow> 'b resultado" where
  "ligar x f = (case x of Inl e \<Rightarrow> Inl e | Inr y \<Rightarrow> f y)"

lemma ligar_simps [simp]: "ligar (Inl e) f = Inl e" "ligar (Inr y) f = f y"
  by (simp_all add: ligar_def)

lemma ligar_Inr: "ligar x f = Inr z \<longleftrightarrow> (\<exists>y. x = Inr y \<and> f y = Inr z)"
  by (cases x) simp_all

subsection \<open>Reading a field\<close>

fun primero_no_nulo :: "dict \<Rightarrow> string list \<Rightarrow> json" where
  "primero_no_nulo d [] = JNull"
| "primero_no_nulo d (k # ks) = (if obtener d k \<noteq> JNull then obtener d k else primero_no_nulo d ks)"

definition alias_codigo :: "bool \<Rightarrow> string list" where
  "alias_codigo es_objeto =
     (if es_objeto then [''Smart_Code__c'', ''codigo_queja'', ''Case_id'', ''CaseNumber'', ''case_id'']
      else [''Smart_Code__c'', ''codigo_queja'', ''Case_id'', ''case_id''])"

definition alias_estado :: "string list" where
  "alias_estado = [''Status'', ''status'', ''Estado__c'', ''estado'', ''estado_cod'']"

definition con_alias_de :: "bool \<Rightarrow> string \<Rightarrow> string list" where
  "con_alias_de es_objeto k =
     (if k \<in> {''Smart_Code__c'', ''codigo_queja''} then alias_codigo es_objeto
      else if k \<in> {''Status'', ''status'', ''estado_cod''} then alias_estado else [])
     @ [k]"

definition get_sf_field_value_from_dict :: "dict \<Rightarrow> string \<Rightarrow> json" where
  "get_sf_field_value_from_dict entity k =
     (let v = primero_no_nulo entity (con_alias_de False k) in
      if v \<noteq> JNull then v
      else obtener (rev (map (\<lambda>(n, x). (lower n, x)) (filter (\<lambda>(n, x). x \<noteq> JNull) entity))) (lower k))"

definition get_sf_field_value_from_object :: "dict \<Rightarrow> string \<Rightarrow> json" where
  "get_sf_field_value_from_object attrs k = primero_no_nulo attrs (con_alias_de True k)"

text \<open>An entity is a dictionary or an object (its attributes).\<close>

datatype entidad = EDict dict | EObjeto dict

definition get_sf_field_value :: "entidad \<Rightarrow> string \<Rightarrow> json" where
  "get_sf_field_value e k =
     (case e of EDict d \<Rightarrow> get_sf_field_value_from_dict d k | EObjeto d \<Rightarrow> get_sf_field_value_from_object d k)"

subsection \<open>From the SFC to the CRM\<close>

definition key_to_cat_crm :: catalogo where
  "key_to_cat_crm =
     [(''sexo'', ''genero''), (''tipo_id_CF'', ''tipo_id''), (''tipo_persona'', ''persona''), (''lgbtiq'', ''lgbtiq''),
      (''sc_LGBTIQ__c'', ''lgbtiq''), (''condicion_especial'', ''condicion_especial''), (''canal_cod'', ''canal''),
      (''ente_control'', ''ente_control''), (''insta_recepcion'', ''instancia_recepcion''), (''admision'', ''admision''),
      (''a_favor_de'', ''favorabilidad''), (''aceptacion_queja'', ''aceptacion''), (''rectificacion_queja'', ''rectificacion''),
      (''desistimiento_queja'', ''desistimiento''), (''tipo_fraude'', ''tipo_fraude''),
      (''modalidad_fraude'', ''modalidad_fraude''), (''punto_recepcion'', ''punto_recepcion''),
      (''macro_motivo_cod'', ''macro_motivo''), (''Categorias_COL__c'', ''macro_motivo'')]"

text \<open>\<open>None\<close> is \<^verbatim>\<open>_NO_MATCH\<close>.\<close>

definition traducir_via_catalogo_crm :: "mapeador \<Rightarrow> string \<Rightarrow> string \<Rightarrow> json option" where
  "traducir_via_catalogo_crm mp sfc_key str_key =
     (case map_of key_to_cat_crm sfc_key of
        None \<Rightarrow> None
      | Some cat_key \<Rightarrow>
          let cat = cat_de mp cat_key;
              directo = map_of cat str_key;
              corrido = (if cat_key = ''macro_motivo'' \<and> isdigit str_key
                         then map_of cat (str_nat (valor_digitos 0 str_key + 900)) else None)
          in Some (JStr (case directo of Some v \<Rightarrow> v
                         | None \<Rightarrow> (case corrido of Some v \<Rightarrow> v | None \<Rightarrow> str_key))))"

definition es_dos :: "string \<Rightarrow> json \<Rightarrow> bool" where
  "es_dos str_key v =
     (if isdigit str_key then valor_digitos 0 str_key = 2 else v \<in> {JInt 2, JFloat ''2.0''})"

definition translate_value_to_crm :: "(json \<Rightarrow> string) \<Rightarrow> mapeador \<Rightarrow> string \<Rightarrow> json \<Rightarrow> json" where
  "translate_value_to_crm py_str mp sfc_key v =
     (let str_key = strip (str_de py_str v) in
      if v = JNull \<or> str_key = [] then JNull
      else if sfc_key = ''codigo_pais''
      then JStr (case map_of (cat_de mp ''codigo_pais'') str_key of Some p \<Rightarrow> p | None \<Rightarrow> str_key)
      else case traducir_via_catalogo_crm mp sfc_key str_key of
        Some r \<Rightarrow> r
      | None \<Rightarrow>
          if sfc_key \<in> {''departamento_cod'', ''Departamento__c''}
          then JStr (case map_of (DEPT_DIVIPOLA_INV mp) str_key of Some x \<Rightarrow> x | None \<Rightarrow> str_de py_str v)
          else if sfc_key \<in> {''municipio_cod'', ''SC_municipio__c''}
          then JStr (case map_of (MUNI_DIVIPOLA_INV mp) str_key of Some x \<Rightarrow> x | None \<Rightarrow> str_de py_str v)
          else if sfc_key \<in> {''tutela'', ''queja_expres'', ''escalamiento_DCF'', ''replica'', ''producto_digital''}
          then JStr (if es_dos str_key v \<or> v = JBool False then ''No'' else ''Si'')
          else v)"

subsection \<open>From the CRM to the SFC\<close>

definition lookup_or_fail ::
    "(json \<Rightarrow> string) \<Rightarrow> (string \<times> json) list \<Rightarrow> string \<Rightarrow> string \<Rightarrow> json \<Rightarrow> string \<Rightarrow> json resultado" where
  "lookup_or_fail py_str source normalized sf_key raw catalog_name =
     (case map_of source normalized of
        Some v \<Rightarrow> Inr v
      | None \<Rightarrow> Inl (SfcIntegrationException \<lparr>
          status_code = 400, error_type = ''CRM_PAYLOAD_VALIDATION_ERROR'', sfc_field = Some sf_key,
          raw_message = ''El valor '' @ apostrofo @ str_de py_str raw @ apostrofo @ '' de '' @ apostrofo @ sf_key @ apostrofo
            @ '' no existe en el cat'' @ con_tilde CHR ''a'' @ ''logo '' @ apostrofo @ catalog_name @ apostrofo @ ''.'',
          crm_action = ''Verifique el valor de '' @ apostrofo @ sf_key @ apostrofo @ '' en el CRM o actualice el cat''
            @ con_tilde CHR ''a'' @ ''logo de mapeo '' @ apostrofo @ catalog_name @ apostrofo @ '' antes de reintentar.''\<rparr>))"

definition afirmativo :: "string \<Rightarrow> bool" where
  "afirmativo t = (t \<in> {''si'', ''s'' @ con_tilde CHR ''i'', ''true'', ''1''})"

definition traducir_valor_especial_a_sfc ::
    "(json \<Rightarrow> string) \<Rightarrow> mapeador \<Rightarrow> string \<Rightarrow> json \<Rightarrow> json resultado option" where
  "traducir_valor_especial_a_sfc py_str mp sf_key v =
     (if sf_key = ''codigo_pais__c'' then
        Some (ligar (lookup_or_fail py_str (inv_de mp ''codigo_pais'') (normalize_text (str_de py_str v)) sf_key v ''codigo_pais'')
                (\<lambda>x. Inr (JStr (str_de py_str x))))
      else if sf_key \<in> {''Tutela__c'', ''Quejas_express__c''} then
        Some (Inr (JInt (if afirmativo (strip (lower (str_de py_str v))) then 1 else 2)))
      else if sf_key = ''sinRespuestaFinal__c'' then
        Some (Inr (JBool (afirmativo (strip (lower (str_de py_str v))))))
      else if sf_key = ''Product__c'' then Some (Inr (JInt 207))
      else None)"

definition sf_to_cat :: catalogo where
  "sf_to_cat =
     [(''sc_genero__c'', ''genero''), (''SC_id_type__c'', ''tipo_id''), (''tipo_de_persona__c'', ''persona''),
      (''sc_LGBTIQ__c'', ''lgbtiq''), (''canal__c'', ''canal''), (''Instancia_de_recepcion__c'', ''instancia_recepcion''),
      (''Desistimiento__c'', ''desistimiento''), (''tipo_fraude__c'', ''tipo_fraude''), (''Tipo_Fraude__c'', ''tipo_fraude''),
      (''modalidad_fraude__c'', ''modalidad_fraude''), (''Modalidad_Fraude__c'', ''modalidad_fraude''),
      (''punto_recepcion'', ''punto_recepcion''), (''Categorias_COL__c'', ''macro_motivo''),
      (''Rectificacion__c'', ''rectificacion'')]"

definition sf_to_cat_soft :: catalogo where
  "sf_to_cat_soft =
     [(''sc_Condicion_especial__c'', ''condicion_especial''), (''Ente_de_control__c'', ''ente_control''),
      (''admision_col__c'', ''admision''), (''Favorabilidad__c'', ''favorabilidad''), (''Aceptacion__c'', ''aceptacion'')]"

definition como_json :: "catalogo \<Rightarrow> (string \<times> json) list" where
  "como_json c = map (\<lambda>(k, v). (k, JStr v)) c"

definition traducir_via_catalogo_sfc ::
    "(json \<Rightarrow> string) \<Rightarrow> mapeador \<Rightarrow> string \<Rightarrow> json \<Rightarrow> string \<Rightarrow> json resultado option" where
  "traducir_via_catalogo_sfc py_str mp sf_key v normalized =
     (case map_of sf_to_cat sf_key of
        Some cat_key \<Rightarrow> Some (lookup_or_fail py_str (inv_de mp cat_key) normalized sf_key v cat_key)
      | None \<Rightarrow>
          (case map_of sf_to_cat_soft sf_key of
             Some cat_key \<Rightarrow> Some (Inr (obtener (inv_de mp cat_key) normalized))
           | None \<Rightarrow>
               if sf_key = ''Departamento__c'' then
                 Some (lookup_or_fail py_str (como_json (DEPT_DIVIPOLA mp)) normalized sf_key v ''DIVIPOLA departamento'')
               else if sf_key = ''SC_municipio__c'' then
                 Some (lookup_or_fail py_str (como_json (MUNI_DIVIPOLA mp)) normalized sf_key v ''DIVIPOLA municipio'')
               else None))"

definition status_map :: "(string \<times> int) list" where
  "status_map = [(''new'', 1), (''nuevo'', 1), (''in progress'', 2), (''en progreso'', 2), (''stand by'', 2), (''espera'', 2),
     (''closed'', 4), (''cerrado'', 4), (''resolved'', 4), (''resuelto'', 4)]"

text \<open>\<^verbatim>\<open>s[:n]\<close> counts characters: the continuation bytes of UTF-8 go with their first byte.\<close>

fun recorta :: "nat \<Rightarrow> string \<Rightarrow> string" where
  "recorta n [] = []"
| "recorta n (c # s) =
     (let m = of_char c :: nat in
      if 128 \<le> m \<and> m < 192 then c # recorta n s
      else case n of 0 \<Rightarrow> [] | Suc k \<Rightarrow> c # recorta k s)"

definition solo_telefono_doc :: "string \<Rightarrow> string" where
  "solo_telefono_doc s = filter (\<lambda>c. es_digito c \<or> c = CHR ''+'') s"

text \<open>\<^verbatim>\<open>int(s)\<close> on texts (blanks around, a sign, digits with single underscores) and on the other values.\<close>

fun digitos_con_guion :: "bool \<Rightarrow> string \<Rightarrow> bool" where
  "digitos_con_guion previo [] = previo"
| "digitos_con_guion previo (c # s) =
     (if es_digito c then digitos_con_guion True s else c = CHR ''_'' \<and> previo \<and> digitos_con_guion False s)"

definition int_texto :: "string \<Rightarrow> int option" where
  "int_texto t =
     (let s = strip t;
          (signo, r) = (case s of c # r \<Rightarrow> if c = CHR ''-'' then (- 1, r) else if c = CHR ''+'' then (1, r) else (1, s)
                        | [] \<Rightarrow> (1, s))
      in if digitos_con_guion False r then Some (signo * int (valor_digitos 0 (filter es_digito r))) else None)"

definition int_py :: "(string \<Rightarrow> int option) \<Rightarrow> json \<Rightarrow> int resultado" where
  "int_py trunca v =
     (case v of
        JInt i \<Rightarrow> Inr i
      | JBool b \<Rightarrow> Inr (if b then 1 else 0)
      | JStr s \<Rightarrow> (case int_texto s of Some i \<Rightarrow> Inr i | None \<Rightarrow> Inl (ValueError ''int''))
      | JFloat s \<Rightarrow> (case trunca s of Some i \<Rightarrow> Inr i | None \<Rightarrow> Inl (ValueError ''int''))
      | _ \<Rightarrow> Inl (TypeError ''int''))"

text \<open>\<open>trunca\<close> is \<^verbatim>\<open>int\<close> on floats.\<close>

definition translate_value_to_sfc ::
    "(json \<Rightarrow> string) \<Rightarrow> (string \<Rightarrow> int option) \<Rightarrow> mapeador \<Rightarrow> string \<Rightarrow> json \<Rightarrow> json resultado" where
  "translate_value_to_sfc py_str trunca mp sf_key v =
     (if v = JNull then Inr JNull
      else case traducir_valor_especial_a_sfc py_str mp sf_key v of
        Some r \<Rightarrow> r
      | None \<Rightarrow>
          let texto = str_de py_str v; normalized = normalize_text texto in
          case traducir_via_catalogo_sfc py_str mp sf_key v normalized of
            Some r \<Rightarrow> r
          | None \<Rightarrow>
              if sf_key = ''Status''
              then Inr (JInt (case map_of status_map normalized of Some n \<Rightarrow> n | None \<Rightarrow> 2))
              else if sf_key \<in> {''producto_digital__c'', ''Producto_digital__c''}
              then Inr (JInt (if normalized \<in> {''si'', ''s'' @ con_tilde CHR ''i'', ''true''} then 1 else 2))
              else if sf_key = ''Description'' then Inr (JStr (strip (recorta 4500 (strip_html texto))))
              else if sf_key \<in> {''id_number__c'', ''SuppliedPhone''} then Inr (JStr (take 15 (solo_telefono_doc texto)))
              else if sf_key = ''Prorroga__c'' then ligar (int_py trunca v) (\<lambda>n. Inr (JInt n))
              else Inr v)"

definition safe_int :: "(string \<Rightarrow> int option) \<Rightarrow> int option \<Rightarrow> json \<Rightarrow> int option" where
  "safe_int trunca por_defecto v = (case int_py trunca v of Inr n \<Rightarrow> Some n | Inl _ \<Rightarrow> por_defecto)"

subsection \<open>Momento 1 and Momento 4: what reaches the CRM\<close>

definition reemplaza :: "char \<Rightarrow> string \<Rightarrow> string \<Rightarrow> string" where
  "reemplaza c t s = concat (map (\<lambda>x. if x = c then t else [x]) s)"

definition fecha_normal :: "string \<Rightarrow> string" where
  "fecha_normal s = (case fromisoformat (reemplaza CHR '' '' ''T'' s) of Some i \<Rightarrow> isoformat i | None \<Rightarrow> s)"

definition mapeo_m1 :: "mapeador \<Rightarrow> catalogo" where
  "mapeo_m1 mp = (if MAPPING_M1 mp = [] then default_mapping_m1 else MAPPING_M1 mp)"

definition mapeo_m4 :: "mapeador \<Rightarrow> catalogo" where
  "mapeo_m4 mp = (if MAPPING_M4 mp = [] then default_mapping_m4 else MAPPING_M4 mp)"

definition o_texto :: "dict \<Rightarrow> string \<Rightarrow> json" where
  "o_texto d k = (case map_of d k of None \<Rightarrow> JStr [] | Some v \<Rightarrow> v)"

definition valor_m1 :: "(json \<Rightarrow> string) \<Rightarrow> mapeador \<Rightarrow> dict \<Rightarrow> string \<Rightarrow> json \<Rightarrow> json" where
  "valor_m1 py_str mp sfc_data k v =
     (if k = ''fecha_creacion'' \<and> texto_opcional v \<noteq> None then JStr (fecha_normal (texto_o_vacio (texto_opcional v)))
      else if k = ''producto_cod''
      then JStr (case map_of producto_sfc_texto_to_sf (normalize_text (str_de py_str (o_texto sfc_data ''producto_nombre''))) of
                   Some p \<Rightarrow> p | None \<Rightarrow> ''Cuenta perfil'')
      else translate_value_to_crm py_str mp k v)"

definition sfc_payload_to_db_dict :: "(json \<Rightarrow> string) \<Rightarrow> mapeador \<Rightarrow> dict \<Rightarrow> dict" where
  "sfc_payload_to_db_dict py_str mp sfc_data =
     (let crm = foldl (\<lambda>m (k, v). case map_of (mapeo_m1 mp) k of
                          None \<Rightarrow> m | Some crm_key \<Rightarrow> AList.update crm_key (valor_m1 py_str mp sfc_data k v) m) [] sfc_data
      in if strip (str_de py_str (o_texto sfc_data ''tipo_id_CF'')) = ''3''
         then AList.update ''SC_id_type__c''
                (JStr (if strip (str_de py_str (o_texto sfc_data ''tipo_persona'')) = ''2'' then ''NIT'' else ''RUT'')) crm
         else crm)"

definition clave_m4 :: "mapeador \<Rightarrow> string \<Rightarrow> string" where
  "clave_m4 mp k =
     (let a = texto_o_vacio (map_of (mapeo_m4 mp) k)
      in if a \<noteq> [] then a else texto_o_vacio (map_of (mapeo_m4 mp) (lower k)))"

definition valor_m4 :: "(json \<Rightarrow> string) \<Rightarrow> mapeador \<Rightarrow> string \<Rightarrow> json \<Rightarrow> json" where
  "valor_m4 py_str mp k v =
     (case v of
        JStr s \<Rightarrow> if k = ''fecha_nacimiento'' \<and> strip s \<noteq> [] then JStr (fecha_normal s) else translate_value_to_crm py_str mp k v
      | _ \<Rightarrow> translate_value_to_crm py_str mp k v)"

definition o_bien :: "json \<Rightarrow> json \<Rightarrow> json" where
  "o_bien a b = (if verdadero a then a else b)"

definition sfc_user_payload_to_db_dict :: "(json \<Rightarrow> string) \<Rightarrow> mapeador \<Rightarrow> json \<Rightarrow> dict resultado" where
  "sfc_user_payload_to_db_dict py_str mp sfc =
     (case sfc of
        JObj sfc_data \<Rightarrow>
          (let num_id = o_bien (o_bien (obtener sfc_data ''numero_id_CF'') (obtener sfc_data ''numero_id'')) (obtener sfc_data ''id_number__c'')
           in if \<not> verdadero num_id \<or> strip (str_de py_str num_id) = []
              then Inl (ValueError ''numero_id_CF'')
              else
                let crm = foldl (\<lambda>m (k, v). if v = JNull \<or> clave_m4 mp k = [] then m
                                   else AList.update (clave_m4 mp k) (valor_m4 py_str mp k v) m) [] sfc_data;
                    nombre = o_texto crm ''FirstName''; apellido = o_texto crm ''LastName''
                in Inr (if verdadero nombre \<or> verdadero apellido
                        then AList.update ''SuppliedName''
                               (JStr (strip (str_de py_str nombre @ '' '' @ str_de py_str apellido))) crm
                        else crm))
      | _ \<Rightarrow> Inl (ValueError ''objeto''))"

subsection \<open>Momento 2 and Momento 3: what reaches the SFC\<close>

text \<open>The keyword arguments are evaluated in order; the first exception wins.\<close>

fun junta :: "(string \<times> json resultado) list \<Rightarrow> dict resultado" where
  "junta [] = Inr []"
| "junta ((k, x) # xs) = ligar x (\<lambda>v. ligar (junta xs) (\<lambda>d. Inr ((k, v) # d)))"

definition con_prefijo :: "string \<Rightarrow> json \<Rightarrow> (json \<Rightarrow> string) \<Rightarrow> string" where
  "con_prefijo prefix raw py_str =
     (let t = (if verdadero raw then str_de py_str raw else [])
      in if t \<noteq> [] \<and> \<not> empieza prefix t then prefix @ t else t)"

text \<open>\<^verbatim>\<open>strptime(s, "%Y-%m-%d")\<close>: one or two digits for the month and the day.\<close>

definition uno_o_dos :: "string \<Rightarrow> (nat \<times> string) option" where
  "uno_o_dos s = (case digitos 2 s of Some r \<Rightarrow> Some r | None \<Rightarrow> digitos 1 s)"

definition strptime_fecha :: "string \<Rightarrow> fecha option" where
  "strptime_fecha s =
     (case digitos 4 s of
        Some (a, CHR ''-'' # s1) \<Rightarrow>
          (case uno_o_dos s1 of
             Some (m, CHR ''-'' # s2) \<Rightarrow>
               (case uno_o_dos s2 of
                  Some (d, []) \<Rightarrow> (let f = \<lparr>anio = a, mes = m, dia = d\<rparr> in if fecha_valida f then Some f else None)
                | _ \<Rightarrow> None)
           | _ \<Rightarrow> None)
      | _ \<Rightarrow> None)"

definition fecha_m2 :: "string \<Rightarrow> string" where
  "fecha_m2 created =
     (if CHR ''T'' \<in> set created \<or> CHR ''-'' \<in> set created then
        (let limpia = takeWhile (\<lambda>c. c \<noteq> CHR ''.'') created in
         if CHR ''T'' \<in> set limpia
         then (case fromisoformat limpia of Some i \<Rightarrow> segundos_texto i | None \<Rightarrow> created)
         else (case strptime_fecha limpia of Some f \<Rightarrow> fecha_texto f @ ''T00:00:00'' | None \<Rightarrow> created))
      else created)"

text \<open>One argument of the constructor: \<^verbatim>\<open>str(translate(...) or d)\<close> and \<^verbatim>\<open>int(translate(...) or d)\<close>.\<close>

definition texto_m2 ::
    "(json \<Rightarrow> string) \<Rightarrow> (string \<Rightarrow> int option) \<Rightarrow> mapeador \<Rightarrow> entidad \<Rightarrow> string \<Rightarrow> string \<Rightarrow> json resultado" where
  "texto_m2 py_str trunca mp e k d =
     ligar (translate_value_to_sfc py_str trunca mp k (get_sf_field_value e k))
       (\<lambda>v. Inr (JStr (str_de py_str (o_bien v (JStr d)))))"

definition entero_m2 ::
    "(json \<Rightarrow> string) \<Rightarrow> (string \<Rightarrow> int option) \<Rightarrow> mapeador \<Rightarrow> entidad \<Rightarrow> string \<Rightarrow> int \<Rightarrow> json resultado" where
  "entero_m2 py_str trunca mp e k d =
     ligar (translate_value_to_sfc py_str trunca mp k (get_sf_field_value e k))
       (\<lambda>v. ligar (int_py trunca (o_bien v (JInt d))) (\<lambda>n. Inr (JInt n)))"

text \<open>\<open>ahora_iso\<close> is the present instant in Bogota.\<close>

definition argumentos_m2 ::
    "(json \<Rightarrow> string) \<Rightarrow> (string \<Rightarrow> int option) \<Rightarrow> string \<Rightarrow> mapeador \<Rightarrow> instante \<Rightarrow> entidad \<Rightarrow> (string \<times> json resultado) list" where
  "argumentos_m2 py_str trunca prefix mp ahora_iso e =
     [(''codigo_queja'', Inr (JStr (con_prefijo prefix (get_sf_field_value e ''Smart_Code__c'') py_str))),
      (''departamento_cod'', texto_m2 py_str trunca mp e ''Departamento__c'' ''11''),
      (''municipio_cod'', texto_m2 py_str trunca mp e ''SC_municipio__c'' ''11001''),
      (''canal_cod'', entero_m2 py_str trunca mp e ''canal__c'' 13),
      (''producto_cod'', entero_m2 py_str trunca mp e ''Product__c'' 207),
      (''macro_motivo_cod'', entero_m2 py_str trunca mp e ''Categorias_COL__c'' 940),
      (''fecha_creacion'', Inr (JStr (fecha_m2 (str_de py_str
         (o_bien (get_sf_field_value e ''CreatedDate'') (JStr (isoformat ahora_iso))))))),
      (''nombres'', Inr (JStr (str_de py_str (o_bien (get_sf_field_value e ''SuppliedName'') (JStr []))))),
      (''tipo_id_CF'', entero_m2 py_str trunca mp e ''SC_id_type__c'' 1),
      (''numero_id_CF'', texto_m2 py_str trunca mp e ''id_number__c'' []),
      (''tipo_persona'', entero_m2 py_str trunca mp e ''tipo_de_persona__c'' 1),
      (''texto_queja'', texto_m2 py_str trunca mp e ''Description'' []),
      (''anexo_queja'', Inr (JBool (verdadero (get_sf_field_value e ''smart_anexo_queja__c'')))),
      (''ente_control'', entero_m2 py_str trunca mp e ''Ente_de_control__c'' 99),
      (''insta_recepcion'', entero_m2 py_str trunca mp e ''Instancia_de_recepcion__c'' 1),
      (''admision'', entero_m2 py_str trunca mp e ''admision_col__c'' 1),
      (''codigo_pais'', texto_m2 py_str trunca mp e ''codigo_pais__c'' ''170''),
      (''punto_recepcion'', entero_m2 py_str trunca mp e ''punto_recepcion'' 1)]"

definition crm_entity_to_sfc_momento2_payload ::
    "(json \<Rightarrow> string) \<Rightarrow> (string \<Rightarrow> int option) \<Rightarrow> string \<Rightarrow> mapeador \<Rightarrow> instante \<Rightarrow> entidad \<Rightarrow> dict resultado" where
  "crm_entity_to_sfc_momento2_payload py_str trunca prefix mp ahora_iso e =
     junta (argumentos_m2 py_str trunca prefix mp ahora_iso e)"

definition entero_json :: "int option \<Rightarrow> json" where
  "entero_json n = (case n of None \<Rightarrow> JNull | Some i \<Rightarrow> JInt i)"

text \<open>\<^verbatim>\<open>SfcActualizarQuejaPayload\<close>: the validators, the limit of \<^verbatim>\<open>codigo_queja\<close> and the rounded amounts;
\<open>redondea\<close> is \<^verbatim>\<open>int(round(float(v)))\<close>, \<open>None\<close> when it raises.\<close>

definition defecto_si_nulo :: "int \<Rightarrow> json \<Rightarrow> json" where
  "defecto_si_nulo n v = (if v = JNull then JInt n else v)"

definition valida_actualizacion :: "(json \<Rightarrow> int option) \<Rightarrow> dict \<Rightarrow> dict resultado" where
  "valida_actualizacion redondea d =
     (let monto = (\<lambda>v. if v = JNull then JNull else case redondea v of Some n \<Rightarrow> JInt n | None \<Rightarrow> v);
          d' = map (\<lambda>(k, v). (k, if k \<in> {''producto_digital'', ''admision''} then defecto_si_nulo 1 v
                 else if k \<in> {''tutela'', ''queja_expres'', ''desistimiento_queja''} then defecto_si_nulo 2 v
                 else if k \<in> {''monto_reclamado'', ''monto_reconocido''} then monto v else v)) d;
          largo = (\<lambda>s. length (filter (\<lambda>c. \<not> (128 \<le> (of_char c :: nat) \<and> (of_char c :: nat) < 192)) s));
          errs = (if 30 < largo (texto_o_vacio (texto_opcional (obtener d' ''codigo_queja'')))
                  then [([''codigo_queja''], ''String should have at most 30 characters'')] else [])
               @ concat (map (\<lambda>k. case obtener d' k of JNull \<Rightarrow> [] | JInt _ \<Rightarrow> [] | _ \<Rightarrow> [([k], ''Input should be a valid integer'')])
                           [''monto_reclamado'', ''monto_reconocido''])
      in if errs = [] then Inr d' else Inl (ErrorValidacion errs))"

definition fecha_cierre_de :: "instante \<Rightarrow> json \<Rightarrow> json" where
  "fecha_cierre_de ahora_iso raw =
     (case raw of
        JStr s \<Rightarrow>
          (let limpia = strip s in
           if limpia = [] then JNull
           else if CHR ''T'' \<in> set limpia then JStr limpia
           else JStr (takeWhile (\<lambda>c. \<not> es_espacio c) limpia @ ''T'' @ hora_texto (i_hora ahora_iso)))
      | _ \<Rightarrow> JNull)"

text \<open>Dates arrive as their ISO texts (\<^verbatim>\<open>ClosedDate\<close> of a validated payload has the form \<^verbatim>\<open>YYYY-MM-DD\<close>, which
\<^verbatim>\<open>isoformat\<close> prints and the text branch completes with the same hour).\<close>

definition cierre_sin_resultado :: excepcion where
  "cierre_sin_resultado = ValueError ''No es posible construir el payload de Cierre (Estado 4)''"

definition crm_entity_to_sfc_momento3_payload ::
    "(json \<Rightarrow> string) \<Rightarrow> (string \<Rightarrow> int option) \<Rightarrow> (json \<Rightarrow> int option) \<Rightarrow> string \<Rightarrow> mapeador \<Rightarrow> instante \<Rightarrow> entidad
     \<Rightarrow> dict resultado" where
  "crm_entity_to_sfc_momento3_payload py_str trunca redondea prefix mp ahora_iso e =
     (let campo = get_sf_field_value e;
          trad = (\<lambda>k. translate_value_to_sfc py_str trunca mp k (campo k));
          entero = (\<lambda>k d. ligar (trad k) (\<lambda>v. Inr (entero_json (safe_int trunca d v))));
          estado = ligar (trad ''Status'') (\<lambda>v. Inr (o_bien v (JInt 2)));
          cierre_ok = ligar estado (\<lambda>cod.
            if cod \<noteq> JInt 4 then Inr ()
            else ligar (trad ''Favorabilidad__c'') (\<lambda>fav. ligar (trad ''Aceptacion__c'') (\<lambda>acep.
              if fav = JNull \<or> acep = JNull then Inl cierre_sin_resultado else Inr ())))
      in ligar cierre_ok (\<lambda>_. ligar (junta
        [(''codigo_queja'', Inr (JStr (con_prefijo prefix (campo ''Smart_Code__c'') py_str))),
         (''sexo'', entero ''sc_genero__c'' None),
         (''lgbtiq'', entero ''sc_LGBTIQ__c'' None),
         (''condicion_especial'', entero ''sc_Condicion_especial__c'' None),
         (''canal_cod'', entero ''canal__c'' (Some 13)),
         (''producto_cod'', entero ''Product__c'' (Some 207)),
         (''macro_motivo_cod'', entero ''Categorias_COL__c'' (Some 940)),
         (''estado_cod'', ligar estado (\<lambda>v. Inr (entero_json (safe_int trunca (Some 2) v)))),
         (''fecha_actualizacion'', Inr (JStr (segundos_texto ahora_iso))),
         (''producto_digital'', entero ''producto_digital__c'' None),
         (''admision'', entero ''admision_col__c'' None),
         (''desistimiento_queja'', Inr (JInt 2)),
         (''anexo_queja'', Inr (JBool (verdadero (campo ''smart_anexo_queja__c'')))),
         (''tutela'', entero ''Tutela__c'' None),
         (''ente_control'', entero ''Ente_de_control__c'' None),
         (''queja_expres'', entero ''Quejas_express__c'' (Some 2)),
         (''a_favor_de'', entero ''Favorabilidad__c'' None),
         (''aceptacion_queja'', entero ''Aceptacion__c'' None),
         (''rectificacion_queja'', entero ''Rectificacion__c'' None),
         (''prorroga_queja'', entero ''Prorroga__c'' None),
         (''documentacion_rta_final'', Inr (JBool (verdadero (campo ''sinRespuestaFinal__c'')))),
         (''fecha_cierre'', Inr (if verdadero (campo ''ClosedDate'') then fecha_cierre_de ahora_iso (campo ''ClosedDate'') else JNull)),
         (''marcacion'', entero ''marcacion__c'' None),
         (''tipo_fraude'', entero ''tipo_fraude__c'' None),
         (''modalidad_fraude'', entero ''modalidad_fraude__c'' None),
         (''monto_reclamado'', Inr (campo ''card_amount__c'')),
         (''monto_reconocido'', Inr (campo ''Total_Devuelto_por_Desconocimiento__c''))])
       (valida_actualizacion redondea)))"

text \<open>\<^verbatim>\<open>crm_entity_to_sfc_payload(entity, momento)\<close>\<close>

definition crm_entity_to_sfc_payload ::
    "(json \<Rightarrow> string) \<Rightarrow> (string \<Rightarrow> int option) \<Rightarrow> (json \<Rightarrow> int option) \<Rightarrow> string \<Rightarrow> mapeador \<Rightarrow> instante \<Rightarrow> entidad \<Rightarrow> nat
     \<Rightarrow> dict resultado" where
  "crm_entity_to_sfc_payload py_str trunca redondea prefix mp ahora_iso e momento =
     (if momento = 3 then crm_entity_to_sfc_momento3_payload py_str trunca redondea prefix mp ahora_iso e
      else crm_entity_to_sfc_momento2_payload py_str trunca prefix mp ahora_iso e)"

end
