(* ===== verification/Esquema_Textos.thy ===== *)
theory Esquema_Textos
  imports Mapeo_Traduccion
begin

text \<open>
  The text functions of \<^verbatim>\<open>app/schemas/crm_payloads.py\<close>: the removal of script blocks and tags, the cleaning of
  document numbers, the alphabet of the identifiers, the form of an e-mail address, and what each of them
  leaves as it is when it is applied a second time.
\<close>

subsection \<open>Characters\<close>

text \<open>\<^verbatim>\<open>len(s)\<close>: the bytes that start a character.\<close>

definition caracteres :: "string \<Rightarrow> nat" where
  "caracteres s = length (filter (\<lambda>c. \<not> (128 \<le> (of_char c :: nat) \<and> (of_char c :: nat) < 192)) s)"

lemma caracteres_le: "caracteres s \<le> length s"
  by (simp add: caracteres_def)

text \<open>The characters of \<^verbatim>\<open>^[a-zA-Z0-9_-]+$\<close>; \<^verbatim>\<open>[^a-zA-Z0-9]\<close> is the complement of \<open>es_alfanum\<close>.\<close>

definition de_identificador :: "char \<Rightarrow> bool" where
  "de_identificador c = (es_alfanum c \<or> c = CHR ''_'' \<or> c = CHR ''-'')"

text \<open>A character of \<^verbatim>\<open>\w\<close> (letters beyond ASCII count as such).\<close>

definition de_palabra :: "char \<Rightarrow> bool" where
  "de_palabra c = (es_alfanum c \<or> c = CHR ''_'' \<or> 128 \<le> (of_char c :: nat))"

subsection \<open>Blocks and tags\<close>

text \<open>\<open>empieza\<close> that ignores case, and what follows the pattern.\<close>

fun tras :: "string \<Rightarrow> string \<Rightarrow> string option" where
  "tras [] s = Some s"
| "tras (p # ps) [] = None"
| "tras (p # ps) (c # cs) = (if minuscula c = p then tras ps cs else None)"

fun tras_primero :: "string \<Rightarrow> string \<Rightarrow> string option" where
  "tras_primero pat [] = tras pat []"
| "tras_primero pat (c # cs) = (case tras pat (c # cs) of Some r \<Rightarrow> Some r | None \<Rightarrow> tras_primero pat cs)"

lemma tras_length: "tras p s = Some r \<Longrightarrow> length r \<le> length s"
  by (induction p s rule: tras.induct) (auto split: if_splits)

lemma tras_primero_length: "tras_primero p s = Some r \<Longrightarrow> length r \<le> length s"
  by (induction s) (auto split: option.splits dest: tras_length)

text \<open>After a \<open><\<close>: \<^verbatim>\<open>name\b[^>]*>.*?</name>\<close>, and what follows it.\<close>

definition bloque_de :: "string \<Rightarrow> string \<Rightarrow> string option" where
  "bloque_de nombre s =
     (case tras nombre s of
        Some (c # r) \<Rightarrow>
          if de_palabra c then None
          else (case hasta_mayor (c # r) of
                  Some r' \<Rightarrow> tras_primero (''</'' @ nombre @ ''>'') r'
                | None \<Rightarrow> None)
      | _ \<Rightarrow> None)"

definition bloque :: "string \<Rightarrow> string option" where
  "bloque s =
     (case bloque_de ''script'' s of Some r \<Rightarrow> Some r
      | None \<Rightarrow> (case bloque_de ''style'' s of Some r \<Rightarrow> Some r | None \<Rightarrow> bloque_de ''iframe'' s))"

lemma bloque_de_mayor: "bloque_de n s = Some r \<Longrightarrow> length r < length s \<and> CHR ''>'' \<in> set s"
proof -
  assume "bloque_de n s = Some r"
  then obtain t r' where t: "tras n s = Some t" "hasta_mayor t = Some r'" "tras_primero (''</'' @ n @ ''>'') r' = Some r"
    by (auto simp: bloque_de_def split: option.splits list.splits if_splits)
  have "set t \<subseteq> set s" using t(1) by (induction n s rule: tras.induct) (auto split: if_splits)
  moreover have "CHR ''>'' \<in> set t"
  proof (rule ccontr)
    assume "CHR ''>'' \<notin> set t"
    then have "dropWhile (\<lambda>c. c \<noteq> CHR ''>'') t = []" by (auto simp: dropWhile_eq_Nil_conv)
    with t(2) show False by (simp add: hasta_mayor_def)
  qed
  ultimately show ?thesis
    using tras_length [OF t(1)] hasta_mayor_length [OF t(2)] tras_primero_length [OF t(3)] by auto
qed

lemma bloque_mayor: "bloque s = Some r \<Longrightarrow> length r < length s \<and> CHR ''>'' \<in> set s"
  by (auto simp: bloque_def split: option.splits dest: bloque_de_mayor)

lemma bloque_length [termination_simp]: "bloque s = Some r \<Longrightarrow> length r < length s"
  using bloque_mayor by blast

fun quita_bloques :: "string \<Rightarrow> string" where
  "quita_bloques [] = []"
| "quita_bloques (c # s) =
     (if c = CHR ''<'' then (case bloque s of Some r \<Rightarrow> quita_bloques r | None \<Rightarrow> c # quita_bloques s)
      else c # quita_bloques s)"

text \<open>\<^verbatim>\<open>sanitizar_campos_texto\<close> on a string.\<close>

definition sanitiza :: "string \<Rightarrow> string" where
  "sanitiza s = strip (quita_etiquetas (quita_bloques (filter (\<lambda>c. c \<noteq> CHR 0x00) s)))"

text \<open>No tag: no \<open>>\<close> after a \<open><\<close>.\<close>

fun sin_etiquetas :: "string \<Rightarrow> bool" where
  "sin_etiquetas [] = True"
| "sin_etiquetas (c # s) = ((c = CHR ''<'' \<longrightarrow> CHR ''>'' \<notin> set s) \<and> sin_etiquetas s)"

lemma hasta_mayor_None: "hasta_mayor s = None \<longleftrightarrow> CHR ''>'' \<notin> set s"
proof -
  have "hasta_mayor s = None \<longleftrightarrow> dropWhile (\<lambda>c. c \<noteq> CHR ''>'') s = []"
    by (cases "dropWhile (\<lambda>c. c \<noteq> CHR ''>'') s") (simp_all del: dropWhile_eq_Nil_conv add: hasta_mayor_def)
  then show ?thesis by (auto simp: dropWhile_eq_Nil_conv)
qed

lemma set_hasta_mayor: "hasta_mayor s = Some r \<Longrightarrow> set r \<subseteq> set s"
  by (auto simp: hasta_mayor_def split: list.splits) (metis list.set_intros(2) set_dropWhileD)

lemma set_quita_etiquetas: "set (quita_etiquetas s) \<subseteq> set s"
proof (induction s rule: quita_etiquetas.induct)
  case (2 c s)
  then show ?case using set_hasta_mayor [of s] by (cases "hasta_mayor s") auto
qed simp

lemma sin_etiquetas_quita: "sin_etiquetas (quita_etiquetas s)"
proof (induction s rule: quita_etiquetas.induct)
  case (2 c s)
  show ?case
  proof (cases "hasta_mayor s")
    case None
    then have "CHR ''>'' \<notin> set (quita_etiquetas s)" using set_quita_etiquetas [of s] by (auto simp: hasta_mayor_None)
    with 2 None show ?thesis by auto
  next
    case (Some r)
    with 2 show ?thesis by auto
  qed
qed simp

lemma quita_etiquetas_id: "sin_etiquetas s \<Longrightarrow> quita_etiquetas s = s"
  by (induction s) (auto simp: hasta_mayor_None [symmetric])

lemma quita_bloques_id: "sin_etiquetas s \<Longrightarrow> quita_bloques s = s"
proof (induction s)
  case (Cons c s)
  then show ?case using bloque_mayor [of s] by (cases "bloque s") auto
qed simp

lemma sin_etiquetas_append: "sin_etiquetas (a @ s) \<Longrightarrow> sin_etiquetas s"
  by (induction a) auto

lemma sin_etiquetas_prefijo: "sin_etiquetas (a @ s) \<Longrightarrow> sin_etiquetas a"
  by (induction a) auto

lemma strip_partes: "\<exists>a b. s = a @ strip s @ b"
proof -
  let ?t = "dropWhile es_espacio s" let ?u = "dropWhile es_espacio (rev ?t)"
  have s: "takeWhile es_espacio s @ ?t = s" by simp
  have "takeWhile es_espacio (rev ?t) @ ?u = rev ?t" by simp
  then have "rev ?u @ rev (takeWhile es_espacio (rev ?t)) = ?t" by (metis rev_append rev_rev_ident)
  then have "?t = strip s @ rev (takeWhile es_espacio (rev ?t))" by (simp add: strip_def)
  with s show ?thesis by metis
qed

lemma sin_etiquetas_strip: "sin_etiquetas s \<Longrightarrow> sin_etiquetas (strip s)"
  using strip_partes [of s] by (metis sin_etiquetas_append sin_etiquetas_prefijo)

lemma set_tras: "tras p x = Some y \<Longrightarrow> set y \<subseteq> set x"
  by (induction p x rule: tras.induct) (auto split: if_splits)

lemma set_tras_primero: "tras_primero p x = Some y \<Longrightarrow> set y \<subseteq> set x"
proof (induction x)
  case (Cons a x)
  then show ?case using set_tras [of p "a # x" y] by (cases "tras p (a # x)") auto
qed (auto dest: set_tras)

lemma set_bloque: "bloque s = Some r \<Longrightarrow> set r \<subseteq> set s"
proof -
  have "set r \<subseteq> set s" if "bloque_de n s = Some r" for n
  proof -
    from that obtain t r' where "tras n s = Some t" "hasta_mayor t = Some r'" "tras_primero (''</'' @ n @ ''>'') r' = Some r"
      by (auto simp: bloque_de_def split: option.splits list.splits if_splits)
    then show ?thesis using set_tras set_hasta_mayor set_tras_primero by (metis order_trans)
  qed
  then show "bloque s = Some r \<Longrightarrow> set r \<subseteq> set s"
    by (auto simp: bloque_def split: option.splits)
qed

lemma set_quita_bloques: "set (quita_bloques s) \<subseteq> set s"
proof (induction s rule: quita_bloques.induct)
  case (2 c s)
  then show ?case using set_bloque [of s] by (cases "bloque s") auto
qed simp

lemma strip_strip [simp]: "strip (strip s) = strip s"
proof -
  let ?t = "dropWhile es_espacio s"
  have 1: "strip s = rev (dropWhile es_espacio (rev ?t))" by (simp add: strip_def)
  have "dropWhile es_espacio (strip s) = strip s"
  proof (cases "strip s")
    case (Cons c r)
    obtain b where "?t = strip s @ b"
    proof -
      have "takeWhile es_espacio (rev ?t) @ dropWhile es_espacio (rev ?t) = rev ?t" by simp
      then have "rev (dropWhile es_espacio (rev ?t)) @ rev (takeWhile es_espacio (rev ?t)) = ?t"
        by (metis rev_append rev_rev_ident)
      with 1 that show ?thesis by metis
    qed
    with Cons have "\<not> es_espacio c" by (metis append_Cons dropWhile_eq_Cons_conv)
    with Cons show ?thesis by simp
  qed simp
  moreover have "dropWhile es_espacio (rev (strip s)) = rev (strip s)" by (simp add: 1 dropWhile_idem)
  ultimately show ?thesis by (simp add: strip_def [of "strip s"])
qed

lemma sanitiza_sin_etiquetas: "sin_etiquetas (sanitiza s)"
  by (simp add: sanitiza_def sin_etiquetas_quita sin_etiquetas_strip)

lemma sanitiza_idem [simp]: "sanitiza (sanitiza s) = sanitiza s"
proof -
  have "CHR 0x00 \<notin> set (sanitiza s)"
    using set_strip [of "quita_etiquetas (quita_bloques (filter (\<lambda>c. c \<noteq> CHR 0x00) s))"]
      set_quita_etiquetas [of "quita_bloques (filter (\<lambda>c. c \<noteq> CHR 0x00) s)"]
      set_quita_bloques [of "filter (\<lambda>c. c \<noteq> CHR 0x00) s"] unfolding sanitiza_def by auto
  then have "filter (\<lambda>c. c \<noteq> CHR 0x00) (sanitiza s) = sanitiza s" by (intro filter_True) auto
  moreover have "strip (sanitiza s) = sanitiza s" by (simp add: sanitiza_def)
  ultimately show ?thesis
    using sanitiza_sin_etiquetas [of s] by (simp add: sanitiza_def [of "sanitiza s"] quita_etiquetas_id quita_bloques_id)
qed

lemma strip_sanitiza [simp]: "strip (sanitiza s) = sanitiza s"
  by (simp add: sanitiza_def)

end
