(* ===== verification/Cliente_Sfc.thy ===== *)
theory Cliente_Sfc
  imports Tareas Url Orquestador Esquema_Textos
begin

text \<open>
  \<^verbatim>\<open>app/integrations/sfc_client.py\<close>: the client of the SFC. The HTTP library is the function \<open>sf_http\<close>, which answers a
  request with a status and a body or raises \<open>ErrorRed\<close> (\<^verbatim>\<open>httpx.RequestError\<close>) or what the authentication raises; every
  request and its answer are an event of the log. The audit hooks are not kept.
\<close>

datatype peticion =
    Get string
  | Post string dict
  | Patch string dict
  | Archivo string string string string string

record cfg_sfc =
  sf_base :: string
  sf_reintentos :: nat
  sf_demora :: int
  sf_cargar :: "string \<Rightarrow> json option"
  sf_py_str :: "json \<Rightarrow> string"
  sf_matriz :: "regla list"
  sf_http :: "peticion \<Rightarrow> (int \<times> string) accion"

subsection \<open>Endpoints\<close>

definition ep_queja :: string where "ep_queja = ''/api/queja/''"
definition ep_storage :: string where "ep_storage = ''/api/storage/''"
definition ep_ack_complaint :: string where "ep_ack_complaint = ''/api/complaint/ack''"
definition ep_usuarios :: string where "ep_usuarios = ''/api/usuarios/info/''"
definition ep_usuarios_ack :: string where "ep_usuarios_ack = ''/api/usuarios/ack/''"

subsection \<open>One request\<close>

definition url_de :: "peticion \<Rightarrow> string" where
  "url_de p = (case p of Get u \<Rightarrow> u | Post u _ \<Rightarrow> u | Patch u _ \<Rightarrow> u | Archivo u _ _ _ _ \<Rightarrow> u)"

text \<open>What the log keeps of a request: the method, or the fields of the multipart form, and the body.\<close>

definition detalle_de :: "peticion \<Rightarrow> string list" where
  "detalle_de p =
     (case p of Get _ \<Rightarrow> [''GET''] | Post _ _ \<Rightarrow> [''POST''] | Patch _ _ \<Rightarrow> [''PATCH'']
      | Archivo _ codigo ext nombre _ \<Rightarrow> [''FILE'', codigo, ext, nombre])"

definition cuerpo_de :: "peticion \<Rightarrow> dict" where
  "cuerpo_de p = (case p of Post _ d \<Rightarrow> d | Patch _ d \<Rightarrow> d | _ \<Rightarrow> [])"

definition con_registro :: "peticion \<Rightarrow> (int \<times> string) accion \<Rightarrow> (int \<times> string) accion" where
  "con_registro p m =
     luego (intenta (luego m (\<lambda>r. devuelve (Inr r))) (\<lambda>e. devuelve (Inl e))) (\<lambda>x.
       luego (emite (Http (url_de p) (detalle_de p) (cuerpo_de p) (case x of Inl _ \<Rightarrow> None | Inr r \<Rightarrow> Some r)))
         (\<lambda>_. case x of Inl e \<Rightarrow> lanza e | Inr r \<Rightarrow> devuelve r))"

definition traduce_error :: "cfg_sfc \<Rightarrow> int \<Rightarrow> string \<Rightarrow> 'a tarea" where
  "traduce_error c st body = paso (procesar_y_lanzar (sf_cargar c) (sf_py_str c) (sf_matriz c) st body)"

definition llama :: "cfg_sfc \<Rightarrow> peticion \<Rightarrow> json tarea" where
  "llama c p =
     tintenta
       (tluego (paso (con_registro p (sf_http c p))) (\<lambda>(st, body).
          if st \<notin> {200, 201} then traduce_error c st body
          else case sf_cargar c body of
            Some j \<Rightarrow> tdevuelve j
          | None \<Rightarrow> tlanza (ValueError ''JSON'')))
       (\<lambda>e. case e of ErrorRed _ \<Rightarrow> traduce_error c 503 ''upstream request timeout'' | _ \<Rightarrow> tlanza e)"

subsection \<open>Throttling\<close>

definition mayuscula :: "char \<Rightarrow> char" where
  "mayuscula c = (let n = of_char c :: nat in if 97 \<le> n \<and> n \<le> 122 then char_of (n - 32) else c)"

definition es_respuesta_throttled :: "error_sfc \<Rightarrow> bool" where
  "es_respuesta_throttled e =
     (status_code e = 429
      \<or> map mayuscula (error_type e) \<in> {''THROTTLED_ERROR'', ''RATE_LIMIT_ERROR''}
      \<or> coincide ''throttled'' (lower (raw_message e))
      \<or> coincide ''quota'' (lower (raw_message e))
      \<or> coincide ''resource_exhausted'' (lower (raw_message e)))"

definition emitir_metrica_throttling :: "string \<Rightarrow> string \<Rightarrow> unit tarea" where
  "emitir_metrica_throttling endpoint res = paso (emite (Metrica ''throttle_count'' [endpoint, res]))"

definition tintenta_sfc :: "'a tarea \<Rightarrow> (error_sfc \<Rightarrow> 'a tarea) \<Rightarrow> 'a tarea" where
  "tintenta_sfc t h = tintenta t (\<lambda>x. case x of SfcIntegrationException e \<Rightarrow> h e | _ \<Rightarrow> tlanza x)"

text \<open>\<^verbatim>\<open>handle_sfc_throttling\<close>; the number counts the retries that are left.\<close>

primrec reintenta_throttling :: "cfg_sfc \<Rightarrow> string \<Rightarrow> nat \<Rightarrow> 'a tarea \<Rightarrow> 'a tarea" where
  "reintenta_throttling c n 0 t =
     tintenta_sfc t (\<lambda>e.
       if \<not> es_respuesta_throttled e then tlanza (SfcIntegrationException e)
       else tluego (emitir_metrica_throttling n ''exhausted'') (\<lambda>_. tlanza (SfcIntegrationException e)))"
| "reintenta_throttling c n (Suc k) t =
     tintenta_sfc t (\<lambda>e.
       if \<not> es_respuesta_throttled e then tlanza (SfcIntegrationException e)
       else tluego (emitir_metrica_throttling n ''retried'') (\<lambda>_.
              tluego (paso (duerme (sf_demora c))) (\<lambda>_. reintenta_throttling c n k t)))"

definition handle_sfc_throttling :: "cfg_sfc \<Rightarrow> string \<Rightarrow> 'a tarea \<Rightarrow> 'a tarea" where
  "handle_sfc_throttling c n t = reintenta_throttling c n (sf_reintentos c) t"

subsection \<open>The next page\<close>

definition error_ssrf_next :: "string \<Rightarrow> error_sfc" where
  "error_ssrf_next netloc =
     \<lparr>status_code = 400, error_type = ''SSRF_PROTECTION_ERROR'', sfc_field = Some ''url_next'',
      raw_message = ''La URL de paginaci'' @ con_tilde CHR ''o'' @ ''n devuelta por el servidor ('' @ [CHR 0x27] @ netloc
        @ [CHR 0x27] @ '') no coincide con la URL base de la SFC.'',
      crm_action = ''Contacte al equipo de soporte de la SFC para reportar la inconsistencia en los enlaces de paginaci''
        @ con_tilde CHR ''o'' @ ''n.''\<rparr>"

definition sanitizar_y_validar_next_url :: "cfg_sfc \<Rightarrow> string option \<Rightarrow> string option resultado" where
  "sanitizar_y_validar_next_url c raw =
     (case raw of
        None \<Rightarrow> Inr None
      | Some r \<Rightarrow>
          if strip r = [] then Inr None
          else ligar (urlparse (strip r)) (\<lambda>u. ligar (urlparse (sf_base c)) (\<lambda>b.
            if u_netloc u \<noteq> [] \<and> lower (u_netloc u) \<noteq> lower (u_netloc b)
            then Inl (SfcIntegrationException (error_ssrf_next (u_netloc u)))
            else Inr (Some (u_ruta u @ (if u_consulta u = [] then [] else ''?'' @ u_consulta u))))))"

definition destino :: "cfg_sfc \<Rightarrow> string option \<Rightarrow> string \<Rightarrow> string" where
  "destino c relativa ep =
     (let e = (case relativa of Some r \<Rightarrow> if r = [] then ep else r | None \<Rightarrow> ep)
      in if empieza ''/'' e then sf_base c @ e else sf_base c @ ''/'' @ e)"

definition trae_pagina :: "cfg_sfc \<Rightarrow> string \<Rightarrow> string option \<Rightarrow> json tarea" where
  "trae_pagina c ep siguiente =
     (case sanitizar_y_validar_next_url c siguiente of
        Inl e \<Rightarrow> tlanza e
      | Inr r \<Rightarrow> llama c (Get (destino c r ep)))"

definition fetch_quejas_pagina :: "cfg_sfc \<Rightarrow> string option \<Rightarrow> json tarea" where
  "fetch_quejas_pagina c siguiente =
     handle_sfc_throttling c ''fetch_quejas_pagina'' (trae_pagina c ep_queja siguiente)"

definition fetch_usuarios_pagina :: "cfg_sfc \<Rightarrow> string option \<Rightarrow> json tarea" where
  "fetch_usuarios_pagina c siguiente =
     handle_sfc_throttling c ''fetch_usuarios_pagina'' (trae_pagina c ep_usuarios siguiente)"

subsection \<open>The other requests\<close>

definition get_adjuntos_list :: "cfg_sfc \<Rightarrow> string \<Rightarrow> json tarea" where
  "get_adjuntos_list c codigo =
     handle_sfc_throttling c ''get_adjuntos_list''
       (llama c (Get (sf_base c @ ep_storage @ ''?codigo_queja__codigo_queja='' @ codigo)))"

definition send_ack_batch :: "cfg_sfc \<Rightarrow> string list \<Rightarrow> json tarea" where
  "send_ack_batch c ids =
     handle_sfc_throttling c ''send_ack_batch''
       (llama c (Post (sf_base c @ ep_ack_complaint) [(''pqrs'', JArr (map JStr ids))]))"

definition send_user_ack_batch :: "cfg_sfc \<Rightarrow> string list \<Rightarrow> json tarea" where
  "send_user_ack_batch c ids =
     handle_sfc_throttling c ''send_user_ack_batch''
       (llama c (Post (sf_base c @ ep_usuarios_ack) [(''numero_id_CF'', JArr (map JStr ids))]))"

definition post_nueva_queja :: "cfg_sfc \<Rightarrow> dict \<Rightarrow> json tarea" where
  "post_nueva_queja c payload =
     handle_sfc_throttling c ''post_nueva_queja'' (llama c (Post (sf_base c @ ep_queja) payload))"

definition put_actualizar_queja :: "cfg_sfc \<Rightarrow> string \<Rightarrow> dict \<Rightarrow> json tarea" where
  "put_actualizar_queja c codigo payload =
     handle_sfc_throttling c ''put_actualizar_queja'' (llama c (Patch (sf_base c @ ep_queja @ codigo @ ''/'') payload))"

text \<open>\<^verbatim>\<open>os.path.splitext\<close>\<close>

definition splitext :: "string \<Rightarrow> string \<times> string" where
  "splitext p =
     (let ext = takeWhile (\<lambda>c. c \<noteq> CHR ''.'' \<and> c \<noteq> CHR ''/'') (rev p)
      in case drop (length ext) (rev p) of
           [] \<Rightarrow> (p, [])
         | x # previos \<Rightarrow>
             if x = CHR ''.'' \<and> list_ex (\<lambda>c. c \<noteq> CHR ''.'') (takeWhile (\<lambda>c. c \<noteq> CHR ''/'') previos)
             then (rev previos, CHR ''.'' # rev ext) else (p, []))"

text \<open>\<^verbatim>\<open>s[:n]\<close>\<close>

definition corta :: "int \<Rightarrow> string \<Rightarrow> string" where
  "corta n s = recorta (if 0 \<le> n then nat n else caracteres s - nat (- n)) s"

definition nombre_de_envio :: "string \<Rightarrow> string" where
  "nombre_de_envio n =
     (if 150 < caracteres n
      then (case splitext n of (stem, ext) \<Rightarrow> corta (150 - int (caracteres ext)) stem @ ext) else n)"

definition post_adjunto_queja :: "cfg_sfc \<Rightarrow> string \<Rightarrow> string \<Rightarrow> string \<Rightarrow> string option \<Rightarrow> json tarea" where
  "post_adjunto_queja c codigo contenido ext nombre =
     (let n = (case nombre of Some x \<Rightarrow> if x = [] then ''soporte_'' @ codigo @ ''.'' @ ext else x
               | None \<Rightarrow> ''soporte_'' @ codigo @ ''.'' @ ext)
      in handle_sfc_throttling c ''post_adjunto_queja''
           (llama c (Archivo (sf_base c @ ep_storage) codigo ext (nombre_de_envio n) contenido)))"

end
