(* ===== verification/Adjuntos.thy ===== *)
theory Adjuntos
  imports Cliente_Sfc
begin

text \<open>
  \<^verbatim>\<open>app/services/s3_service.py\<close>: the attachments, from the SFC to the bucket (Momento 1) and from the bucket to the
  SFC (Momentos 2 and 3). The calls of boto3 and the download of a URL are functions of the record \<open>cfg_s3\<close>; the
  content of a file is a text of bytes. The transfers of a batch are tasks under a semaphore of five.
\<close>

text \<open>\<^verbatim>\<open>ClientError\<close> has a code; \<^verbatim>\<open>BotoCoreError\<close> and the other exceptions only their text.\<close>

datatype 'a boto = BOk 'a | BClient string string | BCore string | BOtra string

text \<open>A download: refused, or the header \<^verbatim>\<open>Content-Length\<close>, the chunks, and the failure that cut it.\<close>

datatype descarga = DFalla string | DFlujo "string option" "string list" "string option"

record cfg_s3 =
  s3_cliente :: bool
  s3_entorno :: string
  s3_bucket :: string
  s3_url_sfc :: string
  s3_py_str :: "json \<Rightarrow> string"
  s3_sha :: "string \<Rightarrow> string"
  s3_mb :: "nat \<Rightarrow> string"
  s3_head :: "string \<Rightarrow> string \<Rightarrow> nat boto accion"
  s3_baja :: "string \<Rightarrow> string \<Rightarrow> string boto accion"
  s3_objeto :: "string \<Rightarrow> string \<Rightarrow> string option accion"
  s3_pone :: "string \<Rightarrow> string \<Rightarrow> string \<Rightarrow> string \<Rightarrow> unit boto accion"
  s3_paginas :: "string \<Rightarrow> string \<Rightarrow> string list boto list accion"
  s3_url :: "string \<Rightarrow> descarga accion"

definition es_local :: "cfg_s3 \<Rightarrow> bool" where
  "es_local c = (s3_entorno c \<in> {''development'', ''local''})"

subsection \<open>Texts\<close>

primrec parte :: "char \<Rightarrow> string \<Rightarrow> string list" where
  "parte c [] = [[]]"
| "parte c (x # xs) = (if x = c then [] # parte c xs else (case parte c xs of [] \<Rightarrow> [[x]] | y # ys \<Rightarrow> (x # y) # ys))"

definition termina :: "string \<Rightarrow> string \<Rightarrow> bool" where
  "termina t s = empieza (rev t) (rev s)"

text \<open>\<^verbatim>\<open>s.replace(pat, "")\<close>\<close>

function sin_subtexto :: "string \<Rightarrow> string \<Rightarrow> string" where
  "sin_subtexto pat [] = []"
| "sin_subtexto pat (c # s) =
     (if pat \<noteq> [] \<and> empieza pat (c # s) then sin_subtexto pat (drop (length pat) (c # s)) else c # sin_subtexto pat s)"
  by pat_completeness auto
termination by (relation "measure (\<lambda>(pat, s). length s)") auto

definition cita :: "string \<Rightarrow> string" where
  "cita s = [CHR 0x27] @ s @ [CHR 0x27]"

abbreviation esta_t :: string where "esta_t \<equiv> ''est'' @ con_tilde CHR ''a''"
abbreviation limite_maximo_t :: string where
  "limite_maximo_t \<equiv> ''l'' @ con_tilde CHR ''i'' @ ''mite m'' @ con_tilde CHR ''a'' @ ''ximo''"

definition error_archivo :: "int \<Rightarrow> string \<Rightarrow> string \<Rightarrow> string \<Rightarrow> string \<Rightarrow> excepcion" where
  "error_archivo st et campo msg consejo =
     SfcIntegrationException \<lparr>status_code = st, error_type = et, sfc_field = Some campo, raw_message = msg, crm_action = consejo\<rparr>"

subsection \<open>Checks\<close>

definition limpiar_key :: "string \<Rightarrow> string" where
  "limpiar_key s = dropWhile (\<lambda>c. c = CHR ''/'') (strip s)"

definition mime_map :: "(string \<times> string \<times> string) list" where
  "mime_map =
     [(''application/pdf'', ''pdf'', ''application/pdf''), (''pdf'', ''pdf'', ''application/pdf''),
      (''image/png'', ''png'', ''image/png''), (''png'', ''png'', ''image/png''),
      (''image/jpeg'', ''jpg'', ''image/jpeg''), (''jpg'', ''jpg'', ''image/jpeg''),
      (''text/plain'', ''txt'', ''text/plain''), (''txt'', ''txt'', ''text/plain''),
      (''application/zip'', ''zip'', ''application/zip''), (''zip'', ''zip'', ''application/zip'')]"

text \<open>The URL is a text; \<open>None\<close> stands for another value that is true.\<close>

definition normalizar_tipo_archivo :: "string \<Rightarrow> string option \<Rightarrow> (string \<times> string) resultado" where
  "normalizar_tipo_archivo raw file_url =
     (let val = strip (lower raw); resto = (if val = [] then ''pdf'' else val) in
      case map_of mime_map val of
        Some r \<Rightarrow> Inr r
      | None \<Rightarrow>
          if CHR ''/'' \<in> set val
          then Inr (sin_subtexto ''x-'' (sin_subtexto ''vnd.'' (tras_ultimo CHR ''/'' val)), val)
          else case file_url of
            None \<Rightarrow> Inl (TypeError ''split'')
          | Some u \<Rightarrow>
              let final = tras_ultimo CHR ''/'' u; ext = lower (tras_ultimo CHR ''.'' final) in
              if CHR ''.'' \<in> set final \<and> caracteres ext \<le> 4 then Inr (ext, ''application/'' @ ext)
              else Inr (resto, ''application/'' @ resto))"

definition firmas :: "(string \<times> string) list" where
  "firmas =
     [(''pdf'', ''%PDF-''), (''png'', CHR 0x89 # ''PNG'' @ [CHR 0x0D, CHR 0x0A, CHR 0x1A, CHR 0x0A]),
      (''jpg'', [CHR 0xFF, CHR 0xD8, CHR 0xFF]), (''jpeg'', [CHR 0xFF, CHR 0xD8, CHR 0xFF]),
      (''zip'', ''PK'' @ [CHR 0x03, CHR 0x04])]"

definition archivo_vacio :: "string \<Rightarrow> string \<Rightarrow> excepcion" where
  "archivo_vacio nombre consejo =
     error_archivo 400 ''FILE_EMPTY_ERROR'' ''archivos_s3''
       (''El archivo '' @ cita nombre @ '' '' @ esta_t @ '' completamente vac'' @ con_tilde CHR ''i'' @ ''o (0 bytes).'') consejo"

definition validar_integridad_archivo :: "string \<Rightarrow> string \<Rightarrow> unit resultado" where
  "validar_integridad_archivo contenido nombre =
     (let ext = (if CHR ''.'' \<in> set nombre then strip (lower (tras_ultimo CHR ''.'' nombre)) else []) in
      if contenido = []
      then Inl (archivo_vacio nombre (''Verifique y cargue un archivo v'' @ con_tilde CHR ''a''
                  @ ''lido con contenido en S3 antes de reintentar.''))
      else case map_of firmas ext of
        None \<Rightarrow> Inr ()
      | Some f \<Rightarrow>
          if empieza f (take 1024 contenido) then Inr ()
          else Inl (error_archivo 400 ''CORRUPTED_OR_INVALID_FILE'' ''archivos_s3''
                 (''El archivo '' @ cita nombre @ '' '' @ esta_t @ '' corrupto o su contenido no corresponde a un formato ''
                   @ map mayuscula ext @ '' v'' @ con_tilde CHR ''a'' @ ''lido.'')
                 ''Verifique la integridad y formato real del archivo antes de subirlo a S3.''))"

definition dominios_permitidos :: "string list" where
  "dominios_permitidos = [''superfinanciera.gov.co'', ''storage.googleapis.com'']"

definition hosts_locales :: "string list" where
  "hosts_locales = [''localhost'', ''127.0.0.1'', ''minio'', ''mock-sfc'', ''unscanned'']"

definition bajo_dominio :: "string \<Rightarrow> string \<Rightarrow> bool" where
  "bajo_dominio d h = (h = d \<or> termina (CHR ''.'' # d) h)"

definition es_host_permitido_sfc :: "cfg_s3 \<Rightarrow> json \<Rightarrow> bool" where
  "es_host_permitido_sfc c url =
     (case url of
        JStr u \<Rightarrow>
          if u = [] then False
          else (case (urlparse u, urlparse (s3_url_sfc c)) of
                  (Inr p, b) \<Rightarrow>
                    let h = lower (hostname p) in
                    if h = [] then False
                    else (case b of
                            Inl _ \<Rightarrow> False
                          | Inr bp \<Rightarrow>
                              let bh = lower (hostname bp) in
                              (bh \<noteq> [] \<and> bajo_dominio bh h)
                              \<or> list_ex (\<lambda>d. bajo_dominio d h) dominios_permitidos
                              \<or> ((es_local c \<or> s3_entorno c = ''qa'') \<and> h \<in> set hosts_locales))
                | _ \<Rightarrow> False)
      | _ \<Rightarrow> False)"

definition segmentos :: "string \<Rightarrow> string list" where
  "segmentos s = filter (\<lambda>x. x \<noteq> []) (parte CHR ''/'' s)"

definition ajeno :: "string \<Rightarrow> string \<Rightarrow> string \<Rightarrow> excepcion" where
  "ajeno campo msg consejo = error_archivo 403 ''S3_KEY_OWNERSHIP_MISMATCH'' campo msg consejo"

text \<open>The folder that holds the file must be the case; an empty case is not checked.\<close>

definition validar_ownership_key :: "string \<Rightarrow> string \<Rightarrow> unit resultado" where
  "validar_ownership_key key case_id =
     (let ss = segmentos key in
      if case_id = [] \<or> (2 \<le> length ss \<and> ss ! (length ss - 2) = case_id) then Inr ()
      else Inl (ajeno ''s3_key'' (''La key '' @ cita key @ '' no corresponde al caso '' @ cita case_id @ ''.'')
             (''Verifique que los archivos referenciados (s3_key) pertenezcan al caso que se '' @ esta_t @ '' enviando.'')))"

definition validar_prefijo_pertenece_al_caso :: "string \<Rightarrow> string \<Rightarrow> unit resultado" where
  "validar_prefijo_pertenece_al_caso prefijo case_id =
     (let ss = segmentos prefijo in
      if case_id = [] \<or> (ss \<noteq> [] \<and> last ss = case_id) then Inr ()
      else Inl (ajeno ''directorio_s3'' (''El prefijo '' @ cita prefijo @ '' no corresponde al caso '' @ cita case_id @ ''.'')
             (''Verifique que '' @ cita ''directorio_s3'' @ '' apunte a la carpeta propia del caso que se '' @ esta_t @ '' enviando.'')))"

definition max_archivos_directorio_s3 :: nat where
  "max_archivos_directorio_s3 = 50"

definition verificar_cap_directorio :: "nat \<Rightarrow> string \<Rightarrow> unit resultado" where
  "verificar_cap_directorio cantidad prefijo =
     (if cantidad < max_archivos_directorio_s3 then Inr ()
      else Inl (error_archivo 400 ''CRM_PAYLOAD_VALIDATION_ERROR'' ''directorio_s3''
             (''El directorio '' @ cita prefijo @ '' contiene m'' @ con_tilde CHR ''a'' @ ''s de 50 archivos.'')
             (''Divida el env'' @ con_tilde CHR ''i'' @ ''o en lotes de m'' @ con_tilde CHR ''a'' @ ''ximo 50 adjuntos (mismo l''
               @ con_tilde CHR ''i'' @ ''mite que '' @ cita ''archivos_s3'' @ '').'')))"

subsection \<open>Reading from the bucket\<close>

definition validar_tamano_archivo :: "cfg_s3 \<Rightarrow> nat \<Rightarrow> string \<Rightarrow> nat \<Rightarrow> unit resultado" where
  "validar_tamano_archivo c tam nombre max_mb =
     (if tam = 0
      then Inl (archivo_vacio nombre (''Cargue un archivo v'' @ con_tilde CHR ''a'' @ ''lido con contenido en S3 antes de reintentar.''))
      else if max_mb * 1024 * 1024 < tam
      then Inl (error_archivo 400 ''FILE_SIZE_EXCEEDED'' ''archivos_s3''
             (''El archivo '' @ cita nombre @ '' ('' @ s3_mb c tam @ ''MB) supera el '' @ limite_maximo_t @ '' de ''
               @ str_nat max_mb @ ''MB.'')
             ''Comprima el documento antes de reintentar.'')
      else Inr ())"

definition s3_sin_cliente :: "string \<Rightarrow> string \<Rightarrow> excepcion" where
  "s3_sin_cliente msg consejo = error_archivo 500 ''INFRASTRUCTURE_ERROR'' ''s3_client'' msg consejo"

definition almacen_sin_cliente :: excepcion where
  "almacen_sin_cliente =
     s3_sin_cliente (''El cliente de almacenamiento S3 no '' @ esta_t @ '' inicializado en producci'' @ con_tilde CHR ''o'' @ ''n.'')
       (''Contactar al equipo de infraestructura para validar la configuraci'' @ con_tilde CHR ''o'' @ ''n de AWS S3.'')"

definition cabeceras_simuladas :: "(string \<times> string) list" where
  "cabeceras_simuladas =
     [(''pdf'', ''%PDF-1.4 Mock PDF content for local testing''),
      (''png'', CHR 0x89 # ''PNG'' @ [CHR 0x0D, CHR 0x0A, CHR 0x1A, CHR 0x0A] @ ''Mock PNG content''),
      (''jpg'', [CHR 0xFF, CHR 0xD8, CHR 0xFF] @ ''Mock JPG content''),
      (''jpeg'', [CHR 0xFF, CHR 0xD8, CHR 0xFF] @ ''Mock JPEG content''),
      (''zip'', ''PK'' @ [CHR 0x03, CHR 0x04] @ ''Mock ZIP content'')]"

definition escribir_mock_local_o_fallar :: "cfg_s3 \<Rightarrow> string \<Rightarrow> string resultado" where
  "escribir_mock_local_o_fallar c nombre =
     (if \<not> es_local c then Inl almacen_sin_cliente
      else let ext = (if CHR ''.'' \<in> set nombre then lower (tras_ultimo CHR ''.'' nombre) else ''pdf'')
           in Inr (case map_of cabeceras_simuladas ext of Some t \<Rightarrow> t | None \<Rightarrow> ''%PDF-1.4 Mock content default''))"

definition revisar_s3 :: string where
  "revisar_s3 = ''Revisar conectividad y estado del servicio de AWS S3.''"

definition fallo_s3 :: "string \<Rightarrow> excepcion" where
  "fallo_s3 msg = error_archivo 500 ''S3_INFRASTRUCTURE_ERROR'' ''archivos_s3'' msg revisar_s3"

definition metadata_de :: "string \<Rightarrow> string \<Rightarrow> nat boto \<Rightarrow> nat resultado" where
  "metadata_de key nombre r =
     (case r of
        BOk n \<Rightarrow> Inr n
      | BClient code txt \<Rightarrow>
          if code \<in> {''404'', ''NoSuchKey'', ''NotFound''}
          then Inl (error_archivo 404 ''S3_FILE_NOT_FOUND'' ''archivos_s3''
                 (''El archivo '' @ cita nombre @ '' (Key: '' @ cita key @ '') no existe en S3.'')
                 ''Verifique que el archivo haya sido cargado correctamente en S3.'')
          else if code \<in> {''403'', ''AccessDenied''}
          then Inl (error_archivo 500 ''S3_ACCESS_DENIED'' ''archivos_s3''
                 (''Acceso denegado al leer el archivo en S3 (Key: '' @ cita key @ '').'')
                 (''Verifique los permisos IAM del rol ECS sobre la pol'' @ con_tilde CHR ''i'' @ ''tica del bucket S3.''))
          else Inl (fallo_s3 (''Fallo de infraestructura en S3 ('' @ code @ ''): '' @ txt))
      | BCore txt \<Rightarrow> Inl (fallo_s3 (''Fallo de conectividad con S3: '' @ txt))
      | BOtra txt \<Rightarrow> Inl (RuntimeError txt))"

definition de_resultado :: "'a resultado \<Rightarrow> 'a tarea" where
  "de_resultado r = Listo r"

definition obtener_metadata_o_fallar :: "cfg_s3 \<Rightarrow> string \<Rightarrow> string \<Rightarrow> nat tarea" where
  "obtener_metadata_o_fallar c key nombre =
     tluego (paso (s3_head c (s3_bucket c) key)) (\<lambda>r. de_resultado (metadata_de key nombre r))"

text \<open>The download, and the second read when it brought nothing.\<close>

definition descargar :: "cfg_s3 \<Rightarrow> string \<Rightarrow> string boto accion" where
  "descargar c key =
     luego (s3_baja c (s3_bucket c) key) (\<lambda>r.
       case r of
         BOk t \<Rightarrow>
           if t \<noteq> [] then devuelve r
           else luego (intenta (s3_objeto c (s3_bucket c) key) (\<lambda>e. devuelve None))
                  (\<lambda>x. devuelve (BOk (case x of Some t' \<Rightarrow> t' | None \<Rightarrow> [])))
       | _ \<Rightarrow> devuelve r)"

definition descargado_de :: "string boto \<Rightarrow> string resultado" where
  "descargado_de r =
     (case r of
        BOk t \<Rightarrow> Inr t
      | BClient _ txt \<Rightarrow> Inl (fallo_s3 (''Fallo de infraestructura en S3 al descargar el archivo: '' @ txt))
      | BCore txt \<Rightarrow> Inl (fallo_s3 (''Fallo de infraestructura en S3 al descargar el archivo: '' @ txt))
      | BOtra txt \<Rightarrow> Inl (RuntimeError txt))"

definition descargar_a_tmp_file :: "cfg_s3 \<Rightarrow> string \<Rightarrow> string tarea" where
  "descargar_a_tmp_file c key = tluego (paso (descargar c key)) (\<lambda>r. de_resultado (descargado_de r))"

definition obtener_stream_archivo :: "cfg_s3 \<Rightarrow> string \<Rightarrow> string \<Rightarrow> string tarea" where
  "obtener_stream_archivo c s3_key case_id =
     (let key = limpiar_key s3_key; nombre = tras_ultimo CHR ''/'' key in
      tluego (de_resultado (validar_ownership_key key case_id)) (\<lambda>_.
        if \<not> s3_cliente c then de_resultado (escribir_mock_local_o_fallar c nombre)
        else tluego (obtener_metadata_o_fallar c key nombre) (\<lambda>tam.
               tluego (de_resultado (validar_tamano_archivo c tam nombre 30)) (\<lambda>_.
                 tluego (descargar_a_tmp_file c key) (\<lambda>contenido.
                   tluego (de_resultado (validar_integridad_archivo contenido nombre)) (\<lambda>_. tdevuelve contenido))))))"

subsection \<open>Writing to the bucket\<close>

definition texto_boto :: "'a boto \<Rightarrow> string" where
  "texto_boto r = (case r of BOk _ \<Rightarrow> [] | BClient _ t \<Rightarrow> t | BCore t \<Rightarrow> t | BOtra t \<Rightarrow> t)"

definition error_subida :: "string \<Rightarrow> excepcion" where
  "error_subida txt =
     error_archivo 500 ''S3_UPLOAD_ERROR'' ''archivos_s3'' (''No se pudo guardar la copia en S3: '' @ txt)
       ''Revisar permisos del bucket y conectividad con S3.''"

text \<open>The call that puts an object, noted in the log with its outcome.\<close>

definition con_subida :: "string \<Rightarrow> string \<Rightarrow> string \<Rightarrow> unit boto accion \<Rightarrow> unit boto accion" where
  "con_subida b key contenido m =
     luego m (\<lambda>r. luego (emite (Subida b key contenido (case r of BOk _ \<Rightarrow> True | _ \<Rightarrow> False))) (\<lambda>_. devuelve r))"

definition subir_bytes_archivo :: "cfg_s3 \<Rightarrow> string \<Rightarrow> string \<Rightarrow> string \<Rightarrow> string tarea" where
  "subir_bytes_archivo c s3_key contenido content_type =
     (let key = limpiar_key s3_key in
      if \<not> s3_cliente c then
        (if es_local c then tdevuelve key
         else tlanza (s3_sin_cliente (''El cliente S3 no '' @ esta_t @ '' inicializado en producci'' @ con_tilde CHR ''o'' @ ''n.'')
                        ''Contactar al equipo de infraestructura para validar AWS S3.''))
      else tluego (paso (con_subida (s3_bucket c) key contenido (s3_pone c (s3_bucket c) key contenido content_type))) (\<lambda>r.
             case r of BOk _ \<Rightarrow> tdevuelve key | _ \<Rightarrow> tlanza (error_subida (texto_boto r))))"

definition subir_stream_archivo :: "cfg_s3 \<Rightarrow> string \<Rightarrow> string \<Rightarrow> string \<Rightarrow> string tarea" where
  "subir_stream_archivo c s3_key contenido content_type = subir_bytes_archivo c s3_key contenido content_type"

subsection \<open>Listing a directory\<close>

definition ficha_archivo :: "string \<Rightarrow> string \<Rightarrow> string \<Rightarrow> json" where
  "ficha_archivo nombre key bucket =
     JObj [(''nombre_archivo'', JStr nombre), (''s3_key'', JStr key), (''bucket'', JStr bucket)]"

definition listar_mock_local :: "string \<Rightarrow> string \<Rightarrow> json list" where
  "listar_mock_local prefijo bucket =
     [ficha_archivo ''informe_pericial.pdf'' (prefijo @ ''informe_pericial.pdf'') bucket,
      ficha_archivo ''comprobante_pago.pdf'' (prefijo @ ''comprobante_pago.pdf'') bucket]"

fun agrega_claves :: "string \<Rightarrow> string \<Rightarrow> json list \<Rightarrow> string list \<Rightarrow> json list resultado" where
  "agrega_claves prefijo bucket acc [] = Inr acc"
| "agrega_claves prefijo bucket acc (k # ks) =
     (if termina ''/'' k then agrega_claves prefijo bucket acc ks
      else case verificar_cap_directorio (length acc) prefijo of
        Inl e \<Rightarrow> Inl e
      | Inr _ \<Rightarrow> agrega_claves prefijo bucket (acc @ [ficha_archivo (tras_ultimo CHR ''/'' k) k bucket]) ks)"

definition error_listado :: "string \<Rightarrow> string \<Rightarrow> excepcion" where
  "error_listado msg consejo = error_archivo 500 ''S3_LIST_ERROR'' ''archivos_s3'' msg consejo"

definition manejar_client_error_listado :: "string \<Rightarrow> string \<Rightarrow> string \<Rightarrow> json list resultado" where
  "manejar_client_error_listado code txt prefijo =
     (if code \<in> {''NoSuchBucket'', ''NoSuchKey'', ''NotFound'', ''404''} then Inr []
      else Inl (error_listado (''Error de infraestructura/permisos S3 al listar '' @ cita prefijo @ '': '' @ code @ '' - '' @ txt)
             ''Verificar conectividad S3 y permisos IAM (s3:ListBucket) sobre el bucket.''))"

definition error_inesperado_listado :: "string \<Rightarrow> string \<Rightarrow> excepcion" where
  "error_inesperado_listado prefijo txt =
     error_listado (''Error inesperado de almacenamiento S3 al listar '' @ cita prefijo @ '': '' @ txt)
       ''Revisar conectividad y logs de infraestructura S3.''"

text \<open>The pages in order, up to the first one that fails.\<close>

fun recorre_paginas :: "string \<Rightarrow> string \<Rightarrow> json list \<Rightarrow> string list boto list \<Rightarrow> json list resultado" where
  "recorre_paginas prefijo bucket acc [] = Inr acc"
| "recorre_paginas prefijo bucket acc (p # ps) =
     (case p of
        BOk ks \<Rightarrow> (case agrega_claves prefijo bucket acc ks of Inl e \<Rightarrow> Inl e | Inr acc' \<Rightarrow> recorre_paginas prefijo bucket acc' ps)
      | BClient code txt \<Rightarrow> manejar_client_error_listado code txt prefijo
      | BCore txt \<Rightarrow> Inl (error_inesperado_listado prefijo txt)
      | BOtra txt \<Rightarrow> Inl (error_inesperado_listado prefijo txt))"

definition prefijo_raiz :: excepcion where
  "prefijo_raiz =
     error_archivo 400 ''CRM_PAYLOAD_VALIDATION_ERROR'' ''directorio_s3''
       (''El campo '' @ cita ''directorio_s3'' @ '' no puede resolver a un prefijo vac'' @ con_tilde CHR ''i'' @ ''o o ra''
         @ con_tilde CHR ''i'' @ ''z del bucket.'')
       (''Verifique que '' @ cita ''directorio_s3'' @ '' apunte a la carpeta espec'' @ con_tilde CHR ''i'' @ ''fica del caso (ej. ''
         @ cita ''caso/{Case_id}/'' @ '').'')"

definition listar_archivos_en_directorio :: "cfg_s3 \<Rightarrow> string \<Rightarrow> string \<Rightarrow> json list tarea" where
  "listar_archivos_en_directorio c prefijo case_id =
     (let limpio = limpiar_key prefijo; final = (if termina ''/'' limpio then limpio else limpio @ ''/'') in
      if limpio = [] then tlanza prefijo_raiz
      else tluego (de_resultado (validar_prefijo_pertenece_al_caso limpio case_id)) (\<lambda>_.
        if \<not> s3_cliente c then
          (if es_local c then tdevuelve (listar_mock_local final (s3_bucket c)) else tlanza almacen_sin_cliente)
        else tluego (paso (s3_paginas c (s3_bucket c) final)) (\<lambda>ps.
               de_resultado (recorre_paginas final (s3_bucket c) [] ps))))"

subsection \<open>From the SFC to the bucket\<close>

definition max_descarga :: nat where
  "max_descarga = 30 * 1024 * 1024"

definition tamano_excedido :: "string \<Rightarrow> excepcion" where
  "tamano_excedido msg =
     error_archivo 400 ''FILE_SIZE_EXCEEDED'' ''archivos_s3'' msg
       (''Verifique el tama'' @ [CHR 0xC3, CHR 0xB1] @ ''o del archivo en la SFC.'')"

text \<open>The chunks as they arrive; the first one that passes the limit ends the download.\<close>

fun recibe_bloques :: "string \<Rightarrow> string \<Rightarrow> string list \<Rightarrow> string option \<Rightarrow> string resultado" where
  "recibe_bloques nombre acc [] corte = (case corte of None \<Rightarrow> Inr acc | Some t \<Rightarrow> Inl (ErrorRed t))"
| "recibe_bloques nombre acc (b # bs) corte =
     (if max_descarga < length (acc @ b)
      then Inl (tamano_excedido (''El archivo '' @ cita nombre @ '' super'' @ con_tilde CHR ''o'' @ '' el '' @ limite_maximo_t
             @ '' de 30MB durante la descarga en streaming.''))
      else recibe_bloques nombre (acc @ b) bs corte)"

definition recibido_de :: "cfg_s3 \<Rightarrow> string \<Rightarrow> descarga \<Rightarrow> string resultado" where
  "recibido_de c nombre r =
     (case r of
        DFalla t \<Rightarrow> Inl (ErrorRed t)
      | DFlujo largo bloques corte \<Rightarrow>
          (let anuncio = (case largo of Some l \<Rightarrow> if isdigit l then valor_digitos 0 l else 0 | None \<Rightarrow> 0) in
           if max_descarga < anuncio
           then Inl (tamano_excedido (''El archivo '' @ cita nombre @ '' ('' @ s3_mb c anuncio @ ''MB) supera el ''
                  @ limite_maximo_t @ '' de 30MB.''))
           else recibe_bloques nombre [] bloques corte))"

definition descargar_adjunto_streaming :: "cfg_s3 \<Rightarrow> string \<Rightarrow> string \<Rightarrow> string tarea" where
  "descargar_adjunto_streaming c u nombre =
     tluego (paso (s3_url c u)) (\<lambda>r. tluego (de_resultado (recibido_de c nombre r)) (\<lambda>contenido.
       tluego (paso (emite (Bajada u contenido))) (\<lambda>_. tdevuelve contenido)))"

definition validar_url_sfc_permitida :: "cfg_s3 \<Rightarrow> json \<Rightarrow> unit resultado" where
  "validar_url_sfc_permitida c u =
     (if es_host_permitido_sfc c u then Inr ()
      else Inl (error_archivo 400 ''SSRF_PROTECTION_ERROR'' ''archivos_s3''
             (''La URL de descarga de adjunto '' @ cita (str_de (s3_py_str c) u) @ '' no pertenece a un dominio permitido por la SFC.'')
             ''Verifique la URL del archivo adjunto provista por la SFC.''))"

definition url_de_adjunto :: "dict \<Rightarrow> json" where
  "url_de_adjunto d = o_bien (o_bien (obtener d ''file'') (obtener d ''url'')) (obtener d ''s3_url'')"

definition texto_o_nada :: "(json \<Rightarrow> string) \<Rightarrow> json \<Rightarrow> string" where
  "texto_o_nada py_str v = (if verdadero v then str_de py_str v else [])"

definition url_como_texto :: "json \<Rightarrow> string option" where
  "url_como_texto v = (if verdadero v then texto_opcional v else Some [])"

definition procesar_adjunto_sfc_a_s3 :: "cfg_s3 \<Rightarrow> json \<Rightarrow> string \<Rightarrow> json option tarea" where
  "procesar_adjunto_sfc_a_s3 c adj codigo =
     (case adj of
        JObj d \<Rightarrow>
          tluego (de_resultado (normalizar_tipo_archivo (texto_o_nada (s3_py_str c) (obtener d ''type'')) (url_como_texto (url_de_adjunto d))))
            (\<lambda>(ext, content_type).
              let file_id = obtener d ''id'';
                  nombre = (if verdadero file_id then str_de (s3_py_str c) file_id @ ''.'' @ ext
                            else ''adjunto_'' @ codigo @ ''.'' @ ext);
                  key = ''quejas/'' @ codigo @ ''/'' @ nombre;
                  ficha = ficha_archivo nombre key (s3_bucket c)
              in tintenta
                   (tluego (de_resultado (validar_url_sfc_permitida c (url_de_adjunto d))) (\<lambda>_.
                      tluego (descargar_adjunto_streaming c (texto_o_nada (s3_py_str c) (url_de_adjunto d)) nombre) (\<lambda>contenido.
                        tluego (de_resultado (validar_integridad_archivo contenido nombre)) (\<lambda>_.
                          tluego (subir_stream_archivo c key contenido content_type) (\<lambda>_. tdevuelve (Some ficha))))))
                   (\<lambda>e. case e of
                      SfcIntegrationException x \<Rightarrow> tlanza e
                    | _ \<Rightarrow> tdevuelve (if es_local c then Some ficha else None)))
      | _ \<Rightarrow> tlanza (TypeError ''get''))"

text \<open>What \<^verbatim>\<open>gather\<close> returned: exceptions and \<^verbatim>\<open>None\<close> are left out.\<close>

definition validos :: "'a option resultado list \<Rightarrow> 'a list" where
  "validos rs = List.map_filter (\<lambda>r. case r of Inr x \<Rightarrow> x | Inl _ \<Rightarrow> None) rs"

text \<open>\<open>turnos\<close> is the schedule of the event loop.\<close>

definition transferir_lote_sfc_a_s3 :: "cfg_s3 \<Rightarrow> nat list \<Rightarrow> string \<Rightarrow> json list \<Rightarrow> json list tarea" where
  "transferir_lote_sfc_a_s3 c turnos codigo adjuntos =
     (if adjuntos = [] then tdevuelve []
      else tluego (reune 5 turnos (map (\<lambda>a. procesar_adjunto_sfc_a_s3 c a codigo) adjuntos)) (\<lambda>rs. tdevuelve (validos rs)))"

subsection \<open>From the bucket to the SFC\<close>

text \<open>An attachment of the CRM: its key and its name; \<open>None\<close> when it has neither.\<close>

definition resolver_identidad_adjunto :: "dict \<Rightarrow> (string \<times> string) option" where
  "resolver_identidad_adjunto item =
     (let key = texto_o_vacio (texto_opcional (obtener item ''s3_key''));
          n1 = texto_o_vacio (texto_opcional (obtener item ''nombre_archivo''));
          n2 = texto_o_vacio (texto_opcional (obtener item ''nombre''));
          nombre = (if n1 \<noteq> [] then n1 else if n2 \<noteq> [] then n2 else tras_ultimo CHR ''/'' key)
      in if nombre = [] then None else Some (key, nombre))"

definition bytes_de :: "dict \<Rightarrow> string" where
  "bytes_de item = texto_o_vacio (texto_opcional (obtener item ''bytes''))"

definition identificador_archivo :: "(string \<Rightarrow> string) \<Rightarrow> dict \<Rightarrow> string option" where
  "identificador_archivo sha item =
     (case resolver_identidad_adjunto item of
        None \<Rightarrow> None
      | Some (key, nombre) \<Rightarrow>
          let base = (if key \<noteq> [] then key else nombre) in
          Some (if bytes_de item \<noteq> [] then base @ '':'' @ take 16 (sha (bytes_de item)) else base))"

definition obtener_contenido_adjunto :: "cfg_s3 \<Rightarrow> dict \<Rightarrow> string \<Rightarrow> string \<Rightarrow> string \<Rightarrow> string tarea" where
  "obtener_contenido_adjunto c item key case_id nombre =
     (if bytes_de item = [] then obtener_stream_archivo c key case_id
      else tluego (de_resultado (validar_integridad_archivo (bytes_de item) nombre)) (\<lambda>_. tdevuelve (bytes_de item)))"

record envio =
  en_codigo :: string
  en_hechos :: "string set"
  en_objetivo :: string
  en_afijo :: string
  en_masivo :: bool
  en_caso :: string

definition resolver_nombre_final_envio :: "string \<Rightarrow> envio \<Rightarrow> string \<Rightarrow> string" where
  "resolver_nombre_final_envio nombre x ext =
     (if (en_masivo x \<or> (en_objetivo x \<noteq> [] \<and> nombre = en_objetivo x)) \<and> en_afijo x \<noteq> [] \<and> \<not> contiene (en_afijo x) nombre
      then (if CHR ''.'' \<in> set nombre then antes_ultimo CHR ''.'' nombre else nombre) @ ''_'' @ en_afijo x @ ''.'' @ ext
      else nombre)"

definition emitir_metrica_adjunto :: "string \<Rightarrow> string \<Rightarrow> unit tarea" where
  "emitir_metrica_adjunto res categoria = paso (emite (Metrica ''adjunto_count'' [res, categoria]))"

text \<open>\<^verbatim>\<open>marcar_archivo_completado\<close> of the idempotency store, with each Redis command as a step.\<close>

definition marcar_archivo :: "string \<Rightarrow> string \<Rightarrow> unit tarea" where
  "marcar_archivo codigo archivo =
     tluego (paso hay_cliente) (\<lambda>hay.
       if \<not> hay then tdevuelve ()
       else tintenta
         (tluego (paso (redis_cmd (checkpoint_hset (get_checkpoint_key codigo) archivo))) (\<lambda>_.
            paso (redis_cmd (checkpoint_expire (get_checkpoint_key codigo) ttl_ms))))
         (\<lambda>e. tdevuelve ()))"

lemma corre_marcar_archivo: "corre (marcar_archivo codigo archivo) = marcar_archivo_completado codigo archivo"
  by (simp add: marcar_archivo_def marcar_archivo_completado_def if_distrib [of corre] cong: if_cong)

definition resultado_envio :: "string \<Rightarrow> string \<Rightarrow> json option \<Rightarrow> json" where
  "resultado_envio nombre estado resp =
     JObj ([(''file_name'', JStr nombre), (''status'', JStr estado)]
           @ (case resp of None \<Rightarrow> [] | Some r \<Rightarrow> [(''sfc_response'', r)]))"

definition enviar_adjunto_y_marcar_checkpoint ::
    "cfg_sfc \<Rightarrow> string \<Rightarrow> string \<Rightarrow> string \<Rightarrow> string \<Rightarrow> string \<Rightarrow> json tarea" where
  "enviar_adjunto_y_marcar_checkpoint cl codigo ident contenido ext nombre =
     tluego (post_adjunto_queja cl codigo contenido ext (Some nombre)) (\<lambda>resp.
       tluego (marcar_archivo codigo ident) (\<lambda>_. tdevuelve (resultado_envio nombre ''OK'' (Some resp))))"

definition manejar_duplicado_o_cerrado :: "error_sfc \<Rightarrow> string \<Rightarrow> string \<Rightarrow> string \<Rightarrow> json option tarea" where
  "manejar_duplicado_o_cerrado e codigo ident nombre =
     (if error_type e \<noteq> ''DUPLICATE_FILE'' then tdevuelve None
      else tluego (marcar_archivo codigo ident) (\<lambda>_. tdevuelve (Some (resultado_envio nombre ''DUPLICATE_OMITTED'' None))))"

text \<open>\<^verbatim>\<open>type(e).__name__\<close> of an exception that is not the service's own.\<close>

definition nombre_de_tipo :: "excepcion \<Rightarrow> string" where
  "nombre_de_tipo e =
     (case e of ErrorRedis \<Rightarrow> ''ConnectionError'' | ErrorLua \<Rightarrow> ''ResponseError'' | SfcIntegrationException _ \<Rightarrow> ''SfcIntegrationException''
      | HTTPException _ _ \<Rightarrow> ''HTTPException'' | RuntimeError _ \<Rightarrow> ''RuntimeError'' | ValueError _ \<Rightarrow> ''ValueError''
      | KeyError _ \<Rightarrow> ''KeyError'' | TypeError _ \<Rightarrow> ''TypeError'' | ErrorRed _ \<Rightarrow> ''RequestError'' | ErrorValidacion _ \<Rightarrow> ''ValidationError'')"

definition enviar_uno :: "cfg_s3 \<Rightarrow> cfg_sfc \<Rightarrow> envio \<Rightarrow> dict \<Rightarrow> string \<Rightarrow> string \<Rightarrow> string \<Rightarrow> json option tarea" where
  "enviar_uno c cl x item key nombre ident =
     (let ext = (if CHR ''.'' \<in> set nombre then tras_ultimo CHR ''.'' nombre else ''pdf'') in
      tintenta
        (tluego (obtener_contenido_adjunto c item key (en_caso x) nombre) (\<lambda>contenido.
           tluego (enviar_adjunto_y_marcar_checkpoint cl (en_codigo x) ident contenido ext (resolver_nombre_final_envio nombre x ext)) (\<lambda>r.
             tluego (emitir_metrica_adjunto ''success'' ''N/A'') (\<lambda>_. tdevuelve (Some r)))))
        (\<lambda>ex. case ex of
           SfcIntegrationException e \<Rightarrow>
             tluego (manejar_duplicado_o_cerrado e (en_codigo x) ident nombre) (\<lambda>res.
               case res of
                 Some r \<Rightarrow> tluego (emitir_metrica_adjunto ''skipped_duplicate_or_closed'' ''N/A'') (\<lambda>_. tdevuelve (Some r))
               | None \<Rightarrow>
                   tluego (emitir_metrica_adjunto ''error'' (if error_type e = [] then ''UNKNOWN_SFC_ERROR'' else error_type e))
                     (\<lambda>_. tlanza ex))
         | _ \<Rightarrow> tluego (emitir_metrica_adjunto ''error'' (nombre_de_tipo ex)) (\<lambda>_. tlanza ex)))"

definition procesar_envio_s3_a_sfc :: "cfg_s3 \<Rightarrow> cfg_sfc \<Rightarrow> envio \<Rightarrow> dict \<Rightarrow> json option tarea" where
  "procesar_envio_s3_a_sfc c cl x item =
     (case (resolver_identidad_adjunto item, identificador_archivo (s3_sha c) item) of
        (Some (key, nombre), Some ident) \<Rightarrow>
          if ident \<in> en_hechos x
          then tluego (emitir_metrica_adjunto ''skipped_checkpoint'' ''N/A'')
                 (\<lambda>_. tdevuelve (Some (resultado_envio nombre ''ALREADY_CONFIRMED_CHECKPOINT'' None)))
          else enviar_uno c cl x item key nombre ident
      | _ \<Rightarrow> tdevuelve None)"

text \<open>After \<^verbatim>\<open>gather\<close>: the first exception in the order of the batch, or what was sent.\<close>

fun primera_excepcion :: "'a option resultado list \<Rightarrow> 'a list resultado" where
  "primera_excepcion [] = Inr []"
| "primera_excepcion (r # rs) =
     (case r of
        Inl e \<Rightarrow> Inl e
      | Inr v \<Rightarrow> (case primera_excepcion rs of Inl e \<Rightarrow> Inl e | Inr xs \<Rightarrow> Inr ((case v of None \<Rightarrow> [] | Some y \<Rightarrow> [y]) @ xs)))"

definition objeto_de :: "json \<Rightarrow> dict" where
  "objeto_de j = (case j of JObj d \<Rightarrow> d | _ \<Rightarrow> [])"

definition transferir_lote_s3_a_sfc ::
    "cfg_s3 \<Rightarrow> cfg_sfc \<Rightarrow> nat list \<Rightarrow> string \<Rightarrow> json list \<Rightarrow> string \<Rightarrow> string \<Rightarrow> bool \<Rightarrow> string \<Rightarrow> json list tarea" where
  "transferir_lote_s3_a_sfc c cl turnos codigo adjuntos objetivo afijo masivo case_id =
     (if adjuntos = [] then tdevuelve []
      else tluego (paso (obtener_archivos_completados codigo)) (\<lambda>hechos.
        let x = \<lparr>en_codigo = codigo, en_hechos = hechos, en_objetivo = objetivo, en_afijo = afijo, en_masivo = masivo, en_caso = case_id\<rparr>
        in tluego (reune 5 turnos (map (\<lambda>j. procesar_envio_s3_a_sfc c cl x (objeto_de j)) adjuntos))
             (\<lambda>rs. de_resultado (primera_excepcion rs))))"

end
