(* ===== verification/Momentos.thy ===== *)
theory Momentos
  imports Adjuntos
begin

text \<open>
  \<^verbatim>\<open>app/services/momento_2_sync.py\<close> and \<^verbatim>\<open>app/services/momento_3_sync.py\<close>: a complaint sent to the SFC and the
  follow-up, fraud and closing of a complaint, as tasks over the mapper, the SFC client and the attachments. The payload is the
  dump of the validated complaint. Parameters: the text of an email thread (\<open>mo_texto\<close>: BeautifulSoup and regular expressions)
  and the PDF (\<open>mo_pdf\<close>: pypdf); \<open>mo_turnos\<close> is the schedule of the event loop in the batch of the PDF (0) and of the
  attachments (1).
\<close>

record cfg_momentos =
  mo_s3 :: cfg_s3
  mo_sfc :: cfg_sfc
  mo_py_str :: "json \<Rightarrow> string"
  mo_trunca :: "string \<Rightarrow> int option"
  mo_redondea :: "json \<Rightarrow> int option"
  mo_prefijo :: string
  mo_mapeador :: mapeador
  mo_ahora :: "int \<Rightarrow> instante"
  mo_texto :: "string \<Rightarrow> string"
  mo_pdf :: "string \<Rightarrow> string \<Rightarrow> string \<Rightarrow> string resultado"
  mo_turnos :: "nat \<Rightarrow> nat list"

definition mapea :: "cfg_momentos \<Rightarrow> int \<Rightarrow> dict \<Rightarrow> nat \<Rightarrow> dict tarea" where
  "mapea c t p momento =
     de_resultado (crm_entity_to_sfc_payload (mo_py_str c) (mo_trunca c) (mo_redondea c) (mo_prefijo c) (mo_mapeador c)
       (mo_ahora c t) (EDict p) momento)"

definition avisa_si_desconocido :: "error_sfc \<Rightarrow> unit tarea" where
  "avisa_si_desconocido e =
     (if error_type e = ''UNKNOWN_SFC_ERROR''
      then paso (emite (Correo ''error_no_mapeado'' (str_exc (SfcIntegrationException e)))) else tdevuelve ())"

subsection \<open>Momento 2\<close>

definition frases_colision_funcional :: "string list" where
  "frases_colision_funcional = [''mismo motivo'', ''mismo producto'', ''verifique el motivo'', ''already_exist'']"

definition es_error_queja_ya_existe_m2 :: "string \<Rightarrow> string \<Rightarrow> bool" where
  "es_error_queja_ya_existe_m2 exc_raw_msg error_tipo =
     (let msg = lower exc_raw_msg in
      if error_tipo = ''ALREADY_EXISTS'' then True
      else if list_ex (\<lambda>f. contiene f msg) frases_colision_funcional then False
      else list_ex (\<lambda>k. contiene k msg) [''ya existe'', ''already exists'', ''registrado en la sfc''])"

definition smart_code_ausente :: error_sfc where
  "smart_code_ausente =
     \<lparr>status_code = 400, error_type = ''CRM_PAYLOAD_VALIDATION_ERROR'', sfc_field = Some ''Smart_Code__c'',
      raw_message = ''Falta el campo obligatorio '' @ cita ''Smart_Code__c'' @ '' en el payload de la petici'' @ con_tilde CHR ''o'' @ ''n.'',
      crm_action = ''Verifique que el caso contenga un '' @ cita ''Smart_Code__c'' @ '' v'' @ con_tilde CHR ''a'' @ ''lido antes de despachar.''\<rparr>"

definition crear_queja_o_tolerar_duplicado :: "cfg_momentos \<Rightarrow> dict \<Rightarrow> unit tarea" where
  "crear_queja_o_tolerar_duplicado c payload =
     tintenta_sfc (tluego (post_nueva_queja (mo_sfc c) payload) (\<lambda>_. tdevuelve ()))
       (\<lambda>e. if es_error_queja_ya_existe_m2 (raw_message e) (error_type e) then tdevuelve ()
            else tlanza (SfcIntegrationException e))"

text \<open>The attachments: those of the payload, or else the listing of its directory.\<close>

definition archivos_de_m2 :: "cfg_momentos \<Rightarrow> dict \<Rightarrow> json list tarea" where
  "archivos_de_m2 c p =
     (if archivos_s3 p = [] \<and> texto_en p ''directorio_s3'' \<noteq> []
      then listar_archivos_en_directorio (mo_s3 c) (texto_en p ''directorio_s3'') (caso_s3_de p)
      else tdevuelve (archivos_s3 p))"

text \<open>\<^verbatim>\<open>SfcNuevaQuejaPayload\<close> keeps the arguments: the mapper has given each of them its type.\<close>

definition radicada :: "string \<Rightarrow> dict" where
  "radicada smart_code =
     [(''status'', JStr ''success''),
      (''message'', JStr (''Queja procesada correctamente en la SFC (Radicaci'' @ con_tilde CHR ''o'' @ ''n confirmada)'')),
      (''Smart_Code__c'', JStr smart_code)]"

definition ejecutar_envio_momento_2 :: "cfg_momentos \<Rightarrow> dict \<Rightarrow> dict tarea" where
  "ejecutar_envio_momento_2 c p =
     (let smart_code = smart_code_de p in
      if smart_code = [] then tlanza (SfcIntegrationException smart_code_ausente)
      else tintenta_sfc
        (tluego (paso ahora) (\<lambda>t. tluego (mapea c t p 2) (\<lambda>sfc_raw.
           tluego (archivos_de_m2 c p) (\<lambda>archivos.
             tluego (crear_queja_o_tolerar_duplicado c (AList.update ''codigo_queja'' (JStr smart_code) sfc_raw)) (\<lambda>_.
               tluego (transferir_lote_s3_a_sfc (mo_s3 c) (mo_sfc c) (mo_turnos c 1) smart_code archivos [] [] False (caso_s3_de p))
                 (\<lambda>_. tdevuelve (radicada smart_code)))))))
        (\<lambda>e. tluego (avisa_si_desconocido e) (\<lambda>_. tlanza (SfcIntegrationException e))))"

subsection \<open>Momento 3: the payload\<close>

definition afijo_fraude :: string where "afijo_fraude = ''INV_FRAUDE_SFC''"
definition afijo_respuesta :: string where "afijo_respuesta = ''RESP_FINAL_SFC''"

definition determinar_sub_operacion :: "bool \<Rightarrow> string \<Rightarrow> string" where
  "determinar_sub_operacion generar_pdf afijo =
     (if generar_pdf then ''cierre'' else if afijo = afijo_fraude then ''fraude'' else ''actualizacion'')"

definition pon :: "(string \<times> json) list \<Rightarrow> dict \<Rightarrow> dict" where
  "pon kvs d = foldl (\<lambda>m (k, v). AList.update k v m) d kvs"

definition aplicar_estado_inicial_sfc :: "instante \<Rightarrow> bool \<Rightarrow> dict \<Rightarrow> dict" where
  "aplicar_estado_inicial_sfc i generar_pdf d =
     (if generar_pdf
      then (let d1 = pon [(''estado_cod'', JInt 4), (''documentacion_rta_final'', JBool False)] d in
            if verdadero (obtener d1 ''fecha_cierre'') then d1 else AList.update ''fecha_cierre'' (JStr (segundos_texto i)) d1)
      else pon [(''estado_cod'', JInt 2), (''fecha_cierre'', JNull), (''documentacion_rta_final'', JBool False),
                (''a_favor_de'', JNull), (''aceptacion_queja'', JNull)] d)"

definition sfc_defaults :: "(string \<times> int) list" where
  "sfc_defaults =
     [(''condicion_especial'', 98), (''queja_expres'', 2), (''tutela'', 2), (''ente_control'', 99), (''producto_digital'', 1),
      (''admision'', 1), (''desistimiento_queja'', 2)]"

definition aplicar_defaults_finales_sfc :: "string \<Rightarrow> dict \<Rightarrow> dict \<Rightarrow> dict" where
  "aplicar_defaults_finales_sfc afijo crm d =
     (let es_fraude = (afijo = afijo_fraude \<or> obtener crm ''tipo_fraude__c'' \<noteq> JNull \<or> obtener crm ''modalidad_fraude__c'' \<noteq> JNull);
          d1 = (if es_fraude then d
                else pon [(''tipo_fraude'', JNull), (''modalidad_fraude'', JNull), (''monto_reclamado'', JNull), (''monto_reconocido'', JNull)] d)
      in foldl (\<lambda>m (k, n). if obtener m k = JNull then AList.update k (JInt n) m else m) d1 sfc_defaults)"

definition sin_nulos :: "dict \<Rightarrow> dict" where
  "sin_nulos d = filter (\<lambda>(k, v). v \<noteq> JNull) d"

text \<open>From the end of the transfers to the request: the keys that the pipeline sets, the defaults and the model.\<close>

definition payload_final_m3 :: "cfg_momentos \<Rightarrow> instante \<Rightarrow> dict \<Rightarrow> string \<Rightarrow> bool \<Rightarrow> dict \<Rightarrow> dict resultado" where
  "payload_final_m3 c i p afijo pdf_ok d =
     (let d1 = pon [(''codigo_queja'', JStr (smart_code_de p)), (''anexo_queja'', JBool (pdf_ok \<or> archivos_s3 p \<noteq> [])),
                    (''fecha_actualizacion'', JStr (segundos_texto i))] d;
          d2 = (if pdf_ok then AList.update ''documentacion_rta_final'' (JBool True) d1 else d1)
      in ligar (valida_actualizacion (mo_redondea c) (aplicar_defaults_finales_sfc afijo p d2)) (\<lambda>v. Inr (sin_nulos v)))"

subsection \<open>Momento 3: the final answer\<close>

definition nombre_pdf :: "string \<Rightarrow> string" where
  "nombre_pdf case_id = ''Respuesta_Final_'' @ case_id @ ''_RESP_FINAL_SFC.pdf''"

definition clave_pdf :: "string \<Rightarrow> string" where
  "clave_pdf case_id = ''caso/'' @ case_id @ ''/'' @ nombre_pdf case_id"

definition respuesta_generica :: string where
  "respuesta_generica = ''Se emite respuesta formal y cierre definitivo al caso de reclamaci'' @ con_tilde CHR ''o'' @ ''n.''"

definition job_parsing_y_renderizado :: "cfg_momentos \<Rightarrow> string \<Rightarrow> string \<Rightarrow> string \<Rightarrow> string resultado" where
  "job_parsing_y_renderizado c case_id cuerpo cliente =
     (let texto = mo_texto c cuerpo in mo_pdf c cliente case_id (if strip texto = [] then respuesta_generica else texto))"

definition adjunto_pdf :: "string \<Rightarrow> string \<Rightarrow> json" where
  "adjunto_pdf case_id contenido =
     JObj [(''nombre_archivo'', JStr (nombre_pdf case_id)), (''s3_key'', JStr (clave_pdf case_id)), (''bytes'', JStr contenido)]"

definition generar_y_enviar_pdf_respuesta_final :: "cfg_momentos \<Rightarrow> string \<Rightarrow> string \<Rightarrow> string \<Rightarrow> string \<Rightarrow> unit tarea" where
  "generar_y_enviar_pdf_respuesta_final c case_id sfc_code cuerpo cliente =
     tluego (de_resultado (job_parsing_y_renderizado c case_id cuerpo cliente)) (\<lambda>contenido.
       tluego (tintenta (subir_bytes_archivo (mo_s3 c) (clave_pdf case_id) contenido ''application/pdf'') (\<lambda>e. tdevuelve [])) (\<lambda>_.
         tluego (transferir_lote_s3_a_sfc (mo_s3 c) (mo_sfc c) (mo_turnos c 0) sfc_code [adjunto_pdf case_id contenido] [] [] False case_id)
           (\<lambda>_. tdevuelve ())))"

subsection \<open>Momento 3: the pipeline\<close>

text \<open>The latency is not kept.\<close>

definition emitir_metrica_m3 :: "string \<Rightarrow> bool \<Rightarrow> string \<Rightarrow> string \<Rightarrow> unit tarea" where
  "emitir_metrica_m3 sub con_adjuntos res categoria =
     tluego (paso (emite (Metrica ''m3_count'' [res, categoria, sub]))) (\<lambda>_.
       if con_adjuntos then paso (emite (Metrica ''m3_count'' [res, categoria, ''adjunto''])) else tdevuelve ())"

definition actualizado :: "string \<Rightarrow> bool \<Rightarrow> dict" where
  "actualizado smart_code generar_pdf =
     [(''status'', JStr ''success''),
      (''message'', JStr (''Caso '' @ smart_code @ '' actualizado en M3 (Estado SFC '' @ (if generar_pdf then ''4'' else ''2'') @ '')'')),
      (''codigo_queja_sfc'', JStr smart_code)]"

definition categoria_m3 :: "excepcion \<Rightarrow> string" where
  "categoria_m3 e =
     (case e of
        SfcIntegrationException x \<Rightarrow> if error_type x = [] then ''UNKNOWN_SFC_ERROR'' else error_type x
      | ErrorRed _ \<Rightarrow> ''NETWORK_ERROR'' | ErrorValidacion _ \<Rightarrow> ''VALIDATION_ERROR'' | _ \<Rightarrow> ''UNCONTROLLED_ERROR'')"

definition cuerpo_momento_3 :: "cfg_momentos \<Rightarrow> dict \<Rightarrow> string \<Rightarrow> bool \<Rightarrow> bool \<Rightarrow> dict \<Rightarrow> json tarea" where
  "cuerpo_momento_3 c p afijo generar_pdf masivo d =
     (let con_pdf = (generar_pdf \<and> texto_en p ''cuerpo_respuesta_final'' \<noteq> []) in
      tluego (if con_pdf
              then generar_y_enviar_pdf_respuesta_final c (caso_s3_de p) (smart_code_de p) (texto_en p ''cuerpo_respuesta_final'')
                     (str_de (mo_py_str c) (obtener p ''SuppliedName''))
              else tdevuelve ()) (\<lambda>_.
        tluego (transferir_lote_s3_a_sfc (mo_s3 c) (mo_sfc c) (mo_turnos c 1) (smart_code_de p) (archivos_s3 p) [] afijo masivo (caso_s3_de p)) (\<lambda>_.
          tluego (paso ahora) (\<lambda>t.
            tluego (de_resultado (payload_final_m3 c (mo_ahora c t) p afijo con_pdf d)) (\<lambda>payload.
              put_actualizar_queja (mo_sfc c) (smart_code_de p) payload)))))"

text \<open>The pipeline around the request: success and failure are counted, an unknown error is alerted.\<close>

definition orquestar_pipeline_momento_3 :: "cfg_momentos \<Rightarrow> dict \<Rightarrow> string \<Rightarrow> bool \<Rightarrow> bool \<Rightarrow> dict tarea" where
  "orquestar_pipeline_momento_3 c p afijo generar_pdf masivo =
     (let sub = determinar_sub_operacion generar_pdf afijo; con_adjuntos = (archivos_s3 p \<noteq> []) in
      tluego (paso ahora) (\<lambda>t. tluego (mapea c t p 3) (\<lambda>sfc_raw.
        tintenta
          (tluego (cuerpo_momento_3 c p afijo generar_pdf masivo (aplicar_estado_inicial_sfc (mo_ahora c t) generar_pdf sfc_raw)) (\<lambda>_.
             tluego (emitir_metrica_m3 sub con_adjuntos ''success'' ''N/A'') (\<lambda>_.
               tdevuelve (actualizado (smart_code_de p) generar_pdf))))
          (\<lambda>e. tluego (case e of SfcIntegrationException x \<Rightarrow> avisa_si_desconocido x | _ \<Rightarrow> tdevuelve ()) (\<lambda>_.
             tluego (emitir_metrica_m3 sub con_adjuntos ''error'' (categoria_m3 e)) (\<lambda>_. tlanza e))))))"

definition ejecutar_actualizacion_tramite :: "cfg_momentos \<Rightarrow> dict \<Rightarrow> dict tarea" where
  "ejecutar_actualizacion_tramite c p = orquestar_pipeline_momento_3 c p [] False False"

definition ejecutar_gestion_fraude :: "cfg_momentos \<Rightarrow> dict \<Rightarrow> dict tarea" where
  "ejecutar_gestion_fraude c p = orquestar_pipeline_momento_3 c p afijo_fraude False True"

definition ejecutar_cierre_definitivo :: "cfg_momentos \<Rightarrow> dict \<Rightarrow> dict tarea" where
  "ejecutar_cierre_definitivo c p = orquestar_pipeline_momento_3 c p afijo_respuesta True False"

text \<open>The services of the orchestrator.\<close>

definition servicios_reales :: "cfg_momentos \<Rightarrow> (dict \<Rightarrow> dict accion) \<Rightarrow> servicios" where
  "servicios_reales c validar =
     \<lparr>sv_m2 = (\<lambda>p. corre (ejecutar_envio_momento_2 c p)), sv_fraude = (\<lambda>p. corre (ejecutar_gestion_fraude c p)),
      sv_cierre = (\<lambda>p. corre (ejecutar_cierre_definitivo c p)), sv_tramite = (\<lambda>p. corre (ejecutar_actualizacion_tramite c p)),
      sv_listar = (\<lambda>pre caso. corre (listar_archivos_en_directorio (mo_s3 c) pre caso)), sv_validar = validar\<rparr>"

end
