(* ===== verification/Movimientos.thy ===== *)
theory Movimientos
  imports Momentos
begin

text \<open>
  One walk over the code of the client, the attachments and Momentos 2 and 3 for every relation between the worlds before and
  after a step: the locale \<open>movimiento\<close> asks for the primitive steps and gives the composed tasks. Its interpretations: the
  steps of the queue machine (Redis), and the events that a task may write in the log.
\<close>

definition sfc_mueve :: "(mundo \<Rightarrow> mundo \<Rightarrow> bool) \<Rightarrow> cfg_sfc \<Rightarrow> peticion set \<Rightarrow> bool" where
  "sfc_mueve G cl A = (\<forall>p \<in> A. mueve G (paso (con_registro p (sf_http cl p))))"

definition s3_mueve :: "(mundo \<Rightarrow> mundo \<Rightarrow> bool) \<Rightarrow> cfg_s3 \<Rightarrow> bool" where
  "s3_mueve G c =
     ((\<forall>b k. mueve G (paso (s3_head c b k)) \<and> mueve G (paso (descargar c k)) \<and> mueve G (paso (s3_paginas c b k)))
      \<and> (\<forall>b k t u. mueve G (paso (con_subida b k t (s3_pone c b k t u)))) \<and> (\<forall>u. mueve G (paso (s3_url c u))))"

locale movimiento =
  fixes G :: "mundo \<Rightarrow> mundo \<Rightarrow> bool"
  assumes metrica: "mueve G (paso (emite (Metrica nombre dims)))"
    and correo: "mueve G (paso (emite (Correo clase texto)))"
    and reloj: "mueve G (paso ahora)" and espera: "mueve G (paso (duerme ms))" and cliente: "mueve G (paso hay_cliente)"
    and lectura: "mueve G (paso (obtener_archivos_completados codigo))"
    and marca: "mueve G (paso (redis_cmd (checkpoint_hset k f)))"
    and plazo: "mueve G (paso (redis_cmd (checkpoint_expire k px)))"
    and traduce: "mueve G (paso (procesar_y_lanzar cargar pstr mz st body :: json accion))"
begin

lemma resultado: "mueve G (de_resultado r)"
  by (simp add: de_resultado_def m_listo)

lemma llamada: "sfc_mueve G cl A \<Longrightarrow> p \<in> A \<Longrightarrow> mueve G (llama cl p)"
  unfolding llama_def traduce_error_def
  by (auto simp: sfc_mueve_def intro!: mueve_reglas traduce split: prod.split option.split excepcion.split)

lemma throttling: "mueve G t \<Longrightarrow> mueve G (reintenta_throttling cl n m t)"
  by (induction m)
    (auto simp: tintenta_sfc_def emitir_metrica_throttling_def intro!: mueve_reglas metrica espera split: excepcion.split)

lemma regulada: "mueve G t \<Longrightarrow> mueve G (handle_sfc_throttling cl n t)"
  by (simp add: handle_sfc_throttling_def throttling)

lemma adjunto:
  "sfc_mueve G cl A \<Longrightarrow> (\<And>e n t. Archivo (sf_base cl @ ep_storage) codigo e n t \<in> A) \<Longrightarrow>
   mueve G (post_adjunto_queja cl codigo contenido ext nombre)"
  unfolding post_adjunto_queja_def Let_def by (rule regulada, rule llamada) auto

lemma marcado: "mueve G (marcar_archivo codigo archivo)"
  unfolding marcar_archivo_def by (auto intro!: mueve_reglas cliente marca plazo)

lemma contenido:
  assumes "s3_mueve G c" shows "mueve G (obtener_contenido_adjunto c item key caso nombre)"
  using assms unfolding obtener_contenido_adjunto_def obtener_stream_archivo_def obtener_metadata_o_fallar_def descargar_a_tmp_file_def Let_def
  by (auto simp: s3_mueve_def intro!: mueve_reglas resultado)

lemma envio:
  assumes "s3_mueve G c" "sfc_mueve G cl A" "\<And>e n t. Archivo (sf_base cl @ ep_storage) (en_codigo x) e n t \<in> A"
  shows "mueve G (procesar_envio_s3_a_sfc c cl x item)"
proof -
  have met: "mueve G (emitir_metrica_adjunto a b)" for a b unfolding emitir_metrica_adjunto_def by (rule metrica)
  have dup: "mueve G (manejar_duplicado_o_cerrado e codigo ident nombre)" for e codigo ident nombre
    unfolding manejar_duplicado_o_cerrado_def by (auto intro!: mueve_reglas marcado)
  have env: "mueve G (enviar_adjunto_y_marcar_checkpoint cl (en_codigo x) ident t e n)" for ident t e n
    unfolding enviar_adjunto_y_marcar_checkpoint_def by (intro mueve_reglas marcado adjunto [OF assms(2,3)])
  show ?thesis
    unfolding procesar_envio_s3_a_sfc_def enviar_uno_def Let_def
    by (auto intro!: mueve_reglas met dup env contenido [OF assms(1)] split: option.split excepcion.split)
qed

lemma lote:
  assumes "s3_mueve G c" "sfc_mueve G cl A" "\<And>e n t. Archivo (sf_base cl @ ep_storage) codigo e n t \<in> A"
  shows "mueve G (transferir_lote_s3_a_sfc c cl turnos codigo adjuntos objetivo afijo masivo caso)"
  unfolding transferir_lote_s3_a_sfc_def Let_def
  by (auto intro!: mueve_reglas lectura resultado mueve_reune envio [OF assms(1,2)] simp: assms(3))

lemma listado: "s3_mueve G c \<Longrightarrow> mueve G (listar_archivos_en_directorio c prefijo caso)"
  unfolding listar_archivos_en_directorio_def Let_def
  by (auto simp: s3_mueve_def intro!: mueve_reglas resultado)

lemma subida: "s3_mueve G c \<Longrightarrow> mueve G (subir_bytes_archivo c key t u)"
  unfolding subir_bytes_archivo_def Let_def
  by (auto simp: s3_mueve_def intro!: mueve_reglas split: boto.split)

lemma aviso: "mueve G (avisa_si_desconocido e)"
  unfolding avisa_si_desconocido_def by (auto intro!: mueve_reglas correo)

lemma momento_2:
  assumes "s3_mueve G (mo_s3 c)" "sfc_mueve G (mo_sfc c) UNIV"
  shows "mueve G (ejecutar_envio_momento_2 c p)"
  unfolding ejecutar_envio_momento_2_def Let_def tintenta_sfc_def mapea_def archivos_de_m2_def crear_queja_o_tolerar_duplicado_def
    post_nueva_queja_def
  by (auto intro!: mueve_reglas reloj resultado listado [OF assms(1)] regulada llamada [OF assms(2)] lote [OF assms] aviso
      split: excepcion.split)

lemma pdf:
  assumes "s3_mueve G (mo_s3 c)" "sfc_mueve G (mo_sfc c) A" "\<And>e n t. Archivo (sf_base (mo_sfc c) @ ep_storage) codigo e n t \<in> A"
  shows "mueve G (generar_y_enviar_pdf_respuesta_final c caso codigo cuerpo nombre)"
  unfolding generar_y_enviar_pdf_respuesta_final_def
  by (intro mueve_reglas resultado subida [OF assms(1)] lote [OF assms])

lemma metrica_m3: "mueve G (emitir_metrica_m3 sub b res cat)"
  unfolding emitir_metrica_m3_def by (auto intro!: mueve_reglas metrica)

lemma momento_3:
  assumes "s3_mueve G (mo_s3 c)" "sfc_mueve G (mo_sfc c) UNIV"
  shows "mueve G (orquestar_pipeline_momento_3 c p afijo generar masivo)"
  unfolding orquestar_pipeline_momento_3_def Let_def cuerpo_momento_3_def mapea_def put_actualizar_queja_def
  by (auto intro!: mueve_reglas reloj resultado regulada llamada [OF assms(2)] lote [OF assms] pdf [OF assms] metrica_m3 aviso
      split: excepcion.split)

end

subsection \<open>The database\<close>

lemma con_registro_respeta: "respeta (paso_cola\<^sup>*\<^sup>*) m \<Longrightarrow> respeta (paso_cola\<^sup>*\<^sup>*) (con_registro p m)"
  unfolding con_registro_def by (auto intro!: gcola.reglas split: sum.split)

interpretation mcola: movimiento "mueve_redis (paso_cola\<^sup>*\<^sup>*)"
proof unfold_locales
  fix cargar pstr mz st body
  show "respetuosa (paso_cola\<^sup>*\<^sup>*) (paso (procesar_y_lanzar cargar pstr mz st body :: json accion))"
    unfolding procesar_y_lanzar_def by (auto intro!: rt_paso gcola.reglas split: prod.split)
qed (intro rt_paso gcola.reglas refina_checkpoints checkpoint_pasos)+

subsection \<open>The log\<close>

text \<open>Events that are no update of a complaint.\<close>

definition sin_patch :: "evento \<Rightarrow> bool" where
  "sin_patch ev = (case ev of Http u d b a \<Rightarrow> d \<noteq> [''PATCH''] | _ \<Rightarrow> True)"

lemma escribe_traduce:
  assumes "\<And>a b. E (Correo a b)" shows "escribe E (paso (procesar_y_lanzar cargar pstr mz st body))"
  using assms
  by (intro mueve_paso) (auto simp: procesar_y_lanzar_def solo_escribe_def luego_def emite_def devuelve_def lanza_def split: prod.split)

lemma escribe_registro:
  assumes "callada (sf_http cl p)" "\<And>a. E (Http (url_de p) (detalle_de p) (cuerpo_de p) a)"
  shows "escribe E (paso (con_registro p (sf_http cl p)))"
proof (rule mueve_paso)
  fix w
  let ?m = "sf_http cl p"
  have "w_bitacora (snd (?m w)) = w_bitacora w" using assms(1) by (cases "?m w") (auto simp: callada_def deja_def)
  then show "solo_escribe E w (snd (con_registro p ?m w))"
    using assms(2) by (auto simp: solo_escribe_def con_registro_def luego_def intenta_def devuelve_def lanza_def emite_def split: prod.split sum.split)
qed

text \<open>A relation on the log that allows mails and metrics.\<close>

lemma movimiento_escribe:
  assumes "\<And>a b. E (Correo a b)" "\<And>a b. E (Metrica a b)" shows "movimiento (solo_escribe E)"
proof unfold_locales
  show "escribe E (paso (obtener_archivos_completados codigo))" for codigo
    unfolding obtener_archivos_completados_def by (auto intro!: escribe_callada calladas)
qed (rule escribe_emite escribe_traduce, rule assms | rule escribe_callada, intro calladas)+

interpretation mpatch: movimiento "solo_escribe sin_patch"
  by (rule movimiento_escribe) (simp_all add: sin_patch_def)

interpretation mllamada: movimiento "solo_escribe (\<lambda>ev. \<not> es_llamada ev)"
  by (rule movimiento_escribe) (simp_all add: es_llamada_def)

subsection \<open>What is asked of S3 and of the HTTP library\<close>

text \<open>They keep a guarantee over the database and write nothing in the log.\<close>

definition ajena :: "(redis \<Rightarrow> redis \<Rightarrow> bool) \<Rightarrow> 'a accion \<Rightarrow> bool" where
  "ajena R m = (respeta R m \<and> callada m)"

definition s3_ajeno :: "(redis \<Rightarrow> redis \<Rightarrow> bool) \<Rightarrow> cfg_s3 \<Rightarrow> bool" where
  "s3_ajeno R c =
     (\<forall>b key. ajena R (s3_head c b key) \<and> ajena R (s3_baja c b key) \<and> ajena R (s3_objeto c b key) \<and> ajena R (s3_paginas c b key)
        \<and> (\<forall>t u. ajena R (s3_pone c b key t u)) \<and> ajena R (s3_url c key))"

definition sfc_ajeno :: "(redis \<Rightarrow> redis \<Rightarrow> bool) \<Rightarrow> cfg_sfc \<Rightarrow> bool" where
  "sfc_ajeno R cl = (\<forall>p. ajena R (sf_http cl p))"

lemma ajena_descargar: "garantia R \<Longrightarrow> s3_ajeno R c \<Longrightarrow> ajena R (descargar c key)"
  unfolding descargar_def ajena_def s3_ajeno_def
  by (auto intro!: calladas garantia.luego garantia.intenta garantia.devuelve split: boto.split option.split)

lemma con_subida_respeta: "garantia R \<Longrightarrow> respeta R m \<Longrightarrow> respeta R (con_subida b k t m)"
  unfolding con_subida_def by (auto intro: garantia.luego garantia.emite garantia.devuelve)

lemma s3_mueve_redis: "garantia R \<Longrightarrow> s3_ajeno R c \<Longrightarrow> s3_mueve (mueve_redis R) c"
  using ajena_descargar [of R c] unfolding s3_mueve_def s3_ajeno_def ajena_def by (auto intro!: rt_paso con_subida_respeta)

lemma sfc_mueve_redis: "garantia R \<Longrightarrow> sfc_ajeno R cl \<Longrightarrow> sfc_mueve (mueve_redis R) cl A"
  unfolding sfc_mueve_def sfc_ajeno_def ajena_def con_registro_def
  by (auto intro!: rt_paso garantia.luego garantia.intenta garantia.devuelve garantia.lanza garantia.emite split: sum.split)

text \<open>The note of an upload is the only thing it adds to the log.\<close>

lemma con_subida_log:
  assumes "callada m"
  shows "fst (con_subida b k t m w) = fst (m w) \<and> w_redis (snd (con_subida b k t m w)) = w_redis (snd (m w))
    \<and> w_bitacora (snd (con_subida b k t m w)) = w_bitacora w
        @ (case fst (m w) of Inr r \<Rightarrow> [Subida b k t (case r of BOk _ \<Rightarrow> True | _ \<Rightarrow> False)] | Inl _ \<Rightarrow> [])"
proof -
  have "w_bitacora (snd (m w)) = w_bitacora w" using assms by (cases "m w") (auto simp: callada_def deja_def)
  then show ?thesis by (cases "m w"; cases "fst (m w)") (auto simp: con_subida_def luego_def emite_def devuelve_def)
qed

lemma escribe_subida:
  assumes "callada m" "\<And>ok. E (Subida b k t ok)" shows "escribe E (paso (con_subida b k t m))"
  using con_subida_log [OF assms(1), of b k t] assms(2)
  by (intro mueve_paso) (auto simp: solo_escribe_def split: sum.split)

lemma s3_mueve_escribe:
  "garantia R \<Longrightarrow> s3_ajeno R c \<Longrightarrow> (\<And>b k t ok. E (Subida b k t ok)) \<Longrightarrow> s3_mueve (solo_escribe E) c"
  using ajena_descargar [of R c] unfolding s3_mueve_def s3_ajeno_def ajena_def by (auto intro!: escribe_subida intro: escribe_callada)

lemma sfc_mueve_escribe:
  "sfc_ajeno R cl \<Longrightarrow> (\<And>p a. p \<in> A \<Longrightarrow> E (Http (url_de p) (detalle_de p) (cuerpo_de p) a)) \<Longrightarrow> sfc_mueve (solo_escribe E) cl A"
  unfolding sfc_mueve_def sfc_ajeno_def ajena_def by (auto intro!: escribe_registro)

end
