(* ===== verification/Adjuntos_Propiedades.thy ===== *)
theory Adjuntos_Propiedades
  imports Adjuntos
begin

text \<open>
  The checkpoint of the attachments is a delivery: rely-guarantee proofs of the batch of \<^verbatim>\<open>s3_service.py\<close> over every
  schedule of its tasks, every answer of S3 and the SFC and every failure of Redis.
\<close>

subsection \<open>The others do not mark\<close>

text \<open>The environment may delete the checkpoint of the case, but not add to it (the lock of the case is held).\<close>

definition sin_marcar :: "string \<Rightarrow> redis \<Rightarrow> redis \<Rightarrow> bool" where
  "sin_marcar k r s = (reloj r \<le> reloj s \<and> archivos_de s k \<subseteq> archivos_de r k)"

lemma archivos_de_tiempo: "0 \<le> d \<Longrightarrow> archivos_de (r\<lparr>reloj := reloj r + d\<rparr>) k \<subseteq> archivos_de r k"
  by (auto simp: archivos_de_def tget_def split: option.splits if_splits)

interpretation gmarca: garantia "sin_marcar k" for k
  using archivos_de_tiempo by unfold_locales (auto simp: sin_marcar_def)

lemma checkpoint_hset_marca: "archivos_de (snd (checkpoint_hset k f r)) k \<subseteq> insert f (archivos_de r k)"
  by (auto simp: archivos_de_def checkpoint_hset_def tget_def split: option.splits if_splits)

lemma checkpoint_expire_marca: "archivos_de (snd (checkpoint_expire k px r)) k \<subseteq> archivos_de r k"
  by (auto simp: archivos_de_def checkpoint_expire_def texpire_def tget_def split: option.splits if_splits)

subsection \<open>What a delivery is\<close>

definition aceptado :: "(int \<times> string) option \<Rightarrow> bool" where
  "aceptado a = (case a of Some (st, body) \<Rightarrow> st \<in> {200, 201} | None \<Rightarrow> False)"

lemma aceptado_simps [simp]: "\<not> aceptado None" "aceptado (Some (st, body)) \<longleftrightarrow> st \<in> {200, 201}"
  by (simp_all add: aceptado_def)

definition error_leido :: "cfg_sfc \<Rightarrow> (int \<times> string) option \<Rightarrow> error_sfc" where
  "error_leido cl a =
     (case (case a of Some r \<Rightarrow> r | None \<Rightarrow> (503, ''upstream request timeout'')) of (st, body) \<Rightarrow>
        fst (clasificar (sf_cargar cl) (sf_py_str cl) (sf_matriz cl) st body))"

definition recibido :: "cfg_sfc \<Rightarrow> string \<Rightarrow> string \<Rightarrow> string \<Rightarrow> evento list \<Rightarrow> bool" where
  "recibido cl codigo ext nombre log =
     (\<exists>a. Http (sf_base cl @ ep_storage) [''FILE'', codigo, ext, nombre] [] a \<in> set log
        \<and> (aceptado a \<or> error_type (error_leido cl a) = ''DUPLICATE_FILE''))"

definition extension :: "string \<Rightarrow> string" where
  "extension nombre = (if CHR ''.'' \<in> set nombre then tras_ultimo CHR ''.'' nombre else ''pdf'')"

text \<open>The SFC has the file of an attachment: the log shows the request with its name, accepted or answered as a duplicate.\<close>

definition en_la_sfc :: "cfg_sfc \<Rightarrow> envio \<Rightarrow> dict \<Rightarrow> evento list \<Rightarrow> bool" where
  "en_la_sfc cl x item log =
     (\<exists>key nombre. resolver_identidad_adjunto item = Some (key, nombre)
        \<and> recibido cl (en_codigo x) (extension nombre) (nombre_de_envio (resolver_nombre_final_envio nombre x (extension nombre))) log)"

lemma recibido_mas: "recibido cl c e n log \<Longrightarrow> set log \<subseteq> set log' \<Longrightarrow> recibido cl c e n log'"
  by (auto simp: recibido_def)

lemma en_la_sfc_mas: "en_la_sfc cl x i log \<Longrightarrow> set log \<subseteq> set log' \<Longrightarrow> en_la_sfc cl x i log'"
  by (auto simp: en_la_sfc_def intro: recibido_mas)

subsection \<open>The moves of a batch\<close>

text \<open>The log after its first \<open>n\<close> events; a move adds to the log and marks only what is in \<open>pruebas\<close>.\<close>

definition nuevos :: "nat \<Rightarrow> mundo \<Rightarrow> evento list" where
  "nuevos n w = drop n (w_bitacora w)"

definition avance :: "string \<Rightarrow> (string \<Rightarrow> evento list \<Rightarrow> bool) \<Rightarrow> nat \<Rightarrow> mundo \<Rightarrow> mundo \<Rightarrow> bool" where
  "avance k prueba n w w' =
     ((\<exists>t. w_bitacora w' = w_bitacora w @ t) \<and>
      (entorno (sin_marcar k) w \<longrightarrow> entorno (sin_marcar k) w'
         \<and> (\<forall>f \<in> archivos_de (w_redis w') k. f \<in> archivos_de (w_redis w) k \<or> prueba f (nuevos n w'))))"

text \<open>Evidence only grows with the log.\<close>

definition creciente :: "(string \<Rightarrow> evento list \<Rightarrow> bool) \<Rightarrow> bool" where
  "creciente prueba = (\<forall>f l l'. prueba f l \<longrightarrow> set l \<subseteq> set l' \<longrightarrow> prueba f l')"

lemma nuevos_crece: "w_bitacora w' = w_bitacora w @ t \<Longrightarrow> set (nuevos n w) \<subseteq> set (nuevos n w')"
  by (auto simp: nuevos_def)

lemma avance_refl: "reflp (avance k prueba n)"
  by (auto simp: reflp_def avance_def)

lemma avance_trans:
  assumes "creciente prueba" shows "transp (avance k prueba n)"
proof (rule transpI)
  fix u v w assume uv: "avance k prueba n u v" and vw: "avance k prueba n v w"
  obtain t where t: "w_bitacora w = w_bitacora v @ t" using vw by (auto simp: avance_def)
  have "prueba f (nuevos n v) \<Longrightarrow> prueba f (nuevos n w)" for f
    using assms nuevos_crece [OF t] by (auto simp: creciente_def)
  moreover have "\<exists>s. w_bitacora w = w_bitacora u @ s" using uv t by (auto simp: avance_def)
  ultimately show "avance k prueba n u w" using uv vw unfolding avance_def by blast
qed

definition en_regla :: "string \<Rightarrow> nat \<Rightarrow> mundo \<Rightarrow> bool" where
  "en_regla k n w = (entorno (sin_marcar k) w \<and> n \<le> length (w_bitacora w))"

lemma estable_en_regla: "estable (avance k prueba n) (en_regla k n)"
  by (auto simp: estable_def avance_def en_regla_def)

lemma estable_log: "(\<And>l l'. F l \<Longrightarrow> set l \<subseteq> set l' \<Longrightarrow> F l') \<Longrightarrow> estable (avance k prueba n) (\<lambda>w. F (nuevos n w))"
  by (auto simp: estable_def avance_def dest!: nuevos_crece)

lemma estable_fijo: "estable R (\<lambda>w. b)"
  by (simp add: estable_def)

text \<open>Actions that mark nothing.\<close>

definition tranquila :: "string \<Rightarrow> 'a accion \<Rightarrow> bool" where
  "tranquila k m = (respeta (sin_marcar k) m \<and> (\<forall>w. \<exists>t. w_bitacora (snd (m w)) = w_bitacora w @ t))"

lemma tranquila_callada: "respeta (sin_marcar k) m \<Longrightarrow> callada m \<Longrightarrow> tranquila k m"
  unfolding tranquila_def callada_def deja_def by (metis prod.collapse)

lemma tranquila_luego: "tranquila k m \<Longrightarrow> (\<And>x. tranquila k (f x)) \<Longrightarrow> tranquila k (luego m f)"
  unfolding tranquila_def
proof (intro conjI allI)
  fix w assume m: "respeta (sin_marcar k) m \<and> (\<forall>w. \<exists>t. w_bitacora (snd (m w)) = w_bitacora w @ t)"
    and f: "\<And>x. respeta (sin_marcar k) (f x) \<and> (\<forall>w. \<exists>t. w_bitacora (snd (f x w)) = w_bitacora w @ t)"
  show "\<exists>t. w_bitacora (snd (luego m f w)) = w_bitacora w @ t"
  proof (cases "m w")
    case (Pair r w1)
    with m obtain t where t: "w_bitacora w1 = w_bitacora w @ t" by (metis snd_conv)
    show ?thesis
    proof (cases r)
      case (Inl e)
      with Pair t show ?thesis by (simp add: luego_def)
    next
      case (Inr y)
      obtain s where "w_bitacora (snd (f y w1)) = w_bitacora w1 @ s" using f by blast
      with Inr Pair t show ?thesis by (simp add: luego_def)
    qed
  qed
qed (auto intro: gmarca.luego)

lemma tranquila_emite: "tranquila k (emite ev)"
  unfolding tranquila_def by (simp add: gmarca.emite) (simp add: emite_def)

lemma tranquilas_simples: "tranquila k (devuelve x)" "tranquila k (lanza e)" "tranquila k hay_cliente" "tranquila k (duerme ms)"
  by (auto intro!: tranquila_callada calladas gmarca.reglas)

lemma avance_tranquila:
  assumes "tranquila k m" "en_regla k n w" shows "avance k prueba n w (snd (m w))"
proof -
  have "entorno (sin_marcar k) (snd (m w))" "sin_marcar k (w_redis w) (w_redis (snd (m w)))"
    using respetaD [of "sin_marcar k" m w] assms by (auto simp: tranquila_def en_regla_def)
  with assms show ?thesis by (auto simp: avance_def tranquila_def sin_marcar_def)
qed

lemma vela_tranquila:
  assumes "tranquila k m" "estable (avance k prueba n) P" "\<And>w. P w \<Longrightarrow> en_regla k n w"
  shows "vela (avance k prueba n) (\<lambda>r. P) P (paso m)"
  using assms avance_tranquila [OF assms(1)] by (intro vela_paso) (auto simp: estable_def)

text \<open>An assertion that a step may use: stable, and in a world where the others behave.\<close>

definition apta :: "string \<Rightarrow> (string \<Rightarrow> evento list \<Rightarrow> bool) \<Rightarrow> nat \<Rightarrow> (mundo \<Rightarrow> bool) \<Rightarrow> bool" where
  "apta k prueba n P = (estable (avance k prueba n) P \<and> (\<forall>w. P w \<longrightarrow> en_regla k n w))"

lemma vela_apta:
  assumes "tranquila k m" "apta k prueba n P" "\<And>w. fst (m w) \<in> V"
  shows "vela (avance k prueba n) (\<lambda>r w. P w \<and> r \<in> V) P (paso m)"
proof -
  have "estable (avance k prueba n) P" "\<And>w. P w \<Longrightarrow> en_regla k n w" using assms(2) by (auto simp: apta_def)
  with avance_tranquila [OF assms(1)] assms(3) show ?thesis
    by (intro vela_paso) (auto simp: estable_def)
qed

lemma apta_conj: "apta k prueba n P \<Longrightarrow> estable (avance k prueba n) F \<Longrightarrow> apta k prueba n (\<lambda>w. P w \<and> F w)"
  by (auto simp: apta_def intro: estable_conj)

lemma vela_resultado: "(\<And>w. P w \<Longrightarrow> Q r w) \<Longrightarrow> vela R Q P (de_resultado r)"
  by (simp add: de_resultado_def v_listo)

subsection \<open>A request to the SFC\<close>

definition http_bueno :: "string \<Rightarrow> cfg_sfc \<Rightarrow> bool" where
  "http_bueno k cl =
     (\<forall>p. callada (sf_http cl p) \<and> respeta (sin_marcar k) (sf_http cl p)
        \<and> (\<forall>w e. fst (sf_http cl p w) = Inl (SfcIntegrationException e) \<longrightarrow> error_type e \<noteq> ''DUPLICATE_FILE''))"

definition pedido :: "peticion \<Rightarrow> (int \<times> string) option \<Rightarrow> evento" where
  "pedido p a = Http (url_de p) (detalle_de p) (cuerpo_de p) a"

text \<open>What the result of a request says of the log.\<close>

definition leido :: "cfg_sfc \<Rightarrow> peticion \<Rightarrow> 'a resultado \<Rightarrow> evento list \<Rightarrow> bool" where
  "leido cl p r log =
     (case r of
        Inr j \<Rightarrow> (\<exists>a. pedido p a \<in> set log \<and> aceptado a)
      | Inl x \<Rightarrow> (\<forall>e. x = SfcIntegrationException e \<longrightarrow> error_type e = ''DUPLICATE_FILE'' \<longrightarrow>
                      (\<exists>a. pedido p a \<in> set log \<and> error_leido cl a = e)))"

lemma leido_mas: "leido cl p r l \<Longrightarrow> set l \<subseteq> set l' \<Longrightarrow> leido cl p r l'"
  by (cases r) (fastforce simp: leido_def)+

lemma con_registro_forma:
  assumes "callada m"
  shows "\<exists>a. w_bitacora (snd (con_registro p m w)) = w_bitacora w @ [pedido p a]
    \<and> fst (con_registro p m w) = fst (m w)
    \<and> w_redis (snd (con_registro p m w)) = w_redis (snd (m w))
    \<and> w_turnos (snd (con_registro p m w)) = w_turnos (snd (m w))
    \<and> (a = (case fst (m w) of Inl _ \<Rightarrow> None | Inr r \<Rightarrow> Some r))"
proof -
  obtain x w' where m: "m w = (x, w')" by (cases "m w")
  with assms have "w_bitacora w' = w_bitacora w" by (auto simp: callada_def deja_def)
  with m show ?thesis
    by (cases x) (auto simp: con_registro_def luego_def intenta_def devuelve_def lanza_def emite_def pedido_def)
qed

lemma vela_traduce:
  assumes "apta k prueba n P"
  shows "vela (avance k prueba n) (\<lambda>r w. P w \<and> r = Inl (SfcIntegrationException (fst
      (clasificar (sf_cargar cl) (sf_py_str cl) (sf_matriz cl) st body)))) P (traduce_error cl st body)"
proof -
  let ?m = "procesar_y_lanzar (sf_cargar cl) (sf_py_str cl) (sf_matriz cl) st body :: 'a accion"
  obtain e d where c: "clasificar (sf_cargar cl) (sf_py_str cl) (sf_matriz cl) st body = (e, d)" by fastforce
  have "tranquila k ?m"
    unfolding procesar_y_lanzar_def c by (auto intro!: tranquila_luego tranquila_emite tranquilas_simples)
  moreover have "fst (?m w) \<in> {Inl (SfcIntegrationException e)}" for w
    by (auto simp: procesar_y_lanzar_def c luego_def emite_def devuelve_def lanza_def)
  ultimately show ?thesis
    using vela_apta [OF _ assms, of ?m "{Inl (SfcIntegrationException e)}"] by (simp add: c traduce_error_def)
qed

lemma vela_registro:
  assumes "http_bueno k cl" "apta k prueba n P"
  shows "vela (avance k prueba n)
    (\<lambda>r w. P w \<and> pedido p (case r of Inl _ \<Rightarrow> None | Inr rb \<Rightarrow> Some rb) \<in> set (nuevos n w)
       \<and> (\<forall>e. r = Inl (SfcIntegrationException e) \<longrightarrow> error_type e \<noteq> ''DUPLICATE_FILE''))
    P (paso (con_registro p (sf_http cl p)))"
proof (rule vela_paso)
  fix w assume P: "P w"
  let ?m = "con_registro p (sf_http cl p)"
  have h: "callada (sf_http cl p)" "respeta (sin_marcar k) (sf_http cl p)" using assms(1) by (auto simp: http_bueno_def)
  have r: "en_regla k n w" using assms(2) P by (auto simp: apta_def)
  obtain a where a: "w_bitacora (snd (?m w)) = w_bitacora w @ [pedido p a]" "fst (?m w) = fst (sf_http cl p w)"
      "w_redis (snd (?m w)) = w_redis (snd (sf_http cl p w))" "w_turnos (snd (?m w)) = w_turnos (snd (sf_http cl p w))"
      "a = (case fst (sf_http cl p w) of Inl _ \<Rightarrow> None | Inr r \<Rightarrow> Some r)"
    using con_registro_forma [OF h(1), of p w] by blast
  have "sin_marcar k (w_redis w) (w_redis (snd (sf_http cl p w)))" "entorno (sin_marcar k) (snd (sf_http cl p w))"
    using respetaD [OF h(2), of w] r by (auto simp: en_regla_def)
  then have av: "avance k prueba n w (snd (?m w))"
    using a by (auto simp: avance_def entorno_def sin_marcar_def)
  moreover have "P (snd (?m w))" using av assms(2) P by (auto simp: apta_def estable_def)
  moreover have "pedido p a \<in> set (nuevos n (snd (?m w)))" using a(1) r by (simp add: nuevos_def en_regla_def)
  moreover have "fst (?m w) = Inl (SfcIntegrationException e) \<longrightarrow> error_type e \<noteq> ''DUPLICATE_FILE''" for e
    using assms(1) a(2) by (auto simp: http_bueno_def)
  ultimately show "avance k prueba n w (snd (?m w)) \<and> P (snd (?m w))
      \<and> pedido p (case fst (?m w) of Inl _ \<Rightarrow> None | Inr rb \<Rightarrow> Some rb) \<in> set (nuevos n (snd (?m w)))
      \<and> (\<forall>e. fst (?m w) = Inl (SfcIntegrationException e) \<longrightarrow> error_type e \<noteq> ''DUPLICATE_FILE'')"
    using a(2,5) by simp
next
  fix r :: "(int \<times> string) resultado"
  have "estable (avance k prueba n) (\<lambda>w. pedido p (case r of Inl _ \<Rightarrow> None | Inr rb \<Rightarrow> Some rb) \<in> set (nuevos n w))"
    by (rule estable_log [where F = "\<lambda>l. pedido p (case r of Inl _ \<Rightarrow> None | Inr rb \<Rightarrow> Some rb) \<in> set l"]) auto
  with assms(2) show "estable (avance k prueba n) (\<lambda>w. P w \<and> pedido p (case r of Inl _ \<Rightarrow> None | Inr rb \<Rightarrow> Some rb) \<in> set (nuevos n w)
       \<and> (\<forall>e. r = Inl (SfcIntegrationException e) \<longrightarrow> error_type e \<noteq> ''DUPLICATE_FILE''))"
    by (intro estable_conj) (auto simp: apta_def intro: estable_fijo)
qed

lemma apta_log:
  "apta k prueba n P \<Longrightarrow> (\<And>l l'. F l \<Longrightarrow> set l \<subseteq> set l' \<Longrightarrow> F l') \<Longrightarrow> apta k prueba n (\<lambda>w. P w \<and> F (nuevos n w))"
  by (rule apta_conj, assumption, rule estable_log)

lemma vela_llama:
  assumes "http_bueno k cl" "apta k prueba n P"
  shows "vela (avance k prueba n) (\<lambda>r w. P w \<and> leido cl p r (nuevos n w)) P (llama cl p)"
proof -
  let ?R = "avance k prueba n" and ?Q = "\<lambda>r w. P w \<and> leido cl p r (nuevos n w)"
  let ?M = "\<lambda>r w. (P w \<and> leido cl p r (nuevos n w))
      \<and> ((\<exists>t. r = Inl (ErrorRed t)) \<longrightarrow> pedido p None \<in> set (nuevos n w))"
  have err: "vela ?R ?Q (\<lambda>w. P w \<and> pedido p a \<in> set (nuevos n w)) (traduce_error cl st body)"
    if "(case a of Some r \<Rightarrow> r | None \<Rightarrow> (503, ''upstream request timeout'')) = (st, body)" for a st body
    using that by (intro vela_mas [OF vela_traduce [OF apta_log [OF assms(2), of "\<lambda>l. pedido p a \<in> set l"]]])
      (auto simp: leido_def error_leido_def)
  have ok: "vela ?R ?M (\<lambda>w. P w \<and> pedido p (Some (st, body)) \<in> set (nuevos n w))
      (if st \<notin> {200, 201} then traduce_error cl st body
       else case sf_cargar cl body of Some j \<Rightarrow> tdevuelve j | None \<Rightarrow> tlanza (ValueError ''JSON''))" for st body
  proof (cases "st \<in> {200, 201}")
    case True
    then have "aceptado (Some (st, body))" by simp
    then have "leido cl p (Inr j) l" if "pedido p (Some (st, body)) \<in> set l" for j :: json and l
      using that unfolding leido_def by auto
    with True show ?thesis
      by (auto simp: leido_def [of _ _ "Inl _"] split: option.split intro!: vela_devuelve vela_lanza)
  next
    case False
    have "vela ?R ?M (\<lambda>w. P w \<and> pedido p (Some (st, body)) \<in> set (nuevos n w)) (traduce_error cl st body)"
      by (intro vela_mas [OF vela_traduce [OF apta_log [OF assms(2), of "\<lambda>l. pedido p (Some (st, body)) \<in> set l"]]])
        (auto simp: leido_def error_leido_def)
    with False show ?thesis by simp
  qed
  show ?thesis
    unfolding llama_def
  proof (rule vela_intenta)
    show "vela ?R ?M P (tluego (paso (con_registro p (sf_http cl p))) (\<lambda>(st, body).
          if st \<notin> {200, 201} then traduce_error cl st body
          else case sf_cargar cl body of Some j \<Rightarrow> tdevuelve j | None \<Rightarrow> tlanza (ValueError ''JSON'')))"
    proof (rule vela_luego [OF vela_registro [OF assms]])
      fix x show "vela ?R ?M (\<lambda>w. P w \<and> pedido p (case Inr x of Inl _ \<Rightarrow> None | Inr rb \<Rightarrow> Some rb) \<in> set (nuevos n w)
          \<and> (\<forall>e. Inr x = Inl (SfcIntegrationException e) \<longrightarrow> error_type e \<noteq> ''DUPLICATE_FILE''))
          (case x of (st, body) \<Rightarrow> if st \<notin> {200, 201} then traduce_error cl st body
             else case sf_cargar cl body of Some j \<Rightarrow> tdevuelve j | None \<Rightarrow> tlanza (ValueError ''JSON''))"
      proof (cases x)
        case (Pair st body)
        show ?thesis unfolding Pair prod.case by (rule vela_debil [OF ok]) auto
      qed
    qed (auto simp: leido_def)
    fix e show "vela ?R ?Q (\<lambda>w. (P w \<and> leido cl p (Inl e) (nuevos n w))
        \<and> ((\<exists>t. Inl e = Inl (ErrorRed t)) \<longrightarrow> pedido p None \<in> set (nuevos n w)))
        (case e of ErrorRed _ \<Rightarrow> traduce_error cl 503 ''upstream request timeout'' | _ \<Rightarrow> tlanza e)"
    proof (cases "\<exists>t. e = ErrorRed t")
      case True
      then obtain t where t: "e = ErrorRed t" by blast
      show ?thesis unfolding t excepcion.case by (rule vela_debil [OF err [of None]]) auto
    next
      case False
      then show ?thesis by (cases e) (auto simp: leido_def intro!: vela_lanza)
    qed
  qed auto
qed

lemma vela_throttling:
  assumes "apta k prueba n P" "vela (avance k prueba n) (\<lambda>r w. P w \<and> leido cl p r (nuevos n w)) P t"
  shows "vela (avance k prueba n) (\<lambda>r w. P w \<and> leido cl p r (nuevos n w)) P (reintenta_throttling cl nombre m t)"
proof (induction m)
  case 0
  have ap: "apta k prueba n (\<lambda>w. P w \<and> leido cl p r (nuevos n w))" for r :: "'a resultado"
    by (rule apta_log [OF assms(1)]) (rule leido_mas)
  have V: "fst (emite ev w) \<in> {Inr ()}" for ev w by (simp add: emite_def)
  show ?case
    unfolding reintenta_throttling.simps tintenta_sfc_def
    by (rule vela_intenta [OF assms(2)])
      (auto simp: emitir_metrica_throttling_def split: excepcion.split
        intro!: vela_lanza vela_luego [OF vela_apta [OF tranquila_emite ap V]])
next
  case (Suc m)
  have ap: "apta k prueba n (\<lambda>w. P w \<and> leido cl p r (nuevos n w))" for r :: "'a resultado"
    by (rule apta_log [OF assms(1)]) (rule leido_mas)
  have V: "fst (emite ev w) \<in> {Inr ()}" "fst (duerme ms w) \<in> {Inr ()}" for ev ms w
    by (simp_all add: emite_def duerme_def)
  show ?case
    unfolding reintenta_throttling.simps tintenta_sfc_def
    by (rule vela_intenta [OF assms(2)])
      (auto simp: emitir_metrica_throttling_def split: excepcion.split
        intro!: vela_lanza vela_luego [OF vela_apta [OF tranquila_emite ap V(1)]]
          vela_luego [OF vela_apta [OF tranquilas_simples(4) ap V(2)]] intro: vela_debil [OF Suc.IH])
qed

lemma vela_post_adjunto:
  assumes "http_bueno k cl" "apta k prueba n P" "nombre \<noteq> []"
  shows "vela (avance k prueba n)
    (\<lambda>r w. P w \<and> leido cl (Archivo (sf_base cl @ ep_storage) codigo ext (nombre_de_envio nombre) contenido) r (nuevos n w))
    P (post_adjunto_queja cl codigo contenido ext (Some nombre))"
  using assms(3) unfolding post_adjunto_queja_def handle_sfc_throttling_def
  by (simp add: vela_throttling [OF assms(2) vela_llama [OF assms(1,2)]])

subsection \<open>Marking\<close>

lemma avance_hset:
  assumes "en_regla k n w" "prueba f (nuevos n w)"
  shows "avance k prueba n w (snd (redis_cmd (checkpoint_hset k f) w))"
proof -
  let ?c = "checkpoint_hset k f" and ?w = "snd (redis_cmd (checkpoint_hset k f) w)"
  have reloj: "reloj (snd (?c r)) = reloj r" for r by (simp add: checkpoint_hset_def)
  have ent: "entorno (sin_marcar k) w" using assms(1) by (simp add: en_regla_def)
  have log: "w_bitacora ?w = w_bitacora w"
    by (auto simp: redis_cmd_def Let_def split: list.split falla.split)
  have "entorno (sin_marcar k) ?w"
    using ent by (auto simp: redis_cmd_def Let_def entorno_def split: list.split falla.split)
  moreover have "archivos_de (w_redis ?w) k \<subseteq> insert f (archivos_de (w_redis w) k)"
  proof (cases "w_turnos w")
    case Nil
    then show ?thesis using checkpoint_hset_marca [of k f "w_redis w"] by (simp add: redis_cmd_def)
  next
    case (Cons t ts)
    with ent have "archivos_de (t_otros t (w_redis w)) k \<subseteq> archivos_de (w_redis w) k" by (simp add: entorno_def sin_marcar_def)
    with Cons checkpoint_hset_marca [of k f "t_otros t (w_redis w)"] show ?thesis
      by (cases "t_falla t") (auto simp: redis_cmd_def Let_def)
  qed
  ultimately show ?thesis using log assms(2) by (auto simp: avance_def nuevos_def)
qed

lemma tranquila_expire: "tranquila k (redis_cmd (checkpoint_expire k px))"
proof (rule tranquila_callada)
  show "respeta (sin_marcar k) (redis_cmd (checkpoint_expire k px))"
    using checkpoint_expire_marca by (intro gmarca.redis_cmd) (auto simp: sin_marcar_def checkpoint_expire_def)
qed (intro calladas)

lemma vela_marcar:
  assumes "apta k prueba n P" "\<And>w. P w \<Longrightarrow> prueba f (nuevos n w)" "k = get_checkpoint_key codigo"
  shows "vela (avance k prueba n) (\<lambda>r w. P w \<and> r = Inr ()) P (marcar_archivo codigo f)"
proof -
  let ?R = "avance k prueba n"
  have st: "estable ?R P" and re: "\<And>w. P w \<Longrightarrow> en_regla k n w" using assms(1) by (auto simp: apta_def)
  have hset: "vela ?R (\<lambda>r. P) P (paso (redis_cmd (checkpoint_hset k f)))"
  proof (rule vela_paso)
    fix w assume "P w"
    then have "?R w (snd (redis_cmd (checkpoint_hset k f) w))" using re assms(2) by (intro avance_hset [of k n w prueba f])
    with \<open>P w\<close> st show "?R w (snd (redis_cmd (checkpoint_hset k f) w)) \<and> P (snd (redis_cmd (checkpoint_hset k f) w))"
      unfolding estable_def by blast
  qed (rule st)
  have expire: "vela ?R (\<lambda>r. P) P (paso (redis_cmd (checkpoint_expire k ttl_ms)))"
    by (rule vela_tranquila [OF tranquila_expire st re])
  have cuerpo: "vela ?R (\<lambda>r w. P w \<and> r = Inr ()) P
      (if \<not> hay then tdevuelve ()
       else tintenta (tluego (paso (redis_cmd (checkpoint_hset k f))) (\<lambda>_. paso (redis_cmd (checkpoint_expire k ttl_ms)))) (\<lambda>e. tdevuelve ()))" for hay
    by (auto intro!: vela_devuelve vela_intenta [where M = "\<lambda>r. P"] vela_luego [OF hset] expire)
  have "vela ?R (\<lambda>r w. P w \<and> r \<in> range Inr) P (paso hay_cliente)"
    by (rule vela_apta [OF tranquilas_simples(3) assms(1)]) (simp add: hay_cliente_def)
  then show ?thesis
    unfolding marcar_archivo_def assms(3) [symmetric]
  proof (rule vela_luego)
    fix hay
    show "vela ?R (\<lambda>r w. P w \<and> r = Inr ()) (\<lambda>w. P w \<and> Inr hay \<in> range Inr)
      (if \<not> hay then tdevuelve ()
       else tintenta (tluego (paso (redis_cmd (checkpoint_hset k f))) (\<lambda>_. paso (redis_cmd (checkpoint_expire k ttl_ms)))) (\<lambda>e. tdevuelve ()))"
      by (rule vela_debil [OF cuerpo]) simp
  qed auto
qed

subsection \<open>The content\<close>

text \<open>The operations of S3 answer always (their failures are answers), mark nothing and write nothing in the log.\<close>

definition quieta :: "string \<Rightarrow> 'a accion \<Rightarrow> bool" where
  "quieta k m = (respeta (sin_marcar k) m \<and> callada m \<and> (\<forall>w. fst (m w) \<in> range Inr))"

definition s3_bueno :: "string \<Rightarrow> cfg_s3 \<Rightarrow> bool" where
  "s3_bueno k c =
     (\<forall>b key. quieta k (s3_head c b key) \<and> quieta k (s3_baja c b key) \<and> quieta k (s3_objeto c b key)
        \<and> quieta k (s3_paginas c b key) \<and> (\<forall>t u. quieta k (s3_pone c b key t u)) \<and> quieta k (s3_url c key))"

definition sin_duplicado :: "'a resultado \<Rightarrow> bool" where
  "sin_duplicado r = (\<forall>e. r = Inl (SfcIntegrationException e) \<longrightarrow> error_type e \<noteq> ''DUPLICATE_FILE'')"

lemma sin_duplicado_simps [simp]:
  "sin_duplicado (Inr x)" "sin_duplicado (Inl (error_archivo st et campo msg consejo)) \<longleftrightarrow> et \<noteq> ''DUPLICATE_FILE''"
  "sin_duplicado (Inl (SfcIntegrationException e)) \<longleftrightarrow> error_type e \<noteq> ''DUPLICATE_FILE''"
  "sin_duplicado (Inl (RuntimeError t))" "sin_duplicado (Inl (TypeError t))" "sin_duplicado (Inl (ErrorRed t))"
  by (auto simp: sin_duplicado_def error_archivo_def)

lemma sin_duplicado_Inl: "sin_duplicado (Inl e :: 'a resultado) \<Longrightarrow> sin_duplicado (Inl e :: 'b resultado)"
  by (simp add: sin_duplicado_def)

lemma vela_pura:
  assumes "sin_duplicado r" shows "vela R (\<lambda>r w. P w \<and> sin_duplicado r) P (de_resultado r)"
  using assms by (intro vela_resultado) simp

lemma resultados_sin_duplicado:
  "sin_duplicado (validar_ownership_key key caso)" "sin_duplicado (validar_integridad_archivo t nombre)"
  "sin_duplicado (validar_tamano_archivo c tam nombre mb)" "sin_duplicado (escribir_mock_local_o_fallar c nombre)"
  "sin_duplicado (metadata_de key nombre x)" "sin_duplicado (descargado_de y)"
  by (auto simp: validar_ownership_key_def ajeno_def validar_integridad_archivo_def archivo_vacio_def Let_def validar_tamano_archivo_def
      escribir_mock_local_o_fallar_def almacen_sin_cliente_def s3_sin_cliente_def metadata_de_def fallo_s3_def descargado_de_def
      split: option.split boto.split)

lemma vela_luego_igual:
  assumes "vela R (\<lambda>r w. P w \<and> sin_duplicado r) P t" "\<And>x. vela R (\<lambda>r w. P w \<and> sin_duplicado r) P (f x)"
  shows "vela R (\<lambda>r w. P w \<and> sin_duplicado r) P (tluego t f)"
  by (rule vela_luego [OF assms(1)]) (auto intro: sin_duplicado_Inl vela_debil [OF assms(2)])

lemma vela_quieta:
  assumes "quieta k m" "apta k prueba n P"
  shows "vela (avance k prueba n) (\<lambda>r w. P w \<and> sin_duplicado r) P (paso m)"
  by (rule vela_mas [OF vela_apta [of k m prueba n P "range Inr"]]) (use assms in \<open>auto simp: quieta_def intro: tranquila_callada\<close>)

lemma quieta_luego: "quieta k m \<Longrightarrow> (\<And>x. quieta k (f x)) \<Longrightarrow> quieta k (luego m f)"
  unfolding quieta_def
  by (auto intro!: gmarca.luego callada_luego simp: luego_def split: prod.split sum.split) (metis fst_conv rangeE sum.distinct(1))

lemma quieta_intenta: "quieta k m \<Longrightarrow> quieta k (intenta m h)"
proof -
  assume m: "quieta k m"
  have "intenta m h = m"
  proof
    fix w
    obtain x where "fst (m w) = Inr x" using m by (auto simp: quieta_def)
    then show "intenta m h w = m w" by (auto simp: intenta_def split: prod.split sum.split)
  qed
  with m show ?thesis by simp
qed

lemma quieta_devuelve: "quieta k (devuelve x)"
  by (auto simp: quieta_def intro: gmarca.devuelve calladas) (simp add: devuelve_def)

lemma quieta_descargar: "s3_bueno k c \<Longrightarrow> quieta k (descargar c key)"
  unfolding descargar_def s3_bueno_def
  by (auto intro!: quieta_luego quieta_intenta quieta_devuelve split: boto.split)

lemma vela_contenido:
  assumes "s3_bueno k c" "apta k prueba n P"
  shows "vela (avance k prueba n) (\<lambda>r w. P w \<and> sin_duplicado r) P (obtener_contenido_adjunto c item key caso nombre)"
proof -
  have head: "quieta k (s3_head c b key)" for b key using assms(1) by (simp add: s3_bueno_def)
  have fin: "vela (avance k prueba n) (\<lambda>r w. P w \<and> sin_duplicado r) P (tdevuelve x)" for x :: string
    by (rule vela_devuelve) simp
  note pura = vela_pura [OF resultados_sin_duplicado(1)] vela_pura [OF resultados_sin_duplicado(2)]
    vela_pura [OF resultados_sin_duplicado(3)] vela_pura [OF resultados_sin_duplicado(4)]
    vela_pura [OF resultados_sin_duplicado(5)] vela_pura [OF resultados_sin_duplicado(6)]
  show ?thesis
    unfolding obtener_contenido_adjunto_def obtener_stream_archivo_def obtener_metadata_o_fallar_def descargar_a_tmp_file_def Let_def
    by (auto intro!: vela_luego_igual pura fin vela_quieta [OF head assms(2)] vela_quieta [OF quieta_descargar [OF assms(1)] assms(2)])
qed

subsection \<open>One attachment\<close>

lemma vela_metrica:
  assumes "apta k prueba n P"
  shows "vela (avance k prueba n) (\<lambda>r w. P w \<and> r = Inr ()) P (emitir_metrica_adjunto a b)"
  unfolding emitir_metrica_adjunto_def
  by (rule vela_mas [OF vela_apta [OF tranquila_emite assms, of _ "{Inr ()}"]]) (auto simp: emite_def)

text \<open>What the attempt to send an attachment says of the log.\<close>

definition constancia :: "cfg_sfc \<Rightarrow> envio \<Rightarrow> dict \<Rightarrow> 'a resultado \<Rightarrow> evento list \<Rightarrow> bool" where
  "constancia cl x item r log =
     (case r of
        Inr _ \<Rightarrow> en_la_sfc cl x item log
      | Inl ex \<Rightarrow> (\<forall>e. ex = SfcIntegrationException e \<longrightarrow> error_type e = ''DUPLICATE_FILE'' \<longrightarrow> en_la_sfc cl x item log))"

lemma constancia_simps [simp]: "constancia cl x item (Inr y) log = en_la_sfc cl x item log"
  by (simp add: constancia_def)

lemma constancia_mas: "constancia cl x i r l \<Longrightarrow> set l \<subseteq> set l' \<Longrightarrow> constancia cl x i r l'"
  by (cases r) (auto simp: constancia_def intro: en_la_sfc_mas)

lemma leido_constancia:
  assumes "resolver_identidad_adjunto item = Some (key, nombre)"
    and "leido cl (Archivo (sf_base cl @ ep_storage) (en_codigo x) (extension nombre)
           (nombre_de_envio (resolver_nombre_final_envio nombre x (extension nombre))) contenido) r log"
  shows "constancia cl x item r log"
  using assms
  by (cases r) (fastforce simp: leido_def constancia_def en_la_sfc_def recibido_def pedido_def url_de_def detalle_de_def cuerpo_de_def)+

lemma nombre_final_no_vacio: "nombre \<noteq> [] \<Longrightarrow> resolver_nombre_final_envio nombre x ext \<noteq> []"
  by (simp add: resolver_nombre_final_envio_def)

lemma identidad_con_nombre: "resolver_identidad_adjunto item = Some (key, nombre) \<Longrightarrow> nombre \<noteq> []"
  by (auto simp: resolver_identidad_adjunto_def Let_def split: if_splits)

text \<open>The evidence of a checkpoint: the delivery of an attachment of the batch with that identity.\<close>

definition prueba_de :: "cfg_s3 \<Rightarrow> cfg_sfc \<Rightarrow> envio \<Rightarrow> json list \<Rightarrow> string \<Rightarrow> evento list \<Rightarrow> bool" where
  "prueba_de c cl x adjuntos f log =
     (\<exists>j \<in> set adjuntos. identificador_archivo (s3_sha c) (objeto_de j) = Some f \<and> en_la_sfc cl x (objeto_de j) log)"

lemma creciente_prueba: "creciente (prueba_de c cl x adjuntos)"
  by (auto simp: creciente_def prueba_de_def intro: en_la_sfc_mas)

lemma apta_entregado: "apta k prueba n P \<Longrightarrow> apta k prueba n (\<lambda>w. P w \<and> en_la_sfc cl x item (nuevos n w))"
  by (rule apta_log, assumption, rule en_la_sfc_mas)

lemma apta_constancia: "apta k prueba n P \<Longrightarrow> apta k prueba n (\<lambda>w. P w \<and> constancia cl x item r (nuevos n w))"
  by (rule apta_log, assumption, rule constancia_mas)

text \<open>The setting of one attachment of a batch.\<close>

definition en_lote :: "string \<Rightarrow> cfg_s3 \<Rightarrow> cfg_sfc \<Rightarrow> envio \<Rightarrow> json list \<Rightarrow> nat \<Rightarrow> (mundo \<Rightarrow> bool) \<Rightarrow> bool" where
  "en_lote k c cl x adjuntos n P =
     (apta k (prueba_de c cl x adjuntos) n P \<and> k = get_checkpoint_key (en_codigo x) \<and> s3_bueno k c \<and> http_bueno k cl)"

definition identificado :: "cfg_s3 \<Rightarrow> json list \<Rightarrow> dict \<Rightarrow> string \<Rightarrow> string \<Rightarrow> string \<Rightarrow> bool" where
  "identificado c adjuntos item key nombre ident =
     ((\<exists>j \<in> set adjuntos. objeto_de j = item) \<and> resolver_identidad_adjunto item = Some (key, nombre)
        \<and> identificador_archivo (s3_sha c) item = Some ident)"

lemma vela_marca_entregado:
  assumes "en_lote k c cl x adjuntos n P" "identificado c adjuntos item key nombre ident"
  shows "vela (avance k (prueba_de c cl x adjuntos) n) (\<lambda>r w. (P w \<and> en_la_sfc cl x item (nuevos n w)) \<and> r = Inr ())
     (\<lambda>w. P w \<and> en_la_sfc cl x item (nuevos n w)) (marcar_archivo (en_codigo x) ident)"
proof -
  have P: "apta k (prueba_de c cl x adjuntos) n P" and k: "k = get_checkpoint_key (en_codigo x)"
    using assms(1) by (auto simp: en_lote_def)
  show ?thesis
    by (rule vela_marcar [OF apta_entregado [OF P] _ k]) (use assms(2) in \<open>auto simp: prueba_de_def identificado_def\<close>)
qed

lemma vela_envia_y_marca:
  assumes "en_lote k c cl x adjuntos n P" "identificado c adjuntos item key nombre ident"
  shows "vela (avance k (prueba_de c cl x adjuntos) n) (\<lambda>r w. P w \<and> constancia cl x item r (nuevos n w)) P
     (enviar_adjunto_y_marcar_checkpoint cl (en_codigo x) ident contenido (extension nombre)
        (resolver_nombre_final_envio nombre x (extension nombre)))"
  unfolding enviar_adjunto_y_marcar_checkpoint_def
proof (rule vela_luego)
  have P: "apta k (prueba_de c cl x adjuntos) n P" and h: "http_bueno k cl" using assms(1) by (auto simp: en_lote_def)
  have it: "resolver_identidad_adjunto item = Some (key, nombre)" using assms(2) by (simp add: identificado_def)
  show "vela (avance k (prueba_de c cl x adjuntos) n) (\<lambda>r w. P w \<and> constancia cl x item r (nuevos n w)) P
      (post_adjunto_queja cl (en_codigo x) contenido (extension nombre)
        (Some (resolver_nombre_final_envio nombre x (extension nombre))))"
    by (rule vela_mas [OF vela_post_adjunto [OF h P nombre_final_no_vacio [OF identidad_con_nombre [OF it]]]])
      (auto intro: leido_constancia [OF it])
  fix resp :: json
  show "vela (avance k (prueba_de c cl x adjuntos) n) (\<lambda>r w. P w \<and> constancia cl x item r (nuevos n w))
      (\<lambda>w. P w \<and> constancia cl x item (Inr resp) (nuevos n w))
      (tluego (marcar_archivo (en_codigo x) ident) (\<lambda>_. tdevuelve (resultado_envio nf ''OK'' (Some resp))))" for nf
    unfolding constancia_simps by (rule vela_luego [OF vela_marca_entregado [OF assms]]) (auto intro: vela_devuelve)
qed (auto simp: constancia_def)

lemma constancia_sin_duplicado: "sin_duplicado (Inl e :: 'a resultado) \<Longrightarrow> constancia cl x item (Inl e :: 'b resultado) log"
  by (auto simp: sin_duplicado_def constancia_def)

text \<open>The result of an attachment: sent, answered as a duplicate, or an exception.\<close>

lemma vela_enviar_uno:
  assumes "en_lote k c cl x adjuntos n P" "identificado c adjuntos item key nombre ident"
  shows "vela (avance k (prueba_de c cl x adjuntos) n)
     (\<lambda>r w. P w \<and> ((\<exists>y. r = Inr y) \<longrightarrow> en_la_sfc cl x item (nuevos n w))) P (enviar_uno c cl x item key nombre ident)"
proof -
  let ?R = "avance k (prueba_de c cl x adjuntos) n"
  let ?C = "\<lambda>r w. P w \<and> constancia cl x item r (nuevos n w)"
  let ?Q = "\<lambda>r w. P w \<and> ((\<exists>y. r = Inr y) \<longrightarrow> en_la_sfc cl x item (nuevos n w))"
  have P: "apta k (prueba_de c cl x adjuntos) n P" and s3: "s3_bueno k c" using assms(1) by (auto simp: en_lote_def)
  have met: "vela ?R (\<lambda>r w. (P w \<and> en_la_sfc cl x item (nuevos n w)) \<and> r = Inr ())
      (\<lambda>w. P w \<and> en_la_sfc cl x item (nuevos n w)) (emitir_metrica_adjunto a b)" for a b
    by (rule vela_metrica [OF apta_entregado [OF P]])
  have fin: "vela ?R ?Q (\<lambda>w. P w \<and> en_la_sfc cl x item (nuevos n w)) (tluego (emitir_metrica_adjunto a b) (\<lambda>_. tdevuelve (Some y)))"
    for a b and y :: json by (rule vela_luego [OF met]) (auto intro: vela_devuelve)
  have mal: "vela ?R ?Q P (tluego (emitir_metrica_adjunto a b) (\<lambda>_. tlanza e))" for a b e
    by (rule vela_luego [OF vela_metrica [OF P]]) (auto intro: vela_lanza)
  have cuerpo: "vela ?R ?C P
      (tluego (obtener_contenido_adjunto c item key (en_caso x) nombre) (\<lambda>contenido.
         tluego (enviar_adjunto_y_marcar_checkpoint cl (en_codigo x) ident contenido (extension nombre)
             (resolver_nombre_final_envio nombre x (extension nombre))) (\<lambda>r.
           tluego (emitir_metrica_adjunto ''success'' ''N/A'') (\<lambda>_. tdevuelve (Some r)))))"
    by (rule vela_luego [OF vela_contenido [OF s3 P]], auto intro: constancia_sin_duplicado
        intro!: vela_luego [OF vela_debil [OF vela_envia_y_marca [OF assms]]] vela_luego [OF met] vela_devuelve simp: constancia_def)
  show ?thesis
    unfolding enviar_uno_def extension_def [symmetric] Let_def
  proof (rule vela_intenta [OF cuerpo])
    fix ex
    show "vela ?R ?Q (\<lambda>w. P w \<and> constancia cl x item (Inl ex :: json option resultado) (nuevos n w)) (case ex of
           SfcIntegrationException e \<Rightarrow>
             tluego (manejar_duplicado_o_cerrado e (en_codigo x) ident nombre) (\<lambda>res.
               case res of
                 Some r \<Rightarrow> tluego (emitir_metrica_adjunto ''skipped_duplicate_or_closed'' ''N/A'') (\<lambda>_. tdevuelve (Some r))
               | None \<Rightarrow>
                   tluego (emitir_metrica_adjunto ''error'' (if error_type e = [] then ''UNKNOWN_SFC_ERROR'' else error_type e))
                     (\<lambda>_. tlanza ex))
         | _ \<Rightarrow> tluego (emitir_metrica_adjunto ''error'' (nombre_de_tipo ex)) (\<lambda>_. tlanza ex))"
    proof (cases "\<exists>e. ex = SfcIntegrationException e \<and> error_type e = ''DUPLICATE_FILE''")
      case True
      then obtain e where e: "ex = SfcIntegrationException e" "error_type e = ''DUPLICATE_FILE''" by blast
      have "vela ?R ?Q (\<lambda>w. P w \<and> en_la_sfc cl x item (nuevos n w))
          (tluego (marcar_archivo (en_codigo x) ident) (\<lambda>_. tluego (emitir_metrica_adjunto a b) (\<lambda>_. tdevuelve (Some y))))" for a b and y :: json
        by (rule vela_luego [OF vela_marca_entregado [OF assms]]) (auto intro: vela_debil [OF fin])
      then show ?thesis
        using e by (auto simp: manejar_duplicado_o_cerrado_def tluego_asoc constancia_def elim: vela_debil)
    next
      case False
      then show ?thesis
        by (cases ex) (auto simp: manejar_duplicado_o_cerrado_def intro: vela_debil [OF mal])
    qed
  qed auto
qed

subsection \<open>The batch\<close>

text \<open>The attachment has no identity, was in the checkpoint, or was delivered.\<close>

definition cumplido :: "cfg_s3 \<Rightarrow> cfg_sfc \<Rightarrow> envio \<Rightarrow> dict \<Rightarrow> evento list \<Rightarrow> bool" where
  "cumplido c cl x item log =
     (resolver_identidad_adjunto item = None \<or> en_la_sfc cl x item log
      \<or> (\<exists>f. identificador_archivo (s3_sha c) item = Some f \<and> f \<in> en_hechos x))"

lemma cumplido_mas: "cumplido c cl x i l \<Longrightarrow> set l \<subseteq> set l' \<Longrightarrow> cumplido c cl x i l'"
  by (auto simp: cumplido_def intro: en_la_sfc_mas)

lemma estable_cumplido: "estable (avance k prueba n) (\<lambda>w. b \<longrightarrow> cumplido c cl x i (nuevos n w))"
  by (cases b) (auto intro: estable_fijo estable_log [where F = "cumplido c cl x i"] cumplido_mas)

lemma identificador_None: "identificador_archivo sha item = None \<longleftrightarrow> resolver_identidad_adjunto item = None"
  by (auto simp: identificador_archivo_def Let_def split: option.splits)

lemma vela_procesar:
  assumes "en_lote k c cl x adjuntos n P" "\<exists>j \<in> set adjuntos. objeto_de j = item"
  shows "vela (avance k (prueba_de c cl x adjuntos) n)
     (\<lambda>r w. P w \<and> ((\<exists>y. r = Inr y) \<longrightarrow> cumplido c cl x item (nuevos n w))) P (procesar_envio_s3_a_sfc c cl x item)"
proof (cases "resolver_identidad_adjunto item")
  case None
  then show ?thesis
    unfolding procesar_envio_s3_a_sfc_def by (auto intro: vela_devuelve simp: cumplido_def)
next
  case (Some kn)
  obtain key nombre where kn: "kn = (key, nombre)" by fastforce
  obtain ident where i: "identificador_archivo (s3_sha c) item = Some ident"
    using Some identificador_None [of "s3_sha c" item] by (cases "identificador_archivo (s3_sha c) item") auto
  have P: "apta k (prueba_de c cl x adjuntos) n P" using assms(1) unfolding en_lote_def by blast
  have it: "identificado c adjuntos item key nombre ident" using Some kn i assms(2) by (simp add: identificado_def)
  show ?thesis
  proof (cases "ident \<in> en_hechos x")
    case True
    then show ?thesis
      using Some kn i unfolding procesar_envio_s3_a_sfc_def
      by (auto simp: cumplido_def intro!: vela_luego [OF vela_metrica [OF P]] vela_devuelve)
  next
    case False
    have "procesar_envio_s3_a_sfc c cl x item = enviar_uno c cl x item key nombre ident"
      using Some kn i False by (simp add: procesar_envio_s3_a_sfc_def)
    then show ?thesis
      by (auto intro: vela_mas [OF vela_enviar_uno [OF assms(1) it]] simp: cumplido_def)
  qed
qed

lemma primera_excepcion_Inr: "primera_excepcion rs = Inr xs \<Longrightarrow> r \<in> set rs \<Longrightarrow> \<exists>y. r = Inr y"
  by (induction rs arbitrary: xs) (auto split: sum.splits)

text \<open>The gathered attachments, under any schedule.\<close>

lemma lote_reunido:
  assumes "en_lote k c cl x adjuntos n (en_regla k n)" "en_regla k n w"
    and r: "corre (reune 5 turnos (map (\<lambda>j. procesar_envio_s3_a_sfc c cl x (objeto_de j)) adjuntos)) w = (r, w')"
  shows "avance k (prueba_de c cl x adjuntos) n w w'
    \<and> (\<exists>l. r = Inr l \<and> length l = length adjuntos
        \<and> (\<forall>i<length adjuntos. (\<exists>y. l ! i = Inr y) \<longrightarrow> cumplido c cl x (objeto_de (adjuntos ! i)) (nuevos n w')))"
proof -
  let ?R = "avance k (prueba_de c cl x adjuntos) n"
  let ?ts = "map (\<lambda>j. procesar_envio_s3_a_sfc c cl x (objeto_de j)) adjuntos"
  let ?Q = "\<lambda>i r w. en_regla k n w \<and> ((\<exists>y. r = Inr y) \<longrightarrow> cumplido c cl x (objeto_de (adjuntos ! i)) (nuevos n w))"
  have v: "vela ?R (juntas (length ?ts) ?Q) (\<lambda>w. \<forall>i<length ?ts. en_regla k n w) (reune 5 turnos ?ts)"
  proof (rule vela_reune)
    show "vela ?R (?Q i) (en_regla k n) (?ts ! i)" if "i < length ?ts" for i
      using that vela_procesar [OF assms(1), of "objeto_de (adjuntos ! i)"] nth_mem [of i adjuntos] by fastforce
    show "estable ?R (en_regla k n)" by (rule estable_en_regla)
    show "estable ?R (?Q i r)" for i and r :: "json option resultado"
      by (intro estable_conj estable_en_regla estable_cumplido)
  qed
  have "?R w (snd (corre (reune 5 turnos ?ts) w)) \<and> juntas (length ?ts) ?Q (fst (corre (reune 5 turnos ?ts) w)) (snd (corre (reune 5 turnos ?ts) w))"
    by (rule vela_corre [OF avance_refl avance_trans [OF creciente_prueba] v]) (use assms(2) in simp)
  with r show ?thesis by (auto simp: juntas_def)
qed

lemma leer_completados:
  assumes "entorno (sin_marcar k) w" "k = get_checkpoint_key codigo"
  shows "\<exists>h. fst (obtener_archivos_completados codigo w) = Inr h \<and> h \<subseteq> archivos_de (w_redis w) k"
proof -
  have t: "archivos_de (t_otros t (w_redis w)) k \<subseteq> archivos_de (w_redis w) k" if "t \<in> set (w_turnos w)" for t
    using assms(1) that by (auto simp: entorno_def sin_marcar_def)
  show ?thesis
  proof (cases "w_turnos w")
    case Nil
    with assms(2) show ?thesis
      by (auto simp: obtener_archivos_completados_def luego_def hay_cliente_def intenta_def redis_cmd_def devuelve_def)
  next
    case (Cons u us)
    with t [of u] assms(2) show ?thesis
      by (cases "t_falla u") (auto simp: obtener_archivos_completados_def luego_def hay_cliente_def intenta_def redis_cmd_def devuelve_def Let_def)
  qed
qed

lemma tranquila_intenta:
  "respeta (sin_marcar k) m \<Longrightarrow> callada m \<Longrightarrow> (\<And>e. respeta (sin_marcar k) (h e)) \<Longrightarrow> (\<And>e. callada (h e)) \<Longrightarrow> tranquila k (intenta m h)"
  by (intro tranquila_callada gmarca.intenta callada_intenta)

lemma tranquila_completados: "tranquila k (obtener_archivos_completados codigo)"
proof -
  have "tranquila k (if \<not> hay then devuelve {}
      else intenta (redis_cmd (\<lambda>r. (Inr (archivos_de r (get_checkpoint_key codigo)), r))) (\<lambda>e. devuelve {}))" for hay
    by (auto intro!: tranquila_intenta tranquila_callada calladas gmarca.reglas gmarca.redis_cmd simp: gmarca.nada)
  then show ?thesis
    unfolding obtener_archivos_completados_def by (intro tranquila_luego tranquilas_simples(3))
qed

definition envio_de :: "string \<Rightarrow> string \<Rightarrow> string \<Rightarrow> bool \<Rightarrow> string \<Rightarrow> envio" where
  "envio_de codigo objetivo afijo masivo caso =
     \<lparr>en_codigo = codigo, en_hechos = {}, en_objetivo = objetivo, en_afijo = afijo, en_masivo = masivo, en_caso = caso\<rparr>"

lemma en_la_sfc_hechos: "en_la_sfc cl (x\<lparr>en_hechos := h\<rparr>) item log = en_la_sfc cl x item log"
  by (simp add: en_la_sfc_def resolver_nombre_final_envio_def)

lemma lote_avanza:
  assumes buenos: "s3_bueno k c" "http_bueno k cl" and k: "k = get_checkpoint_key codigo" and w: "entorno (sin_marcar k) w"
    and corrida: "corre (transferir_lote_s3_a_sfc c cl turnos codigo adjuntos objetivo afijo masivo caso) w = (r, w')"
  shows "avance k (prueba_de c cl (envio_de codigo objetivo afijo masivo caso) adjuntos) (length (w_bitacora w)) w w'
    \<and> (\<forall>rs j f. r = Inr rs \<and> j \<in> set adjuntos \<and> identificador_archivo (s3_sha c) (objeto_de j) = Some f \<longrightarrow>
         f \<in> archivos_de (w_redis w) k
         \<or> en_la_sfc cl (envio_de codigo objetivo afijo masivo caso) (objeto_de j) (nuevos (length (w_bitacora w)) w'))"
proof (cases "adjuntos = []")
  case True
  with corrida show ?thesis using reflpD [OF avance_refl] by (simp add: transferir_lote_s3_a_sfc_def devuelve_def)
next
  case False
  define n where "n = length (w_bitacora w)"
  let ?m = "obtener_archivos_completados codigo"
  obtain h w1 where 1: "?m w = (Inr h, w1)" "h \<subseteq> archivos_de (w_redis w) k"
    using leer_completados [OF w k] by (cases "?m w") auto
  let ?limpio = "envio_de codigo objetivo afijo masivo caso" and ?x = "envio_de codigo objetivo afijo masivo caso\<lparr>en_hechos := h\<rparr>"
  let ?t = "reune 5 turnos (map (\<lambda>j. procesar_envio_s3_a_sfc c cl ?x (objeto_de j)) adjuntos)"
  have "en_regla k n w" using w by (simp add: en_regla_def n_def)
  then have a1: "avance k (prueba_de c cl ?x adjuntos) n w w1"
    using avance_tranquila [OF tranquila_completados] 1(1) by (metis snd_conv)
  then have r1: "en_regla k n w1" using \<open>en_regla k n w\<close> estable_en_regla unfolding estable_def by blast
  obtain rs w2 where 2: "corre ?t w1 = (rs, w2)" by fastforce
  have lote: "en_lote k c cl ?x adjuntos n (en_regla k n)"
    using buenos k estable_en_regla by (auto simp: en_lote_def apta_def envio_de_def)
  obtain l where l: "rs = Inr l" "length l = length adjuntos" "avance k (prueba_de c cl ?x adjuntos) n w1 w2"
      "\<And>i. i < length adjuntos \<Longrightarrow> \<exists>y. l ! i = Inr y \<Longrightarrow> cumplido c cl ?x (objeto_de (adjuntos ! i)) (nuevos n w2)"
    using lote_reunido [OF lote r1 2] by auto
  have fin: "r = primera_excepcion l" "w' = w2"
    using corrida False 1(1) 2 l(1)
    by (auto simp: transferir_lote_s3_a_sfc_def luego_def envio_de_def de_resultado_def Let_def)
  have a: "avance k (prueba_de c cl ?x adjuntos) n w w'"
    using transpD [OF avance_trans [OF creciente_prueba] a1 l(3)] fin(2) by simp
  have "f \<in> archivos_de (w_redis w) k \<or> en_la_sfc cl ?limpio (objeto_de j) (nuevos n w')"
    if "r = Inr xs" "j \<in> set adjuntos" "identificador_archivo (s3_sha c) (objeto_de j) = Some f" for xs j f
  proof -
    from that(2) obtain i where i: "i < length adjuntos" "j = adjuntos ! i" by (auto simp: in_set_conv_nth)
    have "\<exists>y. l ! i = Inr y" using primera_excepcion_Inr [of l xs "l ! i"] that(1) fin(1) l(2) i(1) by simp
    with l(4) [OF i(1)] have "cumplido c cl ?x (objeto_de j) (nuevos n w')" using i(2) fin(2) by simp
    with that(3) 1(2) identificador_None [of "s3_sha c" "objeto_de j"] show ?thesis
      by (auto simp: cumplido_def en_la_sfc_hechos)
  qed
  moreover have "avance k (prueba_de c cl ?limpio adjuntos) n w w'"
    using a unfolding prueba_de_def en_la_sfc_hechos .
  ultimately show ?thesis unfolding n_def by blast
qed

text \<open>C28. The checkpoint of attachments means delivery. Whatever S3 and the SFC answer, however the five concurrent transfers
interleave and whichever Redis commands fail, after \<open>transferir_lote_s3_a_sfc\<close> every file in the checkpoint of the case
was in it before or is an attachment of this batch for which the SFC accepted a request with its name, or answered that it already
has it. If the transfer returns, every attachment that has an identity was in the checkpoint before or was delivered.\<close>

theorem el_checkpoint_es_entrega:
  assumes buenos: "s3_bueno k c" "http_bueno k cl" and k: "k = get_checkpoint_key codigo" and w: "entorno (sin_marcar k) w"
    and corrida: "corre (transferir_lote_s3_a_sfc c cl turnos codigo adjuntos objetivo afijo masivo caso) w = (r, w')"
  shows "\<exists>log. w_bitacora w' = w_bitacora w @ log
    \<and> (\<forall>f \<in> archivos_de (w_redis w') k. f \<in> archivos_de (w_redis w) k
         \<or> (\<exists>j \<in> set adjuntos. identificador_archivo (s3_sha c) (objeto_de j) = Some f
              \<and> en_la_sfc cl (envio_de codigo objetivo afijo masivo caso) (objeto_de j) log))
    \<and> (\<forall>rs j f. r = Inr rs \<and> j \<in> set adjuntos \<and> identificador_archivo (s3_sha c) (objeto_de j) = Some f \<longrightarrow>
         f \<in> archivos_de (w_redis w) k \<or> en_la_sfc cl (envio_de codigo objetivo afijo masivo caso) (objeto_de j) log)"
proof -
  let ?x = "envio_de codigo objetivo afijo masivo caso"
  note L = lote_avanza [OF assms]
  then obtain log where log: "w_bitacora w' = w_bitacora w @ log" by (auto simp: avance_def)
  then have "nuevos (length (w_bitacora w)) w' = log" by (simp add: nuevos_def)
  with L log w show ?thesis unfolding avance_def prueba_de_def by blast
qed

definition s3_ej :: cfg_s3 where
  "s3_ej =
     \<lparr>s3_cliente = True, s3_entorno = ''prod'', s3_bucket = ''b'', s3_url_sfc = ''https://sfc'', s3_py_str = (\<lambda>j. []),
      s3_sha = (\<lambda>s. s), s3_mb = str_nat, s3_head = (\<lambda>b k. devuelve (BOk 6)), s3_baja = (\<lambda>b k. devuelve (BOk ''%PDF-1'')),
      s3_objeto = (\<lambda>b k. devuelve None), s3_pone = (\<lambda>b k t u. devuelve (BOk ())), s3_paginas = (\<lambda>b k. devuelve []),
      s3_url = (\<lambda>u. devuelve (DFalla []))\<rparr>"

definition sfc_ej :: cfg_sfc where
  "sfc_ej =
     \<lparr>sf_base = ''https://sfc'', sf_reintentos = 2, sf_demora = 1000, sf_cargar = (\<lambda>t. Some (JObj [])), sf_py_str = (\<lambda>j. []),
      sf_matriz = [], sf_http = (\<lambda>p. devuelve (201, ''{}''))\<rparr>"

text \<open>The second command of the first task fails after it ran.\<close>

definition lote_ej :: mundo where
  "lote_ej =
     \<lparr>w_redis = redis_vacio, w_cliente = True,
      w_turnos = [\<lparr>t_otros = id, t_falla = Bien\<rparr>, \<lparr>t_otros = id, t_falla = CaeDespues\<rparr>], w_bitacora = [], w_auth = sin_tokens, w_relevos = [], w_envios = []\<rparr>"

definition par_ej :: "json list" where
  "par_ej = [JObj [(''s3_key'', JStr ''caso/C/a.pdf''), (''bytes'', JStr ''%PDF-1'')], JObj [(''s3_key'', JStr ''caso/C/b.pdf''), (''bytes'', JStr ''%PDF-2'')]]"

lemma ejemplos_buenos: "s3_bueno k s3_ej" "http_bueno k sfc_ej" "entorno (sin_marcar k) lote_ej"
  by (auto simp: s3_bueno_def s3_ej_def quieta_devuelve http_bueno_def sfc_ej_def entorno_def lote_ej_def gmarca.nada
      intro: gmarca.devuelve calladas) (simp add: devuelve_def)

lemma lote_ej_marca:
  "archivos_de (w_redis (snd (corre (transferir_lote_s3_a_sfc s3_ej sfc_ej [0, 1, 1, 0] ''Q'' par_ej [] [] False ''C'') lote_ej)))
     (get_checkpoint_key ''Q'') = {''caso/C/a.pdf:%PDF-1'', ''caso/C/b.pdf:%PDF-2''}"
  by code_simp

lemma el_checkpoint_es_entrega_testigo:
  "\<exists>r w' log. corre (transferir_lote_s3_a_sfc s3_ej sfc_ej [0, 1, 1, 0] ''Q'' par_ej [] [] False ''C'') lote_ej = (r, w')
     \<and> w_bitacora w' = w_bitacora lote_ej @ log
     \<and> (\<forall>f \<in> {''caso/C/a.pdf:%PDF-1'', ''caso/C/b.pdf:%PDF-2''}. \<exists>j \<in> set par_ej.
          identificador_archivo (s3_sha s3_ej) (objeto_de j) = Some f
          \<and> en_la_sfc sfc_ej (envio_de ''Q'' [] [] False ''C'') (objeto_de j) log)"
proof -
  let ?c = "corre (transferir_lote_s3_a_sfc s3_ej sfc_ej [0, 1, 1, 0] ''Q'' par_ej [] [] False ''C'') lote_ej"
  have antes: "archivos_de (w_redis lote_ej) (get_checkpoint_key ''Q'') = {}"
    by (simp add: archivos_de_def lote_ej_def redis_vacio_def tget_def)
  from el_checkpoint_es_entrega [OF ejemplos_buenos(1,2) refl ejemplos_buenos(3) surjective_pairing [of ?c]]
  obtain log where "w_bitacora (snd ?c) = w_bitacora lote_ej @ log"
    "\<forall>f \<in> archivos_de (w_redis (snd ?c)) (get_checkpoint_key ''Q''). \<exists>j \<in> set par_ej.
       identificador_archivo (s3_sha s3_ej) (objeto_de j) = Some f
       \<and> en_la_sfc sfc_ej (envio_de ''Q'' [] [] False ''C'') (objeto_de j) log"
    unfolding antes by blast
  then show ?thesis unfolding lote_ej_marca by (intro exI [of _ "fst ?c"] exI [of _ "snd ?c"] exI [of _ log]) simp
qed

end
