(* ===== verification/Ruta_Despacho.thy ===== *)
theory Ruta_Despacho
  imports Orquestador
begin

text \<open>
  \<^verbatim>\<open>app/api/routes_quejas.py\<close>: the synchronous entry of the CRM. One request passes the idempotency
  gate, takes the lock of its case, runs the orchestrator and stores the result; a transient failure
  or a busy lock sends it to the queue; whatever happens, the lock and the idempotency record are left
  so that a retry is answered correctly. The exception handlers of \<^verbatim>\<open>app/main.py\<close> turn what is raised
  into the answer. The bodies carry the fields with values; their fixed explanatory texts are left
  out. The heartbeats of the lock and of the PROCESSING record run beside the request: they are among
  the other processes of the turns.
\<close>

record respuesta_http =
  rs_codigo :: int
  rs_hit :: bool
  rs_cuerpo :: json

subsection \<open>Metric of the dispatch\<close>

fun antes_de :: "char \<Rightarrow> string \<Rightarrow> string" where
  "antes_de c [] = []"
| "antes_de c (x # xs) = (if x = c then [] else x # antes_de c xs)"

fun despues_de :: "char \<Rightarrow> string \<Rightarrow> string option" where
  "despues_de c [] = None"
| "despues_de c (x # xs) = (if x = c then Some xs else despues_de c xs)"

definition emitir_metrica_despacho :: "string \<Rightarrow> string \<Rightarrow> string \<Rightarrow> unit accion" where
  "emitir_metrica_despacho operacion resultado categoria_error =
     emite (Metrica ''dispatch_count''
       [antes_de CHR ''_'' operacion,
        (case despues_de CHR ''_'' operacion of None \<Rightarrow> ''n/a'' | Some s \<Rightarrow> lower s),
        resultado, categoria_error])"

subsection \<open>The answer of an idempotency hit\<close>

definition estado_idempotente :: "respuesta_idem \<Rightarrow> string" where
  "estado_idempotente v = (case v of RSuccess _ \<Rightarrow> ''success'' | RProcessing \<Rightarrow> ''processing''
     | RAlreadyQueued \<Rightarrow> ''already_queued'' | RRedisUnavailable \<Rightarrow> ''redis_unavailable'')"

definition veraz :: "json \<Rightarrow> bool" where
  "veraz j = (case j of JNull \<Rightarrow> False | JBool b \<Rightarrow> b | JInt i \<Rightarrow> i \<noteq> 0 | JFloat s \<Rightarrow> True | JStr s \<Rightarrow> s \<noteq> []
     | JArr xs \<Rightarrow> xs \<noteq> [] | JObj d \<Rightarrow> d \<noteq> [])"

definition contenido_idempotente :: "respuesta_idem \<Rightarrow> string \<Rightarrow> dict \<Rightarrow> dict" where
  "contenido_idempotente v smart_code d =
     [(''status'', JStr (estado_idempotente v)), (''is_idempotent_hit'', JBool (v \<noteq> RRedisUnavailable)),
      (''smart_code'', JStr smart_code), (''operation'', JStr (infer_operation_type d))]"

definition construir_respuesta_idempotente :: "respuesta_idem \<Rightarrow> string \<Rightarrow> dict \<Rightarrow> respuesta_http" where
  "construir_respuesta_idempotente v smart_code d =
     (case v of
        RRedisUnavailable \<Rightarrow>
          \<lparr>rs_codigo = 503, rs_hit = False,
           rs_cuerpo = JObj [(''status_code'', JInt 503), (''error_type'', JStr ''IDEMPOTENCY_STORE_UNAVAILABLE''),
                             (''sfc_field'', JNull)]\<rparr>
      | RSuccess resp \<Rightarrow>
          \<lparr>rs_codigo = 200, rs_hit = True,
           rs_cuerpo = (if veraz resp then resp else JObj (contenido_idempotente v smart_code d))\<rparr>
      | _ \<Rightarrow> \<lparr>rs_codigo = 202, rs_hit = True, rs_cuerpo = JObj (contenido_idempotente v smart_code d)\<rparr>)"

subsection \<open>The lock of the case\<close>

definition despacho_lock_prefix :: string where
  "despacho_lock_prefix = ''{sfc:despacho}''"

definition despacho_lock_key :: "string \<Rightarrow> string" where
  "despacho_lock_key smart_code = despacho_lock_prefix @ '':lock:'' @ smart_code"

definition despacho_lock :: "string \<Rightarrow> string \<Rightarrow> RedisLock" where
  "despacho_lock smart_code token =
     (nuevo_lock (despacho_lock_key smart_code) token 180)\<lparr>intervalo_heartbeat := 45\<rparr>"

definition motivo_lock_no_adquirido :: "RedisLock \<Rightarrow> string \<Rightarrow> string \<times> string \<times> string" where
  "motivo_lock_no_adquirido c smart_code =
     (if redis_error c
      then (''Fallo al verificar el lock de despacho (Redis)'',
            ''No se pudo verificar el lock de despacho para el Smart_Code__c '' @ smart_code @ '': Redis no disponible.'',
            ''DESPACHO_LOCK_REDIS_ERROR'')
      else (''Despacho concurrente para el mismo caso'',
            ''Ya hay otra operaci'' @ con_tilde CHR ''o'' @ ''n en curso para el Smart_Code__c '' @ smart_code @ ''.'',
            ''CONCURRENT_DISPATCH_LOCKED''))"

subsection \<open>Contingency\<close>

definition aceptada :: "string \<Rightarrow> string \<Rightarrow> string \<Rightarrow> respuesta_http" where
  "aceptada estado smart_code detalle =
     \<lparr>rs_codigo = 202, rs_hit = False,
      rs_cuerpo = JObj [(''status'', JStr estado), (''smart_code'', JStr smart_code), (''error_origen'', JStr detalle)]\<rparr>"

definition falla_doble :: respuesta_http where
  "falla_doble =
     \<lparr>rs_codigo = 503, rs_hit = False,
      rs_cuerpo = JObj [(''status_code'', JInt 503), (''error_type'', JStr ''CRITICAL_INFRASTRUCTURE_FAILURE''),
                        (''sfc_field'', JNull)]\<rparr>"

definition encolar_despacho_por_contingencia ::
    "(string \<Rightarrow> string) \<Rightarrow> ajustes \<Rightarrow> string \<Rightarrow> dict \<Rightarrow> string \<Rightarrow> (respuesta_http \<times> bool) accion" where
  "encolar_despacho_por_contingencia sha cfg cid raw_payload detalle =
     (let smart_code = smart_code_de raw_payload in
      intenta
        (luego (encolar_despacho sha cfg cid smart_code ''AUTO'' raw_payload detalle) (\<lambda>it.
         luego (registrar_encolado sha smart_code raw_payload (Some (it_id it))) (\<lambda>_.
           devuelve (aceptada (if it_es_duplicado it then ''already_queued'' else ''queued'') smart_code detalle, True))))
        (\<lambda>e. luego (emite (Correo ''fallo_doble_sfc_y_redis'' smart_code)) (\<lambda>_. devuelve (falla_doble, False))))"

subsection \<open>The request\<close>

definition error_orquestacion :: "dict \<Rightarrow> respuesta_http" where
  "error_orquestacion resultado =
     \<lparr>rs_codigo = 400, rs_hit = False,
      rs_cuerpo = JObj [(''status_code'', JInt 400), (''error_type'', JStr ''DESPACHO_ORCHESTRATION_ERROR''),
        (''sfc_field'', JStr ''payload''),
        (''raw_message'', case map_of resultado ''message'' of Some v \<Rightarrow> v
           | None \<Rightarrow> JStr (''Error durante el despacho o actualizaci'' @ con_tilde CHR ''o'' @ ''n del caso ante la SFC.''))]\<rparr>"

text \<open>The \<^verbatim>\<open>try\<close> body after the lock was acquired.\<close>

definition despacho_con_lock ::
    "(string \<Rightarrow> string) \<Rightarrow> servicios \<Rightarrow> dict \<Rightarrow> (respuesta_http \<times> bool) accion" where
  "despacho_con_lock sha sv raw_payload =
     (let smart_code = smart_code_de raw_payload; operacion = infer_operation_type raw_payload in
      luego (procesar_despacho sv raw_payload True) (\<lambda>resultado.
        if estado_de resultado = ''error'' then
          luego (emitir_metrica_despacho operacion ''error'' ''DESPACHO_ORCHESTRATION_ERROR'') (\<lambda>_.
            devuelve (error_orquestacion resultado, False))
        else
          luego (intenta (registrar_exito sha smart_code raw_payload (JObj resultado))
                   (\<lambda>e. emite (Correo ''riesgo_duplicado_post_sfc'' smart_code))) (\<lambda>_.
          luego (intenta (cancelar_pendiente_por_smart_code smart_code operacion) (\<lambda>e. devuelve False)) (\<lambda>_.
          luego (emitir_metrica_despacho operacion ''success'' ''N/A'') (\<lambda>_.
            devuelve (\<lparr>rs_codigo = 200, rs_hit = False, rs_cuerpo = JObj resultado\<rparr>, True))))))"

text \<open>The whole \<^verbatim>\<open>try ... except ...\<close>; \<open>ok\<close> and \<open>c\<close> are what \<open>acquire\<close> left.\<close>

definition intento_despacho ::
    "(string \<Rightarrow> string) \<Rightarrow> ajustes \<Rightarrow> servicios \<Rightarrow> string \<Rightarrow> dict \<Rightarrow> bool \<Rightarrow> RedisLock \<Rightarrow> (respuesta_http \<times> bool) accion" where
  "intento_despacho sha cfg sv cid raw_payload ok c =
     (let operacion = infer_operation_type raw_payload;
          encola = (\<lambda>detalle categoria.
            luego (encolar_despacho_por_contingencia sha cfg cid raw_payload detalle) (\<lambda>res.
            luego (emitir_metrica_despacho operacion ''queued'' categoria) (\<lambda>_. devuelve res)))
      in intenta
        (if \<not> ok then
           (case motivo_lock_no_adquirido c (smart_code_de raw_payload) of (_, detalle, categoria) \<Rightarrow> encola detalle categoria)
         else despacho_con_lock sha sv raw_payload)
        (\<lambda>x. case x of
           SfcIntegrationException e \<Rightarrow>
             if es_transitoria e then encola (if raw_message e \<noteq> [] then raw_message e else str_exc x) (error_type e)
             else luego (emitir_metrica_despacho operacion ''error'' (error_type e)) (\<lambda>_. lanza x)
         | ErrorRed s \<Rightarrow> encola s ''NETWORK_ERROR''
         | _ \<Rightarrow> lanza x))"

text \<open>The \<^verbatim>\<open>finally\<close>: release the lock; unless the request succeeded or was queued, release its record.\<close>

definition cierra_peticion ::
    "(string \<Rightarrow> string) \<Rightarrow> dict \<Rightarrow> RedisLock \<Rightarrow> (respuesta_http \<times> bool) resultado \<Rightarrow> respuesta_http accion" where
  "cierra_peticion sha raw_payload c salida =
     luego (release c) (\<lambda>_.
     luego (if (case salida of Inl _ \<Rightarrow> False | Inr (_, f) \<Rightarrow> f) then devuelve ()
            else liberar_operacion_por_error sha (smart_code_de raw_payload) raw_payload) (\<lambda>_.
       case salida of Inl e \<Rightarrow> lanza e | Inr (resp, _) \<Rightarrow> devuelve resp))"

definition capturada :: "'a accion \<Rightarrow> 'a resultado accion" where
  "capturada m w = (case m w of (x, w') \<Rightarrow> (Inr x, w'))"

definition despachar_queja_crm ::
    "(string \<Rightarrow> string) \<Rightarrow> ajustes \<Rightarrow> servicios \<Rightarrow> string \<Rightarrow> string \<Rightarrow> dict \<Rightarrow> respuesta_http accion" where
  "despachar_queja_crm sha cfg sv cid token raw_payload =
     (let smart_code = smart_code_de raw_payload; operacion = infer_operation_type raw_payload in
      luego (verificar_o_iniciar_operacion sha smart_code raw_payload True) (\<lambda>veredicto.
        case veredicto of
          Some v \<Rightarrow>
            luego (emitir_metrica_despacho operacion (estado_idempotente v) ''N/A'') (\<lambda>_.
              devuelve (construir_respuesta_idempotente v smart_code raw_payload))
        | None \<Rightarrow>
            luego (acquire (despacho_lock smart_code token)) (\<lambda>(ok, c).
            luego (capturada (intento_despacho sha cfg sv cid raw_payload ok c)) (\<lambda>salida.
              cierra_peticion sha raw_payload c salida))))"

text \<open>The exception handlers of \<^verbatim>\<open>main.py\<close>: the answer that the CRM finally gets.\<close>

definition sfc_integration_exception_handler :: "error_sfc \<Rightarrow> respuesta_http" where
  "sfc_integration_exception_handler e =
     \<lparr>rs_codigo = status_code e, rs_hit = False,
      rs_cuerpo = JObj [(''status_code'', JInt (status_code e)), (''error_type'', JStr (error_type e)),
        (''sfc_field'', (case sfc_field e of None \<Rightarrow> JNull | Some s \<Rightarrow> JStr s)),
        (''raw_message'', JStr (raw_message e)), (''crm_action_friendly'', JStr (crm_action e))]\<rparr>"

definition unhandled_exception_handler :: respuesta_http where
  "unhandled_exception_handler =
     \<lparr>rs_codigo = 500, rs_hit = False,
      rs_cuerpo = JObj [(''status_code'', JInt 500), (''error_type'', JStr ''INTERNAL_SERVER_ERROR''), (''sfc_field'', JNull)]\<rparr>"

definition pydantic_validation_exception_handler :: "(string list \<times> string) list \<Rightarrow> respuesta_http" where
  "pydantic_validation_exception_handler errores =
     (case (case errores of [] \<Rightarrow> (''payload'', ''Estructura del payload JSON inv'' @ con_tilde CHR ''a'' @ ''lida.'')
            | (loc, msg) # _ \<Rightarrow>
                (if loc \<noteq> [] \<and> last loc \<noteq> ''body'' then last loc else ''payload'',
                 if empieza ''Value error, '' msg then drop 13 msg else msg)) of
        (field_name, raw_msg) \<Rightarrow>
          \<lparr>rs_codigo = 400, rs_hit = False,
           rs_cuerpo = JObj [(''status_code'', JInt 400), (''error_type'', JStr ''CRM_PAYLOAD_VALIDATION_ERROR''),
             (''sfc_field'', JStr field_name), (''raw_message'', JStr raw_msg)]\<rparr>)"

definition atiende :: "respuesta_http resultado \<Rightarrow> respuesta_http" where
  "atiende x = (case x of
     Inr resp \<Rightarrow> resp
   | Inl (SfcIntegrationException e) \<Rightarrow> sfc_integration_exception_handler e
   | Inl (ErrorValidacion errs) \<Rightarrow> pydantic_validation_exception_handler errs
   | Inl _ \<Rightarrow> unhandled_exception_handler)"

subsection \<open>The administration routes\<close>

definition consultar_cola_local ::
    "(nat set \<Rightarrow> nat list) \<Rightarrow> ajustes \<Rightarrow> smart_status option \<Rightarrow> dict list accion" where
  "consultar_cola_local sscan cfg estado =
     luego (obtener_todos_los_encolados sscan cfg estado) (\<lambda>registros. devuelve (map to_summary_dict registros))"

definition reencolar_registro_fallido :: "(string \<Rightarrow> string) \<Rightarrow> ajustes \<Rightarrow> nat \<Rightarrow> (int \<times> salida_replay) accion" where
  "reencolar_registro_fallido sha cfg i =
     luego (reencolar_item_fallido sha cfg i) (\<lambda>res.
       devuelve (case res of Reencolado s v \<Rightarrow> 200
                 | ReplayRechazado why \<Rightarrow> if why = ItemNotFound then 404 else 409, res))"

definition health_ready_ssv :: "bool \<Rightarrow> int \<times> dict" where
  "health_ready_ssv redis_ok =
     (if redis_ok then 200 else 503, [(''servicio'', JStr ''SSV''), (''redis'', JBool redis_ok)])"

end
