(* ===== verification/Ruta_Propiedades.thy ===== *)
theory Ruta_Propiedades
  imports Ruta_Despacho
begin

text \<open>
  What the dispatch route promises to the CRM: an acceptance means that the queue owes the payload,
  the SFC is called only by the request that passed the gate and holds the lock of the case, the
  request leaves neither its lock nor a misleading record behind, and what the SFC accepted is
  answered as accepted whatever Redis does afterwards.
\<close>

subsection \<open>The route refines the queue\<close>

definition servicios_refinan :: "servicios \<Rightarrow> bool" where
  "servicios_refinan sv =
     ((\<forall>p. respeta paso_cola\<^sup>*\<^sup>* (sv_m2 sv p) \<and> respeta paso_cola\<^sup>*\<^sup>* (sv_fraude sv p)
           \<and> respeta paso_cola\<^sup>*\<^sup>* (sv_cierre sv p) \<and> respeta paso_cola\<^sup>*\<^sup>* (sv_tramite sv p)
           \<and> respeta paso_cola\<^sup>*\<^sup>* (sv_validar sv p))
      \<and> (\<forall>a b. respeta paso_cola\<^sup>*\<^sup>* (sv_listar sv a b)))"

lemma refina_limpiar: "respeta paso_cola\<^sup>*\<^sup>* (limpiar_checkpoint_si_cierre_exitoso r s c l)"
  unfolding limpiar_checkpoint_si_cierre_exitoso_def by (auto intro!: gcola.reglas refina_checkpoints)

lemma refina_pasos: "servicios_refinan sv \<Longrightarrow> respeta paso_cola\<^sup>*\<^sup>* (ejecutar_pasos_momento_3 sv p f c)"
  unfolding servicios_refinan_def ejecutar_pasos_momento_3_def Let_def intenta_sfc_def
    ejecutar_paso_o_exito_si_ya_cerrado_def
  by (auto intro!: gcola.reglas split: excepcion.split option.split)

lemma refina_procesar_despacho:
  assumes "servicios_refinan sv"
  shows "respeta paso_cola\<^sup>*\<^sup>* (procesar_despacho sv p l)"
proof -
  have "respeta paso_cola\<^sup>*\<^sup>* (despacho_clasificado sv q l)" for q
    using assms unfolding despacho_clasificado_def Let_def intenta_sfc_def
    by (auto simp: servicios_refinan_def intro!: gcola.reglas refina_pasos [OF assms] refina_limpiar split: excepcion.split)
  then show ?thesis
    using assms unfolding procesar_despacho_def con_listado_def
    by (auto simp: servicios_refinan_def intro!: gcola.reglas)
qed

lemma refina_procesar_raw:
  assumes "servicios_refinan sv"
  shows "respeta paso_cola\<^sup>*\<^sup>* (procesar_despacho_raw_json sv p l)"
  using assms unfolding procesar_despacho_raw_json_def
  by (auto simp: servicios_refinan_def intro!: gcola.reglas refina_procesar_despacho [OF assms] split: excepcion.split)

lemma refina_contingencia:
  "smart_ok (smart_code_de d) \<Longrightarrow> respeta paso_cola\<^sup>*\<^sup>* (encolar_despacho_por_contingencia sha cfg cid d e)"
  unfolding encolar_despacho_por_contingencia_def Let_def
  by (intro gcola.reglas refina_encolar refina_registrar)

lemma refina_con_lock_ruta:
  "servicios_refinan sv \<Longrightarrow> respeta paso_cola\<^sup>*\<^sup>* (despacho_con_lock sha sv d)"
  unfolding despacho_con_lock_def Let_def emitir_metrica_despacho_def
  by (intro gcola.reglas refina_procesar_despacho refina_registrar refina_cancelar)

lemma refina_capturada: "respeta R m \<Longrightarrow> respeta R (capturada m)"
  by (auto simp: respeta_def capturada_def split: prod.split)

lemma refina_intento:
  assumes "servicios_refinan sv" "smart_ok (smart_code_de d)"
  shows "respeta paso_cola\<^sup>*\<^sup>* (intento_despacho sha cfg sv cid d ok c)"
  unfolding intento_despacho_def Let_def emitir_metrica_despacho_def
  by (auto intro!: gcola.reglas refina_contingencia assms refina_con_lock_ruta split: excepcion.split prod.split)

lemma refina_cierra: "respeta paso_cola\<^sup>*\<^sup>* (cierra_peticion sha d c s)"
  unfolding cierra_peticion_def
  by (auto intro!: gcola.reglas refina_lock refina_registrar split: sum.split prod.split)

subsection \<open>An acceptance is a debt of the queue\<close>

text \<open>The queue owes \<open>d\<close>: the slot of its case and category points to a pending item with that payload,
not yet sent. \<open>deuda\<close>: so it was at some moment between \<open>r\<close> and \<open>s\<close>, with only steps of the queue
before and after.\<close>

definition adeuda :: "(string \<Rightarrow> string) \<Rightarrow> dict \<Rightarrow> redis \<Rightarrow> bool" where
  "adeuda sha d q =
     (\<exists>i b. debe q (indice_key (smart_code_de d) (infer_operation_type d)) i b
        \<and> it_payload b = d \<and> it_payload_hash b = Some (compute_payload_hash sha d)
        \<and> it_estado b = PENDING \<and> \<not> it_sfc_completado b \<and> it_intentos b = Some 1)"

definition deuda :: "(string \<Rightarrow> string) \<Rightarrow> dict \<Rightarrow> redis \<Rightarrow> redis \<Rightarrow> bool" where
  "deuda sha d r s = (\<exists>q. paso_cola\<^sup>*\<^sup>* r q \<and> adeuda sha d q \<and> paso_cola\<^sup>*\<^sup>* q s)"

definition salda :: "(string \<Rightarrow> string) \<Rightarrow> dict \<Rightarrow> respuesta_http \<Rightarrow> redis \<Rightarrow> redis \<Rightarrow> bool" where
  "salda sha d resp r s = (cola_inv r \<and> rs_codigo resp = 202 \<and> \<not> rs_hit resp \<longrightarrow> deuda sha d r s)"

lemma deuda_antes: "paso_cola\<^sup>*\<^sup>* r s \<Longrightarrow> deuda sha d s t \<Longrightarrow> deuda sha d r t"
  unfolding deuda_def by (blast intro: rtranclp_trans)

lemma deuda_despues: "deuda sha d r s \<Longrightarrow> paso_cola\<^sup>*\<^sup>* s t \<Longrightarrow> deuda sha d r t"
  unfolding deuda_def by (blast intro: rtranclp_trans)

lemma absorbe_salda: "absorbe paso_cola\<^sup>*\<^sup>* (\<lambda>x. salda sha d (f x))"
  unfolding absorbe_def salda_def
  by (blast intro: deuda_antes deuda_despues cola.inv_estrella)

lemma encolar_deja_deuda:
  assumes ok: "smart_ok (smart_code_de d)"
  shows "asegura paso_cola\<^sup>*\<^sup>* (\<lambda>it r s. cola_inv r \<longrightarrow> deuda sha d r s)
     (encolar_despacho sha cfg cid (smart_code_de d) tp d e)"
  unfolding asegura_def
proof (intro allI impI)
  fix w it w'
  assume w: "entorno paso_cola\<^sup>*\<^sup>* w" "encolar_despacho sha cfg cid (smart_code_de d) tp d e w = (Inr it, w')"
    and inv: "cola_inv (w_redis w)"
  obtain r a res where r: "paso_cola\<^sup>*\<^sup>* (w_redis w) r"
    "enqueue_lua (indice_key (smart_code_de d) (infer_operation_type d)) a r = (Inr res, w_redis w')"
    "ae_payload a = d" "ae_payload_hash a = compute_payload_hash sha d"
    using encolar_enqueue [OF w(2,1)] by metis
  have "cola_inv r" using cola.inv_estrella [OF r(1) inv] .
  from enqueue_post [OF this r(2)] r(3,4)
  have b: "debe (w_redis w') (indice_key (smart_code_de d) (infer_operation_type d)) (it_id (data res)) (data res)"
    "it_payload (data res) = d" "it_payload_hash (data res) = Some (compute_payload_hash sha d)"
    "it_estado (data res) = PENDING" "\<not> it_sfc_completado (data res)" "it_intentos (data res) = Some 1"
    by simp_all
  then have "adeuda sha d (w_redis w')" unfolding adeuda_def by blast
  moreover have "paso_cola\<^sup>*\<^sup>* (w_redis w) (w_redis w')"
    using respetaD(1) [OF refina_encolar [OF ok] w(1)] w(2) by (metis snd_conv)
  ultimately show "deuda sha d (w_redis w) (w_redis w')" unfolding deuda_def by blast
qed

lemma contingencia_salda:
  assumes "smart_ok (smart_code_de d)"
  shows "asegura paso_cola\<^sup>*\<^sup>* (\<lambda>x. salda sha d (fst x)) (encolar_despacho_por_contingencia sha cfg cid d e)"
proof -
  have 1: "asegura paso_cola\<^sup>*\<^sup>* (\<lambda>x. salda sha d (fst x))
      (luego (encolar_despacho sha cfg cid (smart_code_de d) ''AUTO'' d e) (\<lambda>it.
         luego (registrar_encolado sha (smart_code_de d) d (Some (it_id it))) (\<lambda>_.
           devuelve (aceptada (if it_es_duplicado it then ''already_queued'' else ''queued'') (smart_code_de d) e, True))))"
    by (rule gcola.asegura_despues [OF encolar_deja_deuda [OF assms] refina_encolar [OF assms]])
      (auto intro!: gcola.reglas refina_registrar simp: salda_def intro: deuda_despues)
  have 2: "asegura paso_cola\<^sup>*\<^sup>* (\<lambda>x. salda sha d (fst x))
      (luego (emite (Correo ''fallo_doble_sfc_y_redis'' (smart_code_de d))) (\<lambda>_. devuelve (falla_doble, False)))"
    by (rule gcola.asegura_luego [OF absorbe_salda gcola.emite gcola.asegura_devuelve])
      (simp add: salda_def falla_doble_def)
  show ?thesis
    unfolding encolar_despacho_por_contingencia_def Let_def
    by (rule gcola.asegura_intenta [OF absorbe_salda _ 1 2])
      (intro gcola.reglas refina_encolar refina_registrar assms)
qed

lemma con_lock_salda:
  assumes "servicios_refinan sv"
  shows "asegura paso_cola\<^sup>*\<^sup>* (\<lambda>x. salda sha d (fst x)) (despacho_con_lock sha sv d)"
  unfolding despacho_con_lock_def Let_def emitir_metrica_despacho_def
  by (auto intro!: gcola.asegura_luego [OF absorbe_salda] gcola.asegura_devuelve gcola.reglas refina_cancelar
      refina_registrar refina_procesar_despacho [OF assms] simp: salda_def error_orquestacion_def)

lemma intento_salda:
  assumes "servicios_refinan sv" "smart_ok (smart_code_de d)"
  shows "asegura paso_cola\<^sup>*\<^sup>* (\<lambda>x. salda sha d (fst x)) (intento_despacho sha cfg sv cid d ok c)"
proof -
  have enc: "asegura paso_cola\<^sup>*\<^sup>* (\<lambda>x. salda sha d (fst x))
      (luego (encolar_despacho_por_contingencia sha cfg cid d e) (\<lambda>res. luego (emite ev) (\<lambda>_. devuelve res)))" for e ev
    by (rule gcola.asegura_despues [OF contingencia_salda [OF assms(2)] refina_contingencia [OF assms(2)]])
      (auto intro!: gcola.reglas simp: luego_def emite_def devuelve_def absorbe_salda [unfolded absorbe_def, THEN conjunct2, rule_format])
  have er: "asegura paso_cola\<^sup>*\<^sup>* (\<lambda>x. salda sha d (fst x)) (luego (emite ev) (\<lambda>_. lanza x))" for ev x
    by (rule gcola.asegura_luego [OF absorbe_salda gcola.emite gcola.asegura_lanza])
  show ?thesis
    unfolding intento_despacho_def Let_def emitir_metrica_despacho_def
    by (rule gcola.asegura_intenta [OF absorbe_salda])
      (auto intro!: enc er con_lock_salda assms gcola.asegura_lanza gcola.reglas refina_contingencia refina_con_lock_ruta
        split: excepcion.split prod.split)
qed

lemma cierra_resultado:
  "cierra_peticion sha d c s w = (Inr y, w') \<Longrightarrow> \<exists>f. s = Inr (y, f)"
  by (auto simp: cierra_peticion_def lanza_def devuelve_def elim!: luego_InrE split: sum.splits prod.splits)

lemma ruta_salda:
  assumes sv: "servicios_refinan sv" and ok: "smart_ok (smart_code_de d)"
  shows "asegura paso_cola\<^sup>*\<^sup>* (salda sha d) (despachar_queja_crm sha cfg sv cid token d)"
proof -
  have cap: "asegura paso_cola\<^sup>*\<^sup>* (\<lambda>x r s. \<forall>y f. x = Inr (y, f) \<longrightarrow> salda sha d y r s)
      (capturada (intento_despacho sha cfg sv cid d ok' c))" for ok' c
    using intento_salda [OF assms, of sha cfg cid ok' c]
    unfolding asegura_def capturada_def by (auto split: prod.splits)
  have fin: "asegura paso_cola\<^sup>*\<^sup>* (salda sha d)
      (luego (capturada (intento_despacho sha cfg sv cid d ok' c)) (\<lambda>s. cierra_peticion sha d c s))" for ok' c
    by (rule gcola.asegura_despues [OF cap refina_capturada [OF refina_intento [OF assms]] refina_cierra])
      (use absorbe_salda [of sha d "\<lambda>x. x"] in \<open>auto simp: absorbe_def dest!: cierra_resultado\<close>)
  have hit: "asegura paso_cola\<^sup>*\<^sup>* (salda sha d)
      (luego (emitir_metrica_despacho op a b) (\<lambda>_. devuelve (construir_respuesta_idempotente v s d)))" for op a b v s
    unfolding emitir_metrica_despacho_def
    by (rule gcola.asegura_luego [OF absorbe_salda [of sha d "\<lambda>x. x"] gcola.emite gcola.asegura_devuelve])
      (simp add: salda_def construir_respuesta_idempotente_def split: respuesta_idem.split)
  show ?thesis
    unfolding despachar_queja_crm_def Let_def
    by (rule gcola.asegura_luego [OF absorbe_salda [of sha d "\<lambda>x. x"] refina_verificar])
      (auto intro!: hit gcola.asegura_luego [OF absorbe_salda [of sha d "\<lambda>x. x"] refina_lock(1)] fin
        split: option.split prod.split)
qed

text \<open>
  C7. The 202 of contingency is a promise kept: whenever the route answers an acceptance that is not
  an idempotent hit, for every answer of the SFC, every interleaving and every pattern of connection
  failures, there was a moment during the request in which the slot of the case and category held a
  pending item with exactly that payload and its hash; from then on only legal steps of the queue
  happened.
\<close>

theorem aceptado_es_deuda:
  assumes "despachar_queja_crm sha cfg sv cid token d w = (Inr resp, w')"
    and "entorno paso_cola\<^sup>*\<^sup>* w" "cola_inv (w_redis w)" "servicios_refinan sv" "smart_ok (smart_code_de d)"
    and "rs_codigo resp = 202" "\<not> rs_hit resp"
  shows "deuda sha d (w_redis w) (w_redis w')"
  using ruta_salda [OF assms(4,5)] assms(1-3,6,7) unfolding asegura_def salda_def by blast

definition ruta_ej :: "error_sfc \<Rightarrow> respuesta_http resultado \<times> mundo" where
  "ruta_ej e = despachar_queja_crm (\<lambda>s. ''h'') ajustes_por_defecto (sv_ej (lanza (SfcIntegrationException e)))
     ''c'' ''tok'' p_tramite_ej (mundo_ej redis_vacio [])"

lemma ruta_caida_ej:
  "case fst (ruta_ej (err_ej 503 ''caida'')) of Inl _ \<Rightarrow> False | Inr resp \<Rightarrow> rs_codigo resp = 202 \<and> \<not> rs_hit resp"
  by code_simp

lemma servicios_ej: "respeta paso_cola\<^sup>*\<^sup>* m \<Longrightarrow> servicios_refinan (sv_ej m)"
  by (simp add: servicios_refinan_def sv_ej_def gcola.devuelve)

lemma cola_inv_vacia: "cola_inv redis_vacio"
  using cola.inv_alcanzable [OF alc_inicio] by (simp add: cola_inicial_def)

lemma aceptado_es_deuda_testigo:
  "deuda (\<lambda>s. ''h'') p_tramite_ej redis_vacio (w_redis (snd (ruta_ej (err_ej 503 ''caida''))))"
proof (cases "ruta_ej (err_ej 503 ''caida'')")
  case (Pair x w')
  with ruta_caida_ej obtain resp where x: "x = Inr resp" "rs_codigo resp = 202" "\<not> rs_hit resp"
    by (cases x) simp_all
  have "entorno paso_cola\<^sup>*\<^sup>* (mundo_ej redis_vacio [])" "cola_inv (w_redis (mundo_ej redis_vacio []))"
    "smart_ok (smart_code_de p_tramite_ej)"
    using cola_inv_vacia
    by (simp_all add: mundo_ej_def entorno_def smart_ok_def smart_code_de_def texto_en_def p_tramite_ej_def
        obtener_def texto_opcional_def texto_o_vacio_def)
  from aceptado_es_deuda [OF Pair [unfolded ruta_ej_def x(1)] this(1,2) servicios_ej [OF gcola.lanza] this(3) x(2,3)]
  show ?thesis unfolding Pair by (simp add: mundo_ej_def)
qed

subsection \<open>The SFC is called by the holder of the case only\<close>

definition sin_llamadas :: "'a accion \<Rightarrow> bool" where
  "sin_llamadas m = deja m (\<lambda>x t. list_all (\<lambda>ev. \<not> es_llamada ev) t)"

lemma sin_llamadas_callada: "callada m \<Longrightarrow> sin_llamadas m"
  unfolding callada_def sin_llamadas_def by (erule deja_mas) simp

lemma sin_llamadas_emite:
  "sin_llamadas (emite (Correo a b))" "sin_llamadas (emite (Metrica a c))"
  by (auto simp: sin_llamadas_def es_llamada_def intro: deja_emite)

lemma sin_llamadas_luego: "sin_llamadas m \<Longrightarrow> (\<And>x. sin_llamadas (f x)) \<Longrightarrow> sin_llamadas (luego m f)"
  unfolding sin_llamadas_def by (erule deja_luego) (auto elim: deja_mas)

lemma sin_llamadas_intenta: "sin_llamadas m \<Longrightarrow> (\<And>e. sin_llamadas (h e)) \<Longrightarrow> sin_llamadas (intenta m h)"
  unfolding sin_llamadas_def by (erule deja_intenta) (auto elim: deja_mas)

lemma sin_llamadas_capturada: "sin_llamadas m \<Longrightarrow> sin_llamadas (capturada m)"
  unfolding sin_llamadas_def deja_def capturada_def by (auto split: prod.splits)

lemmas sin_llamadas_reglas = sin_llamadas_luego sin_llamadas_intenta sin_llamadas_capturada sin_llamadas_emite
  callada_basicas [THEN sin_llamadas_callada]

lemma sin_llamadas_intentos: "sin_llamadas m \<Longrightarrow> sin_llamadas (con_reintentos n msg m)"
proof -
  assume m: "sin_llamadas m"
  have "sin_llamadas (intentos_desde n i k msg m)" for i k
    by (induction k arbitrary: i) (auto intro!: sin_llamadas_reglas m)
  then show ?thesis by (simp add: con_reintentos_def)
qed

lemma sin_llamadas_servicio:
  "sin_llamadas (verificar_o_iniciar_operacion sha s d fc)" "sin_llamadas (acquire c)" "sin_llamadas (release c)"
  "sin_llamadas (encolar_despacho sha cfg cid s tp d e)" "sin_llamadas (registrar_encolado sha s d q)"
  "sin_llamadas (liberar_operacion_por_error sha s d)"
  unfolding verificar_o_iniciar_operacion_def fail_closed_redis_no_disponible_def manejar_fallo_redis_idempotencia_def
    evaluar_registro_existente_def item_de_cola_sigue_vigente_def iniciar_registro_processing_def acquire_def release_def
    encolar_despacho_def registrar_encolado_def liberar_operacion_por_error_def Let_def
  by (auto intro!: sin_llamadas_reglas sin_llamadas_intentos
      split: option.split crudo.split estado_idem.split)

lemma sin_llamadas_contingencia: "sin_llamadas (encolar_despacho_por_contingencia sha cfg cid d e)"
  unfolding encolar_despacho_por_contingencia_def Let_def
  by (intro sin_llamadas_reglas sin_llamadas_servicio)

lemma sin_llamadas_ocupado: "sin_llamadas (intento_despacho sha cfg sv cid d False c)"
  unfolding intento_despacho_def Let_def emitir_metrica_despacho_def
  by (auto intro!: sin_llamadas_reglas sin_llamadas_contingencia split: excepcion.split prod.split)

lemma sin_llamadas_cierra: "sin_llamadas (cierra_peticion sha d c s)"
  unfolding cierra_peticion_def
  by (auto intro!: sin_llamadas_reglas sin_llamadas_servicio split: sum.split prod.split)

lemma ruta_paso:
  assumes "verificar_o_iniciar_operacion sha (smart_code_de d) d True w = (Inr None, w0)"
    and "acquire (despacho_lock (smart_code_de d) token) w0 = (Inr (ok, c), w1)"
  shows "despachar_queja_crm sha cfg sv cid token d w =
    luego (capturada (intento_despacho sha cfg sv cid d ok c)) (\<lambda>s. cierra_peticion sha d c s) w1"
  using assms by (simp add: despachar_queja_crm_def Let_def luego_def [of "verificar_o_iniciar_operacion sha (smart_code_de d) d True"]
      luego_def [of "acquire (despacho_lock (smart_code_de d) token)"])

lemma siempre: "\<exists>y w'. devuelve x w = (Inr y, w')" "\<exists>y w'. emite ev w = (Inr y, w')"
  by (simp_all add: devuelve_def emite_def)

lemma intenta_siempre:
  assumes "\<And>e w. \<exists>y w'. h e w = (Inr y, w')"
  shows "\<exists>y w'. intenta m h w = (Inr y, w')"
  using assms by (cases "m w"; cases "fst (m w)") (auto simp: intenta_def)

lemma acquire_total: "\<exists>ok c w1. acquire c0 w = (Inr (ok, c), w1)"
  by (auto simp: acquire_def Let_def intenta_def luego_def devuelve_def hay_cliente_def split: prod.split sum.split)

lemma verificar_total: "\<exists>v w0. verificar_o_iniciar_operacion sha s d True w = (Inr v, w0)"
  by (auto simp: verificar_o_iniciar_operacion_def fail_closed_redis_no_disponible_def manejar_fallo_redis_idempotencia_def
      Let_def intenta_def luego_def devuelve_def hay_cliente_def emite_def split: prod.split sum.split)

text \<open>
  C8. A request reaches the SFC only through both doors: if it makes any call to the SFC, it makes it
  after the idempotency gate let it through (its PROCESSING record stored) and after \<open>acquire\<close> gave it
  the lock of the case for 180 seconds, and it made none before. With the exclusion of the lock and the
  single winner of the gate, two requests of one case never talk to the SFC at the same time.
\<close>

theorem solo_llama_quien_tiene_el_caso:
  "(\<exists>t. w_bitacora (snd (despachar_queja_crm sha cfg sv cid token d w)) = w_bitacora w @ t \<and> list_all (\<lambda>ev. \<not> es_llamada ev) t)
   \<or> (\<exists>w0 w1 c t. verificar_o_iniciar_operacion sha (smart_code_de d) d True w = (Inr None, w0)
        \<and> r_idem (w_redis w0) (clave sha (smart_code_de d) d) =
            Some (Valido (registro sha IProcessing (smart_code_de d) d JNull None), reloj (w_redis w0) + processing_px)
        \<and> acquire (despacho_lock (smart_code_de d) token) w0 = (Inr (True, c), w1)
        \<and> r_lock (w_redis w1) (despacho_lock_key (smart_code_de d)) = Some (token, reloj (w_redis w1) + 180000)
        \<and> w_bitacora w1 = w_bitacora w @ t \<and> list_all (\<lambda>ev. \<not> es_llamada ev) t)"
proof -
  let ?v = "verificar_o_iniciar_operacion sha (smart_code_de d) d True"
  let ?l = "despacho_lock (smart_code_de d) token"
  let ?limpio = "\<lambda>w t. list_all (\<lambda>ev. \<not> es_llamada ev) t"
  obtain v w0 where v: "?v w = (Inr v, w0)" using verificar_total by blast
  obtain t0 where t0: "w_bitacora w0 = w_bitacora w @ t0" "list_all (\<lambda>ev. \<not> es_llamada ev) t0"
    using dejaD [OF sin_llamadas_servicio(1) [unfolded sin_llamadas_def] v] by blast
  show ?thesis
  proof (cases v)
    case (Some r)
    with v have "w_bitacora (snd (despachar_queja_crm sha cfg sv cid token d w)) =
        w_bitacora w @ t0 @ [Metrica ''dispatch_count'' [antes_de CHR ''_'' (infer_operation_type d),
          (case despues_de CHR ''_'' (infer_operation_type d) of None \<Rightarrow> ''n/a'' | Some s \<Rightarrow> lower s), estado_idempotente r, ''N/A'']]"
      using t0 by (simp add: despachar_queja_crm_def Let_def luego_def [of ?v] emitir_metrica_despacho_def emite_w devuelve_def)
    with t0(2) show ?thesis by (simp add: es_llamada_def)
  next
    case None
    obtain ok c w1 where a: "acquire ?l w0 = (Inr (ok, c), w1)" using acquire_total by blast
    obtain t1 where t1: "w_bitacora w1 = w_bitacora w0 @ t1" "list_all (\<lambda>ev. \<not> es_llamada ev) t1"
      using dejaD [OF sin_llamadas_servicio(2) [unfolded sin_llamadas_def] a] by blast
    show ?thesis
    proof (cases ok)
      case True
      have "lock_key ?l = despacho_lock_key (smart_code_de d)" "owner_token ?l = token" "lease_ms ?l = 180000"
        by (simp_all add: despacho_lock_def nuevo_lock_def lease_ms_def)
      moreover have "acquire ?l w0 = (Inr (True, c), w1)" using a True by simp
      ultimately have "r_lock (w_redis w1) (despacho_lock_key (smart_code_de d)) = Some (token, reloj (w_redis w1) + 180000)"
        using acquire_TrueD by metis
      then show ?thesis
        using v None a True verificar_NoneD [OF v [unfolded None]] t0 t1 by auto
    next
      case False
      have "sin_llamadas (luego (capturada (intento_despacho sha cfg sv cid d False c)) (\<lambda>s. cierra_peticion sha d c s))"
        by (intro sin_llamadas_reglas sin_llamadas_ocupado sin_llamadas_cierra)
      from dejaD [OF this [unfolded sin_llamadas_def] prod.collapse [symmetric]] ruta_paso [OF v [unfolded None] a] False
      obtain t2 where "w_bitacora (snd (despachar_queja_crm sha cfg sv cid token d w)) = w_bitacora w1 @ t2"
          "list_all (\<lambda>ev. \<not> es_llamada ev) t2"
        by metis
      with t0 t1 show ?thesis by auto
    qed
  qed
qed

text \<open>
  C10. What the SFC accepted is answered as accepted: if the request passed the gate, holds the lock and
  the dispatch returned a result other than \<^verbatim>\<open>error\<close>, the CRM gets a 200 with that result, whatever
  fails afterwards (the idempotency record, the clean-up of the queue, the release of the lock).
\<close>

theorem exito_no_se_vuelve_error:
  assumes "verificar_o_iniciar_operacion sha (smart_code_de d) d True w = (Inr None, w0)"
    and "acquire (despacho_lock (smart_code_de d) token) w0 = (Inr (True, c), w1)"
    and "procesar_despacho sv d True w1 = (Inr res, w2)" "estado_de res \<noteq> ''error''"
  shows "fst (despachar_queja_crm sha cfg sv cid token d w) = Inr \<lparr>rs_codigo = 200, rs_hit = False, rs_cuerpo = JObj res\<rparr>"
proof -
  let ?r = "(\<lparr>rs_codigo = 200, rs_hit = False, rs_cuerpo = JObj res\<rparr>, True)"
  have "\<exists>w3. despacho_con_lock sha sv d w1 = (Inr ?r, w3)"
  proof -
    let ?m2 = "\<lambda>_::bool. luego (emitir_metrica_despacho (infer_operation_type d) ''success'' ''N/A'') (\<lambda>_. devuelve ?r)"
    let ?c = "intenta (cancelar_pendiente_por_smart_code (smart_code_de d) (infer_operation_type d)) (\<lambda>e. devuelve False)"
    have "despacho_con_lock sha sv d w1 =
        luego (intenta (registrar_exito sha (smart_code_de d) d (JObj res))
                 (\<lambda>e. emite (Correo ''riesgo_duplicado_post_sfc'' (smart_code_de d)))) (\<lambda>_. luego ?c ?m2) w2"
      using assms(3,4) by (simp add: despacho_con_lock_def Let_def luego_def [of "procesar_despacho sv d True"])
    moreover obtain u w4 where "intenta (registrar_exito sha (smart_code_de d) d (JObj res))
        (\<lambda>e. emite (Correo ''riesgo_duplicado_post_sfc'' (smart_code_de d))) w2 = (Inr u, w4)"
      using intenta_siempre [where h = "\<lambda>e. emite (Correo ''riesgo_duplicado_post_sfc'' (smart_code_de d))" and w = w2, OF siempre(2)]
      by blast
    moreover obtain b w5 where "?c w4 = (Inr b, w5)"
      using intenta_siempre [where h = "\<lambda>e. devuelve False" and w = w4, OF siempre(1)] by blast
    ultimately show ?thesis
      by (simp add: luego_def [of "intenta m h" for m h] emitir_metrica_despacho_def emite_w devuelve_def)
  qed
  then obtain w3 where "capturada (intento_despacho sha cfg sv cid d True c) w1 = (Inr (Inr ?r), w3)"
    by (auto simp: capturada_def intento_despacho_def Let_def intenta_def)
  then have "despachar_queja_crm sha cfg sv cid token d w = cierra_peticion sha d c (Inr ?r) w3"
    using ruta_paso [OF assms(1,2)] by (simp add: luego_def [of "capturada m" for m])
  moreover have "\<exists>c' w4. release c w3 = (Inr c', w4)"
    by (auto simp: release_def Let_def intenta_def luego_def devuelve_def hay_cliente_def split: prod.split sum.split)
  then have "fst (cierra_peticion sha d c (Inr ?r) w3) = Inr (fst ?r)"
    by (auto simp: cierra_peticion_def luego_def devuelve_def)
  ultimately show ?thesis by simp
qed

definition ruta_ok_ej :: "respuesta_http resultado \<times> mundo" where
  "ruta_ok_ej = despachar_queja_crm (\<lambda>s. ''h'') ajustes_por_defecto (sv_ej (devuelve [(''status'', JStr ''success'')]))
     ''c'' ''tok'' p_tramite_ej (mundo_ej redis_vacio [])"

definition entrada_ej :: "respuesta_idem option resultado \<times> mundo" where
  "entrada_ej = verificar_o_iniciar_operacion (\<lambda>s. ''h'') (smart_code_de p_tramite_ej) p_tramite_ej True (mundo_ej redis_vacio [])"

definition candado_ej :: "(bool \<times> RedisLock) resultado \<times> mundo" where
  "candado_ej = acquire (despacho_lock (smart_code_de p_tramite_ej) ''tok'') (snd entrada_ej)"

lemma ruta_ok_datos:
  "fst entrada_ej = Inr None" "case fst candado_ej of Inr (ok, c) \<Rightarrow> ok | Inl _ \<Rightarrow> False"
  "fst (procesar_despacho (sv_ej (devuelve [(''status'', JStr ''success'')])) p_tramite_ej True (snd candado_ej))
     = Inr [(''status'', JStr ''success'')]"
  by code_simp+

lemma exito_no_se_vuelve_error_testigo:
  "fst ruta_ok_ej = Inr \<lparr>rs_codigo = 200, rs_hit = False, rs_cuerpo = JObj [(''status'', JStr ''success'')]\<rparr>"
proof -
  obtain c where c: "fst candado_ej = Inr (True, c)"
    using ruta_ok_datos(2) by (cases "fst candado_ej") auto
  have 1: "verificar_o_iniciar_operacion (\<lambda>s. ''h'') (smart_code_de p_tramite_ej) p_tramite_ej True (mundo_ej redis_vacio [])
      = (Inr None, snd entrada_ej)"
    using ruta_ok_datos(1) by (simp add: prod_eq_iff flip: entrada_ej_def)
  have 2: "acquire (despacho_lock (smart_code_de p_tramite_ej) ''tok'') (snd entrada_ej) = (Inr (True, c), snd candado_ej)"
    using c by (simp add: prod_eq_iff flip: candado_ej_def)
  have 3: "procesar_despacho (sv_ej (devuelve [(''status'', JStr ''success'')])) p_tramite_ej True (snd candado_ej)
      = (Inr [(''status'', JStr ''success'')],
         snd (procesar_despacho (sv_ej (devuelve [(''status'', JStr ''success'')])) p_tramite_ej True (snd candado_ej)))"
    using ruta_ok_datos(3) by (simp add: prod_eq_iff)
  show ?thesis
    unfolding ruta_ok_ej_def
    by (rule exito_no_se_vuelve_error [OF 1 2 3])
      (simp add: estado_de_def texto_en_def obtener_def texto_opcional_def texto_o_vacio_def)
qed

subsection \<open>What a request leaves behind\<close>

text \<open>A calm world: nobody interferes and Redis answers. The services may change anything but that.\<close>

definition en_paz :: "mundo \<Rightarrow> bool" where
  "en_paz w = (w_turnos w = [] \<and> w_cliente w)"

definition pacifica :: "'a accion \<Rightarrow> bool" where
  "pacifica m = (\<forall>w. en_paz w \<longrightarrow> en_paz (snd (m w)))"

lemma pacifica_basicas:
  "pacifica (devuelve x)" "pacifica (lanza e)" "pacifica (emite ev)" "pacifica ahora" "pacifica hay_cliente"
  "pacifica (duerme ms)" "pacifica (redis_cmd c)"
  by (simp_all add: pacifica_def en_paz_def devuelve_def lanza_def emite_def ahora_def hay_cliente_def duerme_def redis_cmd_def)

lemma pacifica_luego: "pacifica m \<Longrightarrow> (\<And>x. pacifica (f x)) \<Longrightarrow> pacifica (luego m f)"
  unfolding pacifica_def luego_def by (auto split: prod.split sum.split)

lemma pacifica_intenta: "pacifica m \<Longrightarrow> (\<And>e. pacifica (h e)) \<Longrightarrow> pacifica (intenta m h)"
  unfolding pacifica_def intenta_def by (auto split: prod.split sum.split)

lemmas pacificas = pacifica_basicas pacifica_luego pacifica_intenta

definition servicios_pacificos :: "servicios \<Rightarrow> bool" where
  "servicios_pacificos sv =
     ((\<forall>p. pacifica (sv_m2 sv p) \<and> pacifica (sv_fraude sv p) \<and> pacifica (sv_cierre sv p) \<and> pacifica (sv_tramite sv p))
      \<and> (\<forall>a b. pacifica (sv_listar sv a b)))"

lemma pacifica_procesar:
  assumes "servicios_pacificos sv"
  shows "pacifica (procesar_despacho sv p l)"
proof -
  have l: "pacifica (limpiar_checkpoint_si_cierre_exitoso r s c l)" for r s c
    unfolding limpiar_checkpoint_si_cierre_exitoso_def limpiar_checkpoint_archivos_def by (auto intro!: pacificas)
  have m3: "pacifica (ejecutar_pasos_momento_3 sv q f c)" for q f c
    using assms unfolding servicios_pacificos_def ejecutar_pasos_momento_3_def Let_def intenta_sfc_def
      ejecutar_paso_o_exito_si_ya_cerrado_def
    by (auto intro!: pacificas split: excepcion.split option.split)
  have "pacifica (despacho_clasificado sv q l)" for q
    using assms unfolding despacho_clasificado_def Let_def intenta_sfc_def
    by (auto simp: servicios_pacificos_def intro!: pacificas m3 l split: excepcion.split)
  then show ?thesis
    using assms unfolding procesar_despacho_def con_listado_def
    by (auto simp: servicios_pacificos_def intro!: pacificas)
qed

lemma registrar_exito_paz:
  "en_paz w \<Longrightarrow> registrar_exito sha s d resp w =
     (Inr (), w\<lparr>w_redis := (w_redis w)\<lparr>r_idem := tset (reloj (w_redis w)) ttl_ms (r_idem (w_redis w))
        (construir_clave_completado sha s d None) (Valido (construir_registro_completado sha s d resp None))\<rparr>\<rparr>)"
  by (simp add: en_paz_def registrar_exito_def desenrolla con_reintentos_def numeral_3_eq_3 intenta_def redis_cmd_calma
      idem_set_def)

lemma registrar_encolado_paz:
  "en_paz w \<Longrightarrow> registrar_encolado sha s d q w =
     (Inr (), w\<lparr>w_redis := (w_redis w)\<lparr>r_idem := tset (reloj (w_redis w)) ttl_ms (r_idem (w_redis w))
        (clave sha s d) (Valido (registro sha IQueued s d JNull q))\<rparr>\<rparr>)"
  by (simp add: en_paz_def registrar_encolado_def desenrolla con_reintentos_def numeral_3_eq_3 intenta_def redis_cmd_calma
      idem_set_def)

definition mismo_registro :: "mundo \<Rightarrow> mundo \<Rightarrow> bool" where
  "mismo_registro w w' =
     (en_paz w' \<and> r_idem (w_redis w') = r_idem (w_redis w) \<and> reloj (w_redis w') = reloj (w_redis w))"

lemma cancelar_paz:
  assumes "en_paz w"
  shows "mismo_registro w (snd (cancelar_pendiente_por_smart_code s op w))"
proof -
  have "r_idem (snd (cancelar_pendiente_lua k i h r)) = r_idem r" "reloj (snd (cancelar_pendiente_lua k i h r)) = reloj r"
    for k i h r
    by (auto simp: cancelar_pendiente_lua_def Let_def split: option.split crudo.split)
  with assms show ?thesis
    by (auto simp: mismo_registro_def en_paz_def cancelar_pendiente_por_smart_code_def desenrolla intenta_def
        luego_cmd_calma redis_cmd_calma devuelve_def lanza_def split: option.split crudo.split sum.split prod.split)
qed

lemma liberar_paz:
  "en_paz w \<Longrightarrow> liberar_operacion_por_error sha s d w =
     (Inr (), w\<lparr>w_redis := (w_redis w)\<lparr>r_idem := tdel (r_idem (w_redis w)) (clave sha s d)\<rparr>\<rparr>)"
  by (simp add: en_paz_def liberar_operacion_por_error_def desenrolla intenta_def redis_cmd_calma idem_del_def)

lemma dueno_soltado: "dueno_lock (r\<lparr>r_lock := tdel (r_lock r) k\<rparr>) k = None"
  by (simp add: dueno_lock_def tget_def tdel_def)

lemma release_paz:
  assumes "en_paz w"
  shows "\<exists>c'. release c w = (Inr c', snd (release c w))" "mismo_registro w (snd (release c w))"
    "acquired c \<Longrightarrow> dueno_lock (w_redis (snd (release c w))) (lock_key c) \<noteq> Some (owner_token c)"
  using assms
  by (auto simp: release_def Let_def desenrolla en_paz_def intenta_def luego_cmd_calma como_cmd_def devuelve_def
      mismo_registro_def release_lock_lua_def dueno_soltado)

text \<open>The record that a request must leave: COMPLETED with a 200, QUEUED with a 202, none otherwise.\<close>

definition registro_debido :: "(string \<Rightarrow> string) \<Rightarrow> dict \<Rightarrow> respuesta_http \<Rightarrow> redis \<Rightarrow> bool" where
  "registro_debido sha d resp r =
     (let guardado = tget (reloj r) (r_idem r) (clave sha (smart_code_de d) d) in
      if rs_codigo resp = 200
      then guardado = Some (Valido (construir_registro_completado sha (smart_code_de d) d (rs_cuerpo resp) None))
      else if rs_codigo resp = 202
      then \<exists>q. guardado = Some (Valido (registro sha IQueued (smart_code_de d) d JNull (Some q)))
      else guardado = None)"

definition buen_final :: "(string \<Rightarrow> string) \<Rightarrow> dict \<Rightarrow> (respuesta_http \<times> bool) resultado \<Rightarrow> mundo \<Rightarrow> bool" where
  "buen_final sha d x w =
     (en_paz w \<and>
      (\<forall>resp f. x = Inr (resp, f) \<longrightarrow>
         (if f then rs_codigo resp \<in> {200, 202} \<and> registro_debido sha d resp (w_redis w)
          else rs_codigo resp \<notin> {200, 202})))"

lemma registro_guardado:
  "registro_debido sha d \<lparr>rs_codigo = 200, rs_hit = h, rs_cuerpo = j\<rparr>
     (r\<lparr>r_idem := tset (reloj r) ttl_ms (r_idem r) (construir_clave_completado sha (smart_code_de d) d None)
        (Valido (construir_registro_completado sha (smart_code_de d) d j None))\<rparr>)"
  "registro_debido sha d (aceptada e s t)
     (r\<lparr>r_idem := tset (reloj r) ttl_ms (r_idem r) (clave sha (smart_code_de d) d)
        (Valido (registro sha IQueued (smart_code_de d) d JNull (Some q)))\<rparr>)"
  by (auto simp: registro_debido_def ttl_ms_def aceptada_def construir_clave_completado_def clave_def Let_def)

lemma mismo_debido:
  "mismo_registro w w' \<Longrightarrow> registro_debido sha d resp (w_redis w') = registro_debido sha d resp (w_redis w)"
  by (simp add: mismo_registro_def registro_debido_def)

lemma contingencia_paz:
  assumes "en_paz w"
  shows "\<exists>x w'. encolar_despacho_por_contingencia sha cfg cid d e w = (Inr x, w') \<and> buen_final sha d (Inr x) w'"
proof -
  let ?enc = "encolar_despacho sha cfg cid (smart_code_de d) ''AUTO'' d e"
  have p: "pacifica ?enc"
    unfolding encolar_despacho_def Let_def by (auto intro!: pacificas)
  obtain y w1 where 1: "?enc w = (y, w1)" by (cases "?enc w")
  with p assms have w1: "en_paz w1" unfolding pacifica_def by (metis snd_conv)
  show ?thesis
  proof (cases y)
    case (Inl ex)
    with 1 w1 show ?thesis
      by (simp add: encolar_despacho_por_contingencia_def Let_def intenta_def luego_def emite_def devuelve_def
          buen_final_def falla_doble_def en_paz_def)
  next
    case (Inr it)
    have "en_paz (w1\<lparr>w_redis := r\<rparr>)" for r using w1 by (simp add: en_paz_def)
    with Inr 1 registrar_encolado_paz [OF w1] registro_guardado(2) show ?thesis
      by (auto simp: encolar_despacho_por_contingencia_def Let_def intenta_def luego_def devuelve_def buen_final_def
          aceptada_def)
  qed
qed

lemma con_lock_paz:
  assumes "servicios_pacificos sv" "en_paz w" "despacho_con_lock sha sv d w = (x, w')"
  shows "buen_final sha d x w'"
proof -
  let ?p = "procesar_despacho sv d True"
  obtain y w1 where 1: "?p w = (y, w1)" by (cases "?p w")
  with pacifica_procesar [OF assms(1)] assms(2) have w1: "en_paz w1" unfolding pacifica_def by (metis snd_conv)
  show ?thesis
  proof (cases y)
    case (Inl e)
    with assms(3) 1 w1 show ?thesis
      by (auto simp: despacho_con_lock_def Let_def luego_def [of ?p] buen_final_def)
  next
    case (Inr res)
    show ?thesis
    proof (cases "estado_de res = ''error''")
      case True
      with Inr assms(3) 1 w1 show ?thesis
        by (auto simp: despacho_con_lock_def Let_def luego_def [of ?p] buen_final_def emitir_metrica_despacho_def emite_w
            devuelve_def error_orquestacion_def en_paz_def)
    next
      case False
      let ?w2 = "w1\<lparr>w_redis := (w_redis w1)\<lparr>r_idem := tset (reloj (w_redis w1)) ttl_ms (r_idem (w_redis w1))
        (construir_clave_completado sha (smart_code_de d) d None)
        (Valido (construir_registro_completado sha (smart_code_de d) d (JObj res) None))\<rparr>\<rparr>"
      let ?c = "intenta (cancelar_pendiente_por_smart_code (smart_code_de d) (infer_operation_type d)) (\<lambda>e. devuelve False)"
      have w2: "en_paz ?w2" using w1 by (simp add: en_paz_def)
      obtain b w3 where 3: "?c ?w2 = (Inr b, w3)"
        using intenta_siempre [where h = "\<lambda>e. devuelve False", OF siempre(1)] by blast
      then have "w3 = snd (cancelar_pendiente_por_smart_code (smart_code_de d) (infer_operation_type d) ?w2)"
        by (auto simp: intenta_def devuelve_def split: prod.splits sum.splits)
      then have m: "mismo_registro ?w2 w3" using cancelar_paz [OF w2] by simp
      have r: "intenta (registrar_exito sha (smart_code_de d) d (JObj res)) h w1 = (Inr (), ?w2)" for h
        using registrar_exito_paz [OF w1] by (simp add: intenta_def)
      have "registro_debido sha d \<lparr>rs_codigo = 200, rs_hit = False, rs_cuerpo = JObj res\<rparr> (w_redis w3)"
        unfolding mismo_debido [OF m] using registro_guardado(1) [where r = "w_redis w1"] by simp
      moreover have "en_paz w3" using m by (simp add: mismo_registro_def)
      ultimately show ?thesis
        using assms(3) 1 Inr False 3 r
        by (auto simp: despacho_con_lock_def Let_def luego_def [of ?p] luego_def [of "intenta m h" for m h] buen_final_def
            emitir_metrica_despacho_def emite_w devuelve_def en_paz_def)
    qed
  qed
qed

lemma buen_final_bitacora: "buen_final sha d x (w\<lparr>w_bitacora := b\<rparr>) = buen_final sha d x w"
  by (simp add: buen_final_def en_paz_def)

lemma intento_paz:
  assumes "servicios_pacificos sv" "en_paz w" "intento_despacho sha cfg sv cid d ok c w = (x, w')"
  shows "buen_final sha d x w'"
proof -
  define op where "op = infer_operation_type d"
  have enc: "buen_final sha d y w2"
    if h: "luego (encolar_despacho_por_contingencia sha cfg cid d e) (\<lambda>res.
          luego (emitir_metrica_despacho op a b) (\<lambda>_. devuelve res)) w1 = (y, w2)" and paz: "en_paz w1" for e a b w1 w2 y
  proof -
    obtain z w3 where 3: "encolar_despacho_por_contingencia sha cfg cid d e w1 = (Inr z, w3)" "buen_final sha d (Inr z) w3"
      using contingencia_paz [OF paz] by blast
    with h show ?thesis
      by (auto simp: luego_def [of "encolar_despacho_por_contingencia sha cfg cid d e"] emitir_metrica_despacho_def
          emite_w devuelve_def buen_final_bitacora)
  qed
  show ?thesis
  proof (cases ok)
    case False
    obtain t e cat where m: "motivo_lock_no_adquirido c (smart_code_de d) = (t, e, cat)" by (metis prod_cases3)
    obtain z w3 where 3: "encolar_despacho_por_contingencia sha cfg cid d e w = (Inr z, w3)"
      using contingencia_paz [OF assms(2)] by blast
    have "luego (encolar_despacho_por_contingencia sha cfg cid d e) (\<lambda>res.
          luego (emitir_metrica_despacho op ''queued'' cat) (\<lambda>_. devuelve res)) w = (x, w')"
      using assms(3) False m 3
      by (auto simp: intento_despacho_def Let_def intenta_def op_def emitir_metrica_despacho_def emite_w devuelve_def
          luego_def [of "encolar_despacho_por_contingencia sha cfg cid d e"])
    from enc [OF this assms(2)] show ?thesis .
  next
    case True
    obtain y w1 where 1: "despacho_con_lock sha sv d w = (y, w1)" by (cases "despacho_con_lock sha sv d w")
    have y: "buen_final sha d y w1" using con_lock_paz [OF assms(1,2) 1] .
    then have w1: "en_paz w1" by (simp add: buen_final_def)
    show ?thesis
    proof (cases y)
      case (Inr z)
      with assms(3) True 1 y show ?thesis by (simp add: intento_despacho_def Let_def intenta_def)
    next
      case (Inl ex)
      have tira: "buen_final sha d (Inl f) w1" for f using w1 by (simp add: buen_final_def)
      from Inl assms(3) True 1 tira enc [OF _ w1] show ?thesis
        by (auto simp: intento_despacho_def Let_def intenta_def op_def lanza_def emitir_metrica_despacho_def emite_w
            buen_final_bitacora split: excepcion.splits if_splits)
    qed
  qed
qed

text \<open>
  A finished request leaves nothing that would answer a retry wrongly, whatever services it calls,
  if they leave Redis in peace. (\<^verbatim>\<open>Momentos_Propiedades\<close> states it of the real services.)
\<close>

lemma peticion_en_paz_cierra:
  assumes "servicios_pacificos sv" "en_paz w"
    and "verificar_o_iniciar_operacion sha (smart_code_de d) d True w = (Inr None, w0)"
    and "acquire (despacho_lock (smart_code_de d) token) w0 = (Inr (ok, c), w1)"
    and "despachar_queja_crm sha cfg sv cid token d w = (x, w')"
  shows "(\<forall>resp. x = Inr resp \<longrightarrow> registro_debido sha d resp (w_redis w'))
    \<and> (\<forall>e. x = Inl e \<longrightarrow> tget (reloj (w_redis w')) (r_idem (w_redis w')) (clave sha (smart_code_de d) d) = None)
    \<and> (ok \<longrightarrow> dueno_lock (w_redis w') (despacho_lock_key (smart_code_de d)) \<noteq> Some token)"
proof -
  have "pacifica (verificar_o_iniciar_operacion sha (smart_code_de d) d True)" "pacifica (acquire (despacho_lock (smart_code_de d) token))"
    unfolding verificar_o_iniciar_operacion_def fail_closed_redis_no_disponible_def manejar_fallo_redis_idempotencia_def
      evaluar_registro_existente_def item_de_cola_sigue_vigente_def iniciar_registro_processing_def acquire_def Let_def
    by (auto intro!: pacificas split: option.split crudo.split estado_idem.split)
  with assms(2-4) have w1: "en_paz w1" unfolding pacifica_def by (metis snd_conv)
  obtain s w2 where 2: "intento_despacho sha cfg sv cid d ok c w1 = (s, w2)" by (cases "intento_despacho sha cfg sv cid d ok c w1")
  have s: "buen_final sha d s w2" using intento_paz [OF assms(1) w1 2] .
  then have w2: "en_paz w2" by (simp add: buen_final_def)
  define w3 where "w3 = snd (release c w2)"
  obtain c' where 3: "release c w2 = (Inr c', w3)" using release_paz(1) [OF w2] by (auto simp: w3_def)
  have m: "mismo_registro w2 w3" using release_paz(2) [OF w2] by (simp add: w3_def)
  then have w3: "en_paz w3" by (simp add: mismo_registro_def)
  have fin: "cierra_peticion sha d c s w2 = (x, w')"
    using assms(5) 2 ruta_paso [OF assms(3,4)] by (simp add: luego_def [of "capturada m" for m] capturada_def)
  have lock: "dueno_lock (w_redis w3) (despacho_lock_key (smart_code_de d)) \<noteq> Some token" if ok
  proof -
    have "acquired c \<and> lock_key c = despacho_lock_key (smart_code_de d) \<and> owner_token c = token"
      using acquire_TrueD [of "despacho_lock (smart_code_de d) token" w0 c w1] assms(4) that
      by (simp add: despacho_lock_def nuevo_lock_def)
    then show ?thesis using release_paz(3) [OF w2, of c] by (simp add: w3_def)
  qed
  show ?thesis
  proof (cases "\<exists>resp. s = Inr (resp, True)")
    case True
    then obtain resp where "s = Inr (resp, True)" by blast
    with fin 3 s lock mismo_debido [OF m, of sha d resp] show ?thesis
      by (auto simp: cierra_peticion_def luego_def [of "release c"] devuelve_def buen_final_def)
  next
    case False
    have "x = map_sum id fst s \<and> w' = w3\<lparr>w_redis := (w_redis w3)\<lparr>r_idem := tdel (r_idem (w_redis w3)) (clave sha (smart_code_de d) d)\<rparr>\<rparr>"
      using fin 3 False liberar_paz [OF w3, of sha "smart_code_de d" d]
      by (cases s) (auto simp: cierra_peticion_def luego_def devuelve_def lanza_def split: if_splits prod.splits)
    with s lock False show ?thesis
      by (cases s) (auto simp: buen_final_def registro_debido_def tget_def tdel_def dueno_lock_def Let_def)
  qed
qed

end
