(* ===== verification/Webhook.thy ===== *)
theory Webhook
  imports Ruta_Propiedades
begin

text \<open>
  \<^verbatim>\<open>app/services/crm_webhook_service.py\<close>: the notification of a resolved contingency to the CRM. The HTTP
  client is the parameter \<open>publica\<close> (what \<^verbatim>\<open>client.post\<close> gives: an exception with its text, or a status,
  a content type and the parsed body, \<open>Inl\<close> the decoder's message when it does not parse); \<open>py_repr\<close> is
  \<^verbatim>\<open>repr\<close>. The sanitised audit log is not kept.
\<close>

datatype respuesta_crm =
    CrmExcepcion string
  | CrmHttp int string "string + json"

definition emitir_metrica_webhook :: "string \<Rightarrow> string \<Rightarrow> unit accion" where
  "emitir_metrica_webhook resultado categoria_error = emite (Metrica ''webhook_count'' [resultado, categoria_error])"

definition nombre_tipo :: "json \<Rightarrow> string" where
  "nombre_tipo j = (case j of JNull \<Rightarrow> ''NoneType'' | JBool _ \<Rightarrow> ''bool'' | JInt _ \<Rightarrow> ''int'' | JFloat _ \<Rightarrow> ''float''
     | JStr _ \<Rightarrow> ''str'' | JArr _ \<Rightarrow> ''list'' | JObj _ \<Rightarrow> ''dict'')"

text \<open>The result pairs: notified, and the detail of the failure.\<close>

definition validar_respuesta_exitosa ::
    "(json \<Rightarrow> string) \<Rightarrow> int \<Rightarrow> string \<Rightarrow> string + json \<Rightarrow> string \<Rightarrow> bool \<times> string option" where
  "validar_respuesta_exitosa py_repr st content_type cuerpo case_id_crm =
     (if \<not> contiene ''application/json'' content_type
      then (False, Some (''El CRM respondi'' @ con_tilde CHR ''o'' @ '' HTTP '' @ str_int st
             @ '' con Content-Type inesperado ('' @ apostrofo @ content_type @ apostrofo @ ''), posible interceptaci'' @ con_tilde CHR ''o''
             @ ''n de Proxy/WAF.''))
      else case cuerpo of
        Inl json_err \<Rightarrow>
          (False, Some (''El CRM respondi'' @ con_tilde CHR ''o'' @ '' HTTP '' @ str_int st
             @ '' pero el JSON no se pudo decodificar: '' @ json_err))
      | Inr (JObj d) \<Rightarrow>
          if obtener d ''success'' \<noteq> JBool True
          then (False, Some (''El CRM no confirm'' @ con_tilde CHR ''o'' @ '' '' @ con_tilde CHR ''e''
                 @ ''xito expl'' @ con_tilde CHR ''i'' @ ''cito (success='' @ py_repr (obtener d ''success'') @ '').''))
          else if case_id_crm = [] \<or> obtener d ''case_number'' \<noteq> JStr case_id_crm
          then (False, Some (''El CRM confirm'' @ con_tilde CHR ''o'' @ '' '' @ con_tilde CHR ''e''
                 @ ''xito para un caso distinto al notificado (enviado='' @ py_repr (JStr case_id_crm)
                 @ '', confirmado='' @ py_repr (obtener d ''case_number'') @ '').''))
          else (True, None)
      | Inr j \<Rightarrow>
          (False, Some (''La respuesta JSON del CRM no es un objeto v'' @ con_tilde CHR ''a'' @ ''lido (recibido tipo: ''
             @ nombre_tipo j @ '').'')))"

definition notificar_resolucion_contingencia ::
    "(json \<Rightarrow> string) \<Rightarrow> string \<Rightarrow> (dict \<Rightarrow> respuesta_crm accion) \<Rightarrow> string \<Rightarrow> string \<Rightarrow> (bool \<times> string option) accion" where
  "notificar_resolucion_contingencia py_repr webhook_url publica case_id_crm smart_code =
     (if strip webhook_url = [] then
        luego (emitir_metrica_webhook ''error'' ''CONFIG_ERROR'') (\<lambda>_.
          devuelve (False, Some (''Fallo de configuraci'' @ con_tilde CHR ''o''
            @ ''n: '' @ apostrofo @ ''CRM_WEBHOOK_URL'' @ apostrofo @ '' no est'' @ con_tilde CHR ''a'' @ '' definida.'')))
      else
        luego (emite (Webhook case_id_crm smart_code)) (\<lambda>_.
        luego (publica [(''case_number'', JStr case_id_crm), (''smart_code'', JStr smart_code), (''status'', JStr ''CREATED'')])
          (\<lambda>resp. case resp of
             CrmExcepcion texto \<Rightarrow>
               luego (emitir_metrica_webhook ''error'' ''NETWORK_ERROR'') (\<lambda>_.
                 devuelve (False, Some (''Fallo de red/comunicaci'' @ con_tilde CHR ''o'' @ ''n al notificar al CRM: '' @ texto)))
           | CrmHttp st content_type cuerpo \<Rightarrow>
               if st \<in> {200, 201, 202} then
                 (case validar_respuesta_exitosa py_repr st (lower content_type) cuerpo case_id_crm of (ok, detalle) \<Rightarrow>
                    luego (emitir_metrica_webhook (if ok then ''success'' else ''error'') (if ok then ''N/A'' else ''CONTRACT_VIOLATION''))
                      (\<lambda>_. devuelve (ok, detalle)))
               else
                 luego (emitir_metrica_webhook ''error'' (''HTTP_'' @ str_int st)) (\<lambda>_.
                   devuelve (False, Some (''El CRM respondi'' @ con_tilde CHR ''o'' @ '' con c'' @ con_tilde CHR ''o''
                     @ ''digo HTTP de error '' @ str_int st @ ''.''))))))"

subsection \<open>What counts as a confirmation of the CRM\<close>

definition cuerpo_webhook :: "string \<Rightarrow> string \<Rightarrow> dict" where
  "cuerpo_webhook caso smart_code =
     [(''case_number'', JStr caso), (''smart_code'', JStr smart_code), (''status'', JStr ''CREATED'')]"

definition confirma :: "string \<Rightarrow> respuesta_crm \<Rightarrow> bool" where
  "confirma caso resp =
     (case resp of
        CrmHttp st content_type (Inr (JObj d)) \<Rightarrow>
          st \<in> {200, 201, 202} \<and> contiene ''application/json'' (lower content_type) \<and> caso \<noteq> []
          \<and> obtener d ''success'' = JBool True \<and> obtener d ''case_number'' = JStr caso
      | _ \<Rightarrow> False)"

lemma validar_casos:
  "validar_respuesta_exitosa py_repr st ct cuerpo caso = (True, None) \<and> contiene ''application/json'' ct \<and> caso \<noteq> []
     \<and> (\<exists>d. cuerpo = Inr (JObj d) \<and> obtener d ''success'' = JBool True \<and> obtener d ''case_number'' = JStr caso)
   \<or> (\<exists>detalle. validar_respuesta_exitosa py_repr st ct cuerpo caso = (False, Some detalle))
     \<and> \<not> (contiene ''application/json'' ct \<and> caso \<noteq> []
       \<and> (\<exists>d. cuerpo = Inr (JObj d) \<and> obtener d ''success'' = JBool True \<and> obtener d ''case_number'' = JStr caso))"
  by (auto simp: validar_respuesta_exitosa_def split: sum.split json.split)

text \<open>
  C18. The notification counts as delivered only on an explicit confirmation of the same case: the
  webhook is configured and the CRM answers the posted body with 200, 201 or 202, a JSON content type
  and an object with \<^verbatim>\<open>success\<close> true and the \<^verbatim>\<open>case_number\<close> that was sent, not empty. In every other case
  (network failure, other status, HTML of a proxy, malformed or foreign JSON) the answer is a failure
  with its detail, never an exception; if the client raised nothing, exactly one of the two happens.
\<close>

theorem solo_confirma_el_crm:
  "(\<exists>resp w1. publica (cuerpo_webhook caso smart_code) (w\<lparr>w_bitacora := w_bitacora w @ [Webhook caso smart_code]\<rparr>) = (Inr resp, w1)
      \<and> strip webhook_url \<noteq> [] \<and> confirma caso resp)
    = (fst (notificar_resolucion_contingencia py_repr webhook_url publica caso smart_code w) = Inr (True, None))
   \<and> fst (notificar_resolucion_contingencia py_repr webhook_url publica caso smart_code w)
       \<notin> {Inr (False, None)} \<union> (\<lambda>t. Inr (True, Some t)) ` UNIV"
  (is "?L = (fst (?n w) = Inr (True, None)) \<and> fst (?n w) \<notin> ?malas")
proof (cases "strip webhook_url = []")
  case True
  then show ?thesis
    by (auto simp: notificar_resolucion_contingencia_def emitir_metrica_webhook_def emite_w devuelve_def)
next
  case False
  define w0 where "w0 = w\<lparr>w_bitacora := w_bitacora w @ [Webhook caso smart_code]\<rparr>"
  obtain x w1 where p: "publica (cuerpo_webhook caso smart_code) w0 = (x, w1)"
    by (cases "publica (cuerpo_webhook caso smart_code) w0")
  note n = notificar_resolucion_contingencia_def emitir_metrica_webhook_def emite_w devuelve_def luego_def [of "publica d" for d]
    cuerpo_webhook_def [symmetric] w0_def [symmetric]
  show ?thesis
  proof (cases x)
    case (Inl e)
    with False p show ?thesis by (auto simp: n)
  next
    case (Inr resp)
    show ?thesis
    proof (cases resp)
      case (CrmExcepcion t)
      with False p Inr show ?thesis by (auto simp: n confirma_def)
    next
      case (CrmHttp st ct cuerpo)
      then have "confirma caso resp = (st \<in> {200, 201, 202} \<and> (contiene ''application/json'' (lower ct) \<and> caso \<noteq> []
          \<and> (\<exists>d. cuerpo = Inr (JObj d) \<and> obtener d ''success'' = JBool True \<and> obtener d ''case_number'' = JStr caso)))"
        by (auto simp: confirma_def split: sum.split json.split)
      with False p Inr CrmHttp validar_casos [of py_repr st "lower ct" cuerpo caso] show ?thesis
        by (cases "st \<in> {200, 201, 202}") (auto simp: n simp del: insert_iff)
    qed
  qed
qed

end
