(* ===== verification/Planificador.thy ===== *)
theory Planificador
  imports Webhook
begin

text \<open>
  \<^verbatim>\<open>app/workers/scheduler.py\<close>: the retry cycle of the worker. It lists the due items, takes for each one
  the lock of its case and the claim of the item, sends it to the SFC unless that was already done,
  stores that fact, notifies the CRM and completes the item; a failure goes back to the queue. Three
  infrastructure failures in a row put off the rest of the batch. The watchdog of the claim and the
  heartbeats of the locks run beside it: they are among the other processes of the turns.
\<close>

subsection \<open>Failures of infrastructure\<close>

definition palabras_infra :: "string list" where
  "palabras_infra =
     [''resource_exhausted'', ''quota exceeded'', ''503'', ''502'', ''504'', ''429'', ''connecterror'', ''connect error'',
      ''timeout'', ''connection refused'', ''indisponible'', ''no se encuentra disponible'', ''throttled'', ''throttling'',
      ''name or service not known'', ''service unavailable'', ''bad gateway'']"

definition es_falla_infraestructura :: "string option \<Rightarrow> excepcion option \<Rightarrow> bool" where
  "es_falla_infraestructura error_msg exc =
     (case exc of
        Some (SfcIntegrationException e) \<Rightarrow> es_transitoria e
      | _ \<Rightarrow> (texto_o_vacio error_msg \<noteq> [] \<and> (\<exists>kw \<in> set palabras_infra. coincide kw (lower (texto_o_vacio error_msg)))))"

subsection \<open>One item\<close>

record resultado_item =
  ri_exito :: bool
  ri_fallido :: bool
  ri_infra :: bool

definition sin_resultado :: resultado_item where
  "sin_resultado = \<lparr>ri_exito = False, ri_fallido = False, ri_infra = False\<rparr>"

definition como_dict :: "json option \<Rightarrow> dict" where
  "como_dict j = (case j of Some (JObj d) \<Rightarrow> d | _ \<Rightarrow> [])"

definition limpiar_checkpoint_tras_persistencia_durable :: "item \<Rightarrow> dict \<Rightarrow> dict \<Rightarrow> dict accion" where
  "limpiar_checkpoint_tras_persistencia_durable it payload_actual resultado_sfc =
     limpiar_checkpoint_si_cierre_exitoso resultado_sfc (it_smart_code it)
       (infer_operation_type payload_actual \<in> {''M3_CLOSE'', ''M3_FRAUD_AND_CLOSE''}) True"

text \<open>Step 1. The triple says whether to go on to step 2, what the SFC answered, and the counters.\<close>

definition ejecutar_paso_sfc ::
    "(string \<Rightarrow> string) \<Rightarrow> ajustes \<Rightarrow> servicios \<Rightarrow> item \<Rightarrow> string \<Rightarrow> (bool \<times> dict \<times> resultado_item) accion" where
  "ejecutar_paso_sfc sha cfg sv it worker_id =
     (let payload_actual = it_payload it in
      if it_sfc_completado it then devuelve (True, como_dict (it_sfc_response it), sin_resultado)
      else luego (procesar_despacho_raw_json sv payload_actual False) (\<lambda>resultado_sfc.
        if estado_de resultado_sfc = ''error'' then
          (let error_msg = (if texto_en resultado_sfc ''message'' \<noteq> [] then texto_en resultado_sfc ''message''
                            else ''Error en el despacho a la SFC'')
           in luego (registrar_fallo sha cfg it error_msg worker_id True) (\<lambda>t.
                devuelve (False, resultado_sfc,
                  sin_resultado\<lparr>ri_fallido := (t = TFailed), ri_infra := es_falla_infraestructura (Some error_msg) None\<rparr>)))
        else
          luego (intenta
                   (luego (marcar_sfc_completado sha (it_id it) worker_id (version_o_1 it) (it_smart_code it) payload_actual
                             (Some (JObj resultado_sfc)) (it_payload_hash it)) (\<lambda>t. devuelve (Some t)))
                   (\<lambda>e. luego (emite (Correo ''riesgo_duplicado_post_sfc'' (it_smart_code it))) (\<lambda>_. devuelve None)))
            (\<lambda>hecho.
               if hecho = Some TCompleted then
                 luego (limpiar_checkpoint_tras_persistencia_durable it payload_actual resultado_sfc)
                   (\<lambda>_. devuelve (True, resultado_sfc, sin_resultado))
               else devuelve (False, resultado_sfc, sin_resultado))))"

definition umbral_webhook_estancado_ms :: int where
  "umbral_webhook_estancado_ms = 2 * 3600 * 1000"

definition loguear_fallo_webhook :: "item \<Rightarrow> bool \<Rightarrow> unit accion" where
  "loguear_fallo_webhook it es_infra =
     (if \<not> es_infra then devuelve ()
      else luego ahora (\<lambda>now.
        case it_created_at it of
          Some created \<Rightarrow>
            if umbral_webhook_estancado_ms \<le> now - created
            then emite (Registro (''REINTENTO_INFINITO_WEBHOOK '' @ it_smart_code it)) else devuelve ()
        | None \<Rightarrow> devuelve ()))"

definition caso_crm_de :: "item \<Rightarrow> string" where
  "caso_crm_de it = (if texto_en (it_payload it) ''Case_id'' \<noteq> [] then texto_en (it_payload it) ''Case_id'' else it_smart_code it)"

text \<open>Step 2. \<open>notifica\<close> is the webhook: the case of the CRM and the code of the SFC.\<close>

type_synonym notificador = "string \<Rightarrow> string \<Rightarrow> (bool \<times> string option) accion"

definition error_webhook :: "dict \<Rightarrow> string option \<Rightarrow> string" where
  "error_webhook resultado_sfc detalle =
     ''SFC proces'' @ con_tilde CHR ''o'' @ '' la queja exitosamente ('' @ texto_en resultado_sfc ''message''
     @ ''), pero la notificaci'' @ con_tilde CHR ''o'' @ ''n hacia el CRM Webhook fall'' @ con_tilde CHR ''o'' @ '': ''
     @ (case detalle of None \<Rightarrow> ''None'' | Some t \<Rightarrow> t)"

definition ejecutar_paso_notificacion_crm ::
    "(string \<Rightarrow> string) \<Rightarrow> ajustes \<Rightarrow> notificador \<Rightarrow> item \<Rightarrow> string \<Rightarrow> dict \<Rightarrow> resultado_item accion" where
  "ejecutar_paso_notificacion_crm sha cfg notifica it worker_id resultado_sfc =
     luego (notifica (caso_crm_de it) (it_smart_code it)) (\<lambda>(crm_notificado, detalle).
       if \<not> crm_notificado then
         (let es_infra = es_falla_infraestructura detalle None in
          luego (loguear_fallo_webhook it es_infra) (\<lambda>_.
          luego (registrar_fallo sha cfg it (error_webhook resultado_sfc detalle) worker_id (\<not> es_infra)) (\<lambda>t.
            devuelve (sin_resultado\<lparr>ri_fallido := (t = TFailed)\<rparr>))))
       else intenta
         (luego (marcar_exitoso (it_id it) worker_id (version_o_1 it)) (\<lambda>t.
            devuelve (sin_resultado\<lparr>ri_exito := (t = TCompleted)\<rparr>)))
         (\<lambda>e. luego (emite (Correo ''riesgo_duplicado_post_sfc'' (it_smart_code it))) (\<lambda>_. devuelve sin_resultado)))"

definition procesar_item_reclamado ::
    "(string \<Rightarrow> string) \<Rightarrow> ajustes \<Rightarrow> servicios \<Rightarrow> notificador \<Rightarrow> item \<Rightarrow> string \<Rightarrow> resultado_item accion" where
  "procesar_item_reclamado sha cfg sv notifica it worker_id =
     intenta
       (luego (ejecutar_paso_sfc sha cfg sv it worker_id) (\<lambda>(continuar, resultado_sfc, res).
          if \<not> continuar then devuelve res
          else ejecutar_paso_notificacion_crm sha cfg notifica it worker_id resultado_sfc))
       (\<lambda>exc. luego (registrar_fallo sha cfg it (str_exc exc) worker_id True) (\<lambda>t.
          devuelve (sin_resultado\<lparr>ri_fallido := (t = TFailed),
                      ri_infra := es_falla_infraestructura (Some (str_exc exc)) (Some exc)\<rparr>)))"

text \<open>One beat of \<^verbatim>\<open>QueueLockWatchdog\<close>; it goes on while it says true.\<close>

definition latido_watchdog :: "nat \<Rightarrow> string \<Rightarrow> bool accion" where
  "latido_watchdog i worker_id = luego (duerme 15000) (\<lambda>_. extender_lease_item i worker_id 60)"

definition reclamar_y_procesar_si_lock_disponible ::
    "(string \<Rightarrow> string) \<Rightarrow> ajustes \<Rightarrow> servicios \<Rightarrow> notificador \<Rightarrow> string \<Rightarrow> item \<Rightarrow> string \<Rightarrow> resultado_item option accion" where
  "reclamar_y_procesar_si_lock_disponible sha cfg sv notifica token it worker_id =
     luego (acquire (despacho_lock (it_smart_code it) token)) (\<lambda>(ok, c).
       if \<not> ok then devuelve None
       else finalmente
         (luego (reclamar_item_para_procesamiento cfg (it_id it) worker_id 60) (\<lambda>reclamado.
            case reclamado of
              None \<Rightarrow> devuelve None
            | Some it' \<Rightarrow> luego (procesar_item_reclamado sha cfg sv notifica it' worker_id) (\<lambda>r. devuelve (Some r))))
         (luego (release c) (\<lambda>_. devuelve ())))"

subsection \<open>The cycle\<close>

definition diferir_resto_del_lote :: "ajustes \<Rightarrow> item list \<Rightarrow> unit accion" where
  "diferir_resto_del_lote cfg casos_restantes =
     (if casos_restantes = [] then devuelve ()
      else luego (diferir_pendientes_por_caida_sfc cfg casos_restantes (Some (QUEUE_RETRY_INTERVAL_MINUTES cfg)))
             (\<lambda>_. devuelve ()))"

definition umbral_fallas_infra :: nat where
  "umbral_fallas_infra = 3"

text \<open>The loop over the batch, for any way \<open>procesa\<close> of processing one item. The result: the counters, and
the exception that cut the loop, if any.\<close>

fun recorre_lote ::
    "(item \<Rightarrow> resultado_item option accion) \<Rightarrow> (item list \<Rightarrow> unit accion) \<Rightarrow> item list \<Rightarrow> nat \<times> nat \<Rightarrow> nat
     \<Rightarrow> ((nat \<times> nat) \<times> excepcion option) accion" where
  "recorre_lote procesa difiere [] (logros, fallos) consecutivas = devuelve ((logros, fallos), None)"
| "recorre_lote procesa difiere (it # its) (logros, fallos) consecutivas =
     luego (capturada (procesa it)) (\<lambda>salida.
       case salida of
         Inl e \<Rightarrow> devuelve ((logros, fallos), Some e)
       | Inr None \<Rightarrow> recorre_lote procesa difiere its (logros, fallos) consecutivas
       | Inr (Some r) \<Rightarrow>
           let cuenta = (logros + (if ri_exito r then 1 else 0), fallos + (if ri_fallido r then 1 else 0)) in
           if ri_infra r then
             (if umbral_fallas_infra \<le> consecutivas + 1 then
                luego (capturada (difiere its)) (\<lambda>s.
                  devuelve (cuenta, (case s of Inl e \<Rightarrow> Some e | Inr _ \<Rightarrow> None)))
              else recorre_lote procesa difiere its cuenta (consecutivas + 1))
           else recorre_lote procesa difiere its cuenta 0)"

definition verificar_sla_vencido :: "unit accion" where
  "verificar_sla_vencido =
     intenta
       (luego (obtener_casos_vencidos_sla 12) (\<lambda>casos.
          if casos = [] then devuelve () else emite (Correo ''casos_vencimiento_sla'' (str_nat (length casos)))))
       (\<lambda>e. devuelve ())"

definition notificar_autorrecuperacion_si_aplica :: "nat \<Rightarrow> unit accion" where
  "notificar_autorrecuperacion_si_aplica casos_exito =
     intenta
       (luego contar_pendientes (\<lambda>restantes.
          if 0 < casos_exito \<and> restantes = 0 then emite (Correo ''recuperacion_sfc'' (str_nat casos_exito)) else devuelve ()))
       (\<lambda>e. devuelve ())"

definition emitir_metricas_cola :: "nat \<Rightarrow> nat \<Rightarrow> unit accion" where
  "emitir_metricas_cola casos_exito casos_fallidos =
     intenta
       (luego contar_pendientes (\<lambda>queue_depth.
        luego obtener_edad_item_mas_antiguo_pendiente (\<lambda>oldest_age.
          emite (Metrica ''SSV/Queue'' ([str_nat queue_depth, str_nat casos_exito, str_nat casos_fallidos]
            @ (case oldest_age of None \<Rightarrow> [] | Some a \<Rightarrow> [str_int (a div 1000)]))))))
       (\<lambda>e. devuelve ())"

definition scheduler_lock_prefix :: string where
  "scheduler_lock_prefix = ''{sfc:scheduler}''"

definition cuerpo_reintentos ::
    "(string \<Rightarrow> string) \<Rightarrow> ajustes \<Rightarrow> servicios \<Rightarrow> notificador \<Rightarrow> string \<Rightarrow> string \<Rightarrow> ((nat \<times> nat) \<times> excepcion option) accion" where
  "cuerpo_reintentos sha cfg sv notifica token worker_id =
     luego verificar_sla_vencido (\<lambda>_.
     luego (capturada (obtener_pendientes_para_reintento cfg)) (\<lambda>pendientes.
       case pendientes of
         Inl _ \<Rightarrow> devuelve ((0, 0), None)
       | Inr [] \<Rightarrow> devuelve ((0, 0), None)
       | Inr its \<Rightarrow>
           luego (recorre_lote (\<lambda>it. reclamar_y_procesar_si_lock_disponible sha cfg sv notifica token it worker_id)
                    (diferir_resto_del_lote cfg) its (0, 0) 0) (\<lambda>(cuenta, exc).
             case exc of
               Some _ \<Rightarrow> devuelve (cuenta, exc)
             | None \<Rightarrow> luego (notificar_autorrecuperacion_si_aplica (fst cuenta)) (\<lambda>_. devuelve (cuenta, None)))))"

definition reintentar_despachos_pendientes_job ::
    "(string \<Rightarrow> string) \<Rightarrow> ajustes \<Rightarrow> servicios \<Rightarrow> notificador \<Rightarrow> string \<Rightarrow> string \<Rightarrow> unit accion" where
  "reintentar_despachos_pendientes_job sha cfg sv notifica token worker_id =
     luego hay_cliente (\<lambda>hay.
       if \<not> hay then devuelve ()
       else luego (acquire (nuevo_lock (scheduler_lock_prefix @ '':lock:retry_job'') token 60)) (\<lambda>(ok, c).
         if \<not> ok then devuelve ()
         else luego (cuerpo_reintentos sha cfg sv notifica token worker_id) (\<lambda>((logros, fallos), exc).
           luego (emitir_metricas_cola logros fallos) (\<lambda>_.
           luego (release c) (\<lambda>_.
             case exc of None \<Rightarrow> devuelve () | Some e \<Rightarrow> lanza e)))))"

definition purgar_cola_job :: "(nat set \<Rightarrow> nat list) \<Rightarrow> ajustes \<Rightarrow> string \<Rightarrow> unit accion" where
  "purgar_cola_job sscan cfg token =
     luego hay_cliente (\<lambda>hay.
       if \<not> hay then devuelve ()
       else luego (acquire ((nuevo_lock (scheduler_lock_prefix @ '':lock:purge_job'') token 300)\<lparr>intervalo_heartbeat := 30\<rparr>))
         (\<lambda>(ok, c).
            if \<not> ok then devuelve ()
            else finalmente (luego (purgar_registros_antiguos sscan cfg) (\<lambda>_. devuelve ()))
                   (luego (release c) (\<lambda>_. devuelve ()))))"

end
