(* ===== verification/Planificador_Propiedades.thy ===== *)
theory Planificador_Propiedades
  imports Planificador
begin

text \<open>
  What the retry cycle promises: it only makes legal steps of the queue, it calls the SFC only for an
  item that it claimed, that was not sent yet and whose case it has locked, no item can stop the cycle
  with an exception, and the batch is cut exactly after three infrastructure failures in a row.
\<close>

subsection \<open>The cycle refines the queue\<close>

definition notificador_refina :: "notificador \<Rightarrow> bool" where
  "notificador_refina notifica = (\<forall>a b. respeta paso_cola\<^sup>*\<^sup>* (notifica a b))"

lemma refina_paso_sfc:
  "servicios_refinan sv \<Longrightarrow> respeta paso_cola\<^sup>*\<^sup>* (ejecutar_paso_sfc sha cfg sv it wk)"
  unfolding ejecutar_paso_sfc_def Let_def limpiar_checkpoint_tras_persistencia_durable_def
  by (intro gcola.reglas refina_procesar_raw refina_metodos refina_limpiar)

lemma refina_loguear: "respeta paso_cola\<^sup>*\<^sup>* (loguear_fallo_webhook it b)"
  unfolding loguear_fallo_webhook_def by (auto intro!: gcola.reglas split: option.split)

lemma refina_paso_crm:
  "notificador_refina notifica \<Longrightarrow> respeta paso_cola\<^sup>*\<^sup>* (ejecutar_paso_notificacion_crm sha cfg notifica it wk res)"
  unfolding ejecutar_paso_notificacion_crm_def Let_def notificador_refina_def
  by (auto intro!: gcola.reglas refina_metodos refina_loguear split: prod.split)

lemma refina_item_reclamado:
  assumes "servicios_refinan sv" "notificador_refina notifica"
  shows "respeta paso_cola\<^sup>*\<^sup>* (procesar_item_reclamado sha cfg sv notifica it wk)"
  unfolding procesar_item_reclamado_def
  by (auto intro!: gcola.reglas refina_paso_sfc refina_paso_crm assms refina_metodos split: prod.split)

lemma refina_reclamar_y_procesar:
  assumes "servicios_refinan sv" "notificador_refina notifica"
  shows "respeta paso_cola\<^sup>*\<^sup>* (reclamar_y_procesar_si_lock_disponible sha cfg sv notifica token it wk)"
  unfolding reclamar_y_procesar_si_lock_disponible_def
  by (auto intro!: gcola.reglas refina_item_reclamado assms refina_metodos refina_lock split: prod.split option.split)

lemma refina_lote:
  assumes "\<And>it. respeta paso_cola\<^sup>*\<^sup>* (procesa it)" "\<And>its. respeta paso_cola\<^sup>*\<^sup>* (difiere its)"
  shows "respeta paso_cola\<^sup>*\<^sup>* (recorre_lote procesa difiere its cuenta c)"
proof (induction its arbitrary: cuenta c)
  case Nil
  then show ?case by (cases cuenta) (simp add: gcola.reglas)
next
  case (Cons it its)
  then show ?case
    by (cases cuenta) (auto simp: Let_def intro!: gcola.reglas assms refina_capturada split: sum.split option.split)
qed

lemma refina_cuerpo:
  assumes "servicios_refinan sv" "notificador_refina notifica"
  shows "respeta paso_cola\<^sup>*\<^sup>* (cuerpo_reintentos sha cfg sv notifica token wk)"
  unfolding cuerpo_reintentos_def verificar_sla_vencido_def notificar_autorrecuperacion_si_aplica_def
    diferir_resto_del_lote_def
  by (auto intro!: gcola.reglas refina_lote refina_reclamar_y_procesar assms refina_metodos refina_capturada
      split: sum.split list.split option.split prod.split simp del: recorre_lote.simps)

text \<open>
  C19. A whole retry cycle, whatever the SFC and the CRM answer, whatever fails and whoever interferes,
  moves the database only by legal steps of the queue machine, so the invariant of the queue (pending
  items well formed, scheduled and one per slot) holds after it.
\<close>

theorem el_ciclo_refina_la_cola:
  assumes "servicios_refinan sv" "notificador_refina notifica"
    and "entorno paso_cola\<^sup>*\<^sup>* w" "cola_inv (w_redis w)"
  shows "paso_cola\<^sup>*\<^sup>* (w_redis w) (w_redis (snd (reintentar_despachos_pendientes_job sha cfg sv notifica token wk w)))
    \<and> cola_inv (w_redis (snd (reintentar_despachos_pendientes_job sha cfg sv notifica token wk w)))"
proof -
  have "respeta paso_cola\<^sup>*\<^sup>* (reintentar_despachos_pendientes_job sha cfg sv notifica token wk)"
    unfolding reintentar_despachos_pendientes_job_def emitir_metricas_cola_def
    by (auto intro!: gcola.reglas refina_cuerpo assms refina_lock refina_metodos split: prod.split option.split)
  from respetaD(1) [OF this assms(3)] show ?thesis using cola.inv_estrella assms(4) by blast
qed

definition crm_ok_ej :: notificador where
  "crm_ok_ej caso smart_code = luego (emite (Webhook caso smart_code)) (\<lambda>_. devuelve (True, None))"

lemma crm_ok_ej_refina: "notificador_refina crm_ok_ej"
  unfolding notificador_refina_def crm_ok_ej_def by (intro allI gcola.reglas)

lemma el_ciclo_refina_la_cola_testigo:
  "cola_inv (w_redis (snd (reintentar_despachos_pendientes_job (\<lambda>s. ''h'') ajustes_por_defecto
     (sv_ej (lanza (SfcIntegrationException (err_ej 503 ''caida'')))) crm_ok_ej ''t'' ''wk'' (mundo_ej cola_ej []))))"
  using el_ciclo_refina_la_cola [OF servicios_ej [OF gcola.lanza] crm_ok_ej_refina, of "mundo_ej cola_ej []"] cola_inv_ej
  by (simp add: mundo_ej_def)

subsection \<open>Who calls the SFC\<close>

lemma sin_llamadas_registro: "sin_llamadas (emite (Registro a))"
  by (auto simp: sin_llamadas_def es_llamada_def intro: deja_emite)

lemma sin_llamadas_cola:
  "sin_llamadas (reclamar_item_para_procesamiento cfg i wk n)" "sin_llamadas (registrar_fallo sha cfg it e wk c)"
  "sin_llamadas (marcar_exitoso i wk v)" "sin_llamadas (loguear_fallo_webhook it b)"
  unfolding reclamar_item_para_procesamiento_def registrar_fallo_def marcar_exitoso_def loguear_fallo_webhook_def
    liberar_por_fallo_definitivo_def
  by (auto intro!: sin_llamadas_reglas sin_llamadas_registro sin_llamadas_servicio
      split: salida.split razon.split salida_claim.split option.split)

lemma sin_llamadas_paso_crm:
  assumes "\<And>a b. sin_llamadas (notifica a b)"
  shows "sin_llamadas (ejecutar_paso_notificacion_crm sha cfg notifica it wk res)"
  unfolding ejecutar_paso_notificacion_crm_def Let_def
  by (auto intro!: sin_llamadas_reglas sin_llamadas_cola assms split: prod.split)

lemma sin_llamadas_completado:
  assumes "\<And>a b. sin_llamadas (notifica a b)" "it_sfc_completado it"
  shows "sin_llamadas (procesar_item_reclamado sha cfg sv notifica it wk)"
  unfolding procesar_item_reclamado_def ejecutar_paso_sfc_def Let_def if_P [OF assms(2)] luego_devuelve prod.case
  by (auto intro!: sin_llamadas_reglas sin_llamadas_cola sin_llamadas_paso_crm assms)

lemma sin_llamadas_finalmente: "sin_llamadas m \<Longrightarrow> sin_llamadas fin \<Longrightarrow> sin_llamadas (finalmente m fin)"
proof -
  assume 1: "sin_llamadas m" "sin_llamadas fin"
  have "finalmente m fin = luego (capturada m) (\<lambda>x. luego fin (\<lambda>_. case x of Inl e \<Rightarrow> lanza e | Inr y \<Rightarrow> devuelve y))"
    by (simp add: finalmente_def luego_def capturada_def lanza_def devuelve_def fun_eq_iff split: prod.split sum.split)
  with 1 show ?thesis by (auto intro!: sin_llamadas_reglas split: sum.split)
qed

text \<open>
  C20. The worker sends a case to the SFC only with both claims and only once: if processing an item makes
  any call to the SFC, then before it the worker got the lock of the case for 180 seconds and the claim of
  the item, what it claimed is the item as stored at that moment, and the SFC had not accepted it yet. An
  item that already has \<^verbatim>\<open>sfc_completado\<close> only repeats the notification to the CRM.
\<close>

theorem el_worker_llama_con_candado_y_reclamo:
  assumes "\<And>a b. sin_llamadas (notifica a b)"
  shows "(\<exists>t. w_bitacora (snd (reclamar_y_procesar_si_lock_disponible sha cfg sv notifica token it wk w)) = w_bitacora w @ t
            \<and> list_all (\<lambda>ev. \<not> es_llamada ev) t)
   \<or> (\<exists>c w1 it' w2 t.
        acquire (despacho_lock (it_smart_code it) token) w = (Inr (True, c), w1)
        \<and> r_lock (w_redis w1) (despacho_lock_key (it_smart_code it)) = Some (token, reloj (w_redis w1) + 180000)
        \<and> reclamar_item_para_procesamiento cfg (it_id it) wk 60 w1 = (Inr (Some it'), w2)
        \<and> \<not> it_sfc_completado it'
        \<and> w_bitacora w2 = w_bitacora w @ t \<and> list_all (\<lambda>ev. \<not> es_llamada ev) t)"
    (is "?A \<or> ?B")
proof -
  let ?l = "despacho_lock (it_smart_code it) token" and ?r = "reclamar_item_para_procesamiento cfg (it_id it) wk 60"
  let ?m = "reclamar_y_procesar_si_lock_disponible sha cfg sv notifica token it wk"
  obtain ok c w1 where a: "acquire ?l w = (Inr (ok, c), w1)" using acquire_total by blast
  obtain t1 where t1: "w_bitacora w1 = w_bitacora w @ t1" "list_all (\<lambda>ev. \<not> es_llamada ev) t1"
    using dejaD [OF sin_llamadas_servicio(2) [unfolded sin_llamadas_def] a] by blast
  show ?thesis
  proof (cases ok)
    case False
    with a t1 show ?thesis by (simp add: reclamar_y_procesar_si_lock_disponible_def luego_def [of "acquire ?l"] devuelve_def)
  next
    case True
    define fin where "fin = luego (release c) (\<lambda>_. devuelve ())"
    define f where "f = (\<lambda>x. case x of None \<Rightarrow> devuelve None
      | Some it' \<Rightarrow> luego (procesar_item_reclamado sha cfg sv notifica it' wk) (\<lambda>r. devuelve (Some r)))"
    have m: "?m w = finalmente (luego ?r f) fin w1"
      using a True by (simp add: reclamar_y_procesar_si_lock_disponible_def luego_def [of "acquire ?l"] f_def fin_def)
    have limpio: ?A if "sin_llamadas n" "?m w = n w1" for n :: "resultado_item option accion"
      using dejaD [OF that(1) [unfolded sin_llamadas_def] prod.collapse [symmetric], of w1] that(2) t1 by auto
    have fin: "sin_llamadas fin" unfolding fin_def by (intro sin_llamadas_reglas sin_llamadas_servicio)
    obtain x w2 where r: "?r w1 = (x, w2)" by (cases "?r w1")
    then obtain t2 where t2: "w_bitacora w2 = w_bitacora w1 @ t2" "list_all (\<lambda>ev. \<not> es_llamada ev) t2"
      using dejaD [OF sin_llamadas_cola(1) [unfolded sin_llamadas_def] r] by blast
    show ?thesis
    proof (cases "\<exists>it'. x = Inr (Some it') \<and> \<not> it_sfc_completado it'")
      case True
      then obtain it' where "x = Inr (Some it')" "\<not> it_sfc_completado it'" by blast
      moreover have "lock_key ?l = despacho_lock_key (it_smart_code it)" "owner_token ?l = token" "lease_ms ?l = 180000"
        by (simp_all add: despacho_lock_def nuevo_lock_def lease_ms_def)
      ultimately have ?B using a \<open>ok\<close> acquire_TrueD [of ?l w c w1] r t1 t2 by auto
      then show ?thesis ..
    next
      case False
      have "\<exists>g. luego ?r f w1 = luego ?r g w1 \<and> (\<forall>y. sin_llamadas (g y))"
      proof (cases x)
        case (Inr y)
        then show ?thesis
          using False r sin_llamadas_completado [of notifica _ sha cfg sv wk] assms
          by (intro exI [of _ "\<lambda>_. f y"])
            (auto simp: luego_def f_def intro!: sin_llamadas_reglas split: option.split)
      qed (use r in \<open>auto simp: luego_def intro!: exI [of _ "\<lambda>_. devuelve None"] sin_llamadas_reglas\<close>)
      then obtain g where g: "luego ?r f w1 = luego ?r g w1" "\<And>y. sin_llamadas (g y)" by blast
      have "?m w = finalmente (luego ?r g) fin w1" using m g(1) by (simp add: finalmente_def)
      from limpio [OF sin_llamadas_finalmente [OF sin_llamadas_luego [OF sin_llamadas_cola(1) g(2)] fin] this] show ?thesis ..
    qed
  qed
qed

lemma crm_ok_ej_sin_llamadas: "sin_llamadas (crm_ok_ej a b)"
  unfolding crm_ok_ej_def
  by (intro sin_llamadas_reglas) (auto simp: sin_llamadas_def es_llamada_def intro: deja_emite)

definition item_suelto_ej :: item where
  "item_suelto_ej = item_nuevo \<lparr>ae_smart_code = ''SC1'', ae_tipo_operacion = ''AUTO'', ae_payload = p_tramite_ej,
     ae_error_inicial = ''e'', ae_max_intentos = 3, ae_now = 0, ae_proximo = 0, ae_correlation_id = ''c'',
     ae_payload_hash = ''h'', ae_operacion = ''M3_UPDATE''\<rparr> 1"

lemma suelto_no_se_reclama:
  "case reclamar_item_para_procesamiento ajustes_por_defecto (it_id item_suelto_ej) ''wk'' 60
     (snd (acquire (despacho_lock (it_smart_code item_suelto_ej) ''t'') (mundo_ej redis_vacio []))) of (x, _) \<Rightarrow> x = Inr None"
  by code_simp

lemma el_worker_llama_con_candado_y_reclamo_testigo:
  "\<exists>t. w_bitacora (snd (reclamar_y_procesar_si_lock_disponible (\<lambda>s. ''h'') ajustes_por_defecto (sv_ej (devuelve []))
       crm_ok_ej ''t'' item_suelto_ej ''wk'' (mundo_ej redis_vacio []))) = w_bitacora (mundo_ej redis_vacio []) @ t
     \<and> list_all (\<lambda>ev. \<not> es_llamada ev) t"
  using el_worker_llama_con_candado_y_reclamo [where notifica = crm_ok_ej and w = "mundo_ej redis_vacio []"
      and cfg = ajustes_por_defecto and it = item_suelto_ej and token = "''t''" and wk = "''wk''" and sha = "\<lambda>s. ''h''"
      and sv = "sv_ej (devuelve [])", OF crm_ok_ej_sin_llamadas] suelto_no_se_reclama
  by auto

subsection \<open>No item stops the cycle\<close>

text \<open>An action that always returns.\<close>

definition total :: "'a accion \<Rightarrow> bool" where
  "total m = (\<forall>w. \<exists>x w'. m w = (Inr x, w'))"

lemma total_basicas:
  "total (devuelve x)" "total (emite ev)" "total ahora" "total hay_cliente" "total (duerme ms)" "total (capturada m)"
  by (auto simp: total_def devuelve_def emite_def ahora_def hay_cliente_def duerme_def capturada_def split: prod.split)

lemma total_luego: "total m \<Longrightarrow> (\<And>x. total (f x)) \<Longrightarrow> total (luego m f)"
  unfolding total_def luego_def by (metis (no_types, lifting) case_prod_conv sum.case(2))

lemma total_intenta: "(\<And>e. total (h e)) \<Longrightarrow> total (intenta m h)"
  unfolding total_def by (metis intenta_siempre)

lemma total_finalmente: "total m \<Longrightarrow> total fin \<Longrightarrow> total (finalmente m fin)"
  unfolding total_def finalmente_def by (metis (mono_tags, lifting) case_prod_conv sum.case(2))

lemma total_para_cada: "(\<And>x. total (f x)) \<Longrightarrow> total (para_cada f xs)"
  by (induction xs) (auto intro!: total_basicas total_luego)

lemmas totales = total_basicas total_luego total_intenta total_finalmente total_para_cada

lemma totales_cola:
  "total (registrar_fallo sha cfg it e wk c)" "total (reclamar_item_para_procesamiento cfg i wk n)"
  "total (diferir_pendientes_por_caida_sfc cfg its m)" "total (acquire c0)" "total (release c0)"
  unfolding registrar_fallo_def reclamar_item_para_procesamiento_def diferir_pendientes_por_caida_sfc_def acquire_def
    release_def Let_def
  by (auto intro!: totales)

lemma total_item_reclamado: "total (procesar_item_reclamado sha cfg sv notifica it wk)"
  unfolding procesar_item_reclamado_def by (auto intro!: totales totales_cola)

lemma total_reclamar_y_procesar:
  "total (reclamar_y_procesar_si_lock_disponible sha cfg sv notifica token it wk)"
  unfolding reclamar_y_procesar_si_lock_disponible_def
  by (auto intro!: totales totales_cola total_item_reclamado split: prod.split option.split)

lemma total_diferir_resto: "total (diferir_resto_del_lote cfg its)"
  unfolding diferir_resto_del_lote_def by (auto intro!: totales totales_cola)

lemma total_lote: "total (recorre_lote procesa difiere its cuenta c)"
proof (induction its arbitrary: cuenta c)
  case Nil
  then show ?case by (cases cuenta) (simp add: totales)
next
  case (Cons it its)
  then show ?case
    by (cases cuenta) (auto simp: Let_def intro!: totales split: sum.split option.split)
qed

text \<open>The results of the items that were processed, without those left for the next cycle.\<close>

definition procesados :: "resultado_item option list \<Rightarrow> resultado_item list" where
  "procesados rs = map the (filter (\<lambda>r. r \<noteq> None) rs)"

definition racha :: "nat \<Rightarrow> resultado_item option list \<Rightarrow> nat" where
  "racha c rs = foldl (\<lambda>c r. if ri_infra r then c + 1 else 0) c (procesados rs)"

definition infra_seguidas :: "resultado_item option list \<Rightarrow> nat" where
  "infra_seguidas rs = length (takeWhile ri_infra (rev (procesados rs)))"

definition cuantos :: "(resultado_item \<Rightarrow> bool) \<Rightarrow> resultado_item option list \<Rightarrow> nat" where
  "cuantos P rs = length (filter P (procesados rs))"

lemma procesados_simps [simp]:
  "procesados [] = []" "procesados (None # rs) = procesados rs" "procesados (Some r # rs) = r # procesados rs"
  by (simp_all add: procesados_def)

lemma racha_simps [simp]:
  "racha c [] = c" "racha c (None # rs) = racha c rs" "racha c (Some r # rs) = racha (if ri_infra r then c + 1 else 0) rs"
  by (simp_all add: racha_def)

lemma racha_infra: "racha 0 rs = infra_seguidas rs"
proof -
  have "foldl (\<lambda>c r. if ri_infra r then c + 1 else 0) 0 xs = length (takeWhile ri_infra (rev xs))" for xs
    by (induction xs rule: rev_induct) auto
  then show ?thesis by (simp add: racha_def infra_seguidas_def)
qed

definition lote_cortado ::
    "(item \<Rightarrow> resultado_item option accion) \<Rightarrow> (item list \<Rightarrow> unit accion) \<Rightarrow> item list \<Rightarrow> nat \<Rightarrow> mundo
     \<Rightarrow> nat \<Rightarrow> resultado_item option list \<Rightarrow> mundo \<Rightarrow> bool" where
  "lote_cortado procesa difiere its c w n rs w' =
     (\<exists>w1. n \<le> length its \<and> para_cada procesa (take n its) w = (Inr rs, w1)
        \<and> (\<forall>m < n. racha c (take m rs) < umbral_fallas_infra)
        \<and> (if racha c rs = umbral_fallas_infra then difiere (drop n its) w1 = (Inr (), w')
           else n = length its \<and> w' = w1))"

lemma lote_por_prefijos:
  assumes "\<And>it. total (procesa it)" "\<And>its. total (difiere its)" "c < umbral_fallas_infra"
  shows "\<exists>n rs w'. recorre_lote procesa difiere its (a, b) c w
      = (Inr ((a + cuantos ri_exito rs, b + cuantos ri_fallido rs), None), w')
      \<and> lote_cortado procesa difiere its c w n rs w'"
  using assms(3)
proof (induction its arbitrary: a b c w)
  case Nil
  then show ?case
    by (intro exI [of _ 0] exI [of _ "[]"] exI [of _ w]) (simp add: lote_cortado_def cuantos_def devuelve_def)
next
  case (Cons it its)
  obtain r w1 where 1: "procesa it w = (Inr r, w1)" using assms(1) [of it] unfolding total_def by blast
  define a' where "a' = a + cuantos ri_exito [r]"
  define b' where "b' = b + cuantos ri_fallido [r]"
  define c' where "c' = racha c [r]"
  show ?case
  proof (cases "c' = umbral_fallas_infra")
    case True
    then obtain x where r: "r = Some x" "ri_infra x" using Cons.prems
      by (cases r) (auto simp: c'_def umbral_fallas_infra_def split: if_splits)
    obtain w2 where 2: "difiere its w1 = (Inr (), w2)" using assms(2) [of its] unfolding total_def by auto
    have "lote_cortado procesa difiere (it # its) c w 1 [r] w2"
      using True 1 2 Cons.prems by (auto simp: lote_cortado_def c'_def luego_def devuelve_def intro!: exI [of _ w1])
    moreover have "recorre_lote procesa difiere (it # its) (a, b) c w = (Inr ((a', b'), None), w2)"
      using True r 1 2 by (auto simp: luego_def capturada_def Let_def devuelve_def c'_def a'_def b'_def cuantos_def)
    ultimately show ?thesis by (auto simp: a'_def b'_def intro!: exI [of _ 1] exI [of _ "[r]"])
  next
    case False
    then have c': "c' < umbral_fallas_infra" using Cons.prems
      by (cases r) (auto simp: c'_def umbral_fallas_infra_def)
    from Cons.IH [OF this, of a' b' w1] obtain n rs w2 where
      ih: "recorre_lote procesa difiere its (a', b') c' w1
        = (Inr ((a' + cuantos ri_exito rs, b' + cuantos ri_fallido rs), None), w2)"
        "lote_cortado procesa difiere its c' w1 n rs w2" by blast
    have "recorre_lote procesa difiere (it # its) (a, b) c w = recorre_lote procesa difiere its (a', b') c' w1"
      using False 1 Cons.prems
      by (cases r) (auto simp: luego_def capturada_def Let_def c'_def a'_def b'_def cuantos_def umbral_fallas_infra_def)
    moreover have "cuantos P (r # rs) = cuantos P [r] + cuantos P rs" for P
      by (cases r) (simp_all add: cuantos_def)
    moreover have "lote_cortado procesa difiere (it # its) c w (Suc n) (r # rs) w2"
    proof -
      have "racha c (r # rs') = racha c' rs'" for rs' by (cases r) (simp_all add: c'_def)
      moreover have "racha c (take m (r # rs)) < umbral_fallas_infra" if "m < Suc n" for m
        using that ih(2) Cons.prems calculation by (cases m) (auto simp: lote_cortado_def)
      ultimately show ?thesis
        using ih(2) 1 by (auto simp: lote_cortado_def luego_def devuelve_def)
    qed
    ultimately show ?thesis using ih(1)
      by (intro exI [of _ "Suc n"] exI [of _ "r # rs"] exI [of _ w2]) (simp add: a'_def b'_def)
  qed
qed

text \<open>
  The loop over the batch. It always ends, with no exception, whatever the services raise: it
  processes a prefix of the batch in order and counts the deliveries and the registered failures of that
  prefix. The prefix is the whole batch unless its last three processed items (those left for the next
  cycle do not count) failed for infrastructure; then, and as soon as that happens, the rest of the batch
  is put off and nothing else is processed.
\<close>

theorem corte_del_lote:
  "\<exists>n rs w1 w'. recorre_lote (\<lambda>it. reclamar_y_procesar_si_lock_disponible sha cfg sv notifica token it wk)
        (diferir_resto_del_lote cfg) its (0, 0) 0 w
      = (Inr ((cuantos ri_exito rs, cuantos ri_fallido rs), None), w')
    \<and> n \<le> length its
    \<and> para_cada (\<lambda>it. reclamar_y_procesar_si_lock_disponible sha cfg sv notifica token it wk) (take n its) w = (Inr rs, w1)
    \<and> list_all (\<lambda>m. infra_seguidas (take m rs) < 3) [0..<n]
    \<and> (infra_seguidas rs = 3 \<and> diferir_resto_del_lote cfg (drop n its) w1 = (Inr (), w')
       \<or> infra_seguidas rs \<noteq> 3 \<and> n = length its \<and> w' = w1)"
proof -
  let ?p = "\<lambda>it. reclamar_y_procesar_si_lock_disponible sha cfg sv notifica token it wk"
  obtain n rs w' where 1: "recorre_lote ?p (diferir_resto_del_lote cfg) its (0, 0) 0 w
      = (Inr ((0 + cuantos ri_exito rs, 0 + cuantos ri_fallido rs), None), w')"
      "lote_cortado ?p (diferir_resto_del_lote cfg) its 0 w n rs w'"
    using lote_por_prefijos [of ?p "diferir_resto_del_lote cfg" 0 its 0 0 w]
      total_reclamar_y_procesar total_diferir_resto by (auto simp: umbral_fallas_infra_def)
  from 1(2) obtain w1 where "n \<le> length its" "para_cada ?p (take n its) w = (Inr rs, w1)"
      "\<And>m. m < n \<Longrightarrow> infra_seguidas (take m rs) < 3"
      "infra_seguidas rs = 3 \<and> diferir_resto_del_lote cfg (drop n its) w1 = (Inr (), w')
       \<or> infra_seguidas rs \<noteq> 3 \<and> n = length its \<and> w' = w1"
    by (auto simp: lote_cortado_def racha_infra umbral_fallas_infra_def split: if_splits)
  with 1(1) show ?thesis
    by (intro exI [of _ n] exI [of _ rs] exI [of _ w1] exI [of _ w']) (simp add: list_all_iff)
qed

lemma totales_consultas: "total verificar_sla_vencido" "total (notificar_autorrecuperacion_si_aplica n)" "total (emitir_metricas_cola a b)"
  unfolding verificar_sla_vencido_def notificar_autorrecuperacion_si_aplica_def emitir_metricas_cola_def
  by (rule total_intenta, rule totales)+

text \<open>
  C21. The retry cycle always returns normally: no answer of the SFC or of the CRM, no failure of Redis at
  any command, no corrupt item and no interference makes the job raise.
\<close>

theorem el_ciclo_siempre_termina:
  "\<exists>w'. reintentar_despachos_pendientes_job sha cfg sv notifica token wk w = (Inr (), w')"
proof -
  have "\<exists>cuenta w'. cuerpo_reintentos sha cfg sv notifica token wk w = (Inr (cuenta, None), w')" for w
  proof -
    obtain w1 where 1: "verificar_sla_vencido w = (Inr (), w1)" using totales_consultas(1) unfolding total_def by auto
    obtain x w2 where 2: "capturada (obtener_pendientes_para_reintento cfg) w1 = (Inr x, w2)"
      using total_basicas(6) unfolding total_def by blast
    show ?thesis
    proof (cases "\<exists>it its. x = Inr (it # its)")
      case False
      with 1 2 show ?thesis
        by (cases x; cases "projr x") (auto simp: cuerpo_reintentos_def luego_def devuelve_def)
    next
      case True
      then obtain it its where x: "x = Inr (it # its)" by blast
      let ?lote = "recorre_lote (\<lambda>it. reclamar_y_procesar_si_lock_disponible sha cfg sv notifica token it wk)
          (diferir_resto_del_lote cfg) (it # its) (0, 0) 0"
      obtain a b w3 where 3: "?lote w2 = (Inr ((a, b), None), w3)"
        using lote_por_prefijos [of "\<lambda>it. reclamar_y_procesar_si_lock_disponible sha cfg sv notifica token it wk"
            "diferir_resto_del_lote cfg" 0 "it # its" 0 0 w2] total_reclamar_y_procesar total_diferir_resto
        by (auto simp: umbral_fallas_infra_def simp del: recorre_lote.simps)
      obtain w4 where "notificar_autorrecuperacion_si_aplica a w3 = (Inr (), w4)"
        using totales_consultas(2) unfolding total_def by auto
      then show ?thesis
        using 1 2 3 x by (simp add: cuerpo_reintentos_def luego_def devuelve_def del: recorre_lote.simps)
    qed
  qed
  note cuerpo = this
  have "total (reintentar_despachos_pendientes_job sha cfg sv notifica token wk)"
  proof -
    define g where "g = (\<lambda>c. \<lambda>((a, b), exc::excepcion option). luego (emitir_metricas_cola a b) (\<lambda>_. luego (release c)
        (\<lambda>_. case exc of None \<Rightarrow> devuelve () | Some e \<Rightarrow> lanza e)))"
    have "total (luego (cuerpo_reintentos sha cfg sv notifica token wk) (g c))" for c
      unfolding total_def
    proof
      fix w
      obtain cuenta w1 where 1: "cuerpo_reintentos sha cfg sv notifica token wk w = (Inr (cuenta, None), w1)"
        using cuerpo by blast
      obtain w2 where 2: "emitir_metricas_cola (fst cuenta) (snd cuenta) w1 = (Inr (), w2)"
        using totales_consultas(3) [of "fst cuenta" "snd cuenta", unfolded total_def, THEN spec, of w1] by auto
      obtain c' w3 where "release c w2 = (Inr c', w3)" using totales_cola(5) unfolding total_def by blast
      with 1 2 show "\<exists>x w'. luego (cuerpo_reintentos sha cfg sv notifica token wk) (g c) w = (Inr x, w')"
        by (cases cuenta) (auto simp: g_def luego_def devuelve_def)
    qed
    then show ?thesis
      unfolding reintentar_despachos_pendientes_job_def g_def
      by (auto intro!: totales totales_cola split: prod.split)
  qed
  then show ?thesis unfolding total_def by auto
qed

subsection \<open>A due item is delivered\<close>

text \<open>\<open>w'\<close> differs from \<open>w\<close> only in the log, the file checkpoints and at most \<open>ms\<close> of time.\<close>

definition apenas :: "int \<Rightarrow> mundo \<Rightarrow> mundo \<Rightarrow> bool" where
  "apenas ms w w' =
     (w_turnos w' = w_turnos w \<and> w_cliente w' = w_cliente w
      \<and> reloj (w_redis w) \<le> reloj (w_redis w') \<and> reloj (w_redis w') \<le> reloj (w_redis w) + ms
      \<and> (\<exists>c. w_redis w' = (w_redis w)\<lparr>reloj := reloj (w_redis w'), r_checkpoint := c\<rparr>))"

lemma apenasD:
  assumes "apenas ms w w'"
  shows "w_turnos w' = w_turnos w" "w_cliente w' = w_cliente w" "reloj (w_redis w) \<le> reloj (w_redis w')"
    "reloj (w_redis w') \<le> reloj (w_redis w) + ms" "r_item (w_redis w') = r_item (w_redis w)"
    "r_estado (w_redis w') = r_estado (w_redis w)" "r_claim (w_redis w') = r_claim (w_redis w)"
    "r_idem (w_redis w') = r_idem (w_redis w)" "r_lock (w_redis w') = r_lock (w_redis w)"
proof -
  obtain c where c: "w_redis w' = (w_redis w)\<lparr>reloj := reloj (w_redis w'), r_checkpoint := c\<rparr>"
    using assms by (auto simp: apenas_def)
  show "r_item (w_redis w') = r_item (w_redis w)" "r_estado (w_redis w') = r_estado (w_redis w)"
    "r_claim (w_redis w') = r_claim (w_redis w)" "r_idem (w_redis w') = r_idem (w_redis w)"
    "r_lock (w_redis w') = r_lock (w_redis w)"
    by (subst c, simp)+
qed (use assms in \<open>simp_all add: apenas_def\<close>)

lemma limpiar_apenas:
  assumes "en_paz w"
  shows "\<exists>w'. limpiar_checkpoint_si_cierre_exitoso r s c l w = (Inr r, w') \<and> apenas 0 w w'"
proof -
  have "\<exists>c. w_redis w = (w_redis w)\<lparr>reloj := reloj (w_redis w), r_checkpoint := c\<rparr>" for w
    by (rule exI [of _ "r_checkpoint (w_redis w)"]) simp
  with assms show ?thesis
    by (auto simp: limpiar_checkpoint_si_cierre_exitoso_def limpiar_checkpoint_archivos_def desenrolla intenta_def
        redis_cmd_calma en_paz_def luego_def devuelve_def apenas_def hay_cliente_def)
qed

lemma sfc_completado_calma:
  assumes "en_paz w" "duenio (w_redis w) i = Some wk" "r_item (w_redis w) i = Some (Valido it)" "version_o_1 it = v"
  shows "marcar_sfc_completado sha i wk v s d (Some resp) h w =
    (Inr TCompleted, w\<lparr>w_redis := (w_redis w)\<lparr>
       r_item := (r_item (w_redis w))(i := Some (Valido (item_sfc_done (Some resp) (reloj (w_redis w)) it))),
       r_idem := tset (reloj (w_redis w)) ttl_ms (r_idem (w_redis w)) (construir_clave_completado sha s d h)
         (Valido (construir_registro_completado sha s d resp h))\<rparr>\<rparr>)"
  using assms
  by (simp add: en_paz_def marcar_sfc_completado_def desenrolla Let_def con_reintentos_def numeral_3_eq_3 intenta_def
      luego_cmd_calma mark_sfc_done_lua_def devuelve_def)

lemma exitoso_calma:
  assumes "en_paz w" "duenio (w_redis w) i = Some wk" "r_item (w_redis w) i = Some (Valido it)" "version_o_1 it = v"
  shows "\<exists>w'. marcar_exitoso i wk v w = (Inr TCompleted, w') \<and> en_paz w'
    \<and> r_item (w_redis w') = (r_item (w_redis w))(i := Some (Valido (it\<lparr>it_estado := COMPLETED, it_updated_at := Some (reloj (w_redis w))\<rparr>)))
    \<and> i \<in> completados (w_redis w') \<and> i \<notin> pendientes (w_redis w') \<and> r_idem (w_redis w') = r_idem (w_redis w)
    \<and> r_lock (w_redis w') = r_lock (w_redis w) \<and> reloj (w_redis w') = reloj (w_redis w)"
  using assms
  by (auto simp: en_paz_def marcar_exitoso_def desenrolla luego_cmd_calma mark_success_lua_def Let_def devuelve_def
      libera_indice_def)

text \<open>What a delivered item looks like.\<close>

definition entregado :: "(string \<Rightarrow> string) \<Rightarrow> mundo \<Rightarrow> nat \<Rightarrow> string \<Rightarrow> dict \<Rightarrow> dict \<Rightarrow> bool" where
  "entregado sha w i caso d res =
     (i \<in> completados (w_redis w) \<and> i \<notin> pendientes (w_redis w)
      \<and> (\<exists>it h. r_item (w_redis w) i = Some (Valido it) \<and> it_estado it = COMPLETED \<and> it_sfc_completado it
           \<and> it_payload it = d \<and> it_payload_hash it = h
           \<and> tget (reloj (w_redis w)) (r_idem (w_redis w)) (construir_clave_completado sha caso d h)
               = Some (Valido (construir_registro_completado sha caso d (JObj res) h))))"

lemma procesar_en_calma:
  assumes w: "en_paz w" "duenio (w_redis w) i = Some wk" "r_claim (w_redis w) i = Some (wk, reloj (w_redis w) + 60000)"
    and it: "r_item (w_redis w) i = Some (Valido it)" "it_id it = i" "it_payload it = d" "it_smart_code it = caso"
      "\<not> it_sfc_completado it"
    and sfc: "\<And>w. en_paz w \<Longrightarrow> \<exists>w'. procesar_despacho_raw_json sv d False w = (Inr res, w') \<and> apenas 25000 w w'"
      "estado_de res \<noteq> ''error''"
    and crm: "\<And>a b w. en_paz w \<Longrightarrow> \<exists>w'. notifica a b w = (Inr (True, None), w') \<and> apenas 25000 w w'"
  shows "\<exists>w'. procesar_item_reclamado sha cfg sv notifica (ColaItemRedis cfg it) wk w
      = (Inr (sin_resultado\<lparr>ri_exito := True\<rparr>), w')
    \<and> en_paz w' \<and> entregado sha w' i caso d res \<and> r_lock (w_redis w') = r_lock (w_redis w)
    \<and> reloj (w_redis w') \<le> reloj (w_redis w) + 50000"
proof -
  let ?ci = "ColaItemRedis cfg it"
  let ?t = "reloj (w_redis w)"
  have ci: "it_id ?ci = i" "version_o_1 ?ci = version_o_1 it" "it_payload ?ci = d" "it_smart_code ?ci = caso"
      "it_payload_hash ?ci = it_payload_hash it" "\<not> it_sfc_completado ?ci"
    using it by (simp_all add: ColaItemRedis_def version_o_1_def)
  obtain w1 where 1: "procesar_despacho_raw_json sv d False w = (Inr res, w1)" "apenas 25000 w w1"
    using sfc(1) [OF w(1)] by blast
  note a1 = apenasD [OF 1(2)]
  have p1: "en_paz w1" using w(1) a1 by (simp add: en_paz_def)
  have d1: "duenio (w_redis w1) i = Some wk" "r_item (w_redis w1) i = Some (Valido it)"
    using w(3) it(1) a1 by (auto simp: duenio_def tget_def)
  let ?it2 = "item_sfc_done (Some (JObj res)) (reloj (w_redis w1)) it"
  define w2 where "w2 = w1\<lparr>w_redis := (w_redis w1)\<lparr>r_item := (r_item (w_redis w1))(i := Some (Valido ?it2)),
       r_idem := tset (reloj (w_redis w1)) ttl_ms (r_idem (w_redis w1)) (construir_clave_completado sha caso d (it_payload_hash it))
         (Valido (construir_registro_completado sha caso d (JObj res) (it_payload_hash it)))\<rparr>\<rparr>"
  have 2: "marcar_sfc_completado sha i wk (version_o_1 it) caso d (Some (JObj res)) (it_payload_hash it) w1 = (Inr TCompleted, w2)"
    using sfc_completado_calma [OF p1 d1 refl] by (simp add: w2_def)
  have p2: "en_paz w2" using p1 by (simp add: w2_def en_paz_def)
  obtain w3 where 3: "limpiar_checkpoint_tras_persistencia_durable ?ci d res w2 = (Inr res, w3)" "apenas 0 w2 w3"
    using limpiar_apenas [OF p2] unfolding limpiar_checkpoint_tras_persistencia_durable_def by blast
  note a3 = apenasD [OF 3(2)]
  have p3: "en_paz w3" using p2 a3 by (simp add: en_paz_def)
  have paso1: "ejecutar_paso_sfc sha cfg sv ?ci wk w = (Inr (True, res, sin_resultado), w3)"
    using 1 2 3 sfc(2) ci by (simp add: ejecutar_paso_sfc_def Let_def luego_def intenta_def devuelve_def)
  obtain w4 where 4: "notifica (caso_crm_de ?ci) caso w3 = (Inr (True, None), w4)" "apenas 25000 w3 w4"
    using crm [OF p3] by blast
  note a4 = apenasD [OF 4(2)]
  have p4: "en_paz w4" using p3 a4 by (simp add: en_paz_def)
  have r4: "r_item (w_redis w4) i = Some (Valido ?it2)" "r_lock (w_redis w4) = r_lock (w_redis w)"
    "?t \<le> reloj (w_redis w4)" "reloj (w_redis w4) \<le> ?t + 50000" "duenio (w_redis w4) i = Some wk"
    using a1 a3 a4 w(3) by (auto simp: w2_def duenio_def tget_def)
  have idem: "tget (reloj (w_redis w4)) (r_idem (w_redis w4)) (construir_clave_completado sha caso d (it_payload_hash it))
      = Some (Valido (construir_registro_completado sha caso d (JObj res) (it_payload_hash it)))"
    using a1 a3 a4 by (auto simp: w2_def ttl_ms_def)
  obtain w5 where 5: "marcar_exitoso i wk (version_o_1 it) w4 = (Inr TCompleted, w5)" "en_paz w5"
      "r_item (w_redis w5) i = Some (Valido (?it2\<lparr>it_estado := COMPLETED, it_updated_at := Some (reloj (w_redis w4))\<rparr>))"
      "i \<in> completados (w_redis w5)" "i \<notin> pendientes (w_redis w5)" "r_idem (w_redis w5) = r_idem (w_redis w4)"
      "r_lock (w_redis w5) = r_lock (w_redis w4)" "reloj (w_redis w5) = reloj (w_redis w4)"
    using exitoso_calma [OF p4 r4(5) r4(1), of "version_o_1 it"] by auto
  have "procesar_item_reclamado sha cfg sv notifica ?ci wk w = (Inr (sin_resultado\<lparr>ri_exito := True\<rparr>), w5)"
    using paso1 4 5 ci
    by (simp add: procesar_item_reclamado_def ejecutar_paso_notificacion_crm_def intenta_def luego_def devuelve_def)
  moreover have "entregado sha w5 i caso d res"
    using 5 idem it(3) by (auto simp: entregado_def)
  ultimately show ?thesis using 5 r4 by auto
qed

lemma acquire_calma:
  assumes "en_paz w" "dueno_lock (w_redis w) (lock_key c) = None"
  shows "acquire c w = (Inr (True, c\<lparr>redis_error := False, acquired := True\<rparr>),
     w\<lparr>w_redis := (w_redis w)\<lparr>r_lock := tset (reloj (w_redis w)) (lease_ms c) (r_lock (w_redis w)) (lock_key c) (owner_token c)\<rparr>\<rparr>)"
  using assms
  by (simp add: en_paz_def acquire_def desenrolla Let_def intenta_def luego_cmd_calma como_cmd_def set_nx_lock_def devuelve_def)

lemma release_calma:
  assumes "en_paz w" "acquired c" "dueno_lock (w_redis w) (lock_key c) = Some (owner_token c)"
  shows "release c w = (Inr (c\<lparr>acquired := False\<rparr>),
     w\<lparr>w_redis := (w_redis w)\<lparr>r_lock := tdel (r_lock (w_redis w)) (lock_key c)\<rparr>\<rparr>)"
  using assms
  by (simp add: en_paz_def release_def desenrolla Let_def intenta_def luego_cmd_calma como_cmd_def release_lock_lua_def devuelve_def)

text \<open>
  C22. Delivery. A due item that waits for its turn, whose case nobody has locked, is delivered in one turn
  of the worker when Redis answers, the SFC accepts and the CRM confirms, each within 25 seconds: the turn
  counts as a success, the item ends in COMPLETADO with \<^verbatim>\<open>sfc_completado\<close> and its payload, the COMPLETED
  record answers every later request with that content, and the case is unlocked.
\<close>

theorem entrega_en_calma:
  assumes "espera_turno w i k M d" "r_item (w_redis w) i = Some (Valido it)" "\<not> it_sfc_completado it"
    and "it_id it0 = i" "it_smart_code it0 = it_smart_code it"
    and "dueno_lock (w_redis w) (despacho_lock_key (it_smart_code it)) = None"
    and "\<And>w. en_paz w \<Longrightarrow> \<exists>w'. procesar_despacho_raw_json sv d False w = (Inr res, w') \<and> apenas 25000 w w'"
    and "estado_de res \<noteq> ''error''"
    and "\<And>a b w. en_paz w \<Longrightarrow> \<exists>w'. notifica a b w = (Inr (True, None), w') \<and> apenas 25000 w w'"
  shows "\<exists>w'. reclamar_y_procesar_si_lock_disponible sha cfg sv notifica token it0 wk w
      = (Inr (Some (sin_resultado\<lparr>ri_exito := True\<rparr>)), w')
    \<and> entregado sha w' i (it_smart_code it) d res
    \<and> dueno_lock (w_redis w') (despacho_lock_key (it_smart_code it)) = None"
proof -
  let ?l = "despacho_lock (it_smart_code it) token"
  have l: "lock_key ?l = despacho_lock_key (it_smart_code it)" "owner_token ?l = token" "lease_ms ?l = 180000"
    by (simp_all add: despacho_lock_def nuevo_lock_def lease_ms_def)
  have w: "en_paz w" using assms(1) by (simp add: espera_turno_def en_paz_def)
  define c where "c = ?l\<lparr>redis_error := False, acquired := True\<rparr>"
  define w1 where "w1 = w\<lparr>w_redis := (w_redis w)\<lparr>r_lock := tset (reloj (w_redis w)) (lease_ms ?l) (r_lock (w_redis w)) (lock_key ?l) (owner_token ?l)\<rparr>\<rparr>"
  have 1: "acquire ?l w = (Inr (True, c), w1)"
    using acquire_calma [OF w, of ?l] assms(6) l by (simp add: c_def w1_def)
  have "paso_cola\<^sup>*\<^sup>* (w_redis w) (w_redis w1)" by (auto simp: w1_def intro: p_lock)
  then have "cola_inv (w_redis w1)" using cola.inv_estrella assms(1) by (auto simp: espera_turno_def)
  then have et: "espera_turno w1 i k M d"
    using assms(1) by (simp add: espera_turno_def w1_def duenio_def)
  have it: "r_item (w_redis w1) i = Some (Valido it)" using assms(2) by (simp add: w1_def)
  let ?it = "it\<lparr>it_estado := PROCESSING\<rparr>"
  define w2 where "w2 = w1\<lparr>w_redis := (w_redis w1)\<lparr>r_item := (r_item (w_redis w1))(i := Some (Valido ?it)),
             r_claim := tset (reloj (w_redis w1)) 60000 (r_claim (w_redis w1)) i wk\<rparr>\<rparr>"
  have d: "it_payload it = d" using et it by (simp add: espera_turno_def)
  have 2: "reclamar_item_para_procesamiento cfg i wk 60 w1 = (Inr (Some (ColaItemRedis cfg ?it)), w2)"
    using reclamar_calma [OF et, of cfg wk] it unfolding w2_def by (metis crudo.inject option.inject)
  have w2: "en_paz w2" "duenio (w_redis w2) i = Some wk" "r_claim (w_redis w2) i = Some (wk, reloj (w_redis w2) + 60000)"
    using w by (simp_all add: w2_def w1_def en_paz_def duenio_def tset_def tget_def)
  have id: "it_id it = i"
    using et coherente [of "w_redis w1" i it] it by (simp add: espera_turno_def item_coherente_def)
  obtain w3 where 3: "procesar_item_reclamado sha cfg sv notifica (ColaItemRedis cfg ?it) wk w2 = (Inr (sin_resultado\<lparr>ri_exito := True\<rparr>), w3)"
      "en_paz w3" "entregado sha w3 i (it_smart_code it) d res" "r_lock (w_redis w3) = r_lock (w_redis w2)"
      "reloj (w_redis w3) \<le> reloj (w_redis w2) + 50000"
    using procesar_en_calma [OF w2, of ?it d "it_smart_code it" sv res notifica sha cfg] assms(3,7-9) d id
    by (auto simp: w2_def)
  define w4 where "w4 = w3\<lparr>w_redis := (w_redis w3)\<lparr>r_lock := tdel (r_lock (w_redis w3)) (lock_key c)\<rparr>\<rparr>"
  have "release c w3 = (Inr (c\<lparr>acquired := False\<rparr>), w4)"
    using release_calma [OF 3(2), of c] 3(4,5) l
    by (simp add: w4_def c_def w2_def w1_def dueno_lock_def tset_def tget_def)
  with 1 2 3(1) assms(4,5) have "reclamar_y_procesar_si_lock_disponible sha cfg sv notifica token it0 wk w
      = (Inr (Some (sin_resultado\<lparr>ri_exito := True\<rparr>)), w4)"
    by (simp add: reclamar_y_procesar_si_lock_disponible_def finalmente_def luego_def devuelve_def)
  moreover have "entregado sha w4 i (it_smart_code it) d res" using 3(3) by (simp add: entregado_def w4_def)
  moreover have "dueno_lock (w_redis w4) (despacho_lock_key (it_smart_code it)) = None"
    using l by (simp add: w4_def dueno_lock_def c_def)
  ultimately show ?thesis by blast
qed

definition exito_ej :: dict where
  "exito_ej = [(''status'', JStr ''success'')]"

lemma sfc_acepta_ej:
  "procesar_despacho_raw_json (sv_ej (devuelve exito_ej)) [(''Status'', JStr ''a'')] False w = (Inr exito_ej, w)"
proof -
  let ?d = "[(''Status'', JStr ''a'')]"
  have "infer_operation_type ?d = ''M3_UPDATE''" "\<not> es_fraude_de ?d" "\<not> es_cierre_de ?d" "texto_en ?d ''directorio_s3'' = []"
    "estado_de exito_ej = ''success''" by code_simp+
  then show ?thesis
    by (simp add: procesar_despacho_raw_json_def procesar_despacho_def con_listado_def despacho_clasificado_def Let_def
        sv_ej_def intenta_sfc_def ejecutar_pasos_momento_3_def ejecutar_paso_o_exito_si_ya_cerrado_def
        limpiar_checkpoint_si_cierre_exitoso_def obtener_def devuelve_def intenta_def luego_def exito_ej_def)
qed

lemma apenas_log: "0 \<le> ms \<Longrightarrow> apenas ms w (w\<lparr>w_bitacora := b\<rparr>)"
  unfolding apenas_def by (auto intro!: exI [of _ "r_checkpoint (w_redis w)"])

lemma entrega_en_calma_testigo:
  "\<exists>w'. reclamar_y_procesar_si_lock_disponible (\<lambda>s. ''h'') ajustes_por_defecto (sv_ej (devuelve exito_ej)) crm_ok_ej
      ''t'' item_ej ''wk'' (mundo_ej cola_ej []) = (Inr (Some (sin_resultado\<lparr>ri_exito := True\<rparr>)), w')
    \<and> entregado (\<lambda>s. ''h'') w' 1 ''A1'' [(''Status'', JStr ''a'')] exito_ej
    \<and> dueno_lock (w_redis w') (despacho_lock_key ''A1'') = None"
proof -
  have "apenas 25000 w w" for w using apenas_log [of 25000 w "w_bitacora w"] by simp
  moreover have "estado_de exito_ej \<noteq> ''error''" by code_simp
  ultimately show ?thesis
    using entrega_en_calma [OF espera_turno_ej, of item_ej item_ej "sv_ej (devuelve exito_ej)" exito_ej crm_ok_ej
        "\<lambda>s. ''h''" ajustes_por_defecto "''t''" "''wk''"]
    by (simp add: sfc_acepta_ej crm_ok_ej_def emite_w devuelve_def apenas_log mundo_ej_def dueno_lock_def)
qed

subsection \<open>A broken webhook reopens the gate of a case that the SFC accepted\<close>

lemma fallo_definitivo_calma:
  assumes "en_paz w" "duenio (w_redis w) i = Some wk" "r_item (w_redis w) i = Some (Valido it)" "it_id it = i"
    and "es_definitivo cfg it True" "it_smart_code it \<noteq> []" "it_payload it \<noteq> []"
  shows "\<exists>w'. registrar_fallo sha cfg it e wk True w = (Inr TFailed, w') \<and> en_paz w'
    \<and> i \<in> fallidos (w_redis w') \<and> i \<notin> pendientes (w_redis w')
    \<and> (\<exists>it'. r_item (w_redis w') i = Some (Valido it') \<and> it_estado it' = FAILED_FINAL
           \<and> it_sfc_completado it' = it_sfc_completado it)
    \<and> tget (reloj (w_redis w')) (r_idem (w_redis w')) (clave sha (it_smart_code it) (it_payload it)) = None"
  using assms
  by (auto simp: en_paz_def registrar_fallo_def desenrolla intenta_def luego_cmd_calma registrar_fallo_lua_def Let_def
      luego_asoc luego_si_emite emite_w liberar_calma devuelve_def libera_indice_def
      luego_def [of "liberar_por_fallo_definitivo sha s d" for s d])

lemma verificar_sin_registro:
  assumes "en_paz w" "tget (reloj (w_redis w)) (r_idem (w_redis w)) (clave sha s d) = None"
  shows "fst (verificar_o_iniciar_operacion sha s d True w) = Inr None"
  using assms
  by (simp add: en_paz_def verificar_o_iniciar_operacion_def desenrolla intenta_def luego_cmd_calma consulta_def idem_get_def
      iniciar_registro_processing_def idem_set_nx_def evaluar_registro_existente_def clave_def Let_def devuelve_def)

text \<open>
  C23. What happens to a case that the SFC accepted when the CRM keeps refusing the notification with
  anything that is not classified as infrastructure (a 500 is not: only 502, 503, 504 and 429 are): the last
  attempt sends the accepted item to FALLIDO_DEFINITIVO and deletes the COMPLETED record of its acceptance,
  so the next request of the CRM with the same content passes the gate and the SFC receives the case again.
\<close>

theorem rechazo_del_webhook_reabre_la_compuerta:
  assumes "en_paz w" "duenio (w_redis w) i = Some wk" "r_item (w_redis w) i = Some (Valido it)" "it_id it = i"
    and "it_sfc_completado it" "es_definitivo cfg it True" "it_smart_code it \<noteq> []" "it_payload it \<noteq> []"
    and "notifica (caso_crm_de it) (it_smart_code it) w = (Inr (False, detalle), w1)" "apenas 25000 w w1"
    and "duenio (w_redis w1) i = Some wk" "\<not> es_falla_infraestructura detalle None"
  shows "\<exists>r w'. procesar_item_reclamado sha cfg sv notifica it wk w = (Inr r, w')
     \<and> i \<in> fallidos (w_redis w') \<and> (\<exists>it'. r_item (w_redis w') i = Some (Valido it') \<and> it_sfc_completado it')
     \<and> fst (verificar_o_iniciar_operacion sha (it_smart_code it) (it_payload it) True w') = Inr None"
proof -
  note a1 = apenasD [OF assms(10)]
  have p1: "en_paz w1" using assms(1) a1 by (simp add: en_paz_def)
  have it1: "r_item (w_redis w1) i = Some (Valido it)" using assms(3) a1 by simp
  define e where "e = error_webhook (como_dict (it_sfc_response it)) detalle"
  obtain w2 where 2: "registrar_fallo sha cfg it e wk True w1 = (Inr TFailed, w2)" "en_paz w2" "i \<in> fallidos (w_redis w2)"
      "\<exists>it'. r_item (w_redis w2) i = Some (Valido it') \<and> it_sfc_completado it'"
      "tget (reloj (w_redis w2)) (r_idem (w_redis w2)) (clave sha (it_smart_code it) (it_payload it)) = None"
    using fallo_definitivo_calma [OF p1 assms(11) it1 assms(4,6,7,8), of sha e] assms(5) by auto
  have "procesar_item_reclamado sha cfg sv notifica it wk w = (Inr (sin_resultado\<lparr>ri_fallido := True\<rparr>), w2)"
    using assms(5,9,12) 2(1)
    by (simp add: procesar_item_reclamado_def ejecutar_paso_sfc_def Let_def ejecutar_paso_notificacion_crm_def
        loguear_fallo_webhook_def intenta_def luego_def devuelve_def e_def)
  with 2 verificar_sin_registro [OF 2(2,5)] show ?thesis by auto
qed

definition crm_500_ej :: notificador where
  "crm_500_ej = notificar_resolucion_contingencia (\<lambda>j. ''?'') ''https://crm''
     (\<lambda>d. devuelve (CrmHttp 500 ''text/html'' (Inr JNull)))"

definition texto_500_ej :: string where
  "texto_500_ej = ''El CRM respondi'' @ con_tilde CHR ''o'' @ '' con c'' @ con_tilde CHR ''o''
     @ ''digo HTTP de error '' @ str_int 500 @ ''.''"

lemma crm_500_ej: "crm_500_ej a b w = (Inr (False, Some texto_500_ej),
    w\<lparr>w_bitacora := w_bitacora w @ [Webhook a b, Metrica ''webhook_count'' [''error'', ''HTTP_'' @ str_int 500]]\<rparr>)"
proof -
  have "strip ''https://crm'' \<noteq> []" by code_simp
  then show ?thesis
    by (simp add: crm_500_ej_def notificar_resolucion_contingencia_def emitir_metrica_webhook_def emite_w texto_500_ej_def
        devuelve_def)
qed

lemma texto_500_no_es_infra: "\<not> es_falla_infraestructura (Some texto_500_ej) None"
  by code_simp

definition item_aceptado_ej :: item where
  "item_aceptado_ej = item_ej\<lparr>it_sfc_completado := True, it_intentos := Some 9\<rparr>"

definition cola_aceptada_ej :: mundo where
  "cola_aceptada_ej = mundo_ej (cola_ej\<lparr>r_item := [1 \<mapsto> Valido item_aceptado_ej], r_claim := [1 \<mapsto> (''wk'', 60000)]\<rparr>) []"

lemma rechazo_del_webhook_reabre_la_compuerta_testigo:
  "\<exists>r w'. procesar_item_reclamado (\<lambda>s. ''a'') ajustes_por_defecto (sv_ej (devuelve exito_ej)) crm_500_ej item_aceptado_ej ''wk''
       cola_aceptada_ej = (Inr r, w')
     \<and> fst (verificar_o_iniciar_operacion (\<lambda>s. ''a'') ''A1'' [(''Status'', JStr ''a'')] True w') = Inr None"
  using rechazo_del_webhook_reabre_la_compuerta [of cola_aceptada_ej 1 "''wk''" item_aceptado_ej ajustes_por_defecto crm_500_ej
      "Some texto_500_ej" _ "\<lambda>s. ''a''" "sv_ej (devuelve exito_ej)", OF _ _ _ _ _ _ _ _ crm_500_ej [of _ _ cola_aceptada_ej]]
    apenas_log [of 25000 cola_aceptada_ej] texto_500_no_es_infra
  by (auto simp: cola_aceptada_ej_def mundo_ej_def item_aceptado_ej_def en_paz_def duenio_def tget_def es_definitivo_def
      max_intentos_de_def intentos_o_0_def)

end
