(* ===== verification/Mapeo_Propiedades.thy ===== *)
theory Mapeo_Propiedades
  imports Mapeo_Traduccion
begin

text \<open>
  What the mapper promises to the regulator: a code that goes to the SFC is the catalog code of the value
  of the CRM or the documented default of an absent field, never an invented one; and the codes of a
  coherent catalog survive the trip to the CRM and back. Two places where they do not are shown on the
  packaged catalogs.
\<close>

subsection \<open>The inverse indices\<close>

definition entradas_de :: "string \<Rightarrow> catalogo \<Rightarrow> (string \<times> json) list" where
  "entradas_de nombre cat =
     concat (map (\<lambda>(k, v). [(normalize_text v, valor_codigo k), (k, valor_codigo k)]) cat)
     @ (if nombre = ''tipo_id'' then alias_tipo_id else if nombre = ''punto_recepcion'' then alias_punto_recepcion else [])"

text \<open>No key of the index stands for two codes.\<close>

definition coherente_cat :: "string \<Rightarrow> catalogo \<Rightarrow> bool" where
  "coherente_cat nombre cat =
     list_all (\<lambda>(x, a). list_all (\<lambda>(y, b). x = y \<longrightarrow> a = b) (entradas_de nombre cat)) (entradas_de nombre cat)"

lemma map_of_updates:
  "map_of (foldl (\<lambda>m (k, v). AList.update k v m) m0 ps) x =
     (case map_of (rev ps) x of Some v \<Rightarrow> Some v | None \<Rightarrow> map_of m0 x)"
  by (induction ps arbitrary: m0) (auto simp: update_conv map_add_def split: option.split)

lemma inverso_como_updates:
  "inverso_de cat = foldl (\<lambda>m (k, v). AList.update k v m) []
     (concat (map (\<lambda>(k, v). [(normalize_text v, valor_codigo k), (k, valor_codigo k)]) cat))"
proof -
  have "foldl (\<lambda>m (k, v). AList.update k (valor_codigo k) (AList.update (normalize_text v) (valor_codigo k) m)) m0 cat
      = foldl (\<lambda>m (k, v). AList.update k v m) m0
          (concat (map (\<lambda>(k, v). [(normalize_text v, valor_codigo k), (k, valor_codigo k)]) cat))" for m0
    by (induction cat arbitrary: m0) auto
  then show ?thesis by (simp add: inverso_de_def)
qed

lemma indice_como_updates:
  "snd (con_alias (nombre, inverso_de cat)) = foldl (\<lambda>m (k, v). AList.update k v m) [] (entradas_de nombre cat)"
  by (simp add: con_alias_def agrega_alias_def entradas_de_def inverso_como_updates)

lemma inv_de_construido:
  assumes "cat_de mp ''producto'' \<noteq> []" "map_of (CATALOGOS mp) nombre = Some cat"
  shows "inv_de (construir_indices_inversos mp) nombre = snd (con_alias (nombre, inverso_de cat))"
proof -
  have "map_of (map (\<lambda>(k, c). con_alias (k, inverso_de c)) ps) nombre
      = map_option (\<lambda>c. snd (con_alias (nombre, inverso_de c))) (map_of ps nombre)" for ps
    by (induction ps) (auto simp: con_alias_def)
  with assms show ?thesis by (simp add: inv_de_def construir_indices_inversos_def)
qed

lemma indice_coherente:
  assumes "coherente_cat nombre cat" "(x, a) \<in> set (entradas_de nombre cat)"
  shows "map_of (snd (con_alias (nombre, inverso_de cat))) x = Some a"
proof -
  obtain b where "map_of (rev (entradas_de nombre cat)) x = Some b"
    using assms(2) by (metis map_of_eq_None_iff not_Some_eq image_eqI fst_conv set_rev)
  moreover from this have "(x, b) \<in> set (entradas_de nombre cat)" using map_of_SomeD by fastforce
  with assms have "a = b" by (auto simp: coherente_cat_def list_all_iff)
  ultimately show ?thesis by (simp add: indice_como_updates map_of_updates)
qed

subsection \<open>A code goes to the CRM and comes back\<close>

text \<open>The fields that both directions translate with the same catalog.\<close>

definition campos_gemelos :: "(string \<times> string \<times> string) list" where
  "campos_gemelos =
     [(''sexo'', ''sc_genero__c'', ''genero''), (''tipo_id_CF'', ''SC_id_type__c'', ''tipo_id''),
      (''tipo_persona'', ''tipo_de_persona__c'', ''persona''), (''lgbtiq'', ''sc_LGBTIQ__c'', ''lgbtiq''),
      (''canal_cod'', ''canal__c'', ''canal''), (''insta_recepcion'', ''Instancia_de_recepcion__c'', ''instancia_recepcion''),
      (''tipo_fraude'', ''tipo_fraude__c'', ''tipo_fraude''), (''modalidad_fraude'', ''modalidad_fraude__c'', ''modalidad_fraude''),
      (''punto_recepcion'', ''punto_recepcion'', ''punto_recepcion''), (''macro_motivo_cod'', ''Categorias_COL__c'', ''macro_motivo''),
      (''rectificacion_queja'', ''Rectificacion__c'', ''rectificacion'')]"

definition sin_caso_especial :: "string \<Rightarrow> bool" where
  "sin_caso_especial k = list_all (\<lambda>x. k \<noteq> x) [''codigo_pais__c'', ''Tutela__c'', ''Quejas_express__c'', ''sinRespuestaFinal__c'', ''Product__c'']"

lemma especial_None: "sin_caso_especial k \<Longrightarrow> traducir_valor_especial_a_sfc py_str mp k v = None"
  by (simp add: sin_caso_especial_def traducir_valor_especial_a_sfc_def)

lemma gemelos_tabla:
  "list_all (\<lambda>(a, b, n). map_of key_to_cat_crm a = Some n \<and> map_of sf_to_cat b = Some n \<and> a \<noteq> ''codigo_pais''
     \<and> sin_caso_especial b) campos_gemelos"
  by code_simp

lemma gemelos:
  assumes "(sfc_key, sf_key, nombre) \<in> set campos_gemelos"
  shows "map_of key_to_cat_crm sfc_key = Some nombre" "map_of sf_to_cat sf_key = Some nombre" "sfc_key \<noteq> ''codigo_pais''"
    "traducir_valor_especial_a_sfc py_str mp sf_key v = None"
  using gemelos_tabla assms especial_None unfolding list_all_iff by fastforce+

text \<open>
  C24. Round trip of the catalogs. In a mapper whose catalog is coherent (no text or code of its index stands
  for two codes), a code that the SFC sends is shown to the CRM by its label, and that label goes back to
  the SFC as the same code, for every field that both directions translate with that catalog.
\<close>

theorem codigo_va_y_vuelve:
  assumes "(sfc_key, sf_key, nombre) \<in> set campos_gemelos"
    and "cat_de mp ''producto'' \<noteq> []" "map_of (CATALOGOS mp) nombre = Some cat" "coherente_cat nombre cat"
    and "map_of cat k = Some v" "strip k = k" "k \<noteq> []"
  shows "translate_value_to_crm py_str (construir_indices_inversos mp) sfc_key (JStr k) = JStr v
    \<and> translate_value_to_sfc py_str trunca (construir_indices_inversos mp) sf_key (JStr v) = Inr (valor_codigo k)"
proof -
  let ?mp = "construir_indices_inversos mp"
  note g = gemelos [OF assms(1)]
  have cat: "cat_de ?mp nombre = cat" using assms(2,3) by (simp add: cat_de_def construir_indices_inversos_def)
  have "translate_value_to_crm py_str ?mp sfc_key (JStr k) = JStr v"
    using g assms(5-7) cat
    by (simp add: translate_value_to_crm_def str_de_def traducir_via_catalogo_crm_def Let_def)
  moreover have "(normalize_text v, valor_codigo k) \<in> set (entradas_de nombre cat)"
    using map_of_SomeD [OF assms(5)] by (force simp: entradas_de_def)
  then have "map_of (inv_de ?mp nombre) (normalize_text v) = Some (valor_codigo k)"
    using indice_coherente [OF assms(4)] inv_de_construido [OF assms(2,3)] by simp
  then have "translate_value_to_sfc py_str trunca ?mp sf_key (JStr v) = Inr (valor_codigo k)"
    using g by (simp add: translate_value_to_sfc_def str_de_def traducir_via_catalogo_sfc_def lookup_or_fail_def Let_def)
  ultimately show ?thesis ..
qed

text \<open>Part of the packaged catalogs.\<close>

definition tipo_id_ej :: catalogo where
  "tipo_id_ej = [(''1'', ''CC''), (''2'', ''CE''), (''3'', ''RUT''), (''4'', ''DNI''), (''5'', ''PASS''),
     (''6'', ''Carn'' @ con_tilde CHR ''e'' @ '' diplom'' @ con_tilde CHR ''a'' @ ''tico''),
     (''7'', ''Sociedad extranjera sin NIT''), (''8'', ''PEP''), (''9'', ''NUIP''), (''10'', ''PPT'')]"

definition mapeador_vacio :: mapeador where
  "mapeador_vacio = \<lparr>CATALOGOS = [], INVERSE_CATALOGS = [], MAPPING_M1 = [], MAPPING_M4 = [], DEPT_DIVIPOLA_INV = [],
     MUNI_DIVIPOLA_INV = [], DEPT_DIVIPOLA = [], MUNI_DIVIPOLA = [], ULTIMA_ACTUALIZACION = 0, ULTIMO_EXITO_TIMESTAMP = 0\<rparr>"

definition mapeador_ej :: mapeador where
  "mapeador_ej = mapeador_vacio\<lparr>CATALOGOS := [(''tipo_id'', tipo_id_ej), (''producto'', [(''207_1'', ''Wallet'')])]\<rparr>"

lemma tipo_id_coherente: "coherente_cat ''tipo_id'' tipo_id_ej"
  by code_simp

lemma codigo_va_y_vuelve_testigo:
  "translate_value_to_sfc (\<lambda>j. []) (\<lambda>s. None) (construir_indices_inversos mapeador_ej) ''SC_id_type__c''
     (translate_value_to_crm (\<lambda>j. []) (construir_indices_inversos mapeador_ej) ''tipo_id_CF'' (JStr ''6'')) = Inr (JInt 6)"
proof -
  have "map_of tipo_id_ej ''6'' = Some (''Carn'' @ con_tilde CHR ''e'' @ '' diplom'' @ con_tilde CHR ''a'' @ ''tico'')"
    by (simp add: tipo_id_ej_def)
  moreover have "strip ''6'' = ''6''" "valor_codigo ''6'' = JInt 6" by code_simp+
  ultimately show ?thesis
    using codigo_va_y_vuelve [of "''tipo_id_CF''" "''SC_id_type__c''" "''tipo_id''" mapeador_ej tipo_id_ej "''6''" _
        "\<lambda>j. []" "\<lambda>s. None"] tipo_id_coherente
    by (simp add: campos_gemelos_def mapeador_ej_def cat_de_def mapeador_vacio_def)
qed

subsection \<open>Where the trip fails\<close>

definition divipola_ej :: "catalogo \<times> catalogo" where
  "divipola_ej = ([(''05'', ''Antioquia''), (''15'', ''Boyac'' @ con_tilde CHR ''a'')],
                  [(''05129'', ''Caldas''), (''15131'', ''Caldas'')])"

text \<open>DIVIPOLA has 67 municipality names that two or more departments share; the inverse index keeps the last
one, whatever the department of the case: a complaint of Caldas, Antioquia, goes to the SFC as Caldas,
Boyaca, with the department of Antioquia.\<close>

lemma municipio_homonimo_cambia_de_departamento:
  "let mp = cargar_divipola (Some divipola_ej) False mapeador_vacio;
       e = EDict [(''Departamento__c'', translate_value_to_crm (\<lambda>j. []) mp ''departamento_cod'' (JStr ''05'')),
                  (''SC_municipio__c'', translate_value_to_crm (\<lambda>j. []) mp ''municipio_cod'' (JStr ''05129''))]
   in translate_value_to_sfc (\<lambda>j. []) (\<lambda>s. None) mp ''Departamento__c'' (get_sf_field_value e ''Departamento__c'') = Inr (JStr ''05'')
    \<and> translate_value_to_sfc (\<lambda>j. []) (\<lambda>s. None) mp ''SC_municipio__c'' (get_sf_field_value e ''SC_municipio__c'') = Inr (JStr ''15131'')"
  by code_simp

text \<open>Two codes with one label, as 30 and 213 of the packaged catalog of reasons: the label gives the last one.\<close>

lemma motivo_duplicado_cambia_de_codigo:
  "map_of (inverso_de [(''30'', v), (''213'', v)]) (normalize_text v) = Some (JInt 213)"
  by (simp add: inverso_de_def update_conv valor_codigo_def isdigit_def es_digito_def)

text \<open>The identity numbers that the schema of the CRM accepts may have letters (passports); the mapper sends
only their digits, so different documents arrive as the same number and one without digits as none.\<close>

lemma documento_con_letras_pierde_letras:
  "translate_value_to_sfc p t mp ''id_number__c'' (JStr ''AV123456'') = Inr (JStr ''123456'')"
  "translate_value_to_sfc p t mp ''id_number__c'' (JStr ''BX123456'') = Inr (JStr ''123456'')"
  "translate_value_to_sfc p t mp ''id_number__c'' (JStr ''ABC'') = Inr (JStr [])"
  by (simp_all add: translate_value_to_sfc_def traducir_valor_especial_a_sfc_def str_de_def traducir_via_catalogo_sfc_def
      sf_to_cat_def sf_to_cat_soft_def solo_telefono_doc_def es_digito_def)

text \<open>A first name of blanks reaches the CRM as the word None.\<close>

lemma nombre_en_blanco_se_llama_none:
  "map_option (\<lambda>d. obtener d ''SuppliedName'')
     (case sfc_user_payload_to_db_dict (\<lambda>j. []) mapeador_vacio
        (JObj [(''numero_id_CF'', JStr ''1''), (''nombre'', JStr '' ''), (''apellido'', JStr ''Ruiz'')]) of
        Inr d \<Rightarrow> Some d | Inl _ \<Rightarrow> None)
   = Some (JStr ''None Ruiz'')"
  by code_simp

subsection \<open>No code is invented\<close>

text \<open>The index of a field without a soft default: its catalog, or DIVIPOLA.\<close>

definition indice_estricto :: "mapeador \<Rightarrow> string \<Rightarrow> (string \<times> json) list" where
  "indice_estricto mp k =
     (case map_of sf_to_cat k of
        Some c \<Rightarrow> inv_de mp c
      | None \<Rightarrow> if k = ''Departamento__c'' then como_json (DEPT_DIVIPOLA mp)
                else if k = ''SC_municipio__c'' then como_json (MUNI_DIVIPOLA mp) else [])"

definition estricto :: "string \<Rightarrow> bool" where
  "estricto k = (sin_caso_especial k \<and> map_of sf_to_cat_soft k = None
     \<and> (map_of sf_to_cat k \<noteq> None \<or> k = ''Departamento__c'' \<or> k = ''SC_municipio__c''))"

lemma traducir_estricto:
  assumes "estricto k" "v \<noteq> JNull"
  shows "\<exists>nombre. translate_value_to_sfc py_str trunca mp k v =
    lookup_or_fail py_str (indice_estricto mp k) (normalize_text (str_de py_str v)) k v nombre"
proof (cases "map_of sf_to_cat k")
  case (Some c)
  with assms show ?thesis
    by (auto simp: estricto_def translate_value_to_sfc_def especial_None traducir_via_catalogo_sfc_def indice_estricto_def Let_def)
next
  case None
  with assms show ?thesis
    by (cases "k = ''Departamento__c''")
      (auto simp: estricto_def translate_value_to_sfc_def especial_None traducir_via_catalogo_sfc_def indice_estricto_def Let_def)
qed

lemma lookup_casos:
  "lookup_or_fail py_str m x k raw n = Inr y \<longleftrightarrow> map_of m x = Some y"
  "lookup_or_fail py_str m x k raw n = Inl ex \<Longrightarrow>
     \<exists>e. ex = SfcIntegrationException e \<and> status_code e = 400 \<and> error_type e = ''CRM_PAYLOAD_VALIDATION_ERROR'' \<and> sfc_field e = Some k"
  by (auto simp: lookup_or_fail_def split: option.splits)

lemma traducir_estricto_Inr:
  assumes "estricto k" "v \<noteq> JNull" "translate_value_to_sfc py_str trunca mp k v = Inr y"
  shows "map_of (indice_estricto mp k) (normalize_text (str_de py_str v)) = Some y"
  using traducir_estricto [OF assms(1,2), of py_str trunca mp] assms(3) by (metis lookup_casos(1))

lemma junta_campos: "junta xs = Inr d \<Longrightarrow> map_option Inr (map_of d k) = map_of xs k"
proof (induction xs arbitrary: d)
  case (Cons p xs)
  then show ?case by (cases p) (auto simp: ligar_Inr split: if_splits)
qed simp

text \<open>The regulatory codes of a new complaint: the field of the SFC, the one of the CRM, the default of an absent
value. Integer codes with a strict catalog; textual codes with a strict catalog; codes whose catalog falls back to the default also on
a value that it does not have. The product is always 207.\<close>

definition codigos_m2 :: "(string \<times> string \<times> int) list" where
  "codigos_m2 = [(''canal_cod'', ''canal__c'', 13), (''macro_motivo_cod'', ''Categorias_COL__c'', 940),
     (''tipo_id_CF'', ''SC_id_type__c'', 1), (''tipo_persona'', ''tipo_de_persona__c'', 1),
     (''insta_recepcion'', ''Instancia_de_recepcion__c'', 1), (''punto_recepcion'', ''punto_recepcion'', 1)]"

definition codigos_texto_m2 :: "(string \<times> string \<times> string) list" where
  "codigos_texto_m2 = [(''departamento_cod'', ''Departamento__c'', ''11''), (''municipio_cod'', ''SC_municipio__c'', ''11001''),
     (''codigo_pais'', ''codigo_pais__c'', ''170'')]"

definition codigos_blandos_m2 :: "(string \<times> string \<times> int) list" where
  "codigos_blandos_m2 = [(''ente_control'', ''Ente_de_control__c'', 99), (''admision'', ''admision_col__c'', 1)]"

text \<open>The catalog of each of these fields.\<close>

definition indice_codigo :: "mapeador \<Rightarrow> string \<Rightarrow> (string \<times> json) list" where
  "indice_codigo mp k =
     (if k = ''codigo_pais__c'' then inv_de mp ''codigo_pais''
      else case map_of sf_to_cat_soft k of Some c \<Rightarrow> inv_de mp c | None \<Rightarrow> indice_estricto mp k)"

lemma codigos_m2_estrictos:
  "list_all (\<lambda>(s, k, n). estricto k \<and> k \<noteq> ''codigo_pais__c'' \<and> map_of sf_to_cat_soft k = None) codigos_m2"
  "list_all (\<lambda>(s, k, c). k = ''codigo_pais__c'' \<or> estricto k \<and> map_of sf_to_cat k = None \<and> map_of sf_to_cat_soft k = None) codigos_texto_m2"
  "list_all (\<lambda>(s, k, n). sin_caso_especial k \<and> map_of sf_to_cat k = None \<and> map_of sf_to_cat_soft k \<noteq> None \<and> k \<noteq> ''codigo_pais__c'')
     codigos_blandos_m2"
  by code_simp+

lemma argumentos_entero:
  assumes "(s, k, n) \<in> set (codigos_m2 @ codigos_blandos_m2 @ [(''producto_cod'', ''Product__c'', 207)])"
  shows "map_of (argumentos_m2 py_str trunca prefix mp t e) s = Some (entero_m2 py_str trunca mp e k n)"
proof -
  have "list_all (\<lambda>(s, k, n). map_of (argumentos_m2 py_str trunca prefix mp t e) s = Some (entero_m2 py_str trunca mp e k n))
      (codigos_m2 @ codigos_blandos_m2 @ [(''producto_cod'', ''Product__c'', 207)])"
    by (simp add: codigos_m2_def codigos_blandos_m2_def argumentos_m2_def)
  from this [unfolded list_all_iff] assms show ?thesis by blast
qed

lemma argumentos_texto:
  assumes "(s, k, c) \<in> set codigos_texto_m2"
  shows "map_of (argumentos_m2 py_str trunca prefix mp t e) s = Some (texto_m2 py_str trunca mp e k c)"
proof -
  have "list_all (\<lambda>(s, k, c). map_of (argumentos_m2 py_str trunca prefix mp t e) s = Some (texto_m2 py_str trunca mp e k c))
      codigos_texto_m2"
    by (simp add: codigos_texto_m2_def argumentos_m2_def)
  from this [unfolded list_all_iff] assms show ?thesis by blast
qed

lemma payload_m2_entero:
  assumes "crm_entity_to_sfc_momento2_payload py_str trunca prefix mp t e = Inr d"
    and "(s, k, n) \<in> set (codigos_m2 @ codigos_blandos_m2 @ [(''producto_cod'', ''Product__c'', 207)])"
  shows "\<exists>y m. translate_value_to_sfc py_str trunca mp k (get_sf_field_value e k) = Inr y
        \<and> int_py trunca (o_bien y (JInt n)) = Inr m \<and> obtener d s = JInt m"
proof -
  note j = junta_campos [OF assms(1) [unfolded crm_entity_to_sfc_momento2_payload_def]]
  obtain v where "map_of d s = Some v" "entero_m2 py_str trunca mp e k n = Inr v"
    using j [of s] argumentos_entero [OF assms(2)] by (cases "map_of d s") auto
  then show ?thesis by (auto simp: entero_m2_def ligar_Inr obtener_def)
qed

lemma payload_m2_texto:
  assumes "crm_entity_to_sfc_momento2_payload py_str trunca prefix mp t e = Inr d" "(s, k, c) \<in> set codigos_texto_m2"
  shows "\<exists>y. translate_value_to_sfc py_str trunca mp k (get_sf_field_value e k) = Inr y
        \<and> obtener d s = JStr (str_de py_str (o_bien y (JStr c)))"
proof -
  note j = junta_campos [OF assms(1) [unfolded crm_entity_to_sfc_momento2_payload_def]]
  obtain v where "map_of d s = Some v" "texto_m2 py_str trunca mp e k c = Inr v"
    using j [of s] argumentos_texto [OF assms(2)] by (cases "map_of d s") auto
  then show ?thesis by (auto simp: texto_m2_def ligar_Inr obtener_def)
qed

text \<open>Where a code comes from: an absent field of the CRM, or the entry of its catalog for the normal form of the value.\<close>

definition entrada_de :: "(json \<Rightarrow> string) \<Rightarrow> mapeador \<Rightarrow> entidad \<Rightarrow> string \<Rightarrow> json option" where
  "entrada_de py_str mp e k = map_of (indice_codigo mp k) (normalize_text (str_de py_str (get_sf_field_value e k)))"

lemma traduce_nulo: "translate_value_to_sfc py_str trunca mp f JNull = Inr JNull"
  by (simp add: translate_value_to_sfc_def)

lemma como_json_texto: "map_of (como_json c) k = Some y \<Longrightarrow> \<exists>s. y = JStr s"
  by (induction c) (auto simp: como_json_def split: if_splits)

lemma entero_de_catalogo:
  assumes "(s, k, n) \<in> set codigos_m2" "get_sf_field_value e k \<noteq> JNull"
    and "translate_value_to_sfc py_str trunca mp k (get_sf_field_value e k) = Inr y"
  shows "entrada_de py_str mp e k = Some y"
proof -
  have k: "estricto k" "k \<noteq> ''codigo_pais__c''" "map_of sf_to_cat_soft k = None"
    using codigos_m2_estrictos(1) assms(1) by (auto simp: list_all_iff)
  with traducir_estricto_Inr [OF k(1) assms(2,3)] show ?thesis by (simp add: entrada_de_def indice_codigo_def)
qed

lemma texto_de_catalogo:
  assumes "(s, k, c) \<in> set codigos_texto_m2" "get_sf_field_value e k \<noteq> JNull"
    and "translate_value_to_sfc py_str trunca mp k (get_sf_field_value e k) = Inr y"
  shows "\<exists>z. entrada_de py_str mp e k = Some z \<and> y = JStr (str_de py_str z)"
proof (cases "k = ''codigo_pais__c''")
  case True
  with assms(2,3) show ?thesis
    by (auto simp: translate_value_to_sfc_def traducir_valor_especial_a_sfc_def ligar_Inr lookup_casos(1) entrada_de_def indice_codigo_def)
next
  case False
  then have k: "estricto k" "map_of sf_to_cat k = None" "map_of sf_to_cat_soft k = None"
    using codigos_m2_estrictos(2) assms(1) by (auto simp: list_all_iff)
  then have "indice_estricto mp k = como_json (DEPT_DIVIPOLA mp) \<or> indice_estricto mp k = como_json (MUNI_DIVIPOLA mp)"
    by (auto simp: estricto_def indice_estricto_def)
  moreover have "map_of (indice_estricto mp k) (normalize_text (str_de py_str (get_sf_field_value e k))) = Some y"
    using traducir_estricto_Inr [OF k(1) assms(2,3)] .
  ultimately obtain t where "y = JStr t" "entrada_de py_str mp e k = Some y"
    using False k(3) como_json_texto by (fastforce simp: entrada_de_def indice_codigo_def)
  then show ?thesis by (simp add: str_de_def)
qed

lemma blando_de_catalogo:
  assumes "(s, k, n) \<in> set codigos_blandos_m2" "get_sf_field_value e k \<noteq> JNull"
    and "translate_value_to_sfc py_str trunca mp k (get_sf_field_value e k) = Inr y"
  shows "y = (case entrada_de py_str mp e k of Some z \<Rightarrow> z | None \<Rightarrow> JNull)"
proof -
  have k: "sin_caso_especial k" "map_of sf_to_cat k = None" "map_of sf_to_cat_soft k \<noteq> None" "k \<noteq> ''codigo_pais__c''"
    using codigos_m2_estrictos(3) assms(1) by (auto simp: list_all_iff)
  with assms(2,3) show ?thesis
    by (auto simp: translate_value_to_sfc_def especial_None traducir_via_catalogo_sfc_def Let_def obtener_def entrada_de_def indice_codigo_def)
qed

text \<open>
  C25. No regulatory code is invented. If the payload of a new complaint is built, then: channel, reason, kind of document, kind of
  person, instance and point of reception, department, municipality and country are each the documented default of an absent field
  of the CRM, or the entry that the catalog (DIVIPOLA for the places) has for the normal form of the value of the CRM: a value
  with no entry refuses the payload. The controlling entity and the admission are the entry of their catalog, or the default (99 and
  1) when the field is absent or has a value that the catalog does not have: these two are not refused. The product is 207.
\<close>

theorem nunca_inventa_un_codigo:
  assumes "crm_entity_to_sfc_momento2_payload py_str trunca prefix mp t e = Inr d"
  shows "(\<forall>(s, k, n) \<in> set codigos_m2.
        get_sf_field_value e k = JNull \<and> obtener d s = JInt n
        \<or> (\<exists>y m. entrada_de py_str mp e k = Some y \<and> int_py trunca (o_bien y (JInt n)) = Inr m \<and> obtener d s = JInt m))
    \<and> (\<forall>(s, k, c) \<in> set codigos_texto_m2.
        get_sf_field_value e k = JNull \<and> obtener d s = JStr c
        \<or> (\<exists>y. entrada_de py_str mp e k = Some y
              \<and> obtener d s = JStr (str_de py_str (o_bien (JStr (str_de py_str y)) (JStr c)))))
    \<and> (\<forall>(s, k, n) \<in> set codigos_blandos_m2.
        (get_sf_field_value e k = JNull \<or> entrada_de py_str mp e k = None) \<and> obtener d s = JInt n
        \<or> (\<exists>y m. entrada_de py_str mp e k = Some y \<and> int_py trunca (o_bien y (JInt n)) = Inr m \<and> obtener d s = JInt m))
    \<and> obtener d ''producto_cod'' = JInt 207"
proof (intro conjI ballI; (clarify)?)
  fix s k n assume c: "(s, k, n) \<in> set codigos_m2" "\<not> (\<exists>y m. entrada_de py_str mp e k = Some y
      \<and> int_py trunca (o_bien y (JInt n)) = Inr m \<and> obtener d s = JInt m)"
  then show "get_sf_field_value e k = JNull \<and> obtener d s = JInt n"
    using payload_m2_entero [OF assms, of s k n] entero_de_catalogo [OF c(1)] traduce_nulo [of py_str trunca mp k]
    by (cases "get_sf_field_value e k = JNull") (auto simp: o_bien_def verdadero_def int_py_def)
next
  fix s k c assume c: "(s, k, c) \<in> set codigos_texto_m2" "\<not> (\<exists>y. entrada_de py_str mp e k = Some y
      \<and> obtener d s = JStr (str_de py_str (o_bien (JStr (str_de py_str y)) (JStr c))))"
  then show "get_sf_field_value e k = JNull \<and> obtener d s = JStr c"
    using payload_m2_texto [OF assms c(1)] texto_de_catalogo [OF c(1)] traduce_nulo [of py_str trunca mp k]
    by (cases "get_sf_field_value e k = JNull") (fastforce simp: o_bien_def verdadero_def str_de_def)+
next
  fix s k n assume c: "(s, k, n) \<in> set codigos_blandos_m2" "\<not> (\<exists>y m. entrada_de py_str mp e k = Some y
      \<and> int_py trunca (o_bien y (JInt n)) = Inr m \<and> obtener d s = JInt m)"
  obtain y m where y: "translate_value_to_sfc py_str trunca mp k (get_sf_field_value e k) = Inr y"
    "int_py trunca (o_bien y (JInt n)) = Inr m" "obtener d s = JInt m"
    using payload_m2_entero [OF assms, of s k n] c(1) by auto
  have nulo: "y = JNull \<Longrightarrow> m = n" using y(2) by (simp add: o_bien_def verdadero_def int_py_def)
  show "(get_sf_field_value e k = JNull \<or> entrada_de py_str mp e k = None) \<and> obtener d s = JInt n"
  proof (cases "get_sf_field_value e k = JNull")
    case True
    with y(1,3) nulo traduce_nulo [of py_str trunca mp k] show ?thesis by simp
  next
    case False
    from blando_de_catalogo [OF c(1) False y(1)] c(2) y(2,3) nulo show ?thesis
      by (cases "entrada_de py_str mp e k") auto
  qed
next
  obtain y m where "translate_value_to_sfc py_str trunca mp ''Product__c'' (get_sf_field_value e ''Product__c'') = Inr y"
    "int_py trunca (o_bien y (JInt 207)) = Inr m" "obtener d ''producto_cod'' = JInt m"
    using payload_m2_entero [OF assms, of "''producto_cod''" "''Product__c''" 207] by auto
  then show "obtener d ''producto_cod'' = JInt 207"
    by (auto simp: translate_value_to_sfc_def traducir_valor_especial_a_sfc_def o_bien_def verdadero_def int_py_def split: if_splits)
qed

text \<open>A complaint that came by chat, with no other code.\<close>

definition queja_ej :: entidad where
  "queja_ej = EObjeto [(''canal__c'', JStr ''Chat''), (''CreatedDate'', JStr ''ayer'')]"

definition indice_ej :: mapeador where
  "indice_ej = mapeador_vacio\<lparr>INVERSE_CATALOGS := [(''canal'', [(''chat'', JInt 5)])]\<rparr>"

definition ahora_ej :: instante where
  "ahora_ej = \<lparr>i_fecha = \<lparr>anio = 2026, mes = 8, dia = 27\<rparr>, i_hora = \<lparr>hh = 9, mi = 0, ss = 0, micro = 0\<rparr>, i_zona = None\<rparr>"

definition payload_ej :: dict where
  "payload_ej = (case crm_entity_to_sfc_momento2_payload (\<lambda>j. []) (\<lambda>s. None) ''15'' indice_ej ahora_ej queja_ej of
     Inr d \<Rightarrow> d | Inl _ \<Rightarrow> [])"

lemma payload_ej_entero:
  "crm_entity_to_sfc_momento2_payload (\<lambda>j. []) (\<lambda>s. None) ''15'' indice_ej ahora_ej queja_ej = Inr payload_ej"
proof -
  have "case crm_entity_to_sfc_momento2_payload (\<lambda>j. []) (\<lambda>s. None) ''15'' indice_ej ahora_ej queja_ej of
     Inr d \<Rightarrow> True | Inl _ \<Rightarrow> False"
    by code_simp
  then show ?thesis by (auto simp: payload_ej_def split: sum.splits)
qed

lemma queja_ej_canal: "normalize_text (str_de (\<lambda>j. []) (get_sf_field_value queja_ej ''canal__c'')) = ''chat''"
  by code_simp

lemma nunca_inventa_un_codigo_testigo:
  "obtener payload_ej ''canal_cod'' = JInt 5 \<and> obtener payload_ej ''municipio_cod'' = JStr ''11001''
     \<and> obtener payload_ej ''ente_control'' = JInt 99 \<and> obtener payload_ej ''producto_cod'' = JInt 207"
proof -
  have "get_sf_field_value queja_ej ''canal__c'' \<noteq> JNull" "get_sf_field_value queja_ej ''SC_municipio__c'' = JNull"
    "entrada_de (\<lambda>j. []) indice_ej queja_ej ''canal__c'' = Some (JInt 5)" "entrada_de (\<lambda>j. []) indice_ej queja_ej ''SC_municipio__c'' = None"
    "entrada_de (\<lambda>j. []) indice_ej queja_ej ''Ente_de_control__c'' = None"
    by code_simp+
  then show ?thesis
    using nunca_inventa_un_codigo [OF payload_ej_entero]
    by (auto simp: codigos_m2_def codigos_texto_m2_def codigos_blandos_m2_def o_bien_def verdadero_def int_py_def)
qed

end
