(* ===== verification/Momentos_Propiedades.thy ===== *)
theory Momentos_Propiedades
  imports Movimientos Adjuntos_Propiedades Planificador_Propiedades Mapeo_Propiedades
begin

text \<open>
  The integration with the real services of Momentos 2 and 3: they meet the contract of the orchestrator and of the worker, and a
  closing tells the SFC the truth about its documents.
\<close>

subsection \<open>The services meet their contract\<close>

lemma reales_refinan:
  assumes "s3_ajeno paso_cola\<^sup>*\<^sup>* (mo_s3 c)" "sfc_ajeno paso_cola\<^sup>*\<^sup>* (mo_sfc c)" "\<And>p. respeta paso_cola\<^sup>*\<^sup>* (validar p)"
  shows "servicios_refinan (servicios_reales c validar)"
proof -
  have g: "garantia paso_cola\<^sup>*\<^sup>*" ..
  note s3 = s3_mueve_redis [OF g assms(1)] and sfc = sfc_mueve_redis [OF g assms(2)]
  show ?thesis
    unfolding servicios_refinan_def servicios_reales_def ejecutar_gestion_fraude_def ejecutar_cierre_definitivo_def
      ejecutar_actualizacion_tramite_def
    by (simp add: rt_corre [OF g] mcola.momento_2 [OF s3 sfc] mcola.momento_3 [OF s3 sfc] mcola.listado [OF s3] assms(3))
qed

lemma reales_mudos:
  assumes "garantia R" "s3_ajeno R (mo_s3 c)" "sfc_ajeno R (mo_sfc c)" shows "mudos (servicios_reales c validar)"
proof -
  let ?E = "\<lambda>ev. \<not> es_llamada ev"
  have s3: "s3_mueve (solo_escribe ?E) (mo_s3 c)" by (rule s3_mueve_escribe [OF assms(1,2)]) (simp add: es_llamada_def)
  have sfc: "sfc_mueve (solo_escribe ?E) (mo_sfc c) UNIV"
    by (rule sfc_mueve_escribe [OF assms(3)]) (simp add: es_llamada_def)
  have r: "reservada (corre t)" if "escribe ?E t" for t :: "'b tarea"
    unfolding reservada_def deja_def
  proof (intro allI impI)
    fix w x w' assume "corre t w = (x, w')"
    with escribe_corre [OF that, of w] obtain l where "w_bitacora w' = w_bitacora w @ l" "list_all ?E l" by auto
    moreover from this(2) have "llamadas l = []" by (auto simp: llamadas_def list_all_iff filter_empty_conv)
    ultimately show "\<exists>t. w_bitacora w' = w_bitacora w @ t \<and> llamadas t = []" by blast
  qed
  show ?thesis
    unfolding mudos_def servicios_reales_def ejecutar_gestion_fraude_def ejecutar_cierre_definitivo_def ejecutar_actualizacion_tramite_def
    by (simp add: r mllamada.momento_2 [OF s3 sfc] mllamada.momento_3 [OF s3 sfc] mllamada.listado [OF s3])
qed

subsection \<open>What a closing tells the SFC\<close>

text \<open>\<open>con_soporte Phi S log\<close>: every update of a complaint in the log satisfies \<open>Phi\<close>, and what the log shows before it
satisfies \<open>S\<close>.\<close>

definition con_soporte :: "(string \<Rightarrow> dict \<Rightarrow> bool) \<Rightarrow> (dict \<Rightarrow> evento list \<Rightarrow> bool) \<Rightarrow> evento list \<Rightarrow> bool" where
  "con_soporte Phi S log = (\<forall>l1 u d a l2. log = l1 @ Http u [''PATCH''] d a # l2 \<longrightarrow> Phi u d \<and> S d l1)"

lemma con_soporte_nada: "list_all sin_patch l \<Longrightarrow> con_soporte Phi S l"
  by (auto simp: con_soporte_def sin_patch_def)

lemma con_soporte_mas: "con_soporte Phi S l \<Longrightarrow> list_all sin_patch l' \<Longrightarrow> con_soporte Phi S (l @ l')"
  unfolding con_soporte_def
proof (intro allI impI)
  fix l1 u d a l2
  assume l: "\<forall>l1 u d a l2. l = l1 @ Http u [''PATCH''] d a # l2 \<longrightarrow> Phi u d \<and> S d l1" and l': "list_all sin_patch l'"
    and eq: "l @ l' = l1 @ Http u [''PATCH''] d a # l2"
  from eq consider us where "l = l1 @ us" "us @ l' = Http u [''PATCH''] d a # l2" | us where "l @ us = l1" "l' = us @ Http u [''PATCH''] d a # l2"
    by (auto simp: append_eq_append_conv2)
  then show "Phi u d \<and> S d l1"
  proof cases
    case (1 us)
    with l' obtain us' where "us = Http u [''PATCH''] d a # us'" by (cases us) (auto simp: sin_patch_def)
    with 1(1) l show ?thesis by blast
  next
    case (2 us)
    with l' show ?thesis by (simp add: sin_patch_def)
  qed
qed

text \<open>A first part without updates that satisfies \<open>S\<close>, and then only updates with one body.\<close>

lemma con_soporte_parte:
  assumes "list_all sin_patch l" "S d l" "Phi u d" "\<And>m m'. S d m \<Longrightarrow> set m \<subseteq> set m' \<Longrightarrow> S d m'"
    and "list_all (\<lambda>ev. sin_patch ev \<or> (\<exists>a. ev = Http u [''PATCH''] d a)) l'"
  shows "con_soporte Phi S (l @ l')"
  unfolding con_soporte_def
proof (intro allI impI)
  fix l1 v e a l2 assume eq: "l @ l' = l1 @ Http v [''PATCH''] e a # l2"
  from eq consider us where "l = l1 @ us" "us @ l' = Http v [''PATCH''] e a # l2" | us where "l @ us = l1" "l' = us @ Http v [''PATCH''] e a # l2"
    by (auto simp: append_eq_append_conv2)
  then show "Phi v e \<and> S e l1"
  proof cases
    case (1 us)
    with assms(1) have us: "us = []" by (cases us) (auto simp: sin_patch_def)
    with 1 assms(5) have "v = u" "e = d" by (auto simp: sin_patch_def)
    with 1 us assms(2,3) show ?thesis by simp
  next
    case (2 us)
    with assms(5) have "v = u" "e = d" by (auto simp: sin_patch_def)
    with assms(4) [of l l1] 2 assms(2,3) show ?thesis by auto
  qed
qed

subsection \<open>The body of the update\<close>

lemma obtener_sin_nulos: "obtener d k = v \<Longrightarrow> v \<noteq> JNull \<Longrightarrow> obtener (sin_nulos d) k = v"
  by (induction d) (auto simp: obtener_def sin_nulos_def split: if_splits)

lemma obtener_map: "obtener (map (\<lambda>(k, v). (k, f k v)) d) k = (case map_of d k of Some v \<Rightarrow> f k v | None \<Rightarrow> JNull)"
  by (induction d) (auto simp: obtener_def)

lemma obtener_valida:
  assumes "valida_actualizacion redondea d = Inr d'" "k \<in> {''estado_cod'', ''documentacion_rta_final''}"
  shows "obtener d' k = obtener d k"
proof -
  let ?f = "\<lambda>k v. if k \<in> {''producto_digital'', ''admision''} then defecto_si_nulo 1 v
                 else if k \<in> {''tutela'', ''queja_expres'', ''desistimiento_queja''} then defecto_si_nulo 2 v
                 else if k \<in> {''monto_reclamado'', ''monto_reconocido''}
                 then (if v = JNull then JNull else case redondea v of Some n \<Rightarrow> JInt n | None \<Rightarrow> v) else v"
  have "d' = map (\<lambda>(k, v). (k, ?f k v)) d"
    using assms(1) by (simp add: valida_actualizacion_def Let_def split: if_splits)
  moreover have "obtener (map (\<lambda>(k, v). (k, ?f k v)) d) k = (case map_of d k of Some v \<Rightarrow> ?f k v | None \<Rightarrow> JNull)"
    by (rule obtener_map)
  moreover have "?f k v = v" for v using assms(2) by auto
  ultimately show ?thesis by (simp add: obtener_def split: option.split)
qed

lemma obtener_defaults:
  "k \<notin> {''tipo_fraude'', ''modalidad_fraude'', ''monto_reclamado'', ''monto_reconocido''} \<Longrightarrow> k \<notin> fst ` set sfc_defaults \<Longrightarrow>
   obtener (aplicar_defaults_finales_sfc afijo crm d) k = obtener d k"
  by (simp add: aplicar_defaults_finales_sfc_def sfc_defaults_def pon_def Let_def)

lemma payload_cierre:
  assumes "payload_final_m3 c i p afijo pdf_ok (aplicar_estado_inicial_sfc i' True raw) = Inr v"
  shows "obtener v ''estado_cod'' = JInt 4" "obtener v ''documentacion_rta_final'' = JBool pdf_ok"
proof -
  let ?d = "aplicar_estado_inicial_sfc i' True raw"
  have d: "obtener ?d ''estado_cod'' = JInt 4" "obtener ?d ''documentacion_rta_final'' = JBool False"
    by (simp_all add: aplicar_estado_inicial_sfc_def pon_def Let_def)
  show "obtener v ''estado_cod'' = JInt 4" "obtener v ''documentacion_rta_final'' = JBool pdf_ok"
    using assms d
    by (auto simp: payload_final_m3_def Let_def ligar_def obtener_defaults sfc_defaults_def pon_def obtener_valida
        intro!: obtener_sin_nulos split: sum.splits if_splits)
qed

subsection \<open>The closing\<close>

lemma garantia_marcar: "garantia (sin_marcar k)" ..

lemma buenos_ajenos:
  "s3_bueno k c \<Longrightarrow> s3_ajeno (sin_marcar k) c" "http_bueno k cl \<Longrightarrow> sfc_ajeno (sin_marcar k) cl"
  by (auto simp: s3_bueno_def quieta_def s3_ajeno_def ajena_def http_bueno_def sfc_ajeno_def)

text \<open>The upload of the document adds its note to the log, and does not touch the checkpoint.\<close>

lemma subida_avanza:
  assumes "s3_ajeno (sin_marcar k) c" "entorno (sin_marcar k) w"
    and "corre (tintenta (subir_bytes_archivo c key t u) (\<lambda>e. tdevuelve [])) w = (r, w')"
  shows "entorno (sin_marcar k) w' \<and> (\<exists>l. w_bitacora w' = w_bitacora w @ l) \<and> archivos_de (w_redis w') k \<subseteq> archivos_de (w_redis w) k"
proof -
  let ?m = "corre (tintenta (subir_bytes_archivo c key t u) (\<lambda>e. tdevuelve []))"
  have "mueve (mueve_redis (sin_marcar k)) (tintenta (subir_bytes_archivo c key t u) (\<lambda>e. tdevuelve []))"
    unfolding subir_bytes_archivo_def Let_def
    using s3_mueve_redis [OF garantia_marcar assms(1)] by (auto simp: s3_mueve_def intro!: mueve_reglas split: boto.split)
  from respetaD [OF rt_corre [OF garantia_marcar this] assms(2)] assms(3)
  have "sin_marcar k (w_redis w) (w_redis w')" "entorno (sin_marcar k) w'" by simp_all
  moreover have "escribe (\<lambda>ev. True) (tintenta (subir_bytes_archivo c key t u) (\<lambda>e. tdevuelve []))"
    unfolding subir_bytes_archivo_def Let_def
    using s3_mueve_escribe [OF garantia_marcar assms(1)] by (auto simp: s3_mueve_def intro!: mueve_reglas split: boto.split)
  ultimately show ?thesis using escribe_corre [of "\<lambda>ev. True" _ w] assms(3) by (fastforce simp: sin_marcar_def)
qed

lemma luego_Inr: "luego m f w = (Inr y, w') \<Longrightarrow> \<exists>x w1. m w = (Inr x, w1) \<and> f x w1 = (Inr y, w')"
  by (auto simp: luego_def split: prod.splits sum.splits)

lemma luego_casos:
  "luego m f w = (r, w') \<Longrightarrow> (\<exists>e. m w = (Inl e, w') \<and> r = Inl e) \<or> (\<exists>x w1. m w = (Inr x, w1) \<and> f x w1 = (r, w'))"
  by (auto simp: luego_def split: prod.splits sum.splits)

text \<open>The document of the final answer, once it is sent.\<close>

lemma pdf_entregado:
  assumes buenos: "s3_bueno k (mo_s3 c)" "http_bueno k (mo_sfc c)" and k: "k = get_checkpoint_key codigo" and w: "entorno (sin_marcar k) w"
    and run: "corre (generar_y_enviar_pdf_respuesta_final c caso codigo cuerpo cliente) w = (Inr u, w')"
  shows "\<exists>contenido. job_parsing_y_renderizado c caso cuerpo cliente = Inr contenido
    \<and> avance k (prueba_de (mo_s3 c) (mo_sfc c) (envio_de codigo [] [] False caso) [adjunto_pdf caso contenido]) (length (w_bitacora w)) w w'
    \<and> (\<forall>f. identificador_archivo (s3_sha (mo_s3 c)) (objeto_de (adjunto_pdf caso contenido)) = Some f \<longrightarrow>
         f \<in> archivos_de (w_redis w) k
         \<or> en_la_sfc (mo_sfc c) (envio_de codigo [] [] False caso) (objeto_de (adjunto_pdf caso contenido)) (nuevos (length (w_bitacora w)) w'))"
proof -
  let ?sube = "\<lambda>t. corre (tintenta (subir_bytes_archivo (mo_s3 c) (clave_pdf caso) t ''application/pdf'') (\<lambda>e. tdevuelve []))"
  let ?lote = "\<lambda>t. transferir_lote_s3_a_sfc (mo_s3 c) (mo_sfc c) (mo_turnos c 0) codigo [adjunto_pdf caso t] [] [] False caso"
  from run obtain t w1 xs where t: "job_parsing_y_renderizado c caso cuerpo cliente = Inr t"
      and 1: "\<exists>x. ?sube t w = (Inr x, w1)" and 2: "corre (?lote t) w1 = (Inr xs, w')"
    unfolding generar_y_enviar_pdf_respuesta_final_def corre_luego by (fastforce dest!: luego_Inr simp: de_resultado_def devuelve_def)
  obtain l where w1: "entorno (sin_marcar k) w1" "w_bitacora w1 = w_bitacora w @ l" "archivos_de (w_redis w1) k \<subseteq> archivos_de (w_redis w) k"
    using 1 subida_avanza [OF buenos_ajenos(1) [OF buenos(1)] w] by blast
  have mas: "set (nuevos (length (w_bitacora w1)) w') \<subseteq> set (nuevos (length (w_bitacora w)) w')"
    using w1(2) unfolding nuevos_def by (intro set_drop_subset_set_drop) simp
  note L = lote_avanza [OF buenos k w1(1) 2]
  let ?P = "prueba_de (mo_s3 c) (mo_sfc c) (envio_de codigo [] [] False caso) [adjunto_pdf caso t]"
  have "avance k ?P (length (w_bitacora w)) w w'"
    using L w1 w mas creciente_prueba [unfolded creciente_def, rule_format, OF _ mas] unfolding avance_def by fastforce
  then show ?thesis
    using L w1(3) t en_la_sfc_mas [OF _ mas] by (intro exI [of _ t]) fastforce
qed

text \<open>The documents of a closing, and that one of them is at the SFC: in the checkpoint from before, or received.\<close>

definition soportes :: "cfg_momentos \<Rightarrow> dict \<Rightarrow> json list \<Rightarrow> bool" where
  "soportes c p t =
     (if texto_en p ''cuerpo_respuesta_final'' = [] then t = archivos_s3 p
      else \<exists>contenido.
        job_parsing_y_renderizado c (caso_s3_de p) (texto_en p ''cuerpo_respuesta_final'') (str_de (mo_py_str c) (obtener p ''SuppliedName'')) = Inr contenido
        \<and> t = adjunto_pdf (caso_s3_de p) contenido # archivos_s3 p)"

definition en_poder_de_la_sfc :: "cfg_momentos \<Rightarrow> dict \<Rightarrow> mundo \<Rightarrow> json list \<Rightarrow> evento list \<Rightarrow> bool" where
  "en_poder_de_la_sfc c p w t log =
     (\<forall>j \<in> set t. \<forall>f. identificador_archivo (s3_sha (mo_s3 c)) (objeto_de j) = Some f \<longrightarrow>
        f \<in> archivos_de (w_redis w) (get_checkpoint_key (smart_code_de p))
        \<or> prueba_de (mo_s3 c) (mo_sfc c) (envio_de (smart_code_de p) [] [] False (caso_s3_de p)) t f log)"

lemma en_poder_mas:
  "en_poder_de_la_sfc c p w t l \<Longrightarrow> set l \<subseteq> set l' \<Longrightarrow> en_poder_de_la_sfc c p w t l'"
  using creciente_prueba [of "mo_s3 c" "mo_sfc c" "envio_de (smart_code_de p) [] [] False (caso_s3_de p)" t]
  unfolding en_poder_de_la_sfc_def creciente_def by blast

lemma en_la_sfc_afijo: "en_la_sfc cl (envio_de codigo [] afijo False caso) item log = en_la_sfc cl (envio_de codigo [] [] False caso) item log"
  by (simp add: en_la_sfc_def resolver_nombre_final_envio_def envio_de_def)

lemma prueba_mas_items: "prueba_de c cl x t f l \<Longrightarrow> set t \<subseteq> set t' \<Longrightarrow> prueba_de c cl x t' f l"
  by (auto simp: prueba_de_def)

lemma sin_patch_cliente:
  assumes "http_bueno k cl" shows "sfc_mueve (solo_escribe sin_patch) cl {p. detalle_de p \<noteq> [''PATCH'']}"
  by (rule sfc_mueve_escribe [OF buenos_ajenos(2) [OF assms]]) (simp add: sin_patch_def)

text \<open>The documents before the update: what both transfers leave in the log.\<close>

lemma antes_del_cierre:
  assumes buenos: "s3_bueno k (mo_s3 c)" "http_bueno k (mo_sfc c)" and k: "k = get_checkpoint_key (smart_code_de p)"
    and w: "entorno (sin_marcar k) w"
    and pdf: "corre (if texto_en p ''cuerpo_respuesta_final'' \<noteq> []
        then generar_y_enviar_pdf_respuesta_final c (caso_s3_de p) (smart_code_de p) (texto_en p ''cuerpo_respuesta_final'')
               (str_de (mo_py_str c) (obtener p ''SuppliedName''))
        else tdevuelve ()) w = (Inr u, w1)"
    and lote: "corre (transferir_lote_s3_a_sfc (mo_s3 c) (mo_sfc c) turnos (smart_code_de p) (archivos_s3 p) [] afijo False (caso_s3_de p)) w1
        = (Inr xs, w2)"
  shows "\<exists>t l. soportes c p t \<and> w_bitacora w2 = w_bitacora w @ l \<and> en_poder_de_la_sfc c p w t l"
proof -
  let ?n = "length (w_bitacora w)" and ?x = "envio_de (smart_code_de p) [] [] False (caso_s3_de p)"
  let ?id = "\<lambda>j. identificador_archivo (s3_sha (mo_s3 c)) (objeto_de j)" and ?P = "prueba_de (mo_s3 c) (mo_sfc c) ?x"
  obtain t0 where t0: "soportes c p (t0 @ archivos_s3 p)" "avance k (?P t0) ?n w w1"
      "\<And>j f. j \<in> set t0 \<Longrightarrow> ?id j = Some f \<Longrightarrow> f \<in> archivos_de (w_redis w) k \<or> en_la_sfc (mo_sfc c) ?x (objeto_de j) (nuevos ?n w1)"
  proof (cases "texto_en p ''cuerpo_respuesta_final'' = []")
    case True
    with pdf have "w1 = w" by (simp add: devuelve_def)
    then show thesis using that [of "[]"] True reflpD [OF avance_refl] by (simp add: soportes_def)
  next
    case False
    with pdf pdf_entregado [OF buenos k w, of "caso_s3_de p" "texto_en p ''cuerpo_respuesta_final''" _ u w1] obtain contenido where
      "job_parsing_y_renderizado c (caso_s3_de p) (texto_en p ''cuerpo_respuesta_final'') (str_de (mo_py_str c) (obtener p ''SuppliedName'')) = Inr contenido"
      "avance k (?P [adjunto_pdf (caso_s3_de p) contenido]) ?n w w1"
      "\<forall>f. ?id (adjunto_pdf (caso_s3_de p) contenido) = Some f \<longrightarrow> f \<in> archivos_de (w_redis w) k
         \<or> en_la_sfc (mo_sfc c) ?x (objeto_de (adjunto_pdf (caso_s3_de p) contenido)) (nuevos ?n w1)" by auto
    then show thesis using that [of "[adjunto_pdf (caso_s3_de p) contenido]"] False by (simp add: soportes_def)
  qed
  have w1: "entorno (sin_marcar k) w1" using t0(2) w by (simp add: avance_def)
  note L = lote_avanza [OF buenos k w1 lote]
  obtain l1 l2 where l: "w_bitacora w1 = w_bitacora w @ l1" "w_bitacora w2 = w_bitacora w1 @ l2"
    using t0(2) L by (auto simp: avance_def)
  have nu: "nuevos ?n w1 = l1" "nuevos (length (w_bitacora w1)) w2 = l2" using l by (simp_all add: nuevos_def)
  have previo: "f \<in> archivos_de (w_redis w) k \<or> ?P t0 f l1" if "f \<in> archivos_de (w_redis w1) k" for f
    using t0(2) w that nu(1) unfolding avance_def by auto
  have uno: "en_la_sfc (mo_sfc c) ?x (objeto_de j) (l1 @ l2)" if "en_la_sfc (mo_sfc c) ?x (objeto_de j) l1 \<or> en_la_sfc (mo_sfc c) ?x (objeto_de j) l2" for j
    using that by (auto intro: en_la_sfc_mas)
  have "f \<in> archivos_de (w_redis w) k \<or> ?P (t0 @ archivos_s3 p) f (l1 @ l2)" if j: "j \<in> set (t0 @ archivos_s3 p)" "?id j = Some f" for j f
  proof (cases "j \<in> set t0")
    case True
    with t0(3) [OF True j(2)] nu(1) uno [of j] j show ?thesis by (auto simp: prueba_de_def)
  next
    case False
    then have "j \<in> set (archivos_s3 p)" using j(1) by simp
    with conjunct2 [OF L, unfolded nu(2) en_la_sfc_afijo [of _ _ afijo]] j(2)
    have "f \<in> archivos_de (w_redis w1) k \<or> en_la_sfc (mo_sfc c) ?x (objeto_de j) l2" by blast
    then show ?thesis
    proof
      assume "f \<in> archivos_de (w_redis w1) k"
      from previo [OF this] show ?thesis using uno by (auto simp: prueba_de_def)
    next
      assume "en_la_sfc (mo_sfc c) ?x (objeto_de j) l2"
      with uno [of j] j show ?thesis by (auto simp: prueba_de_def)
    qed
  qed
  with t0(1) l show ?thesis
    unfolding en_poder_de_la_sfc_def k [symmetric] by (intro exI [of _ "t0 @ archivos_s3 p"] exI [of _ "l1 @ l2"]) simp
qed

definition cierre_honesto :: "cfg_momentos \<Rightarrow> dict \<Rightarrow> string \<Rightarrow> dict \<Rightarrow> bool" where
  "cierre_honesto c p u d =
     (u = sf_base (mo_sfc c) @ ep_queja @ smart_code_de p @ ''/'' \<and> obtener d ''estado_cod'' = JInt 4
      \<and> obtener d ''documentacion_rta_final'' = JBool (texto_en p ''cuerpo_respuesta_final'' \<noteq> []))"

definition cierre_documentado :: "cfg_momentos \<Rightarrow> dict \<Rightarrow> mundo \<Rightarrow> evento list \<Rightarrow> bool" where
  "cierre_documentado c p w log = (\<exists>t. soportes c p t \<and> en_poder_de_la_sfc c p w t log)"

lemma escribe_sin_patch:
  assumes "escribe sin_patch t" "corre t w = (r, w')" shows "\<exists>l. w_bitacora w' = w_bitacora w @ l \<and> list_all sin_patch l"
  using escribe_corre [OF assms(1), of w] assms(2) by simp

lemma corre_de_resultado: "corre (de_resultado x) = (\<lambda>w. (x, w))"
  by (simp add: de_resultado_def)

lemma cuerpo_cierre:
  assumes buenos: "s3_bueno k (mo_s3 c)" "http_bueno k (mo_sfc c)" and k: "k = get_checkpoint_key (smart_code_de p)"
    and w: "entorno (sin_marcar k) w"
    and run: "corre (cuerpo_momento_3 c p afijo True False (aplicar_estado_inicial_sfc i True raw)) w = (r, w')"
  shows "\<exists>log. w_bitacora w' = w_bitacora w @ log \<and> con_soporte (cierre_honesto c p) (\<lambda>d. cierre_documentado c p w) log"
proof -
  let ?A = "{p. detalle_de p \<noteq> [''PATCH'']}" and ?cuerpo = "texto_en p ''cuerpo_respuesta_final''"
  let ?pdf = "if ?cuerpo \<noteq> []
        then generar_y_enviar_pdf_respuesta_final c (caso_s3_de p) (smart_code_de p) ?cuerpo (str_de (mo_py_str c) (obtener p ''SuppliedName''))
        else tdevuelve ()"
  let ?lote = "transferir_lote_s3_a_sfc (mo_s3 c) (mo_sfc c) (mo_turnos c 1) (smart_code_de p) (archivos_s3 p) [] afijo False (caso_s3_de p)"
  let ?payload = "\<lambda>t. payload_final_m3 c (mo_ahora c t) p afijo (?cuerpo \<noteq> []) (aplicar_estado_inicial_sfc i True raw)"
  let ?put = "put_actualizar_queja (mo_sfc c) (smart_code_de p)"
  let ?C = "\<lambda>log. con_soporte (cierre_honesto c p) (\<lambda>d. cierre_documentado c p w) log"
  have s3: "s3_mueve (solo_escribe sin_patch) (mo_s3 c)"
    by (rule s3_mueve_escribe [OF garantia_marcar buenos_ajenos(1) [OF buenos(1)]]) (simp add: sin_patch_def)
  note sfc = sin_patch_cliente [OF buenos(2)]
  have E: "escribe sin_patch ?pdf" "escribe sin_patch ?lote"
    by (auto intro!: mueve_basicas mpatch.pdf [OF s3 sfc] mpatch.lote [OF s3 sfc] simp: detalle_de_def)
  have eq: "corre (cuerpo_momento_3 c p afijo True False (aplicar_estado_inicial_sfc i True raw)) =
      luego (corre ?pdf) (\<lambda>_. luego (corre ?lote) (\<lambda>_. luego ahora (\<lambda>t. luego (\<lambda>w. (?payload t, w)) (\<lambda>d. corre (?put d)))))"
    unfolding cuerpo_momento_3_def Let_def simp_thms corre_luego corre_basicas corre_de_resultado ..
  obtain r1 w1 where 1: "corre ?pdf w = (r1, w1)" by fastforce
  obtain l1 where l1: "w_bitacora w1 = w_bitacora w @ l1" "list_all sin_patch l1" using escribe_sin_patch [OF E(1) 1] by blast
  show ?thesis
  proof (cases r1)
    case (Inl e)
    with run 1 have "w' = w1" by (simp add: eq luego_def)
    with l1 con_soporte_nada show ?thesis by blast
  next
    case (Inr u)
    obtain r2 w2 where 2: "corre ?lote w1 = (r2, w2)" by fastforce
    obtain l2 where l2: "w_bitacora w2 = w_bitacora w1 @ l2" "list_all sin_patch l2" using escribe_sin_patch [OF E(2) 2] by blast
    have nada: "?C (l1 @ l2)" using l1(2) l2(2) by (intro con_soporte_nada) simp
    have fin: ?thesis if "w' = w2" using that l1(1) l2(1) nada by (intro exI [of _ "l1 @ l2"]) simp
    show ?thesis
    proof (cases r2)
      case (Inl e)
      with run 1 Inr 2 have "w' = w2" by (simp add: eq luego_def)
      with fin show ?thesis .
    next
      case (Inr xs)
      let ?t = "reloj (w_redis w2)"
      show ?thesis
      proof (cases "?payload ?t")
        case (Inl e)
        with run 1 2 Inr \<open>r1 = Inr u\<close> have "w' = w2" by (simp add: eq luego_def ahora_def)
        with fin show ?thesis .
      next
        case (Inr d)
        with run 1 2 \<open>r1 = Inr u\<close> \<open>r2 = Inr xs\<close> have put: "corre (?put d) w2 = (r, w')" by (simp add: eq luego_def ahora_def)
        let ?u = "sf_base (mo_sfc c) @ ep_queja @ smart_code_de p @ ''/''"
        let ?E = "\<lambda>ev. sin_patch ev \<or> (\<exists>a. ev = Http ?u [''PATCH''] d a)"
        have mE: "movimiento (solo_escribe ?E)" by (rule movimiento_escribe) (simp_all add: sin_patch_def)
        have "sfc_mueve (solo_escribe ?E) (mo_sfc c) {Patch ?u d}"
          by (rule sfc_mueve_escribe [OF buenos_ajenos(2) [OF buenos(2)]]) (simp add: url_de_def detalle_de_def cuerpo_de_def)
        then have "escribe ?E (?put d)"
          unfolding put_actualizar_queja_def by (auto intro: movimiento.regulada [OF mE] movimiento.llamada [OF mE])
        from escribe_corre [OF this, of w2] put obtain l3 where l3: "w_bitacora w' = w_bitacora w2 @ l3" "list_all ?E l3" by auto
        from antes_del_cierre [OF buenos k w 1 [unfolded \<open>r1 = Inr u\<close>] 2 [unfolded \<open>r2 = Inr xs\<close>]]
        have doc: "cierre_documentado c p w (l1 @ l2)" using l1(1) l2(1) by (auto simp: cierre_documentado_def)
        have "?C ((l1 @ l2) @ l3)"
        proof (rule con_soporte_parte [where S = "\<lambda>d. cierre_documentado c p w", OF _ doc])
          show "list_all sin_patch (l1 @ l2)" using l1(2) l2(2) by simp
          show "cierre_honesto c p ?u d" using payload_cierre [OF Inr] by (simp add: cierre_honesto_def)
          show "cierre_documentado c p w m'" if "cierre_documentado c p w m" "set m \<subseteq> set m'" for m m'
            using that en_poder_mas unfolding cierre_documentado_def by blast
          show "list_all ?E l3" by (rule l3(2))
        qed
        with l1(1) l2(1) l3(1) show ?thesis by (intro exI [of _ "(l1 @ l2) @ l3"]) simp
      qed
    qed
  qed
qed

text \<open>C29. A closing tells the SFC the truth about its documents. Whatever S3, the SFC and the CRM do, in every interleaving of the
transfers and with any failure of Redis, every update that a closing sends is for its own case, says state 4, and says that the final
answer is documented exactly when there is a text to answer with; and before it, every document of the closing with an identity (the
PDF of the answer and the attachments) was in the checkpoint of the case or had been received by the SFC.\<close>

theorem el_cierre_lleva_sus_soportes:
  assumes "s3_bueno k (mo_s3 c)" "http_bueno k (mo_sfc c)" "k = get_checkpoint_key (smart_code_de p)" "entorno (sin_marcar k) w"
    and "corre (ejecutar_cierre_definitivo c p) w = (r, w')"
  shows "\<exists>log. w_bitacora w' = w_bitacora w @ log
    \<and> (\<forall>antes u d a despues. log = antes @ Http u [''PATCH''] d a # despues \<longrightarrow>
         cierre_honesto c p u d \<and> cierre_documentado c p w antes)"
proof -
  let ?C = "con_soporte (cierre_honesto c p) (\<lambda>d. cierre_documentado c p w)"
  obtain raw where raw: "crm_entity_to_sfc_payload (mo_py_str c) (mo_trunca c) (mo_redondea c) (mo_prefijo c) (mo_mapeador c)
       (mo_ahora c (reloj (w_redis w))) (EDict p) 3 = Inr raw \<or> w' = w"
    using assms(5) by (cases "crm_entity_to_sfc_payload (mo_py_str c) (mo_trunca c) (mo_redondea c) (mo_prefijo c) (mo_mapeador c)
       (mo_ahora c (reloj (w_redis w))) (EDict p) 3")
      (auto simp: ejecutar_cierre_definitivo_def orquestar_pipeline_momento_3_def mapea_def Let_def luego_def ahora_def de_resultado_def)
  have "\<exists>log. w_bitacora w' = w_bitacora w @ log \<and> ?C log"
  proof (cases "w' = w")
    case True
    then show ?thesis by (intro exI [of _ "[]"]) (simp add: con_soporte_nada)
  next
    case False
    let ?i = "mo_ahora c (reloj (w_redis w))"
    let ?cuerpo = "cuerpo_momento_3 c p afijo_respuesta True False (aplicar_estado_inicial_sfc ?i True raw)"
    obtain r1 w1 where 1: "corre ?cuerpo w = (r1, w1)" by fastforce
    obtain l1 where l1: "w_bitacora w1 = w_bitacora w @ l1" "?C l1" using cuerpo_cierre [OF assms(1-4) 1] by blast
    define resto where "resto = (case r1 of
        Inr _ \<Rightarrow> tluego (emitir_metrica_m3 ''cierre'' (archivos_s3 p \<noteq> []) ''success'' ''N/A'') (\<lambda>_. tdevuelve (actualizado (smart_code_de p) True))
      | Inl e \<Rightarrow> tlanza e)"
    define final where "final = tintenta resto (\<lambda>e. tluego (case e of SfcIntegrationException x \<Rightarrow> avisa_si_desconocido x | _ \<Rightarrow> tdevuelve ()) (\<lambda>_.
        tluego (emitir_metrica_m3 ''cierre'' (archivos_s3 p \<noteq> []) ''error'' (categoria_m3 e)) (\<lambda>_. tlanza e)))"
    have run: "corre final w1 = (r, w')"
      using assms(5) raw False 1
      by (cases r1)
        (auto simp: final_def resto_def ejecutar_cierre_definitivo_def orquestar_pipeline_momento_3_def mapea_def Let_def luego_def ahora_def
          de_resultado_def intenta_def determinar_sub_operacion_def lanza_def split: prod.splits sum.splits)
    have "escribe sin_patch final"
      unfolding final_def resto_def
      by (auto intro!: mueve_reglas mpatch.metrica_m3 mpatch.aviso split: sum.split excepcion.split)
    from escribe_sin_patch [OF this run] obtain l2 where "w_bitacora w' = w_bitacora w1 @ l2" "list_all sin_patch l2" by blast
    with l1 con_soporte_mas show ?thesis by (intro exI [of _ "l1 @ l2"]) auto
  qed
  then show ?thesis unfolding con_soporte_def .
qed

text \<open>A closing with one attachment.\<close>

definition mo_ej :: cfg_momentos where
  "mo_ej =
     \<lparr>mo_s3 = s3_ej, mo_sfc = sfc_ej, mo_py_str = (\<lambda>j. []), mo_trunca = (\<lambda>s. None), mo_redondea = (\<lambda>j. None), mo_prefijo = ''15'',
      mo_mapeador = mapeador_vacio\<lparr>INVERSE_CATALOGS := [(''favorabilidad'', [(''entidad'', JInt 2)]), (''aceptacion'', [(''no'', JInt 2)])]\<rparr>,
      mo_ahora = (\<lambda>t. ahora_ej), mo_texto = (\<lambda>s. s), mo_pdf = (\<lambda>n k t. Inr (''%PDF-'' @ t)), mo_turnos = (\<lambda>n. [])\<rparr>"

definition caso_ej :: dict where
  "caso_ej =
     [(''Smart_Code__c'', JStr ''Q''), (''Case_id'', JStr ''C''), (''Status'', JStr ''Closed''), (''Favorabilidad__c'', JStr ''entidad''),
      (''Aceptacion__c'', JStr ''no''), (''cuerpo_respuesta_final'', JStr ''hola''), (''archivos_s3'', JArr [hd par_ej])]"

definition corrida_ej :: "dict resultado \<times> mundo" where
  "corrida_ej = corre (ejecutar_cierre_definitivo mo_ej caso_ej) lote_ej"

definition mapeada_ej :: dict where
  "mapeada_ej =
     [(''codigo_queja'', JStr ''15Q''), (''sexo'', JNull), (''lgbtiq'', JNull), (''condicion_especial'', JNull), (''canal_cod'', JInt 13),
      (''producto_cod'', JInt 207), (''macro_motivo_cod'', JInt 940), (''estado_cod'', JInt 4),
      (''fecha_actualizacion'', JStr ''2026-08-27T09:00:00''), (''producto_digital'', JInt 1), (''admision'', JInt 1),
      (''desistimiento_queja'', JInt 2), (''anexo_queja'', JBool False), (''tutela'', JInt 2), (''ente_control'', JNull),
      (''queja_expres'', JInt 2), (''a_favor_de'', JInt 2), (''aceptacion_queja'', JInt 2), (''rectificacion_queja'', JNull),
      (''prorroga_queja'', JNull), (''documentacion_rta_final'', JBool False), (''fecha_cierre'', JNull), (''marcacion'', JNull),
      (''tipo_fraude'', JNull), (''modalidad_fraude'', JNull), (''monto_reclamado'', JNull), (''monto_reconocido'', JNull)]"

lemma mapeada_ej_mapea: "mapea mo_ej t caso_ej 3 = tdevuelve mapeada_ej"
proof -
  have "crm_entity_to_sfc_payload (mo_py_str mo_ej) (mo_trunca mo_ej) (mo_redondea mo_ej) (mo_prefijo mo_ej) (mo_mapeador mo_ej)
       ahora_ej (EDict caso_ej) 3 = Inr mapeada_ej" by code_simp
  moreover have "mo_ahora mo_ej t = ahora_ej" by (simp add: mo_ej_def)
  ultimately show ?thesis by (simp add: mapea_def de_resultado_def tdevuelve_def)
qed

text \<open>The run sends one update, after both documents.\<close>

lemma cuerpo_ej:
  "case corre (cuerpo_momento_3 mo_ej caso_ej afijo_respuesta True False (aplicar_estado_inicial_sfc ahora_ej True mapeada_ej)) lote_ej of
     (r, w) \<Rightarrow> (\<exists>x. r = Inr x) \<and> list_ex (\<lambda>ev. \<not> sin_patch ev) (w_bitacora w)"
proof -
  have "case corre (cuerpo_momento_3 mo_ej caso_ej afijo_respuesta True False (aplicar_estado_inicial_sfc ahora_ej True mapeada_ej)) lote_ej of
     (r, w) \<Rightarrow> \<not> isl r \<and> list_ex (\<lambda>ev. \<not> sin_patch ev) (w_bitacora w)" by code_simp
  then show ?thesis by (auto split: prod.splits) (metis sum.collapse(2))
qed

lemma corrida_ej_actualiza: "list_ex (\<lambda>ev. \<not> sin_patch ev) (w_bitacora (snd corrida_ej))"
proof -
  let ?d = "aplicar_estado_inicial_sfc ahora_ej True mapeada_ej"
  obtain x w where 1: "corre (cuerpo_momento_3 mo_ej caso_ej afijo_respuesta True False ?d) lote_ej = (Inr x, w)"
      "list_ex (\<lambda>ev. \<not> sin_patch ev) (w_bitacora w)"
    using cuerpo_ej by (auto split: prod.splits)
  have "mo_ahora mo_ej t = ahora_ej" for t by (simp add: mo_ej_def)
  moreover have "archivos_s3 caso_ej = [hd par_ej]" by code_simp
  ultimately have "w_bitacora (snd corrida_ej) = w_bitacora w
      @ [Metrica ''m3_count'' [''success'', ''N/A'', ''cierre''], Metrica ''m3_count'' [''success'', ''N/A'', ''adjunto'']]"
    using 1(1) by (simp add: corrida_ej_def ejecutar_cierre_definitivo_def orquestar_pipeline_momento_3_def mapeada_ej_mapea luego_def ahora_def
      devuelve_def Let_def determinar_sub_operacion_def intenta_def emitir_metrica_m3_def emite_def)
  with 1(2) show ?thesis by simp
qed

lemma el_cierre_lleva_sus_soportes_testigo:
  "\<exists>log. w_bitacora (snd corrida_ej) = w_bitacora lote_ej @ log \<and> list_ex (\<lambda>ev. \<not> sin_patch ev) log
     \<and> (\<forall>previo u d a despues. log = previo @ Http u [''PATCH''] d a # despues \<longrightarrow>
          cierre_honesto mo_ej caso_ej u d \<and> cierre_documentado mo_ej caso_ej lote_ej previo)"
proof -
  have "mo_s3 mo_ej = s3_ej" "mo_sfc mo_ej = sfc_ej" by (simp_all add: mo_ej_def)
  with el_cierre_lleva_sus_soportes [of "get_checkpoint_key (smart_code_de caso_ej)" mo_ej caso_ej lote_ej "fst corrida_ej" "snd corrida_ej"]
  obtain log where "w_bitacora (snd corrida_ej) = w_bitacora lote_ej @ log"
    "\<forall>previo u d a despues. log = previo @ Http u [''PATCH''] d a # despues \<longrightarrow>
          cierre_honesto mo_ej caso_ej u d \<and> cierre_documentado mo_ej caso_ej lote_ej previo"
    using ejemplos_buenos unfolding corrida_ej_def by auto
  moreover have "w_bitacora lote_ej = []" by (simp add: lote_ej_def)
  ultimately show ?thesis using corrida_ej_actualiza by (intro exI [of _ log]) simp
qed

subsection \<open>The contract\<close>

text \<open>C30. The real services meet what the orchestrator, the route and the worker rest on. With any S3 and any HTTP library that
keep the legal steps of the queue and write nothing in the log, the services of Momentos 2 and 3 (with the SFC client, its retries,
the concurrent attachments and their checkpoint) move the database only by legal steps of the queue machine, in every interleaving
and with every failure of Redis, and show no call of a service in the log but the one that the orchestrator makes.\<close>

theorem los_servicios_reales_cumplen:
  assumes "s3_ajeno paso_cola\<^sup>*\<^sup>* (mo_s3 c)" "sfc_ajeno paso_cola\<^sup>*\<^sup>* (mo_sfc c)" "\<And>p. respeta paso_cola\<^sup>*\<^sup>* (validar p)"
  shows "servicios_refinan (servicios_reales c validar) \<and> mudos (servicios_reales c validar)"
proof -
  have "garantia paso_cola\<^sup>*\<^sup>*" ..
  with assms reales_refinan reales_mudos show ?thesis by blast
qed

lemma los_servicios_reales_cumplen_testigo:
  "servicios_refinan (servicios_reales mo_ej devuelve) \<and> mudos (servicios_reales mo_ej devuelve)"
  by (rule los_servicios_reales_cumplen)
    (auto simp: s3_ajeno_def sfc_ajeno_def ajena_def mo_ej_def s3_ej_def sfc_ej_def intro: gcola.devuelve calladas)

subsection \<open>The route with the real services\<close>

text \<open>S3 and the HTTP library leave Redis in peace: with nobody interfering and Redis answering before the call, so it is after.\<close>

definition s3_pacifico :: "cfg_s3 \<Rightarrow> bool" where
  "s3_pacifico c =
     (\<forall>b key. pacifica (s3_head c b key) \<and> pacifica (s3_baja c b key) \<and> pacifica (s3_objeto c b key) \<and> pacifica (s3_paginas c b key)
        \<and> (\<forall>t u. pacifica (s3_pone c b key t u)) \<and> pacifica (s3_url c key))"

definition sfc_pacifico :: "cfg_sfc \<Rightarrow> bool" where
  "sfc_pacifico cl = (\<forall>p. pacifica (sf_http cl p))"

definition en_calma_sigue :: "mundo \<Rightarrow> mundo \<Rightarrow> bool" where
  "en_calma_sigue w w' = (en_paz w \<longrightarrow> en_paz w')"

lemma sigue_paso_pacifico: "pacifica m \<Longrightarrow> mueve en_calma_sigue (paso m)"
  by (rule mueve_paso) (simp add: pacifica_def en_calma_sigue_def)

interpretation mpaz: movimiento en_calma_sigue
proof unfold_locales
  show "mueve en_calma_sigue (paso (obtener_archivos_completados codigo))" for codigo
    unfolding obtener_archivos_completados_def by (auto intro!: sigue_paso_pacifico pacificas)
  show "mueve en_calma_sigue (paso (procesar_y_lanzar cargar pstr mz st body :: json accion))" for cargar pstr mz st body
    unfolding procesar_y_lanzar_def by (auto intro!: sigue_paso_pacifico pacificas split: prod.split)
qed (intro sigue_paso_pacifico pacificas)+

lemma pacifica_corre: "mueve en_calma_sigue t \<Longrightarrow> pacifica (corre t)"
  using mueve_corre [of en_calma_sigue t] by (auto simp: pacifica_def en_calma_sigue_def reflp_def transp_def)

lemma reales_pacificos:
  assumes "s3_pacifico (mo_s3 c)" "sfc_pacifico (mo_sfc c)"
  shows "servicios_pacificos (servicios_reales c validar)"
proof -
  have d: "pacifica (descargar (mo_s3 c) k)" for k
    using assms(1) unfolding descargar_def s3_pacifico_def by (auto intro!: pacificas split: boto.split option.split)
  have s3: "s3_mueve en_calma_sigue (mo_s3 c)"
    using assms(1) d unfolding s3_mueve_def s3_pacifico_def con_subida_def by (auto intro!: sigue_paso_pacifico pacificas)
  have sfc: "sfc_mueve en_calma_sigue (mo_sfc c) UNIV"
    using assms(2) unfolding sfc_mueve_def sfc_pacifico_def con_registro_def
    by (auto intro!: sigue_paso_pacifico pacificas split: sum.split)
  show ?thesis
    unfolding servicios_pacificos_def servicios_reales_def ejecutar_gestion_fraude_def ejecutar_cierre_definitivo_def
      ejecutar_actualizacion_tramite_def
    by (simp add: pacifica_corre mpaz.momento_2 [OF s3 sfc] mpaz.momento_3 [OF s3 sfc] mpaz.listado [OF s3])
qed

text \<open>
  C9. A finished request leaves nothing that would answer a retry wrongly. Take the dispatch route with the real services of
  Momentos 2 and 3, at a moment when no other process interferes and every Redis command is answered (the SFC and S3 may answer
  anything or fail, and do not touch Redis). A request that passed the gate ends with exactly one of: a 200 with the COMPLETED
  record of its own answer, a 202 with the QUEUED record of its item, or another answer or exception with no record, so that the
  retry starts afresh; and if it had the lock of the case, the lock is no longer its own.
\<close>

theorem la_peticion_cierra_sus_puertas:
  assumes "s3_pacifico (mo_s3 m)" "sfc_pacifico (mo_sfc m)" "w_turnos w = []" "w_cliente w"
    and "verificar_o_iniciar_operacion sha (smart_code_de d) d True w = (Inr None, w0)"
    and "acquire (despacho_lock (smart_code_de d) token) w0 = (Inr (ok, c), w1)"
    and "despachar_queja_crm sha cfg (servicios_reales m validar) cid token d w = (x, w')"
  shows "(\<forall>resp. x = Inr resp \<longrightarrow> registro_debido sha d resp (w_redis w'))
    \<and> (\<forall>e. x = Inl e \<longrightarrow> tget (reloj (w_redis w')) (r_idem (w_redis w')) (clave sha (smart_code_de d) d) = None)
    \<and> (ok \<longrightarrow> dueno_lock (w_redis w') (despacho_lock_key (smart_code_de d)) \<noteq> Some token)"
  using peticion_en_paz_cierra [OF reales_pacificos [OF assms(1,2)] _ assms(5-7)] assms(3,4) by (simp add: en_paz_def)

lemma la_peticion_cierra_sus_puertas_testigo:
  "dueno_lock (w_redis (snd (despachar_queja_crm (\<lambda>s. ''h'') ajustes_por_defecto (servicios_reales mo_ej devuelve) ''c'' ''tok''
     p_tramite_ej (mundo_ej redis_vacio [])))) (despacho_lock_key (smart_code_de p_tramite_ej)) \<noteq> Some ''tok''"
proof -
  obtain c where c: "fst candado_ej = Inr (True, c)"
    using ruta_ok_datos(2) by (cases "fst candado_ej") auto
  have 1: "verificar_o_iniciar_operacion (\<lambda>s. ''h'') (smart_code_de p_tramite_ej) p_tramite_ej True (mundo_ej redis_vacio [])
      = (Inr None, snd entrada_ej)"
    using ruta_ok_datos(1) by (simp add: prod_eq_iff flip: entrada_ej_def)
  have 2: "acquire (despacho_lock (smart_code_de p_tramite_ej) ''tok'') (snd entrada_ej) = (Inr (True, c), snd candado_ej)"
    using c by (simp add: prod_eq_iff flip: candado_ej_def)
  have 3: "s3_pacifico (mo_s3 mo_ej)" "sfc_pacifico (mo_sfc mo_ej)"
    by (auto simp: s3_pacifico_def sfc_pacifico_def mo_ej_def s3_ej_def sfc_ej_def intro: pacificas)
  show ?thesis
    using la_peticion_cierra_sus_puertas [OF 3 _ _ 1 2 prod.collapse [symmetric]] by (simp add: mundo_ej_def)
qed

end
