(* ===== verification/Esquema_Crm.thy ===== *)
theory Esquema_Crm
  imports Esquema_Textos
begin

text \<open>
  The input schema of a complaint, \<^verbatim>\<open>Momento2QuejaCrmInput\<close> and its subclass \<^verbatim>\<open>QuejaUnificadaCrmInput\<close>
  (\<^verbatim>\<open>app/schemas/crm_payloads.py\<close>). The class body is a table of fields; Pydantic runs, for each field in
  order, the \<^verbatim>\<open>before\<close> validator, the check of the type and of the limits, and the \<^verbatim>\<open>after\<close> validators; a field
  that is absent takes its default, which is not validated; all the errors of the fields and of the unknown
  keys are reported together; then the two model validators run, the one of the base class first. The
  validated complaint is the dictionary that \<^verbatim>\<open>model_dump(mode="json")\<close> gives: every field, in order. Messages
  keep the words that name the rule.
\<close>

subsection \<open>Environment\<close>

text \<open>Today and now in Bogota, the prefix of the entity, the mapper with its packaged resources, and the
iteration order of a Python set.\<close>

record entorno_crm =
  en_hoy :: fecha
  en_ahora :: string
  en_prefijo :: string
  en_mapa :: mapeador
  en_catalogos :: "(string \<times> catalogo) list option"
  en_divipola :: "(catalogo \<times> catalogo) option"
  en_orden :: "string list \<Rightarrow> string list"

definition permitidos :: "entorno_crm \<Rightarrow> string \<Rightarrow> string list" where
  "permitidos en k = en_orden en (snd (get_crm_allowed_values (en_catalogos en) (en_divipola en) (en_mapa en) k))"

text \<open>Pydantic's own conversions of values that are not yet of the declared type (\<open>pc_fecha\<close>: of a date that is
not a text), and the sign test of a float.\<close>

record pydantic =
  pc_bool :: "json \<Rightarrow> bool option"
  pc_float :: "json \<Rightarrow> string option"
  pc_int :: "json \<Rightarrow> int option"
  pc_fecha :: "json \<Rightarrow> fecha option"
  pc_no_negativo :: "string \<Rightarrow> bool"

type_synonym errores = "(string list \<times> string) list"

definition error_de :: "string \<Rightarrow> errores + 'a" where
  "error_de m = Inl [([], m)]"

definition utc :: "string \<Rightarrow> string" where
  "utc t = reemplaza CHR ''Z'' ''+00:00'' t"

subsection \<open>Validators that run before the type check\<close>

datatype previo =
  Sanitizar | NormalizarArchivos | CompletarFecha | LimpiarId | LimpiarIdentificador | LimpiarCierre | FechaCierre

definition normalizar_archivos_s3 :: "json \<Rightarrow> errores + json" where
  "normalizar_archivos_s3 v =
     (case v of
        JNull \<Rightarrow> Inr (JArr [])
      | JObj d \<Rightarrow>
          if d = [] then Inr (JArr [])
          else if map_of d ''s3_key'' \<noteq> None \<or> map_of d ''nombre_archivo'' \<noteq> None then Inr (JArr [v])
          else error_de ''Value error, archivos_s3: objeto con forma no reconocida''
      | _ \<Rightarrow> Inr v)"

definition auto_completar_fecha_creacion :: "entorno_crm \<Rightarrow> json \<Rightarrow> errores + json" where
  "auto_completar_fecha_creacion en v =
     (case v of
        JStr t \<Rightarrow>
          if strip t = [] then Inr (JStr (en_ahora en))
          else (case fromisoformat (utc t) of
                  Some _ \<Rightarrow> Inr v | None \<Rightarrow> error_de ''Value error, CreatedDate debe cumplir con un formato ISO 8601'')
      | _ \<Rightarrow> if verdadero v then Inr v else Inr (JStr (en_ahora en)))"

definition limpiar_id :: "json \<Rightarrow> errores + json" where
  "limpiar_id v =
     (case v of
        JStr t \<Rightarrow> (let cleaned = filter es_alfanum t
                   in if cleaned = [] then error_de ''Value error, id_number__c sin caracteres alfanum'' else Inr (JStr cleaned))
      | _ \<Rightarrow> Inr v)"

definition limpiar_espacios_y_caracteres :: "json \<Rightarrow> errores + json" where
  "limpiar_espacios_y_caracteres v =
     (case v of
        JStr t \<Rightarrow> (let cleaned = strip t
                   in if cleaned = [] then Inr JNull
                      else if list_all de_identificador cleaned then Inr (JStr cleaned)
                      else error_de ''Value error, identificador con caracteres no permitidos'')
      | _ \<Rightarrow> Inr v)"

definition limpiar_y_strip_cierre :: "json \<Rightarrow> json" where
  "limpiar_y_strip_cierre v =
     (case v of JStr t \<Rightarrow> (if strip t = [] then JNull else JStr (strip t)) | _ \<Rightarrow> v)"

definition normalizar_closed_date :: "json \<Rightarrow> errores + json" where
  "normalizar_closed_date v =
     (case v of
        JStr t \<Rightarrow>
          (let limpia = strip t;
               como_fecha = (case date_fromisoformat limpia of
                  Some f \<Rightarrow> Inr (JStr (fecha_texto f)) | None \<Rightarrow> error_de ''Value error, ClosedDate: fecha no v'')
           in if limpia = [] then Inr JNull
              else if CHR ''T'' \<in> set limpia then
                (case fromisoformat (utc limpia) of Some i \<Rightarrow> Inr (JStr (fecha_texto (i_fecha i))) | None \<Rightarrow> como_fecha)
              else como_fecha)
      | _ \<Rightarrow> Inr v)"

fun aplica_previo :: "entorno_crm \<Rightarrow> previo \<Rightarrow> json \<Rightarrow> errores + json" where
  "aplica_previo en Sanitizar v = Inr (case v of JStr t \<Rightarrow> JStr (sanitiza t) | _ \<Rightarrow> v)"
| "aplica_previo en NormalizarArchivos v = normalizar_archivos_s3 v"
| "aplica_previo en CompletarFecha v = auto_completar_fecha_creacion en v"
| "aplica_previo en LimpiarId v = limpiar_id v"
| "aplica_previo en LimpiarIdentificador v = limpiar_espacios_y_caracteres v"
| "aplica_previo en LimpiarCierre v = Inr (limpiar_y_strip_cierre v)"
| "aplica_previo en FechaCierre v = normalizar_closed_date v"

subsection \<open>Types and limits\<close>

datatype clase = CStr | CBool | CFloat | CInt | CFecha | CArchivos

definition texto_acotado :: "nat \<Rightarrow> nat \<Rightarrow> json \<Rightarrow> errores + json" where
  "texto_acotado minimo maximo v =
     (case v of
        JStr t \<Rightarrow> if caracteres t < minimo then error_de ''String is too short''
                  else if maximo < caracteres t then error_de ''String is too long'' else Inr v
      | _ \<Rightarrow> error_de ''Input should be a valid string'')"

text \<open>\<^verbatim>\<open>ArchivoS3Schema\<close>\<close>

definition campos_archivo :: "(string \<times> nat \<times> nat) list" where
  "campos_archivo = [(''nombre_archivo'', 1, 255), (''s3_key'', 1, 1024), (''bucket'', 0, 63)]"

definition errores_archivo :: "json \<Rightarrow> errores" where
  "errores_archivo v =
     (case v of
        JObj d \<Rightarrow>
          concat (map (\<lambda>(k, lo, hi).
            case map_of d k of None \<Rightarrow> [([k], ''Field required'')]
            | Some x \<Rightarrow> (case texto_acotado lo hi x of Inl es \<Rightarrow> map (\<lambda>(l, m). (k # l, m)) es | Inr _ \<Rightarrow> [])) campos_archivo)
          @ map (\<lambda>(k, _). ([k], ''Extra inputs are not permitted''))
              (filter (\<lambda>(k, _). k \<notin> set (map fst campos_archivo)) d)
      | _ \<Rightarrow> [([], ''Input should be a valid dictionary'')])"

definition volcado_archivo :: "json \<Rightarrow> json" where
  "volcado_archivo v = (case v of JObj d \<Rightarrow> JObj (map (\<lambda>(k, _). (k, obtener d k)) campos_archivo) | _ \<Rightarrow> v)"

definition valida_archivos :: "nat \<Rightarrow> json \<Rightarrow> errores + json" where
  "valida_archivos maximo v =
     (case v of
        JArr xs \<Rightarrow>
          if maximo < length xs then error_de ''List is too long''
          else (let es = concat (map (\<lambda>(i, x). map (\<lambda>(l, m). (str_nat i # l, m)) (errores_archivo x)) (enumerate 0 xs))
                in if es = [] then Inr (JArr (map volcado_archivo xs)) else Inl es)
      | _ \<Rightarrow> error_de ''Input should be a valid list'')"

definition convierte :: "string \<Rightarrow> 'a option \<Rightarrow> ('a \<Rightarrow> json) \<Rightarrow> errores + json" where
  "convierte m x f = (case x of None \<Rightarrow> error_de m | Some y \<Rightarrow> Inr (f y))"

definition nucleo :: "pydantic \<Rightarrow> clase \<Rightarrow> bool \<Rightarrow> nat option \<Rightarrow> json \<Rightarrow> errores + json" where
  "nucleo pc cl opcional maximo v =
     (if v = JNull \<and> opcional then Inr JNull
      else case cl of
        CStr \<Rightarrow> (case maximo of
                   Some n \<Rightarrow> texto_acotado 0 n v
                 | None \<Rightarrow> (case v of JStr _ \<Rightarrow> Inr v | _ \<Rightarrow> error_de ''Input should be a valid string''))
      | CBool \<Rightarrow> convierte ''Input should be a valid boolean'' (pc_bool pc v) JBool
      | CFloat \<Rightarrow> (case pc_float pc v of
                     None \<Rightarrow> error_de ''Input should be a valid number''
                   | Some t \<Rightarrow> if pc_no_negativo pc t then Inr (JFloat t)
                               else error_de ''Input should be greater than or equal to 0'')
      | CInt \<Rightarrow> (case pc_int pc v of
                   None \<Rightarrow> error_de ''Input should be a valid integer''
                 | Some i \<Rightarrow> if 0 \<le> i \<and> i \<le> 9 then Inr (JInt i) else error_de ''Input should be between 0 and 9'')
      | CFecha \<Rightarrow> (case v of
                     JStr t \<Rightarrow> convierte ''Input should be a valid date'' (date_fromisoformat t) (\<lambda>f. JStr (fecha_texto f))
                   | _ \<Rightarrow> convierte ''Input should be a valid date'' (pc_fecha pc v) (\<lambda>f. JStr (fecha_texto f)))
      | CArchivos \<Rightarrow> valida_archivos 50 v)"

subsection \<open>Validators that run after the type check\<close>

datatype posterior =
  RangoCreacion | FormatoIso | DireccionValida | NombreNoVacio | FormatoEmail
  | PicklistSiNo | Picklist string | PicklistTipoId | PicklistCierre string

text \<open>Both rules on \<^verbatim>\<open>CreatedDate\<close>: not older than thirty days, not after today.\<close>

definition validar_rango_30_dias_created_date :: "entorno_crm \<Rightarrow> json \<Rightarrow> errores + json" where
  "validar_rango_30_dias_created_date en v =
     (case v of
        JStr t \<Rightarrow>
          if strip t = [] then Inr v
          else (case fromisoformat (utc t) of
                  None \<Rightarrow> Inr v
                | Some i \<Rightarrow>
                    if toordinal (i_fecha i) + 30 < toordinal (en_hoy en)
                    then error_de ''Value error, CreatedDate no puede ser anterior a 30 d''
                    else if antes (en_hoy en) (i_fecha i)
                    then error_de ''Value error, CreatedDate no puede ser posterior a la fecha actual''
                    else Inr v)
      | _ \<Rightarrow> Inr v)"

definition validar_formato_iso_fecha :: "json \<Rightarrow> errores + json" where
  "validar_formato_iso_fecha v =
     (case v of
        JStr t \<Rightarrow> if strip t \<noteq> [] \<and> fromisoformat (utc t) = None
                  then error_de ''Value error, CreatedDate debe cumplir con un formato ISO 8601'' else Inr v
      | _ \<Rightarrow> Inr v)"

definition direccion_no_registrada :: string where
  "direccion_no_registrada = ''Direcci'' @ con_tilde CHR ''o'' @ ''n no registrada''"

definition asegurar_direccion_valida :: "json \<Rightarrow> json" where
  "asegurar_direccion_valida v =
     (case v of JStr t \<Rightarrow> JStr (if strip t = [] then direccion_no_registrada else strip t) | _ \<Rightarrow> v)"

definition validar_nombre_no_vacio :: "json \<Rightarrow> errores + json" where
  "validar_nombre_no_vacio v =
     (case v of
        JStr t \<Rightarrow> if strip t = [] then error_de ''Value error, SuppliedName no puede estar vac'' else Inr (JStr (strip t))
      | _ \<Rightarrow> Inr v)"

text \<open>\<^verbatim>\<open>^[a-zA-Z0-9._%+-]+@[a-zA-Z0-9.-]+\.[a-zA-Z]{2,}$\<close>: the last dot separates the top-level domain.\<close>

definition es_letra :: "char \<Rightarrow> bool" where
  "es_letra c = (es_alfanum c \<and> \<not> es_digito c)"

definition email_valido :: "string \<Rightarrow> bool" where
  "email_valido s =
     (let parte_local = takeWhile (\<lambda>c. c \<noteq> CHR ''@'') s;
          dominio = drop (length parte_local + 1) s;
          tld = rev (takeWhile (\<lambda>c. c \<noteq> CHR ''.'') (rev dominio));
          antes_del_punto = take (length dominio - (length tld + 1)) dominio
      in CHR ''@'' \<in> set s \<and> CHR ''.'' \<in> set dominio
       \<and> parte_local \<noteq> [] \<and> list_all (\<lambda>c. es_alfanum c \<or> c \<in> set ''._%+-'') parte_local
       \<and> antes_del_punto \<noteq> [] \<and> list_all (\<lambda>c. es_alfanum c \<or> c \<in> set ''.-'') antes_del_punto
       \<and> 2 \<le> length tld \<and> list_all es_letra tld)"

definition validar_formato_email :: "json \<Rightarrow> errores + json" where
  "validar_formato_email v =
     (case v of
        JStr t \<Rightarrow> if strip t = [] then Inr v
                  else if email_valido (strip t) then Inr (JStr (strip t))
                  else error_de ''Value error, SuppliedEmail no tiene un formato''
      | _ \<Rightarrow> Inr v)"

text \<open>The label itself, or the one with the same normal form (the last of them).\<close>

definition etiqueta_canonica :: "string list \<Rightarrow> string \<Rightarrow> string option" where
  "etiqueta_canonica allowed t =
     (if t \<in> set allowed then Some t
      else map_of (rev (map (\<lambda>a. (normalize_text a, a)) allowed)) (normalize_text t))"

definition contra_catalogo :: "string list \<Rightarrow> string \<Rightarrow> errores + json" where
  "contra_catalogo allowed t =
     (case etiqueta_canonica allowed t of
        Some a \<Rightarrow> Inr (JStr a) | None \<Rightarrow> error_de ''Value error, valor no soportado por el cat'')"

definition si_no :: "string \<Rightarrow> errores + json" where
  "si_no t =
     (if lower t \<in> {''si'', ''s'' @ con_tilde CHR ''i'', ''true'', ''1''} then Inr (JStr ''Si'')
      else if lower t \<in> {''no'', ''false'', ''0'', ''2''} then Inr (JStr ''No'')
      else error_de ''Value error, Valores permitidos: Si, No'')"

text \<open>\<^verbatim>\<open>validar_picklist_contra_mapper\<close>: absent and blank values pass as they are.\<close>

definition picklist :: "(string \<Rightarrow> errores + json) \<Rightarrow> json \<Rightarrow> errores + json" where
  "picklist f v = (case v of JStr t \<Rightarrow> if strip t = [] then Inr v else f (strip t) | _ \<Rightarrow> Inr v)"

definition validar_picklist_cierre :: "entorno_crm \<Rightarrow> string \<Rightarrow> json \<Rightarrow> errores + json" where
  "validar_picklist_cierre en cat v =
     (case v of
        JStr t \<Rightarrow> if t = [] \<or> permitidos en cat = [] then Inr v else contra_catalogo (permitidos en cat) t
      | _ \<Rightarrow> Inr v)"

fun aplica_posterior :: "entorno_crm \<Rightarrow> posterior \<Rightarrow> json \<Rightarrow> errores + json" where
  "aplica_posterior en RangoCreacion v = validar_rango_30_dias_created_date en v"
| "aplica_posterior en FormatoIso v = validar_formato_iso_fecha v"
| "aplica_posterior en DireccionValida v = Inr (asegurar_direccion_valida v)"
| "aplica_posterior en NombreNoVacio v = validar_nombre_no_vacio v"
| "aplica_posterior en FormatoEmail v = validar_formato_email v"
| "aplica_posterior en PicklistSiNo v = picklist si_no v"
| "aplica_posterior en (Picklist cat) v = picklist (contra_catalogo (permitidos en cat)) v"
| "aplica_posterior en PicklistTipoId v =
     picklist (\<lambda>t. if lower t \<in> {''nit'', ''n.i.t.''} then Inr (JStr ''RUT'')
                    else contra_catalogo (permitidos en ''tipo_id'') t) v"
| "aplica_posterior en (PicklistCierre cat) v = validar_picklist_cierre en cat v"

subsection \<open>The fields\<close>

record campo_crm =
  cc_nombre :: string
  cc_clase :: clase
  cc_opcional :: bool
  cc_defecto :: "json option"
  cc_max :: "nat option"
  cc_previo :: "previo option"
  cc_posterior :: "posterior list"

text \<open>An \<^verbatim>\<open>Optional\<close> field with default None, and a required text.\<close>

definition opcional :: "string \<Rightarrow> clase \<Rightarrow> nat option \<Rightarrow> previo option \<Rightarrow> posterior list \<Rightarrow> campo_crm" where
  "opcional n cl mx pr po =
     \<lparr>cc_nombre = n, cc_clase = cl, cc_opcional = True, cc_defecto = Some JNull, cc_max = mx, cc_previo = pr, cc_posterior = po\<rparr>"

definition requerido :: "string \<Rightarrow> nat option \<Rightarrow> previo option \<Rightarrow> posterior list \<Rightarrow> campo_crm" where
  "requerido n mx pr po =
     \<lparr>cc_nombre = n, cc_clase = CStr, cc_opcional = False, cc_defecto = None, cc_max = mx, cc_previo = pr, cc_posterior = po\<rparr>"

definition con_defecto :: "json \<Rightarrow> campo_crm \<Rightarrow> campo_crm" where
  "con_defecto v c = c\<lparr>cc_defecto := Some v\<rparr>"

text \<open>\<^verbatim>\<open>cuerpo_respuesta_final\<close> without a value.\<close>

definition cuerpo_por_defecto :: string where
  "cuerpo_por_defecto = ''Hola:'' @ [char_of (10::nat)] @ ''Te escribimos desde el equipo de Experiencia al Cliente.''
     @ [char_of (10::nat)] @ ''Para nosotros es un placer haberte atendido.''"

definition campos_momento2 :: "campo_crm list" where
  "campos_momento2 =
     [opcional ''Case_id'' CStr (Some 30) (Some LimpiarIdentificador) [],
      opcional ''Smart_Code__c'' CStr (Some 30) (Some LimpiarIdentificador) [],
      opcional ''CreatedDate'' CStr None (Some CompletarFecha) [RangoCreacion, FormatoIso],
      opcional ''Status'' CStr None (Some LimpiarCierre) [],
      requerido ''SuppliedName'' (Some 100) (Some Sanitizar) [NombreNoVacio],
      requerido ''SC_id_type__c'' None None [PicklistTipoId],
      requerido ''id_number__c'' (Some 15) (Some LimpiarId) [],
      opcional ''sc_genero__c'' CStr None None [Picklist ''genero''],
      requerido ''tipo_de_persona__c'' None None [Picklist ''persona''],
      opcional ''sc_LGBTIQ__c'' CStr None None [Picklist ''lgbtiq''],
      opcional ''sc_Condicion_especial__c'' CStr None None [Picklist ''condicion_especial''],
      con_defecto (JStr ''Colombia'') (opcional ''codigo_pais__c'' CStr None None [Picklist ''codigo_pais'']),
      opcional ''SuppliedPhone'' CStr (Some 15) None [],
      opcional ''SuppliedEmail'' CStr (Some 100) None [FormatoEmail],
      requerido ''direccion__c'' None (Some Sanitizar) [DireccionValida],
      opcional ''Departamento__c'' CStr None None [],
      opcional ''SC_municipio__c'' CStr None None [],
      opcional ''canal__c'' CStr None None [Picklist ''canal''],
      requerido ''punto_recepcion'' None None [Picklist ''punto_recepcion''],
      con_defecto (JStr ''Entidad vigilada'')
        (opcional ''Instancia_de_recepcion__c'' CStr None None [Picklist ''instancia_recepcion'']),
      con_defecto (JStr ''No Aplica'') (requerido ''admision_col__c'' None None [Picklist ''admision'']),
      requerido ''Description'' (Some 4500) (Some Sanitizar) [],
      con_defecto (JBool False) (opcional ''smart_anexo_queja__c'' CBool None None []),
      con_defecto (JStr ''No'') (requerido ''Tutela__c'' None None [PicklistSiNo]),
      opcional ''Ente_de_control__c'' CStr None None [Picklist ''ente_control''],
      con_defecto (JStr ''No'') (requerido ''smart_escalamiento_DCF__c'' None None [PicklistSiNo]),
      opcional ''marcacion__c'' CStr None None [],
      requerido ''Product__c'' None None [Picklist ''producto''],
      opcional ''smart_Producto_nombre__c'' CStr (Some 100) None [],
      requerido ''Categorias_COL__c'' (Some 150) None [Picklist ''macro_motivo''],
      (requerido ''archivos_s3'' None (Some NormalizarArchivos) [])\<lparr>cc_clase := CArchivos, cc_defecto := Some (JArr [])\<rparr>,
      con_defecto (JStr ''No'') (opcional ''Quejas_express__c'' CStr None None [PicklistSiNo])]"

definition campos_unificada :: "campo_crm list" where
  "campos_unificada =
     [opcional ''producto_digital__c'' CStr None None [PicklistSiNo],
      opcional ''tipo_fraude__c'' CStr None None [],
      opcional ''modalidad_fraude__c'' CStr None None [],
      opcional ''card_amount__c'' CFloat None None [],
      opcional ''Total_Devuelto_por_Desconocimiento__c'' CFloat None None [],
      opcional ''nombre_archivo_fraude'' CStr None None [],
      opcional ''ClosedDate'' CFecha None (Some FechaCierre) [],
      opcional ''Favorabilidad__c'' CStr None (Some LimpiarCierre) [PicklistCierre ''favorabilidad''],
      opcional ''a_favor_de__c'' CStr None None [],
      opcional ''Aceptacion__c'' CStr None (Some LimpiarCierre) [PicklistCierre ''aceptacion''],
      opcional ''Rectificacion__c'' CStr None None [],
      opcional ''Prorroga__c'' CInt None None [],
      con_defecto (JStr cuerpo_por_defecto) (opcional ''cuerpo_respuesta_final'' CStr None None []),
      opcional ''directorio_s3'' CStr None None []]"

subsection \<open>One field\<close>

fun posteriores :: "entorno_crm \<Rightarrow> posterior list \<Rightarrow> json \<Rightarrow> errores + json" where
  "posteriores en [] v = Inr v"
| "posteriores en (p # ps) v = (case aplica_posterior en p v of Inl es \<Rightarrow> Inl es | Inr v' \<Rightarrow> posteriores en ps v')"

definition valida_valor :: "entorno_crm \<Rightarrow> pydantic \<Rightarrow> campo_crm \<Rightarrow> json \<Rightarrow> errores + json" where
  "valida_valor en pc c v =
     (case (case cc_previo c of None \<Rightarrow> Inr v | Some p \<Rightarrow> aplica_previo en p v) of
        Inl es \<Rightarrow> Inl es
      | Inr v1 \<Rightarrow>
          (case nucleo pc (cc_clase c) (cc_opcional c) (cc_max c) v1 of
             Inl es \<Rightarrow> Inl es
           | Inr v2 \<Rightarrow> posteriores en (cc_posterior c) v2))"

definition valida_campo :: "entorno_crm \<Rightarrow> pydantic \<Rightarrow> dict \<Rightarrow> campo_crm \<Rightarrow> errores + json" where
  "valida_campo en pc d c =
     (case map_of d (cc_nombre c) of
        None \<Rightarrow> (case cc_defecto c of None \<Rightarrow> error_de ''Field required'' | Some v \<Rightarrow> Inr v)
      | Some v \<Rightarrow> valida_valor en pc c v)"

text \<open>All the fields: the dictionary, or every error with its location.\<close>

fun valida_campos :: "entorno_crm \<Rightarrow> pydantic \<Rightarrow> dict \<Rightarrow> campo_crm list \<Rightarrow> errores \<times> dict" where
  "valida_campos en pc d [] = ([], [])"
| "valida_campos en pc d (c # cs) =
     (case valida_campos en pc d cs of (es, q) \<Rightarrow>
        case valida_campo en pc d c of
          Inl es' \<Rightarrow> (map (\<lambda>(l, m). (cc_nombre c # l, m)) es' @ es, q)
        | Inr v \<Rightarrow> (es, (cc_nombre c, v) # q))"

definition campos_desconocidos :: "campo_crm list \<Rightarrow> dict \<Rightarrow> errores" where
  "campos_desconocidos cs d =
     map (\<lambda>(k, _). ([k], ''Extra inputs are not permitted'')) (filter (\<lambda>(k, _). k \<notin> set (map cc_nombre cs)) d)"

subsection \<open>Rules over several fields\<close>

definition pon :: "string \<Rightarrow> json \<Rightarrow> dict \<Rightarrow> dict" where
  "pon k v q = map (\<lambda>(n, x). (n, if n = k then v else x)) q"

definition campo_texto :: "dict \<Rightarrow> string \<Rightarrow> string" where
  "campo_texto q k = texto_o_vacio (texto_opcional (obtener q k))"

definition prefija :: "string \<Rightarrow> string \<Rightarrow> string" where
  "prefija p t = (if empieza p t then t else p @ t)"

definition resolver_y_armar_smart_code :: "entorno_crm \<Rightarrow> dict \<Rightarrow> errores + dict" where
  "resolver_y_armar_smart_code en q =
     (let case_id = campo_texto q ''Case_id''; smart = campo_texto q ''Smart_Code__c'' in
      if case_id = [] \<and> smart = [] then error_de ''Value error, Debe incluir al menos Case_id o Smart_Code__c''
      else
        let codigo = prefija (en_prefijo en) (strip (if smart = [] then case_id else smart));
            q1 = pon ''Smart_Code__c'' (JStr codigo) q;
            q2 = (if case_id = [] then pon ''Case_id'' (JStr codigo) q1 else q1)
        in if 30 < caracteres codigo then error_de ''Value error, Smart_Code__c final con prefijo supera 30''
           else Inr q2)"

definition validar_closed_date :: "entorno_crm \<Rightarrow> dict \<Rightarrow> errores + dict" where
  "validar_closed_date en q =
     (let q1 = (if campo_texto q ''ClosedDate'' = [] then pon ''ClosedDate'' (JStr (fecha_texto (en_hoy en))) q else q) in
      case (if campo_texto q ''ClosedDate'' = [] then Some (en_hoy en) else date_fromisoformat (campo_texto q ''ClosedDate'')) of
        None \<Rightarrow> Inr q1
      | Some cierre \<Rightarrow>
          if antes (en_hoy en) cierre then error_de ''Value error, ClosedDate no puede ser posterior a la fecha actual''
          else if toordinal cierre + 30 < toordinal (en_hoy en)
          then error_de ''Value error, ClosedDate no puede ser anterior a 30 d''
          else (case fromisoformat (utc (campo_texto q ''CreatedDate'')) of
                  None \<Rightarrow> Inr q1
                | Some i \<Rightarrow>
                    if antes cierre (i_fecha i) then error_de ''Value error, ClosedDate no puede ser anterior a CreatedDate''
                    else Inr q1))"

definition cuerpo_de_cierre :: string where
  "cuerpo_de_cierre = ''Se emite respuesta formal y cierre definitivo al caso de reclamaci'' @ con_tilde CHR ''o''
     @ ''n conforme a los t'' @ con_tilde CHR ''e'' @ ''rminos de ley y pol'' @ con_tilde CHR ''i'' @ ''ticas de la entidad.''"

definition validar_reglas_cierre :: "entorno_crm \<Rightarrow> dict \<Rightarrow> errores + dict" where
  "validar_reglas_cierre en q =
     (let cerrado = lower (strip (campo_texto q ''Status'')) \<in> {''closed'', ''cerrado''};
          q1 = (if cerrado then q else pon ''Status'' (JStr ''Closed'') q)
      in if campo_texto q ''Favorabilidad__c'' = [] \<and> campo_texto q ''Aceptacion__c'' = []
         then error_de ''Value error, Cierre Definitivo: es obligatorio proveer Favorabilidad__c y Aceptacion__c''
         else if campo_texto q ''Favorabilidad__c'' = [] then error_de ''Value error, Falta el campo obligatorio Favorabilidad__c''
         else if campo_texto q ''Aceptacion__c'' = [] then error_de ''Value error, Falta el campo obligatorio Aceptacion__c''
         else case validar_closed_date en q1 of
           Inl es \<Rightarrow> Inl es
         | Inr q2 \<Rightarrow>
             Inr (if strip (campo_texto q2 ''cuerpo_respuesta_final'') = []
                  then pon ''cuerpo_respuesta_final'' (JStr cuerpo_de_cierre) q2 else q2))"

definition adjuntos_de :: "dict \<Rightarrow> json list" where
  "adjuntos_de q = (case obtener q ''archivos_s3'' of JArr xs \<Rightarrow> xs | _ \<Rightarrow> [])"

definition nombre_de_archivo :: "json \<Rightarrow> json" where
  "nombre_de_archivo a = (case a of JObj d \<Rightarrow> obtener d ''nombre_archivo'' | _ \<Rightarrow> JNull)"

definition validar_reglas_fraude :: "dict \<Rightarrow> errores + dict" where
  "validar_reglas_fraude q =
     (let archivos = adjuntos_de q;
          tiene_directorio = (strip (campo_texto q ''directorio_s3'') \<noteq> [])
      in if archivos = [] \<and> \<not> tiene_directorio
         then error_de ''Value error, No se envi documento de fraude (INV_FRAUDE_SFC)''
         else if obtener q ''card_amount__c'' = JNull then error_de ''Value error, Falta el campo obligatorio card_amount__c''
         else if obtener q ''Total_Devuelto_por_Desconocimiento__c'' = JNull
         then error_de ''Value error, Falta el campo obligatorio Total_Devuelto_por_Desconocimiento__c''
         else if tiene_directorio then Inr q
         else if campo_texto q ''nombre_archivo_fraude'' = [] then
           (case archivos of
              [a] \<Rightarrow> Inr (pon ''nombre_archivo_fraude'' (nombre_de_archivo a) q)
            | _ \<Rightarrow> error_de ''Value error, Es obligatorio especificar nombre_archivo_fraude'')
         else if obtener q ''nombre_archivo_fraude'' \<in> set (map nombre_de_archivo archivos) then Inr q
         else error_de ''Value error, El archivo especificado no se encuentra dentro de archivos_s3'')"

definition validar_reglas_segun_datos_presentes :: "entorno_crm \<Rightarrow> dict \<Rightarrow> errores + dict" where
  "validar_reglas_segun_datos_presentes en q =
     (case (if es_cierre_de q then validar_reglas_cierre en q else Inr q) of
        Inl es \<Rightarrow> Inl es
      | Inr q1 \<Rightarrow> if es_fraude_de q then validar_reglas_fraude q1 else Inr q1)"

definition campos_queja :: "campo_crm list" where
  "campos_queja = campos_momento2 @ campos_unificada"

definition QuejaUnificadaCrmInput :: "entorno_crm \<Rightarrow> pydantic \<Rightarrow> dict \<Rightarrow> dict resultado" where
  "QuejaUnificadaCrmInput en pc d =
     (case valida_campos en pc d campos_queja of (es, q) \<Rightarrow>
        let todos = es @ campos_desconocidos campos_queja d in
        if todos \<noteq> [] then Inl (ErrorValidacion todos)
        else case resolver_y_armar_smart_code en q of
          Inl es \<Rightarrow> Inl (ErrorValidacion es)
        | Inr q1 \<Rightarrow>
            (case validar_reglas_segun_datos_presentes en q1 of
               Inl es \<Rightarrow> Inl (ErrorValidacion es)
             | Inr q2 \<Rightarrow> Inr q2))"

subsection \<open>Acknowledgements\<close>

definition lista_de_ids :: "string \<Rightarrow> nat \<Rightarrow> dict \<Rightarrow> errores + string list" where
  "lista_de_ids k maximo d =
     (case map_of d k of
        None \<Rightarrow> Inl [([k], ''Field required'')]
      | Some (JArr xs) \<Rightarrow>
          if xs = [] then Inl [([k], ''List should have at least 1 item'')]
          else if 500 < length xs then Inl [([k], ''List is too long'')]
          else (let es = concat (map (\<lambda>(i, x). case texto_acotado 0 maximo x of
                                        Inl es \<Rightarrow> map (\<lambda>(l, m). (k # str_nat i # l, m)) es | Inr _ \<Rightarrow> []) (enumerate 0 xs))
                in if es = [] then Inr (map (\<lambda>x. texto_o_vacio (texto_opcional x)) xs) else Inl es)
      | Some _ \<Rightarrow> Inl [([k], ''Input should be a valid list'')])"

definition otras_claves :: "string \<Rightarrow> dict \<Rightarrow> errores" where
  "otras_claves k d = map (\<lambda>(n, _). ([n], ''Extra inputs are not permitted'')) (filter (\<lambda>(n, _). n \<noteq> k) d)"

definition ConfirmacionAckInput :: "dict \<Rightarrow> string list resultado" where
  "ConfirmacionAckInput d =
     (case lista_de_ids ''ids_quejas'' 50 d of
        Inl es \<Rightarrow> Inl (ErrorValidacion (es @ otras_claves ''ids_quejas'' d))
      | Inr xs \<Rightarrow>
          (let cleaned = filter (\<lambda>s. s \<noteq> []) (map strip xs);
               es = (if cleaned = [] then [([''ids_quejas''], ''Value error, al menos un identificador'')] else [])
                    @ otras_claves ''ids_quejas'' d
           in if es = [] then Inr cleaned else Inl (ErrorValidacion es)))"

definition ConfirmacionAckUsuariosInput :: "dict \<Rightarrow> string list resultado" where
  "ConfirmacionAckUsuariosInput d =
     (case lista_de_ids ''numeros_id_cf'' 30 d of
        Inl es \<Rightarrow> Inl (ErrorValidacion (es @ otras_claves ''numeros_id_cf'' d))
      | Inr xs \<Rightarrow> if otras_claves ''numeros_id_cf'' d = [] then Inr xs
                  else Inl (ErrorValidacion (otras_claves ''numeros_id_cf'' d)))"

end
