(* ===== verification/Esquema_Forma.thy ===== *)
theory Esquema_Forma
  imports Esquema_Crm
begin

text \<open>
  The form of an accepted complaint, stated without the validators: what each field may hold, the code of the
  case, the rules of a closing and of a fraud report. Every validated value has it, and a value that has it
  passes its validators unchanged.
\<close>

subsection \<open>What a field may hold\<close>

fun previo_ok :: "previo \<Rightarrow> json \<Rightarrow> bool" where
  "previo_ok Sanitizar v = (case v of JStr t \<Rightarrow> sin_etiquetas t \<and> CHR 0x00 \<notin> set t \<and> strip t = t | _ \<Rightarrow> True)"
| "previo_ok NormalizarArchivos v = (case v of JNull \<Rightarrow> False | JObj _ \<Rightarrow> False | _ \<Rightarrow> True)"
| "previo_ok CompletarFecha v = (case v of JStr t \<Rightarrow> strip t \<noteq> [] \<and> fromisoformat (utc t) \<noteq> None | _ \<Rightarrow> True)"
| "previo_ok LimpiarId v = (case v of JStr t \<Rightarrow> t \<noteq> [] \<and> list_all es_alfanum t | _ \<Rightarrow> True)"
| "previo_ok LimpiarIdentificador v = (case v of JStr t \<Rightarrow> t \<noteq> [] \<and> list_all de_identificador t | _ \<Rightarrow> True)"
| "previo_ok LimpiarCierre v = (case v of JStr t \<Rightarrow> t \<noteq> [] \<and> strip t = t | _ \<Rightarrow> True)"
| "previo_ok FechaCierre v = (case v of JStr t \<Rightarrow> (case date_fromisoformat t of Some f \<Rightarrow> t = fecha_texto f | None \<Rightarrow> False) | _ \<Rightarrow> True)"

definition archivo_ok :: "json \<Rightarrow> bool" where
  "archivo_ok v = (errores_archivo v = [] \<and> volcado_archivo v = v)"

definition nucleo_ok :: "pydantic \<Rightarrow> clase \<Rightarrow> bool \<Rightarrow> nat option \<Rightarrow> json \<Rightarrow> bool" where
  "nucleo_ok pc cl op mx v =
     (v = JNull \<and> op
      \<or> (case cl of
           CStr \<Rightarrow> (case v of JStr t \<Rightarrow> (case mx of Some n \<Rightarrow> caracteres t \<le> n | None \<Rightarrow> True) | _ \<Rightarrow> False)
         | CBool \<Rightarrow> (case v of JBool _ \<Rightarrow> True | _ \<Rightarrow> False)
         | CFloat \<Rightarrow> (case v of JFloat t \<Rightarrow> pc_float pc v = Some t \<and> pc_no_negativo pc t | _ \<Rightarrow> False)
         | CInt \<Rightarrow> (case v of JInt i \<Rightarrow> 0 \<le> i \<and> i \<le> 9 | _ \<Rightarrow> False)
         | CFecha \<Rightarrow> (case v of JStr t \<Rightarrow> (case date_fromisoformat t of Some f \<Rightarrow> t = fecha_texto f | None \<Rightarrow> False) | _ \<Rightarrow> False)
         | CArchivos \<Rightarrow> (case v of JArr xs \<Rightarrow> length xs \<le> 50 \<and> list_all archivo_ok xs | _ \<Rightarrow> False)))"

definition en_catalogo :: "string list \<Rightarrow> json \<Rightarrow> bool" where
  "en_catalogo allowed v = (case v of JStr t \<Rightarrow> strip t = [] \<or> t \<in> set allowed | _ \<Rightarrow> True)"

fun posterior_ok :: "entorno_crm \<Rightarrow> posterior \<Rightarrow> json \<Rightarrow> bool" where
  "posterior_ok en RangoCreacion v =
     (case v of JStr t \<Rightarrow> (case fromisoformat (utc t) of
          Some i \<Rightarrow> toordinal (en_hoy en) \<le> toordinal (i_fecha i) + 30 \<and> \<not> antes (en_hoy en) (i_fecha i) | None \<Rightarrow> True)
      | _ \<Rightarrow> True)"
| "posterior_ok en FormatoIso v = (case v of JStr t \<Rightarrow> fromisoformat (utc t) \<noteq> None | _ \<Rightarrow> True)"
| "posterior_ok en DireccionValida v = (case v of JStr t \<Rightarrow> t \<noteq> [] \<and> strip t = t | _ \<Rightarrow> True)"
| "posterior_ok en NombreNoVacio v = (case v of JStr t \<Rightarrow> t \<noteq> [] \<and> strip t = t | _ \<Rightarrow> True)"
| "posterior_ok en FormatoEmail v = (case v of JStr t \<Rightarrow> strip t = [] \<or> strip t = t \<and> email_valido t | _ \<Rightarrow> True)"
| "posterior_ok en PicklistSiNo v = en_catalogo [''Si'', ''No''] v"
| "posterior_ok en (Picklist cat) v = en_catalogo (permitidos en cat) v"
| "posterior_ok en PicklistTipoId v = en_catalogo (''RUT'' # permitidos en ''tipo_id'') v"
| "posterior_ok en (PicklistCierre cat) v =
     (case v of JStr t \<Rightarrow> t = [] \<or> permitidos en cat = [] \<or> t \<in> set (permitidos en cat) | _ \<Rightarrow> True)"

definition cumple :: "entorno_crm \<Rightarrow> pydantic \<Rightarrow> campo_crm \<Rightarrow> json \<Rightarrow> bool" where
  "cumple en pc c v =
     ((case cc_previo c of Some p \<Rightarrow> previo_ok p v | None \<Rightarrow> True)
      \<and> nucleo_ok pc (cc_clase c) (cc_opcional c) (cc_max c) v
      \<and> list_all (\<lambda>p. posterior_ok en p v) (cc_posterior c))"

subsection \<open>The combinations of the table of fields\<close>

fun compatible :: "campo_crm \<Rightarrow> bool" where
  "compatible c =
     (case cc_previo c of
        None \<Rightarrow> cc_posterior c = [] \<and> cc_clase c \<notin> {CFecha, CArchivos}
                \<or> cc_clase c = CStr \<and> (case cc_posterior c of
                    [Picklist _] \<Rightarrow> cc_max c \<in> {None, Some 150} | [PicklistSiNo] \<Rightarrow> cc_max c = None
                  | [PicklistTipoId] \<Rightarrow> cc_max c = None | [FormatoEmail] \<Rightarrow> True | _ \<Rightarrow> False)
      | Some Sanitizar \<Rightarrow> cc_clase c = CStr \<and> (cc_posterior c = [] \<or> cc_posterior c = [NombreNoVacio]
                           \<or> cc_posterior c = [DireccionValida] \<and> cc_max c = None)
      | Some NormalizarArchivos \<Rightarrow> cc_clase c = CArchivos \<and> cc_posterior c = [] \<and> \<not> cc_opcional c
      | Some CompletarFecha \<Rightarrow> cc_clase c = CStr \<and> cc_max c = None \<and> cc_posterior c = [RangoCreacion, FormatoIso]
      | Some LimpiarId \<Rightarrow> cc_clase c = CStr \<and> cc_posterior c = []
      | Some LimpiarIdentificador \<Rightarrow> cc_clase c = CStr \<and> cc_posterior c = []
      | Some LimpiarCierre \<Rightarrow> cc_clase c = CStr \<and> cc_max c = None \<and> (case cc_posterior c of
                    [] \<Rightarrow> True | [PicklistCierre _] \<Rightarrow> True | _ \<Rightarrow> False)
      | Some FechaCierre \<Rightarrow> cc_clase c = CFecha \<and> cc_posterior c = [])"

lemma campos_compatibles: "list_all compatible campos_queja"
  by (simp add: campos_queja_def campos_momento2_def campos_unificada_def opcional_def requerido_def con_defecto_def)

text \<open>The labels of the catalogs: trimmed, not blank, and short enough for the field once they are the
canonical form of a text that fits.\<close>

definition catalogos_de :: "campo_crm \<Rightarrow> string list" where
  "catalogos_de c = concat (map (\<lambda>p. case p of
     Picklist cat \<Rightarrow> [cat] | PicklistTipoId \<Rightarrow> [''tipo_id''] | PicklistCierre cat \<Rightarrow> [cat] | _ \<Rightarrow> []) (cc_posterior c))"

definition etiqueta_ok :: "string \<Rightarrow> bool" where
  "etiqueta_ok a = (a \<noteq> [] \<and> strip a = a \<and> (caracteres a \<le> 150 \<or> 150 < caracteres (normalize_text a)))"

definition etiquetas_ok :: "entorno_crm \<Rightarrow> bool" where
  "etiquetas_ok en = list_all (\<lambda>c. list_all (\<lambda>cat. list_all etiqueta_ok (permitidos en cat)) (catalogos_de c)) campos_queja"

text \<open>What Pydantic's conversions do with values that already have the type.\<close>

definition conversiones_ok :: "pydantic \<Rightarrow> bool" where
  "conversiones_ok pc =
     ((\<forall>b. pc_bool pc (JBool b) = Some b) \<and> (\<forall>i. pc_int pc (JInt i) = Some i)
      \<and> (\<forall>v t. pc_float pc v = Some t \<longrightarrow> pc_float pc (JFloat t) = Some t)
      \<and> (\<forall>v f. pc_fecha pc v = Some f \<longrightarrow> fecha_valida f))"

subsection \<open>The form of the whole complaint\<close>

definition codigo_ok :: "entorno_crm \<Rightarrow> dict \<Rightarrow> bool" where
  "codigo_ok en q =
     (empieza (en_prefijo en) (campo_texto q ''Smart_Code__c'') \<and> campo_texto q ''Smart_Code__c'' \<noteq> []
      \<and> caracteres (campo_texto q ''Smart_Code__c'') \<le> 30 \<and> campo_texto q ''Case_id'' \<noteq> [])"

definition cierre_ok :: "entorno_crm \<Rightarrow> dict \<Rightarrow> bool" where
  "cierre_ok en q =
     (lower (strip (campo_texto q ''Status'')) \<in> {''closed'', ''cerrado''}
      \<and> campo_texto q ''Favorabilidad__c'' \<noteq> [] \<and> campo_texto q ''Aceptacion__c'' \<noteq> []
      \<and> strip (campo_texto q ''cuerpo_respuesta_final'') \<noteq> []
      \<and> (case date_fromisoformat (campo_texto q ''ClosedDate'') of
           None \<Rightarrow> False
         | Some f \<Rightarrow> \<not> antes (en_hoy en) f \<and> toordinal (en_hoy en) \<le> toordinal f + 30
             \<and> (case fromisoformat (utc (campo_texto q ''CreatedDate'')) of
                  Some i \<Rightarrow> \<not> antes f (i_fecha i) | None \<Rightarrow> True)))"

definition fraude_ok :: "dict \<Rightarrow> bool" where
  "fraude_ok q =
     (presente q ''card_amount__c'' \<and> presente q ''Total_Devuelto_por_Desconocimiento__c''
      \<and> (strip (campo_texto q ''directorio_s3'') \<noteq> []
         \<or> campo_texto q ''nombre_archivo_fraude'' \<noteq> []
           \<and> obtener q ''nombre_archivo_fraude'' \<in> set (map nombre_de_archivo (adjuntos_de q))))"

definition bien_formada :: "entorno_crm \<Rightarrow> pydantic \<Rightarrow> dict \<Rightarrow> bool" where
  "bien_formada en pc q =
     (map fst q = map cc_nombre campos_queja
      \<and> list_all (\<lambda>c. cumple en pc c (obtener q (cc_nombre c))) campos_queja
      \<and> codigo_ok en q \<and> (es_cierre_de q \<longrightarrow> cierre_ok en q) \<and> (es_fraude_de q \<longrightarrow> fraude_ok q))"

end
