(* ===== verification/Esquema_Propiedades.thy ===== *)
theory Esquema_Propiedades
  imports Esquema_Forma
begin

text \<open>
  The properties of the input schema: an accepted complaint has the form of \<open>Esquema_Forma\<close>; a complaint of
  that form is accepted as it is, so what waits in the queue rehydrates to itself; the closing that does not;
  and the labels that no complaint can carry.
\<close>

subsection \<open>Lengths\<close>

lemma caracteres_Cons: "caracteres (c # s) = (if 128 \<le> (of_char c :: nat) \<and> (of_char c :: nat) < 192 then 0 else 1) + caracteres s"
  by (simp add: caracteres_def)

lemma caracteres_append [simp]: "caracteres (s @ t) = caracteres s + caracteres t"
  by (simp add: caracteres_def)

lemma caracteres_Nil [simp]: "caracteres [] = 0"
  by (simp add: caracteres_def)

lemma caracteres_strip: "caracteres (strip s) \<le> caracteres s"
proof -
  obtain a b where "s = a @ strip s @ b" using strip_partes by blast
  then have "caracteres s = caracteres a + (caracteres (strip s) + caracteres b)" by (metis caracteres_append)
  then show ?thesis by simp
qed

lemma si_some: "(if P then Some a else r) = Some b \<Longrightarrow> Q a \<Longrightarrow> (r = Some b \<Longrightarrow> Q b) \<Longrightarrow> Q b"
  by (simp split: if_splits)

lemma letra_base_ascii: "letra_base n = Some b \<Longrightarrow> (of_char b :: nat) < 128"
  unfolding letra_base_def
  by ((erule si_some [where Q = "\<lambda>b. (of_char b :: nat) < 128"], simp)+) simp

lemma caracteres_Cons_le: "caracteres s \<le> caracteres t \<Longrightarrow> caracteres (c # s) \<le> caracteres (c # t)"
  "caracteres s \<le> caracteres t \<Longrightarrow> caracteres s \<le> caracteres (c # t)"
  "caracteres s \<le> caracteres t \<Longrightarrow> (of_char d :: nat) = 195 \<Longrightarrow> caracteres (c # s) \<le> caracteres (d # t)"
  by (simp_all add: caracteres_Cons)

lemma caracteres_quita_tildes: "caracteres (quita_tildes s) \<le> caracteres s"
proof (induction s rule: quita_tildes.induct)
  case (1 c d s)
  show ?case
  proof (cases "(of_char c :: nat) = 195")
    case True
    show ?thesis
    proof (cases "letra_base (of_char d)")
      case None
      with True 1 show ?thesis by (simp add: Let_def caracteres_Cons_le)
    next
      case (Some b)
      with True 1 have "caracteres (quita_tildes s) \<le> caracteres (d # s)" by (simp add: caracteres_Cons_le(2))
      with True Some show ?thesis by (simp add: Let_def caracteres_Cons_le(3))
    qed
  next
    case False
    show ?thesis
    proof (cases "(of_char c :: nat) = 204 \<or> (of_char c :: nat) = 205 \<and> (of_char d :: nat) < 176")
      case True
      with False 1 have "quita_tildes (c # d # s) = quita_tildes s" "caracteres (quita_tildes s) \<le> caracteres s"
        by (auto simp: Let_def)
      then show ?thesis by (simp add: caracteres_Cons_le(2))
    next
      case F: False
      with False 1 have "quita_tildes (c # d # s) = c # quita_tildes (d # s)" "caracteres (quita_tildes (d # s)) \<le> caracteres (d # s)"
        by (auto simp: Let_def)
      then show ?thesis by (simp add: caracteres_Cons_le(1))
    qed
  qed
qed simp_all

lemma caracteres_quita_signos: "caracteres (quita_signos s) \<le> caracteres s"
proof (induction s rule: quita_signos.induct)
  case (2 c s)
  show ?case
  proof (cases "(of_char c :: nat) < 128")
    case True
    with 2(1,2) show ?thesis by (simp add: Let_def caracteres_Cons_le)
  next
    case False
    show ?thesis
    proof (cases "(of_char c :: nat) = 194")
      case True
      show ?thesis
      proof (cases s)
        case Nil
        with True show ?thesis by (simp add: Let_def)
      next
        case (Cons d r)
        with True 2(3,4) have "caracteres (quita_signos r) \<le> caracteres r" by auto
        with Cons True show ?thesis by (simp add: Let_def caracteres_Cons_le)
      qed
    next
      case F: False
      with False 2(5) show ?thesis by (simp add: Let_def caracteres_Cons_le)
    qed
  qed
qed simp

lemma minuscula_cuenta: "(128 \<le> (of_char (minuscula c) :: nat)) = (128 \<le> (of_char c :: nat))
    \<and> ((of_char (minuscula c) :: nat) < 192) = ((of_char c :: nat) < 192)"
  by (auto simp: minuscula_def Let_def)

lemma caracteres_lower: "caracteres (lower s) = caracteres s"
  by (induction s) (simp_all add: lower_def caracteres_Cons minuscula_cuenta)

lemma caracteres_normalize: "caracteres (normalize_text s) \<le> caracteres s"
  using caracteres_strip [of "lower (quita_signos (quita_tildes s))"] caracteres_quita_signos [of "quita_tildes s"]
    caracteres_quita_tildes [of s]
  by (simp add: normalize_text_def caracteres_lower)

subsection \<open>Before the type check\<close>

definition ahora_ok :: "entorno_crm \<Rightarrow> bool" where
  "ahora_ok en = (strip (en_ahora en) \<noteq> [] \<and> (case fromisoformat (utc (en_ahora en)) of
      Some i \<Rightarrow> i_fecha i = en_hoy en | None \<Rightarrow> False))"

lemma identificador_no_espacio: "de_identificador c \<Longrightarrow> \<not> es_espacio c"
  by (auto simp: de_identificador_def es_alfanum_def es_espacio_def Let_def)

lemma strip_sin_espacios: "list_all (\<lambda>c. \<not> es_espacio c) t \<Longrightarrow> strip t = t"
proof -
  have "list_all (\<lambda>c. \<not> es_espacio c) u \<Longrightarrow> dropWhile es_espacio u = u" for u
    by (cases u) auto
  from this [of t] this [of "rev t"] show "list_all (\<lambda>c. \<not> es_espacio c) t \<Longrightarrow> strip t = t"
    by (simp add: strip_def)
qed

lemma strip_identificador: "list_all de_identificador t \<Longrightarrow> strip t = t"
  by (rule strip_sin_espacios) (auto simp: list_all_iff dest: identificador_no_espacio)

lemma sanitiza_fija: "sin_etiquetas t \<Longrightarrow> CHR 0x00 \<notin> set t \<Longrightarrow> strip t = t \<Longrightarrow> sanitiza t = t"
proof -
  assume a: "sin_etiquetas t" "CHR 0x00 \<notin> set t" "strip t = t"
  have "filter (\<lambda>c. c \<noteq> CHR 0x00) t = t" using a(2) by (intro filter_True) auto
  with a show ?thesis by (simp add: sanitiza_def quita_bloques_id quita_etiquetas_id)
qed

lemma sanitiza_sin_nul: "CHR 0x00 \<notin> set (sanitiza s)"
  using set_strip [of "quita_etiquetas (quita_bloques (filter (\<lambda>c. c \<noteq> CHR 0x00) s))"]
    set_quita_etiquetas [of "quita_bloques (filter (\<lambda>c. c \<noteq> CHR 0x00) s)"]
    set_quita_bloques [of "filter (\<lambda>c. c \<noteq> CHR 0x00) s"] unfolding sanitiza_def by auto

text \<open>A validator before the type check leaves its form, and a value of that form as it is.\<close>

lemma previo_deja:
  assumes "ahora_ok en" "aplica_previo en p v = Inr w"
  shows "previo_ok p w"
proof (cases p)
  case Sanitizar
  then show ?thesis using assms(2) by (auto simp: sanitiza_sin_etiquetas sanitiza_sin_nul split: json.splits)
next
  case NormalizarArchivos
  then show ?thesis using assms(2)
    by (auto simp: normalizar_archivos_s3_def error_de_def split: json.splits if_splits)
next
  case CompletarFecha
  then show ?thesis using assms
    by (auto simp: auto_completar_fecha_creacion_def error_de_def ahora_ok_def split: json.splits if_splits option.splits)
next
  case LimpiarId
  then show ?thesis using assms(2)
    by (auto simp: limpiar_id_def error_de_def Let_def list_all_iff split: json.splits if_splits)
next
  case LimpiarIdentificador
  then show ?thesis using assms(2)
    by (auto simp: limpiar_espacios_y_caracteres_def error_de_def Let_def split: json.splits if_splits)
next
  case LimpiarCierre
  then show ?thesis using assms(2) by (auto simp: limpiar_y_strip_cierre_def split: json.splits if_splits)
next
  case FechaCierre
  then show ?thesis using assms(2)
    by (auto simp: normalizar_closed_date_def error_de_def Let_def
        dest: date_fromisoformat_valida fromisoformat_valida split: json.splits if_splits option.splits)
qed

lemma strip_fecha_texto [simp]: "fecha_valida f \<Longrightarrow> strip (fecha_texto f) = fecha_texto f"
proof (rule strip_sin_espacios)
  have d: "list_all (\<lambda>c. \<not> es_espacio c) (con_ceros k n)" for k n
    using con_ceros_digitos [of k n] by (auto simp: list_all_iff es_digito_def es_espacio_def Let_def)
  show "list_all (\<lambda>c. \<not> es_espacio c) (fecha_texto f)"
    by (simp add: fecha_texto_def d) (simp add: es_espacio_def)
qed

lemma sin_t_fecha_texto [simp]: "CHR ''T'' \<notin> set (fecha_texto f)"
proof -
  have "CHR ''T'' \<notin> set (con_ceros k n)" for k n
    using con_ceros_digitos [of k n] by (auto simp: list_all_iff es_digito_def Let_def)
  then show ?thesis by (simp add: fecha_texto_def)
qed

lemma fecha_texto_no_vacia [simp]: "fecha_texto f \<noteq> []"
  by (simp add: fecha_texto_def)

lemma previo_fija:
  assumes "previo_ok p v" "p = CompletarFecha \<Longrightarrow> \<exists>t. v = JStr t"
  shows "aplica_previo en p v = Inr v"
proof (cases p)
  case Sanitizar
  then show ?thesis using assms(1) by (auto simp: sanitiza_fija split: json.splits)
next
  case NormalizarArchivos
  then show ?thesis using assms(1) by (auto simp: normalizar_archivos_s3_def split: json.splits)
next
  case CompletarFecha
  then show ?thesis using assms by (auto simp: auto_completar_fecha_creacion_def)
next
  case LimpiarId
  then show ?thesis using assms(1) by (auto simp: limpiar_id_def Let_def list_all_iff filter_id_conv split: json.splits)
next
  case LimpiarIdentificador
  then show ?thesis using assms(1)
    by (auto simp: limpiar_espacios_y_caracteres_def Let_def strip_identificador split: json.splits)
next
  case LimpiarCierre
  then show ?thesis using assms(1) by (auto simp: limpiar_y_strip_cierre_def split: json.splits)
next
  case FechaCierre
  then show ?thesis using assms(1)
    by (auto simp: normalizar_closed_date_def Let_def dest: date_fromisoformat_valida split: json.splits option.splits)
qed

subsection \<open>Types and limits\<close>

lemma texto_acotado_Inr: "texto_acotado lo hi v = Inr w \<Longrightarrow> w = v \<and> (\<exists>t. v = JStr t \<and> lo \<le> caracteres t \<and> caracteres t \<le> hi)"
  by (auto simp: texto_acotado_def error_de_def split: json.splits if_splits)

lemma volcado_ok: "errores_archivo v = [] \<Longrightarrow> archivo_ok (volcado_archivo v)"
  by (auto simp: errores_archivo_def volcado_archivo_def archivo_ok_def campos_archivo_def obtener_def
      split: json.splits option.splits sum.splits)

lemma valida_archivos_Inr:
  assumes "valida_archivos n v = Inr w"
  shows "\<exists>xs. w = JArr (map volcado_archivo xs) \<and> length xs \<le> n \<and> list_all (\<lambda>x. errores_archivo x = []) xs"
proof -
  obtain xs where xs: "v = JArr xs" "length xs \<le> n" "w = JArr (map volcado_archivo xs)"
      "concat (map (\<lambda>(i, x). map (\<lambda>(l, m). (str_nat i # l, m)) (errores_archivo x)) (enumerate 0 xs)) = []"
    using assms by (auto simp: valida_archivos_def error_de_def Let_def split: json.splits if_splits)
  have "errores_archivo x = []" if "x \<in> set xs" for x
  proof -
    have "x \<in> snd ` set (enumerate 0 xs)" using that by (simp flip: set_map)
    with xs(4) show ?thesis by fastforce
  qed
  with xs show ?thesis by (auto simp: list_all_iff)
qed

lemma nucleo_deja:
  assumes pc: "conversiones_ok pc" and r: "nucleo pc cl op mx v = Inr w"
  shows "nucleo_ok pc cl op mx w \<and> (cl = CStr \<longrightarrow> w = v)"
proof (cases "v = JNull \<and> op")
  case True
  with r show ?thesis by (auto simp: nucleo_def nucleo_ok_def)
next
  case v: False
  show ?thesis
  proof (cases cl)
    case CStr
    with r v show ?thesis
      by (auto simp: nucleo_def nucleo_ok_def error_de_def split: option.splits json.splits dest!: texto_acotado_Inr)
  next
    case CBool
    with r v show ?thesis by (auto simp: nucleo_def nucleo_ok_def convierte_def error_de_def split: option.splits)
  next
    case CFloat
    with r v pc show ?thesis
      by (auto simp: nucleo_def nucleo_ok_def conversiones_ok_def error_de_def split: option.splits if_splits)
  next
    case CInt
    with r v show ?thesis by (auto simp: nucleo_def nucleo_ok_def error_de_def split: option.splits if_splits)
  next
    case CFecha
    with r v obtain f where "w = JStr (fecha_texto f)" "fecha_valida f"
      using pc by (auto simp: nucleo_def convierte_def error_de_def conversiones_ok_def
          split: option.splits json.splits dest: date_fromisoformat_valida)
    with CFecha show ?thesis by (simp add: nucleo_ok_def)
  next
    case CArchivos
    with r v have "valida_archivos 50 v = Inr w" by (simp add: nucleo_def)
    with CArchivos show ?thesis
      using valida_archivos_Inr by (fastforce simp: nucleo_ok_def list_all_iff intro: volcado_ok)
  qed
qed

lemma concat_vacias: "(\<And>x. x \<in> set xs \<Longrightarrow> f x = []) \<Longrightarrow> concat (map f xs) = []"
  by simp

lemma valida_archivos_fija:
  assumes "length xs \<le> n" "list_all archivo_ok xs"
  shows "valida_archivos n (JArr xs) = Inr (JArr xs)"
proof -
  have ok: "volcado_archivo x = x" "errores_archivo x = []" if "x \<in> set xs" for x
    using assms(2) that by (auto simp: list_all_iff archivo_ok_def)
  have v: "map volcado_archivo xs = xs" using ok(1) by (intro map_idI)
  have "concat (map (\<lambda>(i, x). map (\<lambda>(l, m). (str_nat i # l, m)) (errores_archivo x)) (enumerate 0 xs)) = []"
  proof (rule concat_vacias)
    fix p assume "p \<in> set (enumerate 0 xs)"
    from imageI [OF this, of snd] have "snd p \<in> set (map snd (enumerate 0 xs))" by (simp only: set_map)
    then have "errores_archivo (snd p) = []" using ok(2) by (simp only: map_snd_enumerate)
    then show "(case p of (i, x) \<Rightarrow> map (\<lambda>(l, m). (str_nat i # l, m)) (errores_archivo x)) = []"
      by (simp only: case_prod_beta list.map)
  qed
  then show ?thesis using assms(1) v by (simp only: valida_archivos_def Let_def json.case not_le [symmetric] if_True if_False simp_thms)
qed

lemma nucleo_fija:
  assumes "conversiones_ok pc" "nucleo_ok pc cl op mx v"
  shows "nucleo pc cl op mx v = Inr v"
proof (cases "v = JNull \<and> op")
  case True
  then show ?thesis by (simp add: nucleo_def)
next
  case v: False
  show ?thesis
  proof (cases cl)
    case CArchivos
    with v assms(2) show ?thesis by (auto simp: nucleo_ok_def nucleo_def valida_archivos_fija split: json.splits)
  next
    case CStr
    with v assms(2) show ?thesis
      by (auto simp: nucleo_ok_def nucleo_def texto_acotado_def split: json.splits option.splits)
  next
    case CFecha
    with v assms(2) show ?thesis
      by (auto simp: nucleo_ok_def nucleo_def convierte_def split: json.splits option.splits)
  qed (use v assms in \<open>auto simp: nucleo_ok_def nucleo_def convierte_def conversiones_ok_def split: json.splits\<close>)
qed

subsection \<open>After the type check\<close>

text \<open>The canonical label of a text that fits.\<close>

lemma etiqueta_canonica_Some:
  assumes "etiqueta_canonica xs t = Some a"
  shows "a \<in> set xs" "a = t \<or> normalize_text a = normalize_text t"
proof -
  show "a = t \<or> normalize_text a = normalize_text t"
    using assms by (auto simp: etiqueta_canonica_def split: if_splits dest!: map_of_SomeD)
  show "a \<in> set xs"
    using assms by (auto simp: etiqueta_canonica_def split: if_splits dest!: map_of_SomeD)
qed

lemma etiqueta_cabe:
  assumes "etiqueta_canonica xs t = Some a" "list_all etiqueta_ok xs" "caracteres t \<le> 150"
  shows "caracteres a \<le> 150"
proof -
  have "etiqueta_ok a" using etiqueta_canonica_Some(1) [OF assms(1)] assms(2) by (simp add: list_all_iff)
  then show ?thesis
    using etiqueta_canonica_Some(2) [OF assms(1)] assms(3) caracteres_normalize [of t] by (auto simp: etiqueta_ok_def)
qed

lemma posterior_fija:
  assumes "posterior_ok en p v" "p = PicklistTipoId \<Longrightarrow> \<forall>t. v = JStr t \<longrightarrow> lower t \<notin> {''nit'', ''n.i.t.''} \<and> (t = ''RUT'' \<longrightarrow> ''RUT'' \<in> set (permitidos en ''tipo_id''))"
    and "\<And>cat. p = Picklist cat \<Longrightarrow> list_all etiqueta_ok (permitidos en cat)" "p = PicklistTipoId \<Longrightarrow> list_all etiqueta_ok (permitidos en ''tipo_id'')"
  shows "aplica_posterior en p v = Inr v"
proof (cases p)
  case RangoCreacion
  with assms(1) show ?thesis
    by (auto simp: validar_rango_30_dias_created_date_def split: json.splits option.splits)
next
  case FormatoIso
  with assms(1) show ?thesis by (auto simp: validar_formato_iso_fecha_def split: json.splits)
next
  case DireccionValida
  with assms(1) show ?thesis by (auto simp: asegurar_direccion_valida_def split: json.splits)
next
  case NombreNoVacio
  with assms(1) show ?thesis by (auto simp: validar_nombre_no_vacio_def split: json.splits)
next
  case FormatoEmail
  with assms(1) show ?thesis by (auto simp: validar_formato_email_def split: json.splits)
next
  case PicklistSiNo
  have "strip ''Si'' = ''Si''" "strip ''No'' = ''No''" "lower ''Si'' = ''si''" "lower ''No'' = ''no''"
    by code_simp+
  with PicklistSiNo assms(1) show ?thesis
    by (auto simp: picklist_def si_no_def en_catalogo_def split: json.splits)
next
  case (Picklist cat)
  have "strip t = t" if "t \<in> set (permitidos en cat)" for t
    using that assms(3) [OF Picklist] by (auto simp: list_all_iff etiqueta_ok_def)
  with Picklist assms(1) show ?thesis
    by (auto simp: picklist_def contra_catalogo_def etiqueta_canonica_def en_catalogo_def split: json.splits)
next
  case PicklistTipoId
  have "strip t = t" if "t \<in> set (permitidos en ''tipo_id'')" for t
    using that assms(4) [OF PicklistTipoId] by (auto simp: list_all_iff etiqueta_ok_def)
  with PicklistTipoId assms(1,2) show ?thesis
    by (auto simp: picklist_def contra_catalogo_def etiqueta_canonica_def en_catalogo_def split: json.splits)
next
  case (PicklistCierre cat)
  with assms(1) show ?thesis
    by (auto simp: validar_picklist_cierre_def contra_catalogo_def etiqueta_canonica_def split: json.splits)
qed

text \<open>The value that one validator after the type check leaves, for a text that fits and that the validator
before the type check has cleaned.\<close>

lemma direccion_no_registrada_ok:
  "sin_etiquetas direccion_no_registrada \<and> CHR 0x00 \<notin> set direccion_no_registrada
   \<and> strip direccion_no_registrada = direccion_no_registrada \<and> direccion_no_registrada \<noteq> []"
  by code_simp

lemma picklist_deja:
  assumes "picklist f v = Inr w" "\<And>t u. f t = Inr u \<Longrightarrow> en_catalogo xs u" "\<And>u. v \<noteq> JStr u \<Longrightarrow> v = JNull"
  shows "en_catalogo xs w"
  using assms by (auto simp: picklist_def en_catalogo_def split: json.splits if_splits)

lemma contra_catalogo_Inr: "contra_catalogo xs t = Inr u \<Longrightarrow> \<exists>a. u = JStr a \<and> etiqueta_canonica xs t = Some a \<and> a \<in> set xs"
  by (auto simp: contra_catalogo_def error_de_def split: option.splits dest: etiqueta_canonica_Some(1))

lemma si_no_Inr: "si_no t = Inr u \<Longrightarrow> u \<in> {JStr ''Si'', JStr ''No''}"
  by (auto simp: si_no_def error_de_def split: if_splits)

lemma picklist_Inr:
  "picklist f v = Inr w \<Longrightarrow> w = v \<or> (\<exists>t. v = JStr t \<and> f (strip t) = Inr w)"
  by (auto simp: picklist_def split: json.splits if_splits)

lemma en_catalogo_blanco: "picklist f v = Inr v \<Longrightarrow> v = JStr t \<Longrightarrow> strip t = [] \<Longrightarrow> en_catalogo xs v"
  by (simp add: en_catalogo_def)

lemma posterior_deja:
  assumes "aplica_posterior en q v = Inr w" "q \<notin> {RangoCreacion, FormatoIso}"
  shows "posterior_ok en q w"
proof (cases q)
  case DireccionValida
  with assms direccion_no_registrada_ok show ?thesis by (auto simp: asegurar_direccion_valida_def split: json.splits if_splits)
next
  case NombreNoVacio
  with assms show ?thesis by (auto simp: validar_nombre_no_vacio_def error_de_def split: json.splits if_splits)
next
  case FormatoEmail
  with assms show ?thesis by (auto simp: validar_formato_email_def error_de_def split: json.splits if_splits)
next
  case PicklistSiNo
  with assms show ?thesis
    by (auto simp: picklist_def en_catalogo_def split: json.splits if_splits dest: si_no_Inr)
next
  case (Picklist cat)
  with assms show ?thesis
    by (auto simp: picklist_def en_catalogo_def split: json.splits if_splits dest!: contra_catalogo_Inr)
next
  case PicklistTipoId
  with assms show ?thesis
    by (auto simp: picklist_def en_catalogo_def split: json.splits if_splits dest!: contra_catalogo_Inr)
next
  case (PicklistCierre cat)
  with assms show ?thesis
    by (auto simp: validar_picklist_cierre_def split: json.splits if_splits dest!: contra_catalogo_Inr)
qed (use assms in auto)

lemma posterior_nulo [simp]: "aplica_posterior en q JNull = Inr JNull"
  by (cases q) (simp_all add: validar_rango_30_dias_created_date_def validar_formato_iso_fecha_def
      asegurar_direccion_valida_def validar_nombre_no_vacio_def validar_formato_email_def picklist_def
      validar_picklist_cierre_def)

text \<open>It keeps the type and the limit.\<close>

lemma posterior_cabe:
  assumes r: "aplica_posterior en q v = Inr w" and v: "nucleo_ok pc CStr op mx v"
    and "\<And>cat. q = Picklist cat \<Longrightarrow> (mx = None \<or> mx = Some 150) \<and> list_all etiqueta_ok (permitidos en cat)"
    and "q \<in> {PicklistSiNo, PicklistTipoId, DireccionValida} \<or> (\<exists>cat. q = PicklistCierre cat) \<Longrightarrow> mx = None"
  shows "nucleo_ok pc CStr op mx w"
proof (cases v)
  case (JStr t)
  have t: "mx = Some n \<Longrightarrow> caracteres t \<le> n" for n using v JStr by (simp add: nucleo_ok_def)
  have s: "mx = Some n \<Longrightarrow> caracteres (strip t) \<le> n" for n using t caracteres_strip [of t] by fastforce
  have w: "nucleo_ok pc CStr op mx (JStr u)" if "\<And>n. mx = Some n \<Longrightarrow> caracteres u \<le> n" for u
    using that by (simp add: nucleo_ok_def split: option.splits)
  show ?thesis
  proof (cases q)
    case RangoCreacion
    with r v JStr show ?thesis
      by (auto simp: validar_rango_30_dias_created_date_def error_de_def split: if_splits option.splits)
  next
    case FormatoIso
    with r v JStr show ?thesis by (auto simp: validar_formato_iso_fecha_def error_de_def split: if_splits)
  next
    case DireccionValida
    with r JStr assms(4) show ?thesis by (auto simp: asegurar_direccion_valida_def nucleo_ok_def)
  next
    case NombreNoVacio
    with r JStr s w show ?thesis by (auto simp: validar_nombre_no_vacio_def error_de_def split: if_splits)
  next
    case FormatoEmail
    with r v JStr s w show ?thesis by (auto simp: validar_formato_email_def error_de_def split: if_splits)
  next
    case PicklistSiNo
    with r v JStr assms(4) w show ?thesis by (auto dest!: picklist_Inr si_no_Inr)
  next
    case (Picklist cat)
    show ?thesis
    proof (cases "w = v")
      case False
      with r JStr Picklist obtain a where "w = JStr a" "etiqueta_canonica (permitidos en cat) (strip t) = Some a"
        by (auto dest!: picklist_Inr contra_catalogo_Inr)
      with assms(3) [OF Picklist] s w etiqueta_cabe [of "permitidos en cat" "strip t" a] show ?thesis by auto
    qed (use v in simp)
  next
    case PicklistTipoId
    with r v JStr assms(4) w show ?thesis
      by (auto dest!: picklist_Inr split: if_splits dest!: contra_catalogo_Inr)
  next
    case (PicklistCierre cat)
    with r v JStr assms(4) w show ?thesis
      by (auto simp: validar_picklist_cierre_def split: if_splits dest!: contra_catalogo_Inr)
  qed
qed (use v r in \<open>auto simp: nucleo_ok_def\<close>)

subsection \<open>One field\<close>

lemma nucleo_nulo: "nucleo_ok pc cl op mx v \<Longrightarrow> cl = CStr \<Longrightarrow> v = JNull \<or> (\<exists>t. v = JStr t)"
  by (auto simp: nucleo_ok_def split: json.splits)

text \<open>What a validator after the type check does to a cleaned text keeps it clean.\<close>

lemma previo_sigue:
  assumes "compatible c" "cc_previo c = Some p" "cc_posterior c = [q]" "previo_ok p v" "aplica_posterior en q v = Inr w"
    and "list_all (\<lambda>cat. list_all etiqueta_ok (permitidos en cat)) (catalogos_de c)"
  shows "previo_ok p w"
proof -
  consider (limpio) "p = Sanitizar" "q \<in> {NombreNoVacio, DireccionValida}"
    | (cierre) cat where "p = LimpiarCierre" "q = PicklistCierre cat"
    using assms(1-3) by (auto split: previo.splits list.splits posterior.splits)
  then show ?thesis
  proof cases
    case limpio
    with assms(4,5) direccion_no_registrada_ok show ?thesis
      by (auto simp: asegurar_direccion_valida_def validar_nombre_no_vacio_def error_de_def split: json.splits if_splits)
  next
    case cierre
    have "list_all etiqueta_ok (permitidos en cat)" using assms(3,6) cierre by (simp add: catalogos_de_def)
    then have "a \<noteq> [] \<and> strip a = a" if "a \<in> set (permitidos en cat)" for a
      using that by (auto simp: list_all_iff etiqueta_ok_def)
    with cierre assms(4,5) show ?thesis
      by (auto simp: validar_picklist_cierre_def split: json.splits if_splits dest!: contra_catalogo_Inr)
  qed
qed

lemma fecha_creacion_fija:
  assumes "posteriores en [RangoCreacion, FormatoIso] v = Inr w" "previo_ok CompletarFecha v"
  shows "w = v \<and> list_all (\<lambda>p. posterior_ok en p v) [RangoCreacion, FormatoIso]"
  using assms
  by (auto simp: validar_rango_30_dias_created_date_def validar_formato_iso_fecha_def error_de_def
      split: json.splits option.splits if_splits sum.splits)

lemma posterior_uno: "posteriores en [q] v = aplica_posterior en q v"
  by (simp split: sum.split)

lemma valida_valor_cumple:
  assumes c: "compatible c" and a: "ahora_ok en" and pc: "conversiones_ok pc"
    and e: "list_all (\<lambda>cat. list_all etiqueta_ok (permitidos en cat)) (catalogos_de c)"
    and r: "valida_valor en pc c v = Inr w"
  shows "cumple en pc c w"
proof -
  obtain v1 v2 where v1: "(case cc_previo c of None \<Rightarrow> Inr v | Some p \<Rightarrow> aplica_previo en p v) = Inr v1"
      and v2: "nucleo pc (cc_clase c) (cc_opcional c) (cc_max c) v1 = Inr v2"
      and w: "posteriores en (cc_posterior c) v2 = Inr w"
    using r by (auto simp: valida_valor_def split: sum.splits)
  note n = nucleo_deja [OF pc v2]
  have p1: "previo_ok p v1" if "cc_previo c = Some p" for p using v1 that previo_deja [OF a] by auto
  have p2: "previo_ok p v2" if p: "cc_previo c = Some p" for p
  proof (cases "cc_clase c = CStr")
    case True
    with n p1 [OF p] show ?thesis by simp
  next
    case False
    with c p have "p = FechaCierre \<and> cc_clase c = CFecha \<or> p = NormalizarArchivos \<and> cc_clase c = CArchivos \<and> \<not> cc_opcional c"
      by (auto split: previo.splits)
    with n show ?thesis by (auto simp: nucleo_ok_def split: json.splits)
  qed
  consider "cc_posterior c = []" | "cc_posterior c = [RangoCreacion, FormatoIso]" "cc_previo c = Some CompletarFecha"
    | q where "cc_posterior c = [q]" "cc_clase c = CStr" "q \<notin> {RangoCreacion, FormatoIso}"
    using c by (auto split: previo.splits list.splits posterior.splits option.splits)
  then show ?thesis
  proof cases
    case 1
    with w n p2 show ?thesis by (auto simp: cumple_def split: option.splits)
  next
    case 2
    with w fecha_creacion_fija [of en v2 w] p2 n show ?thesis by (auto simp: cumple_def)
  next
    case 3
    have q: "aplica_posterior en q v2 = Inr w" using w unfolding 3(1) posterior_uno .
    have "nucleo_ok pc CStr (cc_opcional c) (cc_max c) w"
    proof (rule posterior_cabe [OF q])
      show "nucleo_ok pc CStr (cc_opcional c) (cc_max c) v2" using conjunct1 [OF n] unfolding 3(2) .
      show "(cc_max c = None \<or> cc_max c = Some 150) \<and> list_all etiqueta_ok (permitidos en cat)" if "q = Picklist cat" for cat
        using c e 3 that by (auto simp: catalogos_de_def split: option.splits previo.splits)
      show "cc_max c = None" if "q \<in> {PicklistSiNo, PicklistTipoId, DireccionValida} \<or> (\<exists>cat. q = PicklistCierre cat)"
        using c 3 that by (auto split: option.splits previo.splits)
    qed
    moreover have "previo_ok p w" if "cc_previo c = Some p" for p
      using previo_sigue [OF c that 3(1) p2 [OF that] q e] .
    ultimately show ?thesis
      using 3 posterior_deja [OF q] by (auto simp: cumple_def split: option.splits)
  qed
qed

text \<open>And back: a value that complies goes through unchanged, but for the two values that a second validation
rewrites: an absent date of creation and a NIT.\<close>

definition se_reescribe :: "campo_crm \<Rightarrow> json \<Rightarrow> bool" where
  "se_reescribe c v =
     (cc_previo c = Some CompletarFecha \<and> v = JNull
      \<or> PicklistTipoId \<in> set (cc_posterior c) \<and> (\<exists>t. v = JStr t \<and> lower t \<in> {''nit'', ''n.i.t.''}))"

lemma cumple_valida_valor:
  assumes c: "compatible c" and pc: "conversiones_ok pc" and k: "cumple en pc c v" and s: "\<not> se_reescribe c v"
    and e: "list_all (\<lambda>cat. list_all etiqueta_ok (permitidos en cat)) (catalogos_de c)"
    and rut: "''RUT'' \<in> set (permitidos en ''tipo_id'')"
  shows "valida_valor en pc c v = Inr v"
proof -
  have n: "nucleo pc (cc_clase c) (cc_opcional c) (cc_max c) v = Inr v"
    using nucleo_fija [OF pc] k by (simp add: cumple_def)
  have p: "(case cc_previo c of None \<Rightarrow> Inr v | Some p \<Rightarrow> aplica_previo en p v) = Inr v"
  proof (cases "cc_previo c")
    case (Some p)
    have "\<exists>t. v = JStr t" if "p = CompletarFecha"
      using that Some c k s nucleo_nulo [of pc CStr "cc_opcional c" "cc_max c" v] by (auto simp: cumple_def se_reescribe_def)
    with Some k previo_fija [of p v en] show ?thesis by (simp add: cumple_def)
  qed simp
  have q: "aplica_posterior en q v = Inr v" if "q \<in> set (cc_posterior c)" for q
  proof (rule posterior_fija)
    show "posterior_ok en q v" using k that by (auto simp: cumple_def list_all_iff)
    show "\<forall>t. v = JStr t \<longrightarrow> lower t \<notin> {''nit'', ''n.i.t.''} \<and> (t = ''RUT'' \<longrightarrow> ''RUT'' \<in> set (permitidos en ''tipo_id''))"
      if "q = PicklistTipoId" using s rut that \<open>q \<in> set (cc_posterior c)\<close> by (auto simp: se_reescribe_def)
    show "list_all etiqueta_ok (permitidos en cat)" if "q = Picklist cat" for cat
      using e that \<open>q \<in> set (cc_posterior c)\<close> by (force simp: catalogos_de_def list_all_iff)
    show "list_all etiqueta_ok (permitidos en ''tipo_id'')" if "q = PicklistTipoId"
      using e that \<open>q \<in> set (cc_posterior c)\<close> by (force simp: catalogos_de_def list_all_iff)
  qed
  then have "posteriores en ps v = Inr v" if "set ps \<subseteq> set (cc_posterior c)" for ps
    using that by (induction ps) auto
  with n p show ?thesis by (simp add: valida_valor_def)
qed

end
