(* ===== verification/Esquema_Queja.thy ===== *)
theory Esquema_Queja
  imports Esquema_Propiedades
begin

text \<open>
  The whole complaint: the keys of a validated dictionary, the rules over several fields and the form that
  they establish, and the properties of the schema.
\<close>

subsection \<open>Dictionaries with the keys of the schema\<close>

definition claves :: "dict \<Rightarrow> bool" where
  "claves q = (map fst q = map cc_nombre campos_queja)"

lemma nombres_distintos: "distinct (map cc_nombre campos_queja)"
  by (simp add: campos_queja_def campos_momento2_def campos_unificada_def opcional_def requerido_def con_defecto_def)

lemma pon_fst [simp]: "map fst (pon k v q) = map fst q"
  by (induction q) (auto simp: pon_def)

lemma claves_pon [simp]: "claves (pon k v q) = claves q"
  by (simp add: claves_def)

lemma map_of_pon:
  "map_of (pon k v q) k = (if k \<in> set (map fst q) then Some v else None)"
  "n \<noteq> k \<Longrightarrow> map_of (pon k v q) n = map_of q n"
  by (induction q) (auto simp: pon_def)

lemma obtener_pon: "k \<in> set (map fst q) \<Longrightarrow> obtener (pon k v q) n = (if n = k then v else obtener q n)"
  by (cases "n = k") (simp_all add: obtener_def map_of_pon)

lemma pon_igual: "distinct (map fst q) \<Longrightarrow> obtener q k = v \<Longrightarrow> pon k v q = q"
proof -
  assume a: "distinct (map fst q)" "obtener q k = v"
  have o: "obtener q n = x" if "(n, x) \<in> set q" for n x
    using map_of_is_SomeI [OF a(1) that] by (simp add: obtener_def)
  have "(case p of (n, x) \<Rightarrow> (n, if n = k then v else x)) = p" if "p \<in> set q" for p
    using o [of "fst p" "snd p"] a(2) that by (cases p) auto
  then show ?thesis unfolding pon_def by (rule map_idI)
qed

text \<open>The keys that the rules rewrite.\<close>

definition reescritas :: "string list" where
  "reescritas = [''Smart_Code__c'', ''Case_id'', ''Status'', ''ClosedDate'', ''cuerpo_respuesta_final'', ''nombre_archivo_fraude'']"

lemma reescritas_claves: "list_all (\<lambda>k. k \<in> set (map cc_nombre campos_queja)) reescritas"
  by (simp add: reescritas_def campos_queja_def campos_momento2_def campos_unificada_def opcional_def requerido_def con_defecto_def)

lemma obtener_pon_claves: "claves q \<Longrightarrow> k \<in> set reescritas \<Longrightarrow> obtener (pon k v q) n = (if n = k then v else obtener q n)"
  using reescritas_claves by (intro obtener_pon) (simp only: claves_def list_all_iff)

subsection \<open>All the fields\<close>

definition campos_ok :: "entorno_crm \<Rightarrow> pydantic \<Rightarrow> dict \<Rightarrow> bool" where
  "campos_ok en pc q = list_all (\<lambda>c. cumple en pc c (obtener q (cc_nombre c))) campos_queja"

lemma campos_okD: "campos_ok en pc q \<Longrightarrow> c \<in> set campos_queja \<Longrightarrow> cumple en pc c (obtener q (cc_nombre c))"
  by (simp add: campos_ok_def list_all_iff)

lemma campos_ok_pon:
  assumes "claves q" "campos_ok en pc q" "k \<in> set reescritas"
    and "list_all (\<lambda>c. cc_nombre c = k \<longrightarrow> cumple en pc c v) campos_queja"
  shows "campos_ok en pc (pon k v q)"
  using assms by (auto simp: campos_ok_def obtener_pon_claves list_all_iff)

text \<open>The entry of each rewritten key.\<close>

lemma campo_codigo: "k \<in> {''Smart_Code__c'', ''Case_id''} \<Longrightarrow>
    list_all (\<lambda>c. cc_nombre c = k \<longrightarrow> cumple en pc c v) campos_queja =
    cumple en pc (opcional k CStr (Some 30) (Some LimpiarIdentificador) []) v"
  by (auto simp: campos_queja_def campos_momento2_def campos_unificada_def opcional_def requerido_def con_defecto_def)

lemma campo_Status: "list_all (\<lambda>c. cc_nombre c = ''Status'' \<longrightarrow> cumple en pc c v) campos_queja =
    cumple en pc (opcional ''Status'' CStr None (Some LimpiarCierre) []) v"
  by (simp add: campos_queja_def campos_momento2_def campos_unificada_def opcional_def requerido_def con_defecto_def)

lemma campo_ClosedDate: "list_all (\<lambda>c. cc_nombre c = ''ClosedDate'' \<longrightarrow> cumple en pc c v) campos_queja =
    cumple en pc (opcional ''ClosedDate'' CFecha None (Some FechaCierre) []) v"
  by (simp add: campos_queja_def campos_momento2_def campos_unificada_def opcional_def requerido_def con_defecto_def)

lemma campo_libre: "k \<in> {''cuerpo_respuesta_final'', ''nombre_archivo_fraude''} \<Longrightarrow>
    list_all (\<lambda>c. cc_nombre c = k \<longrightarrow> cumple en pc c (JStr t)) campos_queja"
  by (auto simp: campos_queja_def campos_momento2_def campos_unificada_def opcional_def requerido_def con_defecto_def
      cumple_def nucleo_ok_def)

lemma campo_archivos: "campos_ok en pc q \<Longrightarrow> list_all archivo_ok (adjuntos_de q)"
proof -
  assume a: "campos_ok en pc q"
  have "(requerido ''archivos_s3'' None (Some NormalizarArchivos) [])\<lparr>cc_clase := CArchivos, cc_defecto := Some (JArr [])\<rparr> \<in> set campos_queja"
    by (simp add: campos_queja_def campos_momento2_def)
  from campos_okD [OF a this] show ?thesis
    by (auto simp: adjuntos_de_def requerido_def cumple_def nucleo_ok_def split: json.splits)
qed

text \<open>Only the unknown keys and the errors of the fields stop a complaint before the rules.\<close>

lemma errores_no_vacios:
  "error_de m \<noteq> Inl []" "texto_acotado lo hi v \<noteq> Inl []" "valida_archivos n v \<noteq> Inl []" "nucleo pc cl op mx v \<noteq> Inl []"
proof -
  show e: "error_de m \<noteq> Inl []" for m by (simp add: error_de_def)
  show t: "texto_acotado lo hi v \<noteq> Inl []" for lo hi v by (simp add: texto_acotado_def e split: json.splits)
  show a: "valida_archivos n v \<noteq> Inl []" for n v by (simp add: valida_archivos_def e Let_def split: json.splits)
  show "nucleo pc cl op mx v \<noteq> Inl []"
  proof (cases cl)
    case CStr
    then show ?thesis by (cases v) (simp_all add: nucleo_def e t split: option.split)
  next
    case CFecha
    then show ?thesis by (cases v) (simp_all add: nucleo_def convierte_def e split: option.split)
  qed (simp_all add: nucleo_def convierte_def e a split: option.split)
qed

lemma previo_no_vacio: "aplica_previo en p v \<noteq> Inl []"
  by (cases p) (simp_all add: normalizar_archivos_s3_def auto_completar_fecha_creacion_def limpiar_id_def
      limpiar_espacios_y_caracteres_def normalizar_closed_date_def errores_no_vacios Let_def split: json.splits option.splits)

lemma posterior_no_vacio: "aplica_posterior en p v \<noteq> Inl []"
  by (cases p) (simp_all add: validar_rango_30_dias_created_date_def validar_formato_iso_fecha_def
      validar_nombre_no_vacio_def validar_formato_email_def picklist_def si_no_def contra_catalogo_def
      validar_picklist_cierre_def errores_no_vacios split: json.splits option.splits)

lemma posteriores_no_vacios: "posteriores en ps v \<noteq> Inl []"
  by (induction ps arbitrary: v) (auto simp: posterior_no_vacio split: sum.split)

lemma valida_campo_no_vacio: "valida_campo en pc d c \<noteq> Inl []"
  by (auto simp: valida_campo_def valida_valor_def errores_no_vacios previo_no_vacio posteriores_no_vacios
      split: option.splits sum.splits)

lemma valida_campos_Nil:
  "valida_campos en pc d cs = ([], q) \<Longrightarrow>
     map fst q = map cc_nombre cs \<and> list_all2 (\<lambda>c p. valida_campo en pc d c = Inr (snd p)) cs q"
  by (induction cs arbitrary: q) (auto simp: valida_campo_no_vacio split: prod.splits sum.splits)

lemma valida_campos_fijos:
  "(\<And>c. c \<in> set cs \<Longrightarrow> valida_campo en pc d c = Inr (f c)) \<Longrightarrow>
     valida_campos en pc d cs = ([], map (\<lambda>c. (cc_nombre c, f c)) cs)"
  by (induction cs) auto

subsection \<open>The environment\<close>

text \<open>The clock is coherent, the prefix is made of identifier characters, the labels are usable, and the defaults
of the schema and the label \<^verbatim>\<open>RUT\<close> are in the catalogs.\<close>

definition entorno_ok :: "entorno_crm \<Rightarrow> bool" where
  "entorno_ok en =
     (ahora_ok en \<and> etiquetas_ok en \<and> list_all de_identificador (en_prefijo en)
      \<and> ''RUT'' \<in> set (permitidos en ''tipo_id'') \<and> ''Colombia'' \<in> set (permitidos en ''codigo_pais'')
      \<and> ''Entidad vigilada'' \<in> set (permitidos en ''instancia_recepcion'')
      \<and> ''No Aplica'' \<in> set (permitidos en ''admision''))"

lemma entorno_etiquetas: "entorno_ok en \<Longrightarrow> c \<in> set campos_queja \<Longrightarrow>
    list_all (\<lambda>cat. list_all etiqueta_ok (permitidos en cat)) (catalogos_de c)"
  by (simp add: entorno_ok_def etiquetas_ok_def list_all_iff)

lemma hoy_valida: "ahora_ok en \<Longrightarrow> fecha_valida (en_hoy en)"
  by (auto simp: ahora_ok_def split: option.splits dest: fromisoformat_valida)

text \<open>The defaults comply.\<close>

lemma defectos_cumplen:
  assumes "entorno_ok en" "c \<in> set campos_queja" "cc_defecto c = Some v"
  shows "cumple en pc c v"
proof -
  have "list_all (\<lambda>c. case cc_defecto c of Some v \<Rightarrow> cumple en pc c v | None \<Rightarrow> True) campos_queja"
    using assms(1)
    by (simp add: entorno_ok_def campos_queja_def campos_momento2_def campos_unificada_def opcional_def requerido_def
        con_defecto_def cumple_def nucleo_ok_def en_catalogo_def)
  with assms show ?thesis by (auto simp: list_all_iff)
qed

lemma campos_validados_ok:
  assumes "entorno_ok en" "conversiones_ok pc" "valida_campos en pc d campos_queja = ([], q)"
  shows "claves q \<and> campos_ok en pc q"
proof -
  have q: "map fst q = map cc_nombre campos_queja" "list_all2 (\<lambda>c p. valida_campo en pc d c = Inr (snd p)) campos_queja q"
    using valida_campos_Nil [OF assms(3)] by auto
  have dist: "distinct (map fst q)" using q(1) nombres_distintos by simp
  have "cumple en pc (campos_queja ! i) (obtener q (cc_nombre (campos_queja ! i)))" if i: "i < length campos_queja" for i
  proof -
    let ?c = "campos_queja ! i"
    have len: "length q = length campos_queja" using q(2) by (simp add: list_all2_lengthD)
    have n: "fst (q ! i) = cc_nombre ?c" using q(1) i len by (metis nth_map)
    have v: "valida_campo en pc d ?c = Inr (snd (q ! i))" using q(2) i by (simp add: list_all2_conv_all_nth)
    have "map_of q (fst (q ! i)) = Some (snd (q ! i))"
      using dist i len by (intro map_of_is_SomeI) (auto simp: in_set_conv_nth)
    then have o: "obtener q (cc_nombre ?c) = snd (q ! i)" by (simp add: obtener_def n)
    have c: "?c \<in> set campos_queja" using i by simp
    show ?thesis
    proof (cases "map_of d (cc_nombre ?c)")
      case None
      with v o defectos_cumplen [OF assms(1) c] show ?thesis
        by (auto simp: valida_campo_def error_de_def split: option.splits)
    next
      case (Some x)
      with v have "valida_valor en pc ?c x = Inr (snd (q ! i))" by (simp add: valida_campo_def)
      moreover have "compatible ?c" using campos_compatibles c by (simp only: list_all_iff)
      ultimately show ?thesis
        unfolding o using valida_valor_cumple entorno_etiquetas [OF assms(1) c] assms(1,2) by (simp add: entorno_ok_def)
    qed
  qed
  then show ?thesis using q(1) by (simp add: claves_def campos_ok_def list_all_length)
qed

subsection \<open>The rules establish the form\<close>

lemma identificador_campo:
  assumes "campos_ok en pc q" "k \<in> {''Smart_Code__c'', ''Case_id''}" "campo_texto q k \<noteq> []"
  shows "list_all de_identificador (campo_texto q k)" "obtener q k = JStr (campo_texto q k)"
proof -
  have "opcional k CStr (Some 30) (Some LimpiarIdentificador) [] \<in> set campos_queja"
    using assms(2) by (auto simp: campos_queja_def campos_momento2_def)
  from campos_okD [OF assms(1) this]
  have "cumple en pc (opcional k CStr (Some 30) (Some LimpiarIdentificador) []) (obtener q k)" by (simp add: opcional_def)
  with assms(3) show "list_all de_identificador (campo_texto q k)" "obtener q k = JStr (campo_texto q k)"
    by (auto simp: cumple_def opcional_def campo_texto_def texto_opcional_def texto_o_vacio_def split: json.splits)
qed

lemma prefija_identificador:
  "list_all de_identificador p \<Longrightarrow> list_all de_identificador t \<Longrightarrow> list_all de_identificador (prefija p t)"
  by (simp add: prefija_def)

lemma prefija_empieza: "empieza p (prefija p t)"
  by (auto simp: prefija_def empieza_iff)

lemma prefija_no_vacia: "t \<noteq> [] \<Longrightarrow> prefija p t \<noteq> []"
  by (simp add: prefija_def)

lemma cumple_codigo:
  "t \<noteq> [] \<Longrightarrow> list_all de_identificador t \<Longrightarrow> caracteres t \<le> 30 \<Longrightarrow>
   cumple en pc (opcional k CStr (Some 30) (Some LimpiarIdentificador) []) (JStr t)"
  by (simp add: cumple_def opcional_def nucleo_ok_def)

text \<open>The code of the case.\<close>

lemma resolver_ok:
  assumes k: "claves q" "campos_ok en pc q" "list_all de_identificador (en_prefijo en)"
    and r: "resolver_y_armar_smart_code en q = Inr q1"
  shows "claves q1 \<and> campos_ok en pc q1 \<and> codigo_ok en q1
     \<and> (\<forall>n. n \<noteq> ''Smart_Code__c'' \<and> n \<noteq> ''Case_id'' \<longrightarrow> obtener q1 n = obtener q n)"
proof -
  let ?ci = "campo_texto q ''Case_id''" and ?smart = "campo_texto q ''Smart_Code__c''"
  let ?t = "if ?smart = [] then ?ci else ?smart" let ?c = "prefija (en_prefijo en) (strip ?t)"
  have ne: "?t \<noteq> []" and len: "caracteres ?c \<le> 30"
    and q1: "q1 = (if ?ci = [] then pon ''Case_id'' (JStr ?c) (pon ''Smart_Code__c'' (JStr ?c) q)
                   else pon ''Smart_Code__c'' (JStr ?c) q)"
    using r by (auto simp: resolver_y_armar_smart_code_def error_de_def Let_def split: if_splits)
  have id: "list_all de_identificador ?t" using identificador_campo(1) [OF k(2)] ne by (auto split: if_splits)
  then have st: "strip ?t = ?t" by (rule strip_identificador)
  have c: "list_all de_identificador ?c" "?c \<noteq> []"
    using prefija_identificador [OF k(3)] prefija_no_vacia ne id unfolding st by blast+
  have emp: "empieza (en_prefijo en) ?c" by (rule prefija_empieza)
  define codigo where "codigo = ?c"
  note C = q1 [folded codigo_def] c [folded codigo_def] len [folded codigo_def] emp [folded codigo_def]
  have m: "''Smart_Code__c'' \<in> set reescritas" "''Case_id'' \<in> set reescritas" by (simp_all add: reescritas_def)
  let ?q' = "pon ''Smart_Code__c'' (JStr codigo) q"
  have s: "campos_ok en pc ?q'"
    using campos_ok_pon [OF k(1,2) m(1)] campo_codigo [of "''Smart_Code__c''"] cumple_codigo [OF C(3,2,4)] by simp
  have s': "campos_ok en pc (pon ''Case_id'' (JStr codigo) ?q')"
    using campos_ok_pon [OF _ s m(2)] k(1) campo_codigo [of "''Case_id''"] cumple_codigo [OF C(3,2,4)] by simp
  have o: "obtener ?q' n = (if n = ''Smart_Code__c'' then JStr codigo else obtener q n)"
    "obtener (pon ''Case_id'' (JStr codigo) ?q') n = (if n = ''Case_id'' then JStr codigo else obtener ?q' n)" for n
    using obtener_pon_claves [OF _ m(2)] obtener_pon_claves [OF _ m(1)] k(1) by simp_all
  have t: "campo_texto x n = (case obtener x n of JStr u \<Rightarrow> u | _ \<Rightarrow> [])" for x n
    by (simp add: campo_texto_def texto_opcional_def texto_o_vacio_def split: json.split)
  show ?thesis
  proof (cases "?ci = []")
    case True
    then have "q1 = pon ''Case_id'' (JStr codigo) ?q'" using C(1) by simp
    then show ?thesis using k(1) s' C by (simp add: codigo_ok_def t o)
  next
    case False
    then have "q1 = ?q'" using C(1) by simp
    moreover have "campo_texto ?q' ''Case_id'' = ?ci" by (simp add: t o)
    ultimately show ?thesis using k(1) s C False by (simp add: codigo_ok_def t o)
  qed
qed

text \<open>The date of a closing.\<close>

lemma texto_JStr [simp]: "texto_o_vacio (texto_opcional (JStr t)) = t"
  by (simp add: texto_o_vacio_def texto_opcional_def)

lemma fecha_de_cierre:
  assumes "campos_ok en pc q" "campo_texto q ''ClosedDate'' \<noteq> []"
  shows "\<exists>f. date_fromisoformat (campo_texto q ''ClosedDate'') = Some f \<and> obtener q ''ClosedDate'' = JStr (fecha_texto f)"
proof -
  have "opcional ''ClosedDate'' CFecha None (Some FechaCierre) [] \<in> set campos_queja"
    by (simp add: campos_queja_def campos_unificada_def)
  from campos_okD [OF assms(1) this] assms(2) show ?thesis
    by (auto simp: cumple_def opcional_def nucleo_ok_def campo_texto_def texto_opcional_def texto_o_vacio_def
        split: json.splits option.splits)
qed

lemma closed_date_ok:
  assumes k: "claves q" "campos_ok en pc q" "fecha_valida (en_hoy en)" and r: "validar_closed_date en q = Inr q1"
  shows "claves q1 \<and> campos_ok en pc q1 \<and> (\<forall>n. n \<noteq> ''ClosedDate'' \<longrightarrow> obtener q1 n = obtener q n)
     \<and> (campo_texto q ''ClosedDate'' \<noteq> [] \<longrightarrow> q1 = q)
     \<and> (\<exists>f. date_fromisoformat (campo_texto q1 ''ClosedDate'') = Some f \<and> \<not> antes (en_hoy en) f
          \<and> toordinal (en_hoy en) \<le> toordinal f + 30
          \<and> (case fromisoformat (utc (campo_texto q ''CreatedDate'')) of Some i \<Rightarrow> \<not> antes f (i_fecha i) | None \<Rightarrow> True))"
proof -
  have m: "''ClosedDate'' \<in> set reescritas" by (simp add: reescritas_def)
  let ?p = "pon ''ClosedDate'' (JStr (fecha_texto (en_hoy en))) q"
  have f: "cumple en pc (opcional ''ClosedDate'' CFecha None (Some FechaCierre) []) (JStr (fecha_texto (en_hoy en)))"
    using k(3) by (simp add: cumple_def opcional_def nucleo_ok_def)
  have p: "campos_ok en pc ?p" using campos_ok_pon [OF k(1,2) m] campo_ClosedDate f by simp
  have o: "obtener ?p n = (if n = ''ClosedDate'' then JStr (fecha_texto (en_hoy en)) else obtener q n)" for n
    by (rule obtener_pon_claves [OF k(1) m])
  show ?thesis
  proof (cases "campo_texto q ''ClosedDate'' = []")
    case True
    with r have "q1 = ?p"
      by (auto simp: validar_closed_date_def error_de_def Let_def split: if_splits option.splits)
    with True r k p show ?thesis
      by (auto simp: validar_closed_date_def error_de_def Let_def o campo_texto_def split: if_splits option.splits)
  next
    case False
    with fecha_de_cierre [OF k(2)] obtain g where "date_fromisoformat (campo_texto q ''ClosedDate'') = Some g" by blast
    with False r k show ?thesis
      by (auto simp: validar_closed_date_def error_de_def Let_def split: if_splits option.splits)
  qed
qed

text \<open>A closing.\<close>

lemma cierre_establece:
  assumes k: "claves q" "campos_ok en pc q" "fecha_valida (en_hoy en)" and r: "validar_reglas_cierre en q = Inr q2"
  shows "claves q2 \<and> campos_ok en pc q2 \<and> cierre_ok en q2
     \<and> (\<forall>n. n \<notin> {''Status'', ''ClosedDate'', ''cuerpo_respuesta_final''} \<longrightarrow> obtener q2 n = obtener q n)
     \<and> (campo_texto q ''ClosedDate'' \<noteq> [] \<longrightarrow> obtener q2 ''ClosedDate'' = obtener q ''ClosedDate'')"
proof -
  have m: "''Status'' \<in> set reescritas" "''cuerpo_respuesta_final'' \<in> set reescritas" by (simp_all add: reescritas_def)
  have ml: "lower (strip ''Closed'') = ''closed''" "strip ''Closed'' = ''Closed''" by code_simp+
  define q1 where "q1 = (if lower (strip (campo_texto q ''Status'')) \<in> {''closed'', ''cerrado''} then q
    else pon ''Status'' (JStr ''Closed'') q)"
  have o1: "obtener q1 n = (if n = ''Status'' \<and> lower (strip (campo_texto q ''Status'')) \<notin> {''closed'', ''cerrado''}
      then JStr ''Closed'' else obtener q n)" for n
    using obtener_pon_claves [OF k(1) m(1)] by (simp add: q1_def)
  have "cumple en pc (opcional ''Status'' CStr None (Some LimpiarCierre) []) (JStr ''Closed'')"
    by (simp add: cumple_def opcional_def nucleo_ok_def ml)
  then have k1: "claves q1" "campos_ok en pc q1"
    using k campos_ok_pon [OF k(1,2) m(1)] campo_Status by (simp_all add: q1_def)
  have st: "lower (strip (campo_texto q1 ''Status'')) \<in> {''closed'', ''cerrado''}"
    using ml by (auto simp: campo_texto_def o1)
  note r' = r [unfolded validar_reglas_cierre_def Let_def, folded q1_def]
  obtain q3 where q3: "validar_closed_date en q1 = Inr q3"
    and fa: "campo_texto q ''Favorabilidad__c'' \<noteq> []" "campo_texto q ''Aceptacion__c'' \<noteq> []"
    and q2: "q2 = (if strip (campo_texto q3 ''cuerpo_respuesta_final'') = []
          then pon ''cuerpo_respuesta_final'' (JStr cuerpo_de_cierre) q3 else q3)"
    using r' by (auto simp: error_de_def split: if_splits sum.splits)
  note c = closed_date_ok [OF k1 k(3) q3]
  then have k3: "claves q3" "campos_ok en pc q3" by blast+
  have o3: "n \<noteq> ''ClosedDate'' \<Longrightarrow> obtener q3 n = obtener q1 n" for n using c by blast
  have o2: "obtener q2 n = (if n = ''cuerpo_respuesta_final'' \<and> strip (campo_texto q3 ''cuerpo_respuesta_final'') = []
      then JStr cuerpo_de_cierre else obtener q3 n)" for n
    using obtener_pon_claves [OF k3(1) m(2)] by (simp add: q2)
  have k2: "claves q2" "campos_ok en pc q2"
    using k3 campos_ok_pon [OF k3 m(2) campo_libre] by (simp_all add: q2)
  have cu: "strip cuerpo_de_cierre \<noteq> []"
    by (simp add: cuerpo_de_cierre_def) code_simp
  have "cierre_ok en q2"
    using c st fa cu
    by (auto simp: cierre_ok_def campo_texto_def o2 o3 o1 split: option.splits)
  moreover have "obtener q2 n = obtener q n" if "n \<notin> {''Status'', ''ClosedDate'', ''cuerpo_respuesta_final''}" for n
    using that by (simp add: o2 o3 o1)
  moreover have "obtener q2 ''ClosedDate'' = obtener q ''ClosedDate''" if "campo_texto q ''ClosedDate'' \<noteq> []"
  proof -
    have "campo_texto q1 ''ClosedDate'' \<noteq> []" using that by (simp add: campo_texto_def o1)
    with c have "q3 = q1" by blast
    then show ?thesis by (simp add: o2 o1)
  qed
  ultimately show ?thesis using k2 by blast
qed

text \<open>A fraud report.\<close>

lemma fraude_establece:
  assumes k: "claves q" "campos_ok en pc q" and r: "validar_reglas_fraude q = Inr q2"
  shows "claves q2 \<and> campos_ok en pc q2 \<and> fraude_ok q2 \<and> (\<forall>n. n \<noteq> ''nombre_archivo_fraude'' \<longrightarrow> obtener q2 n = obtener q n)"
proof -
  have m: "''nombre_archivo_fraude'' \<in> set reescritas" by (simp add: reescritas_def)
  have v: "obtener q ''card_amount__c'' \<noteq> JNull" "obtener q ''Total_Devuelto_por_Desconocimiento__c'' \<noteq> JNull"
    using r by (auto simp: validar_reglas_fraude_def error_de_def Let_def split: if_splits)
  consider (igual) "q2 = q" "strip (campo_texto q ''directorio_s3'') \<noteq> []
        \<or> campo_texto q ''nombre_archivo_fraude'' \<noteq> [] \<and> obtener q ''nombre_archivo_fraude'' \<in> set (map nombre_de_archivo (adjuntos_de q))"
    | (uno) a where "adjuntos_de q = [a]" "q2 = pon ''nombre_archivo_fraude'' (nombre_de_archivo a) q"
  proof (cases "strip (campo_texto q ''directorio_s3'') \<noteq> []")
    case True
    with r v igual show ?thesis by (simp add: validar_reglas_fraude_def error_de_def Let_def)
  next
    case dir: False
    show ?thesis
    proof (cases "campo_texto q ''nombre_archivo_fraude'' = []")
      case True
      with r v dir have "(case adjuntos_de q of [a] \<Rightarrow> Inr (pon ''nombre_archivo_fraude'' (nombre_de_archivo a) q)
          | _ \<Rightarrow> error_de ''Value error, Es obligatorio especificar nombre_archivo_fraude'') = Inr q2"
        by (simp add: validar_reglas_fraude_def error_de_def Let_def split: if_splits)
      then show ?thesis using uno by (simp add: error_de_def split: list.splits)
    next
      case False
      with r v dir igual show ?thesis by (simp add: validar_reglas_fraude_def error_de_def Let_def split: if_splits)
    qed
  qed
  then show ?thesis
  proof cases
    case igual
    with k v show ?thesis by (simp add: fraude_ok_def presente_def)
  next
    case uno
    have "archivo_ok a" using campo_archivos [OF k(2)] uno(1) by simp
    then obtain t where t': "nombre_de_archivo a = JStr t" "0 < caracteres t"
      by (cases a) (auto simp: archivo_ok_def errores_archivo_def nombre_de_archivo_def campos_archivo_def obtener_def
          texto_acotado_def error_de_def split: option.splits json.splits if_splits)
    then have t: "nombre_de_archivo a = JStr t" "t \<noteq> []" by auto
    have o: "obtener q2 n = (if n = ''nombre_archivo_fraude'' then JStr t else obtener q n)" for n
      using obtener_pon_claves [OF k(1) m] uno(2) t by simp
    have "campos_ok en pc q2" using campos_ok_pon [OF k m campo_libre] uno(2) t by simp
    moreover have "adjuntos_de q2 = adjuntos_de q" by (simp add: adjuntos_de_def o)
    moreover have "claves q2" using k uno(2) by simp
    ultimately show ?thesis using uno(1) t v by (simp add: fraude_ok_def presente_def campo_texto_def o)
  qed
qed

subsection \<open>Accepted means well formed\<close>

text \<open>The predicates of the form read the dictionary only through \<open>obtener\<close>.\<close>

lemma es_cierre_cong:
  "(\<And>n. n \<in> {''Status'', ''ClosedDate'', ''Favorabilidad__c'', ''Aceptacion__c''} \<Longrightarrow> obtener q n = obtener q' n) \<Longrightarrow>
   es_cierre_de q = es_cierre_de q'"
  by (simp add: es_cierre_de_def)

lemma es_fraude_cong:
  "(\<And>n. n \<in> {''tipo_fraude__c'', ''modalidad_fraude__c''} \<Longrightarrow> obtener q n = obtener q' n) \<Longrightarrow> es_fraude_de q = es_fraude_de q'"
  by (simp add: es_fraude_de_def presente_def)

lemma cierre_ok_cong:
  "(\<And>n. n \<in> {''Status'', ''ClosedDate'', ''Favorabilidad__c'', ''Aceptacion__c'', ''CreatedDate'', ''cuerpo_respuesta_final''} \<Longrightarrow>
     obtener q n = obtener q' n) \<Longrightarrow> cierre_ok en q = cierre_ok en q'"
  by (simp add: cierre_ok_def campo_texto_def cong: option.case_cong)

lemma codigo_ok_cong:
  "(\<And>n. n \<in> {''Smart_Code__c'', ''Case_id''} \<Longrightarrow> obtener q n = obtener q' n) \<Longrightarrow> codigo_ok en q = codigo_ok en q'"
  by (simp add: codigo_ok_def campo_texto_def)

lemma reglas_establecen:
  assumes k: "claves q" "campos_ok en pc q" "fecha_valida (en_hoy en)" "codigo_ok en q"
    and r: "validar_reglas_segun_datos_presentes en q = Inr q2"
  shows "bien_formada en pc q2
    \<and> (\<forall>n. n \<notin> {''Status'', ''ClosedDate'', ''cuerpo_respuesta_final'', ''nombre_archivo_fraude''} \<longrightarrow> obtener q2 n = obtener q n)
    \<and> (campo_texto q ''ClosedDate'' \<noteq> [] \<longrightarrow> obtener q2 ''ClosedDate'' = obtener q ''ClosedDate'')
    \<and> (es_cierre_de q \<longrightarrow> cierre_ok en q2)"
proof -
  obtain q1 where q1: "(if es_cierre_de q then validar_reglas_cierre en q else Inr q) = Inr q1"
      "(if es_fraude_de q then validar_reglas_fraude q1 else Inr q1) = Inr q2"
    using r unfolding validar_reglas_segun_datos_presentes_def by (cases "if es_cierre_de q then validar_reglas_cierre en q else Inr q") auto
  have c: "claves q1 \<and> campos_ok en pc q1 \<and> (es_cierre_de q \<longrightarrow> cierre_ok en q1)
      \<and> (\<forall>n. n \<notin> {''Status'', ''ClosedDate'', ''cuerpo_respuesta_final''} \<longrightarrow> obtener q1 n = obtener q n)
      \<and> (campo_texto q ''ClosedDate'' \<noteq> [] \<longrightarrow> obtener q1 ''ClosedDate'' = obtener q ''ClosedDate'')
      \<and> (\<not> es_cierre_de q \<longrightarrow> q1 = q)"
  proof (cases "es_cierre_de q")
    case True
    with q1(1) have "validar_reglas_cierre en q = Inr q1" by simp
    from cierre_establece [OF k(1-3) this] True show ?thesis by blast
  next
    case False
    with q1(1) k show ?thesis by simp
  qed
  have f: "claves q2 \<and> campos_ok en pc q2 \<and> (es_fraude_de q \<longrightarrow> fraude_ok q2)
      \<and> (\<forall>n. n \<noteq> ''nombre_archivo_fraude'' \<longrightarrow> obtener q2 n = obtener q1 n)"
  proof (cases "es_fraude_de q")
    case True
    with q1(2) have "validar_reglas_fraude q1 = Inr q2" by simp
    moreover have "claves q1" "campos_ok en pc q1" using c by simp_all
    ultimately show ?thesis using fraude_establece [of q1 en pc q2] True by simp
  next
    case False
    with q1(2) c show ?thesis by simp
  qed
  have o: "obtener q2 n = obtener q1 n" if "n \<noteq> ''nombre_archivo_fraude''" for n using f that by blast
  have o1: "obtener q1 n = obtener q n" if "n \<notin> {''Status'', ''ClosedDate'', ''cuerpo_respuesta_final''}" for n
    using c that by blast
  have fr: "es_fraude_de q2 = es_fraude_de q" by (rule es_fraude_cong) (auto simp: o o1)
  have ci: "es_cierre_de q2 = es_cierre_de q1" by (rule es_cierre_cong) (auto simp: o)
  have ck: "cierre_ok en q2 = cierre_ok en q1" by (rule cierre_ok_cong) (auto simp: o)
  have "codigo_ok en q2 = codigo_ok en q" by (rule codigo_ok_cong) (auto simp: o o1)
  with k(4) have co: "codigo_ok en q2" by simp
  have "es_cierre_de q1 \<longrightarrow> cierre_ok en q1" using c by blast
  then have "bien_formada en pc q2"
    using f co fr ci ck by (simp add: bien_formada_def claves_def campos_ok_def)
  then show ?thesis using c o o1 ck by auto
qed

text \<open>The three stages of an accepted complaint.\<close>

lemma aceptada_partes:
  assumes "QuejaUnificadaCrmInput en pc d = Inr q"
  obtains q0 q1 where "valida_campos en pc d campos_queja = ([], q0)" "resolver_y_armar_smart_code en q0 = Inr q1"
    "validar_reglas_segun_datos_presentes en q1 = Inr q" "campos_desconocidos campos_queja d = []"
proof -
  obtain es q0 where v: "valida_campos en pc d campos_queja = (es, q0)" by (cases "valida_campos en pc d campos_queja")
  with assms have "es = []" "campos_desconocidos campos_queja d = []"
    by (auto simp: QuejaUnificadaCrmInput_def Let_def split: if_splits)
  with v assms that show ?thesis
    by (auto simp: QuejaUnificadaCrmInput_def Let_def split: sum.splits)
qed

lemma aceptada_etapas:
  assumes "entorno_ok en" "conversiones_ok pc" "QuejaUnificadaCrmInput en pc d = Inr q"
  shows "\<exists>q0. valida_campos en pc d campos_queja = ([], q0) \<and> bien_formada en pc q
    \<and> (\<forall>n. n \<notin> set reescritas \<longrightarrow> obtener q n = obtener q0 n)
    \<and> (campo_texto q0 ''ClosedDate'' \<noteq> [] \<longrightarrow> obtener q ''ClosedDate'' = obtener q0 ''ClosedDate'' \<and> cierre_ok en q)"
proof -
  obtain q0 q1 where p: "valida_campos en pc d campos_queja = ([], q0)" "resolver_y_armar_smart_code en q0 = Inr q1"
      "validar_reglas_segun_datos_presentes en q1 = Inr q"
    using aceptada_partes [OF assms(3)] by metis
  have e: "list_all de_identificador (en_prefijo en)" "fecha_valida (en_hoy en)"
    using assms(1) hoy_valida by (auto simp: entorno_ok_def)
  have "claves q0" "campos_ok en pc q0" using campos_validados_ok [OF assms(1,2) p(1)] by blast+
  note r = resolver_ok [OF this e(1) p(2)]
  have r1: "claves q1" "campos_ok en pc q1" "codigo_ok en q1" using r by blast+
  note f = reglas_establecen [OF r1(1,2) e(2) r1(3) p(3)]
  have o: "obtener q n = obtener q0 n" if "n \<notin> set reescritas" for n using that r f by (simp add: reescritas_def)
  have c: "obtener q1 ''ClosedDate'' = obtener q0 ''ClosedDate''" using r by simp
  have "obtener q ''ClosedDate'' = obtener q0 ''ClosedDate'' \<and> cierre_ok en q" if ne: "campo_texto q0 ''ClosedDate'' \<noteq> []"
  proof -
    have ne1: "campo_texto q1 ''ClosedDate'' \<noteq> []" using ne c by (simp add: campo_texto_def)
    then have "es_cierre_de q1" by (auto simp: es_cierre_de_def es_estado_cierre_def campo_texto_def texto_opcional_def
          texto_o_vacio_def Let_def split: json.splits)
    with f ne1 c show ?thesis by simp
  qed
  with p(1) o f show ?thesis by blast
qed

text \<open>
  C26. Accepted means well formed. Whatever body the CRM sends, if the schema accepts it then the complaint has
  every field of the schema and nothing else, and: its code starts with the prefix of the entity, has at most
  30 characters and, as the case number, only letters, digits and hyphens; the name, address and description
  have no tag left; the document number is alphanumeric; every selection is a label of its catalog (or blank);
  a date of creation lies in the last thirty days; a closing is in state Closed with its two results, a body and
  a closing date in the last thirty days that is not before the creation; and a fraud report has its two amounts
  and names a file that was sent (or a directory).
\<close>

theorem aceptada_bien_formada:
  assumes "entorno_ok en" "conversiones_ok pc" "QuejaUnificadaCrmInput en pc d = Inr q"
  shows "bien_formada en pc q"
  using aceptada_etapas [OF assms] by blast

subsection \<open>What waits in the queue rehydrates to itself\<close>

lemma resolver_fijo:
  assumes "claves q" "campos_ok en pc q" "codigo_ok en q"
  shows "resolver_y_armar_smart_code en q = Inr q"
proof -
  have s: "campo_texto q ''Smart_Code__c'' \<noteq> []" using assms(3) by (simp add: codigo_ok_def)
  note i = identificador_campo [OF assms(2) _ s, simplified]
  have st: "strip (campo_texto q ''Smart_Code__c'') = campo_texto q ''Smart_Code__c''"
    using i(1) by (rule strip_identificador)
  have "distinct (map fst q)" using assms(1) nombres_distintos by (simp add: claves_def)
  then have "pon ''Smart_Code__c'' (JStr (campo_texto q ''Smart_Code__c'')) q = q" using i(2) by (rule pon_igual)
  moreover have "prefija (en_prefijo en) (campo_texto q ''Smart_Code__c'') = campo_texto q ''Smart_Code__c''"
    using assms(3) by (simp add: codigo_ok_def prefija_def)
  ultimately show ?thesis
    using assms(3) s by (simp add: resolver_y_armar_smart_code_def codigo_ok_def Let_def st)
qed

lemma cierre_con_fecha: "cierre_ok en q \<Longrightarrow> campo_texto q ''ClosedDate'' \<noteq> []"
proof
  assume "cierre_ok en q" "campo_texto q ''ClosedDate'' = []"
  then show False by (simp add: cierre_ok_def date_fromisoformat_def lee_fecha_def digitos_def)
qed

lemma cierre_fijo: "cierre_ok en q \<Longrightarrow> validar_reglas_cierre en q = Inr q"
proof -
  assume c: "cierre_ok en q"
  then obtain f where f: "date_fromisoformat (campo_texto q ''ClosedDate'') = Some f" "\<not> antes (en_hoy en) f"
      "toordinal (en_hoy en) \<le> toordinal f + 30"
      "(case fromisoformat (utc (campo_texto q ''CreatedDate'')) of Some i \<Rightarrow> \<not> antes f (i_fecha i) | None \<Rightarrow> True)"
    by (auto simp: cierre_ok_def split: option.splits)
  have n: "campo_texto q ''ClosedDate'' \<noteq> []" using cierre_con_fecha [OF c] .
  have "validar_closed_date en q = Inr q"
    using f n by (auto simp: validar_closed_date_def error_de_def Let_def split: option.splits)
  with c show ?thesis by (auto simp: cierre_ok_def validar_reglas_cierre_def Let_def)
qed

lemma fraude_fijo: "fraude_ok q \<Longrightarrow> validar_reglas_fraude q = Inr q"
  by (auto simp: fraude_ok_def validar_reglas_fraude_def presente_def Let_def)

lemma reglas_fijas: "bien_formada en pc q \<Longrightarrow> validar_reglas_segun_datos_presentes en q = Inr q"
  by (simp add: bien_formada_def validar_reglas_segun_datos_presentes_def cierre_fijo fraude_fijo)

lemma valida_fija:
  assumes "entorno_ok en" "conversiones_ok pc" "claves q" "campos_ok en pc q" "c \<in> set campos_queja"
    and "\<not> se_reescribe c (obtener q (cc_nombre c))"
  shows "valida_campo en pc q c = Inr (obtener q (cc_nombre c))"
proof -
  have "compatible c" using campos_compatibles assms(5) by (simp only: list_all_iff)
  then have "valida_valor en pc c (obtener q (cc_nombre c)) = Inr (obtener q (cc_nombre c))"
    using cumple_valida_valor [OF _ assms(2) campos_okD [OF assms(4,5)] assms(6) entorno_etiquetas [OF assms(1,5)]] assms(1)
    by (simp add: entorno_ok_def)
  moreover have "cc_nombre c \<in> fst ` set q"
    using assms(3,5) by (metis claves_def image_eqI list.set_map)
  then have "map_of q (cc_nombre c) = Some (obtener q (cc_nombre c))"
    by (cases "map_of q (cc_nombre c)") (simp_all add: obtener_def map_of_eq_None_iff)
  ultimately show ?thesis by (simp add: valida_campo_def)
qed

lemma sin_desconocidos: "claves q \<Longrightarrow> campos_desconocidos campos_queja q = []"
proof -
  assume k: "claves q"
  have "fst p \<in> set (map cc_nombre campos_queja)" if "p \<in> set q" for p
    using that unfolding k [unfolded claves_def, symmetric] by simp
  then have "filter (\<lambda>(k, _). k \<notin> set (map cc_nombre campos_queja)) q = []"
    by (intro filter_False) (simp only: case_prod_beta not_not, blast)
  then show ?thesis by (simp only: campos_desconocidos_def list.map)
qed

lemma campos_fijos:
  assumes "entorno_ok en" "conversiones_ok pc" "claves q" "campos_ok en pc q"
    and "list_all (\<lambda>c. \<not> se_reescribe c (obtener q (cc_nombre c))) campos_queja"
  shows "valida_campos en pc q campos_queja = ([], q)"
proof -
  have "valida_campos en pc q campos_queja = ([], map (\<lambda>c. (cc_nombre c, obtener q (cc_nombre c))) campos_queja)"
    by (rule valida_campos_fijos, rule valida_fija [OF assms(1-4)]) (use assms(5) in \<open>auto simp: list_all_iff\<close>)
  moreover have "map (\<lambda>c. (cc_nombre c, obtener q (cc_nombre c))) campos_queja = q"
  proof (rule nth_equalityI)
    have l: "length q = length campos_queja" using arg_cong [OF assms(3) [unfolded claves_def], of length] by simp
    then show "length (map (\<lambda>c. (cc_nombre c, obtener q (cc_nombre c))) campos_queja) = length q" by simp
    fix i assume i: "i < length (map (\<lambda>c. (cc_nombre c, obtener q (cc_nombre c))) campos_queja)"
    have n: "cc_nombre (campos_queja ! i) = fst (q ! i)"
      using arg_cong [OF assms(3) [unfolded claves_def], of "\<lambda>xs. xs ! i"] i l by simp
    have d: "distinct (map fst q)" using assms(3) nombres_distintos by (simp add: claves_def)
    have "map_of q (fst (q ! i)) = Some (snd (q ! i))"
      using d i l by (intro map_of_is_SomeI) (auto simp: in_set_conv_nth)
    then show "map (\<lambda>c. (cc_nombre c, obtener q (cc_nombre c))) campos_queja ! i = q ! i"
      using i by (simp add: n obtener_def)
  qed
  ultimately show ?thesis by simp
qed

text \<open>The two fields that a second validation may rewrite.\<close>

definition reescribibles :: "dict \<Rightarrow> bool" where
  "reescribibles q =
     (obtener q ''CreatedDate'' = JNull \<or> lower (campo_texto q ''SC_id_type__c'') \<in> {''nit'', ''n.i.t.''})"

lemma no_reescribibles:
  "\<not> reescribibles q \<Longrightarrow> list_all (\<lambda>c. \<not> se_reescribe c (obtener q (cc_nombre c))) campos_queja"
  by (auto simp: reescribibles_def campos_queja_def campos_momento2_def campos_unificada_def opcional_def requerido_def
      con_defecto_def se_reescribe_def campo_texto_def)

lemma rehidrata:
  assumes "entorno_ok en" "conversiones_ok pc" "bien_formada en pc q" "\<not> reescribibles q"
  shows "QuejaUnificadaCrmInput en pc q = Inr q"
proof -
  have k: "claves q" "campos_ok en pc q" "codigo_ok en q"
    using assms(3) by (simp_all add: bien_formada_def claves_def campos_ok_def)
  show ?thesis
    using campos_fijos [OF assms(1,2) k(1,2) no_reescribibles [OF assms(4)]] sin_desconocidos [OF k(1)]
      resolver_fijo [OF k] reglas_fijas [OF assms(3)]
    by (simp add: QuejaUnificadaCrmInput_def)
qed

text \<open>
  C27. What waits in the queue rehydrates to itself. The complaints that validation leaves exactly as they are are
  the well-formed ones: a second validation, by the worker on any later day, of a complaint that was accepted gives
  the same complaint as long as its dates are within their thirty days and its labels in the catalogs, and refuses
  or changes it otherwise. Outside the statement are the two fields that a second validation may rewrite: a null
  date of creation and a document type that reads NIT.
\<close>

theorem rehidrata_a_si_misma:
  assumes "entorno_ok en" "conversiones_ok pc" "\<not> reescribibles q"
  shows "QuejaUnificadaCrmInput en pc q = Inr q \<longleftrightarrow> bien_formada en pc q"
  using rehidrata [OF assms(1,2) _ assms(3)] aceptada_etapas [OF assms(1,2)] by blast

subsection \<open>The closing that does not rehydrate\<close>

text \<open>The fields of an accepted complaint, validated again on another day.\<close>

lemma campos_de_nuevo:
  assumes "entorno_ok en" "conversiones_ok pc" "claves q" "valida_campos en pc q campos_queja = ([], q')"
    and "c \<in> set campos_queja"
  shows "valida_valor en pc c (obtener q (cc_nombre c)) = Inr (obtener q' (cc_nombre c))"
proof -
  have l: "map fst q' = map cc_nombre campos_queja" "list_all2 (\<lambda>c p. valida_campo en pc q c = Inr (snd p)) campos_queja q'"
    using valida_campos_Nil [OF assms(4)] by auto
  obtain i where i: "i < length campos_queja" "c = campos_queja ! i" using assms(5) by (metis in_set_conv_nth)
  have len: "length q' = length campos_queja" using l(2) by (simp add: list_all2_lengthD)
  have "map_of q' (fst (q' ! i)) = Some (snd (q' ! i))"
    using l(1) nombres_distintos i(1) len by (intro map_of_is_SomeI) (auto simp: in_set_conv_nth)
  moreover have "fst (q' ! i) = cc_nombre c" using arg_cong [OF l(1), of "\<lambda>xs. xs ! i"] i len by simp
  ultimately have o: "obtener q' (cc_nombre c) = snd (q' ! i)" by (simp add: obtener_def)
  have "cc_nombre c \<in> set (map fst q)" using assms(3,5) by (simp add: claves_def)
  then have "map_of q (cc_nombre c) = Some (obtener q (cc_nombre c))"
    by (cases "map_of q (cc_nombre c)") (simp_all add: obtener_def map_of_eq_None_iff)
  moreover have "valida_campo en pc q c = Inr (snd (q' ! i))" using l(2) i by (simp add: list_all2_conv_all_nth)
  ultimately show ?thesis by (simp add: valida_campo_def o)
qed

lemma campo_ausente:
  assumes "valida_campos en pc d campos_queja = ([], q)" "c \<in> set campos_queja" "map_of d (cc_nombre c) = None"
    "cc_defecto c = Some v"
  shows "obtener q (cc_nombre c) = v"
proof -
  have l: "map fst q = map cc_nombre campos_queja" "list_all2 (\<lambda>c p. valida_campo en pc d c = Inr (snd p)) campos_queja q"
    using valida_campos_Nil [OF assms(1)] by auto
  obtain i where i: "i < length campos_queja" "c = campos_queja ! i" using assms(2) by (metis in_set_conv_nth)
  have len: "length q = length campos_queja" using l(2) by (simp add: list_all2_lengthD)
  have "map_of q (fst (q ! i)) = Some (snd (q ! i))"
    using l(1) nombres_distintos i(1) len by (intro map_of_is_SomeI) (auto simp: in_set_conv_nth)
  moreover have "fst (q ! i) = cc_nombre c" using arg_cong [OF l(1), of "\<lambda>xs. xs ! i"] i len by simp
  moreover have "valida_campo en pc d c = Inr (snd (q ! i))" using l(2) i by (simp add: list_all2_conv_all_nth)
  ultimately show ?thesis using assms(3,4) by (simp add: valida_campo_def obtener_def)
qed

definition campo_creacion :: campo_crm where
  "campo_creacion = opcional ''CreatedDate'' CStr None (Some CompletarFecha) [RangoCreacion, FormatoIso]"

definition campo_cierre :: campo_crm where
  "campo_cierre = opcional ''ClosedDate'' CFecha None (Some FechaCierre) []"

lemma creacion_ahora:
  "valida_valor en pc campo_creacion JNull = Inr v \<Longrightarrow> v = JStr (en_ahora en)"
  by (auto simp: valida_valor_def campo_creacion_def opcional_def auto_completar_fecha_creacion_def verdadero_def nucleo_def
      validar_rango_30_dias_created_date_def validar_formato_iso_fecha_def error_de_def
      split: sum.splits option.splits if_splits)

lemma cierre_igual:
  "conversiones_ok pc \<Longrightarrow> cumple en pc campo_cierre v \<Longrightarrow> valida_valor en' pc campo_cierre v = Inr v"
  using previo_fija [of FechaCierre v en'] nucleo_fija [of pc CFecha True None v]
  by (simp add: cumple_def campo_cierre_def opcional_def valida_valor_def)

text \<open>
  A closing without a date of creation dies in the queue. If the CRM closes a case without sending
  \<^verbatim>\<open>CreatedDate\<close>, the schema accepts it, but from the next day on the same complaint, read back from the queue, is
  refused: its null date of creation is filled with the instant of the retry, which is later than its closing date.
\<close>

theorem cierre_sin_creacion_no_rehidrata:
  assumes "entorno_ok en" "conversiones_ok pc" "QuejaUnificadaCrmInput en pc d = Inr q"
    and "map_of d ''CreatedDate'' = None" "es_cierre_de q"
    and "entorno_ok en'" "antes (en_hoy en) (en_hoy en')"
  shows "\<exists>es. QuejaUnificadaCrmInput en' pc q = Inl (ErrorValidacion es)"
proof (rule ccontr)
  assume "\<nexists>es. QuejaUnificadaCrmInput en' pc q = Inl (ErrorValidacion es)"
  then obtain q' where q': "QuejaUnificadaCrmInput en' pc q = Inr q'"
    by (auto simp: QuejaUnificadaCrmInput_def Let_def split: prod.splits sum.splits if_splits)
  obtain q1 where q1: "valida_campos en pc d campos_queja = ([], q1)" "bien_formada en pc q"
      "\<forall>n. n \<notin> set reescritas \<longrightarrow> obtener q n = obtener q1 n"
    using aceptada_etapas [OF assms(1-3)] by blast
  then have k: "claves q" "campos_ok en pc q" "cierre_ok en q"
    using assms(5) by (auto simp: bien_formada_def claves_def campos_ok_def)
  have ne: "campo_texto q ''ClosedDate'' \<noteq> []" using cierre_con_fecha [OF k(3)] .
  have mem: "campo_creacion \<in> set campos_queja" "campo_cierre \<in> set campos_queja"
    by (simp_all add: campo_creacion_def campo_cierre_def campos_queja_def campos_momento2_def campos_unificada_def)
  have nom: "cc_nombre campo_creacion = ''CreatedDate''" "cc_nombre campo_cierre = ''ClosedDate''"
    by (simp_all add: campo_creacion_def campo_cierre_def opcional_def)
  have "obtener q1 ''CreatedDate'' = JNull"
    using campo_ausente [OF q1(1) mem(1), of JNull] assms(4) nom(1) by (simp add: campo_creacion_def opcional_def)
  then have nulo: "obtener q ''CreatedDate'' = JNull" using q1(3) by (simp add: reescritas_def)
  obtain q0 where p: "valida_campos en' pc q campos_queja = ([], q0)" "bien_formada en' pc q'"
      "\<forall>n. n \<notin> set reescritas \<longrightarrow> obtener q' n = obtener q0 n"
      "campo_texto q0 ''ClosedDate'' \<noteq> [] \<longrightarrow> obtener q' ''ClosedDate'' = obtener q0 ''ClosedDate'' \<and> cierre_ok en' q'"
    using aceptada_etapas [OF assms(6,2) q'] by blast
  have "obtener q0 ''CreatedDate'' = JStr (en_ahora en')"
    using campos_de_nuevo [OF assms(6,2) k(1) p(1) mem(1)] nom nulo creacion_ahora by simp
  then have c: "obtener q' ''CreatedDate'' = JStr (en_ahora en')" using p(3) by (simp add: reescritas_def)
  have d0: "obtener q0 ''ClosedDate'' = obtener q ''ClosedDate''"
    using campos_de_nuevo [OF assms(6,2) k(1) p(1) mem(2)] nom cierre_igual [OF assms(2) campos_okD [OF k(2) mem(2)], of en'] by simp
  then have "campo_texto q0 ''ClosedDate'' \<noteq> []" using ne by (simp add: campo_texto_def)
  with p(4) d0 have d: "obtener q' ''ClosedDate'' = obtener q ''ClosedDate''" "cierre_ok en' q'" by auto
  obtain f where f: "date_fromisoformat (campo_texto q ''ClosedDate'') = Some f" "\<not> antes (en_hoy en) f"
    using k(3) by (auto simp: cierre_ok_def split: option.splits)
  obtain i where i: "fromisoformat (utc (en_ahora en')) = Some i" "i_fecha i = en_hoy en'"
    using assms(6) by (auto simp: entorno_ok_def ahora_ok_def split: option.splits)
  have "\<not> antes f (en_hoy en')" using d c f(1) i by (simp add: cierre_ok_def campo_texto_def)
  with f(2) assms(7) show False by (auto simp: antes_def)
qed

end
