(* ===== verification/Esquema_Ejemplos.thy ===== *)
theory Esquema_Ejemplos
  imports Esquema_Queja Mapeo_Propiedades
begin

text \<open>Concrete complaints, on which the properties of the schema are applied.\<close>

definition catalogos_ej :: "(string \<times> catalogo) list" where
  "catalogos_ej =
     [(''tipo_id'', [(''1'', ''CC''), (''3'', ''RUT'')]), (''codigo_pais'', [(''170'', ''Colombia'')]),
      (''instancia_recepcion'', [(''2'', ''Entidad vigilada'')]), (''admision'', [(''9'', ''No Aplica'')]),
      (''persona'', [(''1'', ''B2C'')]), (''punto_recepcion'', [(''1'', ''Web'')]), (''producto'', [(''207_1'', ''Otro'')]),
      (''macro_motivo'', [(''940'', ''Otros'')]), (''favorabilidad'', [(''1'', ''Favorable'')]),
      (''aceptacion'', [(''1'', ''Aceptada'')])]"

definition entorno_ej :: "nat \<Rightarrow> entorno_crm" where
  "entorno_ej d =
     \<lparr>en_hoy = \<lparr>anio = 2026, mes = 8, dia = d\<rparr>, en_ahora = fecha_texto \<lparr>anio = 2026, mes = 8, dia = d\<rparr> @ ''T09:00:00'', en_prefijo = ''1286'',
      en_mapa = mapeador_vacio\<lparr>CATALOGOS := catalogos_ej\<rparr>, en_catalogos = None, en_divipola = None, en_orden = id\<rparr>"

definition pydantic_ej :: pydantic where
  "pydantic_ej =
     \<lparr>pc_bool = (\<lambda>v. case v of JBool b \<Rightarrow> Some b | _ \<Rightarrow> None), pc_float = (\<lambda>v. case v of JFloat t \<Rightarrow> Some t | _ \<Rightarrow> None),
      pc_int = (\<lambda>v. case v of JInt i \<Rightarrow> Some i | _ \<Rightarrow> None), pc_fecha = (\<lambda>v. None), pc_no_negativo = (\<lambda>t. True)\<rparr>"

lemma pydantic_ej_ok: "conversiones_ok pydantic_ej"
  by (simp add: conversiones_ok_def pydantic_ej_def split: json.split)

definition cruda_ej :: dict where
  "cruda_ej =
     [(''Case_id'', JStr ''A1''), (''SuppliedName'', JStr ''Ana''), (''SC_id_type__c'', JStr ''CC''), (''id_number__c'', JStr ''10-20''),
      (''tipo_de_persona__c'', JStr ''b2c''), (''direccion__c'', JStr '' ''), (''punto_recepcion'', JStr ''Web''),
      (''Description'', JStr ''<b>No''), (''Product__c'', JStr ''Otro''), (''Categorias_COL__c'', JStr ''Otros'')]"

definition cierre_ej :: dict where
  "cierre_ej = cruda_ej @ [(''Favorabilidad__c'', JStr ''Favorable''), (''Aceptacion__c'', JStr ''Aceptada'')]"

definition volcado :: "dict \<Rightarrow> dict" where
  "volcado d = map (\<lambda>c. (cc_nombre c, case map_of d (cc_nombre c) of Some v \<Rightarrow> v
      | None \<Rightarrow> (case cc_defecto c of Some v \<Rightarrow> v | None \<Rightarrow> JNull))) campos_queja"
definition limpia_ej :: dict where
  "limpia_ej = 
     [(''Case_id'', JStr ''A1''), (''SuppliedName'', JStr ''Ana''), (''SC_id_type__c'', JStr ''CC''), (''id_number__c'', JStr ''1020''),
      (''tipo_de_persona__c'', JStr ''B2C''), (''direccion__c'', JStr direccion_no_registrada), (''punto_recepcion'', JStr ''Web''),
      (''Description'', JStr ''No''), (''Product__c'', JStr ''Otro''), (''Categorias_COL__c'', JStr ''Otros''),
      (''Favorabilidad__c'', JStr ''Favorable''), (''Aceptacion__c'', JStr ''Aceptada'')]"
lemma cierre_ej_campos: "valida_campos (entorno_ej 26) pydantic_ej cierre_ej campos_queja = ([], volcado limpia_ej)" by code_simp
lemma cierre_ej_conocidos: "campos_desconocidos campos_queja cierre_ej = []" by code_simp
definition armada_ej where "armada_ej = (''Smart_Code__c'', JStr ''1286A1'') # limpia_ej"
lemma limpia_ej_codigos: "campo_texto (volcado limpia_ej) ''Case_id'' = ''A1'' \<and> campo_texto (volcado limpia_ej) ''Smart_Code__c'' = []" by code_simp
lemma limpia_ej_armada: "pon ''Smart_Code__c'' (JStr ''1286A1'') (volcado limpia_ej) = volcado armada_ej" by code_simp
lemma codigo_ej: "prefija ''1286'' (strip ''A1'') = ''1286A1'' \<and> caracteres ''1286A1'' = 6" by code_simp
lemma cierre_ej_resuelto: "resolver_y_armar_smart_code (entorno_ej 26) (volcado limpia_ej) = Inr (volcado armada_ej)"
  using limpia_ej_codigos codigo_ej by (simp add: resolver_y_armar_smart_code_def entorno_ej_def limpia_ej_armada)
definition cerrada_ej where "cerrada_ej = (''Status'', JStr ''Closed'') # (''ClosedDate'', JStr ''2026-08-26'') # armada_ej"
lemma armada_ej_lecturas: "campo_texto (volcado armada_ej) ''Status'' = [] \<and> campo_texto (volcado armada_ej) ''Favorabilidad__c'' = ''Favorable''
  \<and> campo_texto (volcado armada_ej) ''Aceptacion__c'' = ''Aceptada'' \<and> obtener (volcado armada_ej) ''tipo_fraude__c'' = JNull
  \<and> obtener (volcado armada_ej) ''modalidad_fraude__c'' = JNull \<and> obtener (volcado armada_ej) ''Favorabilidad__c'' = JStr ''Favorable''" by code_simp
definition estado_ej where "estado_ej = (''Status'', JStr ''Closed'') # armada_ej"
lemma armada_ej_puesta: "pon ''Status'' (JStr ''Closed'') (volcado armada_ej) = volcado estado_ej
  \<and> pon ''ClosedDate'' (JStr ''2026-08-26'') (volcado estado_ej) = volcado cerrada_ej" by code_simp
lemma estado_ej_lecturas: "campo_texto (volcado estado_ej) ''ClosedDate'' = [] \<and> campo_texto (volcado estado_ej) ''CreatedDate'' = []
  \<and> campo_texto (volcado cerrada_ej) ''cuerpo_respuesta_final'' = cuerpo_por_defecto" by code_simp
lemma textos_ej: "strip cuerpo_por_defecto \<noteq> [] \<and> lower (strip []) = [] \<and> fecha_texto \<lparr>anio = 2026, mes = 8, dia = 26\<rparr> = ''2026-08-26''
   \<and> utc [] = [] \<and> fromisoformat [] = None" by code_simp
lemma cierre_ej_reglas: "validar_reglas_segun_datos_presentes (entorno_ej 26) (volcado armada_ej) = Inr (volcado cerrada_ej)"
proof -
  have c: "es_cierre_de (volcado armada_ej)" using armada_ej_lecturas by (simp add: es_cierre_de_def es_estado_cierre_def Let_def)
  have f: "\<not> es_fraude_de (volcado armada_ej)" using armada_ej_lecturas by (simp add: es_fraude_de_def presente_def)
  have "validar_closed_date (entorno_ej 26) (volcado estado_ej) = Inr (volcado cerrada_ej)"
    using armada_ej_puesta estado_ej_lecturas textos_ej by (simp add: validar_closed_date_def entorno_ej_def antes_def)
  then have "validar_reglas_cierre (entorno_ej 26) (volcado armada_ej) = Inr (volcado cerrada_ej)"
    using armada_ej_lecturas armada_ej_puesta estado_ej_lecturas textos_ej by (simp add: validar_reglas_cierre_def)
  with c f show ?thesis by (simp add: validar_reglas_segun_datos_presentes_def)
qed
lemma strip_vacio: "strip s = [] \<longleftrightarrow> list_all es_espacio s"
proof (cases "dropWhile es_espacio s")
  case Nil
  then have "strip s = []" by (simp only: strip_def rev.simps dropWhile.simps)
  moreover have "list_all es_espacio s" using Nil by (simp add: dropWhile_eq_Nil_conv list_all_iff)
  ultimately show ?thesis by simp
next
  case (Cons c r)
  then have c: "\<not> es_espacio c" by (simp add: dropWhile_eq_Cons_conv)
  have "c \<in> set s" using Cons set_dropWhileD [of c es_espacio s] by simp
  with c have "\<not> list_all es_espacio s" by (auto simp: list_all_iff)
  moreover have "strip s \<noteq> []" using Cons c by (auto simp: strip_def dropWhile_eq_Nil_conv)
  ultimately show ?thesis by simp
qed

lemma utc_id: "CHR ''Z'' \<notin> set t \<Longrightarrow> utc t = t"
  by (induction t) (auto simp: utc_def reemplaza_def)

lemma entorno_ej_ahora:
  assumes that: "1 \<le> d" "d \<le> 31"
  shows "ahora_ok (entorno_ej d)"
proof -
  let ?f = "\<lparr>anio = 2026, mes = 8, dia = d\<rparr>"
  have v: "fecha_valida ?f" using that by (simp add: fecha_valida_def dias_mes_def)
  have z: "CHR ''Z'' \<notin> set (con_ceros k n)" for k n
    using con_ceros_digitos [of k n] by (auto simp: list_all_iff es_digito_def Let_def)
  have "utc (en_ahora (entorno_ej d)) = fecha_texto ?f @ ''T09:00:00''"
    unfolding entorno_ej_def by (simp add: utc_id fecha_texto_def z)
  moreover have "lee_hora ''09:00:00'' = Some (\<lparr>hh = 9, mi = 0, ss = 0, micro = 0\<rparr>, [])" by code_simp
  then have "fromisoformat (fecha_texto ?f @ ''T09:00:00'') = Some \<lparr>i_fecha = ?f, i_hora = \<lparr>hh = 9, mi = 0, ss = 0, micro = 0\<rparr>, i_zona = None\<rparr>"
    by (simp add: fromisoformat_def v hora_valida_def lee_zona_def)
  moreover have "strip (fecha_texto ?f @ ''T09:00:00'') \<noteq> []"
  proof
    assume "strip (fecha_texto ?f @ ''T09:00:00'') = []"
    then have "list_all es_espacio (fecha_texto ?f @ ''T09:00:00'')" by (simp add: strip_vacio)
    then show False by (simp add: es_espacio_def)
  qed
  ultimately show ?thesis by (simp add: ahora_ok_def entorno_ej_def)
qed

lemma entorno_ej_etiquetas: "etiquetas_ok (entorno_ej d)"
proof -
  have "permitidos (entorno_ej d) cat = permitidos (entorno_ej 26) cat" for cat
    by (simp add: permitidos_def entorno_ej_def)
  moreover have "etiquetas_ok (entorno_ej 26)" by code_simp
  ultimately show ?thesis by (simp add: etiquetas_ok_def)
qed

lemma entorno_ej_ok: "1 \<le> d \<Longrightarrow> d \<le> 31 \<Longrightarrow> entorno_ok (entorno_ej d)"
proof -
  assume d: "1 \<le> d" "d \<le> 31"
  have "list_all de_identificador ''1286''" by code_simp
  then have "list_all de_identificador (en_prefijo (entorno_ej d))" by (simp add: entorno_ej_def)
  then show ?thesis using entorno_ej_ahora [OF d] entorno_ej_etiquetas
    by (simp add: entorno_ok_def permitidos_def entorno_ej_def get_crm_allowed_values_def cat_de_def catalogos_ej_def Let_def)
qed

lemma cierre_ej_aceptado: "QuejaUnificadaCrmInput (entorno_ej 26) pydantic_ej cierre_ej = Inr (volcado cerrada_ej)"
  by (simp add: QuejaUnificadaCrmInput_def cierre_ej_campos cierre_ej_conocidos cierre_ej_resuelto cierre_ej_reglas)

subsection \<open>Witnesses\<close>

lemma aceptada_bien_formada_testigo: "bien_formada (entorno_ej 26) pydantic_ej (volcado cerrada_ej)"
  by (rule aceptada_bien_formada [OF _ pydantic_ej_ok cierre_ej_aceptado]) (simp add: entorno_ej_ok)

lemma cierre_sin_creacion_no_rehidrata_testigo:
  "\<exists>es. QuejaUnificadaCrmInput (entorno_ej 27) pydantic_ej (volcado cerrada_ej) = Inl (ErrorValidacion es)"
proof (rule cierre_sin_creacion_no_rehidrata [OF _ pydantic_ej_ok cierre_ej_aceptado])
  show "entorno_ok (entorno_ej 26)" "entorno_ok (entorno_ej 27)" by (simp_all add: entorno_ej_ok)
  show "map_of cierre_ej ''CreatedDate'' = None" by (simp add: cierre_ej_def cruda_ej_def)
  show "antes (en_hoy (entorno_ej 26)) (en_hoy (entorno_ej 27))" by (simp add: antes_def entorno_ej_def)
  show "es_cierre_de (volcado cerrada_ej)"
  proof -
    have "obtener (volcado cerrada_ej) ''Favorabilidad__c'' = JStr ''Favorable''" by code_simp
    then show ?thesis by (simp add: es_cierre_de_def es_estado_cierre_def Let_def)
  qed
qed

subsection \<open>A complaint with its date of creation\<close>

definition fechada_ej :: dict where
  "fechada_ej = (''CreatedDate'', JStr (en_ahora (entorno_ej 20))) # cruda_ej"

definition fechada_limpia_ej :: dict where
  "fechada_limpia_ej =
     [(''CreatedDate'', JStr (en_ahora (entorno_ej 20))),
      (''Case_id'', JStr ''A1''), (''SuppliedName'', JStr ''Ana''), (''SC_id_type__c'', JStr ''CC''), (''id_number__c'', JStr ''1020''),
      (''tipo_de_persona__c'', JStr ''B2C''), (''direccion__c'', JStr direccion_no_registrada), (''punto_recepcion'', JStr ''Web''),
      (''Description'', JStr ''No''), (''Product__c'', JStr ''Otro''), (''Categorias_COL__c'', JStr ''Otros'')]"

definition fechada_armada_ej :: dict where
  "fechada_armada_ej = (''Smart_Code__c'', JStr ''1286A1'') # fechada_limpia_ej"

lemma valida_campos_append:
  "valida_campos en pc d xs = ([], a) \<Longrightarrow> valida_campos en pc d ys = ([], b) \<Longrightarrow> valida_campos en pc d (xs @ ys) = ([], a @ b)"
  by (induction xs arbitrary: a) (auto simp: valida_campo_no_vacio split: prod.splits sum.splits)

lemma fechada_creacion: "valida_valor (entorno_ej 26) pydantic_ej campo_creacion (JStr (en_ahora (entorno_ej 20))) = Inr (JStr (en_ahora (entorno_ej 20)))"
proof -
  obtain i where i: "fromisoformat (utc (en_ahora (entorno_ej 20))) = Some i" "i_fecha i = en_hoy (entorno_ej 20)"
      "strip (en_ahora (entorno_ej 20)) \<noteq> []"
    using entorno_ej_ahora [of 20] by (auto simp: ahora_ok_def split: option.splits)
  have "\<not> toordinal (i_fecha i) + 30 < toordinal (en_hoy (entorno_ej 26))" "\<not> antes (en_hoy (entorno_ej 26)) (i_fecha i)"
    by (simp_all add: i entorno_ej_def toordinal_def antes_def)
  with i show ?thesis
    by (simp add: valida_valor_def campo_creacion_def opcional_def auto_completar_fecha_creacion_def nucleo_def
        validar_rango_30_dias_created_date_def validar_formato_iso_fecha_def)
qed

text \<open>The other fields are those of the complaint without a date.\<close>

lemma fechada_antes: "valida_campos (entorno_ej 26) pydantic_ej fechada_ej (take 2 campos_queja) = ([], take 2 (volcado fechada_limpia_ej))"
  by code_simp

lemma fechada_despues: "valida_campos (entorno_ej 26) pydantic_ej fechada_ej (drop 3 campos_queja) = ([], drop 3 (volcado fechada_limpia_ej))"
  by code_simp

lemma fechada_campos: "valida_campos (entorno_ej 26) pydantic_ej fechada_ej campos_queja = ([], volcado fechada_limpia_ej)"
proof -
  have c: "campos_queja = take 2 campos_queja @ [campo_creacion] @ drop 3 campos_queja"
    by (simp add: campos_queja_def campos_momento2_def campo_creacion_def)
  have v: "volcado fechada_limpia_ej =
      take 2 (volcado fechada_limpia_ej) @ [(''CreatedDate'', JStr (en_ahora (entorno_ej 20)))] @ drop 3 (volcado fechada_limpia_ej)"
    by (subst (1 2 3) volcado_def)
      (simp add: campos_queja_def campos_momento2_def opcional_def fechada_limpia_ej_def take_map drop_map)
  have n: "cc_nombre campo_creacion = ''CreatedDate''" by (simp add: campo_creacion_def opcional_def)
  have "valida_campos (entorno_ej 26) pydantic_ej fechada_ej [campo_creacion] = ([], [(''CreatedDate'', JStr (en_ahora (entorno_ej 20)))])"
    using fechada_creacion by (simp add: valida_campo_def n fechada_ej_def)
  from valida_campos_append [OF fechada_antes valida_campos_append [OF this fechada_despues]] show ?thesis
    by (simp only: c [symmetric] v [symmetric])
qed

lemma fechada_conocidos: "campos_desconocidos campos_queja fechada_ej = []"
  by code_simp

lemma fechada_codigos:
  "campo_texto (volcado fechada_limpia_ej) ''Case_id'' = ''A1'' \<and> campo_texto (volcado fechada_limpia_ej) ''Smart_Code__c'' = []
   \<and> pon ''Smart_Code__c'' (JStr ''1286A1'') (volcado fechada_limpia_ej) = volcado fechada_armada_ej"
  by code_simp

lemma fechada_lecturas:
  "obtener (volcado fechada_armada_ej) ''Status'' = JNull \<and> obtener (volcado fechada_armada_ej) ''ClosedDate'' = JNull
   \<and> obtener (volcado fechada_armada_ej) ''Favorabilidad__c'' = JNull \<and> obtener (volcado fechada_armada_ej) ''Aceptacion__c'' = JNull
   \<and> obtener (volcado fechada_armada_ej) ''tipo_fraude__c'' = JNull \<and> obtener (volcado fechada_armada_ej) ''modalidad_fraude__c'' = JNull
   \<and> obtener (volcado fechada_armada_ej) ''CreatedDate'' = JStr (en_ahora (entorno_ej 20))
   \<and> campo_texto (volcado fechada_armada_ej) ''SC_id_type__c'' = ''CC''"
  by code_simp

lemma fechada_aceptada: "QuejaUnificadaCrmInput (entorno_ej 26) pydantic_ej fechada_ej = Inr (volcado fechada_armada_ej)"
proof -
  have "resolver_y_armar_smart_code (entorno_ej 26) (volcado fechada_limpia_ej) = Inr (volcado fechada_armada_ej)"
    using fechada_codigos codigo_ej by (simp add: resolver_y_armar_smart_code_def entorno_ej_def)
  moreover have "validar_reglas_segun_datos_presentes (entorno_ej 26) (volcado fechada_armada_ej) = Inr (volcado fechada_armada_ej)"
    using fechada_lecturas textos_ej
    by (simp add: validar_reglas_segun_datos_presentes_def es_cierre_de_def es_estado_cierre_def es_fraude_de_def presente_def
        texto_opcional_def texto_o_vacio_def Let_def)
  ultimately show ?thesis by (simp add: QuejaUnificadaCrmInput_def fechada_campos fechada_conocidos)
qed

lemma rehidrata_a_si_misma_testigo:
  "QuejaUnificadaCrmInput (entorno_ej 26) pydantic_ej (volcado fechada_armada_ej) = Inr (volcado fechada_armada_ej)"
proof -
  have e: "entorno_ok (entorno_ej 26)" by (simp add: entorno_ej_ok)
  have "lower ''CC'' = ''cc''" by code_simp
  then have "\<not> reescribibles (volcado fechada_armada_ej)" using fechada_lecturas by (simp add: reescribibles_def)
  moreover have "bien_formada (entorno_ej 26) pydantic_ej (volcado fechada_armada_ej)"
    using aceptada_etapas [OF e pydantic_ej_ok fechada_aceptada] by blast
  ultimately show ?thesis using rehidrata_a_si_misma [OF e pydantic_ej_ok] by blast
qed

end
