(* ===== verification/Esquema_Mapeo.thy ===== *)
theory Esquema_Mapeo
  imports Esquema_Ejemplos
begin

text \<open>
  The schema and the mapper together: a selection that the schema accepts has a code for the SFC. The schema
  checks the selections against the labels of the catalogs, the mapper translates them with the inverse
  indices of the same catalogs.
\<close>

subsection \<open>The strict selections\<close>

definition selecciones :: "(string \<times> string) list" where
  "selecciones =
     [(''SC_id_type__c'', ''tipo_id''), (''sc_genero__c'', ''genero''), (''tipo_de_persona__c'', ''persona''),
      (''sc_LGBTIQ__c'', ''lgbtiq''), (''canal__c'', ''canal''), (''punto_recepcion'', ''punto_recepcion''),
      (''Instancia_de_recepcion__c'', ''instancia_recepcion''), (''Categorias_COL__c'', ''macro_motivo'')]"

lemma selecciones_estrictas: "list_all (\<lambda>(k, cat). estricto k \<and> map_of sf_to_cat k = Some cat) selecciones"
  by code_simp

lemma seleccion_campo:
  assumes "(k, cat) \<in> set selecciones"
  obtains c where "c \<in> set campos_queja" "cc_nombre c = k" "cc_posterior c = [if cat = ''tipo_id'' then PicklistTipoId else Picklist cat]"
proof -
  have "list_all (\<lambda>(k, cat). list_ex (\<lambda>c. cc_nombre c = k \<and> cc_posterior c = [if cat = ''tipo_id'' then PicklistTipoId else Picklist cat])
      campos_queja) selecciones"
    by (simp add: selecciones_def campos_queja_def campos_momento2_def opcional_def requerido_def con_defecto_def)
  with assms that show ?thesis by (auto simp: list_all_iff list_ex_iff)
qed

subsection \<open>Every label has a code\<close>

lemma indice_tiene:
  assumes "x \<in> fst ` set (entradas_de nombre cat)"
  shows "\<exists>y. map_of (snd (con_alias (nombre, inverso_de cat))) x = Some y"
proof -
  have "map_of (rev (entradas_de nombre cat)) x \<noteq> None" using assms by (simp add: map_of_eq_None_iff)
  then show ?thesis by (auto simp: indice_como_updates map_of_updates)
qed

lemma etiqueta_tiene_codigo:
  assumes "v \<in> snd ` set cat" shows "\<exists>y. map_of (snd (con_alias (nombre, inverso_de cat))) (normalize_text v) = Some y"
proof (rule indice_tiene)
  obtain k where "(k, v) \<in> set cat" using assms by auto
  then have "(normalize_text v, valor_codigo k) \<in> set (entradas_de nombre cat)" by (force simp: entradas_de_def)
  then show "normalize_text v \<in> fst ` set (entradas_de nombre cat)" by force
qed

lemma documento_tiene_codigo:
  assumes "v \<in> {''NIT'', ''N.I.T.'', ''R.U.T.''}"
  shows "\<exists>y. map_of (snd (con_alias (''tipo_id'', inverso_de cat))) (normalize_text v) = Some y"
proof (rule indice_tiene)
  have "normalize_text ''NIT'' = ''nit''" "normalize_text ''N.I.T.'' = ''nit''" "normalize_text ''R.U.T.'' = ''rut''"
    by code_simp+
  with assms have "normalize_text v = ''nit'' \<or> normalize_text v = ''rut''" by auto
  then show "normalize_text v \<in> fst ` set (entradas_de ''tipo_id'' cat)"
    by (auto simp: entradas_de_def alias_tipo_id_def)
qed

text \<open>The labels that the schema allows, in a loaded mapper.\<close>

lemma permitidos_cargados:
  assumes "en_mapa en = construir_indices_inversos mp" "cat_de mp ''producto'' \<noteq> []" "map_of (CATALOGOS mp) nombre = Some cat"
    and "set (en_orden en (map snd cat @ (if nombre = ''tipo_id'' then [''NIT'', ''N.I.T.'', ''R.U.T.''] else [])))
       = set (map snd cat @ (if nombre = ''tipo_id'' then [''NIT'', ''N.I.T.'', ''R.U.T.''] else []))"
  shows "set (permitidos en nombre) = snd ` set cat \<union> (if nombre = ''tipo_id'' then {''NIT'', ''N.I.T.'', ''R.U.T.''} else {})"
proof -
  have "CATALOGOS (construir_indices_inversos mp) \<noteq> []"
    using assms(2,3) by (auto simp: construir_indices_inversos_def)
  moreover have "cat_de (construir_indices_inversos mp) nombre = cat"
    using assms(2,3) by (simp add: cat_de_def construir_indices_inversos_def)
  ultimately show ?thesis
    using assms(1,4) by (auto simp: permitidos_def get_crm_allowed_values_def Let_def)
qed

text \<open>
  What the schema accepts, the mapper can send. When the selections were validated against the catalogs that
  the mapper has loaded, every selection of an accepted complaint that is not blank (document type, gender, kind
  of person, LGBTIQ, channel, point and instance of reception, reason) is translated to a code of its catalog: the
  dispatch of an accepted complaint is never refused for one of these fields.
\<close>

theorem lo_aceptado_se_traduce:
  assumes "entorno_ok en" "conversiones_ok pc" "QuejaUnificadaCrmInput en pc d = Inr q"
    and "(k, nombre) \<in> set selecciones" "strip (campo_texto q k) \<noteq> []"
    and "en_mapa en = construir_indices_inversos mp" "cat_de mp ''producto'' \<noteq> []" "map_of (CATALOGOS mp) nombre = Some cat"
    and "\<And>xs. set (en_orden en xs) = set xs"
  shows "\<exists>y. translate_value_to_sfc py_str trunca (en_mapa en) k (obtener q k) = Inr y"
proof -
  obtain t where t: "obtener q k = JStr t" "strip t \<noteq> []"
    using assms(5) by (cases "obtener q k") (auto simp: campo_texto_def texto_opcional_def texto_o_vacio_def strip_def)
  obtain c where c: "c \<in> set campos_queja" "cc_nombre c = k"
      "cc_posterior c = [if nombre = ''tipo_id'' then PicklistTipoId else Picklist nombre]"
    using seleccion_campo [OF assms(4)] .
  have "bien_formada en pc q" using aceptada_etapas [OF assms(1-3)] by blast
  then have "cumple en pc c (obtener q k)" using c(1,2) by (auto simp: bien_formada_def list_all_iff)
  then have "t \<in> set (permitidos en nombre)"
    using t c(3) assms(1) by (auto simp: cumple_def en_catalogo_def entorno_ok_def split: if_splits)
  then have t': "t \<in> snd ` set cat \<union> (if nombre = ''tipo_id'' then {''NIT'', ''N.I.T.'', ''R.U.T.''} else {})"
    using permitidos_cargados [OF assms(6-8)] assms(9) by simp
  obtain y where y: "map_of (snd (con_alias (nombre, inverso_de cat))) (normalize_text t) = Some y"
  proof (cases "t \<in> snd ` set cat")
    case True
    with that show ?thesis using etiqueta_tiene_codigo by blast
  next
    case False
    with t' have "nombre = ''tipo_id''" "t \<in> {''NIT'', ''N.I.T.'', ''R.U.T.''}" by (auto split: if_splits)
    with that show ?thesis using documento_tiene_codigo by blast
  qed
  have k: "estricto k" "map_of sf_to_cat k = Some nombre"
    using selecciones_estrictas assms(4) by (auto simp: list_all_iff)
  have "map_of (indice_estricto (en_mapa en) k) (normalize_text t) = Some y"
    using y k(2) inv_de_construido [OF assms(7,8)] by (simp add: indice_estricto_def assms(6))
  with traducir_estricto [OF k(1), of "JStr t" py_str trunca "en_mapa en"] t show ?thesis
    by (auto simp: lookup_or_fail_def str_de_def)
qed

subsection \<open>Witness\<close>

text \<open>Validation reads the mapper only through the labels.\<close>

definition mismo_entorno :: "entorno_crm \<Rightarrow> entorno_crm \<Rightarrow> bool" where
  "mismo_entorno en en' =
     (en_hoy en = en_hoy en' \<and> en_ahora en = en_ahora en' \<and> en_prefijo en = en_prefijo en' \<and> permitidos en = permitidos en')"

lemma posterior_mismo:
  assumes "mismo_entorno en en'"
  shows "aplica_posterior en p v = aplica_posterior en' p v"
proof -
  have "en_hoy en = en_hoy en'" "permitidos en = permitidos en'" using assms by (simp_all add: mismo_entorno_def)
  note this [simp]
  show ?thesis by (cases p) (simp_all add: validar_rango_30_dias_created_date_def validar_picklist_cierre_def picklist_def
      split: json.split option.split)
qed
lemma posteriores_mismo: "mismo_entorno en en' \<Longrightarrow> posteriores en ps v = posteriores en' ps v"
  by (induction ps arbitrary: v) (simp_all add: posterior_mismo split: sum.split)

lemma previo_mismo: "mismo_entorno en en' \<Longrightarrow> aplica_previo en p v = aplica_previo en' p v"
  by (cases p) (simp_all add: mismo_entorno_def auto_completar_fecha_creacion_def split: json.split option.split)

lemma campo_mismo: "mismo_entorno en en' \<Longrightarrow> valida_campo en pc d c = valida_campo en' pc d c"
  by (simp add: valida_campo_def valida_valor_def previo_mismo posteriores_mismo split: option.split sum.split)

lemma campos_mismo: "mismo_entorno en en' \<Longrightarrow> valida_campos en pc d cs = valida_campos en' pc d cs"
  by (induction cs) (simp_all add: campo_mismo)

lemma queja_mismo:
  assumes "mismo_entorno en en'"
  shows "QuejaUnificadaCrmInput en pc d = QuejaUnificadaCrmInput en' pc d"
proof -
  have "validar_closed_date en q = validar_closed_date en' q" for q
    using assms by (simp add: mismo_entorno_def validar_closed_date_def Let_def split: option.split)
  then have "validar_reglas_segun_datos_presentes en q = validar_reglas_segun_datos_presentes en' q" for q
    by (simp add: validar_reglas_segun_datos_presentes_def validar_reglas_cierre_def Let_def cong: if_cong)
  moreover have "resolver_y_armar_smart_code en q = resolver_y_armar_smart_code en' q" for q
    using assms by (simp add: mismo_entorno_def resolver_y_armar_smart_code_def Let_def)
  ultimately show ?thesis by (simp add: QuejaUnificadaCrmInput_def campos_mismo [OF assms] Let_def cong: sum.case_cong if_cong prod.case_cong)
qed

lemma entorno_mismo: "mismo_entorno en en' \<Longrightarrow> entorno_ok en \<Longrightarrow> entorno_ok en'"
  by (simp add: mismo_entorno_def entorno_ok_def ahora_ok_def etiquetas_ok_def split: option.splits)

definition crudo_ej :: mapeador where
  "crudo_ej = mapeador_vacio\<lparr>CATALOGOS := catalogos_ej\<rparr>"

definition entorno_cargado :: entorno_crm where
  "entorno_cargado = (entorno_ej 26)\<lparr>en_mapa := construir_indices_inversos crudo_ej\<rparr>"

lemma entorno_cargado_mismo: "mismo_entorno (entorno_ej 26) entorno_cargado"
proof -
  have "CATALOGOS (construir_indices_inversos crudo_ej) = catalogos_ej" "catalogos_ej \<noteq> []"
    by (simp_all add: construir_indices_inversos_def crudo_ej_def cat_de_def catalogos_ej_def)
  then have "get_crm_allowed_values None None (construir_indices_inversos crudo_ej) k = (construir_indices_inversos crudo_ej,
      snd (get_crm_allowed_values None None (mapeador_vacio\<lparr>CATALOGOS := catalogos_ej\<rparr>) k))" for k
    by (simp add: get_crm_allowed_values_def cat_de_def Let_def)
  then show ?thesis
    by (simp add: mismo_entorno_def entorno_cargado_def entorno_ej_def permitidos_def fun_eq_iff)
qed

lemma lo_aceptado_se_traduce_testigo:
  "\<exists>y. translate_value_to_sfc (\<lambda>j. []) (\<lambda>s. None) (en_mapa entorno_cargado) ''tipo_de_persona__c''
        (obtener (volcado cerrada_ej) ''tipo_de_persona__c'') = Inr y"
proof (rule lo_aceptado_se_traduce [where pc = pydantic_ej and d = cierre_ej and nombre = "''persona''" and mp = crudo_ej
      and cat = "[(''1'', ''B2C'')]"])
  show "entorno_ok entorno_cargado" using entorno_mismo [OF entorno_cargado_mismo] by (simp add: entorno_ej_ok)
  show "QuejaUnificadaCrmInput entorno_cargado pydantic_ej cierre_ej = Inr (volcado cerrada_ej)"
    using cierre_ej_aceptado queja_mismo [OF entorno_cargado_mismo] by simp
  have "campo_texto (volcado cerrada_ej) ''tipo_de_persona__c'' = ''B2C''" "strip ''B2C'' = ''B2C''" by code_simp+
  then show "strip (campo_texto (volcado cerrada_ej) ''tipo_de_persona__c'') \<noteq> []" by simp
qed (simp_all add: pydantic_ej_ok selecciones_def entorno_cargado_def entorno_ej_def crudo_ej_def cat_de_def catalogos_ej_def)

subsection \<open>Labels that no complaint can carry\<close>

text \<open>
  \<^verbatim>\<open>Categorias_COL__c\<close> has room for 150 characters. A label that is longer (in the packaged catalog, the one of the
  code 212, with 167) is refused as it is written; it could only be reached by a shorter text with the same normal form.
\<close>

lemma etiqueta_larga_se_rechaza:
  assumes "150 < caracteres t"
  shows "valida_valor en pc (requerido ''Categorias_COL__c'' (Some 150) None [Picklist ''macro_motivo'']) (JStr t)
    = error_de ''String is too long''"
  using assms by (simp add: valida_valor_def requerido_def nucleo_def texto_acotado_def error_de_def)

text \<open>A blank selection passes the schema, and the mapper refuses it.\<close>

lemma seleccion_en_blanco:
  "valida_valor en pc (opcional ''canal__c'' CStr None None [Picklist ''canal'']) (JStr []) = Inr (JStr [])"
  "map_of (indice_estricto mp ''canal__c'') [] = None \<Longrightarrow>
     translate_value_to_sfc py_str trunca mp ''canal__c'' (JStr []) \<noteq> Inr y"
proof -
  show "valida_valor en pc (opcional ''canal__c'' CStr None None [Picklist ''canal'']) (JStr []) = Inr (JStr [])"
    by (simp add: valida_valor_def opcional_def nucleo_def picklist_def strip_def)
  have "estricto ''canal__c''" by code_simp
  then show "map_of (indice_estricto mp ''canal__c'') [] = None \<Longrightarrow>
     translate_value_to_sfc py_str trunca mp ''canal__c'' (JStr []) \<noteq> Inr y"
    using traducir_estricto_Inr [of "''canal__c''" "JStr []" py_str trunca mp y]
    by (auto simp: str_de_def normalize_text_def)
qed

end
