(* ===== verification/Cliente_Propiedades.thy ===== *)
theory Cliente_Propiedades
  imports Cliente_Sfc
begin

text \<open>
  Which requests the SFC client makes: where they go and how many they are.
\<close>

definition es_http :: "evento \<Rightarrow> bool" where
  "es_http ev = (case ev of Http _ _ _ _ \<Rightarrow> True | _ \<Rightarrow> False)"

lemma es_http_simps [simp]:
  "es_http (Http u d b a)" "\<not> es_http (Correo c m)" "\<not> es_http (Metrica x ds)" "\<not> es_http (LlamadaSFC s pl)"
  by (simp_all add: es_http_def)

text \<open>At most \<open>n\<close> requests, all of them \<open>p\<close>.\<close>

definition pide :: "peticion \<Rightarrow> nat \<Rightarrow> evento list \<Rightarrow> bool" where
  "pide p n t =
     ((\<forall>ev \<in> set t. es_http ev \<longrightarrow> (\<exists>a. ev = Http (url_de p) (detalle_de p) (cuerpo_de p) a)) \<and> length (filter es_http t) \<le> n)"

lemma pide_nada: "pide p n []"
  by (simp add: pide_def)

lemma pide_otro: "\<not> es_http ev \<Longrightarrow> pide p n [ev]"
  by (simp add: pide_def)

lemma pide_uno: "pide p (Suc 0) [Http (url_de p) (detalle_de p) (cuerpo_de p) a]"
  by (simp add: pide_def)

lemma pide_junta: "pide p n s \<Longrightarrow> pide p m t \<Longrightarrow> n + m \<le> k \<Longrightarrow> pide p k (s @ t)"
  by (auto simp: pide_def)

lemma deja_pide_luego:
  assumes "deja m (\<lambda>x t. pide p n t)" "\<And>y. deja (f y) (\<lambda>x t. pide p k t)" "n + k \<le> l"
  shows "deja (luego m f) (\<lambda>x t. pide p l t)"
proof (rule deja_luego [OF assms(1)])
  show "pide p l t" if "pide p n t" for t using that assms(3) by (simp add: pide_def)
  show "deja (f y) (\<lambda>x t. pide p l (t1 @ t))" if "pide p n t1" for y t1
    by (rule deja_mas [OF assms(2)]) (rule pide_junta [OF that _ assms(3)])
qed

lemma deja_pide_intenta:
  assumes "deja m (\<lambda>x t. pide p n t)" "\<And>e. deja (h e) (\<lambda>x t. pide p k t)" "n + k \<le> l"
  shows "deja (intenta m h) (\<lambda>x t. pide p l t)"
proof (rule deja_intenta [OF assms(1)])
  show "pide p l t" if "pide p n t" for t using that assms(3) by (simp add: pide_def)
  show "deja (h e) (\<lambda>x t. pide p l (t1 @ t))" if "pide p n t1" for e t1
    by (rule deja_mas [OF assms(2)]) (rule pide_junta [OF that _ assms(3)])
qed

lemma deja_pide_base:
  "deja (devuelve x) (\<lambda>x t. pide p n t)" "deja (lanza e) (\<lambda>x t. pide p n t)"
  "\<not> es_http ev \<Longrightarrow> deja (emite ev) (\<lambda>x t. pide p n t)"
  by (auto intro: deja_devuelve deja_lanza deja_emite pide_nada pide_otro)

lemma deja_pide_callada: "callada m \<Longrightarrow> deja m (\<lambda>x t. pide p n t)"
  unfolding callada_def by (auto intro: pide_nada elim!: deja_mas)

lemma deja_pide_traduce: "deja (procesar_y_lanzar cargar pstr mz st body) (\<lambda>x t. pide p 0 t)"
  unfolding procesar_y_lanzar_def
  by (auto intro!: deja_pide_luego [of _ _ 0 _ 0] deja_pide_base split: prod.split)

lemma deja_pide_registro:
  assumes "callada m" shows "deja (con_registro p m) (\<lambda>x t. pide p 1 t)"
  unfolding con_registro_def
proof (rule deja_pide_luego)
  show "deja (intenta (luego m (\<lambda>r. devuelve (Inr r))) (\<lambda>e. devuelve (Inl e))) (\<lambda>x t. pide p 0 t)"
    by (intro deja_pide_callada calladas assms)
  show "deja (luego (emite (Http (url_de p) (detalle_de p) (cuerpo_de p) (case x of Inl _ \<Rightarrow> None | Inr r \<Rightarrow> Some r)))
         (\<lambda>_. case x of Inl e \<Rightarrow> lanza e | Inr r \<Rightarrow> devuelve r)) (\<lambda>x t. pide p 1 t)" for x
    by (rule deja_pide_luego [of _ _ 1 _ 0]) (auto intro!: deja_emite deja_pide_base(1,2) pide_uno split: sum.split)
qed simp

lemma deja_pide_llama:
  assumes "callada (sf_http cl p)" shows "deja (corre (llama cl p)) (\<lambda>x t. pide p 1 t)"
proof -
  have r: "deja (corre (traduce_error cl st body)) (\<lambda>x t. pide p 0 t)" for st body
    by (simp add: traduce_error_def deja_pide_traduce)
  show ?thesis
    unfolding llama_def corre_intenta corre_luego corre_basicas
    by (rule deja_pide_intenta [of _ _ 1 _ 0], rule deja_pide_luego [of _ _ 1 _ 0])
      (auto intro!: deja_pide_registro [OF assms, simplified] deja_pide_base r split: option.split excepcion.split)
qed

lemma deja_pide_reintenta:
  assumes "deja (corre t) (\<lambda>x l. pide p 1 l)" shows "deja (corre (reintenta_throttling cl n k t)) (\<lambda>x l. pide p (k + 1) l)"
proof (induction k)
  case 0
  show ?case
    unfolding reintenta_throttling.simps tintenta_sfc_def corre_intenta emitir_metrica_throttling_def
    by (rule deja_pide_intenta [OF assms, of _ 0])
      (auto intro!: deja_pide_base deja_pide_luego [of _ _ 0 _ 0] split: excepcion.split)
next
  case (Suc k)
  have d: "deja (duerme ms) (\<lambda>x t. pide p 0 t)" for ms by (intro deja_pide_callada calladas)
  show ?case
    unfolding reintenta_throttling.simps tintenta_sfc_def corre_intenta emitir_metrica_throttling_def
    by (rule deja_pide_intenta [OF assms, of _ "k + 1"])
      (auto intro!: deja_pide_base d deja_pide_luego [of _ _ 0 _ "Suc k"] Suc.IH [simplified] split: excepcion.split)
qed

subsection \<open>The pages\<close>

lemma deja_pide_pagina:
  assumes "\<And>p. callada (sf_http cl p)" "sanitizar_y_validar_next_url cl siguiente = Inr r"
  shows "deja (corre (handle_sfc_throttling cl n (trae_pagina cl ep siguiente))) (\<lambda>x t. pide (Get (destino cl r ep)) (sf_reintentos cl + 1) t)"
  unfolding handle_sfc_throttling_def
  by (rule deja_pide_reintenta) (simp add: trae_pagina_def assms(2) deja_pide_llama [OF assms(1), simplified])

lemma destino_bajo_base:
  assumes "base_simple h (sf_base cl)" "hd ep = CHR ''/''" shows "\<exists>u. urlparse (destino cl r ep) = Inr u \<and> u_netloc u = h"
proof -
  obtain e where "destino cl r ep = sf_base cl @ e" "e \<noteq> [] \<Longrightarrow> hd e = CHR ''/''"
  proof (cases "empieza ''/'' (case r of Some x \<Rightarrow> if x = [] then ep else x | None \<Rightarrow> ep)")
    case True
    then show thesis
      using that [of "case r of Some x \<Rightarrow> if x = [] then ep else x | None \<Rightarrow> ep"]
      by (auto simp: destino_def Let_def empieza_iff)
  next
    case False
    then show thesis
      using that [of "''/'' @ (case r of Some x \<Rightarrow> if x = [] then ep else x | None \<Rightarrow> ep)"] by (simp add: destino_def Let_def)
  qed
  with netloc_bajo_base [OF assms(1)] show ?thesis by metis
qed

lemma urlparse_nada: "urlparse [] = Inr v \<Longrightarrow> u_netloc v = []"
  by (auto simp: urlparse_def limpia_url_def separa_esquema_def separa_netloc_def Let_def split: if_splits)

lemma deja_error:
  "deja (corre (reintenta_throttling cl n k (tlanza e :: json tarea))) (\<lambda>x t. x = Inl e \<and> filter es_http t = [])"
proof (induction k)
  case 0
  show ?case
    by (auto simp: tintenta_sfc_def emitir_metrica_throttling_def intenta_lanza split: excepcion.split intro!: deja_lanza
      deja_luego [where P = "\<lambda>x t. (\<forall>e'. x \<noteq> Inl e') \<and> filter es_http t = []"] deja_emite)
next
  case (Suc k)
  have d: "deja (duerme ms) (\<lambda>x t. (\<forall>e'. x \<noteq> Inl e') \<and> filter es_http t = [])" for ms
    by (simp add: deja_def duerme_def)
  show ?case
    using Suc.IH
    by (auto simp: tintenta_sfc_def emitir_metrica_throttling_def intenta_lanza split: excepcion.split intro!: deja_lanza
      deja_luego [where P = "\<lambda>x t. (\<forall>e'. x \<noteq> Inl e') \<and> filter es_http t = []"] deja_emite d)
qed

definition pagina_de :: "cfg_sfc \<Rightarrow> string option \<Rightarrow> json tarea set" where
  "pagina_de cl siguiente = {fetch_quejas_pagina cl siguiente, fetch_usuarios_pagina cl siguiente}"

text \<open>C31. Reading the pages never leaves the SFC and never loops. Whatever link \<open>next\<close> the previous page gave, every request of a
page is a GET whose host is that of the configured base, and there are at most as many as retries configured plus one, whatever the
answers; a link to another host is refused, with the SSRF error and without any request.\<close>

theorem la_paginacion_no_sale_de_la_sfc:
  assumes base: "base_simple h (sf_base cl)" and http: "\<And>p. callada (sf_http cl p)" and t: "t \<in> pagina_de cl siguiente"
    and run: "corre t w = (r, w')"
  shows "\<exists>log. w_bitacora w' = w_bitacora w @ log
    \<and> (\<forall>u d b a. Http u d b a \<in> set log \<longrightarrow> d = [''GET''] \<and> b = [] \<and> (\<exists>v. urlparse u = Inr v \<and> u_netloc v = h))
    \<and> length (filter es_http log) \<le> sf_reintentos cl + 1
    \<and> (\<forall>n v. siguiente = Some n \<and> urlparse (strip n) = Inr v \<and> u_netloc v \<noteq> [] \<and> lower (u_netloc v) \<noteq> lower h \<longrightarrow>
          r = Inl (SfcIntegrationException (error_ssrf_next (u_netloc v))) \<and> filter es_http log = [])"
proof -
  obtain n ep where t: "t = handle_sfc_throttling cl n (trae_pagina cl ep siguiente)" "hd ep = CHR ''/''"
    using t by (auto simp: pagina_de_def fetch_quejas_pagina_def fetch_usuarios_pagina_def ep_queja_def ep_usuarios_def)
  obtain b where b: "urlparse (sf_base cl) = Inr b" "u_netloc b = h" using netloc_bajo_base [OF base, of "[]"] by auto
  have ajeno: "sanitizar_y_validar_next_url cl siguiente = Inl (SfcIntegrationException (error_ssrf_next (u_netloc v)))"
    if "siguiente = Some n \<and> urlparse (strip n) = Inr v \<and> u_netloc v \<noteq> [] \<and> lower (u_netloc v) \<noteq> lower h" for n v
  proof -
    have "strip n \<noteq> []" using that by (auto simp: urlparse_nada)
    with that b show ?thesis by (simp add: sanitizar_y_validar_next_url_def ligar_def)
  qed
  show ?thesis
  proof (cases "sanitizar_y_validar_next_url cl siguiente")
    case (Inl e)
    with run t(1) have "corre (reintenta_throttling cl n (sf_reintentos cl) (tlanza e :: json tarea)) w = (r, w')"
      by (simp add: trae_pagina_def handle_sfc_throttling_def)
    from dejaD [OF deja_error this]
    obtain log where "w_bitacora w' = w_bitacora w @ log" "r = Inl e" "filter es_http log = []" by blast
    with Inl ajeno show ?thesis by (intro exI [of _ log]) (auto simp: filter_empty_conv)
  next
    case (Inr s)
    from dejaD [OF deja_pide_pagina [OF http Inr] run [unfolded t(1)]]
    obtain log where log: "w_bitacora w' = w_bitacora w @ log" "pide (Get (destino cl s ep)) (sf_reintentos cl + 1) log" by blast
    then have "d = [''GET''] \<and> b = [] \<and> (\<exists>v. urlparse u = Inr v \<and> u_netloc v = h)" if "Http u d b a \<in> set log" for u d b a
      using that destino_bajo_base [OF base t(2)] by (auto simp: pide_def url_de_def detalle_de_def cuerpo_de_def)
    with log Inr ajeno show ?thesis by (intro exI [of _ log]) (auto simp: pide_def)
  qed
qed

text \<open>A link of another host, to a client that would retry twice.\<close>

definition pagina_ej :: cfg_sfc where
  "pagina_ej =
     \<lparr>sf_base = ''https://sfc'', sf_reintentos = 2, sf_demora = 1000, sf_cargar = (\<lambda>t. Some (JObj [])), sf_py_str = (\<lambda>j. []),
      sf_matriz = [], sf_http = (\<lambda>p. devuelve (429, ''{}''))\<rparr>"

definition vacio_ej :: mundo where
  "vacio_ej = \<lparr>w_redis = redis_vacio, w_cliente = True, w_turnos = [], w_bitacora = [], w_auth = sin_tokens, w_relevos = [], w_envios = []\<rparr>"

lemma la_paginacion_no_sale_de_la_sfc_testigo:
  "(\<exists>w' log. corre (fetch_quejas_pagina pagina_ej (Some ''https://mala/x'')) vacio_ej
       = (Inl (SfcIntegrationException (error_ssrf_next ''mala'')), w') \<and> w_bitacora w' = log \<and> filter es_http log = [])
   \<and> (\<exists>r w' log. corre (fetch_quejas_pagina pagina_ej (Some ''https://sfc/api/queja/?page=2'')) vacio_ej = (r, w')
       \<and> w_bitacora w' = log \<and> length (filter es_http log) \<le> 3)"
proof -
  have b: "base_simple ''sfc'' (sf_base pagina_ej)" by (simp add: base_simple_def pagina_ej_def)
  have h: "callada (sf_http pagina_ej p)" for p by (simp add: pagina_ej_def calladas)
  have p: "fetch_quejas_pagina pagina_ej s \<in> pagina_de pagina_ej s" for s by (simp add: pagina_de_def)
  have v: "urlparse (strip ''https://mala/x'') = Inr \<lparr>u_esquema = ''https'', u_netloc = ''mala'', u_ruta = ''/x'', u_consulta = []\<rparr>"
    by code_simp
  have l: "w_bitacora vacio_ej = []" "sf_reintentos pagina_ej = 2" by (simp_all add: vacio_ej_def pagina_ej_def)
  from la_paginacion_no_sale_de_la_sfc [OF b h p surjective_pairing, of "Some ''https://mala/x''" vacio_ej] v l
  have 1: "fst (corre (fetch_quejas_pagina pagina_ej (Some ''https://mala/x'')) vacio_ej)
      = Inl (SfcIntegrationException (error_ssrf_next ''mala''))"
    "filter es_http (w_bitacora (snd (corre (fetch_quejas_pagina pagina_ej (Some ''https://mala/x'')) vacio_ej))) = []"
    by (auto simp: lower_def minuscula_def)
  from la_paginacion_no_sale_de_la_sfc [OF b h p surjective_pairing, of "Some ''https://sfc/api/queja/?page=2''" vacio_ej] l
  have 2: "length (filter es_http (w_bitacora (snd (corre
      (fetch_quejas_pagina pagina_ej (Some ''https://sfc/api/queja/?page=2'')) vacio_ej)))) \<le> 3"
    by auto
  from 1 2 show ?thesis by (metis surjective_pairing)
qed

end
