(* ===== verification/Sincronizacion.thy ===== *)
theory Sincronizacion
  imports Adjuntos
begin

text \<open>
  \<^verbatim>\<open>app/services/momento_1_sync.py\<close> and \<^verbatim>\<open>app/services/momento_4_sync.py\<close>: the pages of complaints and users that are
  brought from the SFC, and the acknowledgement of what the CRM received. A Python \<^verbatim>\<open>AttributeError\<close> is a \<open>TypeError\<close>, as
  elsewhere; \<open>sy_turnos i\<close> is the schedule of the event loop in the chunk of complaints number \<open>i\<close> of a page, \<open>sy_lote\<close> that of the
  attachments of a complaint.
\<close>

record cfg_sync =
  sy_sfc :: cfg_sfc
  sy_s3 :: cfg_s3
  sy_py_str :: "json \<Rightarrow> string"
  sy_mapeador :: mapeador
  sy_max_paginas :: nat
  sy_max_segundos :: int
  sy_turnos :: "nat \<Rightarrow> nat list"
  sy_lote :: "nat list"

subsection \<open>Values of any form\<close>

text \<open>\<^verbatim>\<open>r.get("Response") if "Response" in r else r\<close>\<close>

definition cuerpo_respuesta :: "json \<Rightarrow> json resultado" where
  "cuerpo_respuesta r =
     (case r of
        JObj d \<Rightarrow> Inr (if map_of d ''Response'' = None then r else obtener d ''Response'')
      | JArr xs \<Rightarrow> if JStr ''Response'' \<in> set xs then Inl (TypeError ''get'') else Inr r
      | JStr s \<Rightarrow> if contiene ''Response'' s then Inl (TypeError ''get'') else Inr r
      | _ \<Rightarrow> Inl (TypeError ''iterable''))"

text \<open>The same, when \<^verbatim>\<open>isinstance(r, dict)\<close> is asked first.\<close>

definition cuerpo_de_ack :: "json \<Rightarrow> json" where
  "cuerpo_de_ack r =
     (case r of JObj d \<Rightarrow> (if map_of d ''Response'' = None then r else obtener d ''Response'') | _ \<Rightarrow> r)"

definition letras :: "string \<Rightarrow> json list" where
  "letras s = map (\<lambda>i. JStr (drop (length (recorta i s)) (recorta (Suc i) s))) [0..<caracteres s]"

text \<open>What a \<^verbatim>\<open>for\<close> takes from a value.\<close>

definition elementos :: "json \<Rightarrow> json list resultado" where
  "elementos v =
     (case v of JArr xs \<Rightarrow> Inr xs | JStr s \<Rightarrow> Inr (letras s) | JObj d \<Rightarrow> Inr (map (JStr \<circ> fst) d)
      | _ \<Rightarrow> Inl (TypeError ''iterable''))"

definition con_defecto :: "dict \<Rightarrow> string \<Rightarrow> json \<Rightarrow> json" where
  "con_defecto d k v = (case map_of d k of None \<Rightarrow> v | Some x \<Rightarrow> x)"

definition enlace :: "(json \<Rightarrow> string) \<Rightarrow> json \<Rightarrow> string option" where
  "enlace py_str v = (if verdadero v then Some (str_de py_str v) else None)"

definition siguiente_de :: "json \<Rightarrow> json" where
  "siguiente_de r = (case r of JObj d \<Rightarrow> obtener d ''next'' | _ \<Rightarrow> JNull)"

subsection \<open>Momento 1: one complaint\<close>

definition extraer_lista_quejas :: "json \<Rightarrow> json" where
  "extraer_lista_quejas r =
     (case r of JObj d \<Rightarrow> con_defecto d ''results'' (JArr []) | JArr xs \<Rightarrow> r | _ \<Rightarrow> JArr [])"

text \<open>Python compares \<^verbatim>\<open>True\<close> and \<open>1\<close> as equal; lists and dictionaries cannot be members of a set.\<close>

definition como_clave :: "json \<Rightarrow> json" where
  "como_clave v = (case v of JBool b \<Rightarrow> JInt (if b then 1 else 0) | _ \<Rightarrow> v)"

definition sin_hash :: "json \<Rightarrow> bool" where
  "sin_hash v = (case v of JArr _ \<Rightarrow> True | JObj _ \<Rightarrow> True | _ \<Rightarrow> False)"

definition codigo_de :: "json \<Rightarrow> json" where
  "codigo_de q = (case q of JObj d \<Rightarrow> obtener d ''codigo_queja'' | _ \<Rightarrow> JNull)"

primrec filtrar_duplicados_por_codigo_queja :: "json list \<Rightarrow> json list \<Rightarrow> (json list \<times> json list) resultado" where
  "filtrar_duplicados_por_codigo_queja [] vistos = Inr ([], vistos)"
| "filtrar_duplicados_por_codigo_queja (q # qs) vistos =
     (let codigo = codigo_de q in
      if \<not> verdadero codigo
      then ligar (filtrar_duplicados_por_codigo_queja qs vistos) (\<lambda>(us, v). Inr (q # us, v))
      else if sin_hash codigo then Inl (TypeError ''unhashable'')
      else if como_clave codigo \<in> set vistos then filtrar_duplicados_por_codigo_queja qs vistos
      else ligar (filtrar_duplicados_por_codigo_queja qs (como_clave codigo # vistos)) (\<lambda>(us, v). Inr (q # us, v)))"

text \<open>The attachments of a complaint, all of them or \<open>None\<close>.\<close>

definition anexos_de_queja :: "cfg_sync \<Rightarrow> string \<Rightarrow> json list option tarea" where
  "anexos_de_queja c codigo =
     tintenta
       (tluego (get_adjuntos_list (sy_sfc c) codigo) (\<lambda>r.
          tluego (de_resultado (cuerpo_respuesta r)) (\<lambda>data.
            case data of
              JObj d \<Rightarrow>
                (let lista = con_defecto d ''results'' (JArr []) in
                 if \<not> verdadero lista then tdevuelve (Some [])
                 else tluego (de_resultado (elementos lista)) (\<lambda>xs.
                        tluego (transferir_lote_sfc_a_s3 (sy_s3 c) (sy_lote c) codigo xs) (\<lambda>procesados.
                          tdevuelve (if length procesados < length xs then None else Some procesados))))
            | _ \<Rightarrow> tlanza (TypeError ''get''))))
       (\<lambda>e. tdevuelve None)"

definition adjunto_limpio :: "json \<Rightarrow> json option" where
  "adjunto_limpio a =
     (case a of
        JObj d \<Rightarrow> Some (JObj [(''nombre_archivo'', obtener d ''nombre_archivo''), (''s3_key'', obtener d ''s3_key''),
                             (''bucket'', obtener d ''bucket'')])
      | _ \<Rightarrow> None)"

definition queja_traducida :: "cfg_sync \<Rightarrow> dict \<Rightarrow> json list \<Rightarrow> dict" where
  "queja_traducida c d adjuntos =
     AList.update ''archivos_s3'' (JArr (List.map_filter adjunto_limpio adjuntos))
       (sfc_payload_to_db_dict (sy_py_str c) (sy_mapeador c) d)"

definition procesar_queja_individual :: "cfg_sync \<Rightarrow> json \<Rightarrow> dict option tarea" where
  "procesar_queja_individual c q =
     (case q of
        JObj d \<Rightarrow>
          tluego (if verdadero (obtener d ''anexo_queja'')
                  then anexos_de_queja c (str_de (sy_py_str c) (obtener d ''codigo_queja'')) else tdevuelve (Some []))
            (\<lambda>a. tdevuelve (case a of None \<Rightarrow> None | Some adjuntos \<Rightarrow> Some (queja_traducida c d adjuntos)))
      | _ \<Rightarrow> tlanza (TypeError ''get''))"

subsection \<open>Momento 1: the pages\<close>

fun trozos :: "nat \<Rightarrow> 'a list \<Rightarrow> 'a list list" where
  "trozos n xs = (if xs = [] \<or> n = 0 then [] else take n xs # trozos n (drop n xs))"

declare trozos.simps [simp del]

text \<open>The chunks one after the other; the complaints of a chunk run together.\<close>

primrec procesar_trozos :: "cfg_sync \<Rightarrow> nat \<Rightarrow> json list list \<Rightarrow> dict list tarea" where
  "procesar_trozos c i [] = tdevuelve []"
| "procesar_trozos c i (qs # qss) =
     tluego (reune (length qs) (sy_turnos c i) (map (procesar_queja_individual c) qs)) (\<lambda>rs.
       tluego (procesar_trozos c (Suc i) qss) (\<lambda>xs. tdevuelve (validos rs @ xs)))"

definition procesar_pagina_quejas :: "cfg_sync \<Rightarrow> json list \<Rightarrow> json list \<Rightarrow> (dict list \<times> json list) tarea" where
  "procesar_pagina_quejas c raw vistos =
     tluego (de_resultado (filtrar_duplicados_por_codigo_queja raw vistos)) (\<lambda>(unicas, vistos').
       tluego (procesar_trozos c 0 (trozos 10 unicas)) (\<lambda>xs. tdevuelve (xs, vistos')))"

text \<open>The number counts the pages that are left, so that \<^verbatim>\<open>pagina_actual\<close> is the maximum minus it plus one.\<close>

definition se_acabo_el_tiempo :: "cfg_sync \<Rightarrow> int \<Rightarrow> int \<Rightarrow> bool" where
  "se_acabo_el_tiempo c inicio t = (1000 * sy_max_segundos c < t - inicio)"

definition cortar_paginacion :: "string \<Rightarrow> unit tarea" where
  "cortar_paginacion categoria = paso (emite (Correo categoria (if categoria = ''paginacion_m1_cortada''
     then ''SYNC_M1_PAGINACION'' else ''SYNC_M4_PAGINACION'')))"

primrec paginas_m1 :: "cfg_sync \<Rightarrow> int \<Rightarrow> nat \<Rightarrow> json \<Rightarrow> json list \<Rightarrow> dict list \<Rightarrow> dict list tarea" where
  "paginas_m1 c inicio 0 url vistos quejas =
     tluego (cortar_paginacion ''paginacion_m1_cortada'') (\<lambda>_. tdevuelve quejas)"
| "paginas_m1 c inicio (Suc k) url vistos quejas =
     tluego (paso ahora) (\<lambda>t.
       if se_acabo_el_tiempo c inicio t
       then tluego (cortar_paginacion ''paginacion_m1_cortada'') (\<lambda>_. tdevuelve quejas)
       else tluego (fetch_quejas_pagina (sy_sfc c) (enlace (sy_py_str c) url)) (\<lambda>r.
         tluego (de_resultado (cuerpo_respuesta r)) (\<lambda>data.
           let lista = extraer_lista_quejas data in
           if \<not> verdadero lista then tdevuelve quejas
           else tluego (de_resultado (elementos lista)) (\<lambda>raw.
             tluego (procesar_pagina_quejas c raw vistos) (\<lambda>(nuevas, vistos').
               if \<not> verdadero (siguiente_de data) then tdevuelve (quejas @ nuevas)
               else paginas_m1 c inicio k (siguiente_de data) vistos' (quejas @ nuevas))))))"

definition ejecutar_flujo_completo_momento_1 :: "cfg_sync \<Rightarrow> dict list tarea" where
  "ejecutar_flujo_completo_momento_1 c =
     tluego (paso ahora) (\<lambda>inicio. paginas_m1 c inicio (sy_max_paginas c) JNull [] [])"

subsection \<open>Momento 4\<close>

definition extraer_lista_usuarios :: "json \<Rightarrow> json" where
  "extraer_lista_usuarios r =
     (case r of
        JObj d \<Rightarrow>
          (let lista = con_defecto d ''results'' (JArr [])
           in if \<not> verdadero lista \<and> map_of d ''numero_id_CF'' \<noteq> None then JArr [r] else lista)
      | JArr xs \<Rightarrow> r
      | _ \<Rightarrow> JArr [])"

definition num_id_de :: "(json \<Rightarrow> string) \<Rightarrow> json \<Rightarrow> string" where
  "num_id_de py_str u =
     (case u of
        JObj d \<Rightarrow> strip (str_de py_str (o_bien (o_bien (obtener d ''numero_id_CF'') (obtener d ''numero_id'')) (JStr ''DESCONOCIDO'')))
      | _ \<Rightarrow> ''DESCONOCIDO'')"

record lote_m4 =
  u_vistos :: "string list"
  u_usuarios :: "dict list"
  u_fallidos :: "dict list"
  u_procesados :: nat

definition lote_vacio :: lote_m4 where
  "lote_vacio = \<lparr>u_vistos = [], u_usuarios = [], u_fallidos = [], u_procesados = 0\<rparr>"

definition usuario_fallido :: "string \<Rightarrow> json \<Rightarrow> excepcion \<Rightarrow> dict" where
  "usuario_fallido num_id u e = [(''numero_id_CF'', JStr num_id), (''raw_payload'', u), (''error'', JStr (str_exc e))]"

definition traducir_usuario :: "cfg_sync \<Rightarrow> json \<Rightarrow> dict resultado" where
  "traducir_usuario c u =
     ligar (sfc_user_payload_to_db_dict (sy_py_str c) (sy_mapeador c) u) (\<lambda>d.
       if d = [] \<or> map_of d ''id_number__c'' = None then Inl (ValueError ''id_number__c'') else Inr d)"

definition es_dict :: "json \<Rightarrow> bool" where
  "es_dict u = (case u of JObj _ \<Rightarrow> True | _ \<Rightarrow> False)"

definition procesar_usuario_sfc :: "cfg_sync \<Rightarrow> json \<Rightarrow> string \<Rightarrow> lote_m4 \<Rightarrow> lote_m4" where
  "procesar_usuario_sfc c u num_id s =
     (let falla = (\<lambda>e. s\<lparr>u_fallidos := u_fallidos s @ [usuario_fallido num_id u e]\<rparr>) in
      if \<not> es_dict u then falla (ValueError ''diccionario'')
      else if num_id \<noteq> ''DESCONOCIDO'' \<and> num_id \<in> set (u_vistos s) then s
      else case traducir_usuario c u of
             Inl e \<Rightarrow> falla e
           | Inr d \<Rightarrow> s\<lparr>u_vistos := (if num_id \<noteq> ''DESCONOCIDO'' then num_id # u_vistos s else u_vistos s),
                         u_usuarios := u_usuarios s @ [d]\<rparr>)"

definition procesar_pagina_usuarios :: "cfg_sync \<Rightarrow> json list \<Rightarrow> lote_m4 \<Rightarrow> lote_m4" where
  "procesar_pagina_usuarios c us s =
     foldl (\<lambda>s u. procesar_usuario_sfc c u (num_id_de (sy_py_str c) u) (s\<lparr>u_procesados := Suc (u_procesados s)\<rparr>)) s us"

text \<open>\<^verbatim>\<open>_verificar_limite_paginacion\<close> is the guard of the loop; the result says whether the pages were cut.\<close>

primrec paginas_m4 :: "cfg_sync \<Rightarrow> int \<Rightarrow> nat \<Rightarrow> json \<Rightarrow> lote_m4 \<Rightarrow> (lote_m4 \<times> bool) tarea" where
  "paginas_m4 c inicio 0 url s = tluego (cortar_paginacion ''paginacion_m4_cortada'') (\<lambda>_. tdevuelve (s, True))"
| "paginas_m4 c inicio (Suc k) url s =
     tluego (paso ahora) (\<lambda>t.
       if se_acabo_el_tiempo c inicio t
       then tluego (cortar_paginacion ''paginacion_m4_cortada'') (\<lambda>_. tdevuelve (s, True))
       else tluego (fetch_usuarios_pagina (sy_sfc c) (enlace (sy_py_str c) url)) (\<lambda>r.
         tluego (de_resultado (cuerpo_respuesta r)) (\<lambda>data.
           let lista = extraer_lista_usuarios data in
           if \<not> verdadero lista then tdevuelve (s, False)
           else tluego (de_resultado (elementos lista)) (\<lambda>us.
             let s' = procesar_pagina_usuarios c us s in
             if \<not> verdadero (siguiente_de data) then tdevuelve (s', False)
             else paginas_m4 c inicio k (siguiente_de data) s'))))"

definition estado_m4 :: "lote_m4 \<Rightarrow> bool \<Rightarrow> string" where
  "estado_m4 s incompleta =
     (if incompleta then ''partial'' else if u_fallidos s = [] then ''success'' else if u_usuarios s \<noteq> [] then ''partial'' else ''error'')"

definition sincronizar_usuarios :: "cfg_sync \<Rightarrow> dict tarea" where
  "sincronizar_usuarios c =
     tluego (paso ahora) (\<lambda>inicio.
       tluego (paginas_m4 c inicio (sy_max_paginas c) JNull lote_vacio) (\<lambda>(s, incompleta).
         tdevuelve
           [(''status'', JStr (estado_m4 s incompleta)), (''total_procesados'', JInt (int (u_procesados s))),
            (''total_exitosos'', JInt (int (length (u_usuarios s)))), (''total_fallidos'', JInt (int (length (u_fallidos s)))),
            (''usuarios'', JArr (map JObj (u_usuarios s))), (''failed_items'', JArr (map JObj (u_fallidos s))),
            (''paginacion_incompleta'', JBool incompleta)]))"

subsection \<open>Acknowledgements\<close>

definition ids_unicos :: "string list \<Rightarrow> string list" where
  "ids_unicos ids = rev (remdups (rev (filter (\<lambda>x. x \<noteq> []) (map strip ids))))"

text \<open>The ids that an answer refuses, as texts; \<open>None\<close> when the field cannot be iterated.\<close>

definition ids_rechazados :: "(json \<Rightarrow> string) \<Rightarrow> json \<Rightarrow> string list resultado" where
  "ids_rechazados py_str campo = ligar (elementos campo) (\<lambda>xs. Inr (map (\<lambda>x. strip (str_de py_str x)) xs))"

definition errores_m1 :: "json \<Rightarrow> json" where
  "errores_m1 r = (case cuerpo_de_ack r of JObj d \<Rightarrow> con_defecto d ''pqrs_error'' (JArr []) | _ \<Rightarrow> JArr [])"

definition errores_m4 :: "json \<Rightarrow> json" where
  "errores_m4 r =
     (case cuerpo_de_ack r of
        JObj d \<Rightarrow> con_defecto d ''numero_id_CF_error'' (con_defecto d ''pqrs_error'' (JArr [])) | _ \<Rightarrow> JArr [])"

text \<open>One batch: the ids acknowledged and those in error. The ids of a batch have been stripped before.\<close>

definition confirmar_lote :: "(json \<Rightarrow> string) \<Rightarrow> (json \<Rightarrow> json) \<Rightarrow> (string list \<Rightarrow> json tarea) \<Rightarrow> string list \<Rightarrow> (string list \<times> string list) tarea" where
  "confirmar_lote py_str campo_error envia lote =
     tintenta
       (tluego (envia lote) (\<lambda>r.
          tluego (de_resultado (ids_rechazados py_str (campo_error r))) (\<lambda>malos.
            tdevuelve (filter (\<lambda>x. strip x \<notin> set malos) lote, filter (\<lambda>x. strip x \<in> set malos) lote))))
       (\<lambda>e. tdevuelve ([], lote))"

primrec confirmar_lotes :: "(json \<Rightarrow> string) \<Rightarrow> (json \<Rightarrow> json) \<Rightarrow> (string list \<Rightarrow> json tarea) \<Rightarrow> string list list \<Rightarrow> (string list \<times> string list) tarea" where
  "confirmar_lotes py_str campo_error envia [] = tdevuelve ([], [])"
| "confirmar_lotes py_str campo_error envia (l # ls) =
     tluego (confirmar_lote py_str campo_error envia l) (\<lambda>(a, b).
       tluego (confirmar_lotes py_str campo_error envia ls) (\<lambda>(as, bs). tdevuelve (a @ as, b @ bs)))"

record acuse =
  ac_status :: string
  ac_mensaje :: string
  ac_procesados :: "string list"
  ac_errores :: "string list"

definition confirmar_recepcion_ack :: "cfg_sync \<Rightarrow> string list \<Rightarrow> acuse tarea" where
  "confirmar_recepcion_ack c ids =
     (let unicos = ids_unicos ids in
      if unicos = [] then tdevuelve \<lparr>ac_status = ''warning'', ac_mensaje = [], ac_procesados = [], ac_errores = []\<rparr>
      else tluego (confirmar_lotes (sy_py_str c) errores_m1 (send_ack_batch (sy_sfc c)) (trozos 100 unicos)) (\<lambda>(bien, mal).
        tdevuelve \<lparr>ac_status = (if mal = [] then ''success'' else ''partial''), ac_mensaje = [], ac_procesados = bien, ac_errores = mal\<rparr>))"

definition sin_ids :: string where
  "sin_ids = ''No se proporcionaron n'' @ con_tilde CHR ''u'' @ ''meros de identificaci'' @ con_tilde CHR ''o''
     @ ''n (numero_id_CF) para confirmar ACK.''"

definition ids_vacios :: string where
  "ids_vacios = ''Todos los n'' @ con_tilde CHR ''u'' @ ''meros de identificaci'' @ con_tilde CHR ''o''
     @ ''n proporcionados estaban vac'' @ con_tilde CHR ''i'' @ ''os tras la limpieza.''"

definition confirmar_recepcion_ack_usuarios :: "cfg_sync \<Rightarrow> string list \<Rightarrow> acuse tarea" where
  "confirmar_recepcion_ack_usuarios c ids =
     (let unicos = ids_unicos ids in
      if ids = [] then tdevuelve \<lparr>ac_status = ''warning'', ac_mensaje = sin_ids, ac_procesados = [], ac_errores = []\<rparr>
      else if unicos = []
      then tdevuelve \<lparr>ac_status = ''warning'', ac_mensaje = ids_vacios, ac_procesados = [], ac_errores = []\<rparr>
      else tluego (confirmar_lotes (sy_py_str c) errores_m4 (send_user_ack_batch (sy_sfc c)) (trozos 100 unicos)) (\<lambda>(bien, mal).
        tdevuelve
          \<lparr>ac_status = (if mal = [] then ''success'' else if bien \<noteq> [] then ''partial'' else ''error''),
           ac_mensaje = ''ACK de usuarios procesado ante la SFC: '' @ str_nat (length bien) @ '' exitosos, '' @ str_nat (length mal) @ '' con error.'',
           ac_procesados = bien, ac_errores = mal\<rparr>))"

end
