(* ===== verification/Sincronizacion_Propiedades.thy ===== *)
theory Sincronizacion_Propiedades
  imports Sincronizacion Adjuntos_Propiedades Movimientos Mapeo_Propiedades "HOL-Library.Multiset"
begin

text \<open>
  What the acknowledgement tells the CRM and what Momento 1 delivers, against the answers of the SFC in the log.
\<close>

subsection \<open>Facts about the log since a point\<close>

text \<open>\<open>F\<close> holds of what was written after the first \<open>n\<close> events, and stays so.\<close>

definition crece :: "(evento list \<Rightarrow> bool) \<Rightarrow> bool" where
  "crece F = (\<forall>l l'. F l \<longrightarrow> set l \<subseteq> set l' \<longrightarrow> F l')"

definition desde :: "nat \<Rightarrow> (evento list \<Rightarrow> bool) \<Rightarrow> mundo \<Rightarrow> bool" where
  "desde n F w = (n \<le> length (w_bitacora w) \<and> F (nuevos n w))"

lemma creceD: "crece F \<Longrightarrow> F l \<Longrightarrow> set l \<subseteq> set l' \<Longrightarrow> F l'"
  by (simp add: crece_def)

lemma crece_reglas:
  "crece (\<lambda>l. b)" "crece F \<Longrightarrow> crece G \<Longrightarrow> crece (\<lambda>l. F l \<and> G l)" "crece (\<lambda>l. ev \<in> set l)"
  "(\<And>x. crece (H x)) \<Longrightarrow> crece (\<lambda>l. \<exists>x. H x l)" "(\<And>x. crece (H x)) \<Longrightarrow> crece (\<lambda>l. \<forall>x. H x l)"
  "crece F \<Longrightarrow> crece (\<lambda>l. b \<longrightarrow> F l)"
  unfolding crece_def by blast+

lemma desde_crece: "crece F \<Longrightarrow> desde n F w \<Longrightarrow> w_bitacora w' = w_bitacora w @ t \<Longrightarrow> desde n F w'"
  by (auto simp: desde_def nuevos_def intro: creceD)

lemma estable_desde: "crece F \<Longrightarrow> estable (solo_escribe E) (desde n F)"
  by (auto simp: estable_def solo_escribe_def intro: desde_crece)

text \<open>A task that only writes events of \<open>E\<close> keeps such a fact.\<close>

lemma vela_mueve: "mueve G t \<Longrightarrow> estable G P \<Longrightarrow> vela G (\<lambda>r. P) P t"
proof (induction rule: mueve.induct)
  case (m_sigue g s)
  show ?case
  proof (rule v_sigue)
    fix w assume "P w"
    with m_sigue show "G w (g w) \<and> (\<exists>P'. estable G P' \<and> P' (g w) \<and> vela G (\<lambda>r. P) P' (s w))"
      by (intro conjI exI [of _ P]) (auto simp: estable_def)
  qed
qed (auto intro: v_listo)

lemma vela_escribe: "escribe E t \<Longrightarrow> crece F \<Longrightarrow> vela (solo_escribe E) (\<lambda>r. desde n F) (desde n F) t"
  by (rule vela_mueve) (simp_all add: estable_desde)

subsection \<open>The answers of the SFC\<close>

definition contesta :: "cfg_sfc \<Rightarrow> peticion \<Rightarrow> json \<Rightarrow> evento list \<Rightarrow> bool" where
  "contesta cl p j log =
     (\<exists>st body. pedido p (Some (st, body)) \<in> set log \<and> st \<in> {200, 201} \<and> sf_cargar cl body = Some j)"

lemma contestaI: "pedido p (Some (st, body)) \<in> set l \<Longrightarrow> st \<in> {200, 201} \<Longrightarrow> sf_cargar cl body = Some j \<Longrightarrow> contesta cl p j l"
  unfolding contesta_def by blast

lemma crece_contesta: "crece (contesta cl p j)"
  unfolding contesta_def by (intro crece_reglas)

text \<open>A result that was read from an answer.\<close>

definition respondida :: "cfg_sfc \<Rightarrow> peticion \<Rightarrow> (evento list \<Rightarrow> bool) \<Rightarrow> json resultado \<Rightarrow> evento list \<Rightarrow> bool" where
  "respondida cl p F r l = (F l \<and> (\<forall>j. r = Inr j \<longrightarrow> contesta cl p j l))"

lemma crece_respondida: "crece F \<Longrightarrow> crece (respondida cl p F r)"
  unfolding respondida_def by (intro crece_reglas crece_contesta)

locale escritura = movimiento "solo_escribe E" for E +
  fixes cl :: cfg_sfc
  assumes http: "callada (sf_http cl p)"
begin

lemma vela_un_registro:
  assumes "\<And>a. E (pedido p a)" "crece F"
  shows "vela (solo_escribe E) (\<lambda>r. desde n (\<lambda>l. F l \<and> (\<forall>x. r = Inr x \<longrightarrow> pedido p (Some x) \<in> set l))) (desde n F)
    (paso (con_registro p (sf_http cl p)))"
proof (rule vela_paso)
  fix w assume P: "desde n F w"
  let ?m = "con_registro p (sf_http cl p)"
  obtain a where a: "w_bitacora (snd (?m w)) = w_bitacora w @ [pedido p a]" "fst (?m w) = fst (sf_http cl p w)"
      "a = (case fst (sf_http cl p w) of Inl _ \<Rightarrow> None | Inr r \<Rightarrow> Some r)"
    using con_registro_forma [OF http] by blast
  have "solo_escribe E w (snd (?m w))" using a(1) assms(1) by (auto simp: solo_escribe_def)
  moreover have "desde n F (snd (?m w))" by (rule desde_crece [OF assms(2) P a(1)])
  moreover have "pedido p a \<in> set (nuevos n (snd (?m w)))" using a(1) P by (simp add: nuevos_def desde_def)
  ultimately show "solo_escribe E w (snd (?m w))
      \<and> desde n (\<lambda>l. F l \<and> (\<forall>x. fst (?m w) = Inr x \<longrightarrow> pedido p (Some x) \<in> set l)) (snd (?m w))"
    using a(2,3) by (auto simp: desde_def)
qed (intro estable_desde crece_reglas assms(2))

lemma escribe_un_error: "escribe E (traduce_error cl st body :: json tarea)"
  unfolding traduce_error_def by (rule traduce)

lemma vela_un_error:
  "crece F \<Longrightarrow> vela (solo_escribe E) (\<lambda>r. desde n (respondida cl p F r)) (desde n F) (traduce_error cl st body)"
proof -
  assume F: "crece F"
  let ?m = "procesar_y_lanzar (sf_cargar cl) (sf_py_str cl) (sf_matriz cl) st body :: json accion"
  have m: "escribe E (paso ?m)" by (rule traduce)
  show ?thesis
    unfolding traduce_error_def
  proof (rule vela_paso)
    fix w assume P: "desde n F w"
    have "solo_escribe E w (snd (?m w))" using m by (auto simp: paso_def elim!: mueve.cases)
    moreover from this have "desde n F (snd (?m w))" using estable_desde [OF F] P by (auto simp: estable_def)
    moreover have "fst (?m w) \<noteq> Inr j" for j
      by (auto simp: procesar_y_lanzar_def luego_def emite_def devuelve_def lanza_def split: prod.split)
    ultimately show "solo_escribe E w (snd (?m w)) \<and> desde n (respondida cl p F (fst (?m w))) (snd (?m w))"
      by (auto simp: desde_def respondida_def)
  qed (intro estable_desde crece_respondida F)
qed

lemma vela_una_llamada:
  assumes "\<And>a. E (pedido p a)" "crece F"
  shows "vela (solo_escribe E) (\<lambda>r. desde n (respondida cl p F r)) (desde n F) (llama cl p)"
  unfolding llama_def
proof (rule vela_intenta)
  show "vela (solo_escribe E) (\<lambda>r. desde n (respondida cl p F r)) (desde n F)
      (tluego (paso (con_registro p (sf_http cl p))) (\<lambda>(st, body).
        if st \<notin> {200, 201} then traduce_error cl st body
        else (case sf_cargar cl body of Some j \<Rightarrow> tdevuelve j | None \<Rightarrow> tlanza (ValueError ''JSON''))))"
  proof (rule vela_luego [OF vela_un_registro [OF assms]])
    fix x :: "int \<times> string"
    obtain st body where x: "x = (st, body)" by fastforce
    let ?P = "desde n (\<lambda>l. F l \<and> (\<forall>y. (Inr x :: (int \<times> string) resultado) = Inr y \<longrightarrow> pedido p (Some y) \<in> set l))"
    show "vela (solo_escribe E) (\<lambda>r. desde n (respondida cl p F r)) ?P
        (case x of (st, body) \<Rightarrow> if st \<notin> {200, 201} then traduce_error cl st body
           else (case sf_cargar cl body of Some j \<Rightarrow> tdevuelve j | None \<Rightarrow> tlanza (ValueError ''JSON'')))"
    proof (cases "st \<in> {200, 201}")
      case True
      then show ?thesis
        by (auto simp: x desde_def respondida_def split: option.split intro!: vela_devuelve vela_lanza
          contestaI [where st = st and body = body])
    next
      case False
      then show ?thesis by (simp add: x) (rule vela_debil [OF vela_un_error [OF assms(2)]], auto simp: desde_def)
    qed
  qed (auto simp: desde_def respondida_def)
  fix e
  show "vela (solo_escribe E) (\<lambda>r. desde n (respondida cl p F r)) (desde n (respondida cl p F (Inl e)))
      (case e of ErrorRed _ \<Rightarrow> traduce_error cl 503 ''upstream request timeout'' | _ \<Rightarrow> tlanza e)"
    by (cases e) (auto intro!: vela_lanza vela_debil [OF vela_un_error [OF assms(2)]] simp: desde_def respondida_def)
qed auto

lemma vela_regulada:
  assumes "\<And>a. E (pedido p a)" "crece F"
  shows "vela (solo_escribe E) (\<lambda>r. desde n (respondida cl p F r)) (desde n F) (handle_sfc_throttling cl nombre (llama cl p))"
proof -
  let ?Q = "\<lambda>r. desde n (respondida cl p F r)"
  have m: "vela (solo_escribe E) (\<lambda>r. desde n F) (desde n F) (emitir_metrica_throttling a b)"
    and d: "vela (solo_escribe E) (\<lambda>r. desde n F) (desde n F) (paso (duerme ms))" for a b ms
    by (auto simp: emitir_metrica_throttling_def intro!: vela_escribe assms(2) metrica espera)
  have s: "desde n F w" if "?Q r w" for r w using that by (simp add: desde_def respondida_def)
  have z: "?Q (Inl e) w" if "desde n F w" for e w using that by (simp add: desde_def respondida_def)
  have "vela (solo_escribe E) ?Q (desde n F) (reintenta_throttling cl nombre k (llama cl p))" for k
  proof (induction k)
    case 0
    show ?case
      unfolding reintenta_throttling.simps tintenta_sfc_def
    proof (rule vela_intenta [OF vela_una_llamada [OF assms]])
      fix e show "vela (solo_escribe E) ?Q (?Q (Inl e)) (case e of SfcIntegrationException e \<Rightarrow>
           if \<not> es_respuesta_throttled e then tlanza (SfcIntegrationException e)
           else tluego (emitir_metrica_throttling nombre ''exhausted'') (\<lambda>_. tlanza (SfcIntegrationException e)) | x \<Rightarrow> tlanza e)"
        by (cases e) (auto intro!: vela_lanza vela_luego [OF vela_debil [OF m]] z dest: s)
    qed
  next
    case (Suc k)
    show ?case
      unfolding reintenta_throttling.simps tintenta_sfc_def
    proof (rule vela_intenta [OF vela_una_llamada [OF assms]])
      fix e show "vela (solo_escribe E) ?Q (?Q (Inl e)) (case e of SfcIntegrationException e \<Rightarrow>
           if \<not> es_respuesta_throttled e then tlanza (SfcIntegrationException e)
           else tluego (emitir_metrica_throttling nombre ''retried'') (\<lambda>_.
             tluego (paso (duerme (sf_demora cl))) (\<lambda>_. reintenta_throttling cl nombre k (llama cl p))) | x \<Rightarrow> tlanza e)"
        by (cases e) (auto intro!: vela_lanza vela_luego [OF vela_debil [OF m]] vela_luego [OF d] Suc.IH z dest: s)
    qed
  qed
  then show ?thesis by (simp add: handle_sfc_throttling_def)
qed

end

subsection \<open>Acknowledgements\<close>

lemma trozos_partes:
  assumes "0 < n" shows "concat (trozos n xs) = xs" "\<forall>l \<in> set (trozos n xs). length l \<le> n"
proof -
  have "concat (trozos n xs) = xs \<and> (\<forall>l \<in> set (trozos n xs). length l \<le> n)"
    using assms
  proof (induction n xs rule: trozos.induct)
    case (1 n xs)
    show ?case
    proof (cases "xs = []")
      case False
      then have "trozos n xs = take n xs # trozos n (drop n xs)" using 1(2) by (subst trozos.simps) simp
      with 1 False show ?thesis by simp
    qed (simp add: trozos.simps)
  qed
  then show "concat (trozos n xs) = xs" "\<forall>l \<in> set (trozos n xs). length l \<le> n" by simp_all
qed

lemma trozos_elementos: "0 < n \<Longrightarrow> l \<in> set (trozos n xs) \<Longrightarrow> set l \<subseteq> set xs"
  using trozos_partes(1) [of n xs] by (metis UN_upper set_concat)

lemma ids_unicos_ids: "set (ids_unicos ids) = {x. x \<noteq> [] \<and> x \<in> strip ` set ids}" "distinct (ids_unicos ids)"
  by (auto simp: ids_unicos_def)

definition acuse_de :: "cfg_sfc \<Rightarrow> string \<Rightarrow> string \<Rightarrow> string list \<Rightarrow> peticion" where
  "acuse_de cl ep llave lote = Post (sf_base cl @ ep) [(llave, JArr (map JStr lote))]"

text \<open>The SFC answered a batch of at most a hundred with the id, and the answer does not refuse it.\<close>

definition acusado :: "cfg_sync \<Rightarrow> string \<Rightarrow> string \<Rightarrow> (json \<Rightarrow> json) \<Rightarrow> string \<Rightarrow> evento list \<Rightarrow> bool" where
  "acusado c ep llave campo x log =
     (\<exists>lote j malos. contesta (sy_sfc c) (acuse_de (sy_sfc c) ep llave lote) j log \<and> x \<in> set lote \<and> length lote \<le> 100
        \<and> ids_rechazados (sy_py_str c) (campo j) = Inr malos \<and> x \<notin> set malos)"

lemma crece_acusado: "crece (acusado c ep llave campo x)"
  unfolding acusado_def by (intro crece_reglas crece_contesta)

text \<open>The only requests are acknowledgements of batches of the ids.\<close>

definition solo_acuses :: "cfg_sfc \<Rightarrow> string \<Rightarrow> string \<Rightarrow> string list \<Rightarrow> evento \<Rightarrow> bool" where
  "solo_acuses cl ep llave ids ev =
     (case ev of Http u d b a \<Rightarrow> (\<exists>lote. ev = pedido (acuse_de cl ep llave lote) a \<and> set lote \<subseteq> strip ` set ids \<and> length lote \<le> 100)
      | _ \<Rightarrow> True)"

lemma movimiento_acuses: "movimiento (solo_escribe (solo_acuses cl ep llave ids))"
  by (rule movimiento_escribe) (simp_all add: solo_acuses_def)

lemma escritura_acuses: "(\<And>p. callada (sf_http cl p)) \<Longrightarrow> escritura (solo_acuses cl ep llave ids) cl"
  by (simp add: escritura_def escritura_axioms_def movimiento_acuses)

definition repartidos :: "cfg_sync \<Rightarrow> string \<Rightarrow> string \<Rightarrow> (json \<Rightarrow> json) \<Rightarrow> string list \<Rightarrow> (string list \<times> string list) resultado \<Rightarrow> evento list \<Rightarrow> bool" where
  "repartidos c ep llave campo xs r log =
     (\<exists>a b. r = Inr (a, b) \<and> mset (a @ b) = mset xs \<and> (\<forall>x \<in> set a. acusado c ep llave campo x log))"

lemma crece_repartidos: "crece (repartidos c ep llave campo xs r)"
proof -
  have "crece (\<lambda>l. \<forall>x. x \<in> set a \<longrightarrow> acusado c ep llave campo x l)" for a
    by (intro crece_reglas crece_acusado)
  then show ?thesis unfolding repartidos_def Ball_def by (intro crece_reglas crece_acusado)
qed

lemma repartidos_junta:
  assumes "repartidos c ep llave campo xs (Inr (a, b)) l" "repartidos c ep llave campo ys (Inr (a', b')) l"
  shows "repartidos c ep llave campo (xs @ ys) (Inr (a @ a', b @ b')) l"
proof -
  have "mset (a @ a') + mset (b @ b') = (mset a + mset b) + (mset a' + mset b')" by simp
  with assms show ?thesis by (auto simp: repartidos_def)
qed

lemma lote_confirmado:
  assumes http: "\<And>p. callada (sf_http (sy_sfc c) p)" and F: "crece F"
    and lote: "set lote \<subseteq> strip ` set ids" "length lote \<le> 100" "\<forall>x \<in> set lote. strip x = x"
  shows "vela (solo_escribe (solo_acuses (sy_sfc c) ep llave ids)) (\<lambda>r. desde n (\<lambda>l. F l \<and> repartidos c ep llave campo lote r l)) (desde n F)
    (confirmar_lote (sy_py_str c) campo (\<lambda>l. handle_sfc_throttling (sy_sfc c) nombre (llama (sy_sfc c) (acuse_de (sy_sfc c) ep llave l))) lote)"
    (is "vela ?R ?Q _ _")
proof -
  let ?p = "acuse_de (sy_sfc c) ep llave lote"
  have E: "solo_acuses (sy_sfc c) ep llave ids (pedido ?p a)" for a
    using lote by (auto simp: solo_acuses_def pedido_def acuse_de_def)
  have nada: "desde n (\<lambda>l. F l \<and> repartidos c ep llave campo lote (Inr ([], lote)) l) w" if "desde n F w" for w
    using that by (simp add: desde_def repartidos_def)
  show ?thesis
    unfolding confirmar_lote_def
  proof (rule vela_intenta [where M = "\<lambda>r. desde n (\<lambda>l. F l \<and> (\<forall>y. r = Inr y \<longrightarrow> repartidos c ep llave campo lote (Inr y) l))"])
    show "vela ?R (\<lambda>r. desde n (\<lambda>l. F l \<and> (\<forall>y. r = Inr y \<longrightarrow> repartidos c ep llave campo lote (Inr y) l))) (desde n F)
        (tluego (handle_sfc_throttling (sy_sfc c) nombre (llama (sy_sfc c) ?p)) (\<lambda>r.
          tluego (de_resultado (ids_rechazados (sy_py_str c) (campo r))) (\<lambda>malos.
            tdevuelve (filter (\<lambda>x. strip x \<notin> set malos) lote, filter (\<lambda>x. strip x \<in> set malos) lote))))"
    proof (rule vela_luego [OF escritura.vela_regulada [OF escritura_acuses [OF http] E F]])
      fix j :: json
      have bien: "repartidos c ep llave campo lote (Inr (filter (\<lambda>x. strip x \<notin> set malos) lote, filter (\<lambda>x. strip x \<in> set malos) lote)) l"
        if "ids_rechazados (sy_py_str c) (campo j) = Inr malos" "contesta (sy_sfc c) ?p j l" for malos l
      proof -
        have "mset (filter (\<lambda>x. strip x \<notin> set malos) lote @ filter (\<lambda>x. strip x \<in> set malos) lote) = mset lote"
          using multiset_partition [of "mset lote" "\<lambda>x. strip x \<notin> set malos"] by simp
        moreover have "acusado c ep llave campo x l" if "x \<in> set (filter (\<lambda>x. strip x \<notin> set malos) lote)" for x
          unfolding acusado_def
          by (intro exI [of _ lote] exI [of _ j] exI [of _ malos]) (use that \<open>ids_rechazados _ _ = _\<close> \<open>contesta _ _ _ _\<close> lote in auto)
        ultimately show ?thesis by (auto simp: repartidos_def)
      qed
      show "vela ?R (\<lambda>r. desde n (\<lambda>l. F l \<and> (\<forall>y. r = Inr y \<longrightarrow> repartidos c ep llave campo lote (Inr y) l)))
          (desde n (respondida (sy_sfc c) ?p F (Inr j)))
          (tluego (de_resultado (ids_rechazados (sy_py_str c) (campo j))) (\<lambda>malos.
            tdevuelve (filter (\<lambda>x. strip x \<notin> set malos) lote, filter (\<lambda>x. strip x \<in> set malos) lote)))"
        using bien by (cases "ids_rechazados (sy_py_str c) (campo j)")
          (auto simp: de_resultado_def desde_def respondida_def intro!: v_listo vela_devuelve)
    qed (auto simp: desde_def respondida_def)
  qed (auto simp: desde_def intro!: vela_devuelve nada)
qed

lemma lotes_confirmados:
  assumes http: "\<And>p. callada (sf_http (sy_sfc c) p)"
    and "\<And>l. l \<in> set ls \<Longrightarrow> set l \<subseteq> strip ` set ids \<and> length l \<le> 100 \<and> (\<forall>x \<in> set l. strip x = x)"
  shows "crece F \<Longrightarrow> vela (solo_escribe (solo_acuses (sy_sfc c) ep llave ids))
    (\<lambda>r. desde n (\<lambda>l. F l \<and> repartidos c ep llave campo (concat ls) r l)) (desde n F)
    (confirmar_lotes (sy_py_str c) campo (\<lambda>l. handle_sfc_throttling (sy_sfc c) nombre (llama (sy_sfc c) (acuse_de (sy_sfc c) ep llave l))) ls)"
  using assms(2)
proof (induction ls arbitrary: F)
  case Nil
  then show ?case by (auto simp: desde_def repartidos_def intro!: vela_devuelve)
next
  case (Cons m ls)
  let ?R = "solo_escribe (solo_acuses (sy_sfc c) ep llave ids)"
  let ?env = "\<lambda>l. handle_sfc_throttling (sy_sfc c) nombre (llama (sy_sfc c) (acuse_de (sy_sfc c) ep llave l))"
  have uno: "vela ?R (\<lambda>r. desde n (\<lambda>l. F l \<and> repartidos c ep llave campo m r l)) (desde n F) (confirmar_lote (sy_py_str c) campo ?env m)"
    using lote_confirmado [OF http Cons.prems(1)] Cons.prems(2) [of m] by simp
  show ?case
    unfolding confirmar_lotes.simps
  proof (rule vela_luego [OF uno])
    fix y :: "string list \<times> string list"
    obtain a b where y: "y = (a, b)" by fastforce
    let ?F = "\<lambda>l. F l \<and> repartidos c ep llave campo m (Inr (a, b)) l"
    have F: "crece ?F" by (intro crece_reglas crece_repartidos Cons.prems(1))
    have resto: "vela ?R (\<lambda>r. desde n (\<lambda>l. ?F l \<and> repartidos c ep llave campo (concat ls) r l)) (desde n ?F)
        (confirmar_lotes (sy_py_str c) campo ?env ls)"
      by (rule Cons.IH [OF F]) (use Cons.prems(2) in auto)
    show "vela ?R (\<lambda>r. desde n (\<lambda>l. F l \<and> repartidos c ep llave campo (concat (m # ls)) r l))
        (desde n (\<lambda>l. F l \<and> repartidos c ep llave campo m (Inr y) l))
        (case y of (a, b) \<Rightarrow> tluego (confirmar_lotes (sy_py_str c) campo ?env ls) (\<lambda>(as, bs). tdevuelve (a @ as, b @ bs)))"
      unfolding y prod.case
      by (rule vela_luego [OF resto]) (auto simp: desde_def intro!: vela_devuelve repartidos_junta, auto simp: repartidos_def)
  qed (auto simp: desde_def repartidos_def)
qed

text \<open>What an acknowledgement tells the CRM: each id of the request once, and as processed only what the SFC accepted.\<close>

definition acuse_exacto :: "cfg_sync \<Rightarrow> string \<Rightarrow> string \<Rightarrow> (json \<Rightarrow> json) \<Rightarrow> string list \<Rightarrow> acuse \<Rightarrow> evento list \<Rightarrow> bool" where
  "acuse_exacto c ep llave campo ids ac log =
     (distinct (ac_procesados ac @ ac_errores ac)
      \<and> set (ac_procesados ac @ ac_errores ac) = {x. x \<noteq> [] \<and> x \<in> strip ` set ids}
      \<and> (ac_status ac = ''success'' \<longleftrightarrow> ac_errores ac = [] \<and> ac_procesados ac \<noteq> [])
      \<and> (\<forall>x \<in> set (ac_procesados ac). acusado c ep llave campo x log)
      \<and> list_all (solo_acuses (sy_sfc c) ep llave ids) log)"

lemma acuse_repartido:
  assumes http: "\<And>p. callada (sf_http (sy_sfc c) p)"
    and "envia = (\<lambda>l. handle_sfc_throttling (sy_sfc c) nombre (llama (sy_sfc c) (acuse_de (sy_sfc c) ep llave l)))"
  obtains a b log where "fst (corre (confirmar_lotes (sy_py_str c) campo envia (trozos 100 (ids_unicos ids))) w) = Inr (a, b)"
    "w_bitacora (snd (corre (confirmar_lotes (sy_py_str c) campo envia (trozos 100 (ids_unicos ids))) w)) = w_bitacora w @ log"
    "distinct (a @ b)" "set (a @ b) = {x. x \<noteq> [] \<and> x \<in> strip ` set ids}" "\<forall>x \<in> set a. acusado c ep llave campo x log"
    "list_all (solo_acuses (sy_sfc c) ep llave ids) log"
proof -
  let ?t = "confirmar_lotes (sy_py_str c) campo envia (trozos 100 (ids_unicos ids))" and ?n = "length (w_bitacora w)"
  let ?R = "solo_escribe (solo_acuses (sy_sfc c) ep llave ids)"
  have ls: "set l \<subseteq> strip ` set ids \<and> length l \<le> 100 \<and> (\<forall>x \<in> set l. strip x = x)" if "l \<in> set (trozos 100 (ids_unicos ids))" for l
    using trozos_elementos [OF _ that] trozos_partes(2) [of 100 "ids_unicos ids"] that
    by (auto simp: ids_unicos_ids strip_strip subset_iff)
  have "vela ?R (\<lambda>r. desde ?n (\<lambda>l. True \<and> repartidos c ep llave campo (concat (trozos 100 (ids_unicos ids))) r l)) (desde ?n (\<lambda>l. True)) ?t"
    unfolding assms(2) by (rule lotes_confirmados [OF http ls]) (auto intro: crece_reglas)
  from vela_corre [OF solo_escribe_orden this, of w]
  have R: "?R w (snd (corre ?t w))" and Q: "repartidos c ep llave campo (ids_unicos ids) (fst (corre ?t w)) (nuevos ?n (snd (corre ?t w)))"
    by (simp_all add: desde_def trozos_partes(1))
  from R obtain log where log: "w_bitacora (snd (corre ?t w)) = w_bitacora w @ log" "list_all (solo_acuses (sy_sfc c) ep llave ids) log"
    by (auto simp: solo_escribe_def)
  from Q obtain a b where ab: "fst (corre ?t w) = Inr (a, b)" "mset (a @ b) = mset (ids_unicos ids)" "\<forall>x \<in> set a. acusado c ep llave campo x log"
    by (auto simp: repartidos_def nuevos_def log(1))
  from ab(2) have "distinct (a @ b)" "set (a @ b) = set (ids_unicos ids)"
    using ids_unicos_ids(2) mset_eq_imp_distinct_iff mset_eq_setD by blast+
  with that [OF ab(1) log(1) _ _ ab(3) log(2)] show thesis by (simp add: ids_unicos_ids)
qed

text \<open>C33. An acknowledgement is exact. Whatever the SFC answers to the batches, an acknowledgement of complaints or of users returns;
every id of the request that is not blank appears in its answer once, as processed or as error; it is processed only if the SFC
answered 200 or 201 to a batch of at most a hundred with the id and did not list it among the refused; the answer says success exactly
when nothing failed; and the only requests made acknowledge ids of the request.\<close>

theorem el_acuse_es_exacto:
  assumes http: "\<And>p. callada (sf_http (sy_sfc c) p)"
  shows "(\<exists>ac w' log. corre (confirmar_recepcion_ack c ids) w = (Inr ac, w') \<and> w_bitacora w' = w_bitacora w @ log
      \<and> acuse_exacto c ep_ack_complaint ''pqrs'' errores_m1 ids ac log)
    \<and> (\<exists>ac w' log. corre (confirmar_recepcion_ack_usuarios c ids) w = (Inr ac, w') \<and> w_bitacora w' = w_bitacora w @ log
      \<and> acuse_exacto c ep_usuarios_ack ''numero_id_CF'' errores_m4 ids ac log)"
proof
  note unicos = ids_unicos_ids(1) [of ids]
  obtain a b log where m1: "fst (corre (confirmar_lotes (sy_py_str c) errores_m1 (send_ack_batch (sy_sfc c)) (trozos 100 (ids_unicos ids))) w) = Inr (a, b)"
    "w_bitacora (snd (corre (confirmar_lotes (sy_py_str c) errores_m1 (send_ack_batch (sy_sfc c)) (trozos 100 (ids_unicos ids))) w)) = w_bitacora w @ log"
    "distinct (a @ b)" "set (a @ b) = set (ids_unicos ids)" "\<forall>x \<in> set a. acusado c ep_ack_complaint ''pqrs'' errores_m1 x log"
    "list_all (solo_acuses (sy_sfc c) ep_ack_complaint ''pqrs'' ids) log"
    by (rule acuse_repartido [OF http, of "send_ack_batch (sy_sfc c)" "''send_ack_batch''" ep_ack_complaint "''pqrs''"])
      (simp_all add: unicos acuse_de_def send_ack_batch_def fun_eq_iff)
  show "\<exists>ac w' log. corre (confirmar_recepcion_ack c ids) w = (Inr ac, w') \<and> w_bitacora w' = w_bitacora w @ log
      \<and> acuse_exacto c ep_ack_complaint ''pqrs'' errores_m1 ids ac log"
  proof (cases "ids_unicos ids = []")
    case True
    with unicos show ?thesis by (simp add: confirmar_recepcion_ack_def acuse_exacto_def devuelve_def)
  next
    case False
    then have "a \<noteq> [] \<or> b \<noteq> []" using m1(4) by auto
    moreover have "corre (confirmar_recepcion_ack c ids) w
        = (Inr \<lparr>ac_status = (if b = [] then ''success'' else ''partial''), ac_mensaje = [], ac_procesados = a, ac_errores = b\<rparr>,
           snd (corre (confirmar_lotes (sy_py_str c) errores_m1 (send_ack_batch (sy_sfc c)) (trozos 100 (ids_unicos ids))) w))"
      using False m1(1)
      by (cases "corre (confirmar_lotes (sy_py_str c) errores_m1 (send_ack_batch (sy_sfc c)) (trozos 100 (ids_unicos ids))) w")
        (simp add: confirmar_recepcion_ack_def luego_def devuelve_def)
    ultimately show ?thesis using m1(2-) unicos by (intro exI conjI) (assumption, auto simp: acuse_exacto_def)
  qed
  obtain a b log where m4: "fst (corre (confirmar_lotes (sy_py_str c) errores_m4 (send_user_ack_batch (sy_sfc c)) (trozos 100 (ids_unicos ids))) w) = Inr (a, b)"
    "w_bitacora (snd (corre (confirmar_lotes (sy_py_str c) errores_m4 (send_user_ack_batch (sy_sfc c)) (trozos 100 (ids_unicos ids))) w)) = w_bitacora w @ log"
    "distinct (a @ b)" "set (a @ b) = set (ids_unicos ids)" "\<forall>x \<in> set a. acusado c ep_usuarios_ack ''numero_id_CF'' errores_m4 x log"
    "list_all (solo_acuses (sy_sfc c) ep_usuarios_ack ''numero_id_CF'' ids) log"
    by (rule acuse_repartido [OF http, of "send_user_ack_batch (sy_sfc c)" "''send_user_ack_batch''" ep_usuarios_ack "''numero_id_CF''"])
      (simp_all add: unicos acuse_de_def send_user_ack_batch_def fun_eq_iff)
  show "\<exists>ac w' log. corre (confirmar_recepcion_ack_usuarios c ids) w = (Inr ac, w') \<and> w_bitacora w' = w_bitacora w @ log
      \<and> acuse_exacto c ep_usuarios_ack ''numero_id_CF'' errores_m4 ids ac log"
  proof (cases "ids_unicos ids = []")
    case True
    with unicos show ?thesis by (auto simp: confirmar_recepcion_ack_usuarios_def acuse_exacto_def devuelve_def)
  next
    case False
    then have "ids \<noteq> []" by (auto simp: ids_unicos_def)
    moreover have "a \<noteq> [] \<or> b \<noteq> []" using m4(4) False by auto
    moreover have "corre (confirmar_recepcion_ack_usuarios c ids) w
        = (Inr \<lparr>ac_status = (if b = [] then ''success'' else if a \<noteq> [] then ''partial'' else ''error''),
            ac_mensaje = ''ACK de usuarios procesado ante la SFC: '' @ str_nat (length a) @ '' exitosos, '' @ str_nat (length b) @ '' con error.'',
            ac_procesados = a, ac_errores = b\<rparr>,
           snd (corre (confirmar_lotes (sy_py_str c) errores_m4 (send_user_ack_batch (sy_sfc c)) (trozos 100 (ids_unicos ids))) w))"
      using False \<open>ids \<noteq> []\<close> m4(1)
      by (cases "corre (confirmar_lotes (sy_py_str c) errores_m4 (send_user_ack_batch (sy_sfc c)) (trozos 100 (ids_unicos ids))) w")
        (simp add: confirmar_recepcion_ack_usuarios_def luego_def devuelve_def)
    ultimately show ?thesis using m4(2-) unicos by (intro exI conjI) (assumption, auto simp: acuse_exacto_def)
  qed
qed

text \<open>An SFC that refuses one of the ids.\<close>

definition rechaza_ej :: cfg_sync where
  "rechaza_ej =
     \<lparr>sy_sfc = sfc_ej\<lparr>sf_cargar := (\<lambda>t. Some (JObj [(''pqrs_error'', JArr [JStr ''B''])]))\<rparr>, sy_s3 = s3_ej, sy_py_str = (\<lambda>j. []),
      sy_mapeador = mapeador_ej, sy_max_paginas = 3, sy_max_segundos = 300, sy_turnos = (\<lambda>i. [1, 0]), sy_lote = [1]\<rparr>"

lemma rechaza_ej_corre:
  "(case fst (corre (confirmar_recepcion_ack rechaza_ej [''A'', '' B'', ''A'', '' '']) lote_ej) of
      Inr ac \<Rightarrow> ac_procesados ac = [''A''] \<and> ac_errores ac = [''B''] | Inl _ \<Rightarrow> False)"
  by code_simp

lemma el_acuse_es_exacto_testigo:
  "\<exists>ac w' log. corre (confirmar_recepcion_ack rechaza_ej [''A'', '' B'', ''A'', '' '']) lote_ej = (Inr ac, w')
     \<and> w_bitacora w' = log \<and> ac_procesados ac = [''A''] \<and> ac_errores ac = [''B'']
     \<and> acusado rechaza_ej ep_ack_complaint ''pqrs'' errores_m1 ''A'' log"
proof -
  have "callada (sf_http (sy_sfc rechaza_ej) p)" for p by (simp add: rechaza_ej_def sfc_ej_def calladas)
  from el_acuse_es_exacto [OF this, of "[''A'', '' B'', ''A'', '' '']" lote_ej]
  obtain ac w' log where 1: "corre (confirmar_recepcion_ack rechaza_ej [''A'', '' B'', ''A'', '' '']) lote_ej = (Inr ac, w')"
    "w_bitacora w' = w_bitacora lote_ej @ log" "acuse_exacto rechaza_ej ep_ack_complaint ''pqrs'' errores_m1 [''A'', '' B'', ''A'', '' ''] ac log"
    by blast
  have "w_bitacora lote_ej = []" by (simp add: lote_ej_def)
  with 1 rechaza_ej_corre show ?thesis by (intro exI [of _ ac] exI [of _ w'] exI [of _ log]) (simp add: acuse_exacto_def)
qed

end
