(* ===== verification/Entrega_Propiedades.thy ===== *)
theory Entrega_Propiedades
  imports Sincronizacion_Propiedades "HOL-Library.Sublist"
begin

text \<open>
  What Momento 1 delivers to the CRM: complaints of the pages, each code once, with all their attachments or not at all.
\<close>

subsection \<open>The results of a task\<close>

primrec da :: "('a resultado \<Rightarrow> bool) \<Rightarrow> 'a tarea \<Rightarrow> bool" where
  "da S (Listo r) = S r"
| "da S (Sigue s g) = (\<forall>w. da S (s w))"

lemma da_basicas: "S (Inr x) \<Longrightarrow> da S (tdevuelve x)" "S (Inl e) \<Longrightarrow> da S (tlanza e)"
  by (simp_all add: tdevuelve_def tlanza_def)

lemma da_luego: "(\<And>e. S (Inl e)) \<Longrightarrow> (\<And>x. da S (f x)) \<Longrightarrow> da S (tluego t f)"
proof (induction t)
  case (Listo r)
  then show ?case by (cases r) simp_all
qed simp

lemma da_intenta: "da S t \<Longrightarrow> (\<And>e. da S (h e)) \<Longrightarrow> da S (tintenta t h)"
proof (induction t)
  case (Listo r)
  then show ?case by (cases r) simp_all
qed simp

lemma vela_da: "mueve G t \<Longrightarrow> da S t \<Longrightarrow> estable G P \<Longrightarrow> vela G (\<lambda>r w. P w \<and> S r) P t"
proof (induction rule: mueve.induct)
  case (m_sigue g s)
  show ?case
  proof (rule v_sigue)
    fix w assume "P w"
    with m_sigue show "G w (g w) \<and> (\<exists>P'. estable G P' \<and> P' (g w) \<and> vela G (\<lambda>r w. P w \<and> S r) P' (s w))"
      by (intro conjI exI [of _ P]) (auto simp: estable_def)
  qed
qed (auto intro: v_listo)

abbreviation avanza_log :: "mundo \<Rightarrow> mundo \<Rightarrow> bool" where
  "avanza_log \<equiv> solo_escribe (\<lambda>ev. True)"

interpretation mtodo: movimiento avanza_log
  by (rule movimiento_escribe) simp_all

subsection \<open>From the SFC to the bucket\<close>

definition s3_callado :: "cfg_s3 \<Rightarrow> bool" where
  "s3_callado c = ((\<forall>u. callada (s3_url c u)) \<and> (\<forall>b k t u. callada (s3_pone c b k t u)))"

text \<open>
  What is delivered of the attachment \<open>x\<close>: a record with a name that has its id, and its key below the directory of the code.
  Outside the local mode, the log shows that the file came from the URL of the attachment, on an allowed host of the SFC, passed
  the integrity check, and was accepted by the bucket of the record under that key.
\<close>

definition nombre_de_adjunto :: "cfg_s3 \<Rightarrow> string \<Rightarrow> dict \<Rightarrow> string \<Rightarrow> string" where
  "nombre_de_adjunto c codigo d ext =
     (if verdadero (obtener d ''id'') then str_de (s3_py_str c) (obtener d ''id'') @ ''.'' @ ext else ''adjunto_'' @ codigo @ ''.'' @ ext)"

definition guardado :: "cfg_s3 \<Rightarrow> dict \<Rightarrow> string \<Rightarrow> string \<Rightarrow> evento list \<Rightarrow> bool" where
  "guardado c d nombre key log =
     (\<exists>contenido. validar_url_sfc_permitida c (url_de_adjunto d) = Inr ()
        \<and> Bajada (texto_o_nada (s3_py_str c) (url_de_adjunto d)) contenido \<in> set log
        \<and> validar_integridad_archivo contenido nombre = Inr ()
        \<and> Subida (s3_bucket c) (limpiar_key key) contenido True \<in> set log)"

definition archivada :: "cfg_s3 \<Rightarrow> string \<Rightarrow> json \<Rightarrow> json \<Rightarrow> evento list \<Rightarrow> bool" where
  "archivada c codigo x a log =
     (\<exists>d ext. x = JObj d
        \<and> a = ficha_archivo (nombre_de_adjunto c codigo d ext) (''quejas/'' @ codigo @ ''/'' @ nombre_de_adjunto c codigo d ext) (s3_bucket c)
        \<and> (\<not> es_local c \<longrightarrow>
             guardado c d (nombre_de_adjunto c codigo d ext) (''quejas/'' @ codigo @ ''/'' @ nombre_de_adjunto c codigo d ext) log))"

lemma guardadoI:
  "validar_url_sfc_permitida c (url_de_adjunto d) = Inr () \<Longrightarrow>
   Bajada (texto_o_nada (s3_py_str c) (url_de_adjunto d)) t \<in> set l \<Longrightarrow>
   validar_integridad_archivo t nombre = Inr () \<Longrightarrow> Subida (s3_bucket c) (limpiar_key key) t True \<in> set l \<Longrightarrow> guardado c d nombre key l"
  by (auto simp: guardado_def)

lemma archivada_subida:
  assumes "nombre = nombre_de_adjunto c codigo d ext" "key = ''quejas/'' @ codigo @ ''/'' @ nombre" "guardado c d nombre key l"
  shows "archivada c codigo (JObj d) (ficha_archivo nombre key (s3_bucket c)) l"
  unfolding archivada_def by (intro exI [of _ d] exI [of _ ext]) (use assms in simp)

lemma crece_guardado: "crece (guardado c d nombre key)"
  unfolding guardado_def by (intro crece_reglas)

lemma crece_archivada: "crece (archivada c codigo x a)"
  unfolding archivada_def by (intro crece_reglas crece_guardado)

lemma adjunto_limpio_archivada: "archivada c codigo x a l \<Longrightarrow> adjunto_limpio a = Some a"
  by (auto simp: archivada_def adjunto_limpio_def ficha_archivo_def obtener_def)

lemma limpios: "list_all2 (\<lambda>x a. archivada c codigo x a l) xs as \<Longrightarrow> List.map_filter adjunto_limpio as = as"
  by (induction rule: list_all2_induct) (auto simp: adjunto_limpio_archivada)

lemma vela_callada:
  assumes "callada m" "crece F" shows "vela avanza_log (\<lambda>r. desde n F) (desde n F) (paso m)"
  by (rule vela_escribe [OF escribe_callada [OF assms(1)] assms(2)])

lemma vela_resultado_exacto: "vela avanza_log (\<lambda>r'. desde n (\<lambda>l. F l \<and> r' = r)) (desde n F) (de_resultado r)"
  unfolding de_resultado_def by (rule v_listo) (simp add: desde_def)

text \<open>A download that ends well is in the log, and so is an upload that S3 accepted.\<close>

lemma vela_bajada:
  assumes "callada (s3_url c u)" "crece F"
  shows "vela avanza_log (\<lambda>r. desde n (\<lambda>l. F l \<and> (\<forall>t. r = Inr t \<longrightarrow> Bajada u t \<in> set l))) (desde n F) (descargar_adjunto_streaming c u nombre)"
    (is "vela _ ?Q _ _")
  unfolding descargar_adjunto_streaming_def
proof (rule vela_luego [OF vela_callada [OF assms]])
  fix r
  show "vela avanza_log ?Q (desde n F) (tluego (de_resultado (recibido_de c nombre r)) (\<lambda>contenido.
      tluego (paso (emite (Bajada u contenido))) (\<lambda>_. tdevuelve contenido)))"
  proof (rule vela_luego [OF vela_resultado_exacto])
    fix t
    have e: "vela avanza_log (\<lambda>r. desde n (\<lambda>l. F l \<and> Bajada u t \<in> set l)) (desde n F) (paso (emite (Bajada u t)))"
    proof (rule vela_paso)
      show "estable avanza_log (desde n (\<lambda>l. F l \<and> Bajada u t \<in> set l))" by (intro estable_desde crece_reglas assms(2))
      fix w assume "desde n F w"
      with desde_crece [OF assms(2) this, of "snd (emite (Bajada u t) w)" "[Bajada u t]"]
      show "avanza_log w (snd (emite (Bajada u t) w)) \<and> desde n (\<lambda>l. F l \<and> Bajada u t \<in> set l) (snd (emite (Bajada u t) w))"
        by (simp add: emite_def solo_escribe_def desde_def nuevos_def)
    qed
    have "vela avanza_log ?Q (desde n F) (tluego (paso (emite (Bajada u t))) (\<lambda>_. tdevuelve t))"
      by (rule vela_luego [OF e]) (auto simp: desde_def intro!: vela_devuelve)
    then show "vela avanza_log ?Q (desde n (\<lambda>l. F l \<and> Inr t = recibido_de c nombre r)) (tluego (paso (emite (Bajada u t))) (\<lambda>_. tdevuelve t))"
      by (rule vela_debil) (simp add: desde_def)
  qed (auto simp: desde_def dest: sym)
qed (simp add: desde_def)

lemma vela_subida:
  assumes "\<And>b k t u. callada (s3_pone c b k t u)" "\<not> es_local c" "crece F"
  shows "vela avanza_log (\<lambda>r. desde n (\<lambda>l. F l \<and> (\<forall>x. r = Inr x \<longrightarrow> Subida (s3_bucket c) (limpiar_key key) t True \<in> set l))) (desde n F)
    (subir_stream_archivo c key t u)" (is "vela _ ?Q _ _")
proof (cases "s3_cliente c")
  case False
  with assms(2) show ?thesis
    by (auto simp: subir_stream_archivo_def subir_bytes_archivo_def Let_def desde_def intro!: vela_lanza)
next
  case True
  let ?k = "limpiar_key key" and ?p = "s3_pone c (s3_bucket c) (limpiar_key key) t u"
  let ?m = "con_subida (s3_bucket c) ?k t ?p"
  let ?M = "\<lambda>r. desde n (\<lambda>l. F l \<and> (\<forall>x. r = Inr (BOk x) \<longrightarrow> Subida (s3_bucket c) ?k t True \<in> set l))"
  have "vela avanza_log ?M (desde n F) (paso ?m)"
  proof (rule vela_paso)
    fix w assume P: "desde n F w"
    obtain l where l: "w_bitacora (snd (?m w)) = w_bitacora w @ l" "\<And>x. fst (?m w) = Inr (BOk x) \<Longrightarrow> Subida (s3_bucket c) ?k t True \<in> set l"
      using con_subida_log [OF assms(1), of "s3_bucket c" ?k t] by fastforce
    with desde_crece [OF assms(3) P l(1)] P
    show "avanza_log w (snd (?m w)) \<and> ?M (fst (?m w)) (snd (?m w))"
      by (auto simp: solo_escribe_def desde_def nuevos_def list_all_iff)
  qed (intro estable_desde crece_reglas assms(3))
  from vela_luego [OF this, of ?Q] True show ?thesis
    by (auto simp: subir_stream_archivo_def subir_bytes_archivo_def Let_def desde_def split: boto.split
        intro!: vela_luego [OF \<open>vela avanza_log ?M (desde n F) (paso ?m)\<close>] vela_devuelve vela_lanza)
qed

lemma traida_mueve: "s3_callado c \<Longrightarrow> mueve avanza_log (procesar_adjunto_sfc_a_s3 c adj codigo)"
  unfolding procesar_adjunto_sfc_a_s3_def Let_def descargar_adjunto_streaming_def subir_stream_archivo_def subir_bytes_archivo_def
  by (auto simp: s3_callado_def intro!: mueve_reglas escribe_subida escribe_emite mtodo.resultado intro: escribe_callada
      split: json.split boto.split descarga.split excepcion.split option.split)

lemma traida_local:
  assumes "es_local c"
  shows "da (\<lambda>r. \<forall>a. r = Inr (Some a) \<longrightarrow> (\<forall>l. archivada c codigo x a l)) (procesar_adjunto_sfc_a_s3 c x codigo)"
  using assms unfolding procesar_adjunto_sfc_a_s3_def Let_def
  by (auto simp: archivada_def nombre_de_adjunto_def intro!: da_luego da_intenta da_basicas split: json.split excepcion.split)

text \<open>The body of the \<^verbatim>\<open>try\<close>, outside the local mode.\<close>

lemma cuerpo_traido:
  assumes "s3_callado c" "crece F" "\<not> es_local c" "x = JObj d" "nombre = nombre_de_adjunto c codigo d ext"
    and "key = ''quejas/'' @ codigo @ ''/'' @ nombre"
  shows "vela avanza_log (\<lambda>r. desde n (\<lambda>l. F l \<and> (\<forall>a. r = Inr (Some a) \<longrightarrow> archivada c codigo x a l))) (desde n F)
    (tluego (de_resultado (validar_url_sfc_permitida c (url_de_adjunto d))) (\<lambda>_.
       tluego (descargar_adjunto_streaming c (texto_o_nada (s3_py_str c) (url_de_adjunto d)) nombre) (\<lambda>contenido.
         tluego (de_resultado (validar_integridad_archivo contenido nombre)) (\<lambda>_.
           tluego (subir_stream_archivo c key contenido ct) (\<lambda>_. tdevuelve (Some (ficha_archivo nombre key (s3_bucket c))))))))"
    (is "vela _ ?Q _ _")
proof (cases "validar_url_sfc_permitida c (url_de_adjunto d)")
  case (Inl e)
  then show ?thesis by (simp add: de_resultado_def) (rule v_listo, simp add: desde_def)
next
  case url: (Inr y)
  let ?u = "texto_o_nada (s3_py_str c) (url_de_adjunto d)"
  have c: "\<And>u. callada (s3_url c u)" "\<And>b k t u. callada (s3_pone c b k t u)" using assms(1) by (simp_all add: s3_callado_def)
  have "vela avanza_log ?Q (desde n F)
      (tluego (descargar_adjunto_streaming c ?u nombre) (\<lambda>contenido.
         tluego (de_resultado (validar_integridad_archivo contenido nombre)) (\<lambda>_.
           tluego (subir_stream_archivo c key contenido ct) (\<lambda>_. tdevuelve (Some (ficha_archivo nombre key (s3_bucket c)))))))"
  proof (rule vela_luego [OF vela_bajada [OF c(1) assms(2)]])
    fix t
    let ?F = "\<lambda>l. F l \<and> (\<forall>t'. (Inr t :: string resultado) = Inr t' \<longrightarrow> Bajada ?u t' \<in> set l)"
    show "vela avanza_log ?Q (desde n ?F) (tluego (de_resultado (validar_integridad_archivo t nombre)) (\<lambda>_.
        tluego (subir_stream_archivo c key t ct) (\<lambda>_. tdevuelve (Some (ficha_archivo nombre key (s3_bucket c))))))"
    proof (cases "validar_integridad_archivo t nombre")
      case (Inl e)
      then show ?thesis by (simp add: de_resultado_def) (rule v_listo, simp add: desde_def)
    next
      case (Inr z)
      have F: "crece ?F" by (intro crece_reglas assms(2))
      have "vela avanza_log ?Q (desde n ?F) (tluego (subir_stream_archivo c key t ct) (\<lambda>_. tdevuelve (Some (ficha_archivo nombre key (s3_bucket c)))))"
        by (rule vela_luego [OF vela_subida [OF c(2) assms(3) F]])
          (use url Inr assms(4) in \<open>auto simp: desde_def intro!: vela_devuelve archivada_subida [OF assms(5,6)] guardadoI [of c d t]\<close>)
      with Inr show ?thesis by (simp add: de_resultado_def)
    qed
  qed (simp add: desde_def)
  with url show ?thesis by (simp add: de_resultado_def)
qed

lemma traida:
  assumes "s3_callado c" "crece F"
  shows "vela avanza_log (\<lambda>r. desde n (\<lambda>l. F l \<and> (\<forall>a. r = Inr (Some a) \<longrightarrow> archivada c codigo x a l))) (desde n F)
    (procesar_adjunto_sfc_a_s3 c x codigo)" (is "vela _ ?Q _ _")
proof (cases "es_local c")
  case True
  show ?thesis
    by (rule vela_mas [OF vela_da [OF traida_mueve [OF assms(1)] traida_local [OF True] estable_desde [OF assms(2)]]])
      (auto simp: desde_def)
next
  case False
  show ?thesis
  proof (cases "\<exists>d. x = JObj d")
    case False
    then show ?thesis by (cases x) (auto simp: procesar_adjunto_sfc_a_s3_def desde_def intro!: vela_lanza)
  next
    case True
    then obtain d where d: "x = JObj d" by blast
    let ?norm = "normalizar_tipo_archivo (texto_o_nada (s3_py_str c) (obtener d ''type'')) (url_como_texto (url_de_adjunto d))"
    show ?thesis
    proof (cases ?norm)
      case (Inl e)
      with d show ?thesis by (auto simp: procesar_adjunto_sfc_a_s3_def de_resultado_def desde_def intro!: v_listo)
    next
      case (Inr y)
      obtain ext ct where y: "y = (ext, ct)" by fastforce
      let ?nombre = "nombre_de_adjunto c codigo d ext"
      let ?key = "''quejas/'' @ codigo @ ''/'' @ ?nombre"
      note cuerpo = cuerpo_traido [OF assms \<open>\<not> es_local c\<close> d refl refl, of n codigo ext ct]
      have "procesar_adjunto_sfc_a_s3 c x codigo = tintenta
          (tluego (de_resultado (validar_url_sfc_permitida c (url_de_adjunto d))) (\<lambda>_.
             tluego (descargar_adjunto_streaming c (texto_o_nada (s3_py_str c) (url_de_adjunto d)) ?nombre) (\<lambda>contenido.
               tluego (de_resultado (validar_integridad_archivo contenido ?nombre)) (\<lambda>_.
                 tluego (subir_stream_archivo c ?key contenido ct) (\<lambda>_. tdevuelve (Some (ficha_archivo ?nombre ?key (s3_bucket c))))))))
          (\<lambda>e. case e of SfcIntegrationException x \<Rightarrow> tlanza e | _ \<Rightarrow> tdevuelve None)"
        using d Inr y \<open>\<not> es_local c\<close> by (simp add: procesar_adjunto_sfc_a_s3_def de_resultado_def Let_def nombre_de_adjunto_def)
      then show ?thesis
        by (simp only:) (rule vela_intenta [OF cuerpo], auto simp: desde_def intro!: vela_lanza vela_devuelve split: excepcion.split)
    qed
  qed
qed

lemma validos_length: "length (validos rs) \<le> length rs"
  by (simp add: validos_def map_filter_def)

lemma validos_entregados:
  "list_all2 (\<lambda>r q. \<forall>e. r = Inr (Some e) \<longrightarrow> P q e) rs qs \<Longrightarrow> \<exists>qs'. subseq qs' qs \<and> list_all2 P qs' (validos rs)"
proof (induction rule: list_all2_induct)
  case Nil
  then show ?case by (auto simp: validos_def)
next
  case (Cons r rs q qs)
  then obtain qs' where qs': "subseq qs' qs" "list_all2 P qs' (validos rs)" by blast
  show ?case
  proof (cases "\<exists>e. r = Inr (Some e)")
    case True
    with Cons(1) qs' show ?thesis by (intro exI [of _ "q # qs'"]) (auto simp: validos_def)
  next
    case False
    then have "validos (r # rs) = validos rs" by (auto simp: validos_def split: sum.splits option.splits)
    with qs' show ?thesis by (intro exI [of _ qs']) auto
  qed
qed

text \<open>A batch returns records of some of its attachments, in their order; as many records as attachments are one of each.\<close>

definition traidos :: "cfg_s3 \<Rightarrow> string \<Rightarrow> json list \<Rightarrow> json list resultado \<Rightarrow> evento list \<Rightarrow> bool" where
  "traidos c codigo xs r log = (\<exists>as ys. r = Inr as \<and> subseq ys xs \<and> list_all2 (\<lambda>x a. archivada c codigo x a log) ys as)"

lemma crece_todos_archivados: "crece (\<lambda>l. list_all2 (\<lambda>x a. archivada c codigo x a l) xs as)"
  unfolding crece_def by (blast intro: list_all2_mono creceD [OF crece_archivada])

lemma crece_traidos: "crece (traidos c codigo xs r)"
  unfolding traidos_def by (intro crece_reglas crece_todos_archivados)

lemma traidos_todos:
  assumes "traidos c codigo xs (Inr as) l" "length xs \<le> length as"
  shows "list_all2 (\<lambda>x a. archivada c codigo x a l) xs as"
proof -
  obtain ys where ys: "subseq ys xs" "list_all2 (\<lambda>x a. archivada c codigo x a l) ys as" using assms(1) by (auto simp: traidos_def)
  then have "length ys = length xs"
    using assms(2) list_all2_lengthD [OF ys(2)] list_emb_length [OF ys(1)] by simp
  with ys subseq_same_length [OF ys(1)] show ?thesis by simp
qed

lemma lote_traido:
  assumes "s3_callado c" "crece F"
  shows "vela avanza_log (\<lambda>r. desde n (\<lambda>l. F l \<and> traidos c codigo xs r l)) (desde n F)
    (transferir_lote_sfc_a_s3 c turnos codigo xs)"
proof (cases "xs = []")
  case True
  then show ?thesis by (auto simp: transferir_lote_sfc_a_s3_def desde_def traidos_def intro!: vela_devuelve)
next
  case False
  let ?ts = "map (\<lambda>a. procesar_adjunto_sfc_a_s3 c a codigo) xs"
  let ?Q = "\<lambda>i r. desde n (\<lambda>l. F l \<and> (\<forall>a. r = Inr (Some a) \<longrightarrow> archivada c codigo (xs ! i) a l))"
  have "vela avanza_log (\<lambda>r w. juntas (length ?ts) ?Q r w \<and> desde n F w) (\<lambda>w. (\<forall>i<length ?ts. desde n F w) \<and> desde n F w) (reune 5 turnos ?ts)"
    by (intro vela_marco vela_reune estable_desde crece_reglas crece_archivada assms(2)) (simp add: traida [OF assms])
  then have *: "vela avanza_log (\<lambda>r w. juntas (length ?ts) ?Q r w \<and> desde n F w) (desde n F) (reune 5 turnos ?ts)"
    by (rule vela_debil) simp
  have bien: "desde n (\<lambda>l. F l \<and> traidos c codigo xs (Inr (validos rs)) l) w"
    if j: "juntas (length ?ts) ?Q (Inr rs) w" and F: "desde n F w" for rs w
  proof -
    from j have "list_all2 (\<lambda>r x. \<forall>a. r = Inr (Some a) \<longrightarrow> archivada c codigo x a (nuevos n w)) rs xs"
      by (auto simp: juntas_def list_all2_conv_all_nth desde_def)
    from validos_entregados [OF this] F show ?thesis by (auto simp: desde_def traidos_def)
  qed
  show ?thesis
    using False unfolding transferir_lote_sfc_a_s3_def
    by (simp del: length_map) (rule vela_luego [OF *], auto simp: juntas_def intro!: vela_devuelve bien)
qed

subsection \<open>One complaint\<close>

definition listado_de_anexos :: "cfg_sync \<Rightarrow> string \<Rightarrow> peticion" where
  "listado_de_anexos c codigo = Get (sf_base (sy_sfc c) @ ep_storage @ ''?codigo_queja__codigo_queja='' @ codigo)"

text \<open>The SFC listed the attachments of the code, and \<open>as\<close> are their records, one of each, archived.\<close>

definition completos :: "cfg_sync \<Rightarrow> string \<Rightarrow> json list \<Rightarrow> evento list \<Rightarrow> bool" where
  "completos c codigo as log =
     ((\<exists>j data xs. contesta (sy_sfc c) (listado_de_anexos c codigo) j log \<and> cuerpo_respuesta j = Inr (JObj data)
        \<and> (if verdadero (con_defecto data ''results'' (JArr [])) then elementos (con_defecto data ''results'' (JArr [])) = Inr xs else xs = [])
        \<and> list_all2 (\<lambda>x a. archivada (sy_s3 c) codigo x a log) xs as))"

lemma crece_completos: "crece (completos c codigo as)"
  unfolding completos_def by (intro crece_reglas crece_contesta crece_todos_archivados)

lemma anexos_completos:
  assumes "s3_callado (sy_s3 c)" "\<And>p. callada (sf_http (sy_sfc c) p)" "crece F"
  shows "vela avanza_log (\<lambda>r. desde n (\<lambda>l. F l \<and> (\<forall>as. r = Inr (Some as) \<longrightarrow> completos c codigo as l))) (desde n F) (anexos_de_queja c codigo)"
    (is "vela _ ?Q _ _")
proof -
  let ?p = "listado_de_anexos c codigo" and ?cl = "sy_sfc c"
  have esc: "escritura (\<lambda>ev. True) ?cl"
    using mtodo.movimiento_axioms assms(2) by (simp add: escritura_def escritura_axioms_def)
  have lista: "vela avanza_log (\<lambda>r. desde n (respondida ?cl ?p F r)) (desde n F) (get_adjuntos_list ?cl codigo)"
    using escritura.vela_regulada [OF esc _ assms(3), where p = ?p] by (simp add: get_adjuntos_list_def listado_de_anexos_def)
  show ?thesis
    unfolding anexos_de_queja_def
  proof (rule vela_intenta [where M = ?Q], rule vela_luego [OF lista])
    fix j :: json
    let ?F = "respondida ?cl ?p F (Inr j)"
    have sin: "vela avanza_log ?Q (desde n ?F) (tlanza e)" for e
      by (rule vela_lanza) (simp add: desde_def respondida_def)
    show "vela avanza_log ?Q (desde n ?F)
        (tluego (de_resultado (cuerpo_respuesta j)) (\<lambda>data. case data of
              JObj d \<Rightarrow>
                (let lista = con_defecto d ''results'' (JArr []) in
                 if \<not> verdadero lista then tdevuelve (Some [])
                 else tluego (de_resultado (elementos lista)) (\<lambda>xs.
                        tluego (transferir_lote_sfc_a_s3 (sy_s3 c) (sy_lote c) codigo xs) (\<lambda>procesados.
                          tdevuelve (if length procesados < length xs then None else Some procesados))))
            | _ \<Rightarrow> tlanza (TypeError ''get'')))"
    proof (cases "\<exists>d. cuerpo_respuesta j = Inr (JObj d)")
      case False
      then show ?thesis
        using sin by (cases "cuerpo_respuesta j") (auto simp: de_resultado_def tlanza_def split: json.split)
    next
      case True
      then obtain d where d: "cuerpo_respuesta j = Inr (JObj d)" by blast
      let ?lista = "con_defecto d ''results'' (JArr [])"
      have hecho: "completos c codigo as l" if "?F l" "traidos (sy_s3 c) codigo xs (Inr as) l" "length xs \<le> length as"
          "verdadero ?lista" "elementos ?lista = Inr xs" for as xs l
        unfolding completos_def
        by (intro conjI exI [of _ j] exI [of _ d] exI [of _ xs]) (use that d traidos_todos [OF that(2,3)] in \<open>auto simp: respondida_def\<close>)
      have vacio: "completos c codigo [] l" if "?F l" "\<not> verdadero ?lista" for l
        unfolding completos_def
        by (intro conjI exI [of _ j] exI [of _ d] exI [of _ "[]"]) (use that d in \<open>auto simp: respondida_def\<close>)
      show ?thesis
      proof (cases "verdadero ?lista")
        case False
        with d vacio show ?thesis by (auto simp: de_resultado_def desde_def respondida_def Let_def intro!: vela_devuelve)
      next
        case True
        show ?thesis
        proof (cases "elementos ?lista")
          case (Inl e)
          with d True sin show ?thesis by (simp add: de_resultado_def tlanza_def Let_def)
        next
          case (Inr xs)
          have "vela avanza_log ?Q (desde n ?F) (tluego (transferir_lote_sfc_a_s3 (sy_s3 c) (sy_lote c) codigo xs) (\<lambda>procesados.
                          tdevuelve (if length procesados < length xs then None else Some procesados)))"
            by (rule vela_luego [OF lote_traido [OF assms(1) crece_respondida [OF assms(3)]]])
              (use True Inr hecho in \<open>auto simp: desde_def respondida_def intro!: vela_devuelve\<close>)
          with d True Inr show ?thesis by (simp add: de_resultado_def Let_def)
        qed
      qed
    qed
  qed (auto simp: desde_def respondida_def intro!: vela_devuelve)
qed

text \<open>What is delivered of a complaint.\<close>

definition entregada :: "cfg_sync \<Rightarrow> json \<Rightarrow> dict \<Rightarrow> evento list \<Rightarrow> bool" where
  "entregada c q e log =
     (\<exists>d as. q = JObj d \<and> e = AList.update ''archivos_s3'' (JArr as) (sfc_payload_to_db_dict (sy_py_str c) (sy_mapeador c) d)
        \<and> (if verdadero (obtener d ''anexo_queja'') then completos c (str_de (sy_py_str c) (obtener d ''codigo_queja'')) as log else as = []))"

lemma crece_entregada: "crece (entregada c q e)"
proof -
  have "crece (\<lambda>l. if b then completos c codigo as l else a)" for b codigo as a
    by (cases b) (simp_all add: crece_completos crece_reglas)
  then show ?thesis unfolding entregada_def by (intro crece_reglas)
qed

lemma queja_entregada:
  assumes "s3_callado (sy_s3 c)" "\<And>p. callada (sf_http (sy_sfc c) p)" "crece F"
  shows "vela avanza_log (\<lambda>r. desde n (\<lambda>l. F l \<and> (\<forall>e. r = Inr (Some e) \<longrightarrow> entregada c q e l))) (desde n F) (procesar_queja_individual c q)"
    (is "vela _ ?Q _ _")
proof (cases "\<exists>d. q = JObj d")
  case False
  then show ?thesis by (cases q) (auto simp: procesar_queja_individual_def desde_def intro!: vela_lanza)
next
  case True
  then obtain d where q: "q = JObj d" by blast
  let ?codigo = "str_de (sy_py_str c) (obtener d ''codigo_queja'')"
  show ?thesis
  proof (cases "verdadero (obtener d ''anexo_queja'')")
    case False
    have "List.map_filter adjunto_limpio [] = []" by simp
    with False q show ?thesis
      by (auto simp: procesar_queja_individual_def desde_def entregada_def queja_traducida_def intro!: vela_devuelve)
  next
    case True
    have e: "entregada c q (queja_traducida c d as) l" if comp: "completos c ?codigo as l" for as l
    proof -
      obtain xs where "list_all2 (\<lambda>x a. archivada (sy_s3 c) ?codigo x a l) xs as" using comp unfolding completos_def by blast
      from limpios [OF this] comp True q show ?thesis by (auto simp: entregada_def queja_traducida_def)
    qed
    have "vela avanza_log ?Q (desde n F) (tluego (anexos_de_queja c ?codigo)
        (\<lambda>a. tdevuelve (case a of None \<Rightarrow> None | Some adjuntos \<Rightarrow> Some (queja_traducida c d adjuntos))))"
      by (rule vela_luego [OF anexos_completos [OF assms]]) (auto simp: desde_def intro!: vela_devuelve e split: option.splits)
    with True q show ?thesis by (simp add: procesar_queja_individual_def)
  qed
qed

subsection \<open>The chunks of a page\<close>

lemma crece_list_all2: "crece (\<lambda>l. list_all2 (\<lambda>q e. entregada c q e l) qs es)"
  unfolding crece_def
proof (intro allI impI)
  fix l l' assume a: "list_all2 (\<lambda>q e. entregada c q e l) qs es" "set l \<subseteq> set l'"
  show "list_all2 (\<lambda>q e. entregada c q e l') qs es" by (rule list_all2_mono [OF a(1)]) (rule creceD [OF crece_entregada _ a(2)])
qed

definition parte_entregada :: "cfg_sync \<Rightarrow> json list \<Rightarrow> dict list resultado \<Rightarrow> evento list \<Rightarrow> bool" where
  "parte_entregada c qs r log = (\<exists>qs' es. r = Inr es \<and> subseq qs' qs \<and> list_all2 (\<lambda>q e. entregada c q e log) qs' es)"

lemma crece_parte: "crece (parte_entregada c qs r)"
  unfolding parte_entregada_def by (intro crece_reglas crece_list_all2)

lemma parte_junta:
  assumes "parte_entregada c xs (Inr es) l" "parte_entregada c ys (Inr fs) l" shows "parte_entregada c (xs @ ys) (Inr (es @ fs)) l"
proof -
  obtain us vs where "subseq us xs" "list_all2 (\<lambda>q e. entregada c q e l) us es" "subseq vs ys" "list_all2 (\<lambda>q e. entregada c q e l) vs fs"
    using assms by (auto simp: parte_entregada_def)
  then show ?thesis
    unfolding parte_entregada_def
    by (intro exI [of _ "us @ vs"] exI [of _ "es @ fs"]) (simp add: list_emb_append_mono list_all2_appendI)
qed

lemma trozo_entregado:
  assumes "s3_callado (sy_s3 c)" "\<And>p. callada (sf_http (sy_sfc c) p)" "crece F"
  shows "vela avanza_log (\<lambda>r. desde n (\<lambda>l. F l \<and> (\<exists>rs. r = Inr rs \<and> parte_entregada c qs (Inr (validos rs)) l))) (desde n F)
    (reune m ks (map (procesar_queja_individual c) qs))"
proof -
  let ?ts = "map (procesar_queja_individual c) qs"
  let ?Q = "\<lambda>i r. desde n (\<lambda>l. F l \<and> (\<forall>e. r = Inr (Some e) \<longrightarrow> entregada c (qs ! i) e l))"
  have "vela avanza_log (\<lambda>r w. juntas (length ?ts) ?Q r w \<and> desde n F w) (\<lambda>w. (\<forall>i<length ?ts. desde n F w) \<and> desde n F w) (reune m ks ?ts)"
    by (intro vela_marco vela_reune estable_desde crece_reglas crece_entregada assms(3)) (simp add: queja_entregada [OF assms])
  then have v: "vela avanza_log (\<lambda>r w. juntas (length ?ts) ?Q r w \<and> desde n F w) (desde n F) (reune m ks ?ts)"
    by (rule vela_debil) simp
  show ?thesis
  proof (rule vela_mas [OF v])
    fix r w assume a: "juntas (length ?ts) ?Q r w \<and> desde n F w"
    then obtain rs where rs: "r = Inr rs" "length rs = length qs" "\<forall>i<length qs. ?Q i (rs ! i) w" by (auto simp: juntas_def)
    then have "list_all2 (\<lambda>r q. \<forall>e. r = Inr (Some e) \<longrightarrow> entregada c q e (nuevos n w)) rs qs"
      by (auto simp: list_all2_conv_all_nth desde_def)
    from validos_entregados [OF this] a rs(1)
    show "desde n (\<lambda>l. F l \<and> (\<exists>rs. r = Inr rs \<and> parte_entregada c qs (Inr (validos rs)) l)) w"
      by (auto simp: desde_def parte_entregada_def)
  qed
qed

lemma trozos_entregados:
  assumes "s3_callado (sy_s3 c)" "\<And>p. callada (sf_http (sy_sfc c) p)"
  shows "crece F \<Longrightarrow> vela avanza_log (\<lambda>r. desde n (\<lambda>l. F l \<and> parte_entregada c (concat qss) r l)) (desde n F) (procesar_trozos c i qss)"
proof (induction qss arbitrary: F i)
  case Nil
  then show ?case by (auto simp: desde_def parte_entregada_def intro!: vela_devuelve)
next
  case (Cons qs qss)
  show ?case
    unfolding procesar_trozos.simps
  proof (rule vela_luego [OF trozo_entregado [OF assms Cons.prems]])
    fix rs
    let ?F = "\<lambda>l. F l \<and> parte_entregada c qs (Inr (validos rs)) l"
    have F: "crece ?F" by (intro crece_reglas crece_parte Cons.prems)
    have "vela avanza_log (\<lambda>r. desde n (\<lambda>l. F l \<and> parte_entregada c (concat (qs # qss)) r l)) (desde n ?F)
        (tluego (procesar_trozos c (Suc i) qss) (\<lambda>xs. tdevuelve (validos rs @ xs)))"
      by (rule vela_luego [OF Cons.IH [OF F]]) (auto simp: desde_def intro!: vela_devuelve parte_junta, auto simp: parte_entregada_def)
    then show "vela avanza_log (\<lambda>r. desde n (\<lambda>l. F l \<and> parte_entregada c (concat (qs # qss)) r l))
        (desde n (\<lambda>l. F l \<and> (\<exists>rs'. Inr rs = Inr rs' \<and> parte_entregada c qs (Inr (validos rs')) l)))
        (tluego (procesar_trozos c (Suc i) qss) (\<lambda>xs. tdevuelve (validos rs @ xs)))"
      by (rule vela_debil) (auto simp: desde_def)
  qed (auto simp: desde_def)
qed

subsection \<open>The pages\<close>

definition claves :: "json list \<Rightarrow> json list" where
  "claves qs = map como_clave (filter verdadero (map codigo_de qs))"

lemma filtrados:
  "filtrar_duplicados_por_codigo_queja qs vistos = Inr (us, vistos') \<Longrightarrow>
   subseq us qs \<and> distinct (claves us) \<and> set (claves us) \<inter> set vistos = {} \<and> set vistos' = set vistos \<union> set (claves us)"
proof (induction qs arbitrary: vistos us vistos')
  case Nil
  then show ?case by (simp add: claves_def)
next
  case (Cons q qs)
  show ?case
  proof (cases "verdadero (codigo_de q) \<and> como_clave (codigo_de q) \<in> set vistos")
    case True
    with Cons.prems have "filtrar_duplicados_por_codigo_queja qs vistos = Inr (us, vistos')" by (auto simp: Let_def split: if_splits)
    from Cons.IH [OF this] show ?thesis by auto
  next
    case False
    let ?v = "if verdadero (codigo_de q) then como_clave (codigo_de q) # vistos else vistos"
    from False Cons.prems obtain us' where "filtrar_duplicados_por_codigo_queja qs ?v = Inr (us', vistos')" "us = q # us'"
      by (auto simp: Let_def ligar_def split: if_splits sum.splits)
    with Cons.IH [OF this(1)] False show ?thesis by (auto simp: claves_def split: if_splits)
  qed
qed

lemma subseq_claves: "subseq xs ys \<Longrightarrow> subseq (claves xs) (claves ys)"
  by (simp add: claves_def subseq_map subseq_filter)

text \<open>A complaint that an answer of the SFC to the request of a page contains.\<close>

definition de_pagina :: "cfg_sync \<Rightarrow> json \<Rightarrow> evento list \<Rightarrow> bool" where
  "de_pagina c q log =
     (\<exists>r j data xs. contesta (sy_sfc c) (Get (destino (sy_sfc c) r ep_queja)) j log \<and> cuerpo_respuesta j = Inr data
        \<and> elementos (extraer_lista_quejas data) = Inr xs \<and> q \<in> set xs)"

lemma crece_de_pagina: "crece (de_pagina c q)"
  unfolding de_pagina_def by (intro crece_reglas crece_contesta)

definition lote_entregado :: "cfg_sync \<Rightarrow> json list \<Rightarrow> dict list \<Rightarrow> evento list \<Rightarrow> bool" where
  "lote_entregado c vistos es log =
     (\<exists>qs. list_all2 (\<lambda>q e. entregada c q e log) qs es \<and> (\<forall>q. q \<in> set qs \<longrightarrow> de_pagina c q log)
        \<and> distinct (claves qs) \<and> set (claves qs) \<subseteq> set vistos)"

lemma crece_lote: "crece (lote_entregado c vistos es)"
  unfolding lote_entregado_def by (intro crece_reglas crece_list_all2 crece_de_pagina)

lemma subseq_conserva:
  assumes "subseq xs ys" shows "distinct ys \<Longrightarrow> distinct xs" "set xs \<subseteq> set ys"
proof -
  have "set xs \<subseteq> set ys \<and> (distinct ys \<longrightarrow> distinct xs)"
    using assms by (induction rule: list_emb.induct) auto
  then show "distinct ys \<Longrightarrow> distinct xs" "set xs \<subseteq> set ys" by auto
qed

lemma lote_crece:
  assumes "lote_entregado c vistos es l" "filtrar_duplicados_por_codigo_queja raw vistos = Inr (us, vistos')"
    and "parte_entregada c us (Inr fs) l" "\<And>q. q \<in> set raw \<Longrightarrow> de_pagina c q l"
  shows "lote_entregado c vistos' (es @ fs) l"
proof -
  obtain qs where qs: "list_all2 (\<lambda>q e. entregada c q e l) qs es" "\<forall>q. q \<in> set qs \<longrightarrow> de_pagina c q l" "distinct (claves qs)"
      "set (claves qs) \<subseteq> set vistos"
    using assms(1) by (auto simp: lote_entregado_def)
  obtain qs' where qs': "subseq qs' us" "list_all2 (\<lambda>q e. entregada c q e l) qs' fs" using assms(3) by (auto simp: parte_entregada_def)
  note f = filtrados [OF assms(2)]
  have "subseq (claves qs') (claves us)" by (rule subseq_claves [OF qs'(1)])
  then have k: "distinct (claves qs')" "set (claves qs') \<subseteq> set (claves us)"
    using f subseq_conserva by (blast, blast)
  moreover have "set qs' \<subseteq> set raw" using f qs'(1) subseq_conserva(2) by blast
  moreover have "claves (qs @ qs') = claves qs @ claves qs'" by (simp add: claves_def)
  ultimately show ?thesis
    using qs qs'(2) f assms(4) unfolding lote_entregado_def by (intro exI [of _ "qs @ qs'"]) (auto intro: list_all2_appendI)
qed

lemma pagina_pedida:
  assumes "\<And>p. callada (sf_http cl p)" "crece F"
  shows "vela avanza_log (\<lambda>r. desde n (\<lambda>l. F l \<and> (\<forall>j. r = Inr j \<longrightarrow> (\<exists>rel. contesta cl (Get (destino cl rel ep_queja)) j l)))) (desde n F)
    (fetch_quejas_pagina cl siguiente)" (is "vela _ ?Q _ _")
proof (cases "sanitizar_y_validar_next_url cl siguiente")
  case (Inl e)
  let ?t = "reintenta_throttling cl ''fetch_quejas_pagina'' (sf_reintentos cl) (tlanza e :: json tarea)"
  have "da (\<lambda>r. \<forall>j. r \<noteq> Inr j) (reintenta_throttling cl ''fetch_quejas_pagina'' k (tlanza e :: json tarea))" for k
    by (induction k) (auto simp: tintenta_sfc_def split: excepcion.split intro!: da_basicas da_luego)
  moreover have "mueve avanza_log ?t" by (rule mtodo.throttling) (rule mueve_basicas)
  ultimately have "vela avanza_log (\<lambda>r w. desde n F w \<and> (\<forall>j. r \<noteq> Inr j)) (desde n F) ?t"
    by (intro vela_da estable_desde assms(2))
  with Inl show ?thesis
    by (simp add: fetch_quejas_pagina_def handle_sfc_throttling_def trae_pagina_def) (erule vela_mas, auto simp: desde_def)
next
  case (Inr rel)
  have "escritura (\<lambda>ev. True) cl" using mtodo.movimiento_axioms assms(1) by (simp add: escritura_def escritura_axioms_def)
  then have "vela avanza_log (\<lambda>r. desde n (respondida cl (Get (destino cl rel ep_queja)) F r)) (desde n F)
      (handle_sfc_throttling cl ''fetch_quejas_pagina'' (llama cl (Get (destino cl rel ep_queja))))"
    by (rule escritura.vela_regulada [OF _ _ assms(2)]) simp
  with Inr show ?thesis
    by (simp add: fetch_quejas_pagina_def trae_pagina_def) (erule vela_mas, auto simp: desde_def respondida_def)
qed

definition todo_entregado :: "cfg_sync \<Rightarrow> dict list resultado \<Rightarrow> evento list \<Rightarrow> bool" where
  "todo_entregado c r log = (\<forall>es. r = Inr es \<longrightarrow> (\<exists>vistos. lote_entregado c vistos es log))"

lemma falla_entrega: "vela avanza_log (\<lambda>r. desde n (todo_entregado c r)) (desde n F) (tlanza e)"
  by (rule vela_lanza) (simp add: desde_def todo_entregado_def)

lemma fin_entrega: "vela avanza_log (\<lambda>r. desde n (todo_entregado c r)) (desde n (lote_entregado c vistos es)) (tdevuelve es)"
  by (rule vela_devuelve) (auto simp: desde_def todo_entregado_def)

text \<open>The complaints of a page, and how the loop goes on with them.\<close>

lemma pagina_entregada:
  assumes "s3_callado (sy_s3 c)" "\<And>p. callada (sf_http (sy_sfc c) p)"
    and j: "cuerpo_respuesta j = Inr cont" "elementos (extraer_lista_quejas cont) = Inr raw"
    and sigue: "\<And>vistos' fs. vela avanza_log (\<lambda>r. desde n (todo_entregado c r)) (desde n (lote_entregado c vistos' (es @ fs))) (f fs vistos')"
  shows "vela avanza_log (\<lambda>r. desde n (todo_entregado c r))
    (desde n (\<lambda>l. lote_entregado c vistos es l \<and> (\<exists>rel. contesta (sy_sfc c) (Get (destino (sy_sfc c) rel ep_queja)) j l)))
    (tluego (procesar_pagina_quejas c raw vistos) (\<lambda>(fs, vistos'). f fs vistos'))"
    (is "vela _ ?Q (desde n ?P) _")
proof (cases "filtrar_duplicados_por_codigo_queja raw vistos")
  case (Inl e)
  with falla_entrega show ?thesis by (simp add: procesar_pagina_quejas_def de_resultado_def tlanza_def)
next
  case (Inr uv)
  obtain us vistos' where uv: "uv = (us, vistos')" by fastforce
  have P: "crece ?P" by (intro crece_reglas crece_lote crece_contesta)
  have lote: "lote_entregado c vistos' (es @ fs) l" if "?P l" "parte_entregada c us (Inr fs) l" for fs l
    by (rule lote_crece [of c vistos es l raw us vistos' fs]) (use that Inr uv j in \<open>auto simp: de_pagina_def\<close>)
  have "vela avanza_log ?Q (desde n ?P) (tluego (procesar_trozos c 0 (trozos 10 us)) (\<lambda>fs. f fs vistos'))"
  proof (rule vela_luego [OF trozos_entregados [OF assms(1,2) P]])
    fix fs
    show "vela avanza_log ?Q (desde n (\<lambda>l. ?P l \<and> parte_entregada c (concat (trozos 10 us)) (Inr fs) l)) (f fs vistos')"
      by (rule vela_debil [OF sigue]) (use lote in \<open>auto simp: desde_def trozos_partes(1)\<close>)
  qed (simp add: desde_def todo_entregado_def)
  with Inr uv show ?thesis
    by (simp add: procesar_pagina_quejas_def de_resultado_def tluego_asoc)
qed

lemma paginas_entregadas:
  assumes "s3_callado (sy_s3 c)" "\<And>p. callada (sf_http (sy_sfc c) p)"
  shows "vela avanza_log (\<lambda>r. desde n (todo_entregado c r)) (desde n (lote_entregado c vistos es)) (paginas_m1 c inicio k url vistos es)"
proof (induction k arbitrary: url vistos es)
  let ?Q = "\<lambda>r. desde n (todo_entregado c r)"
  have corte: "vela avanza_log ?Q (desde n (lote_entregado c vistos es)) (tluego (cortar_paginacion cat) (\<lambda>_. tdevuelve es))" for cat vistos es
    unfolding cortar_paginacion_def
    by (rule vela_luego [OF vela_escribe [OF mtodo.correo crece_lote]], simp add: desde_def todo_entregado_def) (rule fin_entrega)
  {
    case 0
    show ?case by (simp add: corte)
  next
    case (Suc k)
    let ?L = "lote_entregado c vistos es"
    let ?f = "\<lambda>cont fs vistos'. if \<not> verdadero (siguiente_de cont) then tdevuelve (es @ fs)
                   else paginas_m1 c inicio k (siguiente_de cont) vistos' (es @ fs)"
    let ?g = "\<lambda>j. tluego (de_resultado (cuerpo_respuesta j)) (\<lambda>cont.
               let lista = extraer_lista_quejas cont in
               if \<not> verdadero lista then tdevuelve es
               else tluego (de_resultado (elementos lista)) (\<lambda>raw.
                 tluego (procesar_pagina_quejas c raw vistos) (\<lambda>(fs, vistos'). ?f cont fs vistos')))"
    have sigue: "vela avanza_log ?Q (desde n (lote_entregado c vistos' (es @ fs))) (?f cont fs vistos')" for cont fs vistos'
      by (cases "verdadero (siguiente_de cont)") (simp_all add: fin_entrega Suc.IH)
    have g: "vela avanza_log ?Q (desde n (\<lambda>l. ?L l \<and> (\<forall>i. (Inr j :: json resultado) = Inr i \<longrightarrow>
        (\<exists>rel. contesta (sy_sfc c) (Get (destino (sy_sfc c) rel ep_queja)) i l)))) (?g j)" for j
    proof (cases "cuerpo_respuesta j")
      case (Inl e)
      with falla_entrega show ?thesis by (simp add: de_resultado_def tlanza_def)
    next
      case cont: (Inr cont)
      show ?thesis
      proof (cases "elementos (extraer_lista_quejas cont)")
        case (Inl e)
        with cont falla_entrega [of n c _ e] show ?thesis
          by (auto simp: de_resultado_def tlanza_def Let_def desde_def intro!: vela_debil [OF fin_entrega])
      next
        case (Inr raw)
        with cont show ?thesis
          by (auto simp: de_resultado_def Let_def desde_def intro!: vela_debil [OF fin_entrega]
              vela_debil [OF pagina_entregada [OF assms cont Inr sigue]])
      qed
    qed
    have "vela avanza_log ?Q (desde n ?L) (tluego (fetch_quejas_pagina (sy_sfc c) (enlace (sy_py_str c) url)) ?g)"
      by (rule vela_luego [OF pagina_pedida [OF assms(2) crece_lote] _ g]) (simp add: desde_def todo_entregado_def)
    then have "vela avanza_log ?Q (desde n ?L) (if se_acabo_el_tiempo c inicio t
        then tluego (cortar_paginacion ''paginacion_m1_cortada'') (\<lambda>_. tdevuelve es)
        else tluego (fetch_quejas_pagina (sy_sfc c) (enlace (sy_py_str c) url)) ?g)" for t
      by (simp add: corte)
    then show ?case
      unfolding paginas_m1.simps
      by (intro vela_luego [OF vela_escribe [OF mtodo.reloj crece_lote]]) (simp add: desde_def todo_entregado_def)
  }
qed

text \<open>C32. Momento 1 delivers each complaint once and whole. Whatever the SFC answers and however the downloads of the attachments
interleave, every complaint that a synchronisation returns is the translation of one that an answer of the SFC to the request of a page
contains; no two of them have the same code; and a complaint that announces attachments is returned with one record per attachment that
the SFC listed for it, in that order, each with its key below the directory of the code. Outside the local mode, the log of the run shows
for each of them that its file was downloaded from its URL on an allowed host of the SFC, passed the integrity check, and was accepted
by the bucket of the record under that key. In the local mode the record may stand for a file that was never uploaded, as the code
simulates it there.\<close>

theorem momento_1_todo_o_nada:
  assumes "s3_callado (sy_s3 c)" "\<And>p. callada (sf_http (sy_sfc c) p)"
    and "corre (ejecutar_flujo_completo_momento_1 c) w = (Inr es, w')"
  shows "\<exists>log qs. w_bitacora w' = w_bitacora w @ log \<and> list_all2 (\<lambda>q e. entregada c q e log) qs es
    \<and> (\<forall>q \<in> set qs. de_pagina c q log) \<and> distinct (claves qs)"
proof -
  let ?n = "length (w_bitacora w)" and ?t = "ejecutar_flujo_completo_momento_1 c"
  have vacio: "lote_entregado c [] [] l" for l by (simp add: lote_entregado_def claves_def)
  have "vela avanza_log (\<lambda>r. desde ?n (todo_entregado c r)) (desde ?n (\<lambda>l. True)) ?t"
    unfolding ejecutar_flujo_completo_momento_1_def
  proof (rule vela_luego [OF vela_escribe [OF mtodo.reloj crece_reglas(1)]])
    show "vela avanza_log (\<lambda>r. desde ?n (todo_entregado c r)) (desde ?n (\<lambda>l. True)) (paginas_m1 c t (sy_max_paginas c) JNull [] [])" for t
      by (rule vela_debil [OF paginas_entregadas [OF assms(1,2)]]) (simp add: desde_def vacio)
  qed (simp add: desde_def todo_entregado_def)
  from vela_corre [OF solo_escribe_orden this, of w] assms(3)
  have "avanza_log w w'" "todo_entregado c (Inr es) (nuevos ?n w')" by (simp_all add: desde_def)
  then obtain log vistos where log: "w_bitacora w' = w_bitacora w @ log" "lote_entregado c vistos es (nuevos ?n w')"
    by (auto simp: solo_escribe_def todo_entregado_def)
  then have "nuevos ?n w' = log" by (simp add: nuevos_def)
  with log show ?thesis by (auto simp: lote_entregado_def)
qed

text \<open>
  A page with three complaints: the attachment of the first goes to the bucket, the second has none, and the third repeats the
  second. The run is followed step by step.
\<close>

definition adjunto_ej :: json where
  "adjunto_ej = JObj [(''id'', JInt 7), (''type'', JStr ''application/pdf''), (''file'', JStr ''https://sfc/a.pdf'')]"

definition pagina_m1_ej :: "string \<Rightarrow> json option" where
  "pagina_m1_ej t =
     Some (JObj [(''results'', if t = ''https://sfc/api/queja/''
       then JArr [JObj [(''codigo_queja'', JStr ''Q1''), (''anexo_queja'', JBool True)], JObj [(''codigo_queja'', JStr ''Q2'')],
                  JObj [(''codigo_queja'', JStr ''Q2'')]]
       else JArr [adjunto_ej])])"

definition s3_sube_ej :: cfg_s3 where
  "s3_sube_ej = s3_ej\<lparr>s3_url := (\<lambda>u. devuelve (DFlujo None [''%PDF-1''] None))\<rparr>"

definition entrega_ej :: cfg_sync where
  "entrega_ej = rechaza_ej\<lparr>
     sy_sfc := sfc_ej\<lparr>sf_http := (\<lambda>p. devuelve (200, url_de p)), sf_cargar := pagina_m1_ej\<rparr>,
     sy_s3 := s3_sube_ej, sy_lote := [], sy_turnos := (\<lambda>i. [])\<rparr>"

definition entregas_ej :: "dict list" where
  "entregas_ej =
     [[(''Smart_Code__c'', JStr ''Q1''), (''smart_anexo_queja__c'', JBool True),
       (''archivos_s3'', JArr [ficha_archivo ''7.pdf'' ''quejas/Q1/7.pdf'' ''b''])],
      [(''Smart_Code__c'', JStr ''Q2''), (''archivos_s3'', JArr [])]]"

lemma s3_sube_ej_campos: "s3_cliente s3_sube_ej" "s3_bucket s3_sube_ej = ''b''" "s3_py_str s3_sube_ej = (\<lambda>j. [])" "\<not> es_local s3_sube_ej"
  "s3_url s3_sube_ej u = devuelve (DFlujo None [''%PDF-1''] None)" "s3_pone s3_sube_ej b k t ct = devuelve (BOk ())"
  by (simp_all add: s3_sube_ej_def s3_ej_def es_local_def)

lemma adjunto_ej_valido:
  "validar_url_sfc_permitida s3_sube_ej (JStr ''https://sfc/a.pdf'') = Inr ()" "validar_integridad_archivo ''%PDF-1'' ''7.pdf'' = Inr ()"
  "normalizar_tipo_archivo ''application/pdf'' (Some ''https://sfc/a.pdf'') = Inr (''pdf'', ''application/pdf'')"
  "limpiar_key ''quejas/Q1/7.pdf'' = ''quejas/Q1/7.pdf''" "str_int 7 = ''7''"
  by (code_simp+)

lemma adjunto_ej_recibido: "recibido_de c n (DFlujo None [''%PDF-1''] None) = Inr ''%PDF-1''"
  by (simp add: recibido_de_def max_descarga_def)

lemma adjunto_ej_sube:
  "corre (procesar_adjunto_sfc_a_s3 s3_sube_ej adjunto_ej ''Q1'') w =
     (Inr (Some (ficha_archivo ''7.pdf'' ''quejas/Q1/7.pdf'' ''b'')),
      w\<lparr>w_bitacora := w_bitacora w @ [Bajada ''https://sfc/a.pdf'' ''%PDF-1'', Subida ''b'' ''quejas/Q1/7.pdf'' ''%PDF-1'' True]\<rparr>)"
  by (simp add: procesar_adjunto_sfc_a_s3_def adjunto_ej_def url_de_adjunto_def o_bien_def obtener_def texto_o_nada_def verdadero_def
      str_de_def url_como_texto_def texto_opcional_def adjunto_ej_valido adjunto_ej_recibido de_resultado_def descargar_adjunto_streaming_def
      subir_stream_archivo_def subir_bytes_archivo_def Let_def s3_sube_ej_campos luego_def devuelve_def emite_def con_subida_def intenta_def)

lemma regulada_responde:
  assumes "sf_http c p = devuelve (200, b)" "sf_cargar c b = Some j"
  shows "corre (handle_sfc_throttling c n (llama c p)) w =
     (Inr j, w\<lparr>w_bitacora := w_bitacora w @ [Http (url_de p) (detalle_de p) (cuerpo_de p) (Some (200, b))]\<rparr>)"
  using assms
  by (cases "sf_reintentos c")
    (simp_all add: handle_sfc_throttling_def tintenta_sfc_def llama_def con_registro_def luego_def intenta_def devuelve_def emite_def)

lemma entrega_ej_campos:
  "sy_s3 entrega_ej = s3_sube_ej" "sy_lote entrega_ej = []" "sy_turnos entrega_ej i = []" "sy_max_paginas entrega_ej = 3"
  "sy_max_segundos entrega_ej = 300" "sf_base (sy_sfc entrega_ej) = ''https://sfc''" "sf_cargar (sy_sfc entrega_ej) = pagina_m1_ej"
  "sf_http (sy_sfc entrega_ej) p = devuelve (200, url_de p)"
  by (simp_all add: entrega_ej_def rechaza_ej_def sfc_ej_def)

definition log_ej :: "evento list" where
  "log_ej =
     [Http (url_de (listado_de_anexos entrega_ej ''Q1'')) (detalle_de (listado_de_anexos entrega_ej ''Q1'')) (cuerpo_de (listado_de_anexos entrega_ej ''Q1''))
        (Some (200, url_de (listado_de_anexos entrega_ej ''Q1''))),
      Bajada ''https://sfc/a.pdf'' ''%PDF-1'', Subida ''b'' ''quejas/Q1/7.pdf'' ''%PDF-1'' True]"

lemma listado_ej:
  "corre (get_adjuntos_list (sy_sfc entrega_ej) ''Q1'') w =
     (Inr (JObj [(''results'', JArr [adjunto_ej])]), w\<lparr>w_bitacora := w_bitacora w @ [hd log_ej]\<rparr>)"
proof -
  let ?p = "listado_de_anexos entrega_ej ''Q1''"
  have "pagina_m1_ej (url_de ?p) = Some (JObj [(''results'', JArr [adjunto_ej])])" by code_simp
  from regulada_responde [of "sy_sfc entrega_ej" ?p, OF entrega_ej_campos(8), unfolded entrega_ej_campos(7), OF this] show ?thesis
    by (simp add: get_adjuntos_list_def log_ej_def listado_de_anexos_def)
qed

lemma corre_recoge: "corre (recoge t) w = (Inr (fst (corre t w)), snd (corre t w))"
  by (simp add: recoge_def luego_def intenta_def devuelve_def split: prod.split sum.split)

lemma lote_unico: "corre (transferir_lote_sfc_a_s3 c [] codigo [x]) = luego (corre (recoge (procesar_adjunto_sfc_a_s3 c x codigo))) (\<lambda>r. devuelve (validos [r]))"
  by (simp add: transferir_lote_sfc_a_s3_def luego_def devuelve_def fun_eq_iff split: prod.split sum.split)

lemma anexos_ej:
  "corre (anexos_de_queja entrega_ej ''Q1'') w =
     (Inr (Some [ficha_archivo ''7.pdf'' ''quejas/Q1/7.pdf'' ''b'']), w\<lparr>w_bitacora := w_bitacora w @ log_ej\<rparr>)"
  using listado_ej [of w] adjunto_ej_sube
  by (simp add: anexos_de_queja_def entrega_ej_campos lote_unico corre_recoge luego_def intenta_def devuelve_def de_resultado_def
      cuerpo_respuesta_def con_defecto_def obtener_def verdadero_def elementos_def log_ej_def validos_def)

lemma quejas_ej:
  "corre (procesar_queja_individual entrega_ej (JObj [(''codigo_queja'', JStr ''Q1''), (''anexo_queja'', JBool True)])) w =
     (Inr (Some (hd entregas_ej)), w\<lparr>w_bitacora := w_bitacora w @ log_ej\<rparr>)"
  "corre (procesar_queja_individual entrega_ej (JObj [(''codigo_queja'', JStr ''Q2'')])) w = (Inr (Some (entregas_ej ! 1)), w)"
proof -
  have "queja_traducida entrega_ej [(''codigo_queja'', JStr ''Q1''), (''anexo_queja'', JBool True)] [ficha_archivo ''7.pdf'' ''quejas/Q1/7.pdf'' ''b'']
     = hd entregas_ej" "queja_traducida entrega_ej [(''codigo_queja'', JStr ''Q2'')] [] = entregas_ej ! 1"
    by (code_simp+)
  then show
  "corre (procesar_queja_individual entrega_ej (JObj [(''codigo_queja'', JStr ''Q1''), (''anexo_queja'', JBool True)])) w =
     (Inr (Some (hd entregas_ej)), w\<lparr>w_bitacora := w_bitacora w @ log_ej\<rparr>)"
  "corre (procesar_queja_individual entrega_ej (JObj [(''codigo_queja'', JStr ''Q2'')])) w = (Inr (Some (entregas_ej ! 1)), w)"
    using anexos_ej [of w]
    by (simp_all add: procesar_queja_individual_def obtener_def verdadero_def str_de_def luego_def devuelve_def)
qed

definition pagina_ej :: "json list" where
  "pagina_ej = [JObj [(''codigo_queja'', JStr ''Q1''), (''anexo_queja'', JBool True)], JObj [(''codigo_queja'', JStr ''Q2'')],
     JObj [(''codigo_queja'', JStr ''Q2'')]]"

lemma pagina_ej_corre:
  "corre (procesar_pagina_quejas entrega_ej pagina_ej []) w = (Inr (entregas_ej, [JStr ''Q2'', JStr ''Q1'']), w\<lparr>w_bitacora := w_bitacora w @ log_ej\<rparr>)"
proof -
  let ?q1 = "JObj [(''codigo_queja'', JStr ''Q1''), (''anexo_queja'', JBool True)]" and ?q2 = "JObj [(''codigo_queja'', JStr ''Q2'')]"
  have f: "filtrar_duplicados_por_codigo_queja pagina_ej [] = Inr ([?q1, ?q2], [JStr ''Q2'', JStr ''Q1''])"
    by code_simp
  have "trozos 10 [?q1, ?q2] = [[?q1, ?q2]]" by (simp add: trozos.simps)
  moreover have "validos [Inr (Some (hd entregas_ej)), Inr (Some (entregas_ej ! 1))] = entregas_ej"
    by (simp add: validos_def entregas_ej_def)
  ultimately show ?thesis
    by (simp add: procesar_pagina_quejas_def f de_resultado_def entrega_ej_campos corre_recoge luego_def devuelve_def quejas_ej del: One_nat_def)
qed

lemma entrega_ej_corre:
  "\<exists>h. corre (ejecutar_flujo_completo_momento_1 entrega_ej) lote_ej = (Inr entregas_ej, lote_ej\<lparr>w_bitacora := h # log_ej\<rparr>)"
proof -
  let ?c = "sy_sfc entrega_ej" and ?d = "[(''results'', JArr pagina_ej)]"
  let ?p = "Get (destino ?c None ep_queja)"
  have "pagina_m1_ej (url_de ?p) = Some (JObj ?d)" "sanitizar_y_validar_next_url ?c (enlace (sy_py_str entrega_ej) JNull) = Inr None"
    by (code_simp+)
  then have r: "corre (fetch_quejas_pagina ?c (enlace (sy_py_str entrega_ej) JNull)) w =
      (Inr (JObj ?d), w\<lparr>w_bitacora := w_bitacora w @ [Http (url_de ?p) (detalle_de ?p) (cuerpo_de ?p) (Some (200, url_de ?p))]\<rparr>)" for w
    using regulada_responde [of ?c ?p, OF entrega_ej_campos(8), unfolded entrega_ej_campos(7)]
    by (simp add: fetch_quejas_pagina_def trae_pagina_def)
  have d: "cuerpo_respuesta (JObj ?d) = Inr (JObj ?d)" "extraer_lista_quejas (JObj ?d) = JArr pagina_ej" "verdadero (JArr pagina_ej)"
      "elementos (JArr pagina_ej) = Inr pagina_ej" "\<not> verdadero (siguiente_de (JObj ?d))"
    by (code_simp+)
  show ?thesis
    by (simp add: ejecutar_flujo_completo_momento_1_def entrega_ej_campos numeral_3_eq_3 luego_def devuelve_def ahora_def
        se_acabo_el_tiempo_def r d de_resultado_def Let_def pagina_ej_corre lote_ej_def)
qed

lemma momento_1_todo_o_nada_testigo:
  "\<exists>w' log qs. corre (ejecutar_flujo_completo_momento_1 entrega_ej) lote_ej = (Inr entregas_ej, w')
     \<and> w_bitacora w' = w_bitacora lote_ej @ log \<and> Subida ''b'' ''quejas/Q1/7.pdf'' ''%PDF-1'' True \<in> set log
     \<and> list_all2 (\<lambda>q e. entregada entrega_ej q e log) qs entregas_ej \<and> length qs = 2
     \<and> (\<forall>q \<in> set qs. de_pagina entrega_ej q log) \<and> distinct (claves qs)"
proof -
  have c: "s3_callado (sy_s3 entrega_ej)" "\<And>p. callada (sf_http (sy_sfc entrega_ej) p)"
    by (simp_all add: entrega_ej_campos s3_callado_def s3_sube_ej_campos calladas)
  obtain h where h: "corre (ejecutar_flujo_completo_momento_1 entrega_ej) lote_ej = (Inr entregas_ej, lote_ej\<lparr>w_bitacora := h # log_ej\<rparr>)"
    using entrega_ej_corre by blast
  from momento_1_todo_o_nada [OF c h] obtain log qs where log: "h # log_ej = w_bitacora lote_ej @ log"
    "list_all2 (\<lambda>q e. entregada entrega_ej q e log) qs entregas_ej" "\<forall>q \<in> set qs. de_pagina entrega_ej q log" "distinct (claves qs)"
    by auto
  then have "length qs = 2" "Subida ''b'' ''quejas/Q1/7.pdf'' ''%PDF-1'' True \<in> set log"
    by (auto simp: entregas_ej_def lote_ej_def log_ej_def dest: list_all2_lengthD)
  with h log show ?thesis by (intro exI [of _ log] exI [of _ qs] exI) auto
qed

end
