(* ===== verification/Alertas.thy ===== *)
theory Alertas
  imports Cliente_Sfc "HOL-Library.AList"
begin

text \<open>
  \<^verbatim>\<open>app/services/email_service.py\<close>: the alerts by mail. The state is the dictionary of the last sending of each key, in its
  insertion order; time is the monotonic clock in milliseconds. A mail is what is handed to the background task: the recipients, the
  subject, the values that the page shows (escaped, in their order; the fixed HTML around them is not kept) and the key. Parameters:
  the SMTP session, the correlation id of the request and the decimals of a float.
\<close>

type_synonym libreta = "(string \<times> int) list"

record cfg_alertas =
  al_activas :: bool
  al_destinatarios :: "string list"
  al_remitente :: string
  al_usuario :: string
  al_ambiente :: string
  al_cid :: string
  al_smtp :: "string \<Rightarrow> string list \<Rightarrow> string \<Rightarrow> string list \<Rightarrow> unit resultado"

record correo =
  co_destinatarios :: "string list"
  co_asunto :: string
  co_valores :: "string list"
  co_clave :: "string option"

subsection \<open>Texts\<close>

text \<open>\<^verbatim>\<open>html.escape\<close>\<close>

definition esc_char :: "char \<Rightarrow> string" where
  "esc_char c =
     (if c = CHR ''&'' then ''&amp;'' else if c = CHR ''<'' then ''&lt;'' else if c = CHR ''>'' then ''&gt;''
      else if c = CHR 0x22 then ''&quot;'' else if c = CHR 0x27 then ''&#x27;'' else [c])"

definition esc :: "string \<Rightarrow> string" where
  "esc s = concat (map esc_char s)"

definition limpiar_asunto :: "string \<Rightarrow> string" where
  "limpiar_asunto s = strip (filter (\<lambda>c. c \<notin> {CHR 0x0D, CHR 0x0A}) s)"

definition o_na :: "string option \<Rightarrow> string" where
  "o_na v = (case v of Some s \<Rightarrow> if s = [] then ''N/A'' else s | None \<Rightarrow> ''N/A'')"

definition en_corchetes :: "string \<Rightarrow> string" where
  "en_corchetes s = ''['' @ s @ '']''"

subsection \<open>Once per window and key\<close>

definition ventana_dedup_ms :: int where "ventana_dedup_ms = 900000"
definition max_entradas_dedup :: nat where "max_entradas_dedup = 500"

definition purgar_entradas_expiradas :: "int \<Rightarrow> libreta \<Rightarrow> libreta" where
  "purgar_entradas_expiradas now d = filter (\<lambda>(k, ts). now - ts < ventana_dedup_ms) d"

definition clave_mas_vieja :: "libreta \<Rightarrow> string" where
  "clave_mas_vieja d = fst (arg_min_list snd d)"

definition hace_lugar :: "int \<Rightarrow> libreta \<Rightarrow> libreta" where
  "hace_lugar now d =
     (if length d < max_entradas_dedup then d
      else let p = purgar_entradas_expiradas now d
           in if length p < max_entradas_dedup then p else AList.delete (clave_mas_vieja p) p)"

definition deberia_enviar :: "string option \<Rightarrow> int \<Rightarrow> libreta \<Rightarrow> bool \<times> libreta" where
  "deberia_enviar clave_dedup now d =
     (case clave_dedup of
        None \<Rightarrow> (True, d)
      | Some k \<Rightarrow>
          (case map_of d k of
             Some ts \<Rightarrow> if now - ts < ventana_dedup_ms then (False, d) else (True, AList.update k now (hace_lugar now d))
           | None \<Rightarrow> (True, AList.update k now (hace_lugar now d))))"

text \<open>The mail that goes to the background, if any.\<close>

definition programar_envio_background :: "correo \<Rightarrow> int \<Rightarrow> libreta \<Rightarrow> correo option \<times> libreta" where
  "programar_envio_background m now d =
     (case deberia_enviar (co_clave m) now d of (b, d') \<Rightarrow> (if b then Some m else None, d'))"

definition liberar_dedup_si_fallo :: "bool \<Rightarrow> string option \<Rightarrow> libreta \<Rightarrow> libreta" where
  "liberar_dedup_si_fallo exito clave_dedup d =
     (case clave_dedup of None \<Rightarrow> d | Some k \<Rightarrow> if exito then d else AList.delete k d)"

definition enviar_smtp_sync :: "cfg_alertas \<Rightarrow> correo \<Rightarrow> bool" where
  "enviar_smtp_sync c m =
     (if co_destinatarios m = [] then False
      else case al_smtp c (if al_remitente c \<noteq> [] then al_remitente c else al_usuario c) (co_destinatarios m)
                  (limpiar_asunto (co_asunto m)) (co_valores m) of
             Inr _ \<Rightarrow> True | Inl _ \<Rightarrow> False)"

subsection \<open>The alerts\<close>

definition obtener_destinatarios :: "cfg_alertas \<Rightarrow> bool \<Rightarrow> string list" where
  "obtener_destinatarios c solo_dev =
     (if solo_dev \<and> al_destinatarios c \<noteq> [] then [hd (al_destinatarios c)] else al_destinatarios c)"

definition ambiente_de :: "cfg_alertas \<Rightarrow> string" where
  "ambiente_de c = map mayuscula (al_ambiente c)"

definition aviso :: "cfg_alertas \<Rightarrow> bool \<Rightarrow> string \<Rightarrow> string list \<Rightarrow> string option \<Rightarrow> correo option" where
  "aviso c solo_dev asunto valores llave =
     (if \<not> al_activas c then None
      else Some \<lparr>co_destinatarios = obtener_destinatarios c solo_dev, co_asunto = asunto @ '' '' @ en_corchetes (ambiente_de c),
                 co_valores = map esc valores, co_clave = llave\<rparr>)"

definition sirena :: string where "sirena = [CHR 0xF0, CHR 0x9F, CHR 0x9A, CHR 0xA8]"
definition senal_aviso :: string where "senal_aviso = [CHR 0xE2, CHR 0x9A, CHR 0xA0, CHR 0xEF, CHR 0xB8, CHR 0x8F]"
definition grafico :: string where "grafico = [CHR 0xF0, CHR 0x9F, CHR 0x93, CHR 0x8A]"
definition reloj_arena :: string where "reloj_arena = [CHR 0xE2, CHR 0x8F, CHR 0xB3]"
definition cruz :: string where "cruz = [CHR 0xE2, CHR 0x9D, CHR 0x8C]"
definition visto :: string where "visto = [CHR 0xE2, CHR 0x9C, CHR 0x85]"

definition notificar_falla_infraestructura :: "cfg_alertas \<Rightarrow> string \<Rightarrow> string \<Rightarrow> string \<Rightarrow> correo option" where
  "notificar_falla_infraestructura c smart_code error_msg categoria =
     aviso c False
       (sirena @ '' [ALERTA INFRA:'' @ categoria @ ''] SFC Ca'' @ con_tilde CHR ''i'' @ ''da / Caso: '' @ smart_code @ '' | CID: '' @ al_cid c)
       [categoria, ambiente_de c, al_cid c, smart_code, error_msg] (Some (''falla_infraestructura:'' @ categoria))"

definition notificar_error_no_mapeado :: "cfg_alertas \<Rightarrow> int \<Rightarrow> string \<Rightarrow> string option \<Rightarrow> string option \<Rightarrow> correo option" where
  "notificar_error_no_mapeado c st raw campo smart_code =
     aviso c True
       (senal_aviso @ '' [ERROR NO MAPEADO SFC] HTTP '' @ str_int st @ '' | Caso: '' @ o_na smart_code @ '' | CID: '' @ al_cid c)
       [al_cid c, o_na smart_code, str_int st,
        (if campo = None \<or> campo = Some [] then ''N/A (Cuerpo General)'' else o_na campo), raw, al_cid c]
       (Some (''error_no_mapeado:'' @ str_int st @ '':'' @ o_na campo))"

definition notificar_umbral_cola :: "cfg_alertas \<Rightarrow> nat \<Rightarrow> correo option" where
  "notificar_umbral_cola c cuantos =
     aviso c False
       (grafico @ '' [ALERTA COLA] Acumulaci'' @ con_tilde CHR ''o'' @ ''n en Cola: '' @ str_nat cuantos @ '' casos pendientes'')
       [ambiente_de c, str_nat cuantos] (Some ''umbral_cola'')"

text \<open>A row of the table of cases.\<close>

definition fila_sla :: "string \<Rightarrow> string \<Rightarrow> string \<Rightarrow> string \<Rightarrow> string \<Rightarrow> string \<Rightarrow> string list" where
  "fila_sla smart_code cid_caso fecha horas_cola cuantas ultimo_err = [smart_code, cid_caso, fecha, horas_cola, cuantas, corta 100 ultimo_err]"

definition notificar_casos_vencimiento_sla :: "cfg_alertas \<Rightarrow> string list list \<Rightarrow> correo option" where
  "notificar_casos_vencimiento_sla c casos =
     (if casos = [] then None
      else aviso c False
        (reloj_arena @ '' [ALERTA SLA] '' @ str_nat (length casos) @ '' Caso(s) con > 12h en Cola de Contingencia'')
        (str_nat (length casos) # concat casos) (Some ''casos_vencimiento_sla''))"

definition notificar_caso_fallido_definitivo :: "cfg_alertas \<Rightarrow> string \<Rightarrow> nat \<Rightarrow> string \<Rightarrow> correo option" where
  "notificar_caso_fallido_definitivo c smart_code intentos ultimo_err =
     aviso c False (cruz @ '' [ALERTA DLQ] Caso Fallido Definitivo: '' @ smart_code @ '' | CID: '' @ al_cid c)
       [ambiente_de c, al_cid c, smart_code, str_nat intentos, ultimo_err] None"

definition notificar_recuperacion_sfc :: "cfg_alertas \<Rightarrow> nat \<Rightarrow> correo option" where
  "notificar_recuperacion_sfc c cuantos =
     aviso c False
       (visto @ '' [AUTORRECUPERACI'' @ [CHR 0xC3, CHR 0x93] @ ''N] Conexi'' @ con_tilde CHR ''o'' @ ''n SFC Restablecida (''
          @ str_nat cuantos @ '' casos transmitidos)'')
       [ambiente_de c, str_nat cuantos] (Some ''recuperacion_sfc'')"

definition notificar_catalogo_stale :: "cfg_alertas \<Rightarrow> string \<Rightarrow> string \<Rightarrow> string \<Rightarrow> correo option" where
  "notificar_catalogo_stale c componente edad error_msg =
     aviso c False
       (senal_aviso @ '' [ALERTA CAT'' @ [CHR 0xC3, CHR 0x81] @ ''LOGO STALE] '' @ componente @ '' supera umbral de antig''
          @ [CHR 0xC3, CHR 0xBC] @ ''edad ('' @ edad @ ''h)'')
       [componente, ambiente_de c, componente, edad, error_msg] (Some (''catalogo_stale:'' @ componente))"

end
