(* ===== verification/Alertas_Propiedades.thy ===== *)
theory Alertas_Propiedades
  imports Alertas
begin

text \<open>
  The alerts of any sequence of notifications and failed sendings: no flood, no unjustified silence, bounded memory.
\<close>

subsection \<open>Runs\<close>

text \<open>An alert of a key at a time, and a sending of a key that failed.\<close>

datatype operacion = Aviso string int | Falla string

text \<open>What was sent so far and the dictionary.\<close>

fun opera :: "operacion \<Rightarrow> (string \<times> int) list \<times> libreta \<Rightarrow> (string \<times> int) list \<times> libreta" where
  "opera (Aviso k t) (enviados, d) =
     (case deberia_enviar (Some k) t d of (b, d') \<Rightarrow> (if b then enviados @ [(k, t)] else enviados, d'))"
| "opera (Falla k) (enviados, d) = (enviados, liberar_dedup_si_fallo False (Some k) d)"

definition corrida :: "operacion list \<Rightarrow> (string \<times> int) list \<times> libreta" where
  "corrida ops = fold opera ops ([], [])"

definition tiempos :: "operacion list \<Rightarrow> int list" where
  "tiempos ops = List.map_filter (\<lambda>op. case op of Aviso k t \<Rightarrow> Some t | Falla _ \<Rightarrow> None) ops"

definition claves_de :: "operacion list \<Rightarrow> string set" where
  "claves_de ops = {k. \<exists>t. Aviso k t \<in> set ops}"

lemma corrida_simps [simp]: "corrida [] = ([], [])" "corrida (ops @ [op]) = opera op (corrida ops)"
  by (simp_all add: corrida_def)

lemma map_filter_append: "List.map_filter f (xs @ ys) = List.map_filter f xs @ List.map_filter f ys"
  by (induction xs) (auto split: option.splits)

lemma tiempos_simps [simp]: "tiempos [] = []" "tiempos (ops @ [Aviso k t]) = tiempos ops @ [t]" "tiempos (ops @ [Falla k]) = tiempos ops"
  by (simp_all add: tiempos_def map_filter_append)

lemma claves_de_simps [simp]: "claves_de (ops @ [Aviso k t]) = insert k (claves_de ops)" "claves_de (ops @ [Falla k]) = claves_de ops"
  "claves_de [] = {}"
  by (auto simp: claves_de_def)

lemma map_of_purgada:
  "distinct (map fst d) \<Longrightarrow> map_of (purgar_entradas_expiradas now d) k = Some ts \<longleftrightarrow> map_of d k = Some ts \<and> now - ts < ventana_dedup_ms"
  by (induction d) (auto simp: purgar_entradas_expiradas_def rev_image_eqI split: if_splits dest: map_of_SomeD)

lemma hace_lugar_forma:
  assumes "distinct (map fst d)"
  shows "distinct (map fst (hace_lugar now d))" "set (hace_lugar now d) \<subseteq> set d" "length d \<le> max_entradas_dedup \<Longrightarrow> length (hace_lugar now d) < max_entradas_dedup"
proof -
  let ?p = "purgar_entradas_expiradas now d"
  have p: "distinct (map fst ?p)" "set ?p \<subseteq> set d" "length ?p \<le> length d"
    using assms by (auto simp: purgar_entradas_expiradas_def distinct_map_filter)
  then show "distinct (map fst (hace_lugar now d))" "set (hace_lugar now d) \<subseteq> set d"
    using assms by (auto simp: hace_lugar_def Let_def AList.delete_eq distinct_map_filter)
  show "length (hace_lugar now d) < max_entradas_dedup" if l: "length d \<le> max_entradas_dedup"
  proof (cases "length d < max_entradas_dedup \<or> length ?p < max_entradas_dedup")
    case False
    then have "?p \<noteq> []" by (auto simp: max_entradas_dedup_def)
    then have m: "arg_min_list snd ?p \<in> set ?p" by (rule arg_min_list_in)
    have "length (filter (\<lambda>(k, t). clave_mas_vieja ?p \<noteq> k) ?p) < length ?p"
      by (rule length_filter_less [OF m]) (simp add: clave_mas_vieja_def split: prod.split)
    with False p(3) l show ?thesis by (simp add: hace_lugar_def Let_def AList.delete_eq split_def)
  qed (auto simp: hace_lugar_def Let_def)
qed

lemma update_length: "length (AList.update k v d) = (if k \<in> fst ` set d then length d else Suc (length d))"
  by (induction d) auto

lemma update_forma:
  assumes "distinct (map fst d)"
  shows "distinct (map fst (AList.update k v d))" "set (AList.update k v d) \<subseteq> insert (k, v) (set d)"
  using assms by (induction d) (auto simp: distinct_update)

lemma deberia_enviar_forma:
  assumes "deberia_enviar (Some k) t d = (b, d')" "distinct (map fst d)" "length d \<le> max_entradas_dedup"
  shows "distinct (map fst d')" "length d' \<le> max_entradas_dedup" "set d' \<subseteq> (if b then insert (k, t) (set d) else set d)"
    "b \<longleftrightarrow> (\<forall>ts. map_of d k = Some ts \<longrightarrow> ventana_dedup_ms \<le> t - ts)" "\<not> b \<Longrightarrow> d' = d" "b \<Longrightarrow> map_of d' k = Some t"
proof -
  note h = hace_lugar_forma [OF assms(2), of t] and u = update_forma [of "hace_lugar t d" k t]
  have b: "b \<longleftrightarrow> (\<forall>ts. map_of d k = Some ts \<longrightarrow> ventana_dedup_ms \<le> t - ts)"
    and d': "d' = (if b then AList.update k t (hace_lugar t d) else d)"
    using assms(1) by (auto simp: deberia_enviar_def split: option.splits if_splits)
  show "b \<longleftrightarrow> (\<forall>ts. map_of d k = Some ts \<longrightarrow> ventana_dedup_ms \<le> t - ts)" by (rule b)
  show "distinct (map fst d')" using d' u(1) h(1) assms(2) by simp
  show "length d' \<le> max_entradas_dedup" using d' h(3) assms(3) by (simp add: update_length)
  show "set d' \<subseteq> (if b then insert (k, t) (set d) else set d)" using d' u(2) h(1,2) by auto
  show "\<not> b \<Longrightarrow> d' = d" using d' by simp
  have "map_of (AList.update k t (hace_lugar t d)) k = Some t" by (simp add: update_conv')
  then show "b \<Longrightarrow> map_of d' k = Some t" using d' by simp
qed

subsection \<open>What a run keeps\<close>

lemma corrida_forma:
  "distinct (map fst (snd (corrida ops))) \<and> length (snd (corrida ops)) \<le> max_entradas_dedup \<and> set (snd (corrida ops)) \<subseteq> set (fst (corrida ops))
    \<and> fst ` set (fst (corrida ops)) \<subseteq> claves_de ops \<and> snd ` set (fst (corrida ops)) \<subseteq> set (tiempos ops)"
proof (induction ops rule: rev_induct)
  case (snoc op ops)
  obtain env d where c: "corrida ops = (env, d)" by fastforce
  show ?case
  proof (cases op)
    case (Aviso k t)
    obtain b d' where b: "deberia_enviar (Some k) t d = (b, d')" by fastforce
    from deberia_enviar_forma [OF b] snoc c show ?thesis by (auto simp: Aviso b split: if_splits)
  next
    case (Falla k)
    have "length (AList.delete k d) \<le> length d" "set (AList.delete k d) \<subseteq> set d" by (auto simp: AList.delete_eq)
    moreover have "distinct (map fst (AList.delete k d))" using snoc c by (simp add: distinct_delete)
    ultimately show ?thesis using snoc c by (simp add: Falla liberar_dedup_si_fallo_def) (meson order_trans)
  qed
qed (simp add: max_entradas_dedup_def)

lemma claves_finitas: "finite (claves_de ops)"
proof -
  have "claves_de ops \<subseteq> (\<lambda>op. case op of Aviso k t \<Rightarrow> k | Falla k \<Rightarrow> k) ` set ops" by (force simp: claves_de_def)
  then show ?thesis by (rule finite_subset) simp
qed

text \<open>With at most as many keys as places an entry that is not expired is not thrown out.\<close>

lemma sin_desalojo:
  assumes "finite K" "card K \<le> max_entradas_dedup" "fst ` set d \<subseteq> K" "k \<in> K" "distinct (map fst d)"
    and nueva: "\<And>ts. map_of d k = Some ts \<Longrightarrow> ventana_dedup_ms \<le> t - ts" and "map_of d k' = Some ts'" "t - ts' < ventana_dedup_ms"
  shows "map_of (hace_lugar t d) k' = Some ts'"
proof (cases "length d < max_entradas_dedup")
  case True
  with assms(7) show ?thesis by (simp add: hace_lugar_def)
next
  case False
  let ?p = "purgar_entradas_expiradas t d"
  have "length ?p < max_entradas_dedup"
  proof (cases "k \<in> fst ` set d")
    case True
    then obtain ts where "(k, ts) \<in> set d" by auto
    then have ts: "(k, ts) \<in> set d" "map_of d k = Some ts" using assms(5) by (simp_all add: map_of_is_SomeI)
    with nueva have "length ?p < length d"
      unfolding purgar_entradas_expiradas_def by (intro length_filter_less [of "(k, ts)"]) auto
    moreover have "length d \<le> card K" using assms(1,3,5) by (metis card_mono distinct_card length_map set_map)
    ultimately show ?thesis using assms(2) by simp
  next
    case False
    then have "fst ` set d \<subseteq> K - {k}" using assms(3) by blast
    then have "length d \<le> card (K - {k})" using assms(1,5) by (metis card_mono distinct_card finite_Diff length_map set_map)
    also have "\<dots> < card K" using assms(1,4) by (meson card_Diff1_less)
    finally show ?thesis using assms(2) by (auto simp: purgar_entradas_expiradas_def intro: le_less_trans [OF length_filter_le])
  qed
  then show ?thesis using False assms(5,7,8) by (simp add: hace_lugar_def Let_def map_of_purgada)
qed

lemma ordenados: "sorted (tiempos (ops @ [Aviso k t])) \<Longrightarrow> sorted (tiempos ops) \<and> (\<forall>x \<in> set (tiempos ops). x \<le> t)"
  by (simp add: sorted_append)

lemma claves_menos: "card (claves_de (ops @ [op])) \<le> n \<Longrightarrow> card (claves_de ops) \<le> n"
  by (erule order_trans [rotated], rule card_mono [OF claves_finitas]) (auto simp: claves_de_def)

text \<open>The last sending of a key that never failed is in the dictionary, unless its window has passed.\<close>

lemma envio_recordado:
  assumes "sorted (tiempos ops)" "card (claves_de ops) \<le> max_entradas_dedup" "Falla k \<notin> set ops" "(k, t) \<in> set (fst (corrida ops))"
  shows "(\<exists>t' \<ge> t. map_of (snd (corrida ops)) k = Some t') \<or> (\<exists>x \<in> set (tiempos ops). ventana_dedup_ms \<le> x - t)"
  using assms
proof (induction ops arbitrary: t rule: rev_induct)
  case (snoc op ops)
  obtain env d where c: "corrida ops = (env, d)" by fastforce
  have env: "distinct (map fst d)" "length d \<le> max_entradas_dedup" "set d \<subseteq> set env" "fst ` set env \<subseteq> claves_de ops"
      "snd ` set env \<subseteq> set (tiempos ops)"
    using corrida_forma [of ops] unfolding c by simp_all
  note forma = env(1,2) subset_trans [OF image_mono [OF env(3)] env(4)] env(5)
  show ?case
  proof (cases op)
    case (Falla k')
    with snoc.prems snoc.IH [of t] c have "k' \<noteq> k" and
      "(\<exists>t' \<ge> t. map_of d k = Some t') \<or> (\<exists>x \<in> set (tiempos ops). ventana_dedup_ms \<le> x - t)"
      by (auto simp: Falla)
    then show ?thesis using c by (auto simp: Falla liberar_dedup_si_fallo_def map_of_delete)
  next
    case (Aviso k' t')
    note o = ordenados [OF snoc.prems(1) [unfolded Aviso]]
    have card: "card (claves_de ops) \<le> max_entradas_dedup"
      by (rule claves_menos [OF snoc.prems(2)])
    obtain b d' where b: "deberia_enviar (Some k') t' d = (b, d')" by fastforce
    note f = deberia_enviar_forma [OF b forma(1,2)]
    have fin: "corrida (ops @ [op]) = (if b then env @ [(k', t')] else env, d')" using c b by (simp add: Aviso)
    show ?thesis
    proof (cases "(k, t) \<in> set env")
      case False
      with snoc.prems(4) fin f(6) show ?thesis by (auto split: if_splits)
    next
      case True
      then have tt: "t \<le> t'" using o forma(4) by force
      from snoc.IH [of t] o card snoc.prems(3) True c
      consider x where "x \<in> set (tiempos ops)" "ventana_dedup_ms \<le> x - t" | u where "t \<le> u" "map_of d k = Some u" by auto
      then show ?thesis
      proof cases
        case 1
        then show ?thesis by (auto simp: Aviso)
      next
        case 2
        consider "\<not> b" | "b" "k' = k" | "b" "k' \<noteq> k" by blast
        then show ?thesis
        proof cases
          case 3
          have "d' = AList.update k' t' (hace_lugar t' d)" using b 3(1) by (auto simp: deberia_enviar_def split: option.splits if_splits)
          then have m: "map_of d' k = map_of (hace_lugar t' d) k" using 3(2) by (simp add: update_conv')
          show ?thesis
          proof (cases "t' - u < ventana_dedup_ms")
            case True
            have "map_of (hace_lugar t' d) k = Some u"
              by (rule sin_desalojo [OF claves_finitas snoc.prems(2) _ _ forma(1) _ 2(2) True, where k = k'])
                (use forma(3) f(4) 3(1) in \<open>auto simp: Aviso\<close>)
            with m 2(1) fin show ?thesis by auto
          qed (use 2(1) in \<open>auto simp: Aviso\<close>)
        qed (use 2 fin f(5,6) tt in auto)
      qed
    qed
  qed
qed simp

lemma envios_espaciados:
  assumes "sorted (tiempos ops)" "card (claves_de ops) \<le> max_entradas_dedup" "Falla k \<notin> set ops"
  shows "sorted_wrt (\<lambda>s t. ventana_dedup_ms \<le> t - s) (map snd (filter (\<lambda>p. fst p = k) (fst (corrida ops))))"
  using assms
proof (induction ops rule: rev_induct)
  case (snoc op ops)
  obtain env d where c: "corrida ops = (env, d)" by fastforce
  have forma: "distinct (map fst d)" "length d \<le> max_entradas_dedup" using corrida_forma [of ops] c by auto
  show ?case
  proof (cases op)
    case (Falla k')
    with snoc c show ?thesis by simp
  next
    case (Aviso k' t')
    note o = ordenados [OF snoc.prems(1) [unfolded Aviso]]
    have card: "card (claves_de ops) \<le> max_entradas_dedup"
      by (rule claves_menos [OF snoc.prems(2)])
    obtain b d' where b: "deberia_enviar (Some k') t' d = (b, d')" by fastforce
    note f = deberia_enviar_forma [OF b forma]
    have lejos: "ventana_dedup_ms \<le> t' - t" if "(k, t) \<in> set env" "b" "k' = k" for t
      using envio_recordado [OF conjunct1 [OF o] card, of k t] snoc.prems(3) c that f(4) o by force
    have "sorted_wrt (\<lambda>s t. ventana_dedup_ms \<le> t - s) (map snd (filter (\<lambda>p. fst p = k) env))"
      using snoc.IH o card snoc.prems(3) c by simp
    with lejos c b show ?thesis by (auto simp: Aviso sorted_wrt_append)
  qed
qed simp

text \<open>C34. No flood of mails and no unjustified silence. For every sequence of alerts in the order of time and of failed sendings: the
dictionary never has more than five hundred keys; if at most five hundred keys are in use, two sendings of a key that never failed are
at least fifteen minutes apart; and an alert that is not sent had a sending of the same key, not failed since, less than fifteen
minutes before.\<close>

theorem alertas_sin_inundacion:
  assumes "sorted (tiempos ops)"
  shows "length (snd (corrida ops)) \<le> 500
    \<and> (card (claves_de ops) \<le> 500 \<longrightarrow> (\<forall>k. Falla k \<notin> set ops \<longrightarrow>
         sorted_wrt (\<lambda>s t. 900000 \<le> t - s) (map snd (filter (\<lambda>p. fst p = k) (fst (corrida ops))))))
    \<and> (\<forall>previas k t despues. ops = previas @ Aviso k t # despues \<and> \<not> fst (deberia_enviar (Some k) t (snd (corrida previas))) \<longrightarrow>
         (\<exists>t0. (k, t0) \<in> set (fst (corrida previas)) \<and> map_of (snd (corrida previas)) k = Some t0 \<and> t0 \<le> t \<and> t - t0 < 900000))"
proof (intro conjI allI impI)
  show "length (snd (corrida ops)) \<le> 500" using corrida_forma [of ops] by (simp add: max_entradas_dedup_def)
  fix k assume "card (claves_de ops) \<le> 500" "Falla k \<notin> set ops"
  with envios_espaciados [OF assms, of k]
  show "sorted_wrt (\<lambda>s t. 900000 \<le> t - s) (map snd (filter (\<lambda>p. fst p = k) (fst (corrida ops))))"
    by (simp add: max_entradas_dedup_def ventana_dedup_ms_def)
next
  fix previas k t despues
  assume a: "ops = previas @ Aviso k t # despues \<and> \<not> fst (deberia_enviar (Some k) t (snd (corrida previas)))"
  obtain env d where c: "corrida previas = (env, d)" by fastforce
  have forma: "distinct (map fst d)" "length d \<le> max_entradas_dedup" "set d \<subseteq> set env" "snd ` set env \<subseteq> set (tiempos previas)"
    using corrida_forma [of previas] unfolding c by simp_all
  obtain b d' where b: "deberia_enviar (Some k) t d = (b, d')" by fastforce
  have "\<not> b" using a b c by simp
  with deberia_enviar_forma(4) [OF b forma(1,2)] obtain t0 where t0: "map_of d k = Some t0" "t - t0 < ventana_dedup_ms"
    by (meson linorder_not_le)
  then have "(k, t0) \<in> set env" using forma(3) map_of_SomeD [OF t0(1)] by auto
  moreover have "t0 \<le> t"
  proof -
    have "tiempos (previas @ Aviso k t # despues) = tiempos previas @ t # tiempos despues" by (simp add: tiempos_def map_filter_append)
    with a have "tiempos ops = tiempos previas @ t # tiempos despues" by blast
    moreover have "snd (k, t0) \<in> snd ` set env" using \<open>(k, t0) \<in> set env\<close> by (rule imageI)
    then have "t0 \<in> set (tiempos previas)" using forma(4) by auto
    ultimately show ?thesis using assms by (simp add: sorted_append)
  qed
  ultimately show "\<exists>t0. (k, t0) \<in> set (fst (corrida previas)) \<and> map_of (snd (corrida previas)) k = Some t0 \<and> t0 \<le> t \<and> t - t0 < 900000"
    using t0 c by (auto simp: ventana_dedup_ms_def)
qed

lemma alertas_sin_inundacion_testigo:
  "fst (corrida [Aviso ''k'' 0, Aviso ''k'' 1000, Falla ''j'', Aviso ''k'' 900000]) = [(''k'', 0), (''k'', 900000)]
   \<and> sorted_wrt (\<lambda>s t. 900000 \<le> t - s) (map snd (filter (\<lambda>p. fst p = ''k'')
        (fst (corrida [Aviso ''k'' 0, Aviso ''k'' 1000, Falla ''j'', Aviso ''k'' 900000]))))"
proof
  let ?ops = "[Aviso ''k'' 0, Aviso ''k'' 1000, Falla ''j'', Aviso ''k'' 900000]"
  show "fst (corrida ?ops) = [(''k'', 0), (''k'', 900000)]"
    by (simp add: corrida_def deberia_enviar_def hace_lugar_def max_entradas_dedup_def ventana_dedup_ms_def liberar_dedup_si_fallo_def)
  have "sorted (tiempos ?ops)" by (simp add: tiempos_def)
  moreover have "claves_de ?ops = {''k''}" by (auto simp: claves_de_def)
  ultimately show "sorted_wrt (\<lambda>s t. 900000 \<le> t - s) (map snd (filter (\<lambda>p. fst p = ''k'') (fst (corrida ?ops))))"
    using alertas_sin_inundacion [of ?ops] by simp
qed

end
