(* ===== verification/Firmas.thy ===== *)
theory Firmas
  imports Cliente_Sfc
begin

text \<open>
  \<^verbatim>\<open>app/core/security/signatures.py\<close>: the signature of a request to the SFC. HMAC-SHA256 in hexadecimal is the parameter \<open>hm\<close>
  (key and message); what is signed is modelled in full. A JSON body is signed as \<^verbatim>\<open>json.dumps\<close> writes it with its default
  separators, which is not the text that travels.
\<close>

type_synonym hmac = "string \<Rightarrow> string \<Rightarrow> string"

definition mayusculas :: "string \<Rightarrow> string" where
  "mayusculas s = map mayuscula s"

definition url_sign :: "hmac \<Rightarrow> string \<Rightarrow> string \<Rightarrow> string" where
  "url_sign hm secreto url = mayusculas (hm secreto url)"

definition payload_sign :: "hmac \<Rightarrow> string \<Rightarrow> json \<Rightarrow> string" where
  "payload_sign hm secreto v = mayusculas (hm secreto (dumps v))"

definition firmado_de_archivo :: "dict \<Rightarrow> dict" where
  "firmado_de_archivo d = [(''codigo_queja'', obtener d ''codigo_queja''), (''type'', obtener d ''type'')]"

definition file_transfer_sign :: "hmac \<Rightarrow> string \<Rightarrow> json \<Rightarrow> string resultado" where
  "file_transfer_sign hm secreto v =
     (case v of
        JObj d \<Rightarrow> Inr (mayusculas (hm secreto (dumps (JObj (firmado_de_archivo d)))))
      | _ \<Rightarrow> Inl (TypeError ''get''))"

text \<open>\<^verbatim>\<open>payload or {}\<close>\<close>

definition o_vacio :: "json \<Rightarrow> json" where
  "o_vacio v = (if verdadero v then v else JObj [])"

definition get_signature :: "hmac \<Rightarrow> string \<Rightarrow> string \<Rightarrow> string \<Rightarrow> json \<Rightarrow> bool \<Rightarrow> string resultado" where
  "get_signature hm secreto metodo url payload is_file_upload =
     (if mayusculas metodo = ''GET'' then Inr (url_sign hm secreto url)
      else if mayusculas metodo \<in> {''POST'', ''PUT'', ''PATCH''}
      then (if is_file_upload then file_transfer_sign hm secreto (o_vacio payload)
            else Inr (payload_sign hm secreto (o_vacio payload)))
      else Inl (ValueError (''M'' @ con_tilde CHR ''e'' @ ''todo '' @ metodo @ '' no soportado para generaci'' @ con_tilde CHR ''o''
                  @ ''n de firmas.'')))"

subsection \<open>What the signature depends on\<close>

lemma firma_de_archivo_solo_dos_campos:
  assumes "obtener d ''codigo_queja'' = obtener d' ''codigo_queja''" "obtener d ''type'' = obtener d' ''type''"
    and "d \<noteq> []" "d' \<noteq> []"
  shows "get_signature hm k m u (JObj d) True = get_signature hm k m u' (JObj d') True \<or> mayusculas m = ''GET''"
  using assms by (simp add: get_signature_def o_vacio_def verdadero_def file_transfer_sign_def firmado_de_archivo_def)

lemma firma_de_cuerpo_ignora_url:
  "mayusculas m \<noteq> ''GET'' \<Longrightarrow> get_signature hm k m u v f = get_signature hm k m u' v f"
  by (simp add: get_signature_def)

lemma firma_post [simp]: "get_signature hm k ''POST'' u v False = Inr (payload_sign hm k (o_vacio v))"
  by (simp add: get_signature_def mayusculas_def mayuscula_def)

end
