(* ===== verification/Autenticacion.thy ===== *)
theory Autenticacion
  imports Firmas Candado
begin

text \<open>
  \<^verbatim>\<open>app/core/auth.py\<close>: the class \<^verbatim>\<open>SfcAuthManager\<close>. Its attributes are \<open>w_auth\<close>; every write to them happens under the local lock of
  the process, and \<open>w_relevos\<close> is what the other coroutines did to them when this one gets that lock. The shared record and the
  lock in Redis are \<open>r_token\<close> and an entry of \<open>r_lock\<close>. Parameters: the transport, HMAC, the decoding of JSON and of a JWT, the
  reading of a float as an instant and the texts of exceptions. Every request on the wire is kept in \<open>w_envios\<close>.
\<close>

record solicitud =
  so_metodo :: string
  so_url :: string
  so_ruta :: string
  so_cabeceras :: "(string \<times> string) list"
  so_contenido :: string
  so_campos :: "dict option"

record cfg_auth =
  ca_base :: string
  ca_usuario :: string
  ca_password :: string
  ca_secreto :: string
  ca_dueno :: string
  ca_hmac :: hmac
  ca_cargar :: "string \<Rightarrow> json option"
  ca_py_str :: "json \<Rightarrow> string"
  ca_jwt :: "json \<Rightarrow> dict option"
  ca_instante :: "string \<Rightarrow> int resultado"
  ca_texto :: "excepcion \<Rightarrow> string"
  ca_texto_estado :: "int \<Rightarrow> string"
  ca_http :: "solicitud \<Rightarrow> (int \<times> string) accion"

definition redis_token_key :: string where "redis_token_key = ''{sfc:auth}:tokens''"
definition redis_lock_key :: string where "redis_lock_key = ''{sfc:auth}:lock''"
definition lock_ttl_ms :: int where "lock_ttl_ms = 15000"
definition lock_wait_timeout :: int where "lock_wait_timeout = 10000"
definition lock_poll_interval :: int where "lock_poll_interval = 250"
definition token_record_ttl :: int where "token_record_ttl = 7 * 24 * 3600 * 1000"

text \<open>The exceptions that the code takes for an invalid answer: \<^verbatim>\<open>JSONDecodeError\<close> and \<^verbatim>\<open>PyJWTError\<close> are \<open>ValueError\<close> here. A body that
is not an object ends in the \<^verbatim>\<open>AttributeError\<close> of \<^verbatim>\<open>.get\<close>, which is not one of them.\<close>

definition errores_respuesta_auth :: "excepcion \<Rightarrow> bool" where
  "errores_respuesta_auth e = (case e of ValueError _ \<Rightarrow> True | KeyError _ \<Rightarrow> True | TypeError _ \<Rightarrow> True | _ \<Rightarrow> False)"

definition error_sin_get :: excepcion where
  "error_sin_get = RuntimeError ''AttributeError''"

definition envolver_error :: "string \<Rightarrow> excepcion" where
  "envolver_error texto =
     SfcIntegrationException \<lparr>status_code = 502, error_type = ''SFC_AUTH_RESPONSE_INVALID'', sfc_field = None,
       raw_message = ''La SFC devolvi'' @ con_tilde CHR ''o'' @ '' una respuesta de autenticaci'' @ con_tilde CHR ''o'' @ ''n inv''
         @ con_tilde CHR ''a'' @ ''lida o inesperada: '' @ texto,
       crm_action = ''Reintente la operaci'' @ con_tilde CHR ''o'' @ ''n m'' @ con_tilde CHR ''a''
         @ ''s tarde; puede tratarse de un problema transitorio del servicio de autenticaci'' @ con_tilde CHR ''o'' @ ''n de la SFC.''\<rparr>"

subsection \<open>The tokens in memory\<close>

definition lee_tokens :: "tokens accion" where
  "lee_tokens w = (Inr (w_auth w), w)"

definition pon_tokens :: "(tokens \<Rightarrow> tokens) \<Rightarrow> unit accion" where
  "pon_tokens f w = (Inr (), w\<lparr>w_auth := f (w_auth w)\<rparr>)"

text \<open>\<^verbatim>\<open>async with self._get_local_lock()\<close>\<close>

definition con_candado_local :: "'a accion \<Rightarrow> 'a accion" where
  "con_candado_local m w =
     (case w_relevos w of [] \<Rightarrow> m w | f # fs \<Rightarrow> m (w\<lparr>w_auth := f (w_auth w), w_relevos := fs\<rparr>))"

definition vigente :: "json \<Rightarrow> int option \<Rightarrow> int \<Rightarrow> bool" where
  "vigente token vence now = (verdadero token \<and> (case vence of None \<Rightarrow> False | Some e \<Rightarrow> now + 60000 < e))"

definition is_access_token_valid :: "bool accion" where
  "is_access_token_valid =
     luego ahora (\<lambda>now. luego lee_tokens (\<lambda>a. devuelve (vigente (access_token a) (access_exp a) now)))"

definition is_refresh_token_valid :: "bool accion" where
  "is_refresh_token_valid =
     luego ahora (\<lambda>now. luego lee_tokens (\<lambda>a. devuelve (vigente (refresh_token a) (refresh_exp a) now)))"

definition token_actual :: "json accion" where
  "token_actual = luego lee_tokens (\<lambda>a. devuelve (access_token a))"

subsection \<open>The shared record\<close>

definition pon_fecha :: "fecha_iso \<Rightarrow> (int option \<Rightarrow> tokens \<Rightarrow> tokens) \<Rightarrow> unit accion" where
  "pon_fecha f g =
     (case f of SinFecha \<Rightarrow> pon_tokens (g None) | Fecha e \<Rightarrow> pon_tokens (g (Some e))
      | FechaMala \<Rightarrow> lanza (ValueError ''fromisoformat''))"

text \<open>The two tokens are written before their expiries are read.\<close>

definition load_local_from_dict :: "registro_tokens \<Rightarrow> unit accion" where
  "load_local_from_dict d =
     luego (pon_tokens (\<lambda>a. a\<lparr>access_token := rt_access d, refresh_token := rt_refresh d\<rparr>)) (\<lambda>_.
     luego (pon_fecha (rt_access_exp d) (\<lambda>e a. a\<lparr>access_exp := e\<rparr>)) (\<lambda>_.
     pon_fecha (rt_refresh_exp d) (\<lambda>e a. a\<lparr>refresh_exp := e\<rparr>)))"

definition load_from_redis :: "bool accion" where
  "load_from_redis =
     luego hay_cliente (\<lambda>hay.
       if \<not> hay then devuelve False
       else intenta
         (luego (redis_cmd (\<lambda>r. (Inr (tget (reloj r) (r_token r) redis_token_key), r))) (\<lambda>raw.
            case raw of
              None \<Rightarrow> devuelve False
            | Some Corrupto \<Rightarrow> devuelve False
            | Some (Valido d) \<Rightarrow> luego (load_local_from_dict d) (\<lambda>_. devuelve True)))
         (\<lambda>e. devuelve False))"

definition isoformat :: "int option \<Rightarrow> fecha_iso" where
  "isoformat e = (case e of None \<Rightarrow> SinFecha | Some t \<Rightarrow> Fecha t)"

definition registro_de :: "tokens \<Rightarrow> registro_tokens" where
  "registro_de a = \<lparr>rt_access = access_token a, rt_refresh = refresh_token a,
                    rt_access_exp = isoformat (access_exp a), rt_refresh_exp = isoformat (refresh_exp a)\<rparr>"

definition guarda_registro :: "tokens \<Rightarrow> unit guion" where
  "guarda_registro a r = (Inr (), r\<lparr>r_token := tset (reloj r) token_record_ttl (r_token r) redis_token_key (Valido (registro_de a))\<rparr>)"

definition save_to_redis :: "unit accion" where
  "save_to_redis =
     luego hay_cliente (\<lambda>hay.
       if \<not> hay then devuelve ()
       else luego lee_tokens (\<lambda>a. intenta (redis_cmd (guarda_registro a)) (\<lambda>e. devuelve ())))"

definition mismo_texto :: "json \<Rightarrow> json \<Rightarrow> bool" where
  "mismo_texto a b = (case a of JStr s \<Rightarrow> b = JStr s | _ \<Rightarrow> False)"

definition invalidate_if_matches_lua :: "json \<Rightarrow> bool guion" where
  "invalidate_if_matches_lua rechazado r =
     (case tget (reloj r) (r_token r) redis_token_key of
        Some (Valido d) \<Rightarrow>
          if mismo_texto (rt_access d) rechazado
          then (Inr True, r\<lparr>r_token := tdel (r_token r) redis_token_key\<rparr>) else (Inr False, r)
      | _ \<Rightarrow> (Inr False, r))"

definition invalidar_token_compartido :: "json \<Rightarrow> unit accion" where
  "invalidar_token_compartido rechazado =
     luego hay_cliente (\<lambda>hay.
       if \<not> hay \<or> \<not> verdadero rechazado then devuelve ()
       else intenta (luego (redis_cmd (invalidate_if_matches_lua rechazado)) (\<lambda>_. devuelve ())) (\<lambda>e. devuelve ()))"

subsection \<open>The distributed lock\<close>

definition acquire_distributed_lock :: "cfg_auth \<Rightarrow> bool accion" where
  "acquire_distributed_lock c =
     luego hay_cliente (\<lambda>hay.
       if \<not> hay then devuelve False
       else intenta (redis_cmd (como_cmd (set_nx_lock lock_ttl_ms redis_lock_key (ca_dueno c)))) (\<lambda>e. devuelve False))"

definition release_distributed_lock :: "cfg_auth \<Rightarrow> unit accion" where
  "release_distributed_lock c =
     luego hay_cliente (\<lambda>hay.
       if \<not> hay then devuelve ()
       else intenta (luego (redis_cmd (como_cmd (release_lock_lua redis_lock_key (ca_dueno c)))) (\<lambda>_. devuelve ()))
              (\<lambda>e. devuelve ()))"

subsection \<open>Login and refresh\<close>

definition cabecera :: "string \<Rightarrow> solicitud \<Rightarrow> string" where
  "cabecera k q = (case map_of (so_cabeceras q) k of None \<Rightarrow> [] | Some v \<Rightarrow> v)"

definition pon_cabecera :: "string \<Rightarrow> string \<Rightarrow> solicitud \<Rightarrow> solicitud" where
  "pon_cabecera k v q = q\<lparr>so_cabeceras := AList.update k v (so_cabeceras q)\<rparr>"

text \<open>A request on the wire.\<close>

definition anota_envio :: "solicitud \<Rightarrow> (int \<times> string) option \<Rightarrow> unit accion" where
  "anota_envio q resp w =
     (Inr (), w\<lparr>w_envios := w_envios w @
        [\<lparr>en_url = so_url q, en_metodo = so_metodo q, en_portador = cabecera ''authorization'' q,
          en_firma = cabecera ''x-sfc-signature'' q, en_cuerpo = so_contenido q, en_respuesta = resp\<rparr>]\<rparr>)"

definition envia :: "cfg_auth \<Rightarrow> solicitud \<Rightarrow> (int \<times> string) accion" where
  "envia c q =
     luego (intenta (luego (ca_http c q) (\<lambda>r. devuelve (Inr r))) (\<lambda>e. devuelve (Inl e))) (\<lambda>x.
       luego (anota_envio q (case x of Inl _ \<Rightarrow> None | Inr r \<Rightarrow> Some r))
         (\<lambda>_. case x of Inl e \<Rightarrow> lanza e | Inr r \<Rightarrow> devuelve r))"

text \<open>\<^verbatim>\<open>d.get(k1) or d.get(k2)\<close>\<close>

definition uno_u_otro :: "dict \<Rightarrow> string \<Rightarrow> string \<Rightarrow> json" where
  "uno_u_otro d k1 k2 = (if verdadero (obtener d k1) then obtener d k1 else obtener d k2)"

text \<open>\<^verbatim>\<open>datetime.fromtimestamp(v, timezone.utc)\<close> in ms; the years are 1 to 9999.\<close>

definition fromtimestamp :: "cfg_auth \<Rightarrow> json \<Rightarrow> int resultado" where
  "fromtimestamp c v =
     (case v of
        JInt n \<Rightarrow> if - 62135596800 \<le> n \<and> n < 253402300800 then Inr (1000 * n)
                  else if - (2 ^ 63) \<le> n \<and> n < 2 ^ 63 then Inl (ValueError ''year is out of range'')
                  else Inl (RuntimeError ''OverflowError'')
      | JBool b \<Rightarrow> Inr (if b then 1000 else 0)
      | JFloat s \<Rightarrow> ca_instante c s
      | _ \<Rightarrow> Inl (TypeError ''fromtimestamp''))"

definition exp_de :: "cfg_auth \<Rightarrow> dict \<Rightarrow> int resultado" where
  "exp_de c d = (case map_of d ''exp'' of None \<Rightarrow> Inl (KeyError ''exp'') | Some v \<Rightarrow> fromtimestamp c v)"

definition o_lanza :: "'a resultado \<Rightarrow> 'a accion" where
  "o_lanza x = (case x of Inl e \<Rightarrow> lanza e | Inr y \<Rightarrow> devuelve y)"

definition jwt_decode :: "cfg_auth \<Rightarrow> json \<Rightarrow> dict accion" where
  "jwt_decode c token = (case ca_jwt c token of None \<Rightarrow> lanza (ValueError ''PyJWTError'') | Some d \<Rightarrow> devuelve d)"

definition save_tokens_local :: "cfg_auth \<Rightarrow> json \<Rightarrow> json \<Rightarrow> unit accion" where
  "save_tokens_local c access refresh =
     luego (pon_tokens (\<lambda>a. a\<lparr>access_token := access, refresh_token := refresh\<rparr>)) (\<lambda>_.
     luego (jwt_decode c access) (\<lambda>da.
     luego (jwt_decode c refresh) (\<lambda>dr.
     luego (o_lanza (exp_de c da)) (\<lambda>ea.
     luego (pon_tokens (\<lambda>a. a\<lparr>access_exp := Some ea\<rparr>)) (\<lambda>_.
     luego (o_lanza (exp_de c dr)) (\<lambda>er.
     pon_tokens (\<lambda>a. a\<lparr>refresh_exp := Some er\<rparr>)))))))"

definition ep_login :: string where "ep_login = ''/api/login/''"
definition ep_refresh :: string where "ep_refresh = ''/api/token/refresh''"

definition pide_tokens :: "cfg_auth \<Rightarrow> string \<Rightarrow> dict \<Rightarrow> (int \<times> string) accion" where
  "pide_tokens c ep payload =
     luego (o_lanza (get_signature (ca_hmac c) (ca_secreto c) ''POST'' ep (JObj payload) False)) (\<lambda>firma.
       envia c \<lparr>so_metodo = ''POST'', so_url = ca_base c @ ep, so_ruta = ep,
                so_cabeceras = [(''content-type'', ''application/json''), (''accept'', ''application/json''), (''x-sfc-signature'', firma)],
                so_contenido = dumps (JObj payload), so_campos = None\<rparr>)"

definition raise_for_status :: "cfg_auth \<Rightarrow> int \<Rightarrow> unit accion" where
  "raise_for_status c st =
     (if 200 \<le> st \<and> st < 300 then devuelve () else lanza (envolver_error (ca_texto_estado c st)))"

text \<open>The body of an answer, as the argument of \<^verbatim>\<open>.get\<close>.\<close>

definition response_json :: "cfg_auth \<Rightarrow> string \<Rightarrow> dict accion" where
  "response_json c body =
     (case ca_cargar c body of
        None \<Rightarrow> lanza (ValueError ''JSON'')
      | Some (JObj d) \<Rightarrow> devuelve d
      | Some _ \<Rightarrow> lanza error_sin_get)"

definition guarda_respuesta :: "cfg_auth \<Rightarrow> (dict \<Rightarrow> tokens \<Rightarrow> json) \<Rightarrow> string \<Rightarrow> unit accion" where
  "guarda_respuesta c refresco body =
     intenta
       (luego (response_json c body) (\<lambda>d. luego lee_tokens (\<lambda>a.
          save_tokens_local c (uno_u_otro d ''access'' ''access_token'') (refresco d a))))
       (\<lambda>e. lanza (if errores_respuesta_auth e then envolver_error (ca_texto c e) else e))"

definition login :: "cfg_auth \<Rightarrow> unit accion" where
  "login c =
     luego (pide_tokens c ep_login [(''username'', JStr (ca_usuario c)), (''password'', JStr (ca_password c))]) (\<lambda>(st, body).
     luego (raise_for_status c st) (\<lambda>_.
     guarda_respuesta c (\<lambda>d a. uno_u_otro d ''refresh'' ''refresh_token'') body))"

definition refresh_access_token :: "cfg_auth \<Rightarrow> unit accion" where
  "refresh_access_token c =
     luego lee_tokens (\<lambda>a.
     luego (pide_tokens c ep_refresh [(''refresh'', refresh_token a)]) (\<lambda>(st, body).
       if st = 401 then lanza (ValueError (''Refresh Token inv'' @ con_tilde CHR ''a'' @ ''lido o expirado en la SFC''))
       else luego (raise_for_status c st) (\<lambda>_.
         guarda_respuesta c
           (\<lambda>d a'. if verdadero (uno_u_otro d ''refresh'' ''refresh_token'') then uno_u_otro d ''refresh'' ''refresh_token''
                   else refresh_token a') body)))"

subsection \<open>A valid token\<close>

definition renovar_token_directo_local :: "cfg_auth \<Rightarrow> json accion" where
  "renovar_token_directo_local c =
     luego is_refresh_token_valid (\<lambda>ok.
     luego (if ok then intenta (luego (refresh_access_token c) (\<lambda>_. luego token_actual (\<lambda>t. devuelve (Some t)))) (\<lambda>e. devuelve None)
            else devuelve None) (\<lambda>x.
       case x of
         Some t \<Rightarrow> devuelve t
       | None \<Rightarrow> luego (login c) (\<lambda>_. token_actual)))"

text \<open>What the holder of the distributed lock does.\<close>

definition con_el_lock :: "cfg_auth \<Rightarrow> json accion" where
  "con_el_lock c =
     luego load_from_redis (\<lambda>_. luego is_access_token_valid (\<lambda>v.
       if v then token_actual
       else luego is_refresh_token_valid (\<lambda>ok.
         luego (if ok
                then intenta (luego (refresh_access_token c) (\<lambda>_. luego save_to_redis (\<lambda>_. luego token_actual (\<lambda>t. devuelve (Some t)))))
                       (\<lambda>e. devuelve None)
                else devuelve None) (\<lambda>x.
           case x of
             Some t \<Rightarrow> devuelve t
           | None \<Rightarrow> luego (login c) (\<lambda>_. luego save_to_redis (\<lambda>_. token_actual))))))"

text \<open>The loop, with the turns that are left and what would happen if they ran out.\<close>

primrec renovar_hasta :: "json accion \<Rightarrow> cfg_auth \<Rightarrow> int \<Rightarrow> nat \<Rightarrow> json accion" where
  "renovar_hasta z c deadline 0 = z"
| "renovar_hasta z c deadline (Suc n) =
     luego hay_cliente (\<lambda>hay.
       if \<not> hay then renovar_token_directo_local c
       else luego (acquire_distributed_lock c) (\<lambda>ok.
         if ok then finalmente (con_el_lock c) (release_distributed_lock c)
         else luego ahora (\<lambda>now.
           if deadline \<le> now then renovar_token_directo_local c
           else luego (duerme lock_poll_interval) (\<lambda>_.
             luego load_from_redis (\<lambda>_. luego is_access_token_valid (\<lambda>v.
               if v then token_actual else renovar_hasta z c deadline n))))))"

definition vueltas_espera :: nat where "vueltas_espera = 41"

definition renovar_token_coordinado :: "cfg_auth \<Rightarrow> json accion" where
  "renovar_token_coordinado c = 
     luego ahora (\<lambda>now. renovar_hasta (lanza (RuntimeError ''vueltas'')) c (now + lock_wait_timeout) vueltas_espera)"

definition get_valid_token_unlocked :: "cfg_auth \<Rightarrow> json accion" where
  "get_valid_token_unlocked c =
     luego is_access_token_valid (\<lambda>v.
       if v then token_actual
       else luego hay_cliente (\<lambda>hay.
         if \<not> hay then renovar_token_directo_local c
         else luego load_from_redis (\<lambda>_. luego is_access_token_valid (\<lambda>v.
           if v then token_actual else renovar_token_coordinado c))))"

definition get_valid_token :: "cfg_auth \<Rightarrow> json accion" where
  "get_valid_token c =
     luego is_access_token_valid (\<lambda>v. if v then token_actual else con_candado_local (get_valid_token_unlocked c))"

subsection \<open>The authenticated request\<close>

definition portador :: "cfg_auth \<Rightarrow> json \<Rightarrow> string" where
  "portador c token = ''Bearer '' @ str_de (ca_py_str c) token"

definition multiparte :: string where "multiparte = ''multipart/form-data''"

text \<open>What is signed: the endpoint, the payload and whether it is a file.\<close>

definition preparar_headers_y_firma :: "cfg_auth \<Rightarrow> solicitud \<Rightarrow> (solicitud \<times> string \<times> json \<times> bool) resultado" where
  "preparar_headers_y_firma c q =
     (let content_type = cabecera ''content-type'' q;
          q1 = (if so_metodo q \<in> {''POST'', ''PUT'', ''PATCH''} \<and> \<not> contiene multiparte content_type
                then pon_cabecera ''content-type'' ''application/json'' q else q);
          is_file = (contiene multiparte content_type \<or> contiene ''api/storage'' (so_ruta q))
      in if ''x-sfc-signature'' \<in> fst ` set (so_cabeceras q1) then Inr (q1, so_ruta q, JNull, is_file)
         else let (ep, payload) =
                (if so_metodo q = ''GET'' then (so_url q, JNull)
                 else if is_file then (so_ruta q, case so_campos q of None \<Rightarrow> JNull | Some d \<Rightarrow> JObj d)
                 else (so_ruta q, if so_contenido q = [] then JNull
                                  else case ca_cargar c (so_contenido q) of None \<Rightarrow> JNull | Some v \<Rightarrow> v))
              in ligar (get_signature (ca_hmac c) (ca_secreto c) (so_metodo q) ep payload is_file) (\<lambda>firma.
                   Inr (pon_cabecera ''x-sfc-signature'' firma q1, ep, payload, is_file)))"

definition con_credenciales :: "cfg_auth \<Rightarrow> json \<Rightarrow> solicitud \<Rightarrow> solicitud" where
  "con_credenciales c token q =
     (let q1 = pon_cabecera ''accept'' ''application/json''
                 (pon_cabecera ''cache-control'' ''no-cache'' (pon_cabecera ''authorization'' (portador c token) q))
      in if ''accept-language'' \<in> fst ` set (so_cabeceras q1) then q1 else pon_cabecera ''accept-language'' ''es'' q1)"

definition es_de_auth :: "solicitud \<Rightarrow> bool" where
  "es_de_auth q = (contiene ''/api/login'' (so_ruta q) \<or> contiene ''/api/token/refresh'' (so_ruta q))"

text \<open>After a 401: the new request, or nothing when the recovery failed.\<close>

definition recupera_401 :: "cfg_auth \<Rightarrow> json \<Rightarrow> solicitud \<Rightarrow> string \<Rightarrow> json \<Rightarrow> bool \<Rightarrow> solicitud option accion" where
  "recupera_401 c token q ep payload is_file =
     luego (invalidar_token_compartido token) (\<lambda>_.
     luego (pon_tokens (\<lambda>a. if access_token a = token then a\<lparr>access_token := JNull\<rparr> else a)) (\<lambda>_.
     intenta
       (luego (get_valid_token_unlocked c) (\<lambda>nuevo.
        luego (o_lanza (get_signature (ca_hmac c) (ca_secreto c) (so_metodo q) ep payload is_file)) (\<lambda>firma.
        devuelve (Some (pon_cabecera ''x-sfc-signature'' firma (pon_cabecera ''authorization'' (portador c nuevo) q))))))
       (\<lambda>e. devuelve None)))"

definition async_auth_flow :: "cfg_auth \<Rightarrow> solicitud \<Rightarrow> (int \<times> string) accion" where
  "async_auth_flow c q =
     (if es_de_auth q then envia c q
      else luego (get_valid_token c) (\<lambda>token.
           luego (o_lanza (preparar_headers_y_firma c (con_credenciales c token q))) (\<lambda>(q1, ep, payload, is_file).
           luego (envia c q1) (\<lambda>resp.
             if fst resp \<noteq> 401 then devuelve resp
             else con_candado_local
               (luego (recupera_401 c token q1 ep payload is_file) (\<lambda>otra.
                  case otra of None \<Rightarrow> devuelve resp | Some q2 \<Rightarrow> envia c q2))))))"

end
