(* ===== verification/Precondiciones.thy ===== *)
theory Precondiciones
  imports Efectos
begin

text \<open>
  Weakest preconditions of actions: \<open>wp m Q w\<close> says that what \<open>m\<close> does in the world \<open>w\<close> ends in \<open>Q\<close>, with a result or an exception.
  The rules follow the combinators; a command to Redis is taken under a guarantee of the other processes.
\<close>

definition wp :: "'a accion \<Rightarrow> ('a resultado \<Rightarrow> mundo \<Rightarrow> bool) \<Rightarrow> mundo \<Rightarrow> bool" where
  "wp m Q w = Q (fst (m w)) (snd (m w))"

lemma wpI: "(\<And>x w'. m w = (x, w') \<Longrightarrow> Q x w') \<Longrightarrow> wp m Q w"
  by (cases "m w") (simp add: wp_def)

lemma wpD: "wp m Q w \<Longrightarrow> m w = (x, w') \<Longrightarrow> Q x w'"
  by (simp add: wp_def)

lemma wp_mas: "wp m P w \<Longrightarrow> (\<And>x w'. P x w' \<Longrightarrow> Q x w') \<Longrightarrow> wp m Q w"
  by (simp add: wp_def)

lemma wp_simps [simp]:
  "wp (devuelve x) Q w = Q (Inr x) w"
  "wp (lanza e) Q w = Q (Inl e) w"
  by (simp_all add: wp_def devuelve_def lanza_def)

lemma wp_lecturas [simp]:
  "wp ahora Q w = Q (Inr (reloj (w_redis w))) w"
  "wp hay_cliente Q' w = Q' (Inr (w_cliente w)) w"
  "wp (duerme ms) Q'' w = Q'' (Inr ()) (w\<lparr>w_redis := avanza ms (w_redis w)\<rparr>)"
  "wp (emite ev) Q'' w = Q'' (Inr ()) (w\<lparr>w_bitacora := w_bitacora w @ [ev]\<rparr>)"
  by (simp_all add: wp_def ahora_def hay_cliente_def duerme_def emite_def)

lemma wp_luego [simp]:
  "wp (luego m f) Q w = wp m (\<lambda>x w'. case x of Inl e \<Rightarrow> Q (Inl e) w' | Inr y \<Rightarrow> wp (f y) Q w') w"
  by (simp add: wp_def luego_def split: prod.split sum.split)

lemma wp_intenta [simp]:
  "wp (intenta m h) Q w = wp m (\<lambda>x w'. case x of Inl e \<Rightarrow> wp (h e) Q w' | Inr y \<Rightarrow> Q (Inr y) w') w"
  by (simp add: wp_def intenta_def split: prod.split sum.split)

lemma wp_finalmente [simp]:
  "wp (finalmente m fin) Q w =
     wp m (\<lambda>x w'. wp fin (\<lambda>y w''. case y of Inl e \<Rightarrow> Q (Inl e) w'' | Inr _ \<Rightarrow> Q x w'') w') w"
  by (simp add: wp_def finalmente_def split: prod.split sum.split)

lemma wp_y: "wp m P w \<Longrightarrow> wp m Q w \<Longrightarrow> wp m (\<lambda>x w'. P x w' \<and> Q x w') w"
  by (simp add: wp_def)

text \<open>One command: the other processes act first, then the command answers, or fails before or after it ran.\<close>

lemma wp_redis_cmd:
  assumes "entorno R w" "R (w_redis w) (w_redis w)"
    and "\<And>r ts. R (w_redis w) r \<Longrightarrow> set ts \<subseteq> set (w_turnos w) \<Longrightarrow>
           Q (fst (c r)) (w\<lparr>w_redis := snd (c r), w_turnos := ts\<rparr>)"
    and "\<And>r ts. R (w_redis w) r \<Longrightarrow> set ts \<subseteq> set (w_turnos w) \<Longrightarrow> \<exists>t \<in> set (w_turnos w). t_falla t \<noteq> Bien \<Longrightarrow>
           Q (Inl ErrorRedis) (w\<lparr>w_redis := r, w_turnos := ts\<rparr>) \<and> Q (Inl ErrorRedis) (w\<lparr>w_redis := snd (c r), w_turnos := ts\<rparr>)"
  shows "wp (redis_cmd c) Q w"
proof (cases "w_turnos w")
  case Nil
  have "w\<lparr>w_redis := snd (c (w_redis w)), w_turnos := []\<rparr> = w\<lparr>w_redis := snd (c (w_redis w))\<rparr>"
    using Nil by simp
  with assms(3) [OF assms(2), of "[]"] Nil show ?thesis by (simp add: wp_def redis_cmd_def)
next
  case (Cons t ts)
  have R: "R (w_redis w) (t_otros t (w_redis w))" and s: "set ts \<subseteq> set (w_turnos w)"
    using assms(1) Cons by (auto simp: entorno_def)
  show ?thesis
  proof (cases "t_falla t")
    case Bien
    with assms(3) [OF R s] Cons show ?thesis by (simp add: wp_def redis_cmd_def Let_def)
  next
    case CaeAntes
    with assms(4) [OF R s] Cons show ?thesis by (simp add: wp_def redis_cmd_def Let_def)
  next
    case CaeDespues
    with assms(4) [OF R s] Cons show ?thesis by (simp add: wp_def redis_cmd_def Let_def)
  qed
qed

text \<open>When Redis answers every command; without turns, nobody else acts.\<close>

definition calmo :: "mundo \<Rightarrow> bool" where
  "calmo w = (\<forall>t \<in> set (w_turnos w). t_falla t = Bien)"

lemma wp_redis_bien:
  assumes "entorno R w" "R (w_redis w) (w_redis w)" "calmo w"
    and "\<And>r ts. R (w_redis w) r \<Longrightarrow> set ts \<subseteq> set (w_turnos w) \<Longrightarrow> (w_turnos w = [] \<Longrightarrow> r = w_redis w) \<Longrightarrow>
           Q (fst (c r)) (w\<lparr>w_redis := snd (c r), w_turnos := ts\<rparr>)"
  shows "wp (redis_cmd c) Q w"
proof (cases "w_turnos w")
  case Nil
  have "w\<lparr>w_redis := snd (c (w_redis w)), w_turnos := []\<rparr> = w\<lparr>w_redis := snd (c (w_redis w))\<rparr>"
    using Nil by simp
  with assms(4) [OF assms(2), of "[]"] Nil show ?thesis by (simp add: wp_def redis_cmd_def)
next
  case (Cons t ts)
  have "R (w_redis w) (t_otros t (w_redis w))" "set ts \<subseteq> set (w_turnos w)" "t_falla t = Bien"
    using assms(1,3) Cons by (auto simp: entorno_def calmo_def)
  with assms(4) [of "t_otros t (w_redis w)" ts] Cons show ?thesis by (simp add: wp_def redis_cmd_def Let_def)
qed

lemma entorno_resto: "entorno R w \<Longrightarrow> set ts \<subseteq> set (w_turnos w) \<Longrightarrow> entorno R (w\<lparr>w_redis := r, w_turnos := ts\<rparr>)"
  by (auto simp: entorno_def)

lemma calmo_resto: "calmo w \<Longrightarrow> set ts \<subseteq> set (w_turnos w) \<Longrightarrow> calmo (w\<lparr>w_redis := r, w_turnos := ts\<rparr>)"
  by (auto simp: calmo_def)

end
