(* ===== verification/Autenticacion_Propiedades.thy ===== *)
theory Autenticacion_Propiedades
  imports Autenticacion Precondiciones
begin

text \<open>
  What the authentication guarantees: which token a request carries, that waiting for another process ends, what happens after a
  401, and that a rejected token is not used again.
\<close>

subsection \<open>The parts of an action\<close>

lemma wp_auth [simp]:
  "wp lee_tokens Q w = Q (Inr (w_auth w)) w"
  "wp (pon_tokens f) P w = P (Inr ()) (w\<lparr>w_auth := f (w_auth w)\<rparr>)"
  by (simp_all add: wp_def lee_tokens_def pon_tokens_def)

lemma ejecucion [simp]:
  "lee_tokens w = (Inr (w_auth w), w)" "pon_tokens f w = (Inr (), w\<lparr>w_auth := f (w_auth w)\<rparr>)"
  "token_actual w = (Inr (access_token (w_auth w)), w)"
  "is_access_token_valid w = (Inr (vigente (access_token (w_auth w)) (access_exp (w_auth w)) (reloj (w_redis w))), w)"
  "is_refresh_token_valid w = (Inr (vigente (refresh_token (w_auth w)) (refresh_exp (w_auth w)) (reloj (w_redis w))), w)"
  by (simp_all add: lee_tokens_def pon_tokens_def token_actual_def is_access_token_valid_def is_refresh_token_valid_def luego_def
      ahora_def devuelve_def)

lemma carga_local:
  obtains x a where "load_local_from_dict d w = (x, w\<lparr>w_auth := a\<rparr>)" "access_token a = rt_access d"
    "\<And>e. rt_access_exp d = Fecha e \<Longrightarrow> access_exp a = Some e"
proof (cases "rt_access_exp d")
  case FechaMala
  then show thesis by (intro that) (auto simp: load_local_from_dict_def pon_fecha_def luego_def lanza_def)
next
  case SinFecha
  then show thesis
    by (cases "rt_refresh_exp d"; intro that) (auto simp: load_local_from_dict_def pon_fecha_def luego_def lanza_def)
next
  case (Fecha e)
  then show thesis
    by (cases "rt_refresh_exp d"; intro that) (auto simp: load_local_from_dict_def pon_fecha_def luego_def lanza_def)
qed

lemma luego_dado: "m w = (Inr x, w1) \<Longrightarrow> luego m f w = f x w1"
  by (simp add: luego_def)

subsection \<open>What an authentication step does to the world\<close>

text \<open>The transport is not part of the manager: the other coroutines cannot write the tokens while the local lock is held.\<close>

definition transporte :: "cfg_auth \<Rightarrow> bool" where
  "transporte c =
     (\<forall>q. respeta avanza_reloj (ca_http c q)
        \<and> (\<forall>w. w_auth (snd (ca_http c q w)) = w_auth w \<and> w_envios (snd (ca_http c q w)) = w_envios w
              \<and> w_cliente (snd (ca_http c q w)) = w_cliente w))"

definition de_auth :: "cfg_auth \<Rightarrow> salida_http \<Rightarrow> bool" where
  "de_auth c e = (en_url e = ca_base c @ ep_login \<or> en_url e = ca_base c @ ep_refresh)"

text \<open>The clock does not go back, and what is put on the wire are logins and refreshes.\<close>

definition progreso :: "cfg_auth \<Rightarrow> mundo \<Rightarrow> mundo \<Rightarrow> bool" where
  "progreso c w w' =
     (entorno avanza_reloj w \<longrightarrow> entorno avanza_reloj w' \<and> reloj (w_redis w) \<le> reloj (w_redis w')
        \<and> (\<exists>l. w_envios w' = w_envios w @ l \<and> (\<forall>e \<in> set l. de_auth c e)))"

definition avanza_auth :: "cfg_auth \<Rightarrow> 'a accion \<Rightarrow> bool" where
  "avanza_auth c m = (\<forall>w. progreso c w (snd (m w)))"

lemma progreso_refl: "progreso c w w"
  by (simp add: progreso_def)

lemma progreso_trans: "progreso c w w1 \<Longrightarrow> progreso c w1 w2 \<Longrightarrow> progreso c w w2"
  unfolding progreso_def by (clarsimp, fastforce)

lemma avanza_authD: "avanza_auth c m \<Longrightarrow> m w = (x, w') \<Longrightarrow> progreso c w w'"
  by (metis avanza_auth_def snd_conv)

lemma avanza_luego: "avanza_auth c m \<Longrightarrow> (\<And>x. avanza_auth c (f x)) \<Longrightarrow> avanza_auth c (luego m f)"
  unfolding avanza_auth_def luego_def
  by (auto split: prod.split sum.split) (metis progreso_trans snd_conv)+

lemma avanza_intenta: "avanza_auth c m \<Longrightarrow> (\<And>x. avanza_auth c (h x)) \<Longrightarrow> avanza_auth c (intenta m h)"
  unfolding avanza_auth_def intenta_def
  by (auto split: prod.split sum.split) (metis progreso_trans snd_conv)+

lemma avanza_finalmente: "avanza_auth c m \<Longrightarrow> avanza_auth c f \<Longrightarrow> avanza_auth c (finalmente m f)"
  unfolding avanza_auth_def finalmente_def
  by (auto split: prod.split sum.split) (metis progreso_trans snd_conv)+

lemma avanza_basicas:
  "avanza_auth c (devuelve x)" "avanza_auth c (lanza e)" "avanza_auth c ahora" "avanza_auth c hay_cliente"
  "avanza_auth c (duerme ms)" "avanza_auth c lee_tokens" "avanza_auth c (pon_tokens f)" "avanza_auth c token_actual"
  "avanza_auth c is_access_token_valid" "avanza_auth c is_refresh_token_valid" "avanza_auth c (o_lanza y)"
  by (auto simp: avanza_auth_def progreso_def devuelve_def lanza_def ahora_def hay_cliente_def duerme_def avanza_def entorno_def
      o_lanza_def split: sum.split)

lemma avanza_redis: "(\<And>r. reloj (snd (f r)) = reloj r) \<Longrightarrow> avanza_auth c (redis_cmd f)"
proof -
  assume f: "\<And>r. reloj (snd (f r)) = reloj r"
  have r: "respeta avanza_reloj (redis_cmd f)" by (rule greloj.redis_cmd) (simp add: avanza_reloj_def f)
  have "w_envios (snd (redis_cmd f w)) = w_envios w" for w
    by (simp add: redis_cmd_def Let_def split: list.split falla.split)
  with r show "avanza_auth c (redis_cmd f)" by (auto simp: avanza_auth_def progreso_def respeta_def avanza_reloj_def)
qed

lemmas avanzan = avanza_luego avanza_intenta avanza_finalmente avanza_basicas

lemma avanza_candado: "avanza_auth c m \<Longrightarrow> avanza_auth c (con_candado_local m)"
proof -
  assume m: "avanza_auth c m"
  have "progreso c w (w\<lparr>w_auth := a, w_relevos := fs\<rparr>)" for w a fs
    by (simp add: progreso_def entorno_def)
  with m show "avanza_auth c (con_candado_local m)"
    unfolding avanza_auth_def con_candado_local_def by (auto split: list.split) (metis progreso_trans)
qed

lemma avanza_registro:
  "avanza_auth c load_from_redis" "avanza_auth c save_to_redis" "avanza_auth c (invalidar_token_compartido t)"
  "avanza_auth c (acquire_distributed_lock c')" "avanza_auth c (release_distributed_lock c')"
  unfolding load_from_redis_def load_local_from_dict_def pon_fecha_def save_to_redis_def invalidar_token_compartido_def
    acquire_distributed_lock_def release_distributed_lock_def
  by (auto intro!: avanzan avanza_redis split: option.split crudo.split fecha_iso.split
      simp: guarda_registro_def invalidate_if_matches_lua_def como_cmd_def set_nx_lock_def release_lock_lua_def split: if_splits)

lemma envia_forma:
  assumes "transporte c"
  shows "\<exists>w1. envia c q w = (fst (ca_http c q w), w1) \<and> w_auth w1 = w_auth w \<and> w_redis w1 = w_redis (snd (ca_http c q w))
    \<and> w_turnos w1 = w_turnos (snd (ca_http c q w)) \<and> w_cliente w1 = w_cliente w
    \<and> w_envios w1 = w_envios w @ [\<lparr>en_url = so_url q, en_metodo = so_metodo q, en_portador = cabecera ''authorization'' q,
          en_firma = cabecera ''x-sfc-signature'' q, en_cuerpo = so_contenido q,
          en_respuesta = (case fst (ca_http c q w) of Inl _ \<Rightarrow> None | Inr r \<Rightarrow> Some r)\<rparr>]"
proof -
  obtain x w' where 1: "ca_http c q w = (x, w')" by (cases "ca_http c q w")
  have "w_auth w' = w_auth w" "w_envios w' = w_envios w" "w_cliente w' = w_cliente w"
    using assms 1 unfolding transporte_def by (metis snd_conv)+
  with 1 show ?thesis
    by (simp add: envia_def luego_def intenta_def devuelve_def lanza_def anota_envio_def split: sum.split)
qed

lemma envia_reloj: "transporte c \<Longrightarrow> envia c q w = (x, w') \<Longrightarrow> entorno avanza_reloj w \<Longrightarrow>
    entorno avanza_reloj w' \<and> reloj (w_redis w) \<le> reloj (w_redis w')"
  using envia_forma [of c q w] respetaD [of avanza_reloj "ca_http c q" w]
  by (auto simp: transporte_def avanza_reloj_def entorno_def)

lemma avanza_pide:
  assumes "transporte c" "ep \<in> {ep_login, ep_refresh}" shows "avanza_auth c (pide_tokens c ep d)"
proof -
  have "avanza_auth c (envia c q)" if "so_url q = ca_base c @ ep" for q
    unfolding avanza_auth_def progreso_def
  proof (intro allI impI)
    fix w assume "entorno avanza_reloj w"
    obtain x w' where 1: "envia c q w = (x, w')" by (cases "envia c q w")
    with envia_forma [OF assms(1), of q w] obtain e where "w_envios w' = w_envios w @ [e]" "en_url e = so_url q" by auto
    with that assms(2) have "\<exists>l. w_envios w' = w_envios w @ l \<and> (\<forall>e \<in> set l. de_auth c e)"
      by (auto simp: de_auth_def)
    with envia_reloj [OF assms(1) 1 \<open>entorno avanza_reloj w\<close>] 1
    show "entorno avanza_reloj (snd (envia c q w)) \<and> reloj (w_redis w) \<le> reloj (w_redis (snd (envia c q w)))
        \<and> (\<exists>l. w_envios (snd (envia c q w)) = w_envios w @ l \<and> (\<forall>e \<in> set l. de_auth c e))"
      by simp
  qed
  then show ?thesis unfolding pide_tokens_def by (auto intro!: avanzan)
qed

lemma avanza_tokens:
  assumes "transporte c"
  shows "avanza_auth c (login c)" "avanza_auth c (refresh_access_token c)" "avanza_auth c (renovar_token_directo_local c)"
    "avanza_auth c (con_el_lock c)"
proof -
  have g: "avanza_auth c (guarda_respuesta c f body)" "avanza_auth c (raise_for_status c st)" for f body st
    unfolding guarda_respuesta_def response_json_def save_tokens_local_def jwt_decode_def raise_for_status_def
    by (auto intro!: avanzan split: option.split json.split)
  show 1: "avanza_auth c (login c)" "avanza_auth c (refresh_access_token c)"
    unfolding login_def refresh_access_token_def by (auto intro!: avanzan g avanza_pide [OF assms])
  show "avanza_auth c (renovar_token_directo_local c)" "avanza_auth c (con_el_lock c)"
    unfolding renovar_token_directo_local_def con_el_lock_def
    by (auto intro!: avanzan 1 avanza_registro split: option.split)
qed

lemma avanza_espera:
  assumes "transporte c" "avanza_auth c z"
  shows "avanza_auth c (renovar_hasta z c dl n)"
  by (induction n) (auto intro!: avanzan avanza_registro avanza_tokens [OF assms(1)] assms(2))

lemma avanza_valido:
  assumes "transporte c"
  shows "avanza_auth c (get_valid_token_unlocked c)" "avanza_auth c (get_valid_token c)"
proof -
  show 1: "avanza_auth c (get_valid_token_unlocked c)"
    unfolding get_valid_token_unlocked_def renovar_token_coordinado_def
    by (auto intro!: avanzan avanza_registro avanza_tokens [OF assms] avanza_espera [OF assms])
  show "avanza_auth c (get_valid_token c)"
    unfolding get_valid_token_def by (auto intro!: avanzan avanza_candado 1)
qed

subsection \<open>Waiting ends\<close>

lemma renovar_hasta_paso:
  assumes e: "entorno avanza_reloj w"
    and r: "\<And>w3. reloj (w_redis w) < dl \<Longrightarrow> entorno avanza_reloj w3 \<Longrightarrow> reloj (w_redis w) + 250 \<le> reloj (w_redis w3) \<Longrightarrow>
              renovar_hasta z c dl n w3 = renovar_hasta z' c dl m w3"
  shows "renovar_hasta z c dl (Suc n) w = renovar_hasta z' c dl (Suc m) w"
proof (cases "w_cliente w")
  case False
  then show ?thesis by (simp add: luego_def hay_cliente_def)
next
  case True
  obtain x w1 where 1: "acquire_distributed_lock c w = (x, w1)" by (cases "acquire_distributed_lock c w")
  show ?thesis
  proof (cases "x = Inr False \<and> reloj (w_redis w1) < dl")
    case False
    with True 1 show ?thesis
      by (cases x) (auto simp: luego_def hay_cliente_def ahora_def)
  next
    case True2: True
    have p1: "entorno avanza_reloj w1" "reloj (w_redis w) \<le> reloj (w_redis w1)"
      using avanza_authD [OF avanza_registro(4) 1] e by (auto simp: progreso_def)
    let ?w2 = "w1\<lparr>w_redis := avanza lock_poll_interval (w_redis w1)\<rparr>"
    have p2: "entorno avanza_reloj ?w2" "reloj (w_redis w1) + 250 \<le> reloj (w_redis ?w2)"
      using p1(1) by (simp_all add: entorno_def avanza_def lock_poll_interval_def)
    obtain y w3 where 3: "load_from_redis ?w2 = (y, w3)" by (cases "load_from_redis ?w2")
    have p3: "entorno avanza_reloj w3" "reloj (w_redis ?w2) \<le> reloj (w_redis w3)"
      using avanza_authD [OF avanza_registro(1) 3] p2(1) by (auto simp: progreso_def)
    have "renovar_hasta z c dl n w3 = renovar_hasta z' c dl m w3"
      using r [of w3] True2 p1 p2 p3 by simp
    with True True2 1 3 show ?thesis
      by (cases y) (simp_all add: luego_def hay_cliente_def ahora_def duerme_def)
  qed
qed

lemma renovar_hasta_turnos:
  assumes "entorno avanza_reloj w" "dl - reloj (w_redis w) \<le> 250 * int n"
  shows "renovar_hasta z c dl (Suc n + k) w = renovar_hasta z' c dl (Suc n) w"
  using assms
proof (induction n arbitrary: w)
  case 0
  then show ?case using renovar_hasta_paso [OF 0(1), of dl z c k z' 0] by simp
next
  case (Suc n)
  have "renovar_hasta z c dl (Suc (Suc n + k)) w = renovar_hasta z' c dl (Suc (Suc n)) w"
    by (rule renovar_hasta_paso [OF Suc.prems(1)], rule Suc.IH) (use Suc.prems(2) in auto)
  then show ?case by simp
qed

text \<open>
  C37. A process that waits for another one to renew the token waits at most 41 turns of the loop: with that many turns, or more,
  the outcome does not depend on what would happen if they ran out, whatever the other processes do and whatever fails.
\<close>

theorem la_espera_termina:
  assumes "entorno avanza_reloj w" "vueltas_espera \<le> n"
  shows "renovar_hasta z c (reloj (w_redis w) + lock_wait_timeout) n w
       = renovar_hasta z' c (reloj (w_redis w) + lock_wait_timeout) vueltas_espera w"
  using renovar_hasta_turnos [OF assms(1), of "reloj (w_redis w) + lock_wait_timeout" 40 z c "n - 41" z'] assms(2)
  by (simp add: vueltas_espera_def lock_wait_timeout_def)

subsection \<open>The token that is served\<close>

text \<open>An answer of the login or of the refresh that brings the token, readable as a JWT.\<close>

definition trae :: "cfg_auth \<Rightarrow> json \<Rightarrow> salida_http \<Rightarrow> bool" where
  "trae c t e =
     (de_auth c e \<and> (\<exists>st body d. en_respuesta e = Some (st, body) \<and> 200 \<le> st \<and> st < 300 \<and> ca_cargar c body = Some (JObj d)
        \<and> t = uno_u_otro d ''access'' ''access_token'' \<and> ca_jwt c t \<noteq> None))"

definition envios_nuevos :: "mundo \<Rightarrow> mundo \<Rightarrow> salida_http list" where
  "envios_nuevos w w' = drop (length (w_envios w)) (w_envios w')"

definition servido :: "cfg_auth \<Rightarrow> mundo \<Rightarrow> json \<Rightarrow> mundo \<Rightarrow> bool" where
  "servido c w t w' =
     (t = access_token (w_auth w')
      \<and> ((\<exists>now. reloj (w_redis w) \<le> now \<and> now \<le> reloj (w_redis w') \<and> vigente t (access_exp (w_auth w')) now)
         \<or> (\<exists>e \<in> set (envios_nuevos w w'). trae c t e)))"

lemma servido_antes:
  assumes "entorno avanza_reloj w" "progreso c w w1" "servido c w1 t w'" "progreso c w1 w'"
  shows "servido c w t w'"
proof -
  obtain l l' where "w_envios w1 = w_envios w @ l" "w_envios w' = w_envios w1 @ l'"
    using assms(1,2,4) by (auto simp: progreso_def)
  then have "set (envios_nuevos w1 w') \<subseteq> set (envios_nuevos w w')" by (simp add: envios_nuevos_def)
  moreover have "reloj (w_redis w) \<le> reloj (w_redis w1)" using assms(1,2) by (simp add: progreso_def)
  ultimately show ?thesis using assms(3) unfolding servido_def by (meson order_trans subsetD)
qed

lemma servido_despues:
  assumes "entorno avanza_reloj w1" "servido c w t w1" "progreso c w1 w'" "w_auth w' = w_auth w1"
  shows "servido c w t w'"
proof -
  obtain l' where l: "w_envios w' = w_envios w1 @ l'" using assms(1,3) by (auto simp: progreso_def)
  then have "set (envios_nuevos w w1) \<subseteq> set (envios_nuevos w w')" by (auto simp: envios_nuevos_def)
  moreover have "reloj (w_redis w1) \<le> reloj (w_redis w')" using assms(1,3) by (simp add: progreso_def)
  ultimately show ?thesis using assms(2,4) unfolding servido_def by (metis order_trans subsetD)
qed

lemma servido_vigente:
  "vigente (access_token (w_auth w)) (access_exp (w_auth w)) (reloj (w_redis w)) \<Longrightarrow> servido c w (access_token (w_auth w)) w"
  by (auto simp: servido_def)

lemma sin_tocar_tokens:
  "w_auth (snd (redis_cmd g w)) = w_auth w" "w_auth (snd (save_to_redis w)) = w_auth w"
  "w_auth (snd (acquire_distributed_lock c w)) = w_auth w" "w_auth (snd (release_distributed_lock c w)) = w_auth w"
  "w_auth (snd (invalidar_token_compartido t w)) = w_auth w"
proof -
  have r: "w_auth (snd (redis_cmd g w)) = w_auth w" for g :: "'x guion" and w
    by (simp add: redis_cmd_def Let_def split: list.split falla.split)
  have i: "w_auth (snd (intenta (redis_cmd g) (\<lambda>e. devuelve y) w)) = w_auth w"
    "w_auth (snd (intenta (luego (redis_cmd g) (\<lambda>_. devuelve u)) (\<lambda>e. devuelve u) w)) = w_auth w" for g :: "'x guion" and y u w
    using r [of g w] by (auto simp: intenta_def luego_def devuelve_def split: prod.split sum.split)
  show "w_auth (snd (redis_cmd g w)) = w_auth w" by (rule r)
  show "w_auth (snd (save_to_redis w)) = w_auth w" "w_auth (snd (acquire_distributed_lock c w)) = w_auth w"
    "w_auth (snd (release_distributed_lock c w)) = w_auth w" "w_auth (snd (invalidar_token_compartido t w)) = w_auth w"
    unfolding save_to_redis_def acquire_distributed_lock_def release_distributed_lock_def invalidar_token_compartido_def
    by (simp_all add: luego_dado [of hay_cliente] hay_cliente_def luego_dado [of lee_tokens] i devuelve_def)
qed

lemma pide_InrE:
  assumes "transporte c" "pide_tokens c ep d w = (Inr (st, body), w1)"
  obtains e where "w_envios w1 = w_envios w @ [e]" "en_url e = ca_base c @ ep" "en_respuesta e = Some (st, body)" "w_auth w1 = w_auth w"
proof -
  define q where "q = \<lparr>so_metodo = ''POST'', so_url = ca_base c @ ep, so_ruta = ep,
      so_cabeceras = [(''content-type'', ''application/json''), (''accept'', ''application/json''),
        (''x-sfc-signature'', payload_sign (ca_hmac c) (ca_secreto c) (o_vacio (JObj d)))],
      so_contenido = dumps (JObj d), so_campos = None\<rparr>"
  have u: "so_url q = ca_base c @ ep" by (simp add: q_def)
  have e: "envia c q w = (Inr (st, body), w1)"
    using assms(2) by (simp add: pide_tokens_def o_lanza_def q_def)
  obtain w2 x where 2: "envia c q w = (fst (ca_http c q w), w2)" "w_auth w2 = w_auth w" "w_envios w2 = w_envios w @ [x]"
      "en_url x = so_url q" "en_respuesta x = (case fst (ca_http c q w) of Inl _ \<Rightarrow> None | Inr r \<Rightarrow> Some r)"
    using envia_forma [OF assms(1), of q w] by auto
  with e u have "w_envios w1 = w_envios w @ [x]" "en_url x = ca_base c @ ep" "en_respuesta x = Some (st, body)" "w_auth w1 = w_auth w"
    by auto
  then show thesis by (rule that)
qed

lemma save_tokens_InrE:
  assumes "save_tokens_local c a r w = (Inr (), w1)"
  shows "access_token (w_auth w1) = a \<and> ca_jwt c a \<noteq> None \<and> w_envios w1 = w_envios w"
  using assms
  by (auto simp: save_tokens_local_def luego_def jwt_decode_def o_lanza_def devuelve_def lanza_def
      split: option.splits prod.splits sum.splits)

lemma guarda_InrE:
  assumes "guarda_respuesta c f body w = (Inr (), w1)"
  shows "\<exists>d. ca_cargar c body = Some (JObj d) \<and> access_token (w_auth w1) = uno_u_otro d ''access'' ''access_token''
    \<and> ca_jwt c (access_token (w_auth w1)) \<noteq> None \<and> w_envios w1 = w_envios w"
proof -
  have "luego (response_json c body) (\<lambda>d. luego lee_tokens (\<lambda>a.
      save_tokens_local c (uno_u_otro d ''access'' ''access_token'') (f d a))) w = (Inr (), w1)"
    using assms by (auto simp: guarda_respuesta_def intenta_def lanza_def split: prod.splits sum.splits)
  then obtain d where d: "ca_cargar c body = Some (JObj d)"
      "save_tokens_local c (uno_u_otro d ''access'' ''access_token'') (f d (w_auth w)) w = (Inr (), w1)"
    by (auto simp: luego_def response_json_def devuelve_def lanza_def split: option.splits json.splits)
  from save_tokens_InrE [OF d(2)] d(1) show ?thesis by auto
qed

text \<open>The token in memory came in an answer of this call.\<close>

definition traido :: "cfg_auth \<Rightarrow> mundo \<Rightarrow> json \<Rightarrow> mundo \<Rightarrow> bool" where
  "traido c w t w' = (t = access_token (w_auth w') \<and> (\<exists>e \<in> set (envios_nuevos w w'). trae c t e))"

lemma traido_servido: "traido c w t w' \<Longrightarrow> servido c w t w'"
  by (auto simp: traido_def servido_def)

lemma envios_nuevos_antes: "entorno avanza_reloj w \<Longrightarrow> progreso c w w1 \<Longrightarrow> entorno avanza_reloj w1 \<Longrightarrow> progreso c w1 w' \<Longrightarrow> set (envios_nuevos w1 w') \<subseteq> set (envios_nuevos w w')"
  by (auto simp: progreso_def envios_nuevos_def)

lemma envios_nuevos_despues: "entorno avanza_reloj w \<Longrightarrow> progreso c w w1 \<Longrightarrow> entorno avanza_reloj w1 \<Longrightarrow> progreso c w1 w' \<Longrightarrow> set (envios_nuevos w w1) \<subseteq> set (envios_nuevos w w')"
  by (auto simp: progreso_def envios_nuevos_def)

lemma renovado:
  assumes "transporte c" "login c w = (Inr (), w1) \<or> refresh_access_token c w = (Inr (), w1)"
  shows "traido c w (access_token (w_auth w1)) w1"
proof -
  obtain ep d f st body w2 where 1: "pide_tokens c ep d w = (Inr (st, body), w2)" "ep \<in> {ep_login, ep_refresh}"
      "200 \<le> st \<and> st < 300" "guarda_respuesta c f body w2 = (Inr (), w1)"
    using assms(2)
  proof
    assume "login c w = (Inr (), w1)"
    then show thesis
      by (auto simp: login_def raise_for_status_def lanza_def devuelve_def elim!: luego_InrE split: if_splits intro: that)
  next
    assume "refresh_access_token c w = (Inr (), w1)"
    then show thesis
      by (auto simp: refresh_access_token_def raise_for_status_def lanza_def devuelve_def elim!: luego_InrE split: if_splits intro: that)
  qed
  from pide_InrE [OF assms(1) 1(1)] obtain e where e: "w_envios w2 = w_envios w @ [e]" "en_url e = ca_base c @ ep"
      "en_respuesta e = Some (st, body)" by blast
  from guarda_InrE [OF 1(4)] obtain d' where "ca_cargar c body = Some (JObj d')" "w_envios w1 = w_envios w2"
      "access_token (w_auth w1) = uno_u_otro d' ''access'' ''access_token''" "ca_jwt c (access_token (w_auth w1)) \<noteq> None" by blast
  with e 1(2,3) show ?thesis by (auto simp: traido_def envios_nuevos_def trae_def de_auth_def)
qed

definition sirve :: "cfg_auth \<Rightarrow> json accion \<Rightarrow> bool" where
  "sirve c m = (\<forall>w t w'. entorno avanza_reloj w \<longrightarrow> m w = (Inr t, w') \<longrightarrow> servido c w t w')"

lemma sirve_luego:
  assumes "avanza_auth c m" "\<And>x. sirve c (f x)" "\<And>x. avanza_auth c (f x)" shows "sirve c (luego m f)"
  unfolding sirve_def
proof (intro allI impI)
  fix w t w' assume e: "entorno avanza_reloj w" and l: "luego m f w = (Inr t, w')"
  from l obtain x w1 where 1: "m w = (Inr x, w1)" "f x w1 = (Inr t, w')" by (rule luego_InrE)
  have p: "progreso c w w1" using avanza_authD [OF assms(1) 1(1)] .
  then have "entorno avanza_reloj w1" using e by (simp add: progreso_def)
  then have "servido c w1 t w'" using assms(2) 1(2) by (simp add: sirve_def)
  from servido_antes [OF e p this avanza_authD [OF assms(3) 1(2)]] show "servido c w t w'" .
qed

lemma sirve_si_vale:
  assumes "sirve c m" shows "sirve c (luego is_access_token_valid (\<lambda>v. if v then token_actual else m))"
  using assms by (auto simp: sirve_def luego_def servido_vigente split: if_splits)

lemma traido_token:
  assumes "transporte c" "avanza_auth c f" "\<And>w. w_auth (snd (f w)) = w_auth w" "m = login c \<or> m = refresh_access_token c"
    "luego m (\<lambda>_. luego f (\<lambda>_. token_actual)) w = (Inr t, w')" "entorno avanza_reloj w"
  shows "traido c w t w'"
proof -
  from assms(5) obtain u w1 where 0: "m w = (Inr u, w1)" "luego f (\<lambda>_. token_actual) w1 = (Inr t, w')" by (rule luego_InrE)
  then have 1: "m w = (Inr (), w1)" "luego f (\<lambda>_. token_actual) w1 = (Inr t, w')" by simp_all
  from 1(2) obtain w2 x where 2: "f w1 = (Inr x, w2)" "w' = w2" "t = access_token (w_auth w2)" by (auto elim!: luego_InrE)
  have s: "traido c w (access_token (w_auth w1)) w1" using renovado [OF assms(1)] 1(1) assms(4) by blast
  have "avanza_auth c m" using assms(1,4) avanza_tokens by auto
  from avanza_authD [OF this 1(1)] assms(6) have p: "progreso c w w1" "entorno avanza_reloj w1" by (simp_all add: progreso_def)
  have "w_auth w2 = w_auth w1" using assms(3) [of w1] 2(1) by simp
  with envios_nuevos_despues [OF assms(6) p avanza_authD [OF assms(2) 2(1)]] s 2(2,3) show ?thesis by (auto simp: traido_def)
qed

text \<open>The attempt to refresh and then to log in: what it returns was brought by an answer.\<close>

definition trae_siempre :: "cfg_auth \<Rightarrow> json accion \<Rightarrow> bool" where
  "trae_siempre c m = (\<forall>w t w'. entorno avanza_reloj w \<longrightarrow> m w = (Inr t, w') \<longrightarrow> traido c w t w')"

lemma trae_renovacion:
  assumes "transporte c" "avanza_auth c f" "\<And>w. w_auth (snd (f w)) = w_auth w"
  shows "trae_siempre c (luego (if ok then intenta (luego (refresh_access_token c) (\<lambda>_. luego f (\<lambda>_. luego token_actual (\<lambda>t. devuelve (Some t)))))
            (\<lambda>e. devuelve None) else devuelve None)
          (\<lambda>x. case x of Some t \<Rightarrow> devuelve t | None \<Rightarrow> luego (login c) (\<lambda>_. luego f (\<lambda>_. token_actual))))"
  (is "trae_siempre c (luego ?m ?g)")
  unfolding trae_siempre_def
proof (intro allI impI)
  fix w t w' assume e: "entorno avanza_reloj w" and l: "luego ?m ?g w = (Inr t, w')"
  from l obtain x w1 where 1: "?m w = (Inr x, w1)" "?g x w1 = (Inr t, w')" by (rule luego_InrE)
  show "traido c w t w'"
  proof (cases x)
    case (Some t')
    then have "luego (refresh_access_token c) (\<lambda>_. luego f (\<lambda>_. token_actual)) w = (Inr t', w1)" "t' = t" "w' = w1"
      using 1 by (auto simp: intenta_def luego_def devuelve_def split: if_splits prod.splits sum.splits)
    then show ?thesis using traido_token [OF assms, of "refresh_access_token c" w t w'] e by simp
  next
    case None
    have p: "avanza_auth c ?m" "avanza_auth c (luego (login c) (\<lambda>_. luego f (\<lambda>_. token_actual)))"
      by (auto intro!: avanzan avanza_tokens [OF assms(1)] assms(2))
    from avanza_authD [OF p(1) 1(1)] have w1: "progreso c w w1" .
    then have e1: "entorno avanza_reloj w1" using e by (simp add: progreso_def)
    have g: "luego (login c) (\<lambda>_. luego f (\<lambda>_. token_actual)) w1 = (Inr t, w')" using None 1(2) by simp
    from traido_token [OF assms _ g e1] envios_nuevos_antes [OF e w1 e1 avanza_authD [OF p(2) g]]
    show ?thesis by (auto simp: traido_def)
  qed
qed

lemma trae_sirve: "trae_siempre c m \<Longrightarrow> sirve c m"
  using traido_servido by (auto simp: trae_siempre_def sirve_def)

lemma trae_directo:
  assumes "transporte c" shows "trae_siempre c (renovar_token_directo_local c)"
proof -
  have n: "luego (devuelve ()) f = f ()" for f :: "unit \<Rightarrow> 'x accion" by simp
  have r: "trae_siempre c (luego is_refresh_token_valid g)" if "\<And>x. trae_siempre c (g x)" for g
    using that by (auto simp: trae_siempre_def luego_def)
  show ?thesis
    using trae_renovacion [OF assms avanza_basicas(1), of "()"]
    unfolding renovar_token_directo_local_def n by (intro r) (auto simp: devuelve_def)
qed

lemma sirve_tokens:
  assumes "transporte c"
  shows "sirve c (renovar_token_directo_local c)" "sirve c (con_el_lock c)"
proof -
  show "sirve c (renovar_token_directo_local c)" by (rule trae_sirve [OF trae_directo [OF assms]])
  show "sirve c (con_el_lock c)"
    unfolding con_el_lock_def
    by (rule sirve_luego [OF avanza_registro(1)], rule sirve_si_vale, rule sirve_luego [OF avanza_basicas(10)],
        rule trae_sirve, rule trae_renovacion [OF assms avanza_registro(2)])
      (auto simp: sin_tocar_tokens intro!: avanzan avanza_tokens [OF assms] avanza_registro split: option.split)
qed

lemma sirve_final:
  assumes "sirve c m" "avanza_auth c m" shows "sirve c (finalmente m (release_distributed_lock c'))"
  unfolding sirve_def
proof (intro allI impI)
  fix w t w' assume e: "entorno avanza_reloj w" and l: "finalmente m (release_distributed_lock c') w = (Inr t, w')"
  obtain w1 where 1: "m w = (Inr t, w1)" "w' = snd (release_distributed_lock c' w1)"
    using l by (auto simp: finalmente_def split: prod.splits sum.splits)
  have "entorno avanza_reloj w1" using avanza_authD [OF assms(2) 1(1)] e by (simp add: progreso_def)
  moreover have "progreso c w1 w'" using avanza_registro(5) [of c c'] 1(2) by (simp add: avanza_auth_def)
  moreover have "servido c w t w1" using assms(1) e 1(1) by (simp add: sirve_def)
  ultimately show "servido c w t w'" using servido_despues 1(2) by (simp add: sin_tocar_tokens)
qed

lemma sirve_espera:
  assumes "transporte c" "sirve c z" "avanza_auth c z"
  shows "sirve c (renovar_hasta z c dl n)"
proof (induction n)
  case (Suc n)
  then show ?case
    by (auto intro!: sirve_luego sirve_si_vale sirve_final sirve_tokens [OF assms(1)] avanzan avanza_registro avanza_tokens [OF assms(1)]
        avanza_espera [OF assms(1,3)])
qed (use assms in simp)

lemma sirve_valido:
  assumes "transporte c"
  shows "sirve c (get_valid_token_unlocked c)" "sirve c (get_valid_token c)"
proof -
  have z: "sirve c (lanza e)" for e by (simp add: sirve_def lanza_def)
  show 1: "sirve c (get_valid_token_unlocked c)"
    unfolding get_valid_token_unlocked_def renovar_token_coordinado_def
    by (auto intro!: sirve_luego sirve_si_vale sirve_tokens [OF assms] sirve_espera [OF assms] z avanzan avanza_registro
        avanza_tokens [OF assms] avanza_espera [OF assms])
  have "sirve c (con_candado_local (get_valid_token_unlocked c))"
    unfolding sirve_def
  proof (intro allI impI)
    fix w t w' assume e: "entorno avanza_reloj w" and l: "con_candado_local (get_valid_token_unlocked c) w = (Inr t, w')"
    then obtain a rs where g: "get_valid_token_unlocked c (w\<lparr>w_auth := a, w_relevos := rs\<rparr>) = (Inr t, w')"
      by (cases "w_relevos w") (auto simp: con_candado_local_def, metis (no_types) mundo.surjective mundo.update_convs)
    have "entorno avanza_reloj (w\<lparr>w_auth := a, w_relevos := rs\<rparr>)" using e by (simp add: entorno_def)
    with 1 g have "servido c (w\<lparr>w_auth := a, w_relevos := rs\<rparr>) t w'" by (simp add: sirve_def)
    then show "servido c w t w'" by (auto simp: servido_def envios_nuevos_def)
  qed
  then show "sirve c (get_valid_token c)" unfolding get_valid_token_def by (rule sirve_si_vale)
qed

subsection \<open>The expiry of the token that is served\<close>

text \<open>
  The expiry in memory is the one that the token itself says, in memory and in the shared record. A failed renewal may leave an
  unreadable token in memory with the expiry of the previous one, so this can fail between an exception and the next renewal.
\<close>

definition expira :: "cfg_auth \<Rightarrow> json \<Rightarrow> int \<Rightarrow> bool" where
  "expira c t e = (\<exists>d. ca_jwt c t = Some d \<and> exp_de c d = Inr e)"

definition fiel :: "cfg_auth \<Rightarrow> tokens \<Rightarrow> bool" where
  "fiel c a = (verdadero (access_token a) \<longrightarrow> (\<exists>e. access_exp a = Some e \<and> expira c (access_token a) e))"

definition registro_fiel :: "cfg_auth \<Rightarrow> redis \<Rightarrow> bool" where
  "registro_fiel c r =
     (\<forall>d v. r_token r redis_token_key = Some (Valido d, v) \<longrightarrow> verdadero (rt_access d) \<longrightarrow>
        (\<exists>e. rt_access_exp d = Fecha e \<and> expira c (rt_access d) e))"

definition guarda_fidelidad :: "cfg_auth \<Rightarrow> redis \<Rightarrow> redis \<Rightarrow> bool" where
  "guarda_fidelidad c r s = (registro_fiel c r \<longrightarrow> registro_fiel c s)"

lemma registro_fiel_reloj: "registro_fiel c (r\<lparr>reloj := n\<rparr>) = registro_fiel c r"
  by (simp add: registro_fiel_def)

interpretation gfiel: garantia "guarda_fidelidad c" for c
  by unfold_locales (simp_all add: guarda_fidelidad_def registro_fiel_reloj)

text \<open>The other processes and coroutines keep this, and the HTTP library does not write the tokens.\<close>

definition transporte_fiel :: "cfg_auth \<Rightarrow> bool" where
  "transporte_fiel c =
     (\<forall>q. respeta (guarda_fidelidad c) (ca_http c q) \<and> (\<forall>w. w_relevos (snd (ca_http c q w)) = w_relevos w))"

definition sano :: "cfg_auth \<Rightarrow> mundo \<Rightarrow> bool" where
  "sano c w = (entorno (guarda_fidelidad c) w \<and> registro_fiel c (w_redis w)
     \<and> (\<forall>f \<in> set (w_relevos w). \<forall>a. fiel c a \<longrightarrow> fiel c (f a)))"

definition fiable :: "cfg_auth \<Rightarrow> mundo \<Rightarrow> bool" where
  "fiable c w = (sano c w \<and> fiel c (w_auth w))"

text \<open>A triple: from \<open>P\<close>, a result ends in \<open>Q\<close> and an exception in \<open>E\<close>.\<close>

definition acaba :: "('a \<Rightarrow> mundo \<Rightarrow> bool) \<Rightarrow> (mundo \<Rightarrow> bool) \<Rightarrow> 'a resultado \<Rightarrow> mundo \<Rightarrow> bool" where
  "acaba Q E x w = (case x of Inr y \<Rightarrow> Q y w | Inl e \<Rightarrow> E w)"

lemma acaba_simps [simp]: "acaba Q E (Inr y) = Q y" "acaba Q E (Inl e) = E"
  by (simp_all add: acaba_def fun_eq_iff)

definition terna :: "(mundo \<Rightarrow> bool) \<Rightarrow> 'a accion \<Rightarrow> ('a \<Rightarrow> mundo \<Rightarrow> bool) \<Rightarrow> (mundo \<Rightarrow> bool) \<Rightarrow> bool" where
  "terna P m Q E = (\<forall>w. P w \<longrightarrow> wp m (acaba Q E) w)"

lemma ternaI: "(\<And>w. P w \<Longrightarrow> wp m (acaba Q E) w) \<Longrightarrow> terna P m Q E"
  by (simp add: terna_def)

lemma ternaD: "terna P m Q E \<Longrightarrow> P w \<Longrightarrow> wp m (acaba Q E) w"
  by (simp add: terna_def)

lemma terna_luego: "terna P m R E \<Longrightarrow> (\<And>x. terna (R x) (f x) Q E) \<Longrightarrow> terna P (luego m f) Q E"
  by (rule ternaI, unfold wp_luego, rule wp_mas, erule (1) ternaD) (auto simp: terna_def split: sum.split)

lemma terna_intenta: "terna P m Q E \<Longrightarrow> (\<And>e. terna E (h e) Q E') \<Longrightarrow> terna P (intenta m h) Q E'"
  by (rule ternaI, unfold wp_intenta, rule wp_mas, erule (1) ternaD) (auto simp: terna_def split: sum.split)

lemma terna_debil:
  "terna P m Q E \<Longrightarrow> (\<And>w. P' w \<Longrightarrow> P w) \<Longrightarrow> (\<And>x w. Q x w \<Longrightarrow> Q' x w) \<Longrightarrow> (\<And>w. E w \<Longrightarrow> E' w) \<Longrightarrow> terna P' m Q' E'"
  by (rule ternaI, rule wp_mas, erule ternaD) (auto simp: acaba_def split: sum.splits)

lemma terna_devuelve: "(\<And>w. P w \<Longrightarrow> Q x w) \<Longrightarrow> terna P (devuelve x) Q E"
  by (simp add: terna_def)

lemma terna_lanza: "(\<And>w. P w \<Longrightarrow> E w) \<Longrightarrow> terna P (lanza e) Q E"
  by (simp add: terna_def)

lemma terna_lecturas:
  "terna P ahora (\<lambda>_. P) E" "terna P hay_cliente (\<lambda>_. P) E" "terna P lee_tokens (\<lambda>a w. P w \<and> a = w_auth w) E" "terna P token_actual (\<lambda>_. P) E"
  "terna P is_access_token_valid (\<lambda>_. P) E" "terna P is_refresh_token_valid (\<lambda>_. P) E"
  by (auto simp: terna_def wp_def ahora_def hay_cliente_def)

lemma terna_final:
  assumes "terna P m Q E" "\<And>x. terna (Q x) f (\<lambda>_. Q x) E" "terna E f (\<lambda>_. E) E" shows "terna P (finalmente m f) Q E"
proof (rule ternaI, unfold wp_finalmente, rule wp_mas, rule ternaD [OF assms(1)])
  fix w x w' assume "acaba Q E x w'"
  then have "wp f (acaba (\<lambda>_. acaba Q E x) E) w'" using assms(2,3) by (cases x) (auto intro: ternaD)
  then show "wp f (\<lambda>y w''. case y of Inl e \<Rightarrow> acaba Q E (Inl e) w'' | Inr _ \<Rightarrow> acaba Q E x w'') w'"
    by (rule wp_mas) (auto simp: acaba_def split: sum.splits)
qed

lemma sano_memoria [simp]: "sano c (w\<lparr>w_auth := a\<rparr>) = sano c w" "fiable c (w\<lparr>w_auth := a\<rparr>) = (sano c w \<and> fiel c a)"
  by (simp_all add: sano_def fiable_def entorno_def)

lemma sano_redis: "sano c w \<Longrightarrow> guarda_fidelidad c (w_redis w) r \<Longrightarrow> set ts \<subseteq> set (w_turnos w) \<Longrightarrow> sano c (w\<lparr>w_redis := r, w_turnos := ts\<rparr>)"
  by (auto simp: sano_def guarda_fidelidad_def entorno_def)

lemma terna_cmd:
  assumes "\<And>r. guarda_fidelidad c r (snd (g r))" "\<And>r x. registro_fiel c r \<Longrightarrow> fst (g r) = Inr x \<Longrightarrow> V x"
  shows "terna (\<lambda>w. sano c w \<and> F (w_auth w)) (redis_cmd g) (\<lambda>x w. sano c w \<and> F (w_auth w) \<and> V x) (\<lambda>w. sano c w \<and> F (w_auth w))"
proof (rule ternaI)
  fix w assume w: "sano c w \<and> F (w_auth w)"
  have s: "sano c (w\<lparr>w_redis := r, w_turnos := ts\<rparr>)" "sano c (w\<lparr>w_redis := snd (g r), w_turnos := ts\<rparr>)" "registro_fiel c r"
    if "guarda_fidelidad c (w_redis w) r" "set ts \<subseteq> set (w_turnos w)" for r ts
    using that w sano_redis gfiel.trans [OF that(1) assms(1)] by (auto simp: sano_def guarda_fidelidad_def)
  show "wp (redis_cmd g) (acaba (\<lambda>x w. sano c w \<and> F (w_auth w) \<and> V x) (\<lambda>w. sano c w \<and> F (w_auth w))) w"
    by (rule wp_redis_cmd [where R = "guarda_fidelidad c"])
      (use w assms(2) in \<open>auto simp: sano_def [of c w] acaba_def intro: s gfiel.nada split: sum.split\<close>)
qed

lemma terna_cmd_fiable:
  assumes "\<And>r. guarda_fidelidad c r (snd (g r))"
  shows "terna (fiable c) (redis_cmd g) (\<lambda>_. fiable c) (fiable c)" "terna (sano c) (redis_cmd g) (\<lambda>_. sano c) (sano c)"
  using terna_cmd [of c g "\<lambda>_. True" "fiel c"] terna_cmd [of c g "\<lambda>_. True" "\<lambda>_. True"] assms
  by (auto simp: fiable_def [abs_def])

lemma fidelidad_cerrojos:
  "guarda_fidelidad c r (snd (como_cmd (set_nx_lock l k d) r))" "guarda_fidelidad c r (snd (como_cmd (release_lock_lua k d) r))"
  by (auto simp: guarda_fidelidad_def registro_fiel_def como_cmd_def set_nx_lock_def release_lock_lua_def)

lemma fidelidad_registro: "fiel c a \<Longrightarrow> guarda_fidelidad c r (snd (guarda_registro a r))"
  by (auto simp: guarda_fidelidad_def registro_fiel_def guarda_registro_def tset_def fiel_def registro_de_def isoformat_def)

lemmas ternas = terna_luego terna_intenta terna_devuelve terna_lanza terna_lecturas

lemma terna_registro:
  "terna (fiable c) load_from_redis (\<lambda>_. fiable c) E" "terna (fiable c) save_to_redis (\<lambda>_. fiable c) E"
  "terna (fiable c) (acquire_distributed_lock c') (\<lambda>_. fiable c) E"
  "terna (fiable c) (release_distributed_lock c') (\<lambda>_. fiable c) E" "terna (sano c) (release_distributed_lock c') (\<lambda>_. sano c) E"
proof -
  let ?lee = "\<lambda>r. (Inr (tget (reloj r) (r_token r) redis_token_key), r)"
  let ?V = "\<lambda>raw :: registro_tokens crudo option. \<forall>d. raw = Some (Valido d) \<longrightarrow> verdadero (rt_access d) \<longrightarrow>
      (\<exists>e. rt_access_exp d = Fecha e \<and> expira c (rt_access d) e)"
  have l: "terna (fiable c) (redis_cmd ?lee) (\<lambda>raw w. fiable c w \<and> ?V raw) (fiable c)"
    by (rule terna_debil [OF terna_cmd [where F = "fiel c" and V = ?V]])
      (auto simp: fiable_def guarda_fidelidad_def registro_fiel_def tget_def split: option.splits if_splits)
  have carga: "terna (\<lambda>w. fiable c w \<and> (verdadero (rt_access d) \<longrightarrow> (\<exists>e. rt_access_exp d = Fecha e \<and> expira c (rt_access d) e))) (load_local_from_dict d) (\<lambda>_. fiable c) (fiable c)" for d
  proof (rule ternaI)
    fix w assume w: "fiable c w \<and> (verdadero (rt_access d) \<longrightarrow> (\<exists>e. rt_access_exp d = Fecha e \<and> expira c (rt_access d) e))"
    obtain x a where a: "load_local_from_dict d w = (x, w\<lparr>w_auth := a\<rparr>)" "access_token a = rt_access d"
        "\<And>e. rt_access_exp d = Fecha e \<Longrightarrow> access_exp a = Some e" by (rule carga_local [of d w]) blast
    with w have "fiable c (w\<lparr>w_auth := a\<rparr>)" by (auto simp: fiable_def fiel_def)
    then show "wp (load_local_from_dict d) (acaba (\<lambda>_. fiable c) (fiable c)) w" using a(1) by (cases x) (auto simp: wp_def)
  qed
  have s: "terna (\<lambda>w. fiable c w \<and> a = w_auth w) (redis_cmd (guarda_registro a)) (\<lambda>_. fiable c) (fiable c)" for a
  proof (cases "fiel c a")
    case True
    show ?thesis by (rule terna_debil [OF terna_cmd_fiable(1) [OF fidelidad_registro [OF True]]]) auto
  qed (auto simp: terna_def fiable_def)
  show "terna (fiable c) load_from_redis (\<lambda>_. fiable c) E"
    unfolding load_from_redis_def
  proof (rule terna_luego [OF terna_lecturas(2)])
    have "terna (\<lambda>w. fiable c w \<and> ?V raw) (case raw of None \<Rightarrow> devuelve False | Some Corrupto \<Rightarrow> devuelve False
        | Some (Valido d) \<Rightarrow> luego (load_local_from_dict d) (\<lambda>_. devuelve True)) (\<lambda>_. fiable c) (fiable c)" for raw
      by (cases raw rule: option.exhaust; simp split: crudo.split)
        (auto intro!: terna_devuelve terna_luego [OF carga])
    then show "terna (fiable c) (if \<not> hay then devuelve False
       else intenta
         (luego (redis_cmd ?lee) (\<lambda>raw. case raw of None \<Rightarrow> devuelve False | Some Corrupto \<Rightarrow> devuelve False
            | Some (Valido d) \<Rightarrow> luego (load_local_from_dict d) (\<lambda>_. devuelve True)))
         (\<lambda>e. devuelve False)) (\<lambda>_. fiable c) E" for hay
      by (auto intro!: terna_devuelve terna_intenta [OF terna_luego [OF l]])
  qed
  show "terna (fiable c) save_to_redis (\<lambda>_. fiable c) E"
    unfolding save_to_redis_def by (auto intro!: ternas terna_intenta [OF s])
  show "terna (fiable c) (acquire_distributed_lock c') (\<lambda>_. fiable c) E"
    unfolding acquire_distributed_lock_def by (auto intro!: ternas terna_intenta [OF terna_cmd_fiable(1) [OF fidelidad_cerrojos(1)]])
  show "terna (fiable c) (release_distributed_lock c') (\<lambda>_. fiable c) E"
    "terna (sano c) (release_distributed_lock c') (\<lambda>_. sano c) E"
    unfolding release_distributed_lock_def
    by (auto intro!: terna_luego [OF terna_lecturas(2)] terna_devuelve terna_intenta [OF terna_luego [OF terna_cmd_fiable(1) [OF fidelidad_cerrojos(2)]]]
        terna_intenta [OF terna_luego [OF terna_cmd_fiable(2) [OF fidelidad_cerrojos(2)]]])
qed

lemma terna_envia:
  assumes "transporte c" "transporte_fiel c" shows "terna (sano c) (pide_tokens c ep d) (\<lambda>_. sano c) (sano c)"
proof -
  have "terna (sano c) (envia c q) (\<lambda>_. sano c) (sano c)" for q
  proof (rule ternaI)
    fix w assume s: "sano c w"
    let ?w = "snd (ca_http c q w)"
    have "guarda_fidelidad c (w_redis w) (w_redis ?w)" "entorno (guarda_fidelidad c) ?w" "w_relevos ?w = w_relevos w"
      using assms(2) s unfolding transporte_fiel_def respeta_def sano_def by blast+
    then have "sano c ?w" using s by (auto simp: sano_def guarda_fidelidad_def)
    then have "sano c (snd (envia c q w))"
      by (auto simp: envia_def luego_def intenta_def devuelve_def lanza_def anota_envio_def sano_def entorno_def split: prod.splits sum.splits)
    then show "wp (envia c q) (acaba (\<lambda>_. sano c) (sano c)) w" by (simp add: wp_def acaba_def split: sum.split)
  qed
  then show ?thesis by (auto simp: pide_tokens_def o_lanza_def intro!: ternas split: sum.split)
qed

lemma terna_guarda: "terna (sano c) (guarda_respuesta c f body) (\<lambda>_. fiable c) (sano c)"
proof -
  have s: "terna (sano c) (save_tokens_local c a r) (\<lambda>_. fiable c) (sano c)" for a r
    by (rule ternaI)
      (auto simp: save_tokens_local_def jwt_decode_def o_lanza_def fiel_def expira_def simp del: ejecucion split: option.split sum.split)
  have "terna (sano c) (luego (response_json c body) (\<lambda>d. luego lee_tokens (\<lambda>a.
          save_tokens_local c (uno_u_otro d ''access'' ''access_token'') (f d a)))) (\<lambda>_. fiable c) (sano c)"
    by (rule terna_luego [where R = "\<lambda>_. sano c"])
      (auto simp: response_json_def intro!: ternas terna_debil [OF s] split: option.split json.split)
  then show ?thesis unfolding guarda_respuesta_def by (rule terna_intenta) (auto intro!: terna_lanza)
qed

lemma terna_renueva:
  assumes "transporte c" "transporte_fiel c"
  shows "terna (sano c) (login c) (\<lambda>_. fiable c) (sano c)" "terna (sano c) (refresh_access_token c) (\<lambda>_. fiable c) (sano c)"
proof -
  have r: "terna (sano c) (raise_for_status c st) (\<lambda>_. sano c) (sano c)" for st
    by (auto simp: raise_for_status_def intro!: ternas)
  show "terna (sano c) (login c) (\<lambda>_. fiable c) (sano c)"
    unfolding login_def by (auto intro!: terna_luego [OF terna_envia [OF assms]] terna_luego [OF r] terna_guarda)
  show "terna (sano c) (refresh_access_token c) (\<lambda>_. fiable c) (sano c)"
    unfolding refresh_access_token_def
    by (rule terna_luego [where R = "\<lambda>_. sano c"], rule terna_debil [OF terna_lecturas(3) [where P = "sano c" and E = "sano c"]])
      (auto intro!: terna_luego [OF terna_envia [OF assms]] terna_luego [OF r] terna_guarda terna_lanza)
qed

lemma terna_si_vale:
  "terna P m (\<lambda>_. P) E \<Longrightarrow> terna P (luego is_access_token_valid (\<lambda>v. if v then token_actual else m)) (\<lambda>_. P) E"
  by (rule terna_luego [OF terna_lecturas(5)]) (auto intro: terna_lecturas)

text \<open>The attempt to refresh and then to log in ends with the tokens of one answer, in a trustworthy world.\<close>

lemma terna_renovacion:
  assumes "transporte c" "transporte_fiel c" "terna (fiable c) f (\<lambda>_. fiable c) (sano c)"
  shows "terna (sano c) (luego (if ok then intenta (luego (refresh_access_token c) (\<lambda>_. luego f (\<lambda>_. luego token_actual (\<lambda>t. devuelve (Some t)))))
            (\<lambda>e. devuelve None) else devuelve None)
          (\<lambda>x. case x of Some t \<Rightarrow> devuelve t | None \<Rightarrow> luego (login c) (\<lambda>_. luego f (\<lambda>_. token_actual)))) (\<lambda>_. fiable c) (sano c)"
proof (rule terna_luego)
  let ?R = "\<lambda>x :: json option. case x of Some t \<Rightarrow> fiable c | None \<Rightarrow> sano c"
  show "terna (sano c) (if ok then intenta (luego (refresh_access_token c) (\<lambda>_. luego f (\<lambda>_. luego token_actual (\<lambda>t. devuelve (Some t)))))
      (\<lambda>e. devuelve None) else devuelve None) ?R (sano c)"
    by (auto intro!: terna_devuelve terna_intenta [OF terna_luego [OF terna_renueva(2) [OF assms(1,2)]]] terna_luego [OF assms(3)]
        terna_luego [OF terna_lecturas(4)])
  show "terna (?R x) (case x of Some t \<Rightarrow> devuelve t | None \<Rightarrow> luego (login c) (\<lambda>_. luego f (\<lambda>_. token_actual))) (\<lambda>_. fiable c) (sano c)" for x
    by (cases x) (auto intro!: terna_devuelve terna_luego [OF terna_renueva(1) [OF assms(1,2)]] terna_luego [OF assms(3)] terna_lecturas(4))
qed

lemma fiable_sano: "fiable c w \<Longrightarrow> sano c w"
  by (simp add: fiable_def)

lemma terna_obtiene:
  assumes "transporte c" "transporte_fiel c"
  shows "terna (fiable c) (get_valid_token_unlocked c) (\<lambda>_. fiable c) (sano c)" "terna (fiable c) (get_valid_token c) (\<lambda>_. fiable c) (sano c)"
proof -
  have n: "luego (devuelve ()) f = f ()" for f :: "unit \<Rightarrow> 'x accion" by simp
  have v: "terna (fiable c) (devuelve ()) (\<lambda>_. fiable c) (sano c)" by (rule terna_devuelve)
  have d: "terna (fiable c) (renovar_token_directo_local c) (\<lambda>_. fiable c) (sano c)"
    using terna_renovacion [OF assms v]
    unfolding renovar_token_directo_local_def n
    by (intro terna_luego [OF terna_lecturas(6)] terna_debil [where P = "sano c" and P' = "fiable c"]) (auto intro: fiable_sano)
  have l: "terna (fiable c) (con_el_lock c) (\<lambda>_. fiable c) (sano c)"
    unfolding con_el_lock_def
    by (intro terna_luego [OF terna_registro(1)] terna_si_vale terna_luego [OF terna_lecturas(6)]
        terna_debil [OF terna_renovacion [OF assms terna_registro(2)]]) (auto intro: fiable_sano)
  have e: "terna (fiable c) (renovar_hasta (lanza ex) c dl n) (\<lambda>_. fiable c) (sano c)" for ex dl n
  proof (induction n)
    case 0
    show ?case by (auto intro!: terna_lanza fiable_sano)
  next
    case (Suc n)
    have du: "terna (fiable c) (duerme ms) (\<lambda>_. fiable c) (sano c)" for ms
      by (rule ternaI) (auto simp: fiable_def sano_def entorno_def avanza_def registro_fiel_reloj)
    show ?case
      by (auto intro!: terna_luego [OF terna_lecturas(2)] d terna_luego [OF terna_registro(3)] terna_final [OF l terna_registro(4,5)]
          terna_luego [OF terna_lecturas(1)] terna_luego [OF du] terna_luego [OF terna_registro(1)] terna_si_vale Suc)
  qed
  show u: "terna (fiable c) (get_valid_token_unlocked c) (\<lambda>_. fiable c) (sano c)"
    unfolding get_valid_token_unlocked_def renovar_token_coordinado_def
    by (auto intro!: terna_si_vale terna_luego [OF terna_lecturas(2)] d terna_luego [OF terna_registro(1)] terna_luego [OF terna_lecturas(1)] e)
  have "terna (fiable c) (con_candado_local (get_valid_token_unlocked c)) (\<lambda>_. fiable c) (sano c)"
  proof (rule ternaI)
    fix w assume w: "fiable c w"
    show "wp (con_candado_local (get_valid_token_unlocked c)) (acaba (\<lambda>_. fiable c) (sano c)) w"
    proof (cases "w_relevos w")
      case Nil
      with ternaD [OF u w] show ?thesis by (simp add: wp_def con_candado_local_def)
    next
      case (Cons f fs)
      with w have "fiable c (w\<lparr>w_auth := f (w_auth w), w_relevos := fs\<rparr>)" by (simp add: fiable_def sano_def entorno_def)
      from ternaD [OF u this] Cons show ?thesis by (simp add: wp_def con_candado_local_def)
    qed
  qed
  then show "terna (fiable c) (get_valid_token c) (\<lambda>_. fiable c) (sano c)"
    unfolding get_valid_token_def by (rule terna_si_vale)
qed

text \<open>
  C36. The token that a request gets is the one in memory, and it is either a token whose expiry in memory was more than a minute ahead
  at some instant of the call, or one that came in a successful answer of the login or of the refresh that this very call asked for, where
  it is readable as a JWT. This holds whatever the other processes and coroutines do, whatever Redis loses and whatever the SFC answers.
  The expiry in memory is the one that the token itself says when the call starts in a trustworthy world, that is, when the expiries in
  memory and in the shared record are those of their tokens and the other processes and coroutines keep it so. An earlier renewal that
  failed can break that, as \<open>el_token_ilegible_se_sirve\<close> shows: then the expiry is the one of the previous token.
\<close>

theorem el_token_servido_vale:
  assumes "transporte c" "entorno avanza_reloj w" "get_valid_token c w = (Inr t, w')"
  shows "t = access_token (w_auth w')
    \<and> ((\<exists>now e. reloj (w_redis w) \<le> now \<and> now \<le> reloj (w_redis w') \<and> verdadero t
          \<and> access_exp (w_auth w') = Some e \<and> now + 60000 < e)
       \<or> (\<exists>e \<in> set (envios_nuevos w w'). trae c t e))
    \<and> (transporte_fiel c \<and> fiable c w \<and> verdadero t \<longrightarrow> (\<exists>e. access_exp (w_auth w') = Some e \<and> expira c t e))"
proof -
  have s: "servido c w t w'" using sirve_valido(2) [OF assms(1)] assms(2,3) by (simp add: sirve_def)
  have "fiable c w'" if "transporte_fiel c" "fiable c w"
    using wpD [OF ternaD [OF terna_obtiene(2) [OF assms(1) that(1)] that(2)] assms(3)] by simp
  then have "\<exists>e. access_exp (w_auth w') = Some e \<and> expira c t e" if "transporte_fiel c" "fiable c w" "verdadero t"
    using that s by (auto simp: fiable_def fiel_def servido_def)
  with s show ?thesis unfolding servido_def vigente_def by (auto split: option.splits)
qed

subsection \<open>Recovery from a 401\<close>

text \<open>The sends of a request that are not of the authentication itself.\<close>

definition negocio :: "cfg_auth \<Rightarrow> mundo \<Rightarrow> mundo \<Rightarrow> salida_http list" where
  "negocio c w w' = filter (\<lambda>e. \<not> de_auth c e) (envios_nuevos w w')"

lemma negocio_progreso: "entorno avanza_reloj w \<Longrightarrow> progreso c w w' \<Longrightarrow> negocio c w w' = []"
  by (auto simp: negocio_def envios_nuevos_def progreso_def filter_empty_conv)

lemma negocio_trans:
  assumes "w_envios w1 = w_envios w @ l" "w_envios w2 = w_envios w1 @ l'"
  shows "negocio c w w2 = negocio c w w1 @ negocio c w1 w2"
  using assms by (simp add: negocio_def envios_nuevos_def)

definition respuesta_del_envio :: "salida_http \<Rightarrow> (int \<times> string) resultado \<Rightarrow> bool" where
  "respuesta_del_envio e x = (case en_respuesta e of None \<Rightarrow> es_error x | Some r \<Rightarrow> x = Inr r)"

lemma avanza_recupera:
  assumes "transporte c" shows "avanza_auth c (recupera_401 c t q ep p f)"
  unfolding recupera_401_def
  by (auto intro!: avanzan avanza_registro avanza_valido [OF assms])

lemma preparar_conserva:
  assumes "preparar_headers_y_firma c q = Inr (q1, ep, p, f)"
  shows "so_url q1 = so_url q \<and> so_metodo q1 = so_metodo q \<and> so_contenido q1 = so_contenido q
    \<and> cabecera ''authorization'' q1 = cabecera ''authorization'' q"
  using assms
  by (auto simp: preparar_headers_y_firma_def Let_def pon_cabecera_def cabecera_def ligar_def update_conv' split: if_splits sum.splits prod.splits)

text \<open>A send of the request: same place, method and body, with some token.\<close>

definition envio_de_peticion :: "cfg_auth \<Rightarrow> solicitud \<Rightarrow> salida_http \<Rightarrow> bool" where
  "envio_de_peticion c q e =
     (en_url e = so_url q \<and> en_metodo e = so_metodo q \<and> en_cuerpo e = so_contenido q \<and> (\<exists>t. en_portador e = portador c t))"

lemma cabeceras_credenciales:
  "so_url (con_credenciales c t q) = so_url q" "so_metodo (con_credenciales c t q) = so_metodo q"
  "so_contenido (con_credenciales c t q) = so_contenido q" "so_ruta (con_credenciales c t q) = so_ruta q"
  "cabecera ''authorization'' (con_credenciales c t q) = portador c t"
  "''x-sfc-signature'' \<in> fst ` set (so_cabeceras (con_credenciales c t q)) \<longleftrightarrow> ''x-sfc-signature'' \<in> fst ` set (so_cabeceras q)"
  by (auto simp: con_credenciales_def pon_cabecera_def cabecera_def Let_def update_conv' dom_update)

lemma preparar_firma:
  assumes "preparar_headers_y_firma c q = Inr (q1, ep, p, f)" "''x-sfc-signature'' \<notin> fst ` set (so_cabeceras q)"
  shows "get_signature (ca_hmac c) (ca_secreto c) (so_metodo q) ep p f = Inr (cabecera ''x-sfc-signature'' q1)"
proof -
  have pon: "cabecera ''x-sfc-signature'' (pon_cabecera ''x-sfc-signature'' firma qa) = firma" for firma qa
    by (simp add: pon_cabecera_def cabecera_def update_conv')
  have "''x-sfc-signature'' \<notin> fst ` set (so_cabeceras (if b then pon_cabecera ''content-type'' v q else q))" for b v
    using assms(2) by (simp add: pon_cabecera_def dom_update)
  then obtain firma q0 where "get_signature (ca_hmac c) (ca_secreto c) (so_metodo q) ep p f = Inr firma"
      "q1 = pon_cabecera ''x-sfc-signature'' firma q0"
    using assms(1) unfolding preparar_headers_y_firma_def Let_def
    by (simp add: case_prod_beta ligar_def split: sum.splits) blast
  then show ?thesis by (simp add: pon)
qed

lemma intenta_normal: "\<exists>r. fst (intenta m (\<lambda>e. devuelve y) w) = Inr r"
  by (simp add: intenta_def devuelve_def split: prod.split sum.split)

lemma recupera_normal: "\<exists>r. fst (recupera_401 c t q ep p f w) = Inr r"
proof -
  have i: "fst (invalidar_token_compartido t w) = Inr ()" for w
    unfolding invalidar_token_compartido_def
    by (simp add: luego_dado [of hay_cliente] hay_cliente_def intenta_def luego_def devuelve_def split: prod.split sum.split)
  show ?thesis
    unfolding recupera_401_def
    by (cases "invalidar_token_compartido t w") (use i [of w] in \<open>simp add: luego_def intenta_normal\<close>)
qed

lemma recupera_Some:
  assumes "recupera_401 c t q ep p f w = (Inr (Some q2), w')"
  shows "\<exists>nuevo firma w1. get_valid_token_unlocked c w1 = (Inr nuevo, w') \<and> get_signature (ca_hmac c) (ca_secreto c) (so_metodo q) ep p f = Inr firma
    \<and> q2 = pon_cabecera ''x-sfc-signature'' firma (pon_cabecera ''authorization'' (portador c nuevo) q)"
  using assms
  by (auto simp: recupera_401_def intenta_def o_lanza_def luego_def lanza_def devuelve_def split: prod.splits sum.splits)

lemma envia_negocio:
  assumes "transporte c" "envia c q w = (x, w')" "so_url q \<notin> {ca_base c @ ep_login, ca_base c @ ep_refresh}"
  shows "\<exists>e. negocio c w w' = [e] \<and> w_envios w' = w_envios w @ [e] \<and> en_url e = so_url q \<and> en_metodo e = so_metodo q \<and> en_cuerpo e = so_contenido q
    \<and> en_portador e = cabecera ''authorization'' q \<and> en_firma e = cabecera ''x-sfc-signature'' q \<and> respuesta_del_envio e x"
  using envia_forma [OF assms(1), of q w] assms(2,3)
  by (auto simp: negocio_def envios_nuevos_def de_auth_def respuesta_del_envio_def split: sum.split)

text \<open>What follows a 401: nothing more goes out and the answer stands, or the request goes out once more.\<close>

lemma tras_401:
  assumes "transporte c" "entorno avanza_reloj w" "so_url q \<notin> {ca_base c @ ep_login, ca_base c @ ep_refresh}"
    and "con_candado_local (luego (recupera_401 c t q ep p f) (\<lambda>otra. case otra of None \<Rightarrow> devuelve resp | Some q2 \<Rightarrow> envia c q2)) w = (x, w')"
  shows "\<exists>l. w_envios w' = w_envios w @ l \<and>
    (negocio c w w' = [] \<and> x = Inr resp
     \<or> (\<exists>e nuevo. negocio c w w' = [e] \<and> get_signature (ca_hmac c) (ca_secreto c) (so_metodo q) ep p f = Inr (en_firma e)
          \<and> en_url e = so_url q \<and> en_metodo e = so_metodo q \<and> en_cuerpo e = so_contenido q \<and> en_portador e = portador c nuevo
          \<and> respuesta_del_envio e x))"
proof -
  obtain a rs where 1: "luego (recupera_401 c t q ep p f) (\<lambda>otra. case otra of None \<Rightarrow> devuelve resp | Some q2 \<Rightarrow> envia c q2)
      (w\<lparr>w_auth := a, w_relevos := rs\<rparr>) = (x, w')"
    using assms(4) by (cases "w_relevos w") (auto simp: con_candado_local_def, metis (no_types) mundo.surjective mundo.update_convs)
  define w1 where "w1 = w\<lparr>w_auth := a, w_relevos := rs\<rparr>"
  have e1: "entorno avanza_reloj w1" "w_envios w1 = w_envios w" using assms(2) by (auto simp: w1_def entorno_def)
  obtain o2 w2 where 2: "recupera_401 c t q ep p f w1 = (Inr o2, w2)"
    using recupera_normal [of c t q ep p f w1] by (cases "recupera_401 c t q ep p f w1") auto
  have p2: "progreso c w1 w2" by (rule avanza_authD [OF avanza_recupera [OF assms(1)] 2])
  then obtain l where l: "w_envios w2 = w_envios w @ l" using e1 by (auto simp: progreso_def)
  have n2: "negocio c w w2 = []" using negocio_progreso [OF e1(1) p2] e1(2) by (simp add: negocio_def envios_nuevos_def)
  show ?thesis
  proof (cases o2)
    case None
    then have "x = Inr resp" "w' = w2" using 1 2 by (simp_all add: w1_def [symmetric] luego_dado devuelve_def)
    then show ?thesis using l n2 by blast
  next
    case (Some q2)
    then have 3: "envia c q2 w2 = (x, w')" using 1 2 by (simp add: w1_def [symmetric] luego_dado)
    from recupera_Some [of c t q ep p f w1 q2 w2] 2 Some
    obtain nuevo firma where q2: "get_signature (ca_hmac c) (ca_secreto c) (so_metodo q) ep p f = Inr firma"
        "q2 = pon_cabecera ''x-sfc-signature'' firma (pon_cabecera ''authorization'' (portador c nuevo) q)" by auto
    have c2: "so_url q2 = so_url q" "so_metodo q2 = so_metodo q" "so_contenido q2 = so_contenido q"
        "cabecera ''authorization'' q2 = portador c nuevo" "cabecera ''x-sfc-signature'' q2 = firma"
      by (simp_all add: q2(2) pon_cabecera_def cabecera_def update_conv')
    from envia_negocio [OF assms(1) 3] assms(3) c2 obtain e where e: "negocio c w2 w' = [e]" "w_envios w' = w_envios w2 @ [e]"
        "en_url e = so_url q" "en_metodo e = so_metodo q" "en_cuerpo e = so_contenido q" "en_portador e = portador c nuevo"
        "en_firma e = firma" "respuesta_del_envio e x" by auto
    have "negocio c w w' = [e]" using negocio_trans [OF l e(2), of c] n2 e(1) by simp
    with l e q2(1) show ?thesis by auto
  qed
qed

text \<open>
  C38. A request goes out at most twice, and its answer is that of the last time it went out. The second time only follows a 401, with the
  same place, method and body, a token that the recovery got and, unless the caller brought its own signature, the same signature. A
  recovery that fails leaves the 401 as the answer and raises nothing, and a request that never went out is an exception.
\<close>

theorem recuperacion_del_401:
  assumes "transporte c" "entorno avanza_reloj w" "\<not> es_de_auth q" "so_url q \<notin> {ca_base c @ ep_login, ca_base c @ ep_refresh}"
    and "async_auth_flow c q w = (x, w')"
  shows "(negocio c w w' = [] \<and> es_error x)
    \<or> (\<exists>e. negocio c w w' = [e] \<and> envio_de_peticion c q e \<and> respuesta_del_envio e x)
    \<or> (\<exists>e b e'. negocio c w w' = [e, e'] \<and> envio_de_peticion c q e \<and> envio_de_peticion c q e' \<and> en_respuesta e = Some (401, b) \<and> respuesta_del_envio e' x
         \<and> (''x-sfc-signature'' \<notin> fst ` set (so_cabeceras q) \<longrightarrow> en_firma e' = en_firma e))"
proof -
  obtain y w1 where 1: "get_valid_token c w = (y, w1)" by (cases "get_valid_token c w")
  have p1: "progreso c w w1" by (rule avanza_authD [OF avanza_valido(2) [OF assms(1)] 1])
  then have e1: "entorno avanza_reloj w1" using assms(2) by (simp add: progreso_def)
  obtain l1 where l1: "w_envios w1 = w_envios w @ l1" "negocio c w w1 = []"
    using negocio_progreso [OF assms(2) p1] p1 assms(2) by (auto simp: progreso_def)
  show ?thesis
  proof (cases "\<exists>t q1 ep p f. y = Inr t \<and> preparar_headers_y_firma c (con_credenciales c t q) = Inr (q1, ep, p, f)")
    case False
    then have "w' = w1" "es_error x"
      using assms(3,5) 1 by (auto simp: async_auth_flow_def luego_def o_lanza_def lanza_def devuelve_def split: sum.splits prod.splits)
    then show ?thesis using l1(2) by simp
  next
    case True
    then obtain t q1 ep p f where t: "y = Inr t" "preparar_headers_y_firma c (con_credenciales c t q) = Inr (q1, ep, p, f)" by blast
    note k = preparar_conserva [OF t(2)] cabeceras_credenciales
    obtain z w2 where 2: "envia c q1 w1 = (z, w2)" by (cases "envia c q1 w1")
    from envia_negocio [OF assms(1) 2] assms(4) k obtain e where e: "negocio c w1 w2 = [e]" "w_envios w2 = w_envios w1 @ [e]"
        "en_url e = so_url q" "en_metodo e = so_metodo q" "en_cuerpo e = so_contenido q" "en_portador e = portador c t"
        "en_firma e = cabecera ''x-sfc-signature'' q1" "respuesta_del_envio e z" by auto
    have n2: "negocio c w w2 = [e]" using negocio_trans [OF l1(1) e(2)] l1(2) e(1) by simp
    have de: "envio_de_peticion c q e" using e by (auto simp: envio_de_peticion_def)
    have e2: "entorno avanza_reloj w2" using envia_reloj [OF assms(1) 2 e1] by simp
    show ?thesis
    proof (cases "\<exists>b. z = Inr (401, b)")
      case False
      then have "x = z" "w' = w2"
        using assms(3,5) 1 2 t by (auto simp: async_auth_flow_def luego_def o_lanza_def devuelve_def split: sum.splits)
      then show ?thesis using n2 de e(8) by auto
    next
      case True
      then obtain b where b: "z = Inr (401, b)" by blast
      then have r: "en_respuesta e = Some (401, b)" using e(8) by (auto simp: respuesta_del_envio_def split: option.splits)
      have "con_candado_local (luego (recupera_401 c t q1 ep p f) (\<lambda>otra. case otra of None \<Rightarrow> devuelve (401, b) | Some q2 \<Rightarrow> envia c q2)) w2 = (x, w')"
        using assms(3,5) 1 2 t b r by (simp add: async_auth_flow_def luego_dado o_lanza_def)
      from tras_401 [OF assms(1) e2 _ this] k assms(4) obtain l where l: "w_envios w' = w_envios w2 @ l"
        and s: "negocio c w2 w' = [] \<and> x = Inr (401, b)
          \<or> (\<exists>e' nuevo. negocio c w2 w' = [e'] \<and> get_signature (ca_hmac c) (ca_secreto c) (so_metodo q) ep p f = Inr (en_firma e')
               \<and> en_url e' = so_url q \<and> en_metodo e' = so_metodo q \<and> en_cuerpo e' = so_contenido q \<and> en_portador e' = portador c nuevo
               \<and> respuesta_del_envio e' x)" by auto
      have n: "negocio c w w' = e # negocio c w2 w'"
        using negocio_trans [of w2 w "l1 @ [e]" w' l c] l1(1) e(2) l n2 by simp
      have f: "get_signature (ca_hmac c) (ca_secreto c) (so_metodo q) ep p f = Inr (en_firma e)" if "''x-sfc-signature'' \<notin> fst ` set (so_cabeceras q)"
        using preparar_firma [OF t(2)] that k e(7) by simp
      from s show ?thesis
      proof
        assume "negocio c w2 w' = [] \<and> x = Inr (401, b)"
        then show ?thesis using n de r by (auto simp: respuesta_del_envio_def)
      next
        assume "\<exists>e' nuevo. negocio c w2 w' = [e'] \<and> get_signature (ca_hmac c) (ca_secreto c) (so_metodo q) ep p f = Inr (en_firma e')
               \<and> en_url e' = so_url q \<and> en_metodo e' = so_metodo q \<and> en_cuerpo e' = so_contenido q \<and> en_portador e' = portador c nuevo
               \<and> respuesta_del_envio e' x"
        then obtain e' nuevo where e': "negocio c w2 w' = [e']" "get_signature (ca_hmac c) (ca_secreto c) (so_metodo q) ep p f = Inr (en_firma e')"
            "envio_de_peticion c q e'" "respuesta_del_envio e' x" unfolding envio_de_peticion_def by blast
        have "''x-sfc-signature'' \<notin> fst ` set (so_cabeceras q) \<longrightarrow> en_firma e' = en_firma e" using f e'(2) by auto
        moreover have "negocio c w w' = [e, e']" using n e'(1) by simp
        ultimately show ?thesis using e'(3,4) de r by blast
      qed
    qed
  qed
qed

subsection \<open>A rejected token\<close>

text \<open>The shared record has the token, and it did not expire.\<close>

definition registrado :: "json \<Rightarrow> redis \<Rightarrow> bool" where
  "registrado t r = (\<exists>d. tget (reloj r) (r_token r) redis_token_key = Some (Valido d) \<and> rt_access d = t)"

definition sin_vuelta :: "json \<Rightarrow> redis \<Rightarrow> redis \<Rightarrow> bool" where
  "sin_vuelta t r s = (reloj r \<le> reloj s \<and> (registrado t s \<longrightarrow> registrado t r))"

interpretation gvuelta: garantia "sin_vuelta t" for t
proof unfold_locales
  fix r s u :: redis and d :: int
  show "sin_vuelta t r (r\<lparr>reloj := reloj r + d\<rparr>)" if "0 \<le> d"
    using that tget_despues [of "reloj r" "reloj r + d" "r_token r" redis_token_key] by (auto simp: sin_vuelta_def registrado_def)
qed (auto simp: sin_vuelta_def)

lemma entorno_vuelta: "entorno (sin_vuelta t) w \<Longrightarrow> entorno avanza_reloj w"
  by (auto simp: entorno_def sin_vuelta_def avanza_reloj_def)

text \<open>The token is neither in memory nor in a record that can be read.\<close>

definition olvidado :: "json \<Rightarrow> mundo \<Rightarrow> bool" where
  "olvidado t w = (calmo w \<and> entorno (sin_vuelta t) w \<and> access_token (w_auth w) \<noteq> t \<and> (w_cliente w \<longrightarrow> \<not> registrado t (w_redis w)))"

definition olvida :: "json \<Rightarrow> 'a accion \<Rightarrow> bool" where
  "olvida t m = (\<forall>w. olvidado t w \<longrightarrow> olvidado t (snd (m w)))"

definition otro :: "cfg_auth \<Rightarrow> json \<Rightarrow> json accion \<Rightarrow> bool" where
  "otro c t m = (\<forall>w w'. olvidado t w \<longrightarrow> m w = (Inr t, w') \<longrightarrow> (\<exists>e \<in> set (envios_nuevos w w'). trae c t e))"

lemma redis_calmo:
  assumes "calmo w" "entorno (sin_vuelta t) w" "redis_cmd g w = (x, w')"
  shows "\<exists>r. sin_vuelta t (w_redis w) r \<and> x = fst (g r) \<and> w_redis w' = snd (g r) \<and> calmo w' \<and> entorno (sin_vuelta t) w'
    \<and> w_auth w' = w_auth w \<and> w_cliente w' = w_cliente w \<and> w_envios w' = w_envios w"
proof -
  have "wp (redis_cmd g) (\<lambda>x w'. \<exists>r. sin_vuelta t (w_redis w) r \<and> x = fst (g r) \<and> w_redis w' = snd (g r) \<and> calmo w' \<and> entorno (sin_vuelta t) w'
      \<and> w_auth w' = w_auth w \<and> w_cliente w' = w_cliente w \<and> w_envios w' = w_envios w) w"
    by (rule wp_redis_bien [OF assms(2) gvuelta.nada assms(1)])
      (use assms(1,2) in \<open>auto simp: calmo_resto entorno_resto\<close>)
  from wpD [OF this assms(3)] show ?thesis .
qed

lemma olvida_redis:
  assumes "\<And>r. \<not> registrado t r \<Longrightarrow> \<not> registrado t (snd (g r))" shows "olvida t (redis_cmd g)"
  unfolding olvida_def
proof (intro allI impI)
  fix w assume o: "olvidado t w"
  obtain x w' where 1: "redis_cmd g w = (x, w')" by (cases "redis_cmd g w")
  from redis_calmo [of w t g x w'] o 1 obtain r where "sin_vuelta t (w_redis w) r" "w_redis w' = snd (g r)" "calmo w'"
      "entorno (sin_vuelta t) w'" "w_auth w' = w_auth w" "w_cliente w' = w_cliente w" unfolding olvidado_def by blast
  with o 1 assms show "olvidado t (snd (redis_cmd g w))" by (auto simp: olvidado_def sin_vuelta_def)
qed

lemma olvida_intenta:
  "olvida t m \<Longrightarrow> (\<And>e. olvida t (h e)) \<Longrightarrow> olvida t (intenta m h)" "olvida t m \<Longrightarrow> (\<And>x. olvida t (f x)) \<Longrightarrow> olvida t (luego m f)"
  unfolding olvida_def intenta_def luego_def by (auto split: prod.split sum.split)

lemma olvida_pasos:
  "olvida t (devuelve x)" "olvida t load_from_redis" "olvida t (acquire_distributed_lock c)" "olvida t (duerme ms)" "olvida t ahora"
  "olvida t hay_cliente" "olvida t is_access_token_valid" "olvida t is_refresh_token_valid"
proof -
  show b: "olvida t (devuelve x)" for x :: 'a by (simp add: olvida_def devuelve_def)
  show "olvida t load_from_redis"
    unfolding olvida_def
  proof (intro allI impI)
    fix w assume o: "olvidado t w"
    let ?g = "\<lambda>r. (Inr (tget (reloj r) (r_token r) redis_token_key) :: registro_tokens crudo option resultado, r)"
    obtain x w1 where 1: "redis_cmd ?g w = (x, w1)" by (cases "redis_cmd ?g w")
    from redis_calmo [of w t ?g x w1] o 1 obtain r where r: "sin_vuelta t (w_redis w) r" "x = Inr (tget (reloj r) (r_token r) redis_token_key)"
        "w_redis w1 = r" "calmo w1" "entorno (sin_vuelta t) w1" "w_auth w1 = w_auth w" "w_cliente w1 = w_cliente w"
      unfolding olvidado_def by auto
    have n: "\<not> registrado t r" if "w_cliente w" using o r(1) that by (auto simp: olvidado_def sin_vuelta_def)
    show "olvidado t (snd (load_from_redis w))"
    proof (cases "w_cliente w \<and> (\<exists>d. tget (reloj r) (r_token r) redis_token_key = Some (Valido d))")
      case True
      then obtain d where d: "tget (reloj r) (r_token r) redis_token_key = Some (Valido d)" by blast
      obtain y a where a: "load_local_from_dict d w1 = (y, w1\<lparr>w_auth := a\<rparr>)" "access_token a = rt_access d" by (rule carga_local [of d w1])
      have "access_token a \<noteq> t" using n True d a(2) by (auto simp: registrado_def)
      moreover have "snd (load_from_redis w) = w1\<lparr>w_auth := a\<rparr>"
        using True r(2) 1 a(1) d
        by (simp add: load_from_redis_def luego_dado [of hay_cliente] hay_cliente_def intenta_def luego_def devuelve_def split: sum.split)
      ultimately show ?thesis using o r n True by (simp add: olvidado_def calmo_def entorno_def)
    next
      case False
      then have "snd (load_from_redis w) = (if w_cliente w then w1 else w)"
        using r(2) 1
        by (auto simp: load_from_redis_def luego_dado [of hay_cliente] hay_cliente_def intenta_def luego_def devuelve_def
            split: option.split crudo.split)
      with o r n show ?thesis by (auto simp: olvidado_def)
    qed
  qed
  have r: "olvida t (redis_cmd (como_cmd (set_nx_lock l k d)))" for l k d
    by (rule olvida_redis) (auto simp: como_cmd_def set_nx_lock_def registrado_def)
  have h: "olvida t hay_cliente" and d: "olvida t (devuelve False)" by (simp_all add: olvida_def hay_cliente_def devuelve_def)
  show "olvida t (acquire_distributed_lock c)"
    unfolding acquire_distributed_lock_def by (auto intro!: olvida_intenta h d r)
  show "olvida t (duerme ms)"
    unfolding olvida_def
  proof (intro allI impI)
    fix w assume o: "olvidado t w"
    have "sin_vuelta t (w_redis w) (avanza ms (w_redis w))" unfolding avanza_def by (rule gvuelta.tiempo) simp
    then have "registrado t (avanza ms (w_redis w)) \<longrightarrow> registrado t (w_redis w)" by (simp add: sin_vuelta_def)
    with o show "olvidado t (snd (duerme ms w))" unfolding olvidado_def duerme_def calmo_def entorno_def by (simp, blast)
  qed
qed (auto simp: olvida_def ahora_def hay_cliente_def)

lemma otro_luego:
  assumes "avanza_auth c m" "olvida t m" "\<And>x. otro c t (f x)" "\<And>x. avanza_auth c (f x)" shows "otro c t (luego m f)"
  unfolding otro_def
proof (intro allI impI)
  fix w w' assume o: "olvidado t w" and l: "luego m f w = (Inr t, w')"
  from l obtain x w1 where 1: "m w = (Inr x, w1)" "f x w1 = (Inr t, w')" by (rule luego_InrE)
  have e: "entorno avanza_reloj w" using o entorno_vuelta by (auto simp: olvidado_def)
  have p: "progreso c w w1" by (rule avanza_authD [OF assms(1) 1(1)])
  then have e1: "entorno avanza_reloj w1" using e by (simp add: progreso_def)
  have "olvidado t w1" using assms(2) o 1(1) unfolding olvida_def by (metis snd_conv)
  with assms(3) 1(2) have "\<exists>e \<in> set (envios_nuevos w1 w'). trae c t e" by (simp add: otro_def)
  with envios_nuevos_antes [OF e p e1 avanza_authD [OF assms(4) 1(2)]] show "\<exists>e \<in> set (envios_nuevos w w'). trae c t e" by blast
qed

lemma otro_si_vale: "otro c t m \<Longrightarrow> otro c t (luego is_access_token_valid (\<lambda>v. if v then token_actual else m))"
  by (auto simp: otro_def luego_def olvidado_def split: if_splits)

lemma otro_trae: "trae_siempre c m \<Longrightarrow> otro c t m"
  by (auto simp: otro_def trae_siempre_def traido_def olvidado_def dest: entorno_vuelta)

lemma otro_final:
  assumes "otro c t m" "avanza_auth c m" shows "otro c t (finalmente m (release_distributed_lock c'))"
  unfolding otro_def
proof (intro allI impI)
  fix w w' assume o: "olvidado t w" and l: "finalmente m (release_distributed_lock c') w = (Inr t, w')"
  obtain w1 where 1: "m w = (Inr t, w1)" "w' = snd (release_distributed_lock c' w1)"
    using l by (auto simp: finalmente_def split: prod.splits sum.splits)
  have e: "entorno avanza_reloj w" using o entorno_vuelta by (auto simp: olvidado_def)
  have p: "progreso c w w1" by (rule avanza_authD [OF assms(2) 1(1)])
  then have e1: "entorno avanza_reloj w1" using e by (simp add: progreso_def)
  have "progreso c w1 w'" using avanza_registro(5) [of c c'] 1(2) by (simp add: avanza_auth_def)
  from envios_nuevos_despues [OF e p e1 this] assms(1) o 1(1) show "\<exists>e \<in> set (envios_nuevos w w'). trae c t e" unfolding otro_def by blast
qed

lemma otro_valido:
  assumes "transporte c" shows "otro c t (get_valid_token_unlocked c)"
proof -
  have l: "otro c t (con_el_lock c)"
    unfolding con_el_lock_def
    by (rule otro_luego [OF avanza_registro(1) olvida_pasos(2)], rule otro_si_vale, rule otro_luego [OF avanza_basicas(10) olvida_pasos(8)],
        rule otro_trae, rule trae_renovacion [OF assms avanza_registro(2)])
      (auto simp: sin_tocar_tokens intro!: avanzan avanza_tokens [OF assms] avanza_registro split: option.split)
  have z: "otro c t (lanza e)" for e by (simp add: otro_def lanza_def)
  have "otro c t (renovar_hasta (lanza e) c dl n)" for e dl n
  proof (induction n)
    case (Suc n)
    then show ?case
      by (auto intro!: otro_luego otro_si_vale otro_final l otro_trae [OF trae_directo [OF assms]] olvida_pasos avanzan avanza_registro
          avanza_tokens [OF assms] avanza_espera [OF assms])
  qed (simp add: z)
  then show ?thesis
    unfolding get_valid_token_unlocked_def renovar_token_coordinado_def
    by (auto intro!: otro_luego otro_si_vale otro_trae [OF trae_directo [OF assms]] olvida_pasos avanzan avanza_registro
          avanza_tokens [OF assms] avanza_espera [OF assms])
qed

lemma invalidar_olvida:
  assumes "calmo w" "entorno (sin_vuelta (JStr s)) w" "s \<noteq> []" "invalidar_token_compartido (JStr s) w = (x, w')"
  shows "calmo w' \<and> entorno (sin_vuelta (JStr s)) w' \<and> (w_cliente w' \<longrightarrow> \<not> registrado (JStr s) (w_redis w')) \<and> w_envios w' = w_envios w"
proof (cases "w_cliente w")
  case False
  then have "w' = w" using assms(4) by (simp add: invalidar_token_compartido_def luego_dado [of hay_cliente] hay_cliente_def devuelve_def)
  with False assms show ?thesis by simp
next
  case True
  let ?g = "invalidate_if_matches_lua (JStr s)"
  obtain y w1 where 1: "redis_cmd ?g w = (y, w1)" by (cases "redis_cmd ?g w")
  from redis_calmo [OF assms(1,2) 1] obtain r where r: "y = fst (?g r)" "w_redis w1 = snd (?g r)" "calmo w1"
      "entorno (sin_vuelta (JStr s)) w1" "w_envios w1 = w_envios w" by blast
  have "\<not> registrado (JStr s) (snd (?g r))"
    by (auto simp: registrado_def invalidate_if_matches_lua_def mismo_texto_def split: option.splits crudo.splits json.splits)
  moreover have "w' = w1"
    using assms(3,4) True 1
    by (auto simp: invalidar_token_compartido_def luego_dado [of hay_cliente] hay_cliente_def intenta_def luego_def devuelve_def
        verdadero_def split: sum.splits prod.splits)
  ultimately show ?thesis using r by simp
qed

text \<open>
  C39. A token that the SFC rejected is not used for the second attempt, unless the SFC itself gave it again in this recovery: it is erased
  from memory and from the shared record, when Redis answers and no other process writes it back in the meantime.
\<close>

theorem el_rechazado_no_vuelve:
  assumes "transporte c" "calmo w" "entorno (sin_vuelta (JStr s)) w" "s \<noteq> []"
    and "recupera_401 c (JStr s) q ep p f w = (Inr (Some q2), w')"
  shows "\<exists>nuevo. cabecera ''authorization'' q2 = portador c nuevo
    \<and> (nuevo = JStr s \<longrightarrow> (\<exists>e \<in> set (envios_nuevos w w'). trae c (JStr s) e))"
proof -
  obtain x w1 where 1: "invalidar_token_compartido (JStr s) w = (x, w1)" by (cases "invalidar_token_compartido (JStr s) w")
  note i = invalidar_olvida [OF assms(2,3,4) 1]
  define w2 where "w2 = w1\<lparr>w_auth := (if access_token (w_auth w1) = JStr s then (w_auth w1)\<lparr>access_token := JNull\<rparr> else w_auth w1)\<rparr>"
  have o: "olvidado (JStr s) w2" using i by (auto simp: w2_def olvidado_def calmo_def entorno_def)
  obtain nuevo firma where n: "get_valid_token_unlocked c w2 = (Inr nuevo, w')"
      "q2 = pon_cabecera ''x-sfc-signature'' firma (pon_cabecera ''authorization'' (portador c nuevo) q)"
    using assms(5) 1
    by (auto simp: recupera_401_def intenta_def o_lanza_def luego_def lanza_def devuelve_def w2_def split: prod.splits sum.splits)
  have "\<exists>e \<in> set (envios_nuevos w w'). trae c (JStr s) e" if "nuevo = JStr s"
    using otro_valido [OF assms(1), of "JStr s"] o n(1) that i unfolding otro_def envios_nuevos_def by (auto simp: w2_def)
  then show ?thesis
    using n(2) by (auto simp: pon_cabecera_def cabecera_def update_conv')
qed

subsection \<open>An answer that cannot be read\<close>

lemma cuerpo_sin_objeto:
  assumes "ca_cargar c body = Some v" "\<And>d. v \<noteq> JObj d"
  shows "guarda_respuesta c f body w = (Inl error_sin_get, w)"
  using assms
  by (cases v) (auto simp: guarda_respuesta_def response_json_def intenta_def luego_def lanza_def errores_respuesta_auth_def error_sin_get_def)

text \<open>
  An answer of the login or of the refresh whose token cannot be read as a JWT is a 502 of the authentication, but the token stays in
  memory: when the expiry of the previous token is still ahead, as it is after a 401, the next request gets the unreadable token without
  asking anybody.
\<close>

theorem el_token_ilegible_se_sirve:
  assumes "ca_cargar c body = Some (JObj d)" "a = uno_u_otro d ''access'' ''access_token''" "verdadero a" "ca_jwt c a = None"
    and "access_exp (w_auth w) = Some e" "reloj (w_redis w) + 60000 < e"
  shows "\<exists>w1. guarda_respuesta c f body w = (Inl (envolver_error (ca_texto c (ValueError ''PyJWTError''))), w1)
    \<and> get_valid_token c w1 = (Inr a, w1) \<and> w_envios w1 = w_envios w"
  using assms
  by (simp add: guarda_respuesta_def response_json_def save_tokens_local_def jwt_decode_def intenta_def luego_def lanza_def devuelve_def
      errores_respuesta_auth_def get_valid_token_def vigente_def)

end
