(* ===== verification/Autenticacion_Ejemplos.thy ===== *)
theory Autenticacion_Ejemplos
  imports Autenticacion_Propiedades
begin

text \<open>
  The authentication on concrete inputs: a request with a token that the SFC rejects, the login that follows and the second attempt, with
  and without Redis, and what happens when the login answers with a token that cannot be read.
\<close>

text \<open>An SFC that rejects one token and whose login answers another one.\<close>

definition sfc_de_prueba :: "solicitud \<Rightarrow> (int \<times> string) accion" where
  "sfc_de_prueba q =
     devuelve (if so_ruta q = ep_login then (200, ''L'')
               else if cabecera ''authorization'' q = ''Bearer viejo'' then (401, []) else (200, ''si''))"

definition auth_ej :: cfg_auth where
  "auth_ej =
     \<lparr>ca_base = ''https://sfc'', ca_usuario = ''u'', ca_password = ''p'', ca_secreto = ''s'', ca_dueno = ''auth-lock:1'', ca_hmac = (\<lambda>k m. m),
      ca_cargar = (\<lambda>b. if b = ''L'' then Some (JObj [(''access'', JStr ''nuevo''), (''refresh'', JStr ''r'')]) else None),
      ca_py_str = (\<lambda>_. []), ca_jwt = (\<lambda>_. Some [(''exp'', JInt 9999)]), ca_instante = (\<lambda>_. Inr 0), ca_texto = (\<lambda>_. []),
      ca_texto_estado = (\<lambda>_. []), ca_http = sfc_de_prueba\<rparr>"

definition tokens_ej :: tokens where
  "tokens_ej = \<lparr>access_token = JStr ''viejo'', refresh_token = JNull, access_exp = Some 500000, refresh_exp = None\<rparr>"

definition peticion_ej :: solicitud where
  "peticion_ej = \<lparr>so_metodo = ''GET'', so_url = ''https://sfc/api/queja/'', so_ruta = ''/api/queja/'', so_cabeceras = [],
                  so_contenido = [], so_campos = None\<rparr>"

text \<open>Without Redis, and with the rejected token in the shared record.\<close>

definition solo_ej :: mundo where
  "solo_ej = (mundo_ej redis_vacio [])\<lparr>w_cliente := False, w_auth := tokens_ej\<rparr>"

definition compartido_ej :: mundo where
  "compartido_ej = (mundo_ej (redis_vacio\<lparr>r_token := [redis_token_key \<mapsto> (Valido (registro_de tokens_ej), 600000)]\<rparr>) [])\<lparr>w_auth := tokens_ej\<rparr>"

lemma transporte_ej: "transporte auth_ej"
  by (simp add: transporte_def auth_ej_def sfc_de_prueba_def devuelve_def respeta_def avanza_reloj_def)

lemma entorno_auth_ej [simp]: "entorno R solo_ej" "entorno R compartido_ej" "calmo compartido_ej"
  by (simp_all add: solo_ej_def compartido_ej_def mundo_ej_def entorno_def calmo_def)

lemmas evalua_auth =
  auth_ej_def sfc_de_prueba_def tokens_ej_def luego_def intenta_def finalmente_def devuelve_def lanza_def o_lanza_def ahora_def hay_cliente_def
  con_candado_local_def get_valid_token_def get_valid_token_unlocked_def renovar_token_directo_local_def renovar_token_coordinado_def
  vueltas_espera_def con_el_lock_def login_def pide_tokens_def envia_def anota_envio_def cabecera_def pon_cabecera_def raise_for_status_def
  guarda_respuesta_def response_json_def uno_u_otro_def obtener_def verdadero_def save_tokens_local_def jwt_decode_def exp_de_def
  fromtimestamp_def load_from_redis_def load_local_from_dict_def pon_fecha_def registro_de_def isoformat_def save_to_redis_def guarda_registro_def acquire_distributed_lock_def release_distributed_lock_def
  invalidar_token_compartido_def invalidate_if_matches_lua_def mismo_texto_def redis_cmd_def como_cmd_def set_nx_lock_def release_lock_lua_def
  dueno_lock_def vigente_def mundo_ej_def redis_vacio_def sin_tokens_def recupera_401_def

lemmas renovar_41 = renovar_hasta.simps(2) [of _ _ _ 40, simplified]

lemma corrida_auth_ej: "fst (get_valid_token auth_ej (solo_ej\<lparr>w_auth := sin_tokens\<rparr>)) = Inr (JStr ''nuevo'')"
  by (simp add: solo_ej_def evalua_auth ep_login_def)

lemma la_espera_termina_testigo:
  "renovar_hasta (lanza ErrorRedis) auth_ej 10000 50 compartido_ej = renovar_hasta (devuelve JNull) auth_ej 10000 vueltas_espera compartido_ej"
  using la_espera_termina [of compartido_ej 50 "lanza ErrorRedis" auth_ej "devuelve JNull"]
  by (simp add: vueltas_espera_def lock_wait_timeout_def compartido_ej_def mundo_ej_def redis_vacio_def)

lemma solo_ej_fiable: "transporte_fiel auth_ej" "fiable auth_ej (solo_ej\<lparr>w_auth := sin_tokens\<rparr>)"
  by (simp_all add: transporte_fiel_def auth_ej_def sfc_de_prueba_def devuelve_def respeta_def guarda_fidelidad_def fiable_def sano_def
      solo_ej_def mundo_ej_def redis_vacio_def registro_fiel_def entorno_def fiel_def sin_tokens_def verdadero_def)

lemma el_token_servido_vale_testigo:
  "let w = solo_ej\<lparr>w_auth := sin_tokens\<rparr>; w' = snd (get_valid_token auth_ej w) in
     JStr ''nuevo'' = access_token (w_auth w')
     \<and> ((\<exists>now e. reloj (w_redis w) \<le> now \<and> now \<le> reloj (w_redis w') \<and> access_exp (w_auth w') = Some e \<and> now + 60000 < e)
        \<or> (\<exists>e \<in> set (envios_nuevos w w'). trae auth_ej (JStr ''nuevo'') e))
     \<and> (\<exists>e. access_exp (w_auth w') = Some e \<and> expira auth_ej (JStr ''nuevo'') e)"
proof -
  let ?w = "solo_ej\<lparr>w_auth := sin_tokens\<rparr>"
  have e: "entorno avanza_reloj ?w" by (simp add: solo_ej_def mundo_ej_def entorno_def)
  have "get_valid_token auth_ej ?w = (Inr (JStr ''nuevo''), snd (get_valid_token auth_ej ?w))"
    using corrida_auth_ej by (simp add: prod_eq_iff)
  from el_token_servido_vale [OF transporte_ej e this] solo_ej_fiable show ?thesis
    unfolding Let_def by (auto simp: verdadero_def)
qed

lemma flujo_ej:
  "fst (async_auth_flow auth_ej peticion_ej solo_ej) = Inr (200, ''si'')"
  "length (negocio auth_ej solo_ej (snd (async_auth_flow auth_ej peticion_ej solo_ej))) = 2"
  by (simp_all add: async_auth_flow_def es_de_auth_def peticion_ej_def solo_ej_def preparar_headers_y_firma_def con_credenciales_def
      get_signature_def url_sign_def mayusculas_def mayuscula_def portador_def str_de_def multiparte_def Let_def ep_login_def ep_refresh_def
      negocio_def envios_nuevos_def de_auth_def evalua_auth)

lemma recuperacion_del_401_testigo:
  "\<exists>e b e'. negocio auth_ej solo_ej (snd (async_auth_flow auth_ej peticion_ej solo_ej)) = [e, e'] \<and> en_respuesta e = Some (401, b)
     \<and> en_respuesta e' = Some (200, ''si'')"
proof -
  have q: "\<not> es_de_auth peticion_ej" "so_url peticion_ej \<notin> {ca_base auth_ej @ ep_login, ca_base auth_ej @ ep_refresh}"
    by (simp_all add: es_de_auth_def peticion_ej_def auth_ej_def ep_login_def ep_refresh_def)
  have f: "async_auth_flow auth_ej peticion_ej solo_ej = (Inr (200, ''si''), snd (async_auth_flow auth_ej peticion_ej solo_ej))"
    using flujo_ej(1) by (simp add: prod_eq_iff)
  from recuperacion_del_401 [OF transporte_ej entorno_auth_ej(1) q f] flujo_ej(2) show ?thesis
    by (auto simp: respuesta_del_envio_def split: option.splits)
qed

lemma recupera_ej:
  "\<exists>q2. fst (recupera_401 auth_ej (JStr ''viejo'') peticion_ej ''/api/queja/'' JNull False compartido_ej) = Inr (Some q2)"
  by (simp add: peticion_ej_def compartido_ej_def get_signature_def url_sign_def mayusculas_def mayuscula_def portador_def str_de_def
      ep_login_def renovar_41 tget_def tset_def tdel_def lock_ttl_ms_def token_record_ttl_def evalua_auth)

lemma el_rechazado_no_vuelve_testigo:
  "\<exists>q2 nuevo. fst (recupera_401 auth_ej (JStr ''viejo'') peticion_ej ''/api/queja/'' JNull False compartido_ej) = Inr (Some q2)
     \<and> cabecera ''authorization'' q2 = portador auth_ej nuevo \<and> nuevo \<noteq> JStr ''viejo''"
proof -
  obtain q2 w' where 1: "recupera_401 auth_ej (JStr ''viejo'') peticion_ej ''/api/queja/'' JNull False compartido_ej = (Inr (Some q2), w')"
    using recupera_ej by (cases "recupera_401 auth_ej (JStr ''viejo'') peticion_ej ''/api/queja/'' JNull False compartido_ej") auto
  have "\<not> trae auth_ej (JStr ''viejo'') e" for e
    by (auto simp: trae_def auth_ej_def uno_u_otro_def obtener_def verdadero_def split: if_splits)
  with el_rechazado_no_vuelve [OF transporte_ej entorno_auth_ej(3) entorno_auth_ej(2) _ 1] show ?thesis
    using 1 by auto
qed

lemma el_token_ilegible_se_sirve_testigo:
  "\<exists>w1. get_valid_token (auth_ej\<lparr>ca_jwt := (\<lambda>_. None)\<rparr>) w1 = (Inr (JStr ''nuevo''), w1) \<and> w_envios w1 = []"
  using el_token_ilegible_se_sirve [of "auth_ej\<lparr>ca_jwt := (\<lambda>_. None)\<rparr>" "''L''" "[(''access'', JStr ''nuevo''), (''refresh'', JStr ''r'')]"
      "JStr ''nuevo''" solo_ej 500000 "\<lambda>_ _. JNull"]
  by (auto simp: auth_ej_def uno_u_otro_def obtener_def verdadero_def solo_ej_def tokens_ej_def mundo_ej_def redis_vacio_def)

end
