(* ===== verification/Autenticacion_Cliente.thy ===== *)
theory Autenticacion_Cliente
  imports Autenticacion_Ejemplos Movimientos Adjuntos_Propiedades
begin

text \<open>
  The client of the SFC with its authentication: \<^verbatim>\<open>SfcClient\<close> hands every request to \<^verbatim>\<open>SfcAuthManager\<close>. What the other theories ask of the HTTP
  library of the client holds of the two together when the transport below them keeps it. How the HTTP library builds a request (\<open>arma\<close>) is
  a parameter.
\<close>

definition con_autenticacion :: "cfg_auth \<Rightarrow> (peticion \<Rightarrow> solicitud) \<Rightarrow> cfg_sfc \<Rightarrow> cfg_sfc" where
  "con_autenticacion c arma cl = cl\<lparr>sf_http := (\<lambda>p. async_auth_flow c (arma p))\<rparr>"

text \<open>A guarantee that leaves the shared tokens and the lock of the authentication free.\<close>

locale libre = garantia +
  assumes token: "R r (r\<lparr>r_token := x\<rparr>)" and cerradura: "R r (r\<lparr>r_lock := l\<rparr>)"
begin

lemma tokens_libres: "respeta R lee_tokens" "respeta R (pon_tokens f)" "respeta R token_actual" "respeta R is_access_token_valid"
    "respeta R is_refresh_token_valid" "respeta R (o_lanza x)" "respeta R (anota_envio q resp)"
  unfolding token_actual_def is_access_token_valid_def is_refresh_token_valid_def
  by (auto simp: respeta_def lee_tokens_def pon_tokens_def nada entorno_def o_lanza_def devuelve_def lanza_def luego_def ahora_def
      anota_envio_def split: sum.split)

lemma registro_libre:
  "respeta R load_from_redis" "respeta R save_to_redis" "respeta R (invalidar_token_compartido t)"
  "respeta R (acquire_distributed_lock c)" "respeta R (release_distributed_lock c)"
  unfolding load_from_redis_def load_local_from_dict_def pon_fecha_def save_to_redis_def invalidar_token_compartido_def
    acquire_distributed_lock_def release_distributed_lock_def
  by (auto intro!: reglas redis_cmd tokens_libres nada token cerradura split: option.split crudo.split json.split fecha_iso.split
      simp: guarda_registro_def invalidate_if_matches_lua_def como_cmd_def set_nx_lock_def release_lock_lua_def)

lemma candado_libre: "respeta R m \<Longrightarrow> respeta R (con_candado_local m)"
proof -
  assume m: "respeta R m"
  have "R (w_redis w) (w_redis (snd (m (w\<lparr>w_auth := a, w_relevos := fs\<rparr>)))) \<and> entorno R (snd (m (w\<lparr>w_auth := a, w_relevos := fs\<rparr>)))"
    if "entorno R w" for w a fs
    using respetaD [OF m, of "w\<lparr>w_auth := a, w_relevos := fs\<rparr>"] that by (simp add: entorno_def)
  with respetaD [OF m] show "respeta R (con_candado_local m)" by (auto simp: respeta_def con_candado_local_def split: list.split)
qed

lemma envia_libre: "(\<And>q. respeta R (ca_http c q)) \<Longrightarrow> respeta R (envia c q)"
  unfolding envia_def by (auto intro!: reglas tokens_libres split: sum.split)

lemma flujo_libre:
  assumes h: "\<And>q. respeta R (ca_http c q)"
  shows "respeta R (async_auth_flow c q)"
proof -
  have p: "respeta R (pide_tokens c ep d)" for ep d
    unfolding pide_tokens_def by (intro luego tokens_libres envia_libre [OF h])
  have g: "respeta R (guarda_respuesta c f body)" "respeta R (raise_for_status c st)" for f body st
    unfolding guarda_respuesta_def response_json_def save_tokens_local_def jwt_decode_def raise_for_status_def
    by (auto intro!: reglas tokens_libres split: option.split json.split)
  have l: "respeta R (login c)" "respeta R (refresh_access_token c)"
    unfolding login_def refresh_access_token_def by (auto intro!: reglas tokens_libres p g)
  have d: "respeta R (renovar_token_directo_local c)" "respeta R (con_el_lock c)"
    unfolding renovar_token_directo_local_def con_el_lock_def
    by (auto intro!: reglas tokens_libres registro_libre l split: option.split)
  have "respeta R (renovar_hasta (lanza e) c dl n)" for e dl n
    by (induction n) (auto intro!: reglas tokens_libres registro_libre d)
  then have u: "respeta R (get_valid_token_unlocked c)"
    unfolding get_valid_token_unlocked_def renovar_token_coordinado_def
    by (auto intro!: reglas tokens_libres registro_libre d)
  then have "respeta R (get_valid_token c)"
    unfolding get_valid_token_def by (auto intro!: reglas tokens_libres candado_libre)
  moreover have "respeta R (recupera_401 c t q1 ep p f)" for t q1 ep p f
    unfolding recupera_401_def by (auto intro!: reglas tokens_libres registro_libre u)
  ultimately show ?thesis
    unfolding async_auth_flow_def
    by (auto intro!: reglas tokens_libres envia_libre [OF h] candado_libre split: option.split)
qed

end

interpretation lcola: libre "paso_cola\<^sup>*\<^sup>*"
  by unfold_locales (auto intro: p_token p_lock)

interpretation lmarca: libre "sin_marcar k" for k
  by unfold_locales (auto simp: sin_marcar_def archivos_de_def)

text \<open>Nothing in the log, and no error of the SFC other than that of the authentication.\<close>

definition solo_de_auth :: "'a resultado \<Rightarrow> bool" where
  "solo_de_auth x = (\<forall>e. x = Inl (SfcIntegrationException e) \<longrightarrow> error_type e = ''SFC_AUTH_RESPONSE_INVALID'')"

definition discreta :: "'a accion \<Rightarrow> bool" where
  "discreta m = deja m (\<lambda>x t. t = [] \<and> solo_de_auth x)"

lemma discreta_luego: "discreta m \<Longrightarrow> (\<And>x. discreta (f x)) \<Longrightarrow> discreta (luego m f)"
  unfolding discreta_def by (erule deja_luego) (auto simp: solo_de_auth_def)

lemma discreta_intenta:
  "discreta m \<Longrightarrow> (\<And>e. solo_de_auth (Inl e :: 'a resultado) \<Longrightarrow> discreta (h e)) \<Longrightarrow> discreta (intenta (m :: 'a accion) h)"
  unfolding discreta_def by (erule deja_intenta) (auto simp: solo_de_auth_def)

lemma discreta_final: "discreta m \<Longrightarrow> discreta f \<Longrightarrow> discreta (finalmente m f)"
  unfolding discreta_def deja_def finalmente_def
  by (auto simp: solo_de_auth_def split: prod.splits sum.splits)

lemma discreta_callada: "discreta m \<Longrightarrow> callada m"
  unfolding discreta_def callada_def by (erule deja_mas) auto

lemma discreta_basicas:
  "discreta (devuelve x)" "discreta ahora" "discreta hay_cliente" "discreta (duerme ms)" "discreta lee_tokens" "discreta (pon_tokens f)"
  "discreta (anota_envio q resp)" "discreta (lanza (RuntimeError msg))" "discreta (lanza (ValueError msg))"
  "discreta token_actual" "discreta is_access_token_valid" "discreta is_refresh_token_valid"
  unfolding token_actual_def is_access_token_valid_def is_refresh_token_valid_def
  by (auto simp: discreta_def deja_def solo_de_auth_def devuelve_def ahora_def hay_cliente_def duerme_def lee_tokens_def pon_tokens_def
      anota_envio_def lanza_def luego_def)

lemma discreta_lanza: "solo_de_auth (Inl e :: 'a resultado) \<Longrightarrow> discreta (lanza e :: 'a accion)"
  by (simp add: discreta_def deja_def lanza_def)

lemma discreta_cmd: "(\<And>r. solo_de_auth (fst (g r))) \<Longrightarrow> discreta (redis_cmd g)"
  by (auto simp: discreta_def deja_def redis_cmd_def solo_de_auth_def Let_def split: list.splits falla.splits)

lemmas discretas = discreta_luego discreta_intenta discreta_final discreta_basicas

lemma discreta_registro:
  "discreta load_from_redis" "discreta save_to_redis" "discreta (invalidar_token_compartido t)"
  "discreta (acquire_distributed_lock c)" "discreta (release_distributed_lock c)"
  unfolding load_from_redis_def load_local_from_dict_def pon_fecha_def save_to_redis_def invalidar_token_compartido_def
    acquire_distributed_lock_def release_distributed_lock_def
  by (auto intro!: discretas discreta_cmd split: option.split crudo.split json.split fecha_iso.split
      simp: guarda_registro_def invalidate_if_matches_lua_def como_cmd_def set_nx_lock_def release_lock_lua_def solo_de_auth_def)

lemma discreta_resultado: "solo_de_auth x \<Longrightarrow> discreta (o_lanza x)"
  unfolding o_lanza_def by (cases x) (auto intro!: discreta_basicas discreta_lanza simp: solo_de_auth_def)

lemma discreta_candado: "discreta m \<Longrightarrow> discreta (con_candado_local m)"
  unfolding discreta_def deja_def con_candado_local_def by (auto split: list.splits)

lemma discreta_flujo:
  assumes h: "\<And>q. discreta (ca_http c q)" and i: "\<And>s. solo_de_auth (ca_instante c s)"
  shows "discreta (async_auth_flow c q)"
proof -
  have firma: "solo_de_auth (get_signature hm k m u v f)" for hm k m u v f
    by (auto simp: solo_de_auth_def get_signature_def file_transfer_sign_def split: if_splits json.splits)
  have e: "discreta (envia c q)" for q
    unfolding discreta_def deja_def
  proof (intro allI impI)
    fix w x w' assume 1: "envia c q w = (x, w')"
    obtain y w1 where 2: "ca_http c q w = (y, w1)" by (cases "ca_http c q w")
    with 1 have "x = y" "w_bitacora w' = w_bitacora w1"
      by (cases y; auto simp: envia_def luego_def intenta_def devuelve_def lanza_def anota_envio_def)+
    with h [of q] 2 show "\<exists>t. w_bitacora w' = w_bitacora w @ t \<and> t = [] \<and> solo_de_auth x"
      by (auto simp: discreta_def deja_def)
  qed
  have p: "discreta (pide_tokens c ep d)" for ep d
    unfolding pide_tokens_def by (intro discreta_luego discreta_resultado firma e)
  have x: "solo_de_auth (exp_de c d)" for d
    using i by (auto simp: exp_de_def fromtimestamp_def solo_de_auth_def split: option.splits json.splits)
  have w: "discreta (lanza (envolver_error t))" for t by (rule discreta_lanza) (auto simp: solo_de_auth_def envolver_error_def)
  have s: "discreta (lanza error_sin_get)" "discreta (lanza (ValueError v))" for v by (auto simp: error_sin_get_def intro!: discreta_basicas)
  have g: "discreta (guarda_respuesta c f body)" "discreta (raise_for_status c st)" for f body st
    unfolding guarda_respuesta_def response_json_def save_tokens_local_def jwt_decode_def raise_for_status_def
    by (auto intro!: discretas discreta_resultado x w s discreta_lanza split: option.split json.split
        simp: solo_de_auth_def envolver_error_def)
  have l: "discreta (login c)" "discreta (refresh_access_token c)"
    unfolding login_def refresh_access_token_def by (auto intro!: discretas p g s)
  have d: "discreta (renovar_token_directo_local c)" "discreta (con_el_lock c)"
    unfolding renovar_token_directo_local_def con_el_lock_def
    by (auto intro!: discretas discreta_registro l split: option.split)
  have "discreta (renovar_hasta (lanza (RuntimeError v)) c dl n)" for v dl n
    by (induction n) (auto intro!: discretas discreta_registro d)
  then have u: "discreta (get_valid_token_unlocked c)"
    unfolding get_valid_token_unlocked_def renovar_token_coordinado_def
    by (auto intro!: discretas discreta_registro d)
  then have v: "discreta (get_valid_token c)"
    unfolding get_valid_token_def by (auto intro!: discretas discreta_candado)
  have r: "discreta (recupera_401 c t q1 ep p f)" for t q1 ep p f
    unfolding recupera_401_def by (auto intro!: discretas discreta_registro u discreta_resultado firma)
  have h2: "solo_de_auth (preparar_headers_y_firma c q)" for q
  proof -
    have l: "solo_de_auth (ligar x g)" if "solo_de_auth x" "\<And>y. solo_de_auth (g y)" for x :: "string resultado" and g :: "string \<Rightarrow> (solicitud \<times> string \<times> json \<times> bool) resultado"
      using that by (cases x) (auto simp: solo_de_auth_def)
    have si: "solo_de_auth (if b then x else y)" if "solo_de_auth x" "solo_de_auth y"
      for b and x y :: "(solicitud \<times> string \<times> json \<times> bool) resultado"
      using that by simp
    have bien: "solo_de_auth (Inr y)" for y :: "solicitud \<times> string \<times> json \<times> bool" by (simp add: solo_de_auth_def)
    show ?thesis
      unfolding preparar_headers_y_firma_def Let_def case_prod_beta by (intro si l firma bien)
  qed
  have rec: "discreta (luego (recupera_401 c t q1 ep p f) (\<lambda>otra. case otra of None \<Rightarrow> devuelve resp | Some q2 \<Rightarrow> envia c q2))"
    for t q1 ep p f resp
    by (rule discreta_luego [OF r]) (auto intro: discreta_basicas(1) e split: option.split)
  have "discreta (luego (get_valid_token c) (\<lambda>token. luego (o_lanza (preparar_headers_y_firma c (con_credenciales c token q)))
      (\<lambda>(q1, ep, payload, is_file). luego (envia c q1) (\<lambda>resp. if fst resp \<noteq> 401 then devuelve resp
         else con_candado_local (luego (recupera_401 c token q1 ep payload is_file)
            (\<lambda>otra. case otra of None \<Rightarrow> devuelve resp | Some q2 \<Rightarrow> envia c q2))))))"
    unfolding case_prod_beta
    by (rule discreta_luego [OF v], rule discreta_luego [OF discreta_resultado [OF h2]], rule discreta_luego [OF e])
      (simp add: discreta_basicas(1) discreta_candado [OF rec])
  then show ?thesis by (simp add: async_auth_flow_def e)
qed

text \<open>
  C40. The authenticated client is what the rest of the program takes for the HTTP library: it writes nothing in the log, moves the database
  only by legal steps of the queue machine, does not add to the checkpoint of a case, and the only error of the SFC it raises of its own is
  that of the authentication, never a duplicate file. So the properties of the dispatch, of the attachments and of the batches hold with the
  authentication in place, when the transport below keeps the same.
\<close>

theorem el_cliente_autenticado_cumple:
  assumes "\<And>q. discreta (ca_http c q)" "\<And>s. solo_de_auth (ca_instante c s)"
    and "\<And>q. respeta paso_cola\<^sup>*\<^sup>* (ca_http c q)" "\<And>q. respeta (sin_marcar k) (ca_http c q)"
  shows "sfc_ajeno paso_cola\<^sup>*\<^sup>* (con_autenticacion c arma cl) \<and> http_bueno k (con_autenticacion c arma cl)"
proof -
  have d: "discreta (async_auth_flow c q)" for q by (rule discreta_flujo [OF assms(1,2)])
  have "error_type e \<noteq> ''DUPLICATE_FILE''" if "fst (async_auth_flow c q w) = Inl (SfcIntegrationException e)" for q w e
    using d [of q] that unfolding discreta_def deja_def solo_de_auth_def
    by (cases "async_auth_flow c q w") fastforce
  then show ?thesis
    using discreta_callada [OF d] lcola.flujo_libre [OF assms(3)] lmarca.flujo_libre [OF assms(4)]
    by (auto simp: sfc_ajeno_def ajena_def http_bueno_def con_autenticacion_def)
qed

lemma el_cliente_autenticado_cumple_testigo:
  "sfc_ajeno paso_cola\<^sup>*\<^sup>* (con_autenticacion auth_ej (\<lambda>p. peticion_ej\<lparr>so_url := url_de p\<rparr>) sfc_ej)
   \<and> http_bueno ''A1'' (con_autenticacion auth_ej (\<lambda>p. peticion_ej\<lparr>so_url := url_de p\<rparr>) sfc_ej)"
  by (rule el_cliente_autenticado_cumple)
    (simp_all add: auth_ej_def sfc_de_prueba_def discreta_basicas solo_de_auth_def gcola.devuelve gmarca.devuelve)

end
