(* ===== verification/Acceso.thy ===== *)
theory Acceso
  imports Candado
begin

text \<open>
  \<^verbatim>\<open>app/api/dependencies.py\<close>: the API keys of the administration and of the CRM, and the rate limit of the CRM, a counter in
  Redis per key and window of time. An \<^verbatim>\<open>HTTPException\<close> keeps its status and its error type (or its text).
\<close>

record cfg_acceso =
  ac_admin_key :: string
  ac_crm_key :: string
  ac_limite_activo :: bool
  ac_ventana :: int
  ac_maximo :: nat

subsection \<open>API keys\<close>

definition isascii :: "string \<Rightarrow> bool" where
  "isascii s = list_all (\<lambda>c. of_char c < (128 :: nat)) s"

text \<open>\<^verbatim>\<open>secrets.compare_digest\<close> on two strings.\<close>

definition compare_digest :: "string \<Rightarrow> string \<Rightarrow> bool resultado" where
  "compare_digest a b = (if isascii a \<and> isascii b then Inr (a = b) else Inl (TypeError ''ASCII''))"

definition verificar_api_key :: "string \<Rightarrow> string \<Rightarrow> string \<Rightarrow> string resultado" where
  "verificar_api_key configurada mensaje x_api_key =
     (if x_api_key = [] then Inl (HTTPException 401 ''Cabecera X-API-Key faltante.'')
      else if \<not> isascii x_api_key then Inl (HTTPException 401 mensaje)
      else case compare_digest x_api_key configurada of
             Inl e \<Rightarrow> Inl e
           | Inr b \<Rightarrow> if b then Inr x_api_key else Inl (HTTPException 401 mensaje))"

definition verificar_api_key_admin :: "cfg_acceso \<Rightarrow> string \<Rightarrow> string resultado" where
  "verificar_api_key_admin c x =
     verificar_api_key (ac_admin_key c) (''API Key administrativa inv'' @ con_tilde CHR ''a'' @ ''lida o no autorizada.'') x"

definition verificar_api_key_crm :: "cfg_acceso \<Rightarrow> string \<Rightarrow> string resultado" where
  "verificar_api_key_crm c x =
     verificar_api_key (ac_crm_key c) (''API Key inv'' @ con_tilde CHR ''a'' @ ''lida o no autorizada.'') x"

subsection \<open>Rate limit\<close>

text \<open>\<^verbatim>\<open>INCR\<close> and \<^verbatim>\<open>EXPIRE\<close> of a counter: a new counter has no expiry.\<close>

definition cuota :: "redis \<Rightarrow> string \<Rightarrow> nat" where
  "cuota r k =
     (case r_cuota r k of
        None \<Rightarrow> 0
      | Some (n, None) \<Rightarrow> n
      | Some (n, Some e) \<Rightarrow> if reloj r < e then n else 0)"

definition incr :: "string \<Rightarrow> nat guion" where
  "incr k r =
     (let n = cuota r k + 1;
          e = (if cuota r k = 0 then None else (case r_cuota r k of None \<Rightarrow> None | Some (_, e) \<Rightarrow> e))
      in (Inr n, r\<lparr>r_cuota := (r_cuota r)(k := Some (n, e))\<rparr>))"

definition expire_cuota :: "int \<Rightarrow> string \<Rightarrow> unit guion" where
  "expire_cuota segundos k r =
     (Inr (), if cuota r k = 0 then r
              else r\<lparr>r_cuota := (r_cuota r)(k := Some (cuota r k, Some (reloj r + 1000 * segundos)))\<rparr>)"

definition ratelimit_prefix :: string where "ratelimit_prefix = ''{sfc:ratelimit}''"

definition clave_cuota :: "string \<Rightarrow> int \<Rightarrow> string" where
  "clave_cuota x_api_key ventana = ratelimit_prefix @ '':'' @ x_api_key @ '':'' @ str_int ventana"

text \<open>\<^verbatim>\<open>int(time.time() // W)\<close>\<close>

definition ventana_actual :: "cfg_acceso \<Rightarrow> int \<Rightarrow> int" where
  "ventana_actual c t = t div (1000 * ac_ventana c)"

definition limite_excedido :: excepcion where
  "limite_excedido = HTTPException 429 ''RATE_LIMIT_EXCEEDED''"

definition verificar_rate_limit_crm :: "cfg_acceso \<Rightarrow> string \<Rightarrow> unit accion" where
  "verificar_rate_limit_crm c x_api_key =
     (if \<not> ac_limite_activo c then devuelve ()
      else luego hay_cliente (\<lambda>hay.
        if \<not> hay then devuelve ()
        else luego ahora (\<lambda>t.
          if ac_ventana c = 0 then lanza (RuntimeError ''ZeroDivisionError'')
          else let k = clave_cuota x_api_key (ventana_actual c t)
               in luego
                    (intenta
                       (luego (redis_cmd (incr k)) (\<lambda>conteo.
                          luego (if conteo = 1 then redis_cmd (expire_cuota (ac_ventana c) k) else devuelve ())
                            (\<lambda>_. devuelve (Some conteo))))
                       (\<lambda>_. devuelve None))
                    (\<lambda>r. case r of
                       None \<Rightarrow> devuelve ()
                     | Some conteo \<Rightarrow> if ac_maximo c < conteo then lanza limite_excedido else devuelve ()))))"

text \<open>The dependencies of a request of the CRM: the key, and then its quota.\<close>

definition entra_crm :: "cfg_acceso \<Rightarrow> string \<Rightarrow> unit accion" where
  "entra_crm c x =
     (case verificar_api_key_crm c x of Inl e \<Rightarrow> lanza e | Inr k \<Rightarrow> verificar_rate_limit_crm c k)"

end
