(* ===== verification/Acceso_Propiedades.thy ===== *)
theory Acceso_Propiedades
  imports Acceso Precondiciones
begin

text \<open>
  What the dependencies of \<^verbatim>\<open>app/api/dependencies.py\<close> guarantee: a request enters only with the configured key, and in a window of time
  a key is not let through more often than its quota, whatever the other processes count in the meantime.
\<close>

lemma clave_configurada:
  "verificar_api_key k m x = Inr y \<longleftrightarrow> x = k \<and> y = x \<and> x \<noteq> [] \<and> isascii x"
  by (auto simp: verificar_api_key_def compare_digest_def)

lemma clave_rechazada:
  "isascii k \<Longrightarrow> verificar_api_key k m x = Inl e \<Longrightarrow> \<exists>t. e = HTTPException 401 t"
  by (auto simp: verificar_api_key_def compare_digest_def split: if_splits)

subsection \<open>The counter of a window\<close>

text \<open>Until the end of the window the counter does not go down, and it does not expire before.\<close>

definition dura :: "string \<Rightarrow> int \<Rightarrow> redis \<Rightarrow> bool" where
  "dura k fin r = (case r_cuota r k of Some (n, Some e) \<Rightarrow> fin \<le> e | _ \<Rightarrow> True)"

definition sube_cuota :: "string \<Rightarrow> int \<Rightarrow> redis \<Rightarrow> redis \<Rightarrow> bool" where
  "sube_cuota k fin r s =
     (reloj r \<le> reloj s \<and> (dura k fin r \<longrightarrow> dura k fin s \<and> (reloj s < fin \<longrightarrow> cuota r k \<le> cuota s k)))"

interpretation gcuota: garantia "sube_cuota k fin" for k fin
proof unfold_locales
  fix r s t :: redis and d :: int
  show "sube_cuota k fin r r" by (simp add: sube_cuota_def)
  show "sube_cuota k fin r t" if "sube_cuota k fin r s" "sube_cuota k fin s t"
    using that by (auto simp: sube_cuota_def)
  show "sube_cuota k fin r (r\<lparr>reloj := reloj r + d\<rparr>)" if "0 \<le> d"
    using that by (auto simp: sube_cuota_def dura_def cuota_def split: option.splits)
qed

lemma incr_cuenta:
  "fst (incr k r) = Inr (cuota r k + 1)" "reloj (snd (incr k r)) = reloj r"
  "dura k fin r \<Longrightarrow> dura k fin (snd (incr k r))"
  "cuota (snd (incr k r)) k = cuota r k + 1"
  by (auto simp: incr_def Let_def cuota_def dura_def split: option.splits prod.splits if_splits)

lemma expire_cuenta:
  "fst (expire_cuota s k r) = Inr ()" "reloj (snd (expire_cuota s k r)) = reloj r"
  "dura k fin r \<Longrightarrow> fin \<le> reloj r + 1000 * s \<Longrightarrow> dura k fin (snd (expire_cuota s k r))"
  "0 < s \<Longrightarrow> cuota (snd (expire_cuota s k r)) k = cuota r k"
  by (auto simp: expire_cuota_def cuota_def dura_def split: option.splits if_splits)

definition fin_ventana :: "cfg_acceso \<Rightarrow> int \<Rightarrow> int" where
  "fin_ventana c v = (v + 1) * (1000 * ac_ventana c)"

lemma ventana_intervalo:
  assumes "0 < ac_ventana c"
  shows "ventana_actual c t * (1000 * ac_ventana c) \<le> t" "t < fin_ventana c (ventana_actual c t)"
proof -
  have p: "0 < 1000 * ac_ventana c" using assms by simp
  have q: "t div (1000 * ac_ventana c) * (1000 * ac_ventana c) + t mod (1000 * ac_ventana c) = t" by (rule div_mult_mod_eq)
  show "ventana_actual c t * (1000 * ac_ventana c) \<le> t"
    using q pos_mod_sign [OF p, of t] unfolding ventana_actual_def by linarith
  show "t < fin_ventana c (ventana_actual c t)"
    using q pos_mod_bound [OF p, of t] unfolding ventana_actual_def fin_ventana_def distrib_right by linarith
qed

lemma ventana_misma:
  assumes "0 < ac_ventana c" "v * (1000 * ac_ventana c) \<le> t" "t < fin_ventana c v"
  shows "ventana_actual c t = v"
proof -
  have p: "0 < 1000 * ac_ventana c" using assms(1) by simp
  have "t < v * (1000 * ac_ventana c) + 1000 * ac_ventana c"
    using assms(3) unfolding fin_ventana_def distrib_right by simp
  then have "0 \<le> t - v * (1000 * ac_ventana c)" "t - v * (1000 * ac_ventana c) < 1000 * ac_ventana c"
    using assms(2) by linarith+
  then have "(t - v * (1000 * ac_ventana c)) div (1000 * ac_ventana c) = 0" by (rule div_pos_pos_trivial)
  moreover have "t div (1000 * ac_ventana c) = v + (t - v * (1000 * ac_ventana c)) div (1000 * ac_ventana c)"
    using div_mult_self1 [of "1000 * ac_ventana c" "t - v * (1000 * ac_ventana c)" v] p by simp
  ultimately show ?thesis by (simp add: ventana_actual_def)
qed

subsection \<open>A request\<close>

text \<open>What one request does to the counter, when Redis answers and the window does not end: its number is above the count it found.\<close>

definition contada :: "nat \<Rightarrow> string \<Rightarrow> int \<Rightarrow> mundo \<Rightarrow> unit resultado \<Rightarrow> mundo \<Rightarrow> bool" where
  "contada m k fin w y w' =
     (reloj (w_redis w) \<le> reloj (w_redis w') \<and> dura k fin (w_redis w') \<and> set (w_turnos w') \<subseteq> set (w_turnos w)
      \<and> w_cliente w' = w_cliente w
      \<and> (reloj (w_redis w') < fin \<longrightarrow>
           (\<exists>n > cuota (w_redis w) k. y = (if n \<le> m then Inr () else Inl limite_excedido) \<and> n \<le> cuota (w_redis w') k
              \<and> (w_turnos w = [] \<longrightarrow> n = cuota (w_redis w) k + 1 \<and> cuota (w_redis w') k = n))))"

lemma contadaI:
  assumes d: "dura k fin (w_redis w)" and r: "sube_cuota k fin (w_redis w) r" "sube_cuota k fin (snd (incr k r)) r'"
    and nadie: "w_turnos w = [] \<Longrightarrow> r = w_redis w \<and> r' = snd (incr k r)"
    and s: "reloj s = reloj r'" "dura k fin r' \<Longrightarrow> dura k fin s" "cuota s k = cuota r' k"
    and ts: "set ts \<subseteq> set (w_turnos w)" and n: "n = cuota r k + 1"
  shows "contada m k fin w (if n \<le> m then Inr () else Inl limite_excedido) (w\<lparr>w_redis := s, w_turnos := ts\<rparr>)"
proof -
  have dr: "dura k fin r" "dura k fin (snd (incr k r))" using d r(1) incr_cuenta(3) by (auto simp: sube_cuota_def)
  have t: "reloj (w_redis w) \<le> reloj r" "reloj r \<le> reloj r'" using r by (auto simp: sube_cuota_def incr_cuenta)
  have "cuota (w_redis w) k \<le> cuota r k" "cuota r k + 1 \<le> cuota r' k" if "reloj r' < fin"
    using r d dr that t by (auto simp: sube_cuota_def incr_cuenta)
  moreover have "cuota r' k = cuota (w_redis w) k + 1" "cuota r k = cuota (w_redis w) k" if "w_turnos w = []"
    using nadie [OF that] by (simp_all add: incr_cuenta)
  moreover have "dura k fin s" using s(2) r(2) dr(2) by (auto simp: sube_cuota_def)
  ultimately show ?thesis using s ts t n unfolding contada_def by (auto intro!: exI [of _ n])
qed

lemma verificar_cuenta:
  assumes c: "ac_limite_activo c" "0 < ac_ventana c" "w_cliente w" "calmo w"
    and v: "v * (1000 * ac_ventana c) \<le> reloj (w_redis w)" "reloj (w_redis w) < fin_ventana c v"
    and k: "k = clave_cuota x v" "fin = fin_ventana c v"
    and e: "entorno (sube_cuota k fin) w" "dura k fin (w_redis w)"
  shows "wp (verificar_rate_limit_crm c x) (contada (ac_maximo c) k fin w) w"
proof -
  have vent: "ventana_actual c (reloj (w_redis w)) = v" by (rule ventana_misma [OF c(2) v])
  have ttl: "fin \<le> reloj r + 1000 * ac_ventana c" if "reloj (w_redis w) \<le> reloj r" for r
    using that v(1) unfolding k(2) fin_ventana_def distrib_right by simp
  have nz: "ac_ventana c \<noteq> 0" using c(2) by simp
  have fin: "contada (ac_maximo c) k fin w (if n \<le> ac_maximo c then Inr () else Inl limite_excedido) w'"
    if "w' = w\<lparr>w_redis := snd (incr k r), w_turnos := ts\<rparr>" "n = cuota r k + 1"
      "sube_cuota k fin (w_redis w) r" "w_turnos w = [] \<Longrightarrow> r = w_redis w" "set ts \<subseteq> set (w_turnos w)" for w' n r ts
    unfolding that(1) by (rule contadaI [OF e(2) that(3) gcuota.nada]) (use that in auto)
  have fin': "contada (ac_maximo c) k fin w (if n \<le> ac_maximo c then Inr () else Inl limite_excedido) w'"
    if "w' = w\<lparr>w_redis := snd (expire_cuota (ac_ventana c) k r'), w_turnos := us\<rparr>" "n = cuota r k + 1"
      "sube_cuota k fin (w_redis w) r" "sube_cuota k fin (snd (incr k r)) r'"
      "w_turnos w = [] \<Longrightarrow> r = w_redis w \<and> r' = snd (incr k r)" "set us \<subseteq> set (w_turnos w)" for w' n r r' us
  proof -
    have "reloj (w_redis w) \<le> reloj r'" using that(3,4) by (auto simp: sube_cuota_def incr_cuenta)
    from ttl [OF this] show ?thesis
      unfolding that(1) by (intro contadaI [OF e(2) that(3,4)]) (use that c(2) in \<open>auto simp: expire_cuenta\<close>)
  qed
  let ?p = "\<lambda>n. if n \<le> ac_maximo c then Inr () else Inl limite_excedido"
  let ?seguir = "\<lambda>n w'. contada (ac_maximo c) k fin w (?p n) w'"
  have uno: "wp (redis_cmd (expire_cuota (ac_ventana c) k)) (\<lambda>x w'. x = Inr () \<and> ?seguir 1 w')
        (w\<lparr>w_redis := snd (incr k r), w_turnos := ts\<rparr>)"
    if "sube_cuota k fin (w_redis w) r" "w_turnos w = [] \<Longrightarrow> r = w_redis w" "set ts \<subseteq> set (w_turnos w)" "cuota r k = 0" for r ts
  proof (rule wp_redis_bien [OF entorno_resto [OF e(1) that(3)] gcuota.nada calmo_resto [OF c(4) that(3)]], intro conjI)
    fix r' us assume 1: "sube_cuota k fin (w_redis (w\<lparr>w_redis := snd (incr k r), w_turnos := ts\<rparr>)) r'"
      "set us \<subseteq> set (w_turnos (w\<lparr>w_redis := snd (incr k r), w_turnos := ts\<rparr>))"
      "w_turnos (w\<lparr>w_redis := snd (incr k r), w_turnos := ts\<rparr>) = [] \<Longrightarrow> r' = w_redis (w\<lparr>w_redis := snd (incr k r), w_turnos := ts\<rparr>)"
    show "?seguir 1 (w\<lparr>w_redis := snd (incr k r), w_turnos := ts, w_redis := snd (expire_cuota (ac_ventana c) k r'), w_turnos := us\<rparr>)"
      by (rule fin' [OF _ _ that(1) 1(1) [simplified] _ order_trans [OF 1(2) [simplified] that(3)]]) (use that 1 in auto)
  qed (simp add: expire_cuenta)
  have "wp (redis_cmd (incr k)) (\<lambda>x w'. case x of Inl e \<Rightarrow> False | Inr n \<Rightarrow>
      (if n = 1 then wp (redis_cmd (expire_cuota (ac_ventana c) k)) (\<lambda>x w'. x = Inr () \<and> ?seguir 1 w') w' else ?seguir n w')) w"
  proof (rule wp_redis_bien [OF e(1) gcuota.nada c(4)])
    fix r ts assume 1: "sube_cuota k fin (w_redis w) r" "set ts \<subseteq> set (w_turnos w)" "w_turnos w = [] \<Longrightarrow> r = w_redis w"
    show "case fst (incr k r) of Inl e \<Rightarrow> False | Inr n \<Rightarrow>
      (if n = 1 then wp (redis_cmd (expire_cuota (ac_ventana c) k)) (\<lambda>x w'. x = Inr () \<and> ?seguir 1 w') (w\<lparr>w_redis := snd (incr k r), w_turnos := ts\<rparr>)
       else ?seguir n (w\<lparr>w_redis := snd (incr k r), w_turnos := ts\<rparr>))"
      using uno [OF 1(1,3,2)] fin [OF refl refl 1(1,3,2)] by (auto simp: incr_cuenta)
  qed
  then have "wp (luego (redis_cmd (incr k)) (\<lambda>conteo.
        luego (if conteo = 1 then redis_cmd (expire_cuota (ac_ventana c) k) else devuelve ()) (\<lambda>_. devuelve (Some conteo))))
      (\<lambda>y w'. \<exists>n. y = Inr (Some n) \<and> ?seguir n w') w"
    unfolding wp_luego
    by (rule wp_mas) (auto split: sum.splits if_splits elim: wp_mas)
  then have "wp (intenta (luego (redis_cmd (incr k)) (\<lambda>conteo.
        luego (if conteo = 1 then redis_cmd (expire_cuota (ac_ventana c) k) else devuelve ()) (\<lambda>_. devuelve (Some conteo))))
        (\<lambda>_. devuelve None)) (\<lambda>y w'. \<exists>n. y = Inr (Some n) \<and> ?seguir n w') w"
    unfolding wp_intenta by (rule wp_mas) (auto split del: if_split)
  then have "wp (luego (intenta (luego (redis_cmd (incr k)) (\<lambda>conteo.
        luego (if conteo = 1 then redis_cmd (expire_cuota (ac_ventana c) k) else devuelve ()) (\<lambda>_. devuelve (Some conteo))))
        (\<lambda>_. devuelve None))
        (\<lambda>r. case r of None \<Rightarrow> devuelve () | Some conteo \<Rightarrow> if ac_maximo c < conteo then lanza limite_excedido else devuelve ()))
      (contada (ac_maximo c) k fin w) w"
    unfolding wp_luego [of "intenta m h" for m h] by (rule wp_mas) (auto split: if_splits)
  then show ?thesis
    unfolding verificar_rate_limit_crm_def Let_def
    using c nz vent k(1) by (simp add: luego_def [of ahora] luego_def [of hay_cliente] ahora_def hay_cliente_def wp_def cong: if_cong)
qed

subsection \<open>A burst of requests\<close>

text \<open>Requests of one key, each after a pause; the value says which were let through.\<close>

definition rafaga :: "cfg_acceso \<Rightarrow> string \<Rightarrow> int list \<Rightarrow> bool list accion" where
  "rafaga c x pausas =
     para_cada (\<lambda>d. luego (duerme d) (\<lambda>_. intenta (luego (entra_crm c x) (\<lambda>_. devuelve True)) (\<lambda>e. devuelve False))) pausas"

lemma paso_rafaga:
  assumes c: "ac_limite_activo c" "0 < ac_ventana c" "verificar_api_key_crm c x = Inr x"
    and k: "k = clave_cuota x v" "fin = fin_ventana c v"
    and w: "w_cliente w" "calmo w" "entorno (sube_cuota k fin) w" "dura k fin (w_redis w)" "v * (1000 * ac_ventana c) \<le> reloj (w_redis w)"
    and p: "luego (duerme d) (\<lambda>_. intenta (luego (entra_crm c x) (\<lambda>_. devuelve True)) (\<lambda>e. devuelve False)) w = (y, w')"
    and t: "reloj (w_redis w) + max 0 d < fin"
  shows "\<exists>b. y = Inr b \<and> reloj (w_redis w) \<le> reloj (w_redis w') \<and> dura k fin (w_redis w') \<and> set (w_turnos w') \<subseteq> set (w_turnos w)
    \<and> w_cliente w'
    \<and> (reloj (w_redis w') < fin \<longrightarrow>
        (\<exists>n > cuota (w_redis w) k. b = (n \<le> ac_maximo c) \<and> n \<le> cuota (w_redis w') k
           \<and> (w_turnos w = [] \<longrightarrow> n = cuota (w_redis w) k + 1 \<and> cuota (w_redis w') k = n)))"
proof -
  let ?w = "w\<lparr>w_redis := avanza d (w_redis w)\<rparr>"
  have av: "sube_cuota k fin (w_redis w) (avanza d (w_redis w))" unfolding avanza_def by (rule gcuota.tiempo) simp
  have cu: "cuota (avanza d (w_redis w)) k = cuota (w_redis w) k"
    using w(4) t by (auto simp: cuota_def avanza_def dura_def split: option.splits)
  have "wp (verificar_rate_limit_crm c x) (contada (ac_maximo c) k fin ?w) ?w"
    by (rule verificar_cuenta [OF c(1,2) _ _ _ _ k])
      (use w t av in \<open>auto simp: avanza_def calmo_def entorno_def sube_cuota_def k(2)\<close>)
  then obtain z w1 where z: "verificar_rate_limit_crm c x ?w = (z, w1)" "contada (ac_maximo c) k fin ?w z w1"
    by (cases "verificar_rate_limit_crm c x ?w") (auto dest: wpD)
  have "w' = w1" "y = Inr (case z of Inl _ \<Rightarrow> False | Inr _ \<Rightarrow> True)"
    using p z(1) by (auto simp: luego_def intenta_def duerme_def entra_crm_def c devuelve_def split: sum.splits)
  with z(2) av show ?thesis
    by (auto simp: contada_def cu w(1) sube_cuota_def split: sum.splits if_splits)
qed

lemma reloj_rafaga:
  "respeta avanza_reloj (entra_crm c x)"
  "respeta avanza_reloj (rafaga c x pausas)"
proof -
  have r: "respeta avanza_reloj (redis_cmd (incr k))" "respeta avanza_reloj (redis_cmd (expire_cuota s k))" for k s
    by (rule greloj.redis_cmd, simp add: avanza_reloj_def incr_cuenta expire_cuenta)+
  have v: "respeta avanza_reloj (verificar_rate_limit_crm c x)" for x
    unfolding verificar_rate_limit_crm_def Let_def
    by (auto intro!: greloj.reglas r split: option.split)
  show 0: "respeta avanza_reloj (entra_crm c x)"
    unfolding entra_crm_def by (auto intro!: greloj.reglas v split: sum.split)
  have 1: "respeta avanza_reloj (luego (duerme d) (\<lambda>_. intenta (luego (entra_crm c x) (\<lambda>_. devuelve True)) (\<lambda>e. devuelve False)))" for d
    by (auto intro!: greloj.reglas 0)
  show "respeta avanza_reloj (rafaga c x pausas)" unfolding rafaga_def by (rule greloj.para_cada) (rule 1)
qed

lemma entorno_cuota_reloj: "entorno (sube_cuota k fin) w \<Longrightarrow> entorno avanza_reloj w"
  by (auto simp: entorno_def sube_cuota_def avanza_reloj_def)

lemma reloj_burst:
  assumes "entorno avanza_reloj w" "rafaga c x (d # ds) w = (y, w')"
  shows "reloj (w_redis w) + max 0 d \<le> reloj (w_redis w')"
proof -
  let ?w = "w\<lparr>w_redis := avanza d (w_redis w)\<rparr>"
  let ?m = "luego (intenta (luego (entra_crm c x) (\<lambda>_. devuelve True)) (\<lambda>e. devuelve False))
      (\<lambda>b. luego (rafaga c x ds) (\<lambda>bs. devuelve (b # bs)))"
  have m: "rafaga c x (d # ds) w = ?m ?w"
    by (simp add: rafaga_def luego_asoc) (simp add: luego_def [of "duerme d"] duerme_def)
  have "respeta avanza_reloj ?m"
    by (auto intro!: greloj.reglas reloj_rafaga)
  from respetaD(1) [OF this, of ?w] assms m show ?thesis
    by (simp add: avanza_reloj_def avanza_def entorno_def)
qed

lemma rafaga_cuenta:
  assumes c: "ac_limite_activo c" "0 < ac_ventana c" "verificar_api_key_crm c x = Inr x"
    and k: "k = clave_cuota x v" "fin = fin_ventana c v"
    and w: "w_cliente w" "calmo w" "entorno (sube_cuota k fin) w" "dura k fin (w_redis w)" "v * (1000 * ac_ventana c) \<le> reloj (w_redis w)"
    and r: "rafaga c x pausas w = (y, w')" "reloj (w_redis w') < fin"
  shows "\<exists>bs. y = Inr bs \<and> length bs = length pausas
    \<and> length (filter (\<lambda>b. b) bs) \<le> ac_maximo c - cuota (w_redis w) k
    \<and> (w_turnos w = [] \<longrightarrow> bs = map (\<lambda>i. cuota (w_redis w) k + i < ac_maximo c) [0..<length pausas])"
  using w r
proof (induction pausas arbitrary: w y)
  case Nil
  then show ?case by (simp add: rafaga_def devuelve_def)
next
  case (Cons d ds)
  let ?uno = "luego (duerme d) (\<lambda>_. intenta (luego (entra_crm c x) (\<lambda>_. devuelve True)) (\<lambda>e. devuelve False))"
  obtain z w1 where 1: "?uno w = (z, w1)" by (cases "?uno w")
  have "reloj (w_redis w) + max 0 d \<le> reloj (w_redis w')"
    using reloj_burst [OF entorno_cuota_reloj [OF Cons.prems(3)] Cons.prems(6)] .
  then have t: "reloj (w_redis w) + max 0 d < fin" using Cons.prems(7) by simp
  from paso_rafaga [OF c k Cons.prems(1-5) 1 t] obtain b where b: "z = Inr b" "reloj (w_redis w) \<le> reloj (w_redis w1)"
      "dura k fin (w_redis w1)" "set (w_turnos w1) \<subseteq> set (w_turnos w)" "w_cliente w1"
      "reloj (w_redis w1) < fin \<Longrightarrow> \<exists>n > cuota (w_redis w) k. b = (n \<le> ac_maximo c) \<and> n \<le> cuota (w_redis w1) k
          \<and> (w_turnos w = [] \<longrightarrow> n = cuota (w_redis w) k + 1 \<and> cuota (w_redis w1) k = n)" by blast
  have e1: "calmo w1" "entorno (sube_cuota k fin) w1" using Cons.prems(2,3) b(4) by (auto simp: calmo_def entorno_def)
  obtain z' where 2: "rafaga c x ds w1 = (z', w')"
    and y: "y = (case z' of Inl e \<Rightarrow> Inl e | Inr bs \<Rightarrow> Inr (b # bs))"
    using Cons.prems(6) 1 b(1) by (auto simp: rafaga_def luego_def devuelve_def split: prod.splits sum.splits)
  have "avanza_reloj (w_redis w1) (w_redis w')"
    using respetaD(1) [OF reloj_rafaga(2) entorno_cuota_reloj [OF e1(2)], of c x ds] 2 by simp
  then have r1: "reloj (w_redis w1) < fin" using Cons.prems(7) by (simp add: avanza_reloj_def)
  from b(6) [OF r1] obtain n where n: "cuota (w_redis w) k < n" "b = (n \<le> ac_maximo c)" "n \<le> cuota (w_redis w1) k"
      "w_turnos w = [] \<longrightarrow> n = cuota (w_redis w) k + 1 \<and> cuota (w_redis w1) k = n" by blast
  from Cons.IH [OF b(5) e1 b(3) _ 2 Cons.prems(7)] Cons.prems(5) b(2)
  obtain bs where bs: "z' = Inr bs" "length bs = length ds" "length (filter (\<lambda>b. b) bs) \<le> ac_maximo c - cuota (w_redis w1) k"
      "w_turnos w1 = [] \<Longrightarrow> bs = map (\<lambda>i. cuota (w_redis w1) k + i < ac_maximo c) [0..<length ds]" by auto
  have "b # bs = map (\<lambda>i. cuota (w_redis w) k + i < ac_maximo c) [0..<length (d # ds)]" if "w_turnos w = []"
    using bs(4) b(4) n(2,4) that
    by (simp add: upt_rec [of 0] map_Suc_upt [symmetric] Suc_le_eq comp_def del: upt_Suc)
  with y bs n show ?case by (auto simp: y)
qed

text \<open>
  C35. The quota of a window: while Redis answers and the window lasts, a burst of requests with the key of the CRM gets through
  at most as often as the quota had left, whatever the other processes count, and no request ends in an exception of its own.
  Alone, exactly the first ones get through, up to the quota.
\<close>

theorem cuota_por_ventana:
  assumes "ac_limite_activo c" "0 < ac_ventana c" "verificar_api_key_crm c x = Inr x"
    and "v = ventana_actual c (reloj (w_redis w))" "k = clave_cuota x v"
    and "w_cliente w" "calmo w" "entorno (sube_cuota k (fin_ventana c v)) w" "dura k (fin_ventana c v) (w_redis w)"
    and "rafaga c x pausas w = (y, w')" "reloj (w_redis w') < fin_ventana c v"
  shows "\<exists>bs. y = Inr bs \<and> length bs = length pausas
    \<and> length (filter (\<lambda>b. b) bs) \<le> ac_maximo c - cuota (w_redis w) k
    \<and> (w_turnos w = [] \<longrightarrow> bs = map (\<lambda>i. cuota (w_redis w) k + i < ac_maximo c) [0..<length pausas])"
proof -
  have "v * (1000 * ac_ventana c) \<le> reloj (w_redis w)" unfolding assms(4) by (rule ventana_intervalo [OF assms(2)])
  from rafaga_cuenta [OF assms(1-3,5) refl assms(6-9) this assms(10,11)] show ?thesis .
qed

definition acceso_ej :: cfg_acceso where
  "acceso_ej = \<lparr>ac_admin_key = ''admin'', ac_crm_key = ''clave'', ac_limite_activo = True, ac_ventana = 60, ac_maximo = 2\<rparr>"

lemma rafaga_ej:
  "\<exists>y w'. rafaga acceso_ej ''clave'' [1000, 0, 0] (mundo_ej redis_vacio []) = (y, w') \<and> reloj (w_redis w') = 1000"
  by (simp add: rafaga_def acceso_ej_def entra_crm_def verificar_api_key_crm_def verificar_api_key_def compare_digest_def isascii_def
      verificar_rate_limit_crm_def mundo_ej_def redis_vacio_def luego_def intenta_def duerme_def ahora_def hay_cliente_def devuelve_def
      lanza_def redis_cmd_def incr_def expire_cuota_def cuota_def avanza_def ventana_actual_def Let_def)

lemma cuota_por_ventana_testigo:
  "fst (rafaga acceso_ej ''clave'' [1000, 0, 0] (mundo_ej redis_vacio [])) = Inr [True, True, False]"
proof -
  obtain y w' where 1: "rafaga acceso_ej ''clave'' [1000, 0, 0] (mundo_ej redis_vacio []) = (y, w')" "reloj (w_redis w') = 1000"
    using rafaga_ej by blast
  have h: "verificar_api_key_crm acceso_ej ''clave'' = Inr ''clave''" "ac_limite_activo acceso_ej" "0 < ac_ventana acceso_ej"
      "w_cliente (mundo_ej redis_vacio [])" "calmo (mundo_ej redis_vacio [])" "w_turnos (mundo_ej redis_vacio []) = []"
      "reloj (w_redis (mundo_ej redis_vacio [])) = 0" "cuota (w_redis (mundo_ej redis_vacio [])) k = 0"
      "entorno R (mundo_ej redis_vacio [])" "dura k fin (w_redis (mundo_ej redis_vacio []))" for k fin R
    by (simp_all add: verificar_api_key_crm_def clave_configurada acceso_ej_def isascii_def mundo_ej_def calmo_def redis_vacio_def
        cuota_def entorno_def dura_def)
  have f: "reloj (w_redis w') < fin_ventana acceso_ej (ventana_actual acceso_ej (reloj (w_redis (mundo_ej redis_vacio []))))"
    by (simp add: 1(2) h(7) fin_ventana_def ventana_actual_def acceso_ej_def)
  from cuota_por_ventana [OF h(2,3,1) refl refl h(4,5,9,10) 1(1) f] show ?thesis
    by (simp add: 1(1) h(6,8)) (simp add: acceso_ej_def upt_rec)
qed

end
