(* ===== verification/Spec2Isabelle.thy ===== *)
theory Spec2Isabelle
  imports Momentos_Propiedades Esquema_Mapeo Cliente_Propiedades Entrega_Propiedades Alertas_Propiedades
    Autenticacion_Cliente Acceso_Propiedades
begin

text \<open>
  \<^bold>\<open>The program.\<close> MS-integracion-smartsupervision is a FastAPI service and a worker between a CRM
  (Salesforce) and SmartSupervision, the complaint system of the Colombian regulator (SFC). The CRM posts a
  complaint to \<^verbatim>\<open>/despachar\<close>; the service checks an idempotency record, takes the lock of the case,
  translates the payload and calls the SFC (Momento 2: a new complaint; Momento 3: follow-up, fraud,
  closing). When the SFC does not answer, the complaint goes to a queue in Redis, the CRM gets a 202, and the
  scheduler of the worker retries until the SFC accepts it and then notifies the CRM by a webhook, or until
  the attempts are spent (dead letter). Momento 1 and 4 bring complaints and users from the SFC.

  \<^bold>\<open>Theories and code\<close> (paths under \<^verbatim>\<open>src/app\<close>).
  \<^item> \<open>Preludio\<close>: texts, exceptions as values (\<open>excepcion\<close>, \<open>'a resultado\<close>), the locale \<open>maquina\<close> (initial
    states, steps, invariant). \<open>Clasificacion\<close>: JSON payloads, \<^verbatim>\<open>core/constants.py\<close>,
    \<^verbatim>\<open>core/clasificacion_operacion.py\<close>, and the category, hash and key of a payload (the pure part of
    \<^verbatim>\<open>services/idempotency_service.py\<close>).
  \<^item> \<open>Almacen\<close>: the Redis database, one field of the record \<open>redis\<close> for each key family; sorted sets; keys
    with an expiry.
  \<^item> \<open>Cola_Guiones\<close>: the Lua scripts of \<^verbatim>\<open>services/queue_service.py\<close>. \<open>Cola_Invariante\<close>: the step relation
    \<open>paso_cola\<close> of the queue and its invariant. \<open>Cola_Contratos\<close>: the locales \<open>transicion_vigilada\<close> (a
    transition guarded by claim and version) and \<open>posesion\<close> (a leased possession), interpreted on the scripts.
    \<open>Cola_Propiedades\<close>: properties of every interleaving of the scripts.
  \<^item> \<open>Efectos\<close>: asynchronous code as actions on a world (database, turns of the other processes, log), with
    failures before or after each Redis command; the locale \<open>garantia\<close> propagates a relation over the
    database through any program.
  \<^item> \<open>Tareas\<close>: coroutines as data: a task is finished or has a next step, \<^verbatim>\<open>asyncio.gather\<close> under a semaphore is a run of
    several tasks under a schedule, and what is proved for every schedule holds for every interleaving. Two calculi over tasks:
    every step makes a given move (\<open>mueve\<close>), and rely-guarantee with results (\<open>vela\<close>).
  \<^item> \<open>Idempotencia\<close>, \<open>Idempotencia_Propiedades\<close>: \<^verbatim>\<open>IdempotencyService\<close>. \<open>Candado\<close>:
    \<^verbatim>\<open>core/distributed_lock.py\<close>. \<open>Cola_Servicio\<close>, \<open>Cola_Refinamiento\<close>, \<open>Servicio_Propiedades\<close>,
    \<open>Politica_Reintentos\<close>, \<open>Consultas_Purga\<close>: \<^verbatim>\<open>QueueService\<close>, that it refines the queue machine, the
    retry policy, the listing and the purge.
  \<^item> \<open>Errores\<close>: \<^verbatim>\<open>core/exceptions.py\<close>. \<open>Orquestador\<close>: \<^verbatim>\<open>services/despacho_queja_orchestrator.py\<close>.
    \<open>Ruta_Despacho\<close>, \<open>Ruta_Propiedades\<close>: \<^verbatim>\<open>api/routes_quejas.py\<close> and the exception handlers of
    \<^verbatim>\<open>main.py\<close>. \<open>Webhook\<close>: \<^verbatim>\<open>services/crm_webhook_service.py\<close>. \<open>Planificador\<close>,
    \<open>Planificador_Propiedades\<close>: \<^verbatim>\<open>workers/scheduler.py\<close>.
  \<^item> \<open>Fechas\<close>: the part of \<^verbatim>\<open>datetime\<close> that the code uses. \<open>Mapeo\<close>, \<open>Mapeo_Traduccion\<close>,
    \<open>Mapeo_Propiedades\<close>: \<^verbatim>\<open>core/mapping.py\<close> and \<^verbatim>\<open>schemas/sfc_payloads.py\<close>.
  \<^item> \<open>Esquema_Textos\<close>, \<open>Esquema_Crm\<close>: the input schema, \<^verbatim>\<open>schemas/crm_payloads.py\<close>: the table of the fields with
    the validators of each one, and the rules over several fields. \<open>Esquema_Forma\<close>: the form of an accepted
    complaint as a predicate (\<open>bien_formada\<close>). \<open>Esquema_Propiedades\<close>, \<open>Esquema_Queja\<close>: acceptance against that form;
    \<open>Esquema_Ejemplos\<close>: concrete complaints; \<open>Esquema_Mapeo\<close>: the schema and the mapper together.

  \<^item> \<open>Url\<close>: \<^verbatim>\<open>urlparse\<close>. \<open>Cliente_Sfc\<close>, \<open>Cliente_Propiedades\<close>: \<^verbatim>\<open>integrations/sfc_client.py\<close>; every HTTP request and its
    answer are an event of the log. \<open>Adjuntos\<close>, \<open>Adjuntos_Propiedades\<close>: \<^verbatim>\<open>services/s3_service.py\<close>.
  \<^item> \<open>Momentos\<close>: \<^verbatim>\<open>services/momento_2_sync.py\<close> and \<^verbatim>\<open>services/momento_3_sync.py\<close>. \<open>Movimientos\<close>: one walk over the client, the
    attachments and these two for every relation between worlds (locale \<open>movimiento\<close>). \<open>Momentos_Propiedades\<close>: the closing, and
    that the services are what the orchestrator, the route and the worker assume of the record \<open>servicios\<close>.
  \<^item> \<open>Sincronizacion\<close>: \<^verbatim>\<open>services/momento_1_sync.py\<close> and \<^verbatim>\<open>services/momento_4_sync.py\<close>. \<open>Sincronizacion_Propiedades\<close>: the
    acknowledgements (locale \<open>escritura\<close>: what a request leaves in the log). \<open>Entrega_Propiedades\<close>: what Momento 1 delivers.
  \<^item> \<open>Alertas\<close>, \<open>Alertas_Propiedades\<close>: \<^verbatim>\<open>services/email_service.py\<close>.
  \<^item> \<open>Firmas\<close>: \<^verbatim>\<open>core/security/signatures.py\<close>. \<open>Autenticacion\<close>: \<^verbatim>\<open>core/auth.py\<close>, with the tokens of the process (\<open>w_auth\<close>), the
    shared record and the lock in Redis, and every request on the wire (\<open>w_envios\<close>). \<open>Autenticacion_Propiedades\<close>: the token that is
    served, the wait, the recovery from a 401; \<open>Autenticacion_Ejemplos\<close>: concrete runs. \<open>Autenticacion_Cliente\<close>: the client of the SFC on top of
    it (locale \<open>libre\<close>: a guarantee that leaves the tokens free) is what the other theories take for the HTTP library.
  \<^item> \<open>Acceso\<close>, \<open>Acceso_Propiedades\<close>: \<^verbatim>\<open>api/dependencies.py\<close>, the API keys and the rate limit. \<open>Precondiciones\<close>: weakest
    preconditions of actions, which these proofs use.

  \<^bold>\<open>Conventions.\<close>
  \<^item> Time is an integer number of milliseconds of one clock; a lease or a TTL ends exactly at its instant.
  \<^item> A string is the list of its UTF-8 bytes; \<^verbatim>\<open>lower\<close> and \<^verbatim>\<open>strip\<close> act on ASCII, the mapper also on the
    accents of Latin-1; limits in characters count first bytes of characters.
  \<^item> A payload is an association list with the keys that the schema dumps; floats are their texts, and
    what \<^verbatim>\<open>int\<close> and \<^verbatim>\<open>round\<close> make of them are the parameters \<open>trunca\<close> and \<open>redondea\<close>. Dates are read in the extended ISO
    forms. What Pydantic makes of a value of another type is the record \<open>pydantic\<close>; the messages of the schema keep
    the words that name the rule; the order of a Python set is the function \<open>en_orden\<close>.
  \<^item> Parameters that stand for code outside \<^verbatim>\<open>src/\<close>: \<open>sha\<close> (SHA-256), \<open>sscan\<close> (order of a set scan),
    \<open>cargar\<close> (\<^verbatim>\<open>json.loads\<close>), \<open>py_str\<close> and \<open>py_repr\<close> (printing of structured values), \<open>publica\<close> (the POST to the CRM);
    in the records \<open>cfg_sfc\<close>, \<open>cfg_s3\<close>, \<open>cfg_momentos\<close>, \<open>cfg_sync\<close>, \<open>cfg_alertas\<close> and \<open>cfg_auth\<close> the HTTP library, HMAC, the reading of a JWT, boto3, the text of a mail
    thread, the PDF, the SMTP session and the schedules of the event loop. The record \<open>servicios\<close> (the SFC calls behind the
    orchestrator) is a parameter of the first theories and has the real services as an instance (\<open>servicios_reales\<close>).
  \<^item> A Lua script is atomic; one that raises keeps the writes made before. Every \<^verbatim>\<open>await\<close> on Redis takes one
    turn of the world: first any steps of the other processes (heartbeats included), then the command, which
    may fail before or after its execution.
  \<^item> Mails, metrics, webhooks, HTTP requests and SFC calls are events of the log, so that what was sent and in which order is
    part of the statements. Audit log lines are not kept; metrics keep their dimensions and not the latency.

  \<^bold>\<open>What the lemmas show.\<close> The queue never loses, duplicates or completes the wrong obligation in any
  interleaving, and counts its attempts (C1 to C4, C11, C12); the idempotency gate lets one request
  through and remembers its success (C5, C6, C14, C15); the lock excludes (C13); the route answers what
  happened (C7 to C10); the dispatch calls the SFC in the order of its category and its errors are read by the
  matrix (C16, C17); the webhook and the retry cycle deliver (C18 to C23); the mapper sends only catalog codes
  (C24, C25); the schema accepts exactly the well-formed complaints (C26, C27); an
  attachment is marked as sent only when the SFC has it, and a closing tells the truth about its documents (C28, C29); the
  services of Momentos 2 and 3 are as the rest assumes (C30); the pages stay with the SFC, and what they bring is delivered whole and once
  (C31, C32); acknowledgements are exact (C33); alerts neither flood nor go missing (C34); the CRM
  stays within its quota (C35); the tokens of the SFC are valid or fresh, the wait for them ends, a 401 is recovered once and without the
  rejected token, and the authenticated client is as the rest assumes (C36 to C40).

  \<^bold>\<open>Bounds and fuel.\<close> Only the wait for the token of another process counts its turns (\<open>renovar_hasta\<close>, 41 of them), and
  \<open>la_espera_termina\<close> shows that they do not run out: every turn sleeps a quarter of a second and the deadline is ten seconds away. Nothing else uses
  fuel: the retry loops of the code have a fixed number of attempts
  and are modelled by recursion on it (so are the pages of Momentos 1 and 4, by their maximum), the batches by recursion on the
  listing, the scanners of texts by recursion on the text. A task is a well-founded tree, so every task ends under every schedule. The
  waiting times are those of the settings.

  \<^bold>\<open>Not modelled.\<close> The HTTP clients, boto3, APScheduler, Pydantic's own conversions and the Redis server beyond the used commands
  are libraries: their answers are parameters. \<^verbatim>\<open>get_s3_client\<close> and the other factories of \<^verbatim>\<open>api/dependencies.py\<close> only build clients. \<^verbatim>\<open>utils\<close> (mail text and PDF) are parameters. \<^verbatim>\<open>core/config.py\<close> is read as fields of the records.
  \<^verbatim>\<open>db/redis.py\<close>, \<^verbatim>\<open>core/middleware.py\<close>, \<^verbatim>\<open>core/metrics.py\<close>, \<^verbatim>\<open>core/logging_config.py\<close>, the log sanitizer, the start-up of
  \<^verbatim>\<open>main.py\<close>, \<^verbatim>\<open>worker.py\<close> and the deployment scripts are input and output around the modelled code.
\<close>

end
